(* ===== verification/Prelude.thy ===== *)
theory Prelude
  imports Main "HOL-Library.AList" "HOL-Library.Multiset" "HOL-Library.Char_ord"
    "HOL-Library.List_Lexorder" "HOL-Library.Product_Lexorder" "HOL-Library.Word"
begin

text \<open>
  What every component of the development shares: Go maps as association lists with distinct
  keys, iteration over a map in an unspecified order, the insertion sort behind
  \<open>slices.SortFunc\<close>, IEEE equality of \<open>float64\<close>, and the lemma collections.

  Go's \<open>range\<close> over a map visits the entries in an order the language leaves open.  The model
  takes the order as a parameter: a function that permutes the keys, one for each \<open>range\<close>
  statement of the source (\<open>site\<close>).  A fact that holds for every permutation holds for every
  run.
\<close>

unbundle bit_operations_syntax

named_theorems gomap_simps "lookup and range facts on Go maps"
named_theorems equal_refl "reflexivity of the equality checks of the differ"
named_theorems diff_order "order independence of the comparison loops"


section \<open>Go maps\<close>

type_synonym 'v gomap = "(string \<times> 'v) list"

text \<open>\<open>m[k] = v\<close> for each element in turn: a later element with the same key wins.\<close>

definition map_by :: "('a \<Rightarrow> string) \<Rightarrow> ('a \<Rightarrow> 'v) \<Rightarrow> 'a list \<Rightarrow> 'v gomap" where
  "map_by key val xs = foldl (\<lambda>m x. AList.update (key x) (val x) m) [] xs"

definition has_key :: "'v gomap \<Rightarrow> string \<Rightarrow> bool" where
  "has_key m k = (map_of m k \<noteq> None)"

definition go_range :: "(string list \<Rightarrow> string list) \<Rightarrow> 'v gomap \<Rightarrow> (string \<times> 'v) list" where
  "go_range ord m =
     concat (map (\<lambda>k. case map_of m k of None \<Rightarrow> [] | Some v \<Rightarrow> [(k, v)]) (ord (map fst m)))"

definition perm_order :: "(string list \<Rightarrow> string list) \<Rightarrow> bool" where
  "perm_order ord \<longleftrightarrow> (\<forall>ks. mset (ord ks) = mset ks)"

definition insertion_order :: "string list \<Rightarrow> string list" where
  "insertion_order ks = ks"

lemma perm_order_insertion [simp]: "perm_order insertion_order"
  by (simp add: perm_order_def insertion_order_def)

lemma perm_order_rev [simp]: "perm_order rev"
  by (simp add: perm_order_def)

lemma perm_orderD: "perm_order ord \<Longrightarrow> mset (ord ks) = mset ks"
  by (simp add: perm_order_def)

lemma perm_order_set: "perm_order ord \<Longrightarrow> set (ord ks) = set ks"
  by (metis perm_orderD set_mset_mset)

lemma map_of_map_by_snoc [gomap_simps]:
  "map_of (map_by key val (xs @ [x])) = (map_of (map_by key val xs))(key x \<mapsto> val x)"
  by (simp add: map_by_def update_conv')

lemma map_by_Nil [simp]: "map_by key val [] = []"
  by (simp add: map_by_def)

lemma distinct_map_by: "distinct (map fst (map_by key val xs))"
  by (induction xs rule: rev_induct) (simp_all add: map_by_def distinct_update)

lemma map_by_SomeD: "map_of (map_by key val xs) k = Some v \<Longrightarrow> \<exists>x \<in> set xs. key x = k \<and> val x = v"
  by (induction xs rule: rev_induct) (auto simp: gomap_simps split: if_splits)

lemma map_by_None_iff: "map_of (map_by key val xs) k = None \<longleftrightarrow> k \<notin> key ` set xs"
  by (induction xs rule: rev_induct) (auto simp: gomap_simps)

lemma map_by_inj:
  "distinct (map key xs) \<Longrightarrow> x \<in> set xs \<Longrightarrow> map_of (map_by key val xs) (key x) = Some (val x)"
proof (induction xs rule: rev_induct)
  case Nil
  then show ?case by simp
next
  case (snoc y ys)
  show ?case
  proof (cases "x = y")
    case True
    then show ?thesis by (simp add: gomap_simps)
  next
    case False
    with snoc have "map_of (map_by key val ys) (key x) = Some (val x)" and "key x \<noteq> key y"
      by (auto simp: image_iff)
    then show ?thesis by (simp only: map_of_map_by_snoc fun_upd_apply if_False)
  qed
qed

lemma set_map_by: "(k, v) \<in> set (map_by key val xs) \<Longrightarrow> \<exists>x \<in> set xs. key x = k \<and> val x = v"
  by (rule map_by_SomeD) (simp add: distinct_map_by)

lemma mset_concat_map_perm: "mset xs = mset ys \<Longrightarrow> mset (concat (map f xs)) = mset (concat (map f ys))"
  by (metis mset_concat mset_map sum_mset_sum_list)

lemma mset_go_range: "perm_order o1 \<Longrightarrow> perm_order o2 \<Longrightarrow> mset (go_range o1 m) = mset (go_range o2 m)"
  unfolding go_range_def by (rule mset_concat_map_perm) (simp add: perm_orderD)

lemma go_range_set:
  "perm_order ord \<Longrightarrow> (k, v) \<in> set (go_range ord m) \<longleftrightarrow> map_of m k = Some v"
  by (auto simp: go_range_def perm_order_set split: option.splits dest: map_of_SomeD)
    (metis fst_conv map_of_SomeD option.distinct(1) option.inject)

lemma mset_range_concat [diff_order]:
  "perm_order o1 \<Longrightarrow> perm_order o2 \<Longrightarrow>
   mset (concat (map f (go_range o1 m))) = mset (concat (map f (go_range o2 m)))"
  by (intro mset_concat_map_perm mset_go_range)


section \<open>Comparing two maps\<close>

text \<open>
  The loop pair of the differ: for each old entry without a new one, then for each new entry,
  with or without an old one.
\<close>

definition map_diff ::
  "(string list \<Rightarrow> string list) \<Rightarrow> (string list \<Rightarrow> string list) \<Rightarrow> 'v gomap \<Rightarrow> 'v gomap \<Rightarrow>
   (string \<Rightarrow> 'v \<Rightarrow> 'd list) \<Rightarrow> (string \<Rightarrow> 'v \<Rightarrow> 'd list) \<Rightarrow> (string \<Rightarrow> 'v \<Rightarrow> 'v \<Rightarrow> 'd list) \<Rightarrow> 'd list"
where
  "map_diff ord1 ord2 oldM newM dropped created both =
     concat (map (\<lambda>(k, x). if has_key newM k then [] else dropped k x) (go_range ord1 oldM)) @
     concat (map (\<lambda>(k, y). case map_of oldM k of None \<Rightarrow> created k y | Some x \<Rightarrow> both k x y)
       (go_range ord2 newM))"

lemma map_diff_perm:
  assumes "perm_order a1" "perm_order a2" "perm_order b1" "perm_order b2"
  shows "mset (map_diff a1 a2 m n d c b) = mset (map_diff b1 b2 m n d c b)"
  using assms
    mset_range_concat [of a1 b1 "\<lambda>(k, x). if has_key n k then [] else d k x" m]
    mset_range_concat [of a2 b2
      "\<lambda>(k, y). case map_of m k of None \<Rightarrow> c k y | Some x \<Rightarrow> b k x y" n]
  by (simp add: map_diff_def)

lemma map_diff_refl:
  assumes "perm_order a1" "perm_order a2"
    and "\<And>k v. map_of m k = Some v \<Longrightarrow> b k v v = []"
  shows "map_diff a1 a2 m m d c b = []"
  using assms by (auto simp: map_diff_def has_key_def go_range_set)

lemma in_set_case_option:
  "z \<in> set (case w of None \<Rightarrow> a | Some x \<Rightarrow> f x) \<longleftrightarrow>
     w = None \<and> z \<in> set a \<or> (\<exists>x. w = Some x \<and> z \<in> set (f x))"
  by (cases w) auto

lemma map_diff_set:
  assumes "perm_order a1" "perm_order a2"
  shows "z \<in> set (map_diff a1 a2 m n d c b) \<longleftrightarrow>
     (\<exists>k x. map_of m k = Some x \<and> map_of n k = None \<and> z \<in> set (d k x)) \<or>
     (\<exists>k y. map_of n k = Some y \<and> map_of m k = None \<and> z \<in> set (c k y)) \<or>
     (\<exists>k x y. map_of m k = Some x \<and> map_of n k = Some y \<and> z \<in> set (b k x y))"
proof -
  have "z \<in> set (map_diff a1 a2 m n d c b) \<longleftrightarrow>
     (\<exists>(k, x) \<in> set (go_range a1 m). map_of n k = None \<and> z \<in> set (d k x)) \<or>
     (\<exists>(k, y) \<in> set (go_range a2 n).
        z \<in> set (case map_of m k of None \<Rightarrow> c k y | Some x \<Rightarrow> b k x y))"
    by (force simp: map_diff_def has_key_def split: if_splits)
  also have "\<dots> \<longleftrightarrow>
     (\<exists>k x. map_of m k = Some x \<and> map_of n k = None \<and> z \<in> set (d k x)) \<or>
     (\<exists>k y. map_of n k = Some y \<and> z \<in> set (case map_of m k of None \<Rightarrow> c k y | Some x \<Rightarrow> b k x y))"
    by (fastforce simp: go_range_set [OF assms(1)] go_range_set [OF assms(2)])
  finally show ?thesis by (simp only: in_set_case_option) blast
qed


section \<open>Panics\<close>

text \<open>\<open>None\<close> is a run-time panic; a loop over a list stops at the first one.\<close>

primrec map_panic :: "('a \<Rightarrow> 'b option) \<Rightarrow> 'a list \<Rightarrow> 'b list option" where
  "map_panic f [] = Some []"
| "map_panic f (x # xs) =
     (case f x of None \<Rightarrow> None | Some y \<Rightarrow> map_option ((#) y) (map_panic f xs))"

lemma map_panic_Some: "\<forall>x \<in> set xs. f x = Some (g x) \<Longrightarrow> map_panic f xs = Some (map g xs)"
  by (induction xs) auto

lemma map_panic_None_iff: "map_panic f xs = None \<longleftrightarrow> (\<exists>x \<in> set xs. f x = None)"
  by (induction xs) (auto split: option.splits)

lemma map_panic_list_all2:
  assumes "map_panic g vs = Some ws"
  shows "list_all2 (\<lambda>v w. g v = Some w) vs ws"
  using assms by (induction vs arbitrary: ws) (auto split: option.splits)

lemma map_panic_mem: "map_panic f xs = Some ys \<Longrightarrow> x \<in> set xs \<Longrightarrow> f x = Some y \<Longrightarrow> y \<in> set ys"
  by (induction xs arbitrary: ys) (auto split: option.splits)

lemma map_panic_origin: "map_panic f xs = Some ys \<Longrightarrow> y \<in> set ys \<Longrightarrow> \<exists>x \<in> set xs. f x = Some y"
  by (induction xs arbitrary: ys) (auto split: option.splits)

lemma map_panic_Some_map: "map_panic f xs = Some ys \<Longrightarrow> (\<And>x y. x \<in> set xs \<Longrightarrow> f x = Some y \<Longrightarrow> g y = h x) \<Longrightarrow> map g ys = map h xs"
  by (induction xs arbitrary: ys) (auto split: option.splits)

lemma find_distinct_key:
  "distinct (map f xs) \<Longrightarrow> x \<in> set xs \<Longrightarrow> find (\<lambda>y. f y = f x) xs = Some x"
  by (induction xs) (auto simp: image_iff)

lemma find_in: "find cond xs = Some x \<Longrightarrow> x \<in> set xs \<and> cond x"
  by (induction xs) (auto split: if_splits)

lemma find_append: "find cond (xs @ ys) = (case find cond xs of Some x \<Rightarrow> Some x | None \<Rightarrow> find cond ys)"
  by (induction xs) auto

lemma find_map_same:
  "(\<And>x. x \<in> set xs \<Longrightarrow> cond (f x) = cond x) \<Longrightarrow> find cond (map f xs) = map_option f (find cond xs)"
  by (induction xs) auto

lemma length_filter_map: "length (filter cond (map f xs)) = length (filter (\<lambda>x. cond (f x)) xs)"
  by (simp add: filter_map comp_def)

lemma length_filter_sort_key: "length (filter cond (sort_key f xs)) = length (filter cond xs)"
  by (metis mset_filter mset_sort size_mset)

lemma distinct_map_sort_filter:
  "distinct (map f xs) \<Longrightarrow> distinct (map f (sort_key g (filter cond xs)))"
  by (metis distinct_map_filter mset_eq_imp_distinct_iff mset_map mset_sort)

lemma map_panic_length: "map_panic f xs = Some ys \<Longrightarrow> length ys = length xs"
  by (induction xs arbitrary: ys) (auto split: option.splits)


section \<open>slices.SortFunc\<close>

text \<open>
  The insertion sort that \<open>slices.SortFunc\<close> runs on short slices: each element moves left
  past the elements it is less than.  The prefix is kept reversed.
\<close>

fun insert_left :: "('a \<Rightarrow> 'a \<Rightarrow> int) \<Rightarrow> 'a \<Rightarrow> 'a list \<Rightarrow> 'a list" where
  "insert_left cmp x [] = [x]"
| "insert_left cmp x (y # ys) = (if cmp x y < 0 then y # insert_left cmp x ys else x # y # ys)"

definition SortFunc :: "('a \<Rightarrow> 'a \<Rightarrow> int) \<Rightarrow> 'a list \<Rightarrow> 'a list" where
  "SortFunc cmp xs = rev (foldl (\<lambda>acc x. insert_left cmp x acc) [] xs)"

text \<open>\<open>cmp\<close> orders by a key: it is negative exactly when the key is smaller.\<close>

definition cmp_key :: "('a \<Rightarrow> 'a \<Rightarrow> int) \<Rightarrow> ('a \<Rightarrow> 'k::linorder) \<Rightarrow> bool" where
  "cmp_key cmp key \<longleftrightarrow> (\<forall>a b. cmp a b < 0 \<longleftrightarrow> key a < key b)"

lemma mset_insert_left: "mset (insert_left cmp x ys) = add_mset x (mset ys)"
  by (induction ys) auto

lemma mset_foldl_insert_left:
  "mset (foldl (\<lambda>acc x. insert_left cmp x acc) acc xs) = mset acc + mset xs"
  by (induction xs arbitrary: acc) (auto simp: mset_insert_left)

lemma mset_SortFunc [simp]: "mset (SortFunc cmp xs) = mset xs"
  by (simp add: SortFunc_def mset_foldl_insert_left)

lemma set_SortFunc [simp]: "set (SortFunc cmp xs) = set xs"
  by (metis mset_SortFunc set_mset_mset)

lemma SortFunc_Nil [simp]: "SortFunc cmp [] = []"
  by (simp add: SortFunc_def)

lemma sorted_insert_left:
  assumes "cmp_key cmp key" and "sorted_wrt (\<lambda>a b. key b \<le> key a) ys"
  shows "sorted_wrt (\<lambda>a b. key b \<le> key a) (insert_left cmp x ys)"
  using assms(2)
proof (induction ys)
  case Nil
  then show ?case by simp
next
  case (Cons y ys)
  have "set (insert_left cmp x ys) = insert x (set ys)"
    by (metis mset_insert_left set_mset_add_mset_insert set_mset_mset)
  with Cons assms(1) show ?case by (fastforce simp: cmp_key_def not_less)
qed

lemma sorted_SortFunc:
  assumes "cmp_key cmp key"
  shows "sorted (map key (SortFunc cmp xs))"
proof -
  have "sorted_wrt (\<lambda>a b. key b \<le> key a) (foldl (\<lambda>acc x. insert_left cmp x acc) acc xs)"
    if "sorted_wrt (\<lambda>a b. key b \<le> key a) acc" for acc
    using that by (induction xs arbitrary: acc) (auto intro: sorted_insert_left[OF assms])
  from this[of "[]"] show ?thesis
    by (simp add: SortFunc_def sorted_wrt_map sorted_wrt_rev)
qed

text \<open>A sorted list is determined by its elements when no two of them share a key.\<close>

lemma sorted_key_unique:
  assumes "sorted (map key xs)" "sorted (map key ys)" "mset xs = mset ys" "inj_on key (set xs)"
  shows "xs = ys"
proof -
  have "map key xs = map key ys"
    using assms(1-3) by (metis mset_map sorted_list_of_multiset_mset sorted_sort_id)
  moreover have "set xs = set ys" by (metis assms(3) set_mset_mset)
  ultimately show ?thesis using assms(4) by (metis inj_on_map_eq_map Un_absorb)
qed

lemma SortFunc_perm:
  assumes "cmp_key cmp key" "mset xs = mset ys" "inj_on key (set xs)"
  shows "SortFunc cmp xs = SortFunc cmp ys"
  by (rule sorted_key_unique [where key = key])
     (use assms in \<open>auto simp: sorted_SortFunc\<close>)

lemma SortFunc_map_commute:
  assumes "\<And>a b. cmp (f a) (f b) = cmp a b"
  shows "SortFunc cmp (map f xs) = map f (SortFunc cmp xs)"
proof -
  have ins: "insert_left cmp (f x) (map f ys) = map f (insert_left cmp x ys)" for x ys
    by (induction ys) (auto simp: assms)
  have "foldl (\<lambda>acc x. insert_left cmp x acc) (map f acc) (map f xs) =
        map f (foldl (\<lambda>acc x. insert_left cmp x acc) acc xs)" for acc
    by (induction xs arbitrary: acc) (auto simp: ins)
  from this[of "[]"] show ?thesis by (simp add: SortFunc_def rev_map)
qed


section \<open>Words and floats\<close>

type_synonym int32 = "32 word"
type_synonym int64 = "64 word"

text \<open>A \<open>float64\<close> is its bit pattern; \<open>==\<close> is IEEE equality (NaN differs from itself,
  the two zeros are equal).\<close>

datatype float64 = Float64 (bits: "64 word")

definition is_NaN :: "float64 \<Rightarrow> bool" where
  "is_NaN x \<longleftrightarrow> drop_bit 52 (bits x) AND 0x7FF = 0x7FF \<and> bits x AND 0xFFFFFFFFFFFFF \<noteq> 0"

definition is_zero :: "float64 \<Rightarrow> bool" where
  "is_zero x \<longleftrightarrow> bits x AND 0x7FFFFFFFFFFFFFFF = 0"

definition float64_eq :: "float64 \<Rightarrow> float64 \<Rightarrow> bool" where
  "float64_eq x y \<longleftrightarrow> \<not> is_NaN x \<and> \<not> is_NaN y \<and> (x = y \<or> is_zero x \<and> is_zero y)"

lemma float64_eq_refl [equal_refl]: "\<not> is_NaN x \<Longrightarrow> float64_eq x x"
  by (simp add: float64_eq_def)

end
