(* ===== verification/SchemaProto.thy ===== *)
theory SchemaProto
  imports Prelude
begin

text \<open>
  The messages of \<^verbatim>\<open>proto/store/store/database.proto\<close> (package storepb): the schema of a
  database as the program stores it.  A repeated field is a list, a message field an option
  (nil is \<open>None\<close>), an \<open>int32\<close>, \<open>int64\<close> or \<open>double\<close> keeps its width.  \<open>zero_\<close> constants are the
  messages of Go's \<^verbatim>\<open>&storepb.X{}\<close>.
\<close>


record storepb_LinkedDatabaseMetadata =
  lnk_name :: string
  lnk_username :: string
  lnk_host :: string

record storepb_EnumTypeMetadata =
  enum_name :: string
  enum_values :: "string list"
  enum_comment :: string
  enum_skip_dump :: bool

record storepb_EventMetadata =
  evt_name :: string
  evt_definition :: string
  evt_time_zone :: string
  evt_sql_mode :: string
  evt_character_set_client :: string
  evt_collation_connection :: string
  evt_comment :: string

record storepb_SequenceMetadata =
  seq_name :: string
  seq_data_type :: string
  seq_start :: string
  seq_min_value :: string
  seq_max_value :: string
  seq_increment :: string
  seq_cycle :: bool
  seq_cache_size :: string
  seq_last_value :: string
  seq_owner_table :: string
  seq_owner_column :: string
  seq_comment :: string
  seq_skip_dump :: bool

record storepb_TriggerMetadata =
  trg_name :: string
  trg_event :: string
  trg_timing :: string
  trg_body :: string
  trg_sql_mode :: string
  trg_character_set_client :: string
  trg_collation_connection :: string
  trg_comment :: string
  trg_skip_dump :: bool

record storepb_RuleMetadata =
  rule_name :: string
  rule_event :: string
  rule_condition :: string
  rule_action :: string
  rule_is_instead :: bool
  rule_is_enabled :: bool
  rule_definition :: string

datatype Task_State =
  Task_STATE_UNSPECIFIED | Task_STATE_STARTED | Task_STATE_SUSPENDED

record storepb_TaskMetadata =
  task_name :: string
  task_id :: string
  task_owner :: string
  task_comment :: string
  task_warehouse :: string
  task_schedule :: string
  task_predecessors :: "string list"
  task_state :: Task_State
  task_condition :: string
  task_definition :: string

datatype Stream_Type =
  Stream_TYPE_UNSPECIFIED | Stream_TYPE_DELTA

datatype Stream_Mode =
  Stream_MODE_UNSPECIFIED | Stream_MODE_DEFAULT | Stream_MODE_APPEND_ONLY | Stream_MODE_INSERT_ONLY

record storepb_StreamMetadata =
  strm_name :: string
  strm_table_name :: string
  strm_owner :: string
  strm_comment :: string
  strm_type :: Stream_Type
  strm_stale :: bool
  strm_mode :: Stream_Mode
  strm_definition :: string

record storepb_CheckConstraintMetadata =
  chk_name :: string
  chk_expression :: string

record storepb_ExcludeConstraintMetadata =
  exc_name :: string
  exc_expression :: string

datatype Generation_Type =
  Generation_TYPE_UNSPECIFIED | Generation_TYPE_VIRTUAL | Generation_TYPE_STORED

record storepb_GenerationMetadata =
  gen_type :: Generation_Type
  gen_expression :: string

datatype Column_IdentityGeneration =
  Column_IDENTITY_GENERATION_UNSPECIFIED | Column_ALWAYS | Column_BY_DEFAULT

record storepb_ColumnMetadata =
  col_name :: string
  col_position :: int32
  col_default :: string
  col_default_on_null :: bool
  col_on_update :: string
  col_nullable :: bool
  col_type :: string
  col_character_set :: string
  col_collation :: string
  col_comment :: string
  col_generation :: "storepb_GenerationMetadata option"
  col_is_identity :: bool
  col_identity_generation :: Column_IdentityGeneration
  col_identity_seed :: int64
  col_identity_increment :: int64
  col_default_constraint_name :: string

definition zero_ColumnMetadata :: storepb_ColumnMetadata where
  "zero_ColumnMetadata = \<lparr>col_name = [],
     col_position = 0,
     col_default = [],
     col_default_on_null = False,
     col_on_update = [],
     col_nullable = False,
     col_type = [],
     col_character_set = [],
     col_collation = [],
     col_comment = [],
     col_generation = None,
     col_is_identity = False,
     col_identity_generation = Column_IDENTITY_GENERATION_UNSPECIFIED,
     col_identity_seed = 0,
     col_identity_increment = 0,
     col_default_constraint_name = []\<rparr>"

record storepb_ExternalTableMetadata =
  etbl_name :: string
  etbl_external_server_name :: string
  etbl_external_database_name :: string
  etbl_columns :: "storepb_ColumnMetadata list"

record storepb_BoundingBox =
  bb_xmin :: float64
  bb_ymin :: float64
  bb_xmax :: float64
  bb_ymax :: float64

record storepb_GridLevel =
  grid_level :: int32
  grid_density :: string

record storepb_TessellationConfig =
  tess_scheme :: string
  tess_bounding_box :: "storepb_BoundingBox option"
  tess_grid_levels :: "storepb_GridLevel list"
  tess_cells_per_object :: int32

record storepb_StorageConfig =
  sto_fillfactor :: int32
  sto_buffering :: string
  sto_tablespace :: string
  sto_work_tablespace :: string
  sto_sdo_level :: int32
  sto_commit_interval :: int32
  sto_pad_index :: bool
  sto_sort_in_tempdb :: string
  sto_drop_existing :: bool
  sto_online :: bool
  sto_allow_row_locks :: bool
  sto_allow_page_locks :: bool
  sto_maxdop :: int32
  sto_data_compression :: string

record storepb_DimensionalConfig =
  dim_dimensions :: int32
  dim_data_type :: string
  dim_operator_class :: string
  dim_layer_gtype :: string
  dim_parallel_build :: bool

record storepb_SpatialIndexConfig =
  sp_method :: string
  sp_tessellation :: "storepb_TessellationConfig option"
  sp_storage :: "storepb_StorageConfig option"
  sp_dimensional :: "storepb_DimensionalConfig option"
  sp_engine_specific :: "string gomap"

definition zero_SpatialIndexConfig :: storepb_SpatialIndexConfig where
  "zero_SpatialIndexConfig = \<lparr>sp_method = [],
     sp_tessellation = None,
     sp_storage = None,
     sp_dimensional = None,
     sp_engine_specific = []\<rparr>"

record storepb_IndexMetadata =
  idx_name :: string
  idx_expressions :: "string list"
  idx_key_length :: "int64 list"
  idx_descending :: "bool list"
  idx_type :: string
  idx_unique :: bool
  idx_primary :: bool
  idx_visible :: bool
  idx_comment :: string
  idx_definition :: string
  idx_parent_index_schema :: string
  idx_parent_index_name :: string
  idx_granularity :: int64
  idx_is_constraint :: bool
  idx_spatial_config :: "storepb_SpatialIndexConfig option"
  idx_opclass_names :: "string list"
  idx_opclass_defaults :: "bool list"

definition zero_IndexMetadata :: storepb_IndexMetadata where
  "zero_IndexMetadata = \<lparr>idx_name = [],
     idx_expressions = [],
     idx_key_length = [],
     idx_descending = [],
     idx_type = [],
     idx_unique = False,
     idx_primary = False,
     idx_visible = False,
     idx_comment = [],
     idx_definition = [],
     idx_parent_index_schema = [],
     idx_parent_index_name = [],
     idx_granularity = 0,
     idx_is_constraint = False,
     idx_spatial_config = None,
     idx_opclass_names = [],
     idx_opclass_defaults = []\<rparr>"

datatype TablePartition_Type =
  TablePartition_TYPE_UNSPECIFIED | TablePartition_RANGE | TablePartition_RANGE_COLUMNS | TablePartition_LIST | TablePartition_LIST_COLUMNS | TablePartition_HASH | TablePartition_LINEAR_HASH | TablePartition_KEY | TablePartition_LINEAR_KEY

datatype storepb_TablePartitionMetadata =
  TablePartitionMetadata
    (part_name: string)
    (part_type: TablePartition_Type)
    (part_expression: string)
    (part_value: string)
    (part_use_default: string)
    (part_subpartitions: "storepb_TablePartitionMetadata list")
    (part_indexes: "storepb_IndexMetadata list")
    (part_check_constraints: "storepb_CheckConstraintMetadata list")
    (part_exclude_constraints: "storepb_ExcludeConstraintMetadata list")

record storepb_ForeignKeyMetadata =
  fk_name :: string
  fk_columns :: "string list"
  fk_referenced_schema :: string
  fk_referenced_table :: string
  fk_referenced_columns :: "string list"
  fk_on_delete :: string
  fk_on_update :: string
  fk_match_type :: string

definition zero_ForeignKeyMetadata :: storepb_ForeignKeyMetadata where
  "zero_ForeignKeyMetadata = \<lparr>fk_name = [],
     fk_columns = [],
     fk_referenced_schema = [],
     fk_referenced_table = [],
     fk_referenced_columns = [],
     fk_on_delete = [],
     fk_on_update = [],
     fk_match_type = []\<rparr>"

record storepb_TableMetadata =
  tbl_name :: string
  tbl_columns :: "storepb_ColumnMetadata list"
  tbl_indexes :: "storepb_IndexMetadata list"
  tbl_engine :: string
  tbl_collation :: string
  tbl_charset :: string
  tbl_row_count :: int64
  tbl_data_size :: int64
  tbl_index_size :: int64
  tbl_data_free :: int64
  tbl_create_options :: string
  tbl_comment :: string
  tbl_foreign_keys :: "storepb_ForeignKeyMetadata list"
  tbl_partitions :: "storepb_TablePartitionMetadata list"
  tbl_check_constraints :: "storepb_CheckConstraintMetadata list"
  tbl_owner :: string
  tbl_sorting_keys :: "string list"
  tbl_triggers :: "storepb_TriggerMetadata list"
  tbl_skip_dump :: bool
  tbl_rules :: "storepb_RuleMetadata list"
  tbl_sharding_info :: string
  tbl_primary_key_type :: string
  tbl_exclude_constraints :: "storepb_ExcludeConstraintMetadata list"

definition zero_TableMetadata :: storepb_TableMetadata where
  "zero_TableMetadata = \<lparr>tbl_name = [],
     tbl_columns = [],
     tbl_indexes = [],
     tbl_engine = [],
     tbl_collation = [],
     tbl_charset = [],
     tbl_row_count = 0,
     tbl_data_size = 0,
     tbl_index_size = 0,
     tbl_data_free = 0,
     tbl_create_options = [],
     tbl_comment = [],
     tbl_foreign_keys = [],
     tbl_partitions = [],
     tbl_check_constraints = [],
     tbl_owner = [],
     tbl_sorting_keys = [],
     tbl_triggers = [],
     tbl_skip_dump = False,
     tbl_rules = [],
     tbl_sharding_info = [],
     tbl_primary_key_type = [],
     tbl_exclude_constraints = []\<rparr>"

record storepb_DependencyColumn =
  depc_schema :: string
  depc_table :: string
  depc_column :: string

record storepb_ViewMetadata =
  view_name :: string
  view_definition :: string
  view_comment :: string
  view_dependency_columns :: "storepb_DependencyColumn list"
  view_columns :: "storepb_ColumnMetadata list"
  view_triggers :: "storepb_TriggerMetadata list"
  view_skip_dump :: bool
  view_rules :: "storepb_RuleMetadata list"

definition zero_ViewMetadata :: storepb_ViewMetadata where
  "zero_ViewMetadata = \<lparr>view_name = [],
     view_definition = [],
     view_comment = [],
     view_dependency_columns = [],
     view_columns = [],
     view_triggers = [],
     view_skip_dump = False,
     view_rules = []\<rparr>"

record storepb_MaterializedViewMetadata =
  mv_name :: string
  mv_definition :: string
  mv_comment :: string
  mv_dependency_columns :: "storepb_DependencyColumn list"
  mv_triggers :: "storepb_TriggerMetadata list"
  mv_indexes :: "storepb_IndexMetadata list"
  mv_skip_dump :: bool

definition zero_MaterializedViewMetadata :: storepb_MaterializedViewMetadata where
  "zero_MaterializedViewMetadata = \<lparr>mv_name = [],
     mv_definition = [],
     mv_comment = [],
     mv_dependency_columns = [],
     mv_triggers = [],
     mv_indexes = [],
     mv_skip_dump = False\<rparr>"

record storepb_DependencyTable =
  dept_schema :: string
  dept_table :: string

record storepb_FunctionMetadata =
  fn_name :: string
  fn_definition :: string
  fn_signature :: string
  fn_character_set_client :: string
  fn_collation_connection :: string
  fn_database_collation :: string
  fn_sql_mode :: string
  fn_comment :: string
  fn_dependency_tables :: "storepb_DependencyTable list"
  fn_skip_dump :: bool

definition zero_FunctionMetadata :: storepb_FunctionMetadata where
  "zero_FunctionMetadata = \<lparr>fn_name = [],
     fn_definition = [],
     fn_signature = [],
     fn_character_set_client = [],
     fn_collation_connection = [],
     fn_database_collation = [],
     fn_sql_mode = [],
     fn_comment = [],
     fn_dependency_tables = [],
     fn_skip_dump = False\<rparr>"

record storepb_ProcedureMetadata =
  proc_name :: string
  proc_definition :: string
  proc_signature :: string
  proc_character_set_client :: string
  proc_collation_connection :: string
  proc_database_collation :: string
  proc_sql_mode :: string
  proc_comment :: string
  proc_skip_dump :: bool

record storepb_PackageMetadata =
  pkg_name :: string
  pkg_definition :: string

record storepb_ExtensionMetadata =
  extn_name :: string
  extn_schema :: string
  extn_version :: string
  extn_description :: string

record storepb_EventTriggerMetadata =
  etr_name :: string
  etr_event :: string
  etr_tags :: "string list"
  etr_function_schema :: string
  etr_function_name :: string
  etr_enabled :: bool
  etr_definition :: string
  etr_comment :: string
  etr_skip_dump :: bool

record storepb_SchemaMetadata =
  sch_name :: string
  sch_tables :: "storepb_TableMetadata list"
  sch_external_tables :: "storepb_ExternalTableMetadata list"
  sch_views :: "storepb_ViewMetadata list"
  sch_functions :: "storepb_FunctionMetadata list"
  sch_procedures :: "storepb_ProcedureMetadata list"
  sch_streams :: "storepb_StreamMetadata list"
  sch_tasks :: "storepb_TaskMetadata list"
  sch_materialized_views :: "storepb_MaterializedViewMetadata list"
  sch_sequences :: "storepb_SequenceMetadata list"
  sch_packages :: "storepb_PackageMetadata list"
  sch_owner :: string
  sch_comment :: string
  sch_events :: "storepb_EventMetadata list"
  sch_enum_types :: "storepb_EnumTypeMetadata list"
  sch_skip_dump :: bool

definition zero_SchemaMetadata :: storepb_SchemaMetadata where
  "zero_SchemaMetadata = \<lparr>sch_name = [],
     sch_tables = [],
     sch_external_tables = [],
     sch_views = [],
     sch_functions = [],
     sch_procedures = [],
     sch_streams = [],
     sch_tasks = [],
     sch_materialized_views = [],
     sch_sequences = [],
     sch_packages = [],
     sch_owner = [],
     sch_comment = [],
     sch_events = [],
     sch_enum_types = [],
     sch_skip_dump = False\<rparr>"

record storepb_DatabaseSchemaMetadata =
  db_name :: string
  db_schemas :: "storepb_SchemaMetadata list"
  db_character_set :: string
  db_collation :: string
  db_extensions :: "storepb_ExtensionMetadata list"
  db_datashare :: bool
  db_service_name :: string
  db_linked_databases :: "storepb_LinkedDatabaseMetadata list"
  db_owner :: string
  db_search_path :: string
  db_event_triggers :: "storepb_EventTriggerMetadata list"

definition zero_DatabaseSchemaMetadata :: storepb_DatabaseSchemaMetadata where
  "zero_DatabaseSchemaMetadata = \<lparr>db_name = [],
     db_schemas = [],
     db_character_set = [],
     db_collation = [],
     db_extensions = [],
     db_datashare = False,
     db_service_name = [],
     db_linked_databases = [],
     db_owner = [],
     db_search_path = [],
     db_event_triggers = []\<rparr>"

datatype ObjectSchema_Type =
  ObjectSchema_TYPE_UNSPECIFIED | ObjectSchema_STRING | ObjectSchema_NUMBER | ObjectSchema_BOOLEAN
| ObjectSchema_OBJECT | ObjectSchema_ARRAY

datatype storepb_ObjectSchema =
  ObjectSchema (os_type: ObjectSchema_Type) (os_kind: "ObjectSchema_kind option") (os_semantic_type: string)
and ObjectSchema_kind =
  StructKind "(string \<times> storepb_ObjectSchema) list"
| ArrayKind "storepb_ObjectSchema option"

record storepb_ColumnCatalog =
  ccat_name :: string
  ccat_semantic_type :: string
  ccat_labels :: "string gomap"
  ccat_classification :: string
  ccat_object_schema :: "storepb_ObjectSchema option"

record storepb_TableCatalog =
  tcat_name :: string
  tcat_columns :: "storepb_ColumnCatalog list"
  tcat_object_schema :: "storepb_ObjectSchema option"
  tcat_classification :: string

record storepb_SchemaCatalog =
  scat_name :: string
  scat_tables :: "storepb_TableCatalog list"

record storepb_DatabaseConfig =
  dbc_name :: string
  dbc_schemas :: "storepb_SchemaCatalog list"

end
