(* ===== verification/Engine.thy ===== *)
theory Engine
  imports Prelude
begin

text \<open>
  \<^verbatim>\<open>backend/common/engine.go\<close>: the capability table of the database engines.  The Go map is a
  list of entries in the order of the source; a missing engine has the zero entry.
\<close>

datatype Engine =
  Engine_ENGINE_UNSPECIFIED
| Engine_CLICKHOUSE
| Engine_MYSQL
| Engine_POSTGRES
| Engine_SNOWFLAKE
| Engine_SQLITE
| Engine_TIDB
| Engine_MONGODB
| Engine_REDIS
| Engine_ORACLE
| Engine_SPANNER
| Engine_MSSQL
| Engine_REDSHIFT
| Engine_MARIADB
| Engine_OCEANBASE
| Engine_STARROCKS
| Engine_DORIS
| Engine_HIVE
| Engine_ELASTICSEARCH
| Engine_BIGQUERY
| Engine_DYNAMODB
| Engine_DATABRICKS
| Engine_COCKROACHDB
| Engine_COSMOSDB
| Engine_TRINO
| Engine_CASSANDRA

record EngineCapabilities =
  SQLReview :: bool
  QueryNewACL :: bool
  Masking :: bool
  AutoComplete :: bool
  StatementAdvise :: bool
  StatementReport :: bool
  PriorBackup :: bool
  CreateDatabase :: bool
  QuerySpanPlain :: bool
  SyntaxCheck :: bool
  BackupDBName :: string

definition zero_EngineCapabilities :: EngineCapabilities where
  "zero_EngineCapabilities = \<lparr>SQLReview = False, QueryNewACL = False, Masking = False, AutoComplete = False, StatementAdvise = False, StatementReport = False, PriorBackup = False, CreateDatabase = False, QuerySpanPlain = False, SyntaxCheck = False,
     BackupDBName = []\<rparr>"

definition engineCapabilities :: "(Engine \<times> EngineCapabilities) list" where
  "engineCapabilities = [
     (Engine_POSTGRES, zero_EngineCapabilities\<lparr>SQLReview := True, QueryNewACL := True, Masking := True, AutoComplete := True, StatementAdvise := True, StatementReport := True, PriorBackup := True, CreateDatabase := True, SyntaxCheck := True,
        BackupDBName := ''bbdataarchive''\<rparr>),
     (Engine_MYSQL, zero_EngineCapabilities\<lparr>SQLReview := True, QueryNewACL := True, Masking := True, AutoComplete := True, StatementAdvise := True, StatementReport := True, PriorBackup := True, CreateDatabase := True, QuerySpanPlain := True, SyntaxCheck := True,
        BackupDBName := ''bbdataarchive''\<rparr>),
     (Engine_TIDB, zero_EngineCapabilities\<lparr>SQLReview := True, QueryNewACL := True, Masking := True, AutoComplete := True, StatementAdvise := True, StatementReport := True, PriorBackup := True, CreateDatabase := True, SyntaxCheck := True,
        BackupDBName := ''bbdataarchive''\<rparr>),
     (Engine_MARIADB, zero_EngineCapabilities\<lparr>SQLReview := True, Masking := True, AutoComplete := True, StatementAdvise := True, StatementReport := True, CreateDatabase := True, QuerySpanPlain := True, SyntaxCheck := True,
        BackupDBName := ''bbdataarchive''\<rparr>),
     (Engine_OCEANBASE, zero_EngineCapabilities\<lparr>SQLReview := True, Masking := True, AutoComplete := True, StatementAdvise := True, StatementReport := True, CreateDatabase := True, QuerySpanPlain := True, SyntaxCheck := True,
        BackupDBName := ''bbdataarchive''\<rparr>),
     (Engine_ORACLE, zero_EngineCapabilities\<lparr>SQLReview := True, QueryNewACL := True, Masking := True, AutoComplete := True, StatementAdvise := True, StatementReport := True, PriorBackup := True, SyntaxCheck := True,
        BackupDBName := ''BBDATAARCHIVE''\<rparr>),
     (Engine_MSSQL, zero_EngineCapabilities\<lparr>SQLReview := True, QueryNewACL := True, Masking := True, AutoComplete := True, StatementAdvise := True, StatementReport := True, PriorBackup := True, CreateDatabase := True, SyntaxCheck := True,
        BackupDBName := ''bbdataarchive''\<rparr>),
     (Engine_SNOWFLAKE, zero_EngineCapabilities\<lparr>SQLReview := True, QueryNewACL := True, AutoComplete := True, StatementAdvise := True, SyntaxCheck := True,
        BackupDBName := ''bbdataarchive''\<rparr>),
     (Engine_REDSHIFT, zero_EngineCapabilities\<lparr>SQLReview := True, Masking := True, AutoComplete := True, StatementAdvise := True, StatementReport := True, CreateDatabase := True, SyntaxCheck := True,
        BackupDBName := ''bbdataarchive''\<rparr>),
     (Engine_CLICKHOUSE, zero_EngineCapabilities\<lparr>AutoComplete := True, CreateDatabase := True,
        BackupDBName := ''bbdataarchive''\<rparr>),
     (Engine_MONGODB, zero_EngineCapabilities\<lparr>QueryNewACL := True, AutoComplete := True, CreateDatabase := True,
        BackupDBName := ''bbdataarchive''\<rparr>),
     (Engine_SPANNER, zero_EngineCapabilities\<lparr>QueryNewACL := True, Masking := True,
        BackupDBName := ''bbdataarchive''\<rparr>),
     (Engine_BIGQUERY, zero_EngineCapabilities\<lparr>QueryNewACL := True, Masking := True,
        BackupDBName := ''bbdataarchive''\<rparr>),
     (Engine_SQLITE, zero_EngineCapabilities\<lparr>CreateDatabase := True,
        BackupDBName := ''bbdataarchive''\<rparr>),
     (Engine_REDIS, zero_EngineCapabilities\<lparr>BackupDBName := ''bbdataarchive''\<rparr>),
     (Engine_CASSANDRA, zero_EngineCapabilities\<lparr>Masking := True,
        BackupDBName := ''bbdataarchive''\<rparr>),
     (Engine_STARROCKS, zero_EngineCapabilities\<lparr>AutoComplete := True, CreateDatabase := True,
        BackupDBName := ''bbdataarchive''\<rparr>),
     (Engine_HIVE, zero_EngineCapabilities\<lparr>CreateDatabase := True,
        BackupDBName := ''bbdataarchive''\<rparr>),
     (Engine_COCKROACHDB, zero_EngineCapabilities\<lparr>AutoComplete := True, StatementAdvise := True, CreateDatabase := True, SyntaxCheck := True,
        BackupDBName := ''bbdataarchive''\<rparr>),
     (Engine_DORIS, zero_EngineCapabilities\<lparr>AutoComplete := True, CreateDatabase := True,
        BackupDBName := ''bbdataarchive''\<rparr>),
     (Engine_DYNAMODB, zero_EngineCapabilities\<lparr>AutoComplete := True, StatementAdvise := True, SyntaxCheck := True,
        BackupDBName := ''bbdataarchive''\<rparr>),
     (Engine_ELASTICSEARCH, zero_EngineCapabilities\<lparr>QueryNewACL := True,
        BackupDBName := ''bbdataarchive''\<rparr>),
     (Engine_DATABRICKS, zero_EngineCapabilities\<lparr>BackupDBName := ''bbdataarchive''\<rparr>),
     (Engine_COSMOSDB, zero_EngineCapabilities\<lparr>BackupDBName := ''bbdataarchive''\<rparr>),
     (Engine_TRINO, zero_EngineCapabilities\<lparr>Masking := True, AutoComplete := True,
        BackupDBName := ''bbdataarchive''\<rparr>)]"

text \<open>The check of \<open>init\<close>: every engine but the unspecified one has an entry.\<close>

definition all_engines :: "Engine list" where
  "all_engines = [Engine_ENGINE_UNSPECIFIED,
     Engine_CLICKHOUSE,
     Engine_MYSQL,
     Engine_POSTGRES,
     Engine_SNOWFLAKE,
     Engine_SQLITE,
     Engine_TIDB,
     Engine_MONGODB,
     Engine_REDIS,
     Engine_ORACLE,
     Engine_SPANNER,
     Engine_MSSQL,
     Engine_REDSHIFT,
     Engine_MARIADB,
     Engine_OCEANBASE,
     Engine_STARROCKS,
     Engine_DORIS,
     Engine_HIVE,
     Engine_ELASTICSEARCH,
     Engine_BIGQUERY,
     Engine_DYNAMODB,
     Engine_DATABRICKS,
     Engine_COCKROACHDB,
     Engine_COSMOSDB,
     Engine_TRINO,
     Engine_CASSANDRA]"

definition init_engineCapabilities :: bool where
  "init_engineCapabilities =
     list_all (\<lambda>eng. eng = Engine_ENGINE_UNSPECIFIED \<or> map_of engineCapabilities eng \<noteq> None) all_engines"

definition getCapabilities :: "Engine \<Rightarrow> EngineCapabilities" where
  "getCapabilities engine =
     (case map_of engineCapabilities engine of None \<Rightarrow> zero_EngineCapabilities | Some caps \<Rightarrow> caps)"

definition EngineSupportSQLReview :: "Engine \<Rightarrow> bool" where
  "EngineSupportSQLReview engine = SQLReview (getCapabilities engine)"

definition EngineSupportQueryNewACL :: "Engine \<Rightarrow> bool" where
  "EngineSupportQueryNewACL engine = QueryNewACL (getCapabilities engine)"

definition EngineSupportMasking :: "Engine \<Rightarrow> bool" where
  "EngineSupportMasking engine = Masking (getCapabilities engine)"

definition EngineSupportAutoComplete :: "Engine \<Rightarrow> bool" where
  "EngineSupportAutoComplete engine = AutoComplete (getCapabilities engine)"

definition EngineSupportStatementAdvise :: "Engine \<Rightarrow> bool" where
  "EngineSupportStatementAdvise engine = StatementAdvise (getCapabilities engine)"

definition EngineSupportStatementReport :: "Engine \<Rightarrow> bool" where
  "EngineSupportStatementReport engine = StatementReport (getCapabilities engine)"

definition EngineSupportPriorBackup :: "Engine \<Rightarrow> bool" where
  "EngineSupportPriorBackup engine = PriorBackup (getCapabilities engine)"

definition EngineSupportCreateDatabase :: "Engine \<Rightarrow> bool" where
  "EngineSupportCreateDatabase engine = CreateDatabase (getCapabilities engine)"

definition EngineSupportQuerySpanPlainField :: "Engine \<Rightarrow> bool" where
  "EngineSupportQuerySpanPlainField engine = QuerySpanPlain (getCapabilities engine)"

definition EngineSupportSyntaxCheck :: "Engine \<Rightarrow> bool" where
  "EngineSupportSyntaxCheck engine = SyntaxCheck (getCapabilities engine)"

definition BackupDatabaseNameOfEngine :: "Engine \<Rightarrow> string" where
  "BackupDatabaseNameOfEngine e =
     (let caps = getCapabilities e
      in if BackupDBName caps \<noteq> [] then BackupDBName caps else ''bbdataarchive'')"

lemma all_engines_complete: "eng \<in> set all_engines"
  by (cases eng) (simp_all add: all_engines_def)

lemma engineCapabilities_complete: "eng \<noteq> Engine_ENGINE_UNSPECIFIED \<Longrightarrow> map_of engineCapabilities eng \<noteq> None"
  by (cases eng) (simp_all add: engineCapabilities_def)

lemma engineCapabilities_distinct: "distinct (map fst engineCapabilities)"
  by (simp add: engineCapabilities_def)

lemma BackupDatabaseName_cases:
  "BackupDatabaseNameOfEngine e = (if e = Engine_ORACLE then ''BBDATAARCHIVE'' else ''bbdataarchive'')"
  by (cases e)
    (simp_all add: BackupDatabaseNameOfEngine_def getCapabilities_def engineCapabilities_def
      zero_EngineCapabilities_def)

lemma BackupDatabaseName_POSTGRES [simp]:
  "BackupDatabaseNameOfEngine Engine_POSTGRES = ''bbdataarchive''"
  by (simp add: BackupDatabaseName_cases)

end
