(* ===== verification/GoStrings.thy ===== *)
theory GoStrings
  imports Prelude
begin

text \<open>
  The functions of Go's package \<open>strings\<close> that the modelled code calls, on strings as byte
  lists.  Letters and white space are the ASCII ones: the identifiers and SQL fragments the
  program compares.  (On a non-ASCII letter Go folds the case of the rune, this model leaves
  its bytes alone.)  An index is a natural number or \<open>None\<close> for Go's \<open>-1\<close>.
\<close>

named_theorems go_string "facts on the string functions"


section \<open>Characters\<close>

definition is_space :: "char \<Rightarrow> bool" where
  "is_space c \<longleftrightarrow> c \<in> {CHR '' '', CHR 0x09, CHR 0x0A, CHR 0x0B, CHR 0x0C, CHR 0x0D}"

definition lower_char :: "char \<Rightarrow> char" where
  "lower_char c = (let n = (of_char c :: nat) in if 65 \<le> n \<and> n \<le> 90 then char_of (n + 32) else c)"

definition upper_char :: "char \<Rightarrow> char" where
  "upper_char c = (let n = (of_char c :: nat) in if 97 \<le> n \<and> n \<le> 122 then char_of (n - 32) else c)"

lemma lower_char_idem [simp]: "lower_char (lower_char c) = lower_char c"
  by (auto simp: lower_char_def Let_def)

lemma lower_upper_char [simp]: "lower_char (upper_char c) = lower_char c"
  by (auto simp: lower_char_def upper_char_def Let_def)


section \<open>Case, prefixes, trimming\<close>

definition ToLower :: "string \<Rightarrow> string" where
  "ToLower s = map lower_char s"

definition ToUpper :: "string \<Rightarrow> string" where
  "ToUpper s = map upper_char s"

definition EqualFold :: "string \<Rightarrow> string \<Rightarrow> bool" where
  "EqualFold s t \<longleftrightarrow> ToLower s = ToLower t"

definition HasPrefix :: "string \<Rightarrow> string \<Rightarrow> bool" where
  "HasPrefix s p \<longleftrightarrow> take (length p) s = p"

definition HasSuffix :: "string \<Rightarrow> string \<Rightarrow> bool" where
  "HasSuffix s p \<longleftrightarrow> HasPrefix (rev s) (rev p)"

definition TrimPrefix :: "string \<Rightarrow> string \<Rightarrow> string" where
  "TrimPrefix s p = (if HasPrefix s p then drop (length p) s else s)"

definition TrimSuffix :: "string \<Rightarrow> string \<Rightarrow> string" where
  "TrimSuffix s p = (if HasSuffix s p then take (length s - length p) s else s)"

definition TrimSpace :: "string \<Rightarrow> string" where
  "TrimSpace s = rev (dropWhile is_space (rev (dropWhile is_space s)))"

text \<open>\<open>strings.Compare\<close>: byte-wise lexicographic order.\<close>

definition strings_Compare :: "string \<Rightarrow> string \<Rightarrow> int" where
  "strings_Compare a b = (if a < b then -1 else if a = b then 0 else 1)"

lemma ToLower_idem [simp]: "ToLower (ToLower s) = ToLower s"
  by (simp add: ToLower_def)

lemma EqualFold_refl [simp]: "EqualFold s s"
  by (simp add: EqualFold_def)

lemma EqualFold_sym: "EqualFold s t = EqualFold t s"
  by (auto simp: EqualFold_def)

lemma HasPrefix_Nil [simp]: "HasPrefix s []"
  by (simp add: HasPrefix_def)

lemma HasPrefix_append [simp]: "HasPrefix (p @ s) p"
  by (simp add: HasPrefix_def)

lemma HasPrefixE: "HasPrefix s p \<Longrightarrow> (\<And>t. s = p @ t \<Longrightarrow> thesis) \<Longrightarrow> thesis"
  by (metis HasPrefix_def append_take_drop_id)

lemma HasPrefix_length: "HasPrefix s p \<Longrightarrow> length p \<le> length s"
  by (erule HasPrefixE) simp

lemma strings_Compare_less [simp]: "strings_Compare a b < 0 \<longleftrightarrow> a < b"
  by (simp add: strings_Compare_def)

lemma strings_Compare_refl [simp]: "strings_Compare a a = 0"
  by (simp add: strings_Compare_def)

lemma TrimSpace_Nil [simp]: "TrimSpace [] = []"
  by (simp add: TrimSpace_def)


section \<open>Searching\<close>

fun Index :: "string \<Rightarrow> string \<Rightarrow> nat option" where
  "Index [] sub = (if sub = [] then Some 0 else None)"
| "Index (c # s) sub = (if HasPrefix (c # s) sub then Some 0 else map_option Suc (Index s sub))"

fun LastIndex :: "string \<Rightarrow> string \<Rightarrow> nat option" where
  "LastIndex [] sub = (if sub = [] then Some 0 else None)"
| "LastIndex (c # s) sub =
     (case LastIndex s sub of
        Some i \<Rightarrow> Some (Suc i)
      | None \<Rightarrow> if HasPrefix (c # s) sub then Some 0 else None)"

definition Contains :: "string \<Rightarrow> string \<Rightarrow> bool" where
  "Contains s sub \<longleftrightarrow> Index s sub \<noteq> None"

lemma Index_SomeD: "Index s sub = Some i \<Longrightarrow> i + length sub \<le> length s \<and> HasPrefix (drop i s) sub"
  by (induction s sub arbitrary: i rule: Index.induct)
    (auto split: if_splits dest: HasPrefix_length)

lemma Index_None_iff: "Index s sub = None \<longleftrightarrow> (\<forall>u v. s \<noteq> u @ sub @ v)"
proof (induction s sub rule: Index.induct)
  case (1 sub)
  then show ?case by auto
next
  case (2 c s sub)
  show ?case
  proof (cases "HasPrefix (c # s) sub")
    case True
    then obtain t where "c # s = [] @ sub @ t" by (auto elim: HasPrefixE)
    with True show ?thesis by (metis Index.simps(2) option.distinct(1))
  next
    case False
    have "(\<exists>u v. c # s = u @ sub @ v) \<longleftrightarrow> (\<exists>u v. s = u @ sub @ v)"
    proof
      assume "\<exists>u v. c # s = u @ sub @ v"
      then obtain u v where uv: "c # s = u @ sub @ v" by blast
      with False have "u \<noteq> []" by (metis HasPrefix_append append_Nil)
      with uv show "\<exists>u v. s = u @ sub @ v" by (metis append_Cons list.inject neq_Nil_conv)
    next
      assume "\<exists>u v. s = u @ sub @ v"
      then show "\<exists>u v. c # s = u @ sub @ v" by (metis append_Cons)
    qed
    with 2 False show ?thesis by auto
  qed
qed

lemma Contains_iff: "Contains s sub \<longleftrightarrow> (\<exists>u v. s = u @ sub @ v)"
  by (auto simp: Contains_def Index_None_iff)


section \<open>Replacing, splitting, joining\<close>

text \<open>\<open>strings.ReplaceAll\<close> with a non-empty pattern: non-overlapping, left to right.\<close>

function ReplaceAll :: "string \<Rightarrow> string \<Rightarrow> string \<Rightarrow> string" where
  "ReplaceAll [] old new = []"
| "ReplaceAll (c # s) old new =
     (if HasPrefix (c # s) old \<and> old \<noteq> [] then new @ ReplaceAll (drop (length old - 1) s) old new
      else c # ReplaceAll s old new)"
  by pat_completeness auto
termination
  by (relation "measure (\<lambda>(s, old, new). length s)") auto

text \<open>\<open>strings.Split\<close> with a non-empty separator.\<close>

function Split :: "string \<Rightarrow> string \<Rightarrow> string list" where
  "Split s sep =
     (if sep = [] then [s]
      else case Index s sep of
             None \<Rightarrow> [s]
           | Some i \<Rightarrow> take i s # Split (drop (i + length sep) s) sep)"
  by pat_completeness auto
termination
  by (relation "measure (\<lambda>(s, sep). length s)") (auto dest!: Index_SomeD simp flip: length_greater_0_conv)

declare Split.simps [simp del]

fun Join :: "string list \<Rightarrow> string \<Rightarrow> string" where
  "Join [] sep = []"
| "Join [x] sep = x"
| "Join (x # xs) sep = x @ sep @ Join xs sep"

lemma Join_Cons: "xs \<noteq> [] \<Longrightarrow> Join (x # xs) sep = x @ sep @ Join xs sep"
  by (cases xs) auto

text \<open>\<open>strings.Fields\<close>: the maximal runs of non-space characters.\<close>

function Fields :: "string \<Rightarrow> string list" where
  "Fields s =
     (case dropWhile is_space s of
        [] \<Rightarrow> []
      | c # t \<Rightarrow> takeWhile (Not \<circ> is_space) (c # t) # Fields (dropWhile (Not \<circ> is_space) t))"
  by pat_completeness auto
termination
proof (relation "measure length")
  fix s :: string and c :: char and t :: string
  assume "dropWhile is_space s = c # t"
  then have "Suc (length t) \<le> length s" by (metis length_Cons length_dropWhile_le)
  moreover have "length (dropWhile (Not \<circ> is_space) t) \<le> length t" by (rule length_dropWhile_le)
  ultimately show "(dropWhile (Not \<circ> is_space) t, s) \<in> measure length" by simp
qed simp

declare Fields.simps [simp del]

text \<open>Replacing a single character by nothing deletes it.\<close>

lemma ReplaceAll_single: "ReplaceAll s [c] [] = filter (\<lambda>x. x \<noteq> c) s"
  by (induction s) (auto simp: HasPrefix_def)

lemma ReplaceAll_absent: "\<not> Contains s old \<Longrightarrow> ReplaceAll s old new = s"
proof (induction s)
  case Nil
  then show ?case by simp
next
  case (Cons c s)
  then have "\<not> HasPrefix (c # s) old" and "\<not> Contains s old"
    by (auto simp: Contains_def split: if_splits)
  with Cons show ?case by simp
qed

lemma length_ReplaceAll_le:
  "length new \<le> length old \<Longrightarrow> length (ReplaceAll s old new) \<le> length s"
proof (induction s old new rule: ReplaceAll.induct)
  case (1 old new)
  then show ?case by simp
next
  case (2 c s old new)
  show ?case
  proof (cases "HasPrefix (c # s) old \<and> old \<noteq> []")
    case True
    then have "length old \<le> Suc (length s)" and "old \<noteq> []"
      by (auto dest: HasPrefix_length)
    moreover from 2 True
    have "length (ReplaceAll (drop (length old - 1) s) old new) \<le> length s - (length old - 1)"
      by simp
    ultimately show ?thesis using True "2.prems" by (cases old) auto
  next
    case False
    with 2 show ?thesis by auto
  qed
qed

lemma length_ReplaceAll_less:
  "length new < length old \<Longrightarrow> Contains s old \<Longrightarrow> length (ReplaceAll s old new) < length s"
proof (induction s)
  case Nil
  then show ?case by (auto simp: Contains_def split: if_splits)
next
  case (Cons c s)
  show ?case
  proof (cases "HasPrefix (c # s) old")
    case True
    with Cons.prems have "length old \<le> Suc (length s)" and "old \<noteq> []"
      by (auto dest: HasPrefix_length)
    moreover have "length (ReplaceAll (drop (length old - 1) s) old new) \<le> length s - (length old - 1)"
      using length_ReplaceAll_le [of new old "drop (length old - 1) s"] Cons.prems by simp
    ultimately show ?thesis using True Cons.prems by (cases old) auto
  next
    case False
    with Cons show ?thesis by (auto simp: Contains_def)
  qed
qed


section \<open>Slices\<close>

text \<open>\<open>s[i]\<close> and \<open>s[i:j]\<close>; \<open>None\<close> is the run-time panic on an index out of range.\<close>

definition byte_at :: "string \<Rightarrow> nat \<Rightarrow> char option" where
  "byte_at s i = (if i < length s then Some (s ! i) else None)"

definition slice :: "'a list \<Rightarrow> nat \<Rightarrow> nat \<Rightarrow> 'a list option" where
  "slice s i j = (if i \<le> j \<and> j \<le> length s then Some (take (j - i) (drop i s)) else None)"

end
