(* ===== verification/SearchPath.thy ===== *)
theory SearchPath
  imports GoStrings
begin

text \<open>
  \<^verbatim>\<open>backend/store/model/pg_search_path.go\<close>: parsing and resolving a PostgreSQL search_path.
  The scanner keeps the bytes since \<open>start\<close> reversed in \<open>cur\<close> and the open quote in \<open>quote\<close>.
\<close>

record PGSearchPathItem =
  Schema :: string
  CurrentUser :: bool

function split_scan :: "char option \<Rightarrow> string \<Rightarrow> string \<Rightarrow> string list" where
  "split_scan quote cur [] = [rev cur]"
| "split_scan (Some q) cur (c # s) =
     (if c \<noteq> q then split_scan (Some q) (c # cur) s
      else if s \<noteq> [] \<and> hd s = q then split_scan (Some q) (hd s # c # cur) (tl s)
      else split_scan None (c # cur) s)"
| "split_scan None cur (c # s) =
     (if c = CHR 0x22 \<or> c = CHR 0x27 then split_scan (Some c) (c # cur) s
      else if c = CHR '','' then rev cur # split_scan None [] s
      else split_scan None (c # cur) s)"
  by pat_completeness auto
termination
  by (relation "measure (\<lambda>(quote, cur, s). length s)") auto

definition splitPGSearchPath :: "string \<Rightarrow> string list" where
  "splitPGSearchPath searchPath = split_scan None [] searchPath"

definition isPGSystemPath :: "string \<Rightarrow> bool" where
  "isPGSystemPath path = list_ex (EqualFold path)
     [''pg_catalog'', ''information_schema'', ''pg_toast'', ''pg_temp_1'', ''pg_temp_2'', ''pg_global'']"

definition quoted_by :: "char \<Rightarrow> string \<Rightarrow> bool" where
  "quoted_by q token \<longleftrightarrow> length token \<ge> 2 \<and> hd token = q \<and> last token = q"

definition parsePGSearchPathItem :: "string \<Rightarrow> PGSearchPathItem option" where
  "parsePGSearchPathItem tok =
     (let token = TrimSpace tok in
      if token = [] then None
      else
        let schema =
          (if quoted_by (CHR 0x22) token
             then ReplaceAll (butlast (tl token)) [CHR 0x22, CHR 0x22] [CHR 0x22]
           else if quoted_by (CHR 0x27) token
             then ReplaceAll (butlast (tl token)) [CHR 0x27, CHR 0x27] [CHR 0x27]
           else ToLower token)
        in if schema = ''$user'' then Some \<lparr>Schema = [], CurrentUser = True\<rparr>
           else if isPGSystemPath schema then None
           else if schema = [] then None
           else Some \<lparr>Schema = schema, CurrentUser = False\<rparr>)"

definition ParsePGConfiguredSearchPath :: "string \<Rightarrow> PGSearchPathItem list" where
  "ParsePGConfiguredSearchPath searchPath =
     (if searchPath = [] then []
      else List.map_filter parsePGSearchPathItem (splitPGSearchPath searchPath))"

definition item_resolve :: "PGSearchPathItem \<Rightarrow> string \<Rightarrow> string option" where
  "item_resolve i currentUser =
     (if CurrentUser i then (if currentUser = [] then None else Some currentUser)
      else if Schema i = [] then None
      else Some (Schema i))"

definition ResolvePGSearchPath ::
  "PGSearchPathItem list \<Rightarrow> string \<Rightarrow> (string \<Rightarrow> bool) option \<Rightarrow> string list" where
  "ResolvePGSearchPath configured currentUser schemaExists =
     (if configured = [] then []
      else
        let currentUser = TrimSpace currentUser
        in concat (map (\<lambda>item. case item_resolve item currentUser of
              None \<Rightarrow> []
            | Some schema \<Rightarrow>
                (case schemaExists of
                   Some ex \<Rightarrow> if ex schema then [schema] else []
                 | None \<Rightarrow> [schema]))
            configured))"


section \<open>Facts\<close>

lemma split_scan_nonempty [simp]: "split_scan quote cur s \<noteq> []"
  by (induction quote cur s rule: split_scan.induct) auto

text \<open>The tokens, joined by commas, are the setting again: no byte is lost.\<close>

lemma Join_split_scan: "Join (split_scan quote cur s) '','' = rev cur @ s"
  by (induction quote cur s rule: split_scan.induct) (auto simp: Join_Cons neq_Nil_conv)

text \<open>Doubling the quotes of a name and undoing it.\<close>

definition double_quote :: "char \<Rightarrow> string \<Rightarrow> string" where
  "double_quote q s = concat (map (\<lambda>c. if c = q then [q, q] else [c]) s)"

lemma ReplaceAll_double_quote: "ReplaceAll (double_quote q s) [q, q] [q] = s"
  by (induction s) (auto simp: double_quote_def HasPrefix_def)

lemma dropWhile_space_snoc: "\<not> is_space q \<Longrightarrow> dropWhile is_space (s @ [q]) \<noteq> []"
  by (induction s) auto

lemma TrimSpace_quoted: "\<not> is_space q \<Longrightarrow> TrimSpace (q # s @ [q]) = q # s @ [q]"
  by (simp add: TrimSpace_def)

lemma parse_not_system:
  "parsePGSearchPathItem t = Some i \<Longrightarrow> \<not> isPGSystemPath (Schema i)"
  by (auto simp: parsePGSearchPathItem_def Let_def isPGSystemPath_def EqualFold_def ToLower_def
      split: if_splits)

text \<open>A quoted identifier is one token, whatever it holds.\<close>

lemma split_scan_quoted:
  assumes "rest = [] \<or> hd rest \<noteq> q"
  shows "split_scan (Some q) cur (double_quote q n @ q # rest) =
    split_scan None (q # rev (double_quote q n) @ cur) rest"
proof (induction n arbitrary: cur)
  case Nil
  then show ?case using assms by (cases rest) (simp_all add: double_quote_def)
next
  case (Cons c n)
  show ?case
  proof (cases "c = q")
    case True
    then have "double_quote q (c # n) = q # q # double_quote q n" by (simp add: double_quote_def)
    then show ?thesis using Cons.IH [of "q # q # cur"] by simp
  next
    case False
    then have "double_quote q (c # n) = c # double_quote q n" by (simp add: double_quote_def)
    then show ?thesis using Cons.IH [of "c # cur"] False by simp
  qed
qed

definition quote_ident :: "string \<Rightarrow> string" where
  "quote_ident n = CHR 0x22 # double_quote (CHR 0x22) n @ [CHR 0x22]"

lemma split_scan_ident:
  "rest = [] \<or> hd rest \<noteq> CHR 0x22 \<Longrightarrow>
   split_scan None cur (quote_ident n @ rest) = split_scan None (rev (quote_ident n) @ cur) rest"
  using split_scan_quoted [of rest "CHR 0x22" "CHR 0x22 # cur" n] by (simp add: quote_ident_def)

lemma split_scan_idents:
  "ns \<noteq> [] \<Longrightarrow> split_scan None [] (Join (map quote_ident ns) '','') = map quote_ident ns"
proof (induction ns)
  case (Cons n ns)
  show ?case
  proof (cases "ns = []")
    case True
    then show ?thesis using split_scan_ident [of "[]" "[]" n] by simp
  next
    case False
    then have "Join (map quote_ident (n # ns)) '','' = quote_ident n @ '','' @ Join (map quote_ident ns) '',''"
      by (simp add: Join_Cons)
    then show ?thesis
      using split_scan_ident [of "'','' @ Join (map quote_ident ns) '',''" "[]" n] Cons.IH False by simp
  qed
qed simp

lemma parse_quote_ident:
  "n \<noteq> [] \<Longrightarrow> n \<noteq> ''$user'' \<Longrightarrow> \<not> isPGSystemPath n \<Longrightarrow>
   parsePGSearchPathItem (quote_ident n) = Some \<lparr>Schema = n, CurrentUser = False\<rparr>"
  by (simp add: parsePGSearchPathItem_def quote_ident_def TrimSpace_quoted is_space_def quoted_by_def
      ReplaceAll_double_quote Let_def)

text \<open>
  Schema names written as quoted identifiers, doubled quotes, commas and blanks included, are
  read back as they are, in their order.
\<close>
lemma search_path_roundtrip:
  assumes "\<forall>n \<in> set ns. n \<noteq> [] \<and> n \<noteq> ''$user'' \<and> \<not> isPGSystemPath n"
  shows "ParsePGConfiguredSearchPath (Join (map quote_ident ns) '','') =
    map (\<lambda>n. \<lparr>Schema = n, CurrentUser = False\<rparr>) ns"
proof (cases "ns = []")
  case False
  have "Join (map quote_ident ns) '','' \<noteq> []" using False by (cases ns; cases "tl ns") (auto simp: quote_ident_def)
  moreover have "List.map_filter parsePGSearchPathItem (map quote_ident ns) = map (\<lambda>n. \<lparr>Schema = n, CurrentUser = False\<rparr>) ns"
    using assms by (induction ns) (simp_all add: parse_quote_ident List.map_filter_simps)
  ultimately show ?thesis
    using False by (simp add: ParsePGConfiguredSearchPath_def splitPGSearchPath_def split_scan_idents)
qed (simp add: ParsePGConfiguredSearchPath_def)

theorem search_path_roundtrip_witness:
  "ParsePGConfiguredSearchPath (Join (map quote_ident [''a,b'', [CHR 0x22], ''My Schema'']) '','') =
   map (\<lambda>n. \<lparr>Schema = n, CurrentUser = False\<rparr>) [''a,b'', [CHR 0x22], ''My Schema'']"
proof -
  have "\<forall>n \<in> set [''a,b'', [CHR 0x22], ''My Schema'']. n \<noteq> [] \<and> n \<noteq> ''$user'' \<and> \<not> isPGSystemPath n"
    by code_simp
  then show ?thesis by (rule search_path_roundtrip)
qed

text \<open>
  A search path resolves to configured schemas that are no system schemas and to the current
  user, each of which exists when existence can be checked.
\<close>
lemma resolved_search_path:
  "list_all (\<lambda>s. (s = TrimSpace user \<or> s \<noteq> [] \<and> \<not> isPGSystemPath s) \<and>
       (case ex of None \<Rightarrow> True | Some f \<Rightarrow> f s))
     (ResolvePGSearchPath (ParsePGConfiguredSearchPath path) user ex)"
proof -
  have "\<not> isPGSystemPath (Schema i)" if "i \<in> set (ParsePGConfiguredSearchPath path)" for i
    using that parse_not_system
    by (auto simp: ParsePGConfiguredSearchPath_def List.map_filter_def split: if_splits)
  then show ?thesis
    by (auto simp: ResolvePGSearchPath_def Let_def list_all_iff item_resolve_def split: option.splits if_splits)
qed

end
