(* ===== verification/SchemaModel.thy ===== *)
theory SchemaModel
  imports SchemaProto Engine SearchPath
begin

text \<open>
  \<^verbatim>\<open>backend/store/model\<close>, the read side: the lookup structures built over a stored schema
  (\<open>NewDatabaseMetadata\<close>) and their getters.  Between the construction of a schema and its
  comparison nothing is mutated, so a pointer is the value it points to.  The mutators of the
  same types, where sharing matters, are in the theory SchemaStore.
\<close>

text \<open>The \<open>range\<close> statements over maps whose order can be observed.\<close>

datatype site =
  Site_ListSchemaNames | Site_ListIndexes | Site_GetIndex_tables | Site_GetIndex_mvs
| Site_SequencesByOwner | Site_DependentViews | Site_GetPrimaryKey
| Site_ForeignKeys_old | Site_ForeignKeys_new | Site_Checks_old | Site_Checks_new
| Site_Partitions_old | Site_Partitions_new | Site_Triggers_old | Site_Triggers_new
| Site_Functions_old | Site_Functions_new | Site_Sequences_old | Site_Sequences_new
| Site_EnumTypes_old | Site_EnumTypes_new
| Site_Extensions_old | Site_Extensions_new | Site_Extensions_mod
| Site_EventTriggers_old | Site_EventTriggers_new | Site_EventTriggers_mod
| Site_Events_old | Site_Events_new | Site_InValues | Site_EngineSpecific

type_synonym range_order = "site \<Rightarrow> string list \<Rightarrow> string list"

definition fair_order :: "range_order \<Rightarrow> bool" where
  "fair_order ord \<longleftrightarrow> (\<forall>s. perm_order (ord s))"

lemma fair_orderD [simp]: "fair_order ord \<Longrightarrow> perm_order (ord s)"
  by (simp add: fair_order_def)

lemma fair_order_insertion [simp]: "fair_order (\<lambda>_. insertion_order)"
  by (simp add: fair_order_def)

lemma fair_order_rev [simp]: "fair_order (\<lambda>_. rev)"
  by (simp add: fair_order_def)


section \<open>Types\<close>

record ColumnMetadata =
  cm_proto :: storepb_ColumnMetadata
  cm_config :: "storepb_ColumnCatalog option"

record IndexMetadata =
  im_tableProto :: storepb_TableMetadata
  im_proto :: storepb_IndexMetadata

datatype TableMetadata =
  TableMetadata
    (partitionOf: "TableMetadata option")
    (tm_isDetailCaseSensitive: bool)
    (internalColumn: "ColumnMetadata gomap")
    (internalIndexes: "IndexMetadata gomap")
    (tm_proto: storepb_TableMetadata)
    (tm_config: "storepb_TableCatalog option")

record ExternalTableMetadata =
  em_isDetailCaseSensitive :: bool
  em_internal :: "storepb_ColumnMetadata gomap"
  em_proto :: storepb_ExternalTableMetadata

record SchemaMetadata =
  sm_isObjectCaseSensitive :: bool
  sm_isDetailCaseSensitive :: bool
  internalTables :: "TableMetadata gomap"
  internalExternalTable :: "ExternalTableMetadata gomap"
  internalViews :: "storepb_ViewMetadata gomap"
  internalMaterializedView :: "storepb_MaterializedViewMetadata gomap"
  internalProcedures :: "storepb_ProcedureMetadata gomap"
  internalSequences :: "storepb_SequenceMetadata gomap"
  internalPackages :: "storepb_PackageMetadata gomap"
  sm_proto :: storepb_SchemaMetadata
  sm_config :: "storepb_SchemaCatalog option"

record DatabaseMetadata =
  dm_proto :: "storepb_DatabaseSchemaMetadata option"
  dm_config :: "storepb_DatabaseConfig option"
  dm_rawDump :: string
  dm_isObjectCaseSensitive :: bool
  dm_isDetailCaseSensitive :: bool
  dm_searchPath :: "PGSearchPathItem list"
  dm_internal :: "SchemaMetadata gomap"
  dm_linkedDatabase :: "storepb_LinkedDatabaseMetadata gomap"


section \<open>Construction\<close>

definition normalizeNameByCaseSensitivity :: "string \<Rightarrow> bool \<Rightarrow> string" where
  "normalizeNameByCaseSensitivity name caseSensitive =
     (if caseSensitive then name else ToLower name)"

definition getIsDetailCaseSensitive :: "Engine \<Rightarrow> bool" where
  "getIsDetailCaseSensitive engine =
     (engine \<notin> {Engine_MYSQL, Engine_MARIADB, Engine_TIDB, Engine_MSSQL, Engine_OCEANBASE})"

definition buildIndexesMetadata :: "storepb_TableMetadata \<Rightarrow> IndexMetadata list" where
  "buildIndexesMetadata table =
     map (\<lambda>index. \<lparr>im_tableProto = table, im_proto = index\<rparr>) (tbl_indexes table)"

text \<open>The loop that fills \<open>internalColumn\<close> (in both build functions).\<close>

definition buildColumns ::
  "storepb_ColumnMetadata list \<Rightarrow> storepb_ColumnCatalog gomap \<Rightarrow> bool \<Rightarrow> ColumnMetadata gomap" where
  "buildColumns columns columnCatalogMap isDetailCaseSensitive =
     map_by (\<lambda>column. normalizeNameByCaseSensitivity (col_name column) isDetailCaseSensitive)
       (\<lambda>column. \<lparr>cm_proto = column, cm_config = map_of columnCatalogMap (col_name column)\<rparr>)
       columns"

fun buildTablesMetadataRecursive ::
  "storepb_ColumnMetadata list \<Rightarrow> storepb_ColumnCatalog gomap \<Rightarrow> storepb_TablePartitionMetadata list \<Rightarrow>
   TableMetadata \<Rightarrow> storepb_TableMetadata \<Rightarrow> bool \<Rightarrow> TableMetadata list \<times> string list"
where
  "buildTablesMetadataRecursive originalColumn columnCatalogMap [] root proto isDetailCaseSensitive = ([], [])"
| "buildTablesMetadataRecursive originalColumn columnCatalogMap
     (TablePartitionMetadata name type expression val use_default subpartitions indexes checks excludes # partitions)
     root proto isDetailCaseSensitive =
     (let partitionMetadata =
            TableMetadata (Some root) isDetailCaseSensitive
              (buildColumns originalColumn columnCatalogMap isDetailCaseSensitive) [] proto None;
          (subTables, subNames) =
            buildTablesMetadataRecursive originalColumn columnCatalogMap subpartitions
              partitionMetadata proto isDetailCaseSensitive;
          (tables, names) =
            buildTablesMetadataRecursive originalColumn columnCatalogMap partitions root proto
              isDetailCaseSensitive
      in (partitionMetadata # subTables @ tables, name # subNames @ names))"

definition buildTablesMetadata ::
  "storepb_TableMetadata \<Rightarrow> storepb_TableCatalog option \<Rightarrow> bool \<Rightarrow> TableMetadata list \<times> string list"
where
  "buildTablesMetadata table tableCatalog isDetailCaseSensitive =
     (let columnCatalogMap =
            (case tableCatalog of None \<Rightarrow> []
             | Some tc \<Rightarrow> map_by ccat_name id (tcat_columns tc));
          tableMetadata =
            TableMetadata None isDetailCaseSensitive
              (buildColumns (tbl_columns table) columnCatalogMap isDetailCaseSensitive)
              (map_by (\<lambda>index. normalizeNameByCaseSensitivity (idx_name (im_proto index)) isDetailCaseSensitive)
                 id (buildIndexesMetadata table))
              table tableCatalog;
          (partitionTables, partitionNames) =
            buildTablesMetadataRecursive (tbl_columns table) columnCatalogMap (tbl_partitions table)
              tableMetadata table isDetailCaseSensitive
      in (tableMetadata # partitionTables, tbl_name table # partitionNames))"

definition newExternalTable :: "bool \<Rightarrow> storepb_ExternalTableMetadata \<Rightarrow> ExternalTableMetadata" where
  "newExternalTable isDetailCaseSensitive externalTable =
     \<lparr>em_isDetailCaseSensitive = isDetailCaseSensitive,
      em_internal =
        map_by (\<lambda>column. normalizeNameByCaseSensitivity (col_name column) isDetailCaseSensitive) id
          (etbl_columns externalTable),
      em_proto = externalTable\<rparr>"

text \<open>The body of the loop over \<open>metadata.Schemas\<close>.\<close>

definition newSchemaMetadata ::
  "bool \<Rightarrow> bool \<Rightarrow> storepb_SchemaCatalog gomap \<Rightarrow> storepb_SchemaMetadata \<Rightarrow> SchemaMetadata" where
  "newSchemaMetadata isObjectCaseSensitive isDetailCaseSensitive schemaCatalogMap s =
     (let schemaCatalog = map_of schemaCatalogMap (sch_name s);
          tableCatalogMap =
            (case schemaCatalog of None \<Rightarrow> [] | Some sc \<Rightarrow> map_by tcat_name id (scat_tables sc));
          objectID = (\<lambda>name. normalizeNameByCaseSensitivity name isObjectCaseSensitive);
          detailID = (\<lambda>name. normalizeNameByCaseSensitivity name isDetailCaseSensitive)
      in \<lparr>sm_isObjectCaseSensitive = isObjectCaseSensitive,
          sm_isDetailCaseSensitive = isDetailCaseSensitive,
          internalTables =
            map_by (\<lambda>(table, name). objectID name) fst
              (concat (map (\<lambda>table.
                 let (tables, names) =
                   buildTablesMetadata table (map_of tableCatalogMap (tbl_name table)) isDetailCaseSensitive
                 in zip tables names) (sch_tables s))),
          internalExternalTable =
            map_by (\<lambda>t. objectID (etbl_name t)) (newExternalTable isDetailCaseSensitive)
              (sch_external_tables s),
          internalViews = map_by (\<lambda>view. objectID (view_name view)) id (sch_views s),
          internalMaterializedView =
            map_by (\<lambda>mv. objectID (mv_name mv)) id (sch_materialized_views s),
          internalProcedures = map_by (\<lambda>p. detailID (proc_name p)) id (sch_procedures s),
          internalSequences = map_by (\<lambda>q. detailID (seq_name q)) id (sch_sequences s),
          internalPackages = map_by (\<lambda>p. detailID (pkg_name p)) id (sch_packages s),
          sm_proto = s,
          sm_config = schemaCatalog\<rparr>)"

definition NewDatabaseMetadata ::
  "storepb_DatabaseSchemaMetadata \<Rightarrow> string \<Rightarrow> storepb_DatabaseConfig option \<Rightarrow> Engine \<Rightarrow> bool \<Rightarrow>
   DatabaseMetadata"
where
  "NewDatabaseMetadata metadata schema config engine isObjectCaseSensitive =
     (let isDetailCaseSensitive = getIsDetailCaseSensitive engine;
          schemaCatalogMap =
            (case config of None \<Rightarrow> [] | Some c \<Rightarrow> map_by scat_name id (dbc_schemas c))
      in \<lparr>dm_proto = Some metadata,
          dm_config = config,
          dm_rawDump = schema,
          dm_isObjectCaseSensitive = isObjectCaseSensitive,
          dm_isDetailCaseSensitive = isDetailCaseSensitive,
          dm_searchPath = ParsePGConfiguredSearchPath (db_search_path metadata),
          dm_internal =
            map_by (\<lambda>s. normalizeNameByCaseSensitivity (sch_name s) isObjectCaseSensitive)
              (newSchemaMetadata isObjectCaseSensitive isDetailCaseSensitive schemaCatalogMap)
              (db_schemas metadata),
          dm_linkedDatabase =
            map_by (\<lambda>dbLink. normalizeNameByCaseSensitivity (lnk_name dbLink) isObjectCaseSensitive) id
              (db_linked_databases metadata)\<rparr>)"

definition NewDatabaseMetadataFromProto :: "storepb_DatabaseSchemaMetadata \<Rightarrow> DatabaseMetadata" where
  "NewDatabaseMetadataFromProto metadata =
     NewDatabaseMetadata metadata [] None Engine_ENGINE_UNSPECIFIED False"


section \<open>Getters\<close>

definition GetSchemaMetadata :: "DatabaseMetadata \<Rightarrow> string \<Rightarrow> SchemaMetadata option" where
  "GetSchemaMetadata d name =
     map_of (dm_internal d) (normalizeNameByCaseSensitivity name (dm_isObjectCaseSensitive d))"

definition hasSchema :: "DatabaseMetadata \<Rightarrow> string \<Rightarrow> bool" where
  "hasSchema d name = (GetSchemaMetadata d name \<noteq> None)"

definition GetSearchPath :: "DatabaseMetadata \<Rightarrow> string list" where
  "GetSearchPath d = ResolvePGSearchPath (dm_searchPath d) [] None"

definition GetSearchPathForCurrentUser :: "DatabaseMetadata \<Rightarrow> string \<Rightarrow> string list" where
  "GetSearchPathForCurrentUser d currentUser =
     ResolvePGSearchPath (dm_searchPath d) currentUser (Some (hasSchema d))"

definition DatabaseName :: "DatabaseMetadata \<Rightarrow> string" where
  "DatabaseName d = (case dm_proto d of None \<Rightarrow> [] | Some p \<Rightarrow> db_name p)"

definition HasNoTable :: "DatabaseMetadata \<Rightarrow> bool" where
  "HasNoTable d = (\<not> list_ex (\<lambda>schema. sch_tables (sm_proto schema) \<noteq> []) (map snd (dm_internal d)))"

definition ListSchemaNames :: "range_order \<Rightarrow> DatabaseMetadata \<Rightarrow> string list" where
  "ListSchemaNames ord d =
     map (\<lambda>(_, schema). sch_name (sm_proto schema)) (go_range (ord Site_ListSchemaNames) (dm_internal d))"

definition GetLinkedDatabase :: "DatabaseMetadata \<Rightarrow> string \<Rightarrow> storepb_LinkedDatabaseMetadata option" where
  "GetLinkedDatabase d name =
     map_of (dm_linkedDatabase d) (normalizeNameByCaseSensitivity name (dm_isObjectCaseSensitive d))"

definition GetTable :: "SchemaMetadata \<Rightarrow> string \<Rightarrow> TableMetadata option" where
  "GetTable s name =
     map_of (internalTables s) (normalizeNameByCaseSensitivity name (sm_isObjectCaseSensitive s))"

definition GetView :: "SchemaMetadata \<Rightarrow> string \<Rightarrow> storepb_ViewMetadata option" where
  "GetView s name =
     map_of (internalViews s) (normalizeNameByCaseSensitivity name (sm_isObjectCaseSensitive s))"

definition GetProcedure :: "SchemaMetadata \<Rightarrow> string \<Rightarrow> storepb_ProcedureMetadata option" where
  "GetProcedure s name =
     map_of (internalProcedures s) (normalizeNameByCaseSensitivity name (sm_isDetailCaseSensitive s))"

definition GetPackage :: "SchemaMetadata \<Rightarrow> string \<Rightarrow> storepb_PackageMetadata option" where
  "GetPackage s name =
     map_of (internalPackages s) (normalizeNameByCaseSensitivity name (sm_isDetailCaseSensitive s))"

definition GetMaterializedView :: "SchemaMetadata \<Rightarrow> string \<Rightarrow> storepb_MaterializedViewMetadata option" where
  "GetMaterializedView s name =
     map_of (internalMaterializedView s) (normalizeNameByCaseSensitivity name (sm_isObjectCaseSensitive s))"

definition GetExternalTable :: "SchemaMetadata \<Rightarrow> string \<Rightarrow> ExternalTableMetadata option" where
  "GetExternalTable s name =
     map_of (internalExternalTable s) (normalizeNameByCaseSensitivity name (sm_isObjectCaseSensitive s))"

definition GetFunction :: "SchemaMetadata \<Rightarrow> string \<Rightarrow> storepb_FunctionMetadata option" where
  "GetFunction s name =
     List.find (\<lambda>function. if sm_isDetailCaseSensitive s then fn_name function = name
                           else EqualFold (fn_name function) name)
       (sch_functions (sm_proto s))"

definition GetSequence :: "SchemaMetadata \<Rightarrow> string \<Rightarrow> storepb_SequenceMetadata option" where
  "GetSequence s name =
     map_of (internalSequences s) (normalizeNameByCaseSensitivity name (sm_isDetailCaseSensitive s))"

definition GetSequencesByOwnerTable :: "range_order \<Rightarrow> SchemaMetadata \<Rightarrow> string \<Rightarrow> storepb_SequenceMetadata list" where
  "GetSequencesByOwnerTable ord s name =
     filter (\<lambda>sequence. if sm_isObjectCaseSensitive s then seq_owner_table sequence = name
                        else EqualFold (seq_owner_table sequence) name)
       (map snd (go_range (ord Site_SequencesByOwner) (internalSequences s)))"

definition ListTableNames :: "SchemaMetadata \<Rightarrow> string list" where
  "ListTableNames s = sort (map (\<lambda>(_, table). tbl_name (tm_proto table)) (internalTables s))"

definition ListProcedureNames :: "SchemaMetadata \<Rightarrow> string list" where
  "ListProcedureNames s = sort (map (\<lambda>(_, p). proc_name p) (internalProcedures s))"

definition ListViewNames :: "SchemaMetadata \<Rightarrow> string list" where
  "ListViewNames s = sort (map (\<lambda>(_, view). view_name view) (internalViews s))"

definition ListForeignTableNames :: "SchemaMetadata \<Rightarrow> string list" where
  "ListForeignTableNames s = sort (map (\<lambda>(_, table). etbl_name (em_proto table)) (internalExternalTable s))"

definition ListMaterializedViewNames :: "SchemaMetadata \<Rightarrow> string list" where
  "ListMaterializedViewNames s = sort (map (\<lambda>(_, view). mv_name view) (internalMaterializedView s))"

definition ListSequenceNames :: "SchemaMetadata \<Rightarrow> string list" where
  "ListSequenceNames s = sort (map (\<lambda>(_, sequence). seq_name sequence) (internalSequences s))"

definition GetColumn :: "TableMetadata \<Rightarrow> string \<Rightarrow> ColumnMetadata option" where
  "GetColumn t name =
     map_of (internalColumn t) (normalizeNameByCaseSensitivity name (tm_isDetailCaseSensitive t))"

definition table_GetIndex :: "TableMetadata \<Rightarrow> string \<Rightarrow> IndexMetadata option" where
  "table_GetIndex t name =
     map_of (internalIndexes t) (normalizeNameByCaseSensitivity name (tm_isDetailCaseSensitive t))"

definition ListIndexes :: "range_order \<Rightarrow> TableMetadata \<Rightarrow> IndexMetadata list" where
  "ListIndexes ord t = map snd (go_range (ord Site_ListIndexes) (internalIndexes t))"

definition GetPrimaryKey :: "range_order \<Rightarrow> TableMetadata \<Rightarrow> IndexMetadata option" where
  "GetPrimaryKey ord t =
     List.find (\<lambda>index. idx_primary (im_proto index))
       (map snd (go_range (ord Site_GetPrimaryKey) (internalIndexes t)))"

definition ext_GetColumn :: "ExternalTableMetadata \<Rightarrow> string \<Rightarrow> storepb_ColumnMetadata option" where
  "ext_GetColumn t name =
     map_of (em_internal t) (normalizeNameByCaseSensitivity name (em_isDetailCaseSensitive t))"

text \<open>An index by name: the tables first, then the materialized views.\<close>

definition schema_GetIndex :: "range_order \<Rightarrow> SchemaMetadata \<Rightarrow> string \<Rightarrow> IndexMetadata option" where
  "schema_GetIndex ord s name =
     (case List.map_filter (\<lambda>(_, table). table_GetIndex table name)
             (go_range (ord Site_GetIndex_tables) (internalTables s)) of
        index # _ \<Rightarrow> Some index
      | [] \<Rightarrow>
         (let nameID = normalizeNameByCaseSensitivity name (sm_isObjectCaseSensitive s)
          in map_option
               (\<lambda>(mv, idx). \<lparr>im_tableProto = zero_TableMetadata\<lparr>tbl_name := mv_name mv\<rparr>, im_proto = idx\<rparr>)
               (List.find
                  (\<lambda>(mv, idx). normalizeNameByCaseSensitivity (idx_name idx) (sm_isObjectCaseSensitive s) = nameID)
                  (concat (map (\<lambda>(_, mv). map (Pair mv) (mv_indexes mv))
                     (go_range (ord Site_GetIndex_mvs) (internalMaterializedView s)))))))"

definition dependency_matches :: "SchemaMetadata \<Rightarrow> string \<Rightarrow> string \<Rightarrow> storepb_DependencyColumn \<Rightarrow> bool" where
  "dependency_matches s tableName columnName dep =
     ((if sm_isObjectCaseSensitive s then depc_table dep = tableName
       else EqualFold (depc_table dep) tableName) \<and>
      (columnName = [] \<or>
       (if sm_isDetailCaseSensitive s then depc_column dep = columnName
        else EqualFold (depc_column dep) columnName)))"

definition GetDependentViews :: "range_order \<Rightarrow> SchemaMetadata \<Rightarrow> string \<Rightarrow> string \<Rightarrow> string list" where
  "GetDependentViews ord s tableName columnName =
     map (\<lambda>(_, view). view_name view)
       (filter (\<lambda>(_, view). list_ex (dependency_matches s tableName columnName) (view_dependency_columns view))
         (go_range (ord Site_DependentViews) (internalViews s)))"

text \<open>Every field is copied, so a database replaced from another is the other.\<close>

definition ReplaceFrom :: "DatabaseMetadata \<Rightarrow> DatabaseMetadata \<Rightarrow> DatabaseMetadata" where
  "ReplaceFrom d other = d
     \<lparr>dm_proto := dm_proto other,
      dm_config := dm_config other,
      dm_rawDump := dm_rawDump other,
      dm_isObjectCaseSensitive := dm_isObjectCaseSensitive other,
      dm_isDetailCaseSensitive := dm_isDetailCaseSensitive other,
      dm_searchPath := dm_searchPath other,
      dm_internal := dm_internal other,
      dm_linkedDatabase := dm_linkedDatabase other\<rparr>"

lemma ReplaceFrom_eq [simp]: "ReplaceFrom d other = other"
  by (simp add: ReplaceFrom_def)

end
