(* ===== verification/Comparers.thy ===== *)
theory Comparers
  imports SchemaModel
begin

text \<open>
  The comparison interfaces of \<^verbatim>\<open>backend/plugin/schema\<close>: \<open>expression_comparer.go\<close>,
  \<open>index_comparer.go\<close>, \<open>view_comparer.go\<close>, \<open>function_comparer.go\<close>.  Each Go interface is a
  locale with the laws the differ relies on, interpreted on the comparer that the program
  registers for every engine (the default one).
\<close>


section \<open>Expressions\<close>

definition compareExpressionsGeneric :: "string \<Rightarrow> string \<Rightarrow> bool" where
  "compareExpressionsGeneric expr1 expr2 =
     (if expr1 = expr2 then True
      else if TrimSpace expr1 = [] \<and> TrimSpace expr2 = [] then True
      else if TrimSpace expr1 = [] \<or> TrimSpace expr2 = [] then False
      else
        let norm1 = Join (Fields expr1) '' '';
            norm2 = Join (Fields expr2) '' ''
        in EqualFold norm1 norm2)"

definition CompareExpressionsSemantically :: "Engine \<Rightarrow> string \<Rightarrow> string \<Rightarrow> bool" where
  "CompareExpressionsSemantically engine expr1 expr2 = compareExpressionsGeneric expr1 expr2"

text \<open>The abstract meaning: equal words, up to the case of letters.\<close>

definition expr_norm :: "string \<Rightarrow> string" where
  "expr_norm e = ToLower (Join (Fields e) '' '')"

lemma dropWhile_TrimSpace: "TrimSpace s = [] \<longleftrightarrow> dropWhile is_space s = []"
proof
  assume *: "TrimSpace s = []"
  show "dropWhile is_space s = []"
  proof (rule ccontr)
    assume "dropWhile is_space s \<noteq> []"
    then obtain c t where ct: "dropWhile is_space s = c # t" and "\<not> is_space c"
      by (metis hd_dropWhile list.collapse)
    from * have "\<forall>x \<in> set (dropWhile is_space s). is_space x"
      by (simp add: TrimSpace_def)
    with ct \<open>\<not> is_space c\<close> show False by simp
  qed
qed (auto simp: TrimSpace_def dest: set_dropWhileD)

lemma Fields_Nil_iff: "Fields s = [] \<longleftrightarrow> TrimSpace s = []"
  by (subst Fields.simps) (simp add: dropWhile_TrimSpace del: dropWhile_eq_Nil_conv split: list.splits)

lemma Fields_nonempty: "w \<in> set (Fields s) \<Longrightarrow> w \<noteq> []"
proof (induction s rule: Fields.induct)
  case (1 s)
  show ?case
  proof (cases "dropWhile is_space s")
    case Nil
    with "1.prems" show ?thesis by (subst (asm) Fields.simps) simp
  next
    case (Cons c t)
    then have "\<not> is_space c" by (metis hd_dropWhile list.distinct(1) list.sel(1))
    with "1.prems" Cons have
      "w = c # takeWhile (Not \<circ> is_space) t \<or> w \<in> set (Fields (dropWhile (Not \<circ> is_space) t))"
      by (subst (asm) Fields.simps) simp
    with "1.IH" [OF Cons] show ?thesis by blast
  qed
qed

lemma Join_Nil_iff: "\<forall>w \<in> set ws. w \<noteq> [] \<Longrightarrow> Join ws sep = [] \<longleftrightarrow> ws = []"
  by (cases "(ws, sep)" rule: Join.cases) auto

lemma expr_norm_Nil_iff: "expr_norm e = [] \<longleftrightarrow> TrimSpace e = []"
  using Fields_nonempty by (auto simp: expr_norm_def ToLower_def Join_Nil_iff Fields_Nil_iff)

lemma compareExpressionsGeneric_iff: "compareExpressionsGeneric a b \<longleftrightarrow> expr_norm a = expr_norm b"
  unfolding compareExpressionsGeneric_def
  by (auto simp: Let_def EqualFold_def simp flip: expr_norm_def expr_norm_Nil_iff)

locale expression_comparer =
  fixes cmp :: "string \<Rightarrow> string \<Rightarrow> bool"
  assumes cmp_refl: "cmp a a"
    and cmp_sym: "cmp a b \<Longrightarrow> cmp b a"
    and cmp_trans: "cmp a b \<Longrightarrow> cmp b c \<Longrightarrow> cmp a c"
begin

lemma cmp_cong: "cmp a b \<Longrightarrow> cmp a c \<longleftrightarrow> cmp b c"
  by (blast intro: cmp_sym cmp_trans)

end

interpretation sem: expression_comparer "CompareExpressionsSemantically engine" for engine
  by unfold_locales (simp_all add: CompareExpressionsSemantically_def compareExpressionsGeneric_iff)

lemma CompareExpressions_refl [equal_refl]: "CompareExpressionsSemantically engine e e"
  by (rule sem.cmp_refl)


section \<open>Index predicates\<close>

definition ExtractWhereClauseFromIndexDef :: "string \<Rightarrow> string" where
  "ExtractWhereClauseFromIndexDef defn =
     (if defn = [] then []
      else case Index (ToUpper defn) '' WHERE '' of
             None \<Rightarrow> []
           | Some whereIdx \<Rightarrow>
               TrimSpace (TrimSuffix (TrimSpace (drop (whereIdx + 7) defn)) '';''))"

definition CompareIndexWhereConditions :: "string \<Rightarrow> string \<Rightarrow> bool" where
  "CompareIndexWhereConditions def1 def2 =
     (ExtractWhereClauseFromIndexDef def1 = ExtractWhereClauseFromIndexDef def2)"

locale index_comparer =
  fixes compare_where :: "string \<Rightarrow> string \<Rightarrow> bool" and where_of :: "string \<Rightarrow> string"
  assumes where_iff: "compare_where d1 d2 \<longleftrightarrow> where_of d1 = where_of d2"
    and no_where: "\<not> Contains (ToUpper d) '' WHERE '' \<Longrightarrow> where_of d = []"
begin

lemma where_refl: "compare_where d d"
  by (simp add: where_iff)

lemma where_both_absent:
  "\<not> Contains (ToUpper d1) '' WHERE '' \<Longrightarrow> \<not> Contains (ToUpper d2) '' WHERE '' \<Longrightarrow> compare_where d1 d2"
  by (simp add: where_iff no_where)

end

text \<open>The registry holds the default comparer for every engine that registers one, and
  \<open>GetIndexComparer\<close> falls back to the same comparer.\<close>

definition GetIndexComparer :: "Engine \<Rightarrow> string \<Rightarrow> string \<Rightarrow> bool" where
  "GetIndexComparer engine = CompareIndexWhereConditions"

interpretation default_index: index_comparer "GetIndexComparer engine" ExtractWhereClauseFromIndexDef
  for engine
  by unfold_locales
    (auto simp: GetIndexComparer_def CompareIndexWhereConditions_def ExtractWhereClauseFromIndexDef_def
      Contains_def)


section \<open>Views\<close>

datatype ViewChangeType =
  ViewChangeNone | ViewChangeDefinition | ViewChangeComment | ViewChangeColumn
| ViewChangeTrigger | ViewChangeOther

record ViewChange =
  vc_Type :: ViewChangeType
  vc_Description :: string
  vc_RequiresRecreation :: bool

datatype MaterializedViewChangeType =
  MaterializedViewChangeNone | MaterializedViewChangeDefinition | MaterializedViewChangeComment
| MaterializedViewChangeIndex | MaterializedViewChangeTrigger | MaterializedViewChangeOther

record MaterializedViewChange =
  mvc_Type :: MaterializedViewChangeType
  mvc_Description :: string
  mvc_RequiresRecreation :: bool

text \<open>The result of a comparer: the changes, or an error (\<open>Inl\<close>).\<close>

type_synonym 'a comparison = "string + 'a list"

definition CompareView ::
  "storepb_ViewMetadata option \<Rightarrow> storepb_ViewMetadata option \<Rightarrow> ViewChange comparison" where
  "CompareView oldView newView =
     (case (oldView, newView) of
        (Some old, Some new) \<Rightarrow>
          Inr ((if view_definition old \<noteq> view_definition new
                then [\<lparr>vc_Type = ViewChangeDefinition, vc_Description = ''View definition changed'',
                       vc_RequiresRecreation = True\<rparr>] else []) @
               (if view_comment old \<noteq> view_comment new
                then [\<lparr>vc_Type = ViewChangeComment, vc_Description = ''View comment changed'',
                       vc_RequiresRecreation = False\<rparr>] else []))
      | _ \<Rightarrow> Inr [])"

definition CompareMaterializedView ::
  "storepb_MaterializedViewMetadata option \<Rightarrow> storepb_MaterializedViewMetadata option \<Rightarrow>
   MaterializedViewChange comparison" where
  "CompareMaterializedView oldMV newMV =
     (case (oldMV, newMV) of
        (Some old, Some new) \<Rightarrow>
          Inr ((if mv_definition old \<noteq> mv_definition new
                then [\<lparr>mvc_Type = MaterializedViewChangeDefinition,
                       mvc_Description = ''Materialized view definition changed'',
                       mvc_RequiresRecreation = True\<rparr>] else []) @
               (if mv_comment old \<noteq> mv_comment new
                then [\<lparr>mvc_Type = MaterializedViewChangeComment,
                       mvc_Description = ''Materialized view comment changed'',
                       mvc_RequiresRecreation = False\<rparr>] else []))
      | _ \<Rightarrow> Inr [])"

definition GetViewComparer_view ::
  "Engine \<Rightarrow> storepb_ViewMetadata option \<Rightarrow> storepb_ViewMetadata option \<Rightarrow> ViewChange comparison" where
  "GetViewComparer_view engine = CompareView"

definition GetViewComparer_mv ::
  "Engine \<Rightarrow> storepb_MaterializedViewMetadata option \<Rightarrow> storepb_MaterializedViewMetadata option \<Rightarrow>
   MaterializedViewChange comparison" where
  "GetViewComparer_mv engine = CompareMaterializedView"

locale view_comparer =
  fixes compare_view :: "storepb_ViewMetadata option \<Rightarrow> storepb_ViewMetadata option \<Rightarrow> ViewChange comparison"
    and compare_mv :: "storepb_MaterializedViewMetadata option \<Rightarrow> storepb_MaterializedViewMetadata option \<Rightarrow>
      MaterializedViewChange comparison"
  assumes view_same: "compare_view (Some v) (Some v) = Inr []"
    and mv_same: "compare_mv (Some m) (Some m) = Inr []"
    and view_recreate:
      "compare_view (Some v) (Some w) = Inr cs \<Longrightarrow>
       list_ex vc_RequiresRecreation cs \<longleftrightarrow> view_definition v \<noteq> view_definition w"
    and mv_recreate:
      "compare_mv (Some m) (Some n) = Inr ds \<Longrightarrow>
       list_ex mvc_RequiresRecreation ds \<longleftrightarrow> mv_definition m \<noteq> mv_definition n"

interpretation default_view: view_comparer "GetViewComparer_view engine" "GetViewComparer_mv engine"
  for engine
  by unfold_locales
    (auto simp: GetViewComparer_view_def GetViewComparer_mv_def CompareView_def CompareMaterializedView_def
      split: if_splits)

text \<open>
  Expressions are compared by the words in them: equal exactly when their words, joined by
  single blanks and in lower case, are the same, for every engine; so the comparison is an
  equivalence relation.
\<close>
lemma expressions_compared_by_words:
  "(CompareExpressionsSemantically engine a b \<longleftrightarrow> expr_norm a = expr_norm b) \<and>
   equivp (CompareExpressionsSemantically engine)"
proof
  show iff: "CompareExpressionsSemantically engine a b \<longleftrightarrow> expr_norm a = expr_norm b" for a b
    by (simp add: CompareExpressionsSemantically_def compareExpressionsGeneric_iff)
  show "equivp (CompareExpressionsSemantically engine)"
    by (rule equivpI) (auto simp: reflp_def symp_def transp_def iff)
qed

end
