(* ===== verification/DiffNormalize.thy ===== *)
theory DiffNormalize
  imports Comparers
begin

text \<open>
  The textual normalizations of \<^verbatim>\<open>backend/plugin/schema/differ.go\<close>: PostgreSQL defaults, check
  constraints, trigger bodies, function and procedure definitions.  A function that can index a
  string out of range returns an option; \<open>None\<close> is the panic.  \<open>quote\<close> is the character
  code 39.
\<close>

abbreviation quote :: char where
  "quote \<equiv> CHR 0x27"


section \<open>Default values\<close>

definition normalizePostgreSQLTypecastInDefault :: "string \<Rightarrow> string" where
  "normalizePostgreSQLTypecastInDefault defaultValue =
     (if defaultValue = [] then []
      else
        let n0 = TrimSpace defaultValue;
            n1 = ReplaceAll n0 (quote # ''::interval'') [quote];
            n2 = ReplaceAll n1 (quote # ''::timestamp'') [quote];
            n3 = ReplaceAll n2 (quote # ''::date'') [quote];
            n4 = ReplaceAll n3 (quote # ''::time'') [quote];
            n5 = ReplaceAll n4 (quote # ''::numeric'') [quote];
            n6 = ReplaceAll n5 (quote # ''::character varying'') [quote];
            n7 = ReplaceAll n6 (quote # ''::bpchar'') [quote];
            n8 = ReplaceAll n7 (quote # ''::text'') [quote];
            n9 = ReplaceAll n8 (quote # ''::varchar'') [quote]
        in ReplaceAll n9 (quote # ''::character'') [quote])"


section \<open>IN lists and ANY arrays\<close>

text \<open>The removal of a pair of quotes in both extraction loops: \<open>part[0]\<close> panics on an empty
  part, \<open>part[1 : len(part)-1]\<close> on a part that is one quote.\<close>

definition unquote_part :: "string \<Rightarrow> string option" where
  "unquote_part part =
     (case byte_at part 0 of
        None \<Rightarrow> None
      | Some c \<Rightarrow>
          if c = quote \<and> last part = quote \<or> c = CHR 0x22 \<and> last part = CHR 0x22
          then slice part 1 (length part - 1)
          else Some part)"

text \<open>The outer option is the panic, the inner one Go's nil.\<close>

definition extractInValues :: "string \<Rightarrow> string list option option" where
  "extractInValues expr =
     (case Index expr '' IN'' of
        None \<Rightarrow> Some None
      | Some inIndex \<Rightarrow>
          (case Index (drop inIndex expr) ''('' of
             None \<Rightarrow> Some None
           | Some p \<Rightarrow>
               let openParen = p + inIndex in
               (case LastIndex expr '')'' of
                  None \<Rightarrow> Some None
                | Some closeParen \<Rightarrow>
                    if closeParen \<le> openParen then Some None
                    else
                      let valuesStr = take (closeParen - (openParen + 1)) (drop (openParen + 1) expr)
                      in map_option Some
                           (map_panic (\<lambda>part. unquote_part (TrimSpace part)) (Split valuesStr '','')))))"

definition extractAnyValues :: "string \<Rightarrow> string list option option" where
  "extractAnyValues expr =
     (case Index expr ''ARRAY['' of
        None \<Rightarrow> Some None
      | Some arrayIndex \<Rightarrow>
          (case Index (drop arrayIndex expr) '']'' of
             None \<Rightarrow> Some None
           | Some p \<Rightarrow>
               let closeBracket = p + arrayIndex;
                   valuesStr = take (closeBracket - (arrayIndex + 6)) (drop (arrayIndex + 6) expr)
               in map_option Some
                    (map_panic (\<lambda>part. unquote_part (TrimSuffix (TrimSpace part) ''::text''))
                      (Split valuesStr '',''))))"

definition compareInVsAnyValues :: "string \<Rightarrow> string \<Rightarrow> bool option" where
  "compareInVsAnyValues inExpr anyExpr =
     (case extractInValues inExpr of
        None \<Rightarrow> None
      | Some None \<Rightarrow> Some False
      | Some (Some inValues) \<Rightarrow>
          (case extractAnyValues anyExpr of
             None \<Rightarrow> None
           | Some None \<Rightarrow> Some False
           | Some (Some anyValues) \<Rightarrow>
               if length inValues \<noteq> length anyValues then Some False
               else
                 let inMap = map_by id (\<lambda>_. True) inValues;
                     anyMap = map_by id (\<lambda>_. True) anyValues
                 in Some (list_all (has_key anyMap) (map fst inMap))))"

definition isPostgreSQLInAnyEquivalent :: "string \<Rightarrow> string \<Rightarrow> bool option" where
  "isPostgreSQLInAnyEquivalent e1 e2 =
     (let expr1 = TrimSpace e1;
          expr2 = TrimSpace e2
      in if (Contains expr1 '' IN('' \<or> Contains expr1 '' IN ('') \<and>
            Contains expr2 '' = ANY (ARRAY['' \<and> Contains expr2 ''::text''
         then
           let inParts = Split expr1 '' IN''
           in if length inParts \<ge> 2
              then
                let column1 = TrimPrefix (TrimSpace (hd inParts)) ''(''
                in if HasPrefix expr2 (''('' @ column1 @ '' = ANY'') \<or>
                      HasPrefix expr2 (column1 @ '' = ANY'')
                   then compareInVsAnyValues expr1 expr2
                   else Some False
              else Some False
         else Some False)"


section \<open>Check constraints\<close>

text \<open>The scan of the inner text: no closing parenthesis without an open one, none left open.\<close>

fun balanced_from :: "nat \<Rightarrow> string \<Rightarrow> bool" where
  "balanced_from parenCount [] = (parenCount = 0)"
| "balanced_from parenCount (ch # s) =
     (if ch = CHR ''('' then balanced_from (Suc parenCount) s
      else if ch = CHR '')'' then (if parenCount = 0 then False else balanced_from (parenCount - 1) s)
      else balanced_from parenCount s)"

text \<open>Step 1: remove the parentheses around the whole expression.\<close>

function strip_parens :: "string \<Rightarrow> string" where
  "strip_parens expression =
     (if HasPrefix expression ''('' \<and> HasSuffix expression '')'' \<and>
         balanced_from 0 (butlast (tl expression))
      then strip_parens (butlast (tl expression))
      else expression)"
  by pat_completeness auto
termination
proof (relation "measure length")
  fix e :: string
  assume "HasPrefix e ''('' \<and> HasSuffix e '')'' \<and> balanced_from 0 (butlast (tl e))"
  then show "(butlast (tl e), e) \<in> measure length" by (cases e) (auto simp: HasPrefix_def)
qed simp

declare strip_parens.simps [simp del]

definition normalizePostgreSQLCheckConstraint :: "string \<Rightarrow> string" where
  "normalizePostgreSQLCheckConstraint expression =
     (let e1 = strip_parens (TrimSpace expression);
          e2 = ReplaceAll e1 (quote # ''::interval'') [quote];
          e3 = (if Contains e2 ''CURRENT_DATE'' \<and> Contains e2 [quote] \<and> \<not> Contains e2 ''INTERVAL''
                then ReplaceAll
                       (ReplaceAll e2 (''CURRENT_DATE - '' @ [quote]) (''CURRENT_DATE - INTERVAL '' @ [quote]))
                       (''CURRENT_DATE + '' @ [quote]) (''CURRENT_DATE + INTERVAL '' @ [quote])
                else e2);
          e4 = ReplaceAll e3 ''(CURRENT_DATE - INTERVAL'' ''CURRENT_DATE - INTERVAL'';
          e5 = ReplaceAll e4 ''(CURRENT_DATE + INTERVAL'' ''CURRENT_DATE + INTERVAL'';
          e6 = (if Contains e5 (''year'' @ [quote]) \<and> Contains e5 ''INTERVAL''
                then ReplaceAll e5 (''year'' @ [quote] @ '')'') (''year'' @ [quote])
                else e5);
          e7 = ReplaceAll e6 ('' 00:00:00'' @ [quote] @ ''::timestamp without time zone'')
                 (quote # ''::timestamp'');
          e8 = ReplaceAll e7 ''::numeric'' []
      in TrimSpace e8)"


section \<open>Trigger bodies\<close>

definition normalizeTriggerBody :: "string \<Rightarrow> string" where
  "normalizeTriggerBody body =
     (if body = [] then []
      else
        let n1 = ReplaceAll body '' '' [];
            n2 = ReplaceAll n1 [CHR 0x0D, CHR 0x0A] [];
            n3 = ReplaceAll n2 [CHR 0x0D] [];
            n4 = ReplaceAll n3 [CHR 0x0A] [];
            n5 = ReplaceAll n4 [CHR 0x09] []
        in ToUpper n5)"

text \<open>Reference definition: drop blanks, line breaks and tabs, ignore case.\<close>

definition trigger_blank :: "char \<Rightarrow> bool" where
  "trigger_blank c \<longleftrightarrow> c \<in> {CHR '' '', CHR 0x0D, CHR 0x0A, CHR 0x09}"

lemma filter_ReplaceAll_delete:
  "(\<And>c. c \<in> set old \<Longrightarrow> \<not> p c) \<Longrightarrow> filter p (ReplaceAll s old []) = filter p s"
proof (induction s old "[] :: string" rule: ReplaceAll.induct)
  case (1 old)
  then show ?case by simp
next
  case (2 c s old)
  show ?case
  proof (cases "HasPrefix (c # s) old \<and> old \<noteq> []")
    case True
    then obtain t where t: "c # s = old @ t" by (auto elim: HasPrefixE)
    from True obtain d ds where old: "old = d # ds" by (cases old) auto
    with t have s: "drop (length old - 1) s = t" by auto
    have none: "filter p old = []" using "2.prems" by (simp add: filter_empty_conv)
    have "filter p (ReplaceAll (c # s) old []) = filter p (ReplaceAll t old [])"
      using True s by simp
    also have "\<dots> = filter p t"
      using "2.hyps"(1) [OF True "2.prems"] s by simp
    also have "\<dots> = filter p (c # s)"
      unfolding t by (simp add: none)
    finally show ?thesis .
  next
    case False
    then have "ReplaceAll (c # s) old [] = c # ReplaceAll s old []" by auto
    with "2.hyps"(2) [OF False "2.prems"] show ?thesis by simp
  qed
qed

lemma normalizeTriggerBody_eq:
  "normalizeTriggerBody body = ToUpper (filter (\<lambda>c. \<not> trigger_blank c) body)"
proof -
  let ?p = "\<lambda>c. c \<noteq> CHR 0x0D \<and> c \<noteq> CHR 0x0A \<and> c \<noteq> CHR 0x09"
  have "filter ?p (ReplaceAll (ReplaceAll body '' '' []) [CHR 0x0D, CHR 0x0A] []) =
        filter ?p (ReplaceAll body '' '' [])"
    by (rule filter_ReplaceAll_delete) auto
  then have "filter (\<lambda>c. c \<noteq> CHR 0x09) (filter (\<lambda>c. c \<noteq> CHR 0x0A) (filter (\<lambda>c. c \<noteq> CHR 0x0D)
       (ReplaceAll (ReplaceAll body '' '' []) [CHR 0x0D, CHR 0x0A] []))) =
     filter (\<lambda>c. \<not> trigger_blank c) body"
    by (simp add: filter_filter ReplaceAll_single trigger_blank_def conj_ac cong: conj_cong)
  then show ?thesis
    by (simp add: normalizeTriggerBody_def ReplaceAll_single Let_def ToUpper_def)
qed


section \<open>Functions and procedures\<close>

text \<open>The loop that removes extra spaces ends because each round shortens the text.\<close>

function collapse_spaces :: "string \<Rightarrow> string" where
  "collapse_spaces s =
     (if Contains s ''  '' then collapse_spaces (ReplaceAll s ''  '' '' '') else s)"
  by pat_completeness auto
termination
  by (relation "measure length") (auto intro: length_ReplaceAll_less)

declare collapse_spaces.simps [simp del]

lemma collapse_spaces_single: "\<not> Contains (collapse_spaces s) ''  ''"
proof (induction s rule: collapse_spaces.induct)
  case (1 s)
  then show ?case by (subst collapse_spaces.simps) simp
qed

lemma collapse_spaces_id: "\<not> Contains s ''  '' \<Longrightarrow> collapse_spaces s = s"
  by (subst collapse_spaces.simps) simp

definition normalizePostgreSQLFunction :: "string \<Rightarrow> string" where
  "normalizePostgreSQLFunction defn =
     (if defn = [] then []
      else
        let n0 = ToLower defn;
            n1 = ReplaceAll n0 [CHR 0x0A] '' '';
            n2 = ReplaceAll n1 [CHR 0x09] '' '';
            n3 = collapse_spaces n2;
            n4 = ReplaceAll n3 ''create or replace function'' ''create function'';
            n5 = ReplaceAll n4 ''create or replace procedure'' ''create procedure'';
            n6 = ReplaceAll n5 ''function public.'' ''function '';
            n7 = ReplaceAll n6 ''procedure public.'' ''procedure '';
            n8 = ReplaceAll n7 ''character varying'' ''varchar'';
            n9 = ReplaceAll n8 ''returns numeric'' ''returns decimal'';
            n10 = ReplaceAll n9 ''$function$'' ''$$'';
            n11 = ReplaceAll n10 ''$procedure$'' ''$$'';
            n12 = (if Contains n11 ''language plpgsql'' \<and> \<not> HasSuffix (TrimSpace n11) ''language plpgsql''
                   then
                     let w1 = ReplaceAll n11 '' language plpgsql'' [];
                         w2 = ReplaceAll w1 ''language plpgsql '' []
                     in TrimSpace w2 @ '' language plpgsql''
                   else n11)
        in TrimSpace n12)"

definition functionsEqual :: "storepb_FunctionMetadata \<Rightarrow> storepb_FunctionMetadata \<Rightarrow> bool" where
  "functionsEqual fn1 fn2 =
     (if fn_definition fn1 \<noteq> fn_definition fn2 \<and>
         normalizePostgreSQLFunction (fn_definition fn1) \<noteq> normalizePostgreSQLFunction (fn_definition fn2)
      then False
      else if fn_character_set_client fn1 \<noteq> fn_character_set_client fn2 then False
      else if fn_collation_connection fn1 \<noteq> fn_collation_connection fn2 then False
      else if fn_database_collation fn1 \<noteq> fn_database_collation fn2 then False
      else if fn_sql_mode fn1 \<noteq> fn_sql_mode fn2 then False
      else if fn_comment fn1 \<noteq> fn_comment fn2 then False
      else True)"

definition procedureDefinitionsEqual :: "string \<Rightarrow> string \<Rightarrow> bool" where
  "procedureDefinitionsEqual def1 def2 =
     (if def1 = def2 then True
      else normalizePostgreSQLFunction def1 = normalizePostgreSQLFunction def2)"

lemma functionsEqual_refl [equal_refl]: "functionsEqual f f"
  by (simp add: functionsEqual_def)

lemma functionsEqual_iff:
  "functionsEqual f g \<longleftrightarrow>
     normalizePostgreSQLFunction (fn_definition f) = normalizePostgreSQLFunction (fn_definition g) \<and>
     fn_character_set_client f = fn_character_set_client g \<and>
     fn_collation_connection f = fn_collation_connection g \<and>
     fn_database_collation f = fn_database_collation g \<and>
     fn_sql_mode f = fn_sql_mode g \<and> fn_comment f = fn_comment g"
  by (auto simp: functionsEqual_def)

lemma procedureDefinitionsEqual_refl [equal_refl]: "procedureDefinitionsEqual d d"
  by (simp add: procedureDefinitionsEqual_def)


section \<open>The function comparer\<close>

text \<open>\<^verbatim>\<open>backend/plugin/schema/function_comparer.go\<close>.\<close>

record FunctionComparisonResult =
  SignatureChanged :: bool
  BodyChanged :: bool
  AttributesChanged :: bool
  ChangedAttributes :: "string list"
  RequiresRecreation :: bool
  CanUseAlterFunction :: bool

definition function_Equal ::
  "storepb_FunctionMetadata option \<Rightarrow> storepb_FunctionMetadata option \<Rightarrow> bool" where
  "function_Equal oldFunc newFunc =
     (case (oldFunc, newFunc) of
        (Some old, Some new) \<Rightarrow> functionsEqual old new
      | _ \<Rightarrow> oldFunc = newFunc)"

definition CompareDetailed ::
  "storepb_FunctionMetadata \<Rightarrow> storepb_FunctionMetadata \<Rightarrow> string + FunctionComparisonResult option" where
  "CompareDetailed oldFunc newFunc =
     (if functionsEqual oldFunc newFunc then Inr None
      else Inr (Some \<lparr>SignatureChanged = True, BodyChanged = True, AttributesChanged = False,
                      ChangedAttributes = [], RequiresRecreation = False,
                      CanUseAlterFunction = False\<rparr>))"

definition GetFunctionComparer ::
  "Engine \<Rightarrow> storepb_FunctionMetadata \<Rightarrow> storepb_FunctionMetadata \<Rightarrow>
   string + FunctionComparisonResult option" where
  "GetFunctionComparer engine = CompareDetailed"

locale function_comparer =
  fixes detailed :: "storepb_FunctionMetadata \<Rightarrow> storepb_FunctionMetadata \<Rightarrow>
      string + FunctionComparisonResult option"
    and fn_equal :: "storepb_FunctionMetadata \<Rightarrow> storepb_FunctionMetadata \<Rightarrow> bool"
  assumes detailed_None_iff: "detailed f g = Inr None \<longleftrightarrow> fn_equal f g"
    and fn_equal_same: "fn_equal f f"
begin

lemma detailed_same: "detailed f f = Inr None"
  by (simp add: detailed_None_iff fn_equal_same)

end

interpretation default_function: function_comparer "GetFunctionComparer engine" functionsEqual
  for engine
  by unfold_locales (auto simp: GetFunctionComparer_def CompareDetailed_def equal_refl)

section \<open>What the extraction loops do\<close>

lemma unquote_part_None_iff:
  "unquote_part p = None \<longleftrightarrow> p = [] \<or> p = [quote] \<or> p = [CHR 0x22]"
proof (cases p)
  case (Cons c cs)
  then show ?thesis by (cases cs rule: rev_cases) (auto simp: unquote_part_def byte_at_def slice_def)
qed (simp add: unquote_part_def byte_at_def)

text \<open>
  The comparison of an IN list with an ANY array holds exactly when both lists can be read,
  have the same length, and every value of the IN list is in the array.  The converse inclusion is
  not checked: duplicates can hide a missing value (see the example after it).
\<close>
lemma in_vs_any_iff:
  "compareInVsAnyValues e1 e2 = Some True \<longleftrightarrow>
    (\<exists>xs ys. extractInValues e1 = Some (Some xs) \<and> extractAnyValues e2 = Some (Some ys) \<and>
       length xs = length ys \<and> set xs \<subseteq> set ys)"
proof -
  have "list_all (has_key (map_by id (\<lambda>_. True) ys)) (map fst (map_by id (\<lambda>_. True) xs)) \<longleftrightarrow> set xs \<subseteq> set ys"
    for xs ys :: "string list"
  proof -
    have key: "has_key (map_by id (\<lambda>_. True) zs) k \<longleftrightarrow> k \<in> set zs" for zs k
      using map_by_None_iff [of id "\<lambda>_. True" zs k] by (auto simp: has_key_def)
    have "set (map fst (map_by id (\<lambda>_. True) xs)) = set xs"
      using key [of xs] by (auto simp: has_key_def map_of_eq_None_iff)
    then show ?thesis unfolding list_all_iff key by auto
  qed
  then show ?thesis by (auto simp: compareInVsAnyValues_def Let_def split: option.splits if_splits)
qed

text \<open>
  Two check constraints that admit different values are taken for equivalent:
  \<^verbatim>\<open>x IN ('A', 'A')\<close> and an array of 'A' and 'B'.
\<close>
lemma in_any_false_positive:
  "isPostgreSQLInAnyEquivalent
     (''x IN ('' @ [quote] @ ''A'' @ [quote] @ '', '' @ [quote] @ ''A'' @ [quote] @ '')'')
     (''(x = ANY (ARRAY['' @ [quote] @ ''A'' @ [quote] @ ''::text, '' @ [quote] @ ''B'' @ [quote] @ ''::text]))'') =
   Some True"
  by code_simp

text \<open>
  The loop that squeezes the blanks of a function definition ends with no two blanks in a row,
  and leaves a definition that has none as it is.
\<close>
lemma collapse_spaces_result:
  "\<not> Contains (collapse_spaces s) ''  '' \<and> (Contains s ''  '' \<or> collapse_spaces s = s)"
  using collapse_spaces_single collapse_spaces_id by blast

theorem collapse_spaces_result_witness: "collapse_spaces ''a b'' = ''a b''"
proof -
  have "\<not> Contains ''a b'' ''  ''" by code_simp
  then show ?thesis using collapse_spaces_result by blast
qed

end
