(* ===== verification/DiffEqual.thy ===== *)
theory DiffEqual
  imports DiffNormalize
begin

text \<open>
  The equality checks of \<^verbatim>\<open>backend/plugin/schema/differ.go\<close>: when two versions of a column, an
  index, a constraint, a partition, a trigger or a sequence count as unchanged.
\<close>

text \<open>The index loop over two slices of equal length.\<close>

definition slices_equal :: "'a list \<Rightarrow> 'a list \<Rightarrow> bool" where
  "slices_equal xs ys \<longleftrightarrow> length xs = length ys \<and> list_all (\<lambda>(x, y). x = y) (zip xs ys)"

lemma list_all_zip_eq:
  "length xs = length ys \<Longrightarrow> list_all (\<lambda>(x, y). x = y) (zip xs ys) \<longleftrightarrow> xs = ys"
  by (induction rule: list_induct2) auto

lemma slices_equal_iff [simp]: "slices_equal xs ys \<longleftrightarrow> xs = ys"
  by (auto simp: slices_equal_def list_all_zip_eq)


section \<open>Columns\<close>

definition defaultValuesEqual :: "storepb_ColumnMetadata \<Rightarrow> storepb_ColumnMetadata \<Rightarrow> bool" where
  "defaultValuesEqual col1 col2 =
     (if col_default col1 = col_default col2 then True
      else
        let normalized1 = normalizePostgreSQLTypecastInDefault (col_default col1);
            normalized2 = normalizePostgreSQLTypecastInDefault (col_default col2)
        in if normalized1 = normalized2 then True
           else CompareExpressionsSemantically Engine_POSTGRES (col_default col1) (col_default col2))"

definition generationMetadataEqual ::
  "Engine \<Rightarrow> storepb_GenerationMetadata option \<Rightarrow> storepb_GenerationMetadata option \<Rightarrow> bool" where
  "generationMetadataEqual engine gen1 gen2 =
     (case (gen1, gen2) of
        (None, None) \<Rightarrow> True
      | (Some g1, Some g2) \<Rightarrow>
          gen_type g1 = gen_type g2 \<and>
          CompareExpressionsSemantically engine (gen_expression g1) (gen_expression g2)
      | _ \<Rightarrow> False)"

definition columnsEqual :: "Engine \<Rightarrow> storepb_ColumnMetadata \<Rightarrow> storepb_ColumnMetadata \<Rightarrow> bool" where
  "columnsEqual engine col1 col2 =
     (if col_type col1 \<noteq> col_type col2 then False
      else if col_nullable col1 \<noteq> col_nullable col2 then False
      else if \<not> defaultValuesEqual col1 col2 then False
      else if col_comment col1 \<noteq> col_comment col2 then False
      else if col_character_set col1 \<noteq> col_character_set col2 then False
      else if col_collation col1 \<noteq> col_collation col2 then False
      else if col_on_update col1 \<noteq> col_on_update col2 then False
      else if col_default_on_null col1 \<noteq> col_default_on_null col2 then False
      else if \<not> generationMetadataEqual engine (col_generation col1) (col_generation col2) then False
      else if col_is_identity col1 \<noteq> col_is_identity col2 then False
      else if col_identity_generation col1 \<noteq> col_identity_generation col2 then False
      else if col_identity_seed col1 \<noteq> col_identity_seed col2 then False
      else True)"

lemma generationMetadataEqual_refl [equal_refl]: "generationMetadataEqual engine g g"
  by (simp add: generationMetadataEqual_def equal_refl split: option.splits)

lemma defaultValuesEqual_refl [equal_refl]: "defaultValuesEqual c c"
  by (simp add: defaultValuesEqual_def)

lemma columnsEqual_refl [equal_refl]: "columnsEqual engine c c"
  by (simp add: columnsEqual_def equal_refl)


section \<open>Indexes\<close>

definition isEffectivelyAllFalse :: "bool list \<Rightarrow> bool" where
  "isEffectivelyAllFalse arr = (if length arr = 0 then True else \<not> list_ex id arr)"

definition descendingArraysEqual :: "bool list \<Rightarrow> bool list \<Rightarrow> bool" where
  "descendingArraysEqual desc1 desc2 =
     (if isEffectivelyAllFalse desc1 \<and> isEffectivelyAllFalse desc2 then True
      else if length desc1 \<noteq> length desc2 then False
      else list_all (\<lambda>(val1, val2). val1 = val2) (zip desc1 desc2))"

definition boundingBoxesEqual :: "storepb_BoundingBox option \<Rightarrow> storepb_BoundingBox option \<Rightarrow> bool" where
  "boundingBoxesEqual bb1 bb2 =
     (case (bb1, bb2) of
        (None, None) \<Rightarrow> True
      | (Some b1, Some b2) \<Rightarrow>
          float64_eq (bb_xmin b1) (bb_xmin b2) \<and> float64_eq (bb_ymin b1) (bb_ymin b2) \<and>
          float64_eq (bb_xmax b1) (bb_xmax b2) \<and> float64_eq (bb_ymax b1) (bb_ymax b2)
      | _ \<Rightarrow> False)"

definition gridLevelsEqual :: "storepb_GridLevel list \<Rightarrow> storepb_GridLevel list \<Rightarrow> bool" where
  "gridLevelsEqual grids1 grids2 =
     (if length grids1 \<noteq> length grids2 then False
      else list_all (\<lambda>(grid1, grid2). \<not> (grid_level grid1 \<noteq> grid_level grid2 \<or>
                                        grid_density grid1 \<noteq> grid_density grid2))
             (zip grids1 grids2))"

definition tessellationConfigsEqual ::
  "storepb_TessellationConfig option \<Rightarrow> storepb_TessellationConfig option \<Rightarrow> bool" where
  "tessellationConfigsEqual cfg1 cfg2 =
     (case (cfg1, cfg2) of
        (None, None) \<Rightarrow> True
      | (Some c1, Some c2) \<Rightarrow>
          if tess_scheme c1 \<noteq> tess_scheme c2 then False
          else if \<not> boundingBoxesEqual (tess_bounding_box c1) (tess_bounding_box c2) then False
          else if \<not> gridLevelsEqual (tess_grid_levels c1) (tess_grid_levels c2) then False
          else if tess_cells_per_object c1 \<noteq> tess_cells_per_object c2 then False
          else True
      | _ \<Rightarrow> False)"

definition storageConfigsEqual :: "storepb_StorageConfig option \<Rightarrow> storepb_StorageConfig option \<Rightarrow> bool" where
  "storageConfigsEqual cfg1 cfg2 =
     (case (cfg1, cfg2) of
        (None, None) \<Rightarrow> True
      | (Some c1, Some c2) \<Rightarrow>
          sto_fillfactor c1 = sto_fillfactor c2 \<and>
          sto_buffering c1 = sto_buffering c2 \<and>
          sto_tablespace c1 = sto_tablespace c2 \<and>
          sto_work_tablespace c1 = sto_work_tablespace c2 \<and>
          sto_sdo_level c1 = sto_sdo_level c2 \<and>
          sto_commit_interval c1 = sto_commit_interval c2 \<and>
          sto_pad_index c1 = sto_pad_index c2 \<and>
          sto_sort_in_tempdb c1 = sto_sort_in_tempdb c2 \<and>
          sto_drop_existing c1 = sto_drop_existing c2 \<and>
          sto_online c1 = sto_online c2 \<and>
          sto_allow_row_locks c1 = sto_allow_row_locks c2 \<and>
          sto_allow_page_locks c1 = sto_allow_page_locks c2 \<and>
          sto_maxdop c1 = sto_maxdop c2 \<and>
          sto_data_compression c1 = sto_data_compression c2
      | _ \<Rightarrow> False)"

definition dimensionalConfigsEqual ::
  "storepb_DimensionalConfig option \<Rightarrow> storepb_DimensionalConfig option \<Rightarrow> bool" where
  "dimensionalConfigsEqual cfg1 cfg2 =
     (case (cfg1, cfg2) of
        (None, None) \<Rightarrow> True
      | (Some c1, Some c2) \<Rightarrow>
          dim_dimensions c1 = dim_dimensions c2 \<and>
          dim_data_type c1 = dim_data_type c2 \<and>
          dim_operator_class c1 = dim_operator_class c2 \<and>
          dim_layer_gtype c1 = dim_layer_gtype c2 \<and>
          dim_parallel_build c1 = dim_parallel_build c2
      | _ \<Rightarrow> False)"

definition spatialConfigsEqual ::
  "storepb_SpatialIndexConfig option \<Rightarrow> storepb_SpatialIndexConfig option \<Rightarrow> bool" where
  "spatialConfigsEqual cfg1 cfg2 =
     (case (cfg1, cfg2) of
        (None, None) \<Rightarrow> True
      | (Some c1, Some c2) \<Rightarrow>
          if sp_method c1 \<noteq> sp_method c2 then False
          else if \<not> tessellationConfigsEqual (sp_tessellation c1) (sp_tessellation c2) then False
          else if \<not> storageConfigsEqual (sp_storage c1) (sp_storage c2) then False
          else if \<not> dimensionalConfigsEqual (sp_dimensional c1) (sp_dimensional c2) then False
          else if length (sp_engine_specific c1) \<noteq> length (sp_engine_specific c2) then False
          else list_all (\<lambda>(key, val1). map_of (sp_engine_specific c2) key = Some val1)
                 (sp_engine_specific c1)
      | _ \<Rightarrow> False)"

definition indexesEqual :: "Engine \<Rightarrow> storepb_IndexMetadata \<Rightarrow> storepb_IndexMetadata \<Rightarrow> bool" where
  "indexesEqual engine idx1 idx2 =
     (if idx_type idx1 \<noteq> idx_type idx2 then False
      else if idx_unique idx1 \<noteq> idx_unique idx2 then False
      else if idx_primary idx1 \<noteq> idx_primary idx2 then False
      else if length (idx_expressions idx1) \<noteq> length (idx_expressions idx2) then False
      else if \<not> list_all (\<lambda>(e1, e2). CompareExpressionsSemantically engine e1 e2)
                 (zip (idx_expressions idx1) (idx_expressions idx2)) then False
      else if length (idx_key_length idx1) \<noteq> length (idx_key_length idx2) then False
      else if \<not> list_all (\<lambda>(l1, l2). l1 = l2) (zip (idx_key_length idx1) (idx_key_length idx2)) then False
      else if \<not> descendingArraysEqual (idx_descending idx1) (idx_descending idx2) then False
      else if idx_visible idx1 \<noteq> idx_visible idx2 then False
      else if \<not> spatialConfigsEqual (idx_spatial_config idx1) (idx_spatial_config idx2) then False
      else GetIndexComparer engine (idx_definition idx1) (idx_definition idx2))"

text \<open>Specification of the descending flags: missing flags are ascending ones.\<close>

lemma isEffectivelyAllFalse_iff: "isEffectivelyAllFalse arr \<longleftrightarrow> True \<notin> set arr"
  by (auto simp: isEffectivelyAllFalse_def list_ex_iff)

lemma descendingArraysEqual_iff:
  "descendingArraysEqual a b \<longleftrightarrow> a = b \<or> True \<notin> set a \<and> True \<notin> set b"
  by (auto simp: descendingArraysEqual_def isEffectivelyAllFalse_iff list_all_zip_eq)

text \<open>An index configuration that equals itself: no coordinate is NaN, and the engine-specific
  parameters form a map.\<close>

definition box_regular :: "storepb_BoundingBox \<Rightarrow> bool" where
  "box_regular b \<longleftrightarrow> \<not> is_NaN (bb_xmin b) \<and> \<not> is_NaN (bb_ymin b) \<and> \<not> is_NaN (bb_xmax b) \<and> \<not> is_NaN (bb_ymax b)"

definition index_regular :: "storepb_IndexMetadata \<Rightarrow> bool" where
  "index_regular idx \<longleftrightarrow>
     (case idx_spatial_config idx of
        None \<Rightarrow> True
      | Some c \<Rightarrow> distinct (map fst (sp_engine_specific c)) \<and>
          (case sp_tessellation c of
             None \<Rightarrow> True
           | Some t \<Rightarrow> (case tess_bounding_box t of None \<Rightarrow> True | Some b \<Rightarrow> box_regular b)))"

lemma list_all_zip_same: "(\<And>x. x \<in> set xs \<Longrightarrow> f x x) \<Longrightarrow> list_all (\<lambda>(x, y). f x y) (zip xs xs)"
  by (induction xs) auto

lemma gridLevelsEqual_refl [equal_refl]: "gridLevelsEqual g g"
  by (simp add: gridLevelsEqual_def list_all_zip_same)

lemma storageConfigsEqual_refl [equal_refl]: "storageConfigsEqual c c"
  by (simp add: storageConfigsEqual_def split: option.splits)

lemma dimensionalConfigsEqual_refl [equal_refl]: "dimensionalConfigsEqual c c"
  by (simp add: dimensionalConfigsEqual_def split: option.splits)

lemma spatialConfigsEqual_refl:
  "index_regular idx \<Longrightarrow> spatialConfigsEqual (idx_spatial_config idx) (idx_spatial_config idx)"
  by (auto simp: index_regular_def spatialConfigsEqual_def tessellationConfigsEqual_def
      boundingBoxesEqual_def box_regular_def equal_refl list_all_iff split: option.splits)

lemma descendingArraysEqual_refl [equal_refl]: "descendingArraysEqual d d"
  by (simp add: descendingArraysEqual_iff)

lemma indexesEqual_refl [equal_refl]: "index_regular idx \<Longrightarrow> indexesEqual engine idx idx"
  by (simp add: indexesEqual_def spatialConfigsEqual_refl equal_refl list_all_zip_same
      default_index.where_refl)


section \<open>Constraints\<close>

definition foreignKeysEqual :: "storepb_ForeignKeyMetadata \<Rightarrow> storepb_ForeignKeyMetadata \<Rightarrow> bool" where
  "foreignKeysEqual fk1 fk2 =
     (if fk_referenced_schema fk1 \<noteq> fk_referenced_schema fk2 then False
      else if fk_referenced_table fk1 \<noteq> fk_referenced_table fk2 then False
      else if fk_on_delete fk1 \<noteq> fk_on_delete fk2 then False
      else if fk_on_update fk1 \<noteq> fk_on_update fk2 then False
      else if fk_match_type fk1 \<noteq> fk_match_type fk2 then False
      else if \<not> slices_equal (fk_columns fk1) (fk_columns fk2) then False
      else if \<not> slices_equal (fk_referenced_columns fk1) (fk_referenced_columns fk2) then False
      else True)"

text \<open>The three ways a check constraint can be unchanged; the middle one can panic.\<close>

definition checkConstraintsEqual ::
  "Engine \<Rightarrow> storepb_CheckConstraintMetadata \<Rightarrow> storepb_CheckConstraintMetadata \<Rightarrow> bool option" where
  "checkConstraintsEqual engine check1 check2 =
     (if CompareExpressionsSemantically engine (chk_expression check1) (chk_expression check2)
      then Some True
      else
        case isPostgreSQLInAnyEquivalent (chk_expression check1) (chk_expression check2) of
          None \<Rightarrow> None
        | Some True \<Rightarrow> Some True
        | Some False \<Rightarrow>
            (case isPostgreSQLInAnyEquivalent (chk_expression check2) (chk_expression check1) of
               None \<Rightarrow> None
             | Some True \<Rightarrow> Some True
             | Some False \<Rightarrow>
                 Some (normalizePostgreSQLCheckConstraint (chk_expression check1) =
                       normalizePostgreSQLCheckConstraint (chk_expression check2))))"

lemma foreignKeysEqual_refl [equal_refl]: "foreignKeysEqual k k"
  by (simp add: foreignKeysEqual_def)

lemma checkConstraintsEqual_refl [equal_refl]: "checkConstraintsEqual engine c c = Some True"
  by (simp add: checkConstraintsEqual_def equal_refl)


section \<open>Triggers\<close>

definition triggersEqual :: "storepb_TriggerMetadata \<Rightarrow> storepb_TriggerMetadata \<Rightarrow> bool" where
  "triggersEqual t1 t2 =
     (let basicEqual = (trg_name t1 = trg_name t2 \<and> trg_event t1 = trg_event t2 \<and>
                        trg_timing t1 = trg_timing t2)
      in if \<not> basicEqual then False
         else if trg_body t1 = trg_body t2 then True
         else normalizeTriggerBody (trg_body t1) = normalizeTriggerBody (trg_body t2))"

lemma triggersEqual_refl [equal_refl]: "triggersEqual t t"
  by (simp add: triggersEqual_def)


section \<open>Partitions\<close>

function partitionsEqual ::
  "Engine \<Rightarrow> storepb_TablePartitionMetadata \<Rightarrow> storepb_TablePartitionMetadata \<Rightarrow> bool" where
  "partitionsEqual engine part1
     (TablePartitionMetadata name2 type2 expression2 value2 use_default2 subpartitions2 indexes2 checks2 excludes2) =
     (if part_type part1 \<noteq> type2 then False
      else if \<not> CompareExpressionsSemantically engine (part_expression part1) expression2 then False
      else if part_value part1 \<noteq> value2 then False
      else if part_use_default part1 \<noteq> use_default2 then False
      else if length (part_subpartitions part1) \<noteq> length subpartitions2 then False
      else
        let subPart1Map = map_by part_name id (part_subpartitions part1)
        in list_all (\<lambda>sub2. case map_of subPart1Map (part_name sub2) of
                              None \<Rightarrow> False
                            | Some sub1 \<Rightarrow> partitionsEqual engine sub1 sub2)
             subpartitions2)"
  by pat_completeness auto
termination
  by (relation "measure (\<lambda>(engine, part1, part2). size part2)")
    (auto simp: less_Suc_eq_le intro: trans_le_add1 trans_le_add2 size_list_estimation')

text \<open>Sub-partitions with distinct names, at every level.\<close>

function partition_regular :: "storepb_TablePartitionMetadata \<Rightarrow> bool" where
  "partition_regular
     (TablePartitionMetadata name type expression val use_default subpartitions indexes checks excludes) =
     (distinct (map part_name subpartitions) \<and> list_all partition_regular subpartitions)"
  by pat_completeness auto
termination
  by (relation "measure size")
    (auto simp: less_Suc_eq_le intro: trans_le_add1 trans_le_add2 size_list_estimation')

lemma partitionsEqual_refl [equal_refl]: "partition_regular p \<Longrightarrow> partitionsEqual engine p p"
proof (induction p rule: partition_regular.induct)
  case (1 name type expression val use_default subs indexes checks excludes)
  have "map_of (map_by part_name id subs) (part_name s) = Some s \<and> partitionsEqual engine s s"
    if "s \<in> set subs" for s
    using 1 that map_by_inj [of part_name subs s id] by (auto simp: list_all_iff)
  then show ?case by (auto simp: equal_refl list_all_iff)
qed


section \<open>Sequences and enums\<close>

definition sequencesEqual :: "storepb_SequenceMetadata \<Rightarrow> storepb_SequenceMetadata \<Rightarrow> bool" where
  "sequencesEqual oldSeq newSeq =
     (seq_data_type oldSeq = seq_data_type newSeq \<and>
      seq_start oldSeq = seq_start newSeq \<and>
      seq_min_value oldSeq = seq_min_value newSeq \<and>
      seq_max_value oldSeq = seq_max_value newSeq \<and>
      seq_increment oldSeq = seq_increment newSeq \<and>
      seq_cycle oldSeq = seq_cycle newSeq \<and>
      seq_cache_size oldSeq = seq_cache_size newSeq \<and>
      seq_owner_table oldSeq = seq_owner_table newSeq \<and>
      seq_owner_column oldSeq = seq_owner_column newSeq \<and>
      seq_comment oldSeq = seq_comment newSeq)"

definition enumValuesEqual :: "string list \<Rightarrow> string list \<Rightarrow> bool" where
  "enumValuesEqual oldValues newValues = slices_equal oldValues newValues"

lemma sequencesEqual_refl [equal_refl]: "sequencesEqual s s"
  by (simp add: sequencesEqual_def)

lemma enumValuesEqual_refl [equal_refl]: "enumValuesEqual vs vs"
  by (simp add: enumValuesEqual_def)

section \<open>What the checks compare\<close>

text \<open>
  Two triggers count as equal exactly when name, event and timing are the same and the bodies
  agree after blanks, tabs and line breaks are dropped and case is ignored.
\<close>
lemma triggersEqual_iff:
  "triggersEqual t u \<longleftrightarrow>
     trg_name t = trg_name u \<and> trg_event t = trg_event u \<and> trg_timing t = trg_timing u \<and>
     ToUpper (filter (\<lambda>c. \<not> trigger_blank c) (trg_body t)) = ToUpper (filter (\<lambda>c. \<not> trigger_blank c) (trg_body u))"
  by (auto simp: triggersEqual_def Let_def normalizeTriggerBody_eq)

text \<open>
  The sort directions of two indexes agree exactly when they are the same list or neither sorts
  any key in descending order; agreement is an equivalence relation.
\<close>
lemma descending_arrays:
  "(descendingArraysEqual d e \<longleftrightarrow> d = e \<or> True \<notin> set d \<and> True \<notin> set e) \<and> equivp descendingArraysEqual"
proof
  show iff: "descendingArraysEqual d e \<longleftrightarrow> d = e \<or> True \<notin> set d \<and> True \<notin> set e" for d e
    by (auto simp: descendingArraysEqual_iff)
  show "equivp descendingArraysEqual"
    by (rule equivpI) (auto simp: reflp_def symp_def transp_def iff)
qed

end
