(* ===== verification/DiffTypes.thy ===== *)
theory DiffTypes
  imports DiffEqual
begin

text \<open>
  The result types of \<^verbatim>\<open>backend/plugin/schema/differ.go\<close>.  A nil pointer field is \<open>None\<close>; a
  \<open>new_\<close> constant is the composite literal with only the action set, the other fields zero.
\<close>

datatype MetadataDiffAction =
  MetadataDiffActionCreate | MetadataDiffActionDrop | MetadataDiffActionAlter

text \<open>The string each constant stands for.\<close>

fun action_string :: "MetadataDiffAction \<Rightarrow> string" where
  "action_string MetadataDiffActionCreate = ''CREATE''"
| "action_string MetadataDiffActionDrop = ''DROP''"
| "action_string MetadataDiffActionAlter = ''ALTER''"

lemma action_string_inj [simp]: "action_string a = action_string b \<longleftrightarrow> a = b"
  by (cases a; cases b) simp_all

text \<open>Actions are ordered as their strings.\<close>

instantiation MetadataDiffAction :: linorder
begin

definition less_eq_MetadataDiffAction :: "MetadataDiffAction \<Rightarrow> MetadataDiffAction \<Rightarrow> bool" where
  "less_eq_MetadataDiffAction a b \<longleftrightarrow> action_string a \<le> action_string b"

definition less_MetadataDiffAction :: "MetadataDiffAction \<Rightarrow> MetadataDiffAction \<Rightarrow> bool" where
  "less_MetadataDiffAction a b \<longleftrightarrow> action_string a < action_string b"

instance
  by standard
    (auto simp: less_eq_MetadataDiffAction_def less_MetadataDiffAction_def
      simp flip: action_string_inj)

end

record SchemaDiff =
  sd_Action :: MetadataDiffAction
  sd_SchemaName :: string
  sd_OldSchema :: "storepb_SchemaMetadata option"
  sd_NewSchema :: "storepb_SchemaMetadata option"

definition new_SchemaDiff :: "MetadataDiffAction \<Rightarrow> SchemaDiff" where
  "new_SchemaDiff action = \<lparr>sd_Action = action, sd_SchemaName = [], sd_OldSchema = None, sd_NewSchema = None\<rparr>"

record ColumnDiff =
  cd_Action :: MetadataDiffAction
  cd_OldColumn :: "storepb_ColumnMetadata option"
  cd_NewColumn :: "storepb_ColumnMetadata option"

definition new_ColumnDiff :: "MetadataDiffAction \<Rightarrow> ColumnDiff" where
  "new_ColumnDiff action = \<lparr>cd_Action = action, cd_OldColumn = None, cd_NewColumn = None\<rparr>"

record IndexDiff =
  id_Action :: MetadataDiffAction
  id_OldIndex :: "storepb_IndexMetadata option"
  id_NewIndex :: "storepb_IndexMetadata option"

definition new_IndexDiff :: "MetadataDiffAction \<Rightarrow> IndexDiff" where
  "new_IndexDiff action = \<lparr>id_Action = action, id_OldIndex = None, id_NewIndex = None\<rparr>"

record ForeignKeyDiff =
  fkd_Action :: MetadataDiffAction
  fkd_OldForeignKey :: "storepb_ForeignKeyMetadata option"
  fkd_NewForeignKey :: "storepb_ForeignKeyMetadata option"

definition new_ForeignKeyDiff :: "MetadataDiffAction \<Rightarrow> ForeignKeyDiff" where
  "new_ForeignKeyDiff action = \<lparr>fkd_Action = action, fkd_OldForeignKey = None, fkd_NewForeignKey = None\<rparr>"

record CheckConstraintDiff =
  ckd_Action :: MetadataDiffAction
  ckd_OldCheckConstraint :: "storepb_CheckConstraintMetadata option"
  ckd_NewCheckConstraint :: "storepb_CheckConstraintMetadata option"

definition new_CheckConstraintDiff :: "MetadataDiffAction \<Rightarrow> CheckConstraintDiff" where
  "new_CheckConstraintDiff action = \<lparr>ckd_Action = action, ckd_OldCheckConstraint = None, ckd_NewCheckConstraint = None\<rparr>"

record ExcludeConstraintDiff =
  exd_Action :: MetadataDiffAction
  exd_OldExcludeConstraint :: "storepb_ExcludeConstraintMetadata option"
  exd_NewExcludeConstraint :: "storepb_ExcludeConstraintMetadata option"

definition new_ExcludeConstraintDiff :: "MetadataDiffAction \<Rightarrow> ExcludeConstraintDiff" where
  "new_ExcludeConstraintDiff action = \<lparr>exd_Action = action, exd_OldExcludeConstraint = None, exd_NewExcludeConstraint = None\<rparr>"

record PrimaryKeyDiff =
  pkd_Action :: MetadataDiffAction
  pkd_OldPrimaryKey :: "storepb_IndexMetadata option"
  pkd_NewPrimaryKey :: "storepb_IndexMetadata option"

definition new_PrimaryKeyDiff :: "MetadataDiffAction \<Rightarrow> PrimaryKeyDiff" where
  "new_PrimaryKeyDiff action = \<lparr>pkd_Action = action, pkd_OldPrimaryKey = None, pkd_NewPrimaryKey = None\<rparr>"

record UniqueConstraintDiff =
  ucd_Action :: MetadataDiffAction
  ucd_OldUniqueConstraint :: "storepb_IndexMetadata option"
  ucd_NewUniqueConstraint :: "storepb_IndexMetadata option"

definition new_UniqueConstraintDiff :: "MetadataDiffAction \<Rightarrow> UniqueConstraintDiff" where
  "new_UniqueConstraintDiff action = \<lparr>ucd_Action = action, ucd_OldUniqueConstraint = None, ucd_NewUniqueConstraint = None\<rparr>"

record TriggerDiff =
  trd_Action :: MetadataDiffAction
  trd_SchemaName :: string
  trd_TableName :: string
  trd_TriggerName :: string
  trd_OldTrigger :: "storepb_TriggerMetadata option"
  trd_NewTrigger :: "storepb_TriggerMetadata option"

definition new_TriggerDiff :: "MetadataDiffAction \<Rightarrow> TriggerDiff" where
  "new_TriggerDiff action = \<lparr>trd_Action = action, trd_SchemaName = [], trd_TableName = [], trd_TriggerName = [],
     trd_OldTrigger = None, trd_NewTrigger = None\<rparr>"

record PartitionDiff =
  pd_Action :: MetadataDiffAction
  pd_OldPartition :: "storepb_TablePartitionMetadata option"
  pd_NewPartition :: "storepb_TablePartitionMetadata option"

definition new_PartitionDiff :: "MetadataDiffAction \<Rightarrow> PartitionDiff" where
  "new_PartitionDiff action = \<lparr>pd_Action = action, pd_OldPartition = None, pd_NewPartition = None\<rparr>"

record TableDiff =
  td_Action :: MetadataDiffAction
  td_SchemaName :: string
  td_TableName :: string
  td_OldTable :: "storepb_TableMetadata option"
  td_NewTable :: "storepb_TableMetadata option"
  td_ColumnChanges :: "ColumnDiff list"
  td_IndexChanges :: "IndexDiff list"
  td_PrimaryKeyChanges :: "PrimaryKeyDiff list"
  td_UniqueConstraintChanges :: "UniqueConstraintDiff list"
  td_ForeignKeyChanges :: "ForeignKeyDiff list"
  td_CheckConstraintChanges :: "CheckConstraintDiff list"
  td_ExcludeConstraintChanges :: "ExcludeConstraintDiff list"
  td_PartitionChanges :: "PartitionDiff list"
  td_TriggerChanges :: "TriggerDiff list"

definition new_TableDiff :: "MetadataDiffAction \<Rightarrow> TableDiff" where
  "new_TableDiff action = \<lparr>td_Action = action, td_SchemaName = [], td_TableName = [], td_OldTable = None,
     td_NewTable = None, td_ColumnChanges = [], td_IndexChanges = [],
     td_PrimaryKeyChanges = [], td_UniqueConstraintChanges = [], td_ForeignKeyChanges =
     [], td_CheckConstraintChanges = [], td_ExcludeConstraintChanges = [],
     td_PartitionChanges = [], td_TriggerChanges = []\<rparr>"

record ViewDiff =
  vd_Action :: MetadataDiffAction
  vd_SchemaName :: string
  vd_ViewName :: string
  vd_OldView :: "storepb_ViewMetadata option"
  vd_NewView :: "storepb_ViewMetadata option"

definition new_ViewDiff :: "MetadataDiffAction \<Rightarrow> ViewDiff" where
  "new_ViewDiff action = \<lparr>vd_Action = action, vd_SchemaName = [], vd_ViewName = [], vd_OldView = None, vd_NewView
     = None\<rparr>"

record MaterializedViewDiff =
  mvd_Action :: MetadataDiffAction
  mvd_SchemaName :: string
  mvd_MaterializedViewName :: string
  mvd_OldMaterializedView :: "storepb_MaterializedViewMetadata option"
  mvd_NewMaterializedView :: "storepb_MaterializedViewMetadata option"
  mvd_IndexChanges :: "IndexDiff list"

definition new_MaterializedViewDiff :: "MetadataDiffAction \<Rightarrow> MaterializedViewDiff" where
  "new_MaterializedViewDiff action = \<lparr>mvd_Action = action, mvd_SchemaName = [], mvd_MaterializedViewName = [],
     mvd_OldMaterializedView = None, mvd_NewMaterializedView = None, mvd_IndexChanges =
     []\<rparr>"

record FunctionDiff =
  fd_Action :: MetadataDiffAction
  fd_SchemaName :: string
  fd_FunctionName :: string
  fd_OldFunction :: "storepb_FunctionMetadata option"
  fd_NewFunction :: "storepb_FunctionMetadata option"
  fd_SignatureChanged :: bool
  fd_BodyChanged :: bool
  fd_AttributesChanged :: bool
  fd_ChangedAttributes :: "string list"
  fd_CanUseAlterFunction :: bool

definition new_FunctionDiff :: "MetadataDiffAction \<Rightarrow> FunctionDiff" where
  "new_FunctionDiff action = \<lparr>fd_Action = action, fd_SchemaName = [], fd_FunctionName = [], fd_OldFunction = None,
     fd_NewFunction = None, fd_SignatureChanged = False, fd_BodyChanged = False,
     fd_AttributesChanged = False, fd_ChangedAttributes = [], fd_CanUseAlterFunction =
     False\<rparr>"

record ProcedureDiff =
  prd_Action :: MetadataDiffAction
  prd_SchemaName :: string
  prd_ProcedureName :: string
  prd_OldProcedure :: "storepb_ProcedureMetadata option"
  prd_NewProcedure :: "storepb_ProcedureMetadata option"

definition new_ProcedureDiff :: "MetadataDiffAction \<Rightarrow> ProcedureDiff" where
  "new_ProcedureDiff action = \<lparr>prd_Action = action, prd_SchemaName = [], prd_ProcedureName = [], prd_OldProcedure =
     None, prd_NewProcedure = None\<rparr>"

record SequenceDiff =
  sqd_Action :: MetadataDiffAction
  sqd_SchemaName :: string
  sqd_SequenceName :: string
  sqd_OldSequence :: "storepb_SequenceMetadata option"
  sqd_NewSequence :: "storepb_SequenceMetadata option"

definition new_SequenceDiff :: "MetadataDiffAction \<Rightarrow> SequenceDiff" where
  "new_SequenceDiff action = \<lparr>sqd_Action = action, sqd_SchemaName = [], sqd_SequenceName = [], sqd_OldSequence = None,
     sqd_NewSequence = None\<rparr>"

record EnumTypeDiff =
  etd_Action :: MetadataDiffAction
  etd_SchemaName :: string
  etd_EnumTypeName :: string
  etd_OldEnumType :: "storepb_EnumTypeMetadata option"
  etd_NewEnumType :: "storepb_EnumTypeMetadata option"

definition new_EnumTypeDiff :: "MetadataDiffAction \<Rightarrow> EnumTypeDiff" where
  "new_EnumTypeDiff action = \<lparr>etd_Action = action, etd_SchemaName = [], etd_EnumTypeName = [], etd_OldEnumType = None,
     etd_NewEnumType = None\<rparr>"

record ExtensionDiff =
  xd_Action :: MetadataDiffAction
  xd_ExtensionName :: string
  xd_OldExtension :: "storepb_ExtensionMetadata option"
  xd_NewExtension :: "storepb_ExtensionMetadata option"

definition new_ExtensionDiff :: "MetadataDiffAction \<Rightarrow> ExtensionDiff" where
  "new_ExtensionDiff action = \<lparr>xd_Action = action, xd_ExtensionName = [], xd_OldExtension = None, xd_NewExtension =
     None\<rparr>"

record EventTriggerDiff =
  evtd_Action :: MetadataDiffAction
  evtd_EventTriggerName :: string
  evtd_OldEventTrigger :: "storepb_EventTriggerMetadata option"
  evtd_NewEventTrigger :: "storepb_EventTriggerMetadata option"

definition new_EventTriggerDiff :: "MetadataDiffAction \<Rightarrow> EventTriggerDiff" where
  "new_EventTriggerDiff action = \<lparr>evtd_Action = action, evtd_EventTriggerName = [], evtd_OldEventTrigger = None,
     evtd_NewEventTrigger = None\<rparr>"

record EventDiff =
  evd_Action :: MetadataDiffAction
  evd_EventName :: string
  evd_OldEvent :: "storepb_EventMetadata option"
  evd_NewEvent :: "storepb_EventMetadata option"

definition new_EventDiff :: "MetadataDiffAction \<Rightarrow> EventDiff" where
  "new_EventDiff action = \<lparr>evd_Action = action, evd_EventName = [], evd_OldEvent = None, evd_NewEvent = None\<rparr>"

datatype CommentObjectType =
  CommentObjectTypeSchema | CommentObjectTypeTable | CommentObjectTypeColumn | CommentObjectTypeView
| CommentObjectTypeMaterializedView | CommentObjectTypeFunction | CommentObjectTypeSequence
| CommentObjectTypeIndex | CommentObjectTypeTrigger | CommentObjectTypeType
| CommentObjectTypeExtension | CommentObjectTypeEventTrigger

record CommentDiff =
  cmd_Action :: MetadataDiffAction
  cmd_ObjectType :: CommentObjectType
  cmd_SchemaName :: string
  cmd_TableName :: string
  cmd_ObjectName :: string
  cmd_ColumnName :: string
  cmd_IndexName :: string
  cmd_OldComment :: string
  cmd_NewComment :: string

record MetadataDiff =
  md_DatabaseName :: string
  SchemaChanges :: "SchemaDiff list"
  TableChanges :: "TableDiff list"
  ViewChanges :: "ViewDiff list"
  MaterializedViewChanges :: "MaterializedViewDiff list"
  FunctionChanges :: "FunctionDiff list"
  ProcedureChanges :: "ProcedureDiff list"
  SequenceChanges :: "SequenceDiff list"
  EnumTypeChanges :: "EnumTypeDiff list"
  ExtensionChanges :: "ExtensionDiff list"
  EventTriggerChanges :: "EventTriggerDiff list"
  EventChanges :: "EventDiff list"
  CommentChanges :: "CommentDiff list"

definition new_MetadataDiff :: "string \<Rightarrow> MetadataDiff" where
  "new_MetadataDiff name = \<lparr>md_DatabaseName = name, SchemaChanges = [], TableChanges = [],
     ViewChanges = [], MaterializedViewChanges = [], FunctionChanges = [], ProcedureChanges = [],
     SequenceChanges = [], EnumTypeChanges = [], ExtensionChanges = [], EventTriggerChanges = [],
     EventChanges = [], CommentChanges = []\<rparr>"

lemmas new_diff_defs = new_SchemaDiff_def new_ColumnDiff_def new_IndexDiff_def
  new_ForeignKeyDiff_def new_CheckConstraintDiff_def new_ExcludeConstraintDiff_def
  new_PrimaryKeyDiff_def new_UniqueConstraintDiff_def new_TriggerDiff_def new_PartitionDiff_def
  new_TableDiff_def new_ViewDiff_def new_MaterializedViewDiff_def new_FunctionDiff_def
  new_ProcedureDiff_def new_SequenceDiff_def new_EnumTypeDiff_def new_ExtensionDiff_def
  new_EventTriggerDiff_def new_EventDiff_def new_MetadataDiff_def

end
