(* ===== verification/DiffTable.thy ===== *)
theory DiffTable
  imports DiffTypes
begin

text \<open>
  The comparison of two versions of a table (\<^verbatim>\<open>backend/plugin/schema/differ.go\<close>):
  columns, indexes, foreign keys, check constraints, partitions, triggers, and
  \<open>compareTableDetails\<close> over them.
\<close>

section \<open>The comparison loops\<close>

definition compareColumns :: "Engine \<Rightarrow> TableMetadata \<Rightarrow> TableMetadata \<Rightarrow> ColumnDiff list" where
  "compareColumns engine oldTable newTable =
     concat (map (\<lambda>oldCol.
         if GetColumn newTable (col_name oldCol) = None
         then [(new_ColumnDiff MetadataDiffActionDrop)\<lparr>cd_OldColumn := Some oldCol\<rparr>]
         else [])
       (tbl_columns (tm_proto oldTable))) @
     concat (map (\<lambda>newCol.
         case GetColumn oldTable (col_name newCol) of
           None \<Rightarrow> [(new_ColumnDiff MetadataDiffActionCreate)\<lparr>cd_NewColumn := Some newCol\<rparr>]
         | Some oldColWrapper \<Rightarrow>
             (let oldCol = cm_proto oldColWrapper
              in if \<not> columnsEqual engine oldCol newCol
                 then [(new_ColumnDiff MetadataDiffActionAlter)
                         \<lparr>cd_OldColumn := Some oldCol, cd_NewColumn := Some newCol\<rparr>]
                 else []))
       (tbl_columns (tm_proto newTable)))"

definition compareIndexes ::
  "range_order \<Rightarrow> Engine \<Rightarrow> TableMetadata \<Rightarrow> TableMetadata \<Rightarrow> IndexDiff list" where
  "compareIndexes ord engine oldTable newTable =
     concat (map (\<lambda>oldIdx.
         if table_GetIndex newTable (idx_name (im_proto oldIdx)) = None
         then [(new_IndexDiff MetadataDiffActionDrop)\<lparr>id_OldIndex := Some (im_proto oldIdx)\<rparr>]
         else [])
       (ListIndexes ord oldTable)) @
     concat (map (\<lambda>newIdx.
         case table_GetIndex oldTable (idx_name (im_proto newIdx)) of
           None \<Rightarrow> [(new_IndexDiff MetadataDiffActionCreate)\<lparr>id_NewIndex := Some (im_proto newIdx)\<rparr>]
         | Some oldIdx \<Rightarrow>
             (if \<not> indexesEqual engine (im_proto oldIdx) (im_proto newIdx)
              then [(new_IndexDiff MetadataDiffActionDrop)\<lparr>id_OldIndex := Some (im_proto oldIdx)\<rparr>,
                    (new_IndexDiff MetadataDiffActionCreate)\<lparr>id_NewIndex := Some (im_proto newIdx)\<rparr>]
              else []))
       (ListIndexes ord newTable))"

definition compareForeignKeys ::
  "range_order \<Rightarrow> storepb_ForeignKeyMetadata list \<Rightarrow> storepb_ForeignKeyMetadata list \<Rightarrow> ForeignKeyDiff list"
where
  "compareForeignKeys ord oldFKs newFKs =
     map_diff (ord Site_ForeignKeys_old) (ord Site_ForeignKeys_new)
       (map_by fk_name id oldFKs) (map_by fk_name id newFKs)
       (\<lambda>_ oldFK. [(new_ForeignKeyDiff MetadataDiffActionDrop)\<lparr>fkd_OldForeignKey := Some oldFK\<rparr>])
       (\<lambda>_ newFK. [(new_ForeignKeyDiff MetadataDiffActionCreate)\<lparr>fkd_NewForeignKey := Some newFK\<rparr>])
       (\<lambda>_ oldFK newFK.
          if \<not> foreignKeysEqual oldFK newFK
          then [(new_ForeignKeyDiff MetadataDiffActionDrop)\<lparr>fkd_OldForeignKey := Some oldFK\<rparr>,
                (new_ForeignKeyDiff MetadataDiffActionCreate)\<lparr>fkd_NewForeignKey := Some newFK\<rparr>]
          else [])"

definition compareCheckConstraints ::
  "range_order \<Rightarrow> Engine \<Rightarrow> storepb_CheckConstraintMetadata list \<Rightarrow>
   storepb_CheckConstraintMetadata list \<Rightarrow> CheckConstraintDiff list option"
where
  "compareCheckConstraints ord engine oldChecks newChecks =
     (let oldCheckMap = map_by chk_name id oldChecks;
          newCheckMap = map_by chk_name id newChecks;
          dropped =
            concat (map (\<lambda>(checkName, oldCheck).
                if has_key newCheckMap checkName then []
                else [(new_CheckConstraintDiff MetadataDiffActionDrop)
                        \<lparr>ckd_OldCheckConstraint := Some oldCheck\<rparr>])
              (go_range (ord Site_Checks_old) oldCheckMap))
      in map_option (\<lambda>lists. dropped @ concat lists)
           (map_panic (\<lambda>(checkName, newCheck).
                case map_of oldCheckMap checkName of
                  None \<Rightarrow> Some [(new_CheckConstraintDiff MetadataDiffActionCreate)
                                  \<lparr>ckd_NewCheckConstraint := Some newCheck\<rparr>]
                | Some oldCheck \<Rightarrow>
                    (case checkConstraintsEqual engine oldCheck newCheck of
                       None \<Rightarrow> None
                     | Some True \<Rightarrow> Some []
                     | Some False \<Rightarrow>
                         Some [(new_CheckConstraintDiff MetadataDiffActionDrop)
                                 \<lparr>ckd_OldCheckConstraint := Some oldCheck\<rparr>,
                               (new_CheckConstraintDiff MetadataDiffActionCreate)
                                 \<lparr>ckd_NewCheckConstraint := Some newCheck\<rparr>]))
              (go_range (ord Site_Checks_new) newCheckMap)))"

definition comparePartitions ::
  "range_order \<Rightarrow> Engine \<Rightarrow> storepb_TablePartitionMetadata list \<Rightarrow>
   storepb_TablePartitionMetadata list \<Rightarrow> PartitionDiff list"
where
  "comparePartitions ord engine oldPartitions newPartitions =
     map_diff (ord Site_Partitions_old) (ord Site_Partitions_new)
       (map_by part_name id oldPartitions) (map_by part_name id newPartitions)
       (\<lambda>_ oldPart. [(new_PartitionDiff MetadataDiffActionDrop)\<lparr>pd_OldPartition := Some oldPart\<rparr>])
       (\<lambda>_ newPart. [(new_PartitionDiff MetadataDiffActionCreate)\<lparr>pd_NewPartition := Some newPart\<rparr>])
       (\<lambda>_ oldPart newPart.
          if \<not> partitionsEqual engine oldPart newPart
          then [(new_PartitionDiff MetadataDiffActionDrop)\<lparr>pd_OldPartition := Some oldPart\<rparr>,
                (new_PartitionDiff MetadataDiffActionCreate)\<lparr>pd_NewPartition := Some newPart\<rparr>]
          else [])"

definition compareTriggers ::
  "range_order \<Rightarrow> storepb_TriggerMetadata list \<Rightarrow> storepb_TriggerMetadata list \<Rightarrow> TriggerDiff list"
where
  "compareTriggers ord oldTriggers newTriggers =
     map_diff (ord Site_Triggers_old) (ord Site_Triggers_new)
       (map_by trg_name id oldTriggers) (map_by trg_name id newTriggers)
       (\<lambda>triggerName oldTrigger.
          [(new_TriggerDiff MetadataDiffActionDrop)
             \<lparr>trd_TriggerName := triggerName, trd_OldTrigger := Some oldTrigger\<rparr>])
       (\<lambda>triggerName newTrigger.
          [(new_TriggerDiff MetadataDiffActionCreate)
             \<lparr>trd_TriggerName := triggerName, trd_NewTrigger := Some newTrigger\<rparr>])
       (\<lambda>triggerName oldTrigger newTrigger.
          if \<not> triggersEqual oldTrigger newTrigger
          then [(new_TriggerDiff MetadataDiffActionDrop)
                  \<lparr>trd_TriggerName := triggerName, trd_OldTrigger := Some oldTrigger\<rparr>,
                (new_TriggerDiff MetadataDiffActionCreate)
                  \<lparr>trd_TriggerName := triggerName, trd_NewTrigger := Some newTrigger\<rparr>]
          else [])"

text \<open>The outer option is the panic of a check constraint, the inner one Go's nil: no change.\<close>

definition compareTableDetails ::
  "range_order \<Rightarrow> Engine \<Rightarrow> string \<Rightarrow> string \<Rightarrow> TableMetadata \<Rightarrow> TableMetadata \<Rightarrow> TableDiff option option"
where
  "compareTableDetails ord engine schemaName tableName oldTable newTable =
     (let oldProto = tm_proto oldTable;
          newProto = tm_proto newTable;
          columnChanges = compareColumns engine oldTable newTable;
          indexChanges = compareIndexes ord engine oldTable newTable;
          fkChanges = compareForeignKeys ord (tbl_foreign_keys oldProto) (tbl_foreign_keys newProto)
      in case compareCheckConstraints ord engine (tbl_check_constraints oldProto)
                (tbl_check_constraints newProto) of
           None \<Rightarrow> None
         | Some checkChanges \<Rightarrow>
             (let partitionChanges =
                    comparePartitions ord engine (tbl_partitions oldProto) (tbl_partitions newProto);
                  triggerChanges = compareTriggers ord (tbl_triggers oldProto) (tbl_triggers newProto);
                  hasChanges =
                    (columnChanges \<noteq> [] \<or> indexChanges \<noteq> [] \<or> fkChanges \<noteq> [] \<or> checkChanges \<noteq> [] \<or>
                     partitionChanges \<noteq> [] \<or> triggerChanges \<noteq> [] \<or>
                     tbl_comment oldProto \<noteq> tbl_comment newProto)
              in if \<not> hasChanges then Some None
                 else Some (Some ((new_TableDiff MetadataDiffActionAlter)
                        \<lparr>td_SchemaName := schemaName, td_TableName := tableName,
                         td_OldTable := Some oldProto, td_NewTable := Some newProto,
                         td_ColumnChanges := columnChanges, td_IndexChanges := indexChanges,
                         td_ForeignKeyChanges := fkChanges, td_CheckConstraintChanges := checkChanges,
                         td_PartitionChanges := partitionChanges, td_TriggerChanges := triggerChanges\<rparr>))))"


section \<open>Facts on each loop\<close>

text \<open>The check constraint loop, when nothing panics, is the loop pair of the others.\<close>

definition check_both ::
  "Engine \<Rightarrow> string \<Rightarrow> storepb_CheckConstraintMetadata \<Rightarrow> storepb_CheckConstraintMetadata \<Rightarrow>
   CheckConstraintDiff list" where
  "check_both engine k oldCheck newCheck =
     (if checkConstraintsEqual engine oldCheck newCheck = Some True then []
      else [(new_CheckConstraintDiff MetadataDiffActionDrop)\<lparr>ckd_OldCheckConstraint := Some oldCheck\<rparr>,
            (new_CheckConstraintDiff MetadataDiffActionCreate)\<lparr>ckd_NewCheckConstraint := Some newCheck\<rparr>])"

definition check_diff ::
  "range_order \<Rightarrow> Engine \<Rightarrow> storepb_CheckConstraintMetadata list \<Rightarrow>
   storepb_CheckConstraintMetadata list \<Rightarrow> CheckConstraintDiff list" where
  "check_diff ord engine oldChecks newChecks =
     map_diff (ord Site_Checks_old) (ord Site_Checks_new)
       (map_by chk_name id oldChecks) (map_by chk_name id newChecks)
       (\<lambda>_ c. [(new_CheckConstraintDiff MetadataDiffActionDrop)\<lparr>ckd_OldCheckConstraint := Some c\<rparr>])
       (\<lambda>_ c. [(new_CheckConstraintDiff MetadataDiffActionCreate)\<lparr>ckd_NewCheckConstraint := Some c\<rparr>])
       (check_both engine)"

definition checks_panic ::
  "Engine \<Rightarrow> storepb_CheckConstraintMetadata list \<Rightarrow> storepb_CheckConstraintMetadata list \<Rightarrow> bool" where
  "checks_panic engine oldChecks newChecks \<longleftrightarrow>
     (\<exists>k c d. map_of (map_by chk_name id oldChecks) k = Some c \<and>
        map_of (map_by chk_name id newChecks) k = Some d \<and> checkConstraintsEqual engine c d = None)"

lemma compareCheckConstraints_eq:
  assumes "fair_order ord"
  shows "compareCheckConstraints ord engine xs ys =
     (if checks_panic engine xs ys then None else Some (check_diff ord engine xs ys))"
proof -
  let ?m = "map_by chk_name id xs" and ?n = "map_by chk_name id ys"
  let ?f = "\<lambda>(k, newCheck).
     case map_of ?m k of
       None \<Rightarrow> Some [(new_CheckConstraintDiff MetadataDiffActionCreate)\<lparr>ckd_NewCheckConstraint := Some newCheck\<rparr>]
     | Some oldCheck \<Rightarrow>
         (case checkConstraintsEqual engine oldCheck newCheck of
            None \<Rightarrow> None
          | Some True \<Rightarrow> Some []
          | Some False \<Rightarrow>
              Some [(new_CheckConstraintDiff MetadataDiffActionDrop)\<lparr>ckd_OldCheckConstraint := Some oldCheck\<rparr>,
                    (new_CheckConstraintDiff MetadataDiffActionCreate)\<lparr>ckd_NewCheckConstraint := Some newCheck\<rparr>])"
  let ?g = "\<lambda>(k, newCheck).
     case map_of ?m k of
       None \<Rightarrow> [(new_CheckConstraintDiff MetadataDiffActionCreate)\<lparr>ckd_NewCheckConstraint := Some newCheck\<rparr>]
     | Some oldCheck \<Rightarrow> check_both engine k oldCheck newCheck"
  have mem: "(k, d) \<in> set (go_range (ord s) ?n) \<longleftrightarrow> map_of ?n k = Some d" for k d s
    using assms by (simp add: go_range_set)
  have None_iff: "?f (k, d) = None \<longleftrightarrow> (\<exists>c. map_of ?m k = Some c \<and> checkConstraintsEqual engine c d = None)"
    for k d by (auto split: option.splits bool.splits)
  have fg: "?f p = Some (?g p)" if "?f p \<noteq> None" for p
    using that by (cases p) (auto simp: check_both_def split: option.splits bool.splits)
  show ?thesis
  proof (cases "checks_panic engine xs ys")
    case True
    then obtain k c d where *: "map_of ?m k = Some c" "map_of ?n k = Some d"
      "checkConstraintsEqual engine c d = None"
      by (auto simp: checks_panic_def)
    then have "(k, d) \<in> set (go_range (ord Site_Checks_new) ?n)" and "?f (k, d) = None"
      by (simp_all add: mem)
    then have "map_panic ?f (go_range (ord Site_Checks_new) ?n) = None"
      unfolding map_panic_None_iff by blast
    with True show ?thesis by (simp add: compareCheckConstraints_def Let_def)
  next
    case False
    then have "\<forall>p \<in> set (go_range (ord Site_Checks_new) ?n). ?f p = Some (?g p)"
      using None_iff fg mem unfolding checks_panic_def by (metis (no_types, lifting) surj_pair)
    then have "map_panic ?f (go_range (ord Site_Checks_new) ?n) =
        Some (map ?g (go_range (ord Site_Checks_new) ?n))"
      by (rule map_panic_Some)
    with False show ?thesis
      by (simp add: compareCheckConstraints_def check_diff_def map_diff_def Let_def)
  qed
qed

text \<open>Nothing changed: each loop finds nothing.\<close>

lemma compareForeignKeys_same [equal_refl]: "fair_order ord \<Longrightarrow> compareForeignKeys ord ks ks = []"
  unfolding compareForeignKeys_def by (rule map_diff_refl) (simp_all add: equal_refl)

lemma compareTriggers_same [equal_refl]: "fair_order ord \<Longrightarrow> compareTriggers ord ts ts = []"
  unfolding compareTriggers_def by (rule map_diff_refl) (simp_all add: equal_refl)

lemma comparePartitions_same [equal_refl]:
  "fair_order ord \<Longrightarrow> list_all partition_regular ps \<Longrightarrow> comparePartitions ord engine ps ps = []"
  unfolding comparePartitions_def
  by (rule map_diff_refl) (auto simp: equal_refl list_all_iff dest!: map_by_SomeD)

lemma compareCheckConstraints_same [equal_refl]:
  assumes "fair_order ord"
  shows "compareCheckConstraints ord engine cs cs = Some []"
proof -
  have "\<not> checks_panic engine cs cs" by (auto simp: checks_panic_def equal_refl)
  moreover have "check_diff ord engine cs cs = []"
    unfolding check_diff_def by (rule map_diff_refl) (use assms in \<open>auto simp: check_both_def equal_refl\<close>)
  ultimately show ?thesis by (simp add: compareCheckConstraints_eq [OF assms])
qed

text \<open>The order in which maps are visited permutes the result, it changes nothing else.\<close>

lemma compareForeignKeys_perm [diff_order]:
  "fair_order a \<Longrightarrow> fair_order b \<Longrightarrow>
   mset (compareForeignKeys a xs ys) = mset (compareForeignKeys b xs ys)"
  unfolding compareForeignKeys_def by (rule map_diff_perm) simp_all

lemma compareTriggers_perm [diff_order]:
  "fair_order a \<Longrightarrow> fair_order b \<Longrightarrow> mset (compareTriggers a xs ys) = mset (compareTriggers b xs ys)"
  unfolding compareTriggers_def by (rule map_diff_perm) simp_all

lemma comparePartitions_perm [diff_order]:
  "fair_order a \<Longrightarrow> fair_order b \<Longrightarrow>
   mset (comparePartitions a engine xs ys) = mset (comparePartitions b engine xs ys)"
  unfolding comparePartitions_def by (rule map_diff_perm) simp_all

lemma check_diff_perm [diff_order]:
  "fair_order a \<Longrightarrow> fair_order b \<Longrightarrow> mset (check_diff a engine xs ys) = mset (check_diff b engine xs ys)"
  unfolding check_diff_def by (rule map_diff_perm) simp_all

lemma compareIndexes_perm [diff_order]:
  assumes "fair_order a" "fair_order b"
  shows "mset (compareIndexes a engine s t) = mset (compareIndexes b engine s t)"
proof -
  have "mset (ListIndexes a u) = mset (ListIndexes b u)" for u
    unfolding ListIndexes_def mset_map using assms by (simp add: mset_go_range [of "a Site_ListIndexes" "b Site_ListIndexes"])
  then show ?thesis
    unfolding compareIndexes_def mset_append by (intro arg_cong2 [where f = "(+)"] mset_concat_map_perm)
qed

end
