(* ===== verification/DiffObjects.thy ===== *)
theory DiffObjects
  imports DiffTable
begin

text \<open>
  The comparison of the other objects of a schema and of a database
  (\<^verbatim>\<open>backend/plugin/schema/differ.go\<close>): each function appends to one list of the diff it is
  passed, and returns the diff.
\<close>

section \<open>Views and materialized views\<close>

definition compareViews ::
  "Engine \<Rightarrow> MetadataDiff \<Rightarrow> string \<Rightarrow> SchemaMetadata \<Rightarrow> SchemaMetadata \<Rightarrow> MetadataDiff" where
  "compareViews engine diff schemaName oldSchema newSchema =
     (let alter = (\<lambda>viewName oldView newView.
            [(new_ViewDiff MetadataDiffActionAlter)
               \<lparr>vd_SchemaName := schemaName, vd_ViewName := viewName,
                vd_OldView := Some oldView, vd_NewView := Some newView\<rparr>]);
          dropped = concat (map (\<lambda>viewName.
              if GetView newSchema viewName = None
              then (case GetView oldSchema viewName of
                      None \<Rightarrow> []
                    | Some oldView \<Rightarrow>
                        if \<not> view_skip_dump oldView
                        then [(new_ViewDiff MetadataDiffActionDrop)
                                \<lparr>vd_SchemaName := schemaName, vd_ViewName := viewName,
                                 vd_OldView := Some oldView\<rparr>]
                        else [])
              else []) (ListViewNames oldSchema));
          changed = concat (map (\<lambda>viewName.
              case GetView newSchema viewName of
                None \<Rightarrow> []
              | Some newView \<Rightarrow>
                  if view_skip_dump newView then []
                  else (case GetView oldSchema viewName of
                          None \<Rightarrow>
                            [(new_ViewDiff MetadataDiffActionCreate)
                               \<lparr>vd_SchemaName := schemaName, vd_ViewName := viewName,
                                vd_NewView := Some newView\<rparr>]
                        | Some oldView \<Rightarrow>
                            if \<not> view_skip_dump oldView
                            then (case GetViewComparer_view engine (Some oldView) (Some newView) of
                                    Inl err \<Rightarrow>
                                      if view_definition oldView \<noteq> view_definition newView
                                      then alter viewName oldView newView else []
                                  | Inr changes \<Rightarrow>
                                      if changes \<noteq> []
                                      then (let requiresRecreation = list_ex vc_RequiresRecreation changes
                                            in if requiresRecreation then alter viewName oldView newView else [])
                                      else [])
                            else [])) (ListViewNames newSchema))
      in diff\<lparr>ViewChanges := ViewChanges diff @ dropped @ changed\<rparr>)"

definition compareMaterializedViews ::
  "Engine \<Rightarrow> MetadataDiff \<Rightarrow> string \<Rightarrow> SchemaMetadata \<Rightarrow> SchemaMetadata \<Rightarrow> MetadataDiff" where
  "compareMaterializedViews engine diff schemaName oldSchema newSchema =
     (let alter = (\<lambda>mvName oldMV newMV.
            [(new_MaterializedViewDiff MetadataDiffActionAlter)
               \<lparr>mvd_SchemaName := schemaName, mvd_MaterializedViewName := mvName,
                mvd_OldMaterializedView := Some oldMV, mvd_NewMaterializedView := Some newMV\<rparr>]);
          dropped = concat (map (\<lambda>mvName.
              if GetMaterializedView newSchema mvName = None
              then (case GetMaterializedView oldSchema mvName of
                      None \<Rightarrow> []
                    | Some oldMV \<Rightarrow>
                        if \<not> mv_skip_dump oldMV
                        then [(new_MaterializedViewDiff MetadataDiffActionDrop)
                                \<lparr>mvd_SchemaName := schemaName, mvd_MaterializedViewName := mvName,
                                 mvd_OldMaterializedView := Some oldMV\<rparr>]
                        else [])
              else []) (ListMaterializedViewNames oldSchema));
          changed = concat (map (\<lambda>mvName.
              case GetMaterializedView newSchema mvName of
                None \<Rightarrow> []
              | Some newMV \<Rightarrow>
                  if mv_skip_dump newMV then []
                  else (case GetMaterializedView oldSchema mvName of
                          None \<Rightarrow>
                            [(new_MaterializedViewDiff MetadataDiffActionCreate)
                               \<lparr>mvd_SchemaName := schemaName, mvd_MaterializedViewName := mvName,
                                mvd_NewMaterializedView := Some newMV\<rparr>]
                        | Some oldMV \<Rightarrow>
                            if \<not> mv_skip_dump oldMV
                            then (case GetViewComparer_mv engine (Some oldMV) (Some newMV) of
                                    Inl err \<Rightarrow>
                                      if mv_definition oldMV \<noteq> mv_definition newMV
                                      then alter mvName oldMV newMV else []
                                  | Inr changes \<Rightarrow>
                                      if changes \<noteq> []
                                      then (let requiresRecreation = list_ex mvc_RequiresRecreation changes
                                            in if requiresRecreation then alter mvName oldMV newMV else [])
                                      else [])
                            else [])) (ListMaterializedViewNames newSchema))
      in diff\<lparr>MaterializedViewChanges := MaterializedViewChanges diff @ dropped @ changed\<rparr>)"


section \<open>Functions and procedures\<close>

text \<open>The signature of a function, or its name when it has none.\<close>

definition functionName :: "storepb_FunctionMetadata \<Rightarrow> string" where
  "functionName fn = (if fn_signature fn = [] then fn_name fn else fn_signature fn)"

definition funcsBySignature :: "SchemaMetadata \<Rightarrow> storepb_FunctionMetadata gomap" where
  "funcsBySignature schema =
     map_by functionName id (filter (\<lambda>fn. \<not> fn_skip_dump fn) (sch_functions (sm_proto schema)))"

definition compareFunctions ::
  "range_order \<Rightarrow> Engine \<Rightarrow> MetadataDiff \<Rightarrow> string \<Rightarrow> SchemaMetadata \<Rightarrow> SchemaMetadata \<Rightarrow> MetadataDiff"
where
  "compareFunctions ord engine diff schemaName oldSchema newSchema =
     diff\<lparr>FunctionChanges := FunctionChanges diff @
       map_diff (ord Site_Functions_old) (ord Site_Functions_new)
         (funcsBySignature oldSchema) (funcsBySignature newSchema)
         (\<lambda>sig oldFunc.
            [(new_FunctionDiff MetadataDiffActionDrop)
               \<lparr>fd_SchemaName := schemaName, fd_FunctionName := functionName oldFunc,
                fd_OldFunction := Some oldFunc\<rparr>])
         (\<lambda>sig newFunc.
            [(new_FunctionDiff MetadataDiffActionCreate)
               \<lparr>fd_SchemaName := schemaName, fd_FunctionName := functionName newFunc,
                fd_NewFunction := Some newFunc\<rparr>])
         (\<lambda>sig oldFunc newFunc.
            case GetFunctionComparer engine oldFunc newFunc of
              Inl err \<Rightarrow> []
            | Inr None \<Rightarrow> []
            | Inr (Some comparison) \<Rightarrow>
                if CanUseAlterFunction comparison
                then [(new_FunctionDiff MetadataDiffActionAlter)
                        \<lparr>fd_SchemaName := schemaName, fd_FunctionName := functionName oldFunc,
                         fd_OldFunction := Some oldFunc, fd_NewFunction := Some newFunc,
                         fd_SignatureChanged := SignatureChanged comparison,
                         fd_BodyChanged := BodyChanged comparison,
                         fd_AttributesChanged := AttributesChanged comparison,
                         fd_ChangedAttributes := ChangedAttributes comparison,
                         fd_CanUseAlterFunction := True\<rparr>]
                else [(new_FunctionDiff MetadataDiffActionDrop)
                        \<lparr>fd_SchemaName := schemaName, fd_FunctionName := functionName oldFunc,
                         fd_OldFunction := Some oldFunc,
                         fd_SignatureChanged := SignatureChanged comparison,
                         fd_BodyChanged := BodyChanged comparison,
                         fd_AttributesChanged := AttributesChanged comparison,
                         fd_ChangedAttributes := ChangedAttributes comparison,
                         fd_CanUseAlterFunction := False\<rparr>,
                      (new_FunctionDiff MetadataDiffActionCreate)
                        \<lparr>fd_SchemaName := schemaName, fd_FunctionName := functionName newFunc,
                         fd_NewFunction := Some newFunc,
                         fd_SignatureChanged := SignatureChanged comparison,
                         fd_BodyChanged := BodyChanged comparison,
                         fd_AttributesChanged := AttributesChanged comparison,
                         fd_ChangedAttributes := ChangedAttributes comparison,
                         fd_CanUseAlterFunction := False\<rparr>])\<rparr>"

definition compareProcedures ::
  "MetadataDiff \<Rightarrow> string \<Rightarrow> SchemaMetadata \<Rightarrow> SchemaMetadata \<Rightarrow> MetadataDiff" where
  "compareProcedures diff schemaName oldSchema newSchema =
     (let dropped = concat (map (\<lambda>procName.
              if GetProcedure newSchema procName = None
              then (case GetProcedure oldSchema procName of
                      None \<Rightarrow> []
                    | Some oldProc \<Rightarrow>
                        if \<not> proc_skip_dump oldProc
                        then [(new_ProcedureDiff MetadataDiffActionDrop)
                                \<lparr>prd_SchemaName := schemaName, prd_ProcedureName := procName,
                                 prd_OldProcedure := Some oldProc\<rparr>]
                        else [])
              else []) (ListProcedureNames oldSchema));
          changed = concat (map (\<lambda>procName.
              case GetProcedure newSchema procName of
                None \<Rightarrow> []
              | Some newProc \<Rightarrow>
                  if proc_skip_dump newProc then []
                  else (case GetProcedure oldSchema procName of
                          None \<Rightarrow>
                            [(new_ProcedureDiff MetadataDiffActionCreate)
                               \<lparr>prd_SchemaName := schemaName, prd_ProcedureName := procName,
                                prd_NewProcedure := Some newProc\<rparr>]
                        | Some oldProc \<Rightarrow>
                            if \<not> proc_skip_dump oldProc \<and>
                               \<not> procedureDefinitionsEqual (proc_definition oldProc) (proc_definition newProc)
                            then [(new_ProcedureDiff MetadataDiffActionAlter)
                                    \<lparr>prd_SchemaName := schemaName, prd_ProcedureName := procName,
                                     prd_OldProcedure := Some oldProc, prd_NewProcedure := Some newProc\<rparr>]
                            else [])) (ListProcedureNames newSchema))
      in diff\<lparr>ProcedureChanges := ProcedureChanges diff @ dropped @ changed\<rparr>)"


section \<open>Sequences, enum types, events\<close>

definition compareSequences ::
  "range_order \<Rightarrow> MetadataDiff \<Rightarrow> string \<Rightarrow> SchemaMetadata \<Rightarrow> SchemaMetadata \<Rightarrow> MetadataDiff" where
  "compareSequences ord diff schemaName oldSchema newSchema =
     (let seqMap = (\<lambda>schema. map_by seq_name id
            (filter (\<lambda>sq. \<not> seq_skip_dump sq) (sch_sequences (sm_proto schema))))
      in diff\<lparr>SequenceChanges := SequenceChanges diff @
           map_diff (ord Site_Sequences_old) (ord Site_Sequences_new) (seqMap oldSchema) (seqMap newSchema)
             (\<lambda>seqName oldSeq.
                [(new_SequenceDiff MetadataDiffActionDrop)
                   \<lparr>sqd_SchemaName := schemaName, sqd_SequenceName := seqName,
                    sqd_OldSequence := Some oldSeq\<rparr>])
             (\<lambda>seqName newSeq.
                [(new_SequenceDiff MetadataDiffActionCreate)
                   \<lparr>sqd_SchemaName := schemaName, sqd_SequenceName := seqName,
                    sqd_NewSequence := Some newSeq\<rparr>])
             (\<lambda>seqName oldSeq newSeq.
                if \<not> sequencesEqual oldSeq newSeq
                then [(new_SequenceDiff MetadataDiffActionAlter)
                        \<lparr>sqd_SchemaName := schemaName, sqd_SequenceName := seqName,
                         sqd_OldSequence := Some oldSeq, sqd_NewSequence := Some newSeq\<rparr>]
                else [])\<rparr>)"

definition compareEnumTypes ::
  "range_order \<Rightarrow> MetadataDiff \<Rightarrow> string \<Rightarrow> SchemaMetadata \<Rightarrow> SchemaMetadata \<Rightarrow> MetadataDiff" where
  "compareEnumTypes ord diff schemaName oldSchema newSchema =
     (let enumMap = (\<lambda>schema. map_by enum_name id
            (filter (\<lambda>en. \<not> enum_skip_dump en) (sch_enum_types (sm_proto schema))))
      in diff\<lparr>EnumTypeChanges := EnumTypeChanges diff @
           map_diff (ord Site_EnumTypes_old) (ord Site_EnumTypes_new) (enumMap oldSchema) (enumMap newSchema)
             (\<lambda>enumName oldEnum.
                [(new_EnumTypeDiff MetadataDiffActionDrop)
                   \<lparr>etd_SchemaName := schemaName, etd_EnumTypeName := enumName,
                    etd_OldEnumType := Some oldEnum\<rparr>])
             (\<lambda>enumName newEnum.
                [(new_EnumTypeDiff MetadataDiffActionCreate)
                   \<lparr>etd_SchemaName := schemaName, etd_EnumTypeName := enumName,
                    etd_NewEnumType := Some newEnum\<rparr>])
             (\<lambda>enumName oldEnum newEnum.
                if \<not> enumValuesEqual (enum_values oldEnum) (enum_values newEnum)
                then [(new_EnumTypeDiff MetadataDiffActionAlter)
                        \<lparr>etd_SchemaName := schemaName, etd_EnumTypeName := enumName,
                         etd_OldEnumType := Some oldEnum, etd_NewEnumType := Some newEnum\<rparr>]
                else [])\<rparr>)"

definition compareEvents ::
  "range_order \<Rightarrow> MetadataDiff \<Rightarrow> string \<Rightarrow> SchemaMetadata \<Rightarrow> SchemaMetadata \<Rightarrow> MetadataDiff" where
  "compareEvents ord diff schemaName oldSchema newSchema =
     (let eventMap = (\<lambda>schema. map_by evt_name id (sch_events (sm_proto schema)))
      in diff\<lparr>EventChanges := EventChanges diff @
           map_diff (ord Site_Events_old) (ord Site_Events_new) (eventMap oldSchema) (eventMap newSchema)
             (\<lambda>eventName oldEvent.
                [(new_EventDiff MetadataDiffActionDrop)
                   \<lparr>evd_EventName := eventName, evd_OldEvent := Some oldEvent\<rparr>])
             (\<lambda>eventName newEvent.
                [(new_EventDiff MetadataDiffActionCreate)
                   \<lparr>evd_EventName := eventName, evd_NewEvent := Some newEvent\<rparr>])
             (\<lambda>eventName oldEvent newEvent.
                if evt_definition oldEvent \<noteq> evt_definition newEvent
                then [(new_EventDiff MetadataDiffActionAlter)
                        \<lparr>evd_EventName := eventName, evd_OldEvent := Some oldEvent,
                         evd_NewEvent := Some newEvent\<rparr>]
                else [])\<rparr>)"


section \<open>Extensions and event triggers\<close>

text \<open>The third loop of these two: the entries on both sides that differ.\<close>

definition map_changed ::
  "(string list \<Rightarrow> string list) \<Rightarrow> 'v gomap \<Rightarrow> 'v gomap \<Rightarrow> (string \<Rightarrow> 'v \<Rightarrow> 'v \<Rightarrow> 'd list) \<Rightarrow> 'd list" where
  "map_changed ord oldM newM both =
     concat (map (\<lambda>(k, y). case map_of oldM k of None \<Rightarrow> [] | Some x \<Rightarrow> both k x y) (go_range ord newM))"

definition compareExtensions ::
  "range_order \<Rightarrow> MetadataDiff \<Rightarrow> storepb_DatabaseSchemaMetadata \<Rightarrow> storepb_DatabaseSchemaMetadata \<Rightarrow>
   MetadataDiff" where
  "compareExtensions ord diff oldMetadata newMetadata =
     (let oldExtensionMap = map_by extn_name id (db_extensions oldMetadata);
          newExtensionMap = map_by extn_name id (db_extensions newMetadata);
          drop_ext = (\<lambda>extensionName oldExtension.
            (new_ExtensionDiff MetadataDiffActionDrop)
              \<lparr>xd_ExtensionName := extensionName, xd_OldExtension := Some oldExtension\<rparr>);
          create_ext = (\<lambda>extensionName newExtension.
            (new_ExtensionDiff MetadataDiffActionCreate)
              \<lparr>xd_ExtensionName := extensionName, xd_NewExtension := Some newExtension\<rparr>)
      in diff\<lparr>ExtensionChanges := ExtensionChanges diff @
           map_diff (ord Site_Extensions_old) (ord Site_Extensions_new) oldExtensionMap newExtensionMap
             (\<lambda>k x. [drop_ext k x]) (\<lambda>k y. [create_ext k y]) (\<lambda>k x y. []) @
           map_changed (ord Site_Extensions_mod) oldExtensionMap newExtensionMap
             (\<lambda>extensionName oldExtension newExtension.
                if extn_schema oldExtension \<noteq> extn_schema newExtension \<or>
                   extn_version oldExtension \<noteq> extn_version newExtension \<or>
                   extn_description oldExtension \<noteq> extn_description newExtension
                then [drop_ext extensionName oldExtension, create_ext extensionName newExtension]
                else [])\<rparr>)"

definition compareEventTriggers ::
  "range_order \<Rightarrow> MetadataDiff \<Rightarrow> storepb_DatabaseSchemaMetadata \<Rightarrow> storepb_DatabaseSchemaMetadata \<Rightarrow>
   MetadataDiff" where
  "compareEventTriggers ord diff oldMetadata newMetadata =
     (let oldEventTriggerMap = map_by etr_name id (db_event_triggers oldMetadata);
          newEventTriggerMap = map_by etr_name id (db_event_triggers newMetadata);
          drop_etr = (\<lambda>name oldEventTrigger.
            (new_EventTriggerDiff MetadataDiffActionDrop)
              \<lparr>evtd_EventTriggerName := name, evtd_OldEventTrigger := Some oldEventTrigger\<rparr>);
          create_etr = (\<lambda>name newEventTrigger.
            (new_EventTriggerDiff MetadataDiffActionCreate)
              \<lparr>evtd_EventTriggerName := name, evtd_NewEventTrigger := Some newEventTrigger\<rparr>)
      in diff\<lparr>EventTriggerChanges := EventTriggerChanges diff @
           map_diff (ord Site_EventTriggers_old) (ord Site_EventTriggers_new)
             oldEventTriggerMap newEventTriggerMap
             (\<lambda>k x. [drop_etr k x]) (\<lambda>k y. [create_etr k y]) (\<lambda>k x y. []) @
           map_changed (ord Site_EventTriggers_mod) oldEventTriggerMap newEventTriggerMap
             (\<lambda>name oldEventTrigger newEventTrigger.
                if etr_definition oldEventTrigger \<noteq> etr_definition newEventTrigger \<or>
                   etr_event oldEventTrigger \<noteq> etr_event newEventTrigger \<or>
                   etr_function_schema oldEventTrigger \<noteq> etr_function_schema newEventTrigger \<or>
                   etr_function_name oldEventTrigger \<noteq> etr_function_name newEventTrigger \<or>
                   etr_enabled oldEventTrigger \<noteq> etr_enabled newEventTrigger \<or>
                   \<not> slices_equal (etr_tags oldEventTrigger) (etr_tags newEventTrigger)
                then [drop_etr name oldEventTrigger, create_etr name newEventTrigger]
                else [])\<rparr>)"

lemma map_changed_refl:
  "perm_order ord \<Longrightarrow> (\<And>k v. map_of m k = Some v \<Longrightarrow> b k v v = []) \<Longrightarrow> map_changed ord m m b = []"
  by (auto simp: map_changed_def go_range_set)

lemma map_changed_perm:
  "perm_order o1 \<Longrightarrow> perm_order o2 \<Longrightarrow> mset (map_changed o1 m n b) = mset (map_changed o2 m n b)"
  unfolding map_changed_def by (rule mset_range_concat)


section \<open>The objects of a schema\<close>

text \<open>A new schema: every object that is not skipped is created.\<close>

definition addNewSchemaObjects :: "MetadataDiff \<Rightarrow> string \<Rightarrow> SchemaMetadata \<Rightarrow> MetadataDiff" where
  "addNewSchemaObjects diff schemaName schema =
     (let schemaProto = sm_proto schema;
          tables = concat (map (\<lambda>tableName. case GetTable schema tableName of
              None \<Rightarrow> []
            | Some table \<Rightarrow>
                if \<not> tbl_skip_dump (tm_proto table)
                then [(new_TableDiff MetadataDiffActionCreate)
                        \<lparr>td_SchemaName := schemaName, td_TableName := tableName,
                         td_NewTable := Some (tm_proto table)\<rparr>]
                else []) (ListTableNames schema));
          views = concat (map (\<lambda>viewName. case GetView schema viewName of
              None \<Rightarrow> []
            | Some view \<Rightarrow>
                if \<not> view_skip_dump view
                then [(new_ViewDiff MetadataDiffActionCreate)
                        \<lparr>vd_SchemaName := schemaName, vd_ViewName := viewName, vd_NewView := Some view\<rparr>]
                else []) (ListViewNames schema));
          mvs = concat (map (\<lambda>mvName. case GetMaterializedView schema mvName of
              None \<Rightarrow> []
            | Some mv \<Rightarrow>
                if \<not> mv_skip_dump mv
                then [(new_MaterializedViewDiff MetadataDiffActionCreate)
                        \<lparr>mvd_SchemaName := schemaName, mvd_MaterializedViewName := mvName,
                         mvd_NewMaterializedView := Some mv\<rparr>]
                else []) (ListMaterializedViewNames schema));
          functions = concat (map (\<lambda>function.
                if \<not> fn_skip_dump function
                then [(new_FunctionDiff MetadataDiffActionCreate)
                        \<lparr>fd_SchemaName := schemaName, fd_FunctionName := functionName function,
                         fd_NewFunction := Some function\<rparr>]
                else []) (sch_functions schemaProto));
          procedures = concat (map (\<lambda>procName. case GetProcedure schema procName of
              None \<Rightarrow> []
            | Some proc \<Rightarrow>
                if \<not> proc_skip_dump proc
                then [(new_ProcedureDiff MetadataDiffActionCreate)
                        \<lparr>prd_SchemaName := schemaName, prd_ProcedureName := procName,
                         prd_NewProcedure := Some proc\<rparr>]
                else []) (ListProcedureNames schema));
          sequences = concat (map (\<lambda>seqProto.
                if \<not> seq_skip_dump seqProto
                then [(new_SequenceDiff MetadataDiffActionCreate)
                        \<lparr>sqd_SchemaName := schemaName, sqd_SequenceName := seq_name seqProto,
                         sqd_NewSequence := Some seqProto\<rparr>]
                else []) (sch_sequences schemaProto));
          enums = concat (map (\<lambda>enumProto.
                if \<not> enum_skip_dump enumProto
                then [(new_EnumTypeDiff MetadataDiffActionCreate)
                        \<lparr>etd_SchemaName := schemaName, etd_EnumTypeName := enum_name enumProto,
                         etd_NewEnumType := Some enumProto\<rparr>]
                else []) (sch_enum_types schemaProto));
          events = map (\<lambda>eventProto.
                (new_EventDiff MetadataDiffActionCreate)
                  \<lparr>evd_EventName := evt_name eventProto, evd_NewEvent := Some eventProto\<rparr>)
              (sch_events schemaProto)
      in diff\<lparr>TableChanges := TableChanges diff @ tables,
              ViewChanges := ViewChanges diff @ views,
              MaterializedViewChanges := MaterializedViewChanges diff @ mvs,
              FunctionChanges := FunctionChanges diff @ functions,
              ProcedureChanges := ProcedureChanges diff @ procedures,
              SequenceChanges := SequenceChanges diff @ sequences,
              EnumTypeChanges := EnumTypeChanges diff @ enums,
              EventChanges := EventChanges diff @ events\<rparr>)"

text \<open>The tables of a schema on both sides; \<open>None\<close> is the panic of a check constraint.\<close>

definition compareTables ::
  "range_order \<Rightarrow> Engine \<Rightarrow> string \<Rightarrow> SchemaMetadata \<Rightarrow> SchemaMetadata \<Rightarrow> TableDiff list option" where
  "compareTables ord engine schemaName oldSchema newSchema =
     (let dropped = concat (map (\<lambda>tableName.
              if GetTable newSchema tableName = None
              then (case GetTable oldSchema tableName of
                      None \<Rightarrow> []
                    | Some oldTable \<Rightarrow>
                        if \<not> tbl_skip_dump (tm_proto oldTable)
                        then [(new_TableDiff MetadataDiffActionDrop)
                                \<lparr>td_SchemaName := schemaName, td_TableName := tableName,
                                 td_OldTable := Some (tm_proto oldTable)\<rparr>]
                        else [])
              else []) (ListTableNames oldSchema))
      in map_option (\<lambda>lists. dropped @ concat lists)
           (map_panic (\<lambda>tableName.
              case GetTable newSchema tableName of
                None \<Rightarrow> Some []
              | Some newTable \<Rightarrow>
                  if tbl_skip_dump (tm_proto newTable) then Some []
                  else (case GetTable oldSchema tableName of
                          None \<Rightarrow>
                            Some [(new_TableDiff MetadataDiffActionCreate)
                                    \<lparr>td_SchemaName := schemaName, td_TableName := tableName,
                                     td_NewTable := Some (tm_proto newTable)\<rparr>]
                        | Some oldTable \<Rightarrow>
                            if \<not> tbl_skip_dump (tm_proto oldTable)
                            then (case compareTableDetails ord engine schemaName tableName oldTable newTable of
                                    None \<Rightarrow> None
                                  | Some None \<Rightarrow> Some []
                                  | Some (Some tableDiff) \<Rightarrow> Some [tableDiff])
                            else Some [])) (ListTableNames newSchema)))"

definition compareSchemaObjects ::
  "range_order \<Rightarrow> Engine \<Rightarrow> MetadataDiff \<Rightarrow> string \<Rightarrow> SchemaMetadata \<Rightarrow> SchemaMetadata \<Rightarrow>
   MetadataDiff option"
where
  "compareSchemaObjects ord engine diff schemaName oldSchema newSchema =
     (case compareTables ord engine schemaName oldSchema newSchema of
        None \<Rightarrow> None
      | Some tableChanges \<Rightarrow>
          (let d0 = diff\<lparr>TableChanges := TableChanges diff @ tableChanges\<rparr>;
               d1 = compareViews engine d0 schemaName oldSchema newSchema;
               d2 = compareMaterializedViews engine d1 schemaName oldSchema newSchema;
               d3 = compareFunctions ord engine d2 schemaName oldSchema newSchema;
               d4 = compareProcedures d3 schemaName oldSchema newSchema;
               d5 = compareSequences ord d4 schemaName oldSchema newSchema;
               d6 = compareEnumTypes ord d5 schemaName oldSchema newSchema;
               d7 = compareEvents ord d6 schemaName oldSchema newSchema
           in Some d7))"

end
