(* ===== verification/DiffSort.thy ===== *)
theory DiffSort
  imports DiffTypes
begin

text \<open>
  The last step of the differ (\<^verbatim>\<open>sortDiffLists\<close> and \<^verbatim>\<open>sortTableSubObjectChanges\<close> of
  \<^verbatim>\<open>backend/plugin/schema/differ.go\<close>): one comparison function per list, each the function literal
  passed to \<open>slices.SortFunc\<close>, and the two functions that sort the lists.  All but the comparison of
  columns order by a key (\<open>cmp_key\<close>); the key of each is written out.
\<close>

named_theorems sort_keys "each comparison function orders by a key"


section \<open>The lists of a diff\<close>

definition cmp_SchemaDiff :: "SchemaDiff \<Rightarrow> SchemaDiff \<Rightarrow> int" where
  "cmp_SchemaDiff a b =
     (if sd_SchemaName a \<noteq> sd_SchemaName b then strings_Compare (sd_SchemaName a) (sd_SchemaName b)
      else strings_Compare (action_string (sd_Action a)) (action_string (sd_Action b)))"

definition key_SchemaDiff :: "SchemaDiff \<Rightarrow> string \<times> MetadataDiffAction" where
  "key_SchemaDiff a = (sd_SchemaName a, sd_Action a)"

lemma cmp_key_SchemaDiff [sort_keys]: "cmp_key cmp_SchemaDiff key_SchemaDiff"
  by (auto simp: cmp_key_def cmp_SchemaDiff_def key_SchemaDiff_def less_MetadataDiffAction_def)

definition cmp_ExtensionDiff :: "ExtensionDiff \<Rightarrow> ExtensionDiff \<Rightarrow> int" where
  "cmp_ExtensionDiff a b =
     (if xd_ExtensionName a \<noteq> xd_ExtensionName b then strings_Compare (xd_ExtensionName a) (xd_ExtensionName b)
      else strings_Compare (action_string (xd_Action a)) (action_string (xd_Action b)))"

definition key_ExtensionDiff :: "ExtensionDiff \<Rightarrow> string \<times> MetadataDiffAction" where
  "key_ExtensionDiff a = (xd_ExtensionName a, xd_Action a)"

lemma cmp_key_ExtensionDiff [sort_keys]: "cmp_key cmp_ExtensionDiff key_ExtensionDiff"
  by (auto simp: cmp_key_def cmp_ExtensionDiff_def key_ExtensionDiff_def less_MetadataDiffAction_def)

definition cmp_EventTriggerDiff :: "EventTriggerDiff \<Rightarrow> EventTriggerDiff \<Rightarrow> int" where
  "cmp_EventTriggerDiff a b =
     (if evtd_EventTriggerName a \<noteq> evtd_EventTriggerName b then strings_Compare (evtd_EventTriggerName a) (evtd_EventTriggerName b)
      else strings_Compare (action_string (evtd_Action a)) (action_string (evtd_Action b)))"

definition key_EventTriggerDiff :: "EventTriggerDiff \<Rightarrow> string \<times> MetadataDiffAction" where
  "key_EventTriggerDiff a = (evtd_EventTriggerName a, evtd_Action a)"

lemma cmp_key_EventTriggerDiff [sort_keys]: "cmp_key cmp_EventTriggerDiff key_EventTriggerDiff"
  by (auto simp: cmp_key_def cmp_EventTriggerDiff_def key_EventTriggerDiff_def less_MetadataDiffAction_def)

definition cmp_EventDiff :: "EventDiff \<Rightarrow> EventDiff \<Rightarrow> int" where
  "cmp_EventDiff a b =
     (if evd_EventName a \<noteq> evd_EventName b then strings_Compare (evd_EventName a) (evd_EventName b)
      else strings_Compare (action_string (evd_Action a)) (action_string (evd_Action b)))"

definition key_EventDiff :: "EventDiff \<Rightarrow> string \<times> MetadataDiffAction" where
  "key_EventDiff a = (evd_EventName a, evd_Action a)"

lemma cmp_key_EventDiff [sort_keys]: "cmp_key cmp_EventDiff key_EventDiff"
  by (auto simp: cmp_key_def cmp_EventDiff_def key_EventDiff_def less_MetadataDiffAction_def)

definition cmp_TableDiff :: "TableDiff \<Rightarrow> TableDiff \<Rightarrow> int" where
  "cmp_TableDiff a b =
     (if td_SchemaName a \<noteq> td_SchemaName b then strings_Compare (td_SchemaName a) (td_SchemaName b)
      else if td_TableName a \<noteq> td_TableName b then strings_Compare (td_TableName a) (td_TableName b)
      else strings_Compare (action_string (td_Action a)) (action_string (td_Action b)))"

definition key_TableDiff :: "TableDiff \<Rightarrow> string \<times> string \<times> MetadataDiffAction" where
  "key_TableDiff a = (td_SchemaName a, td_TableName a, td_Action a)"

lemma cmp_key_TableDiff [sort_keys]: "cmp_key cmp_TableDiff key_TableDiff"
  by (auto simp: cmp_key_def cmp_TableDiff_def key_TableDiff_def less_MetadataDiffAction_def)

definition cmp_ViewDiff :: "ViewDiff \<Rightarrow> ViewDiff \<Rightarrow> int" where
  "cmp_ViewDiff a b =
     (if vd_SchemaName a \<noteq> vd_SchemaName b then strings_Compare (vd_SchemaName a) (vd_SchemaName b)
      else if vd_ViewName a \<noteq> vd_ViewName b then strings_Compare (vd_ViewName a) (vd_ViewName b)
      else strings_Compare (action_string (vd_Action a)) (action_string (vd_Action b)))"

definition key_ViewDiff :: "ViewDiff \<Rightarrow> string \<times> string \<times> MetadataDiffAction" where
  "key_ViewDiff a = (vd_SchemaName a, vd_ViewName a, vd_Action a)"

lemma cmp_key_ViewDiff [sort_keys]: "cmp_key cmp_ViewDiff key_ViewDiff"
  by (auto simp: cmp_key_def cmp_ViewDiff_def key_ViewDiff_def less_MetadataDiffAction_def)

definition cmp_MaterializedViewDiff :: "MaterializedViewDiff \<Rightarrow> MaterializedViewDiff \<Rightarrow> int" where
  "cmp_MaterializedViewDiff a b =
     (if mvd_SchemaName a \<noteq> mvd_SchemaName b then strings_Compare (mvd_SchemaName a) (mvd_SchemaName b)
      else if mvd_MaterializedViewName a \<noteq> mvd_MaterializedViewName b then strings_Compare (mvd_MaterializedViewName a) (mvd_MaterializedViewName b)
      else strings_Compare (action_string (mvd_Action a)) (action_string (mvd_Action b)))"

definition key_MaterializedViewDiff :: "MaterializedViewDiff \<Rightarrow> string \<times> string \<times> MetadataDiffAction" where
  "key_MaterializedViewDiff a = (mvd_SchemaName a, mvd_MaterializedViewName a, mvd_Action a)"

lemma cmp_key_MaterializedViewDiff [sort_keys]: "cmp_key cmp_MaterializedViewDiff key_MaterializedViewDiff"
  by (auto simp: cmp_key_def cmp_MaterializedViewDiff_def key_MaterializedViewDiff_def less_MetadataDiffAction_def)

definition cmp_FunctionDiff :: "FunctionDiff \<Rightarrow> FunctionDiff \<Rightarrow> int" where
  "cmp_FunctionDiff a b =
     (if fd_SchemaName a \<noteq> fd_SchemaName b then strings_Compare (fd_SchemaName a) (fd_SchemaName b)
      else if fd_FunctionName a \<noteq> fd_FunctionName b then strings_Compare (fd_FunctionName a) (fd_FunctionName b)
      else strings_Compare (action_string (fd_Action a)) (action_string (fd_Action b)))"

definition key_FunctionDiff :: "FunctionDiff \<Rightarrow> string \<times> string \<times> MetadataDiffAction" where
  "key_FunctionDiff a = (fd_SchemaName a, fd_FunctionName a, fd_Action a)"

lemma cmp_key_FunctionDiff [sort_keys]: "cmp_key cmp_FunctionDiff key_FunctionDiff"
  by (auto simp: cmp_key_def cmp_FunctionDiff_def key_FunctionDiff_def less_MetadataDiffAction_def)

definition cmp_ProcedureDiff :: "ProcedureDiff \<Rightarrow> ProcedureDiff \<Rightarrow> int" where
  "cmp_ProcedureDiff a b =
     (if prd_SchemaName a \<noteq> prd_SchemaName b then strings_Compare (prd_SchemaName a) (prd_SchemaName b)
      else if prd_ProcedureName a \<noteq> prd_ProcedureName b then strings_Compare (prd_ProcedureName a) (prd_ProcedureName b)
      else strings_Compare (action_string (prd_Action a)) (action_string (prd_Action b)))"

definition key_ProcedureDiff :: "ProcedureDiff \<Rightarrow> string \<times> string \<times> MetadataDiffAction" where
  "key_ProcedureDiff a = (prd_SchemaName a, prd_ProcedureName a, prd_Action a)"

lemma cmp_key_ProcedureDiff [sort_keys]: "cmp_key cmp_ProcedureDiff key_ProcedureDiff"
  by (auto simp: cmp_key_def cmp_ProcedureDiff_def key_ProcedureDiff_def less_MetadataDiffAction_def)

definition cmp_SequenceDiff :: "SequenceDiff \<Rightarrow> SequenceDiff \<Rightarrow> int" where
  "cmp_SequenceDiff a b =
     (if sqd_SchemaName a \<noteq> sqd_SchemaName b then strings_Compare (sqd_SchemaName a) (sqd_SchemaName b)
      else if sqd_SequenceName a \<noteq> sqd_SequenceName b then strings_Compare (sqd_SequenceName a) (sqd_SequenceName b)
      else strings_Compare (action_string (sqd_Action a)) (action_string (sqd_Action b)))"

definition key_SequenceDiff :: "SequenceDiff \<Rightarrow> string \<times> string \<times> MetadataDiffAction" where
  "key_SequenceDiff a = (sqd_SchemaName a, sqd_SequenceName a, sqd_Action a)"

lemma cmp_key_SequenceDiff [sort_keys]: "cmp_key cmp_SequenceDiff key_SequenceDiff"
  by (auto simp: cmp_key_def cmp_SequenceDiff_def key_SequenceDiff_def less_MetadataDiffAction_def)

definition cmp_EnumTypeDiff :: "EnumTypeDiff \<Rightarrow> EnumTypeDiff \<Rightarrow> int" where
  "cmp_EnumTypeDiff a b =
     (if etd_SchemaName a \<noteq> etd_SchemaName b then strings_Compare (etd_SchemaName a) (etd_SchemaName b)
      else if etd_EnumTypeName a \<noteq> etd_EnumTypeName b then strings_Compare (etd_EnumTypeName a) (etd_EnumTypeName b)
      else strings_Compare (action_string (etd_Action a)) (action_string (etd_Action b)))"

definition key_EnumTypeDiff :: "EnumTypeDiff \<Rightarrow> string \<times> string \<times> MetadataDiffAction" where
  "key_EnumTypeDiff a = (etd_SchemaName a, etd_EnumTypeName a, etd_Action a)"

lemma cmp_key_EnumTypeDiff [sort_keys]: "cmp_key cmp_EnumTypeDiff key_EnumTypeDiff"
  by (auto simp: cmp_key_def cmp_EnumTypeDiff_def key_EnumTypeDiff_def less_MetadataDiffAction_def)


section \<open>The lists of a table diff\<close>

text \<open>The name of a change: that of the new object if there is one, of the old one otherwise.\<close>

definition name_IndexDiff :: "IndexDiff \<Rightarrow> string" where
  "name_IndexDiff a =
     (case id_NewIndex a of Some x \<Rightarrow> idx_name x
      | None \<Rightarrow> (case id_OldIndex a of Some x \<Rightarrow> idx_name x | None \<Rightarrow> []))"

definition cmp_IndexDiff :: "IndexDiff \<Rightarrow> IndexDiff \<Rightarrow> int" where
  "cmp_IndexDiff a b =
     (if name_IndexDiff a \<noteq> name_IndexDiff b then strings_Compare (name_IndexDiff a) (name_IndexDiff b)
      else strings_Compare (action_string (id_Action a)) (action_string (id_Action b)))"

definition key_IndexDiff :: "IndexDiff \<Rightarrow> string \<times> MetadataDiffAction" where
  "key_IndexDiff a = (name_IndexDiff a, id_Action a)"

lemma cmp_key_IndexDiff [sort_keys]: "cmp_key cmp_IndexDiff key_IndexDiff"
  by (auto simp: cmp_key_def cmp_IndexDiff_def key_IndexDiff_def less_MetadataDiffAction_def)

definition name_ForeignKeyDiff :: "ForeignKeyDiff \<Rightarrow> string" where
  "name_ForeignKeyDiff a =
     (case fkd_NewForeignKey a of Some x \<Rightarrow> fk_name x
      | None \<Rightarrow> (case fkd_OldForeignKey a of Some x \<Rightarrow> fk_name x | None \<Rightarrow> []))"

definition cmp_ForeignKeyDiff :: "ForeignKeyDiff \<Rightarrow> ForeignKeyDiff \<Rightarrow> int" where
  "cmp_ForeignKeyDiff a b =
     (if name_ForeignKeyDiff a \<noteq> name_ForeignKeyDiff b then strings_Compare (name_ForeignKeyDiff a) (name_ForeignKeyDiff b)
      else strings_Compare (action_string (fkd_Action a)) (action_string (fkd_Action b)))"

definition key_ForeignKeyDiff :: "ForeignKeyDiff \<Rightarrow> string \<times> MetadataDiffAction" where
  "key_ForeignKeyDiff a = (name_ForeignKeyDiff a, fkd_Action a)"

lemma cmp_key_ForeignKeyDiff [sort_keys]: "cmp_key cmp_ForeignKeyDiff key_ForeignKeyDiff"
  by (auto simp: cmp_key_def cmp_ForeignKeyDiff_def key_ForeignKeyDiff_def less_MetadataDiffAction_def)

definition name_CheckConstraintDiff :: "CheckConstraintDiff \<Rightarrow> string" where
  "name_CheckConstraintDiff a =
     (case ckd_NewCheckConstraint a of Some x \<Rightarrow> chk_name x
      | None \<Rightarrow> (case ckd_OldCheckConstraint a of Some x \<Rightarrow> chk_name x | None \<Rightarrow> []))"

definition cmp_CheckConstraintDiff :: "CheckConstraintDiff \<Rightarrow> CheckConstraintDiff \<Rightarrow> int" where
  "cmp_CheckConstraintDiff a b =
     (if name_CheckConstraintDiff a \<noteq> name_CheckConstraintDiff b then strings_Compare (name_CheckConstraintDiff a) (name_CheckConstraintDiff b)
      else strings_Compare (action_string (ckd_Action a)) (action_string (ckd_Action b)))"

definition key_CheckConstraintDiff :: "CheckConstraintDiff \<Rightarrow> string \<times> MetadataDiffAction" where
  "key_CheckConstraintDiff a = (name_CheckConstraintDiff a, ckd_Action a)"

lemma cmp_key_CheckConstraintDiff [sort_keys]: "cmp_key cmp_CheckConstraintDiff key_CheckConstraintDiff"
  by (auto simp: cmp_key_def cmp_CheckConstraintDiff_def key_CheckConstraintDiff_def less_MetadataDiffAction_def)

definition name_PrimaryKeyDiff :: "PrimaryKeyDiff \<Rightarrow> string" where
  "name_PrimaryKeyDiff a =
     (case pkd_NewPrimaryKey a of Some x \<Rightarrow> idx_name x
      | None \<Rightarrow> (case pkd_OldPrimaryKey a of Some x \<Rightarrow> idx_name x | None \<Rightarrow> []))"

definition cmp_PrimaryKeyDiff :: "PrimaryKeyDiff \<Rightarrow> PrimaryKeyDiff \<Rightarrow> int" where
  "cmp_PrimaryKeyDiff a b =
     (if name_PrimaryKeyDiff a \<noteq> name_PrimaryKeyDiff b then strings_Compare (name_PrimaryKeyDiff a) (name_PrimaryKeyDiff b)
      else strings_Compare (action_string (pkd_Action a)) (action_string (pkd_Action b)))"

definition key_PrimaryKeyDiff :: "PrimaryKeyDiff \<Rightarrow> string \<times> MetadataDiffAction" where
  "key_PrimaryKeyDiff a = (name_PrimaryKeyDiff a, pkd_Action a)"

lemma cmp_key_PrimaryKeyDiff [sort_keys]: "cmp_key cmp_PrimaryKeyDiff key_PrimaryKeyDiff"
  by (auto simp: cmp_key_def cmp_PrimaryKeyDiff_def key_PrimaryKeyDiff_def less_MetadataDiffAction_def)

definition name_UniqueConstraintDiff :: "UniqueConstraintDiff \<Rightarrow> string" where
  "name_UniqueConstraintDiff a =
     (case ucd_NewUniqueConstraint a of Some x \<Rightarrow> idx_name x
      | None \<Rightarrow> (case ucd_OldUniqueConstraint a of Some x \<Rightarrow> idx_name x | None \<Rightarrow> []))"

definition cmp_UniqueConstraintDiff :: "UniqueConstraintDiff \<Rightarrow> UniqueConstraintDiff \<Rightarrow> int" where
  "cmp_UniqueConstraintDiff a b =
     (if name_UniqueConstraintDiff a \<noteq> name_UniqueConstraintDiff b then strings_Compare (name_UniqueConstraintDiff a) (name_UniqueConstraintDiff b)
      else strings_Compare (action_string (ucd_Action a)) (action_string (ucd_Action b)))"

definition key_UniqueConstraintDiff :: "UniqueConstraintDiff \<Rightarrow> string \<times> MetadataDiffAction" where
  "key_UniqueConstraintDiff a = (name_UniqueConstraintDiff a, ucd_Action a)"

lemma cmp_key_UniqueConstraintDiff [sort_keys]: "cmp_key cmp_UniqueConstraintDiff key_UniqueConstraintDiff"
  by (auto simp: cmp_key_def cmp_UniqueConstraintDiff_def key_UniqueConstraintDiff_def less_MetadataDiffAction_def)

definition name_PartitionDiff :: "PartitionDiff \<Rightarrow> string" where
  "name_PartitionDiff a =
     (case pd_NewPartition a of Some x \<Rightarrow> part_name x
      | None \<Rightarrow> (case pd_OldPartition a of Some x \<Rightarrow> part_name x | None \<Rightarrow> []))"

definition cmp_PartitionDiff :: "PartitionDiff \<Rightarrow> PartitionDiff \<Rightarrow> int" where
  "cmp_PartitionDiff a b =
     (if name_PartitionDiff a \<noteq> name_PartitionDiff b then strings_Compare (name_PartitionDiff a) (name_PartitionDiff b)
      else strings_Compare (action_string (pd_Action a)) (action_string (pd_Action b)))"

definition key_PartitionDiff :: "PartitionDiff \<Rightarrow> string \<times> MetadataDiffAction" where
  "key_PartitionDiff a = (name_PartitionDiff a, pd_Action a)"

lemma cmp_key_PartitionDiff [sort_keys]: "cmp_key cmp_PartitionDiff key_PartitionDiff"
  by (auto simp: cmp_key_def cmp_PartitionDiff_def key_PartitionDiff_def less_MetadataDiffAction_def)

definition name_TriggerDiff :: "TriggerDiff \<Rightarrow> string" where
  "name_TriggerDiff a =
     (case trd_NewTrigger a of Some x \<Rightarrow> trg_name x
      | None \<Rightarrow> (case trd_OldTrigger a of Some x \<Rightarrow> trg_name x | None \<Rightarrow> []))"

definition cmp_TriggerDiff :: "TriggerDiff \<Rightarrow> TriggerDiff \<Rightarrow> int" where
  "cmp_TriggerDiff a b =
     (if name_TriggerDiff a \<noteq> name_TriggerDiff b then strings_Compare (name_TriggerDiff a) (name_TriggerDiff b)
      else strings_Compare (action_string (trd_Action a)) (action_string (trd_Action b)))"

definition key_TriggerDiff :: "TriggerDiff \<Rightarrow> string \<times> MetadataDiffAction" where
  "key_TriggerDiff a = (name_TriggerDiff a, trd_Action a)"

lemma cmp_key_TriggerDiff [sort_keys]: "cmp_key cmp_TriggerDiff key_TriggerDiff"
  by (auto simp: cmp_key_def cmp_TriggerDiff_def key_TriggerDiff_def less_MetadataDiffAction_def)

text \<open>The column comparison: by position when both positions are positive, else by name.  The
  difference of two positive \<open>int32\<close> does not wrap, the conversion to \<open>int\<close> keeps it.\<close>

definition pos_ColumnDiff :: "ColumnDiff \<Rightarrow> int32" where
  "pos_ColumnDiff a =
     (case cd_NewColumn a of Some x \<Rightarrow> col_position x
      | None \<Rightarrow> (case cd_OldColumn a of Some x \<Rightarrow> col_position x | None \<Rightarrow> 0))"

definition name_ColumnDiff :: "ColumnDiff \<Rightarrow> string" where
  "name_ColumnDiff a =
     (case cd_NewColumn a of Some x \<Rightarrow> col_name x
      | None \<Rightarrow> (case cd_OldColumn a of Some x \<Rightarrow> col_name x | None \<Rightarrow> []))"

definition cmp_ColumnDiff :: "ColumnDiff \<Rightarrow> ColumnDiff \<Rightarrow> int" where
  "cmp_ColumnDiff a b =
     (let aPos = pos_ColumnDiff a; aName = name_ColumnDiff a;
          bPos = pos_ColumnDiff b; bName = name_ColumnDiff b
      in if 0 <s aPos \<and> 0 <s bPos \<and> aPos \<noteq> bPos then sint (aPos - bPos)
         else if aName \<noteq> bName then strings_Compare aName bName
         else strings_Compare (action_string (cd_Action a)) (action_string (cd_Action b)))"

lemma sint_diff_pos:
  fixes a b :: int32
  assumes "0 <s a" "0 <s b"
  shows "sint (a - b) = sint a - sint b"
proof -
  have "sint a < 2 ^ 31" "sint b < 2 ^ 31" "0 < sint a" "0 < sint b"
    using assms sint_lt [of a] sint_lt [of b] by (simp_all add: word_sless_alt)
  then show ?thesis
    by (simp add: sint_word_ariths signed_take_bit_int_eq_self)
qed

lemma sint_less: "sint a \<le> sint b \<Longrightarrow> a \<noteq> b \<Longrightarrow> sint a < sint b"
  by (metis order_le_less signed_word_eqI)

lemma cmp_ColumnDiff_positions:
  assumes "0 <s pos_ColumnDiff a" "0 <s pos_ColumnDiff b" "pos_ColumnDiff a \<noteq> pos_ColumnDiff b"
  shows "cmp_ColumnDiff a b < 0 \<longleftrightarrow> sint (pos_ColumnDiff a) < sint (pos_ColumnDiff b)"
  using assms by (simp add: cmp_ColumnDiff_def Let_def sint_diff_pos)

text \<open>Among changes that all have a position, or that all have none, the comparison has a key.\<close>

definition key_ColumnDiff_pos :: "ColumnDiff \<Rightarrow> int \<times> string \<times> MetadataDiffAction" where
  "key_ColumnDiff_pos a = (sint (pos_ColumnDiff a), name_ColumnDiff a, cd_Action a)"

definition key_ColumnDiff_name :: "ColumnDiff \<Rightarrow> string \<times> MetadataDiffAction" where
  "key_ColumnDiff_name a = (name_ColumnDiff a, cd_Action a)"

lemma cmp_ColumnDiff_all_pos:
  assumes "0 <s pos_ColumnDiff a" "0 <s pos_ColumnDiff b"
  shows "cmp_ColumnDiff a b < 0 \<longleftrightarrow> key_ColumnDiff_pos a < key_ColumnDiff_pos b"
  using assms
  by (auto simp: cmp_ColumnDiff_def key_ColumnDiff_pos_def Let_def sint_diff_pos
      less_MetadataDiffAction_def intro: sint_less)

lemma cmp_ColumnDiff_no_pos:
  assumes "\<not> (0 <s pos_ColumnDiff a \<and> 0 <s pos_ColumnDiff b)"
  shows "cmp_ColumnDiff a b < 0 \<longleftrightarrow> key_ColumnDiff_name a < key_ColumnDiff_name b"
  using assms
  by (auto simp: cmp_ColumnDiff_def key_ColumnDiff_name_def Let_def less_MetadataDiffAction_def)


section \<open>Sorting\<close>

definition sortTableSubObjectChanges :: "TableDiff \<Rightarrow> TableDiff" where
  "sortTableSubObjectChanges tableDiff =
     tableDiff\<lparr>td_ColumnChanges := SortFunc cmp_ColumnDiff (td_ColumnChanges tableDiff),
       td_IndexChanges := SortFunc cmp_IndexDiff (td_IndexChanges tableDiff),
       td_ForeignKeyChanges := SortFunc cmp_ForeignKeyDiff (td_ForeignKeyChanges tableDiff),
       td_CheckConstraintChanges := SortFunc cmp_CheckConstraintDiff (td_CheckConstraintChanges tableDiff),
       td_PrimaryKeyChanges := SortFunc cmp_PrimaryKeyDiff (td_PrimaryKeyChanges tableDiff),
       td_UniqueConstraintChanges :=
         SortFunc cmp_UniqueConstraintDiff (td_UniqueConstraintChanges tableDiff),
       td_PartitionChanges := SortFunc cmp_PartitionDiff (td_PartitionChanges tableDiff),
       td_TriggerChanges := SortFunc cmp_TriggerDiff (td_TriggerChanges tableDiff)\<rparr>"

definition sortDiffLists :: "MetadataDiff \<Rightarrow> MetadataDiff" where
  "sortDiffLists diff =
     diff\<lparr>SchemaChanges := SortFunc cmp_SchemaDiff (SchemaChanges diff),
       TableChanges :=
         map sortTableSubObjectChanges (SortFunc cmp_TableDiff (TableChanges diff)),
       ViewChanges := SortFunc cmp_ViewDiff (ViewChanges diff),
       MaterializedViewChanges := SortFunc cmp_MaterializedViewDiff (MaterializedViewChanges diff),
       FunctionChanges := SortFunc cmp_FunctionDiff (FunctionChanges diff),
       ProcedureChanges := SortFunc cmp_ProcedureDiff (ProcedureChanges diff),
       SequenceChanges := SortFunc cmp_SequenceDiff (SequenceChanges diff),
       EnumTypeChanges := SortFunc cmp_EnumTypeDiff (EnumTypeChanges diff),
       ExtensionChanges := SortFunc cmp_ExtensionDiff (ExtensionChanges diff),
       EventTriggerChanges := SortFunc cmp_EventTriggerDiff (EventTriggerChanges diff),
       EventChanges := SortFunc cmp_EventDiff (EventChanges diff)\<rparr>"

lemma key_sortTableSubObjectChanges [simp]:
  "key_TableDiff (sortTableSubObjectChanges t) = key_TableDiff t"
  by (simp add: sortTableSubObjectChanges_def key_TableDiff_def)

lemmas sorted_diff_list = sort_keys [THEN sorted_SortFunc]

lemmas SortFunc_diff_perm = sort_keys [THEN SortFunc_perm]

end
