(* ===== verification/DiffTop.thy ===== *)
theory DiffTop
  imports DiffObjects DiffSort
begin

text \<open>
  The entry points of \<^verbatim>\<open>backend/plugin/schema/differ.go\<close>: \<open>GetDatabaseSchemaDiff\<close> and
  \<open>FilterPostgresArchiveSchema\<close>.  A nil pointer is \<open>None\<close>; the outer option of
  \<open>GetDatabaseSchemaDiff\<close> is a run-time panic.  The error result is always nil in the code and is
  left out.
\<close>

section \<open>GetDatabaseSchemaDiff\<close>

text \<open>The body of the loop over the schemas of the new database.\<close>

definition compareNewSchema ::
  "range_order \<Rightarrow> Engine \<Rightarrow> DatabaseMetadata \<Rightarrow> DatabaseMetadata \<Rightarrow> string \<Rightarrow> MetadataDiff \<Rightarrow>
   MetadataDiff option" where
  "compareNewSchema ord engine oldMeta newMeta schemaName diff =
     (case GetSchemaMetadata newMeta schemaName of
        None \<Rightarrow> Some diff
      | Some newSchemaMeta \<Rightarrow>
          (case GetSchemaMetadata oldMeta schemaName of
             None \<Rightarrow>
               (let created = (new_SchemaDiff MetadataDiffActionCreate)
                      \<lparr>sd_SchemaName := schemaName, sd_NewSchema := Some (sm_proto newSchemaMeta)\<rparr>;
                    diff' = diff\<lparr>SchemaChanges := SchemaChanges diff @ [created]\<rparr>
                in Some (addNewSchemaObjects diff' schemaName newSchemaMeta))
           | Some oldSchemaMeta \<Rightarrow>
               compareSchemaObjects ord engine diff schemaName oldSchemaMeta newSchemaMeta))"

primrec compareNewSchemas ::
  "range_order \<Rightarrow> Engine \<Rightarrow> DatabaseMetadata \<Rightarrow> DatabaseMetadata \<Rightarrow> string list \<Rightarrow> MetadataDiff \<Rightarrow>
   MetadataDiff option" where
  "compareNewSchemas ord engine oldMeta newMeta [] diff = Some diff"
| "compareNewSchemas ord engine oldMeta newMeta (schemaName # names) diff =
     Option.bind (compareNewSchema ord engine oldMeta newMeta schemaName diff)
       (compareNewSchemas ord engine oldMeta newMeta names)"

definition droppedSchemas :: "range_order \<Rightarrow> DatabaseMetadata \<Rightarrow> DatabaseMetadata \<Rightarrow> SchemaDiff list" where
  "droppedSchemas ord oldMeta newMeta =
     concat (map (\<lambda>schemaName.
         if GetSchemaMetadata newMeta schemaName = None
         then (case GetSchemaMetadata oldMeta schemaName of
                 None \<Rightarrow> []
               | Some oldSchemaMeta \<Rightarrow>
                   [(new_SchemaDiff MetadataDiffActionDrop)
                      \<lparr>sd_SchemaName := schemaName, sd_OldSchema := Some (sm_proto oldSchemaMeta)\<rparr>])
         else [])
       (ListSchemaNames ord oldMeta))"

definition GetDatabaseSchemaDiff ::
  "range_order \<Rightarrow> Engine \<Rightarrow> DatabaseMetadata option \<Rightarrow> DatabaseMetadata option \<Rightarrow>
   MetadataDiff option option" where
  "GetDatabaseSchemaDiff ord engine oldSchema newSchema =
     (case (oldSchema, newSchema) of
        (Some oldMeta, Some newMeta) \<Rightarrow>
          (case (dm_proto oldMeta, dm_proto newMeta) of
             (Some oldMetadata, Some newMetadata) \<Rightarrow>
               (let diff = (new_MetadataDiff (db_name newMetadata))
                      \<lparr>SchemaChanges := droppedSchemas ord oldMeta newMeta\<rparr>
                in map_option (\<lambda>d. Some (sortDiffLists
                       (compareEventTriggers ord (compareExtensions ord d oldMetadata newMetadata)
                          oldMetadata newMetadata)))
                     (compareNewSchemas ord engine oldMeta newMeta (ListSchemaNames ord newMeta) diff))
           | _ \<Rightarrow> Some None)
      | _ \<Rightarrow> Some None)"


section \<open>FilterPostgresArchiveSchema\<close>

definition FilterPostgresArchiveSchema :: "MetadataDiff option \<Rightarrow> MetadataDiff option" where
  "FilterPostgresArchiveSchema diff =
     map_option (\<lambda>diff.
       let archiveSchemaName = BackupDatabaseNameOfEngine Engine_POSTGRES
       in (new_MetadataDiff (md_DatabaseName diff))
            \<lparr>SchemaChanges := filter (\<lambda>c. sd_SchemaName c \<noteq> archiveSchemaName) (SchemaChanges diff),
             TableChanges := filter (\<lambda>c. td_SchemaName c \<noteq> archiveSchemaName) (TableChanges diff),
             ViewChanges := filter (\<lambda>c. vd_SchemaName c \<noteq> archiveSchemaName) (ViewChanges diff),
             MaterializedViewChanges :=
               filter (\<lambda>c. mvd_SchemaName c \<noteq> archiveSchemaName) (MaterializedViewChanges diff),
             FunctionChanges := filter (\<lambda>c. fd_SchemaName c \<noteq> archiveSchemaName) (FunctionChanges diff),
             ProcedureChanges := filter (\<lambda>c. prd_SchemaName c \<noteq> archiveSchemaName) (ProcedureChanges diff),
             SequenceChanges := filter (\<lambda>c. sqd_SchemaName c \<noteq> archiveSchemaName) (SequenceChanges diff),
             EnumTypeChanges := filter (\<lambda>c. etd_SchemaName c \<noteq> archiveSchemaName) (EnumTypeChanges diff),
             CommentChanges := filter (\<lambda>c. cmd_SchemaName c \<noteq> archiveSchemaName) (CommentChanges diff),
             ExtensionChanges := ExtensionChanges diff,
             EventTriggerChanges := EventTriggerChanges diff,
             EventChanges := EventChanges diff\<rparr>) diff"


section \<open>A diff as the collection of its changes\<close>

text \<open>
  The specification view of a diff: its changes in one multiset, the sub-objects of a table
  change in the order the differ gives them.  The comparison functions add to it.
\<close>

datatype change =
  SchemaChange SchemaDiff | TableChange TableDiff | ViewChange_of ViewDiff
| MaterializedViewChange_of MaterializedViewDiff | FunctionChange FunctionDiff
| ProcedureChange ProcedureDiff | SequenceChange SequenceDiff | EnumTypeChange EnumTypeDiff
| ExtensionChange ExtensionDiff | EventTriggerChange EventTriggerDiff | EventChange EventDiff

definition changes_list :: "MetadataDiff \<Rightarrow> change list" where
  "changes_list d =
     map SchemaChange (SchemaChanges d) @ map (TableChange \<circ> sortTableSubObjectChanges) (TableChanges d) @
     map ViewChange_of (ViewChanges d) @ map MaterializedViewChange_of (MaterializedViewChanges d) @
     map FunctionChange (FunctionChanges d) @ map ProcedureChange (ProcedureChanges d) @
     map SequenceChange (SequenceChanges d) @ map EnumTypeChange (EnumTypeChanges d) @
     map ExtensionChange (ExtensionChanges d) @ map EventTriggerChange (EventTriggerChanges d) @
     map EventChange (EventChanges d)"

definition all_changes :: "MetadataDiff \<Rightarrow> change multiset" where
  "all_changes d = mset (changes_list d)"

text \<open>Appending the lists of one diff to those of another.\<close>

definition diff_append :: "MetadataDiff \<Rightarrow> MetadataDiff \<Rightarrow> MetadataDiff" where
  "diff_append d e =
     d\<lparr>SchemaChanges := SchemaChanges d @ SchemaChanges e,
       TableChanges := TableChanges d @ TableChanges e,
       ViewChanges := ViewChanges d @ ViewChanges e,
       MaterializedViewChanges := MaterializedViewChanges d @ MaterializedViewChanges e,
       FunctionChanges := FunctionChanges d @ FunctionChanges e,
       ProcedureChanges := ProcedureChanges d @ ProcedureChanges e,
       SequenceChanges := SequenceChanges d @ SequenceChanges e,
       EnumTypeChanges := EnumTypeChanges d @ EnumTypeChanges e,
       ExtensionChanges := ExtensionChanges d @ ExtensionChanges e,
       EventTriggerChanges := EventTriggerChanges d @ EventTriggerChanges e,
       EventChanges := EventChanges d @ EventChanges e\<rparr>"

abbreviation empty_diff :: MetadataDiff where "empty_diff \<equiv> new_MetadataDiff []"

lemma all_changes_append [simp]: "all_changes (diff_append d e) = all_changes d + all_changes e"
  by (simp add: all_changes_def changes_list_def diff_append_def ac_simps)

lemma all_changes_empty [simp]: "all_changes (new_MetadataDiff n) = {#}"
  by (simp add: all_changes_def changes_list_def new_MetadataDiff_def)

lemma diff_append_empty [simp]: "diff_append d empty_diff = d"
  by (simp add: diff_append_def new_MetadataDiff_def)

lemma diff_append_assoc: "diff_append (diff_append a b) c = diff_append a (diff_append b c)"
  by (simp add: diff_append_def)

lemma diff_append_name [simp]: "md_DatabaseName (diff_append d e) = md_DatabaseName d"
  "CommentChanges (diff_append d e) = CommentChanges d"
  by (simp_all add: diff_append_def)

lemma sortSub_idem_key: "cmp_TableDiff (sortTableSubObjectChanges a) (sortTableSubObjectChanges b) = cmp_TableDiff a b"
  by (simp add: cmp_TableDiff_def sortTableSubObjectChanges_def)

text \<open>Each comparison appends what it finds in an empty diff.\<close>

named_theorems append_form "the comparisons append to the diff they are passed"

lemma compareViews_append [append_form]:
  "compareViews e d n s t = diff_append d (compareViews e empty_diff n s t)"
  by (simp add: compareViews_def diff_append_def Let_def new_MetadataDiff_def)

lemma compareMaterializedViews_append [append_form]:
  "compareMaterializedViews e d n s t = diff_append d (compareMaterializedViews e empty_diff n s t)"
  by (simp add: compareMaterializedViews_def diff_append_def Let_def new_MetadataDiff_def)

lemma compareFunctions_append [append_form]:
  "compareFunctions ord e d n s t = diff_append d (compareFunctions ord e empty_diff n s t)"
  by (simp add: compareFunctions_def diff_append_def new_MetadataDiff_def)

lemma compareProcedures_append [append_form]:
  "compareProcedures d n s t = diff_append d (compareProcedures empty_diff n s t)"
  by (simp add: compareProcedures_def diff_append_def Let_def new_MetadataDiff_def)

lemma compareSequences_append [append_form]:
  "compareSequences ord d n s t = diff_append d (compareSequences ord empty_diff n s t)"
  by (simp add: compareSequences_def diff_append_def Let_def new_MetadataDiff_def)

lemma compareEnumTypes_append [append_form]:
  "compareEnumTypes ord d n s t = diff_append d (compareEnumTypes ord empty_diff n s t)"
  by (simp add: compareEnumTypes_def diff_append_def Let_def new_MetadataDiff_def)

lemma compareEvents_append [append_form]:
  "compareEvents ord d n s t = diff_append d (compareEvents ord empty_diff n s t)"
  by (simp add: compareEvents_def diff_append_def Let_def new_MetadataDiff_def)

lemma compareExtensions_append [append_form]:
  "compareExtensions ord d p q = diff_append d (compareExtensions ord empty_diff p q)"
  by (simp add: compareExtensions_def diff_append_def Let_def new_MetadataDiff_def)

lemma compareEventTriggers_append [append_form]:
  "compareEventTriggers ord d p q = diff_append d (compareEventTriggers ord empty_diff p q)"
  by (simp add: compareEventTriggers_def diff_append_def Let_def new_MetadataDiff_def)

lemma addNewSchemaObjects_append [append_form]:
  "addNewSchemaObjects d n s = diff_append d (addNewSchemaObjects empty_diff n s)"
  by (simp add: addNewSchemaObjects_def diff_append_def Let_def new_MetadataDiff_def)

text \<open>What the comparison of a schema adds, the tables apart.\<close>

definition objects_delta ::
  "range_order \<Rightarrow> Engine \<Rightarrow> string \<Rightarrow> SchemaMetadata \<Rightarrow> SchemaMetadata \<Rightarrow> MetadataDiff list" where
  "objects_delta ord e n s t =
     [compareViews e empty_diff n s t, compareMaterializedViews e empty_diff n s t,
      compareFunctions ord e empty_diff n s t, compareProcedures empty_diff n s t,
      compareSequences ord empty_diff n s t, compareEnumTypes ord empty_diff n s t,
      compareEvents ord empty_diff n s t]"

lemma compareSchemaObjects_delta:
  "compareSchemaObjects ord e d n s t =
     map_option (\<lambda>ts. foldl diff_append d (empty_diff\<lparr>TableChanges := ts\<rparr> # objects_delta ord e n s t))
       (compareTables ord e n s t)"
proof -
  have "d\<lparr>TableChanges := TableChanges d @ ts\<rparr> = diff_append d (empty_diff\<lparr>TableChanges := ts\<rparr>)" for ts
    by (simp add: diff_append_def new_MetadataDiff_def)
  then show ?thesis
    unfolding compareSchemaObjects_def objects_delta_def Let_def
    by (simp split: option.split)
      (metis compareViews_append compareMaterializedViews_append compareFunctions_append
        compareProcedures_append compareSequences_append compareEnumTypes_append compareEvents_append)
qed

lemma foldl_diff_append: "foldl diff_append d ds = diff_append d (foldl diff_append empty_diff ds)"
proof (induction ds arbitrary: d)
  case Nil
  then show ?case by simp
next
  case (Cons x ds)
  have "foldl diff_append d (x # ds) = diff_append (diff_append d x) (foldl diff_append empty_diff ds)"
    using Cons.IH [of "diff_append d x"] by simp
  also have "\<dots> = diff_append d (foldl diff_append (diff_append empty_diff x) ds)"
    using Cons.IH [of "diff_append empty_diff x"]
    by (simp add: diff_append_assoc) (simp add: diff_append_def new_MetadataDiff_def)
  finally show ?case by simp
qed

lemma all_changes_foldl:
  "all_changes (foldl diff_append d ds) = all_changes d + (\<Sum>\<^sub># (mset (map all_changes ds)))"
  by (induction ds arbitrary: d) (simp_all add: ac_simps)

end
