(* ===== verification/DiffSelf.thy ===== *)
theory DiffSelf
  imports DiffTop
begin

text \<open>
  Comparing a database with itself (\<^verbatim>\<open>GetDatabaseSchemaDiff\<close>): what the construction of
  \<^verbatim>\<open>backend/store/model\<close> guarantees of its lookup maps, and that the differ then finds no change.
\<close>

section \<open>What the lookup maps promise\<close>

text \<open>
  \<open>columns_found t\<close>: each column of the table's message is the one its name looks up.
  \<open>indexes_keyed t\<close>: the key of an index is its normalized name.
\<close>

definition columns_found :: "TableMetadata \<Rightarrow> bool" where
  "columns_found t \<longleftrightarrow>
     (\<forall>c \<in> set (tbl_columns (tm_proto t)). map_option cm_proto (GetColumn t (col_name c)) = Some c)"

definition indexes_keyed :: "TableMetadata \<Rightarrow> bool" where
  "indexes_keyed t \<longleftrightarrow>
     distinct (map fst (internalIndexes t)) \<and>
     (\<forall>(k, i) \<in> set (internalIndexes t).
        normalizeNameByCaseSensitivity (idx_name (im_proto i)) (tm_isDetailCaseSensitive t) = k)"

text \<open>A table message: column names distinct up to case where case does not count, no NaN in a
  spatial index.\<close>

definition table_regular :: "bool \<Rightarrow> storepb_TableMetadata \<Rightarrow> bool" where
  "table_regular isDetailCaseSensitive t \<longleftrightarrow>
     distinct (map (\<lambda>c. normalizeNameByCaseSensitivity (col_name c) isDetailCaseSensitive) (tbl_columns t)) \<and>
     list_all index_regular (tbl_indexes t) \<and> list_all partition_regular (tbl_partitions t)"

definition table_ok :: "TableMetadata \<Rightarrow> bool" where
  "table_ok t \<longleftrightarrow> columns_found t \<and> indexes_keyed t \<and>
     list_all (index_regular \<circ> im_proto \<circ> snd) (internalIndexes t) \<and>
     list_all partition_regular (tbl_partitions (tm_proto t))"

lemma buildColumns_lookup:
  assumes "distinct (map (\<lambda>c. normalizeNameByCaseSensitivity (col_name c) cs) cols)" "c \<in> set cols"
  shows "map_of (buildColumns cols catalog cs) (normalizeNameByCaseSensitivity (col_name c) cs) =
     Some \<lparr>cm_proto = c, cm_config = map_of catalog (col_name c)\<rparr>"
  unfolding buildColumns_def
  using map_by_inj [OF assms, of "\<lambda>column. \<lparr>cm_proto = column, cm_config = map_of catalog (col_name column)\<rparr>"]
  by simp

lemma recursive_ok:
  assumes "distinct (map (\<lambda>c. normalizeNameByCaseSensitivity (col_name c) cs) cols)"
    and "tbl_columns proto = cols" "list_all partition_regular (tbl_partitions proto)"
  shows "list_all table_ok (fst (buildTablesMetadataRecursive cols cat ps root proto cs))"
  using assms
  by (induction cols cat ps root proto cs rule: buildTablesMetadataRecursive.induct)
    (auto simp: Let_def table_ok_def columns_found_def indexes_keyed_def GetColumn_def
      buildColumns_lookup split: prod.splits)

lemma root_indexes_keyed:
  "indexes_keyed (TableMetadata None cs cols
     (map_by (\<lambda>index. normalizeNameByCaseSensitivity (idx_name (im_proto index)) cs) id
        (buildIndexesMetadata table)) table catalog)"
  by (auto simp: indexes_keyed_def distinct_map_by dest!: set_map_by)

lemma buildTablesMetadata_ok:
  assumes "table_regular cs table"
  shows "list_all table_ok (fst (buildTablesMetadata table catalog cs))"
proof -
  let ?cat = "case catalog of None \<Rightarrow> [] | Some tc \<Rightarrow> map_by ccat_name id (tcat_columns tc)"
  let ?cols = "buildColumns (tbl_columns table) ?cat cs"
  let ?root = "TableMetadata None cs ?cols
     (map_by (\<lambda>index. normalizeNameByCaseSensitivity (idx_name (im_proto index)) cs) id
        (buildIndexesMetadata table)) table catalog"
  have d: "distinct (map (\<lambda>c. normalizeNameByCaseSensitivity (col_name c) cs) (tbl_columns table))"
    and i: "list_all index_regular (tbl_indexes table)"
    and p: "list_all partition_regular (tbl_partitions table)"
    using assms by (simp_all add: table_regular_def)
  have "index_regular (im_proto v)"
    if "(k, v) \<in> set (map_by (\<lambda>index. normalizeNameByCaseSensitivity (idx_name (im_proto index)) cs) id
          (buildIndexesMetadata table))" for k v
    using set_map_by [OF that] i by (auto simp: buildIndexesMetadata_def list_all_iff)
  then have "table_ok ?root"
    using root_indexes_keyed [of cs ?cols table catalog] p
    by (auto simp: table_ok_def columns_found_def GetColumn_def list_all_iff buildColumns_lookup [OF d])
  moreover have "fst (buildTablesMetadata table catalog cs) =
      ?root # fst (buildTablesMetadataRecursive (tbl_columns table) ?cat (tbl_partitions table) ?root table cs)"
    by (simp add: buildTablesMetadata_def Let_def split: prod.split)
  ultimately show ?thesis using recursive_ok [OF d refl p] by simp
qed

text \<open>A schema and a database of regular tables.\<close>

definition schema_ok :: "SchemaMetadata \<Rightarrow> bool" where
  "schema_ok s \<longleftrightarrow> list_all (table_ok \<circ> snd) (internalTables s)"

definition schema_regular :: "bool \<Rightarrow> storepb_SchemaMetadata \<Rightarrow> bool" where
  "schema_regular isDetailCaseSensitive s \<longleftrightarrow> list_all (table_regular isDetailCaseSensitive) (sch_tables s)"

definition database_ok :: "DatabaseMetadata \<Rightarrow> bool" where
  "database_ok d \<longleftrightarrow> list_all (schema_ok \<circ> snd) (dm_internal d)"

definition database_regular :: "Engine \<Rightarrow> storepb_DatabaseSchemaMetadata \<Rightarrow> bool" where
  "database_regular engine p \<longleftrightarrow>
     list_all (schema_regular (getIsDetailCaseSensitive engine)) (db_schemas p)"

lemma newSchemaMetadata_tables:
  assumes "(k, v) \<in> set (internalTables (newSchemaMetadata ocs dcs cat s))"
  shows "\<exists>table \<in> set (sch_tables s). \<exists>catalog. v \<in> set (fst (buildTablesMetadata table catalog dcs))"
  using set_map_by [OF assms [unfolded newSchemaMetadata_def Let_def, simplified]]
  by (auto dest!: set_zip_leftD split: prod.splits) (metis fst_conv)

lemma newSchemaMetadata_ok:
  assumes "schema_regular dcs s"
  shows "schema_ok (newSchemaMetadata ocs dcs cat s)"
proof -
  have "table_ok v" if "(k, v) \<in> set (internalTables (newSchemaMetadata ocs dcs cat s))" for k v
    using newSchemaMetadata_tables [OF that] assms buildTablesMetadata_ok
    by (fastforce simp: schema_regular_def list_all_iff)
  then show ?thesis by (auto simp: schema_ok_def list_all_iff)
qed

lemma NewDatabaseMetadata_ok:
  assumes "database_regular engine p"
  shows "database_ok (NewDatabaseMetadata p dump config engine ocs)"
  using assms unfolding database_ok_def list_all_iff
  by (auto simp: NewDatabaseMetadata_def Let_def database_regular_def list_all_iff
      intro!: newSchemaMetadata_ok dest!: set_map_by)


section \<open>No change\<close>

lemma compareColumns_same: "columns_found t \<Longrightarrow> compareColumns engine t t = []"
  by (fastforce simp: compareColumns_def columns_found_def equal_refl split: option.splits)

lemma indexes_keyed_lookup:
  assumes "indexes_keyed t" "i \<in> set (ListIndexes ord t)" "fair_order ord"
  shows "table_GetIndex t (idx_name (im_proto i)) = Some i"
proof -
  from assms(2,3) obtain k where k: "map_of (internalIndexes t) k = Some i"
    by (auto simp: ListIndexes_def go_range_set)
  then have "(k, i) \<in> set (internalIndexes t)" by (rule map_of_SomeD)
  with assms(1) k show ?thesis by (auto simp: table_GetIndex_def indexes_keyed_def)
qed

lemma compareIndexes_same:
  assumes "indexes_keyed t" "list_all (index_regular \<circ> im_proto \<circ> snd) (internalIndexes t)" "fair_order ord"
  shows "compareIndexes ord engine t t = []"
proof -
  have "index_regular (im_proto i)" if "i \<in> set (ListIndexes ord t)" for i
    using that assms(2,3)
    by (auto simp: ListIndexes_def go_range_set list_all_iff dest!: map_of_SomeD)
  then show ?thesis
    using indexes_keyed_lookup [OF assms(1) _ assms(3)]
    by (auto simp: compareIndexes_def equal_refl)
qed

lemma compareTableDetails_same:
  "table_ok t \<Longrightarrow> fair_order ord \<Longrightarrow> compareTableDetails ord engine schema name t t = Some None"
  by (simp add: compareTableDetails_def table_ok_def compareColumns_same compareIndexes_same equal_refl
      list_all_iff)

lemma concat_map_Nil: "(\<And>x. x \<in> set xs \<Longrightarrow> f x = []) \<Longrightarrow> concat (map f xs) = []"
  by (induction xs) auto

lemma compareTables_same:
  assumes "schema_ok s" "fair_order ord"
  shows "compareTables ord engine name s s = Some []"
proof -
  have "table_ok t" if "GetTable s n = Some t" for n t
    using that assms(1) by (auto simp: GetTable_def schema_ok_def list_all_iff dest!: map_of_SomeD)
  moreover have "(if GetTable s n = None then case GetTable s n of None \<Rightarrow> [] | Some t \<Rightarrow> f n t else []) = []"
    for n and f :: "string \<Rightarrow> TableMetadata \<Rightarrow> TableDiff list" by simp
  ultimately show ?thesis
    unfolding compareTables_def Let_def
    by (subst map_panic_Some [where g = "\<lambda>_. []"])
      (auto simp: compareTableDetails_same assms(2) split: option.split)
qed

lemma compareViews_same: "compareViews e d n s s = d"
  unfolding compareViews_def Let_def
  by (subst concat_map_Nil, simp add: default_view.view_same split: option.split)+ simp

lemma compareMaterializedViews_same: "compareMaterializedViews e d n s s = d"
  unfolding compareMaterializedViews_def Let_def
  by (subst concat_map_Nil, simp add: default_view.mv_same split: option.split)+ simp

lemma compareFunctions_same: "fair_order ord \<Longrightarrow> compareFunctions ord e d n s s = d"
  unfolding compareFunctions_def
  by (subst map_diff_refl) (simp_all add: default_function.detailed_same)

lemma compareProcedures_same: "compareProcedures d n s s = d"
  unfolding compareProcedures_def Let_def
  by (subst concat_map_Nil, simp add: equal_refl split: option.split)+ simp

lemma compareSequences_same: "fair_order ord \<Longrightarrow> compareSequences ord d n s s = d"
  unfolding compareSequences_def Let_def by (subst map_diff_refl) (simp_all add: equal_refl)

lemma compareEnumTypes_same: "fair_order ord \<Longrightarrow> compareEnumTypes ord d n s s = d"
  unfolding compareEnumTypes_def Let_def by (subst map_diff_refl) (simp_all add: equal_refl)

lemma compareEvents_same: "fair_order ord \<Longrightarrow> compareEvents ord d n s s = d"
  unfolding compareEvents_def Let_def by (subst map_diff_refl) simp_all

lemma compareExtensions_same: "fair_order ord \<Longrightarrow> compareExtensions ord d p p = d"
  by (simp add: compareExtensions_def Let_def map_diff_refl map_changed_refl)

lemma compareEventTriggers_same: "fair_order ord \<Longrightarrow> compareEventTriggers ord d p p = d"
  by (simp add: compareEventTriggers_def Let_def map_diff_refl map_changed_refl)

lemmas compare_same = compareTables_same compareViews_same compareMaterializedViews_same
  compareFunctions_same compareProcedures_same compareSequences_same compareEnumTypes_same
  compareEvents_same compareExtensions_same compareEventTriggers_same

lemma compareSchemaObjects_same:
  "schema_ok s \<Longrightarrow> fair_order ord \<Longrightarrow> compareSchemaObjects ord engine d n s s = Some d"
  by (simp add: compareSchemaObjects_def compare_same)

lemma compareNewSchemas_same:
  assumes "database_ok m" "fair_order ord"
  shows "compareNewSchemas ord engine m m names d = Some d"
proof (induction names)
  case (Cons n names)
  have "schema_ok s" if "GetSchemaMetadata m n = Some s" for s
    using that assms(1) by (auto simp: GetSchemaMetadata_def database_ok_def list_all_iff dest!: map_of_SomeD)
  then show ?case
    by (simp add: Cons compareNewSchema_def compareSchemaObjects_same assms(2) split: option.split)
qed simp

lemma droppedSchemas_same [simp]: "droppedSchemas ord m m = []"
  unfolding droppedSchemas_def by (rule concat_map_Nil) (simp split: option.split)

lemma sortDiffLists_empty [simp]: "sortDiffLists (new_MetadataDiff n) = new_MetadataDiff n"
  by (simp add: sortDiffLists_def new_MetadataDiff_def)

lemma GetDatabaseSchemaDiff_same:
  assumes "database_ok m" "dm_proto m = Some p" "fair_order ord"
  shows "GetDatabaseSchemaDiff ord engine (Some m) (Some m) = Some (Some (new_MetadataDiff (db_name p)))"
proof -
  have "(new_MetadataDiff (db_name p))\<lparr>SchemaChanges := []\<rparr> = new_MetadataDiff (db_name p)"
    by (simp add: new_MetadataDiff_def)
  then show ?thesis
    using compareNewSchemas_same [OF assms(1,3)]
    by (simp add: GetDatabaseSchemaDiff_def assms(2,3) Let_def compare_same)
qed

end
