(* ===== verification/DiffOrder.thy ===== *)
theory DiffOrder
  imports DiffSelf
begin

text \<open>
  The order in which Go visits its maps is unspecified, and the differ walks many.  This theory
  shows that the result does not depend on it: the same changes are reported, and the sorted lists
  inside a table change are the same lists.
\<close>

section \<open>Sorting twice\<close>

definition asym_cmp :: "('a \<Rightarrow> 'a \<Rightarrow> int) \<Rightarrow> bool" where
  "asym_cmp cmp \<longleftrightarrow> (\<forall>a b. cmp a b < 0 \<longrightarrow> \<not> cmp b a < 0)"

text \<open>No element of the reversed prefix is less than the one after it.\<close>

fun settled :: "('a \<Rightarrow> 'a \<Rightarrow> int) \<Rightarrow> 'a list \<Rightarrow> bool" where
  "settled cmp (x # y # ys) \<longleftrightarrow> \<not> cmp x y < 0 \<and> settled cmp (y # ys)"
| "settled cmp _ \<longleftrightarrow> True"

lemma settled_insert_left:
  assumes "asym_cmp cmp"
  shows "settled cmp ys \<Longrightarrow> settled cmp (insert_left cmp x ys)"
proof (induction ys)
  case (Cons y ys)
  then show ?case using assms by (cases ys) (auto simp: asym_cmp_def)
qed simp

lemma foldl_insert_left_settled:
  "settled cmp (rev xs @ acc) \<Longrightarrow> foldl (\<lambda>acc x. insert_left cmp x acc) acc xs = rev xs @ acc"
proof (induction xs arbitrary: acc)
  case (Cons x xs)
  have "settled cmp (zs @ x # acc) \<Longrightarrow> settled cmp (x # acc)" for zs
  proof (induction zs)
    case (Cons z zs)
    then show ?case by (cases "zs @ x # acc") auto
  qed simp
  with Cons.prems have "settled cmp (x # acc)" by simp
  then have "insert_left cmp x acc = x # acc" by (cases acc) auto
  with Cons show ?case by simp
qed simp

lemma SortFunc_idem:
  assumes "asym_cmp cmp"
  shows "SortFunc cmp (SortFunc cmp xs) = SortFunc cmp xs"
proof -
  have "settled cmp acc \<Longrightarrow> settled cmp (foldl (\<lambda>acc x. insert_left cmp x acc) acc xs)" for acc
    by (induction xs arbitrary: acc) (auto intro: settled_insert_left [OF assms])
  from this [of "[]"] show ?thesis
    by (simp add: SortFunc_def foldl_insert_left_settled)
qed

lemma cmp_key_asym: "cmp_key cmp key \<Longrightarrow> asym_cmp cmp"
  by (auto simp: cmp_key_def asym_cmp_def)

lemma cmp_ColumnDiff_asym: "asym_cmp cmp_ColumnDiff"
  unfolding asym_cmp_def
  by (metis cmp_ColumnDiff_all_pos cmp_ColumnDiff_no_pos less_asym)

lemmas sort_asym = sort_keys [THEN cmp_key_asym]

lemma sortTableSubObjectChanges_idem:
  "sortTableSubObjectChanges (sortTableSubObjectChanges t) = sortTableSubObjectChanges t"
  by (simp add: sortTableSubObjectChanges_def SortFunc_idem sort_asym cmp_ColumnDiff_asym)

lemma all_changes_sortDiffLists [simp]: "all_changes (sortDiffLists d) = all_changes d"
  by (simp add: all_changes_def changes_list_def sortDiffLists_def sortTableSubObjectChanges_idem
      image_mset.compositionality comp_def)


section \<open>Distinct keys\<close>

lemma map_diff_inj_on:
  assumes "perm_order a1" "perm_order a2" "u \<noteq> v"
    and "\<And>k x z. map_of m k = Some x \<Longrightarrow> z \<in> set (d k x) \<Longrightarrow> z = D k x \<and> key z = (k, u)"
    and "\<And>k y z. map_of n k = Some y \<Longrightarrow> z \<in> set (c k y) \<Longrightarrow> z = C k y \<and> key z = (k, v)"
    and "\<And>k x y z. map_of m k = Some x \<Longrightarrow> map_of n k = Some y \<Longrightarrow> z \<in> set (b k x y) \<Longrightarrow>
       z = D k x \<and> key z = (k, u) \<or> z = C k y \<and> key z = (k, v)"
  shows "inj_on key (set (map_diff a1 a2 m n d c b))"
proof -
  have "(\<exists>k x. map_of m k = Some x \<and> z = D k x \<and> key z = (k, u)) \<or>
        (\<exists>k y. map_of n k = Some y \<and> z = C k y \<and> key z = (k, v))"
    if "z \<in> set (map_diff a1 a2 m n d c b)" for z
    using that assms(4-6) unfolding map_diff_set [OF assms(1,2)] by metis
  with assms(3) show ?thesis unfolding inj_on_def by (metis Pair_inject option.inject)
qed

lemma map_by_key: "map_of (map_by key id xs) k = Some x \<Longrightarrow> key x = k"
  by (auto dest: map_by_SomeD)

lemmas table_key_defs = key_ForeignKeyDiff_def key_CheckConstraintDiff_def key_PartitionDiff_def
  key_TriggerDiff_def name_ForeignKeyDiff_def name_CheckConstraintDiff_def name_PartitionDiff_def
  name_TriggerDiff_def

lemma compareForeignKeys_inj: "fair_order ord \<Longrightarrow> inj_on key_ForeignKeyDiff (set (compareForeignKeys ord xs ys))"
  unfolding compareForeignKeys_def
  by (rule map_diff_inj_on [where u = MetadataDiffActionDrop and v = MetadataDiffActionCreate
        and D = "\<lambda>_ x. (new_ForeignKeyDiff MetadataDiffActionDrop)\<lparr>fkd_OldForeignKey := Some x\<rparr>"
        and C = "\<lambda>_ x. (new_ForeignKeyDiff MetadataDiffActionCreate)\<lparr>fkd_NewForeignKey := Some x\<rparr>"])
    (auto simp: table_key_defs new_ForeignKeyDiff_def dest!: map_by_key split: if_splits)

lemma check_diff_inj: "fair_order ord \<Longrightarrow> inj_on key_CheckConstraintDiff (set (check_diff ord engine xs ys))"
  unfolding check_diff_def
  by (rule map_diff_inj_on [where u = MetadataDiffActionDrop and v = MetadataDiffActionCreate
        and D = "\<lambda>_ x. (new_CheckConstraintDiff MetadataDiffActionDrop)\<lparr>ckd_OldCheckConstraint := Some x\<rparr>"
        and C = "\<lambda>_ x. (new_CheckConstraintDiff MetadataDiffActionCreate)\<lparr>ckd_NewCheckConstraint := Some x\<rparr>"])
    (auto simp: table_key_defs new_CheckConstraintDiff_def check_both_def dest!: map_by_key split: if_splits)

lemma comparePartitions_inj: "fair_order ord \<Longrightarrow> inj_on key_PartitionDiff (set (comparePartitions ord e xs ys))"
  unfolding comparePartitions_def
  by (rule map_diff_inj_on [where u = MetadataDiffActionDrop and v = MetadataDiffActionCreate
        and D = "\<lambda>_ x. (new_PartitionDiff MetadataDiffActionDrop)\<lparr>pd_OldPartition := Some x\<rparr>"
        and C = "\<lambda>_ x. (new_PartitionDiff MetadataDiffActionCreate)\<lparr>pd_NewPartition := Some x\<rparr>"])
    (auto simp: table_key_defs new_PartitionDiff_def dest!: map_by_key split: if_splits)

lemma compareTriggers_inj: "fair_order ord \<Longrightarrow> inj_on key_TriggerDiff (set (compareTriggers ord xs ys))"
  unfolding compareTriggers_def
  by (rule map_diff_inj_on [where u = MetadataDiffActionDrop and v = MetadataDiffActionCreate
        and D = "\<lambda>k x. (new_TriggerDiff MetadataDiffActionDrop)\<lparr>trd_TriggerName := k, trd_OldTrigger := Some x\<rparr>"
        and C = "\<lambda>k x. (new_TriggerDiff MetadataDiffActionCreate)\<lparr>trd_TriggerName := k, trd_NewTrigger := Some x\<rparr>"])
    (auto simp: table_key_defs new_TriggerDiff_def dest!: map_by_key split: if_splits)

text \<open>Indexes: the names of the entries of a table are distinct.\<close>

lemma indexes_keyed_inj:
  assumes "indexes_keyed t" "fair_order ord" "i \<in> set (ListIndexes ord t)" "j \<in> set (ListIndexes ord t)"
    "idx_name (im_proto i) = idx_name (im_proto j)"
  shows "i = j"
  using assms indexes_keyed_lookup by (metis option.inject)

definition drop_index :: "IndexMetadata \<Rightarrow> IndexDiff" where
  "drop_index i = (new_IndexDiff MetadataDiffActionDrop)\<lparr>id_OldIndex := Some (im_proto i)\<rparr>"

definition create_index :: "IndexMetadata \<Rightarrow> IndexDiff" where
  "create_index i = (new_IndexDiff MetadataDiffActionCreate)\<lparr>id_NewIndex := Some (im_proto i)\<rparr>"

lemma compareIndexes_elem:
  assumes "indexes_keyed s" "indexes_keyed t" "fair_order ord" "z \<in> set (compareIndexes ord engine s t)"
  shows "(\<exists>i \<in> set (ListIndexes ord s). z = drop_index i) \<or> (\<exists>i \<in> set (ListIndexes ord t). z = create_index i)"
proof -
  have "i \<in> set (ListIndexes ord s)" if "table_GetIndex s n = Some i" for n i
  proof -
    have "(normalizeNameByCaseSensitivity n (tm_isDetailCaseSensitive s), i) \<in>
        set (go_range (ord Site_ListIndexes) (internalIndexes s))"
      using that assms(3) by (simp add: table_GetIndex_def go_range_set)
    then show ?thesis unfolding ListIndexes_def by force
  qed
  with assms(4) show ?thesis
    by (auto simp: compareIndexes_def drop_index_def create_index_def split: if_splits option.splits)
qed

lemma compareIndexes_inj:
  assumes "indexes_keyed s" "indexes_keyed t" "fair_order ord"
  shows "inj_on key_IndexDiff (set (compareIndexes ord engine s t))"
proof (rule inj_onI)
  fix z w
  assume z: "z \<in> set (compareIndexes ord engine s t)" and w: "w \<in> set (compareIndexes ord engine s t)"
    and key: "key_IndexDiff z = key_IndexDiff w"
  have D: "key_IndexDiff (drop_index i) = (idx_name (im_proto i), MetadataDiffActionDrop)"
    and C: "key_IndexDiff (create_index i) = (idx_name (im_proto i), MetadataDiffActionCreate)" for i
    by (simp_all add: key_IndexDiff_def name_IndexDiff_def drop_index_def create_index_def new_IndexDiff_def)
  note inj = indexes_keyed_inj [OF assms(1,3)] indexes_keyed_inj [OF assms(2,3)]
  from compareIndexes_elem [OF assms z] compareIndexes_elem [OF assms w]
  show "z = w"
    using key by (elim disjE bexE) (simp_all add: D C, (blast dest: inj)+)
qed


section \<open>Tables\<close>

lemma Some_eq_map_option [simp]: "Some y = map_option f x \<longleftrightarrow> (\<exists>z. x = Some z \<and> y = f z)"
  by (cases x) auto

lemma mset_eq_Nil: "mset xs = mset ys \<Longrightarrow> xs = [] \<longleftrightarrow> ys = []"
  by (metis mset_zero_iff)

lemma compareTableDetails_order:
  assumes "indexes_keyed s" "indexes_keyed t" "fair_order a" "fair_order b"
  shows "map_option (map_option sortTableSubObjectChanges) (compareTableDetails a engine schema name s t) =
         map_option (map_option sortTableSubObjectChanges) (compareTableDetails b engine schema name s t)"
proof -
  note order = compareIndexes_perm [OF assms(3,4), of engine s t]
    compareForeignKeys_perm [OF assms(3,4), of "tbl_foreign_keys (tm_proto s)" "tbl_foreign_keys (tm_proto t)"]
    check_diff_perm [OF assms(3,4), of engine "tbl_check_constraints (tm_proto s)" "tbl_check_constraints (tm_proto t)"]
    comparePartitions_perm [OF assms(3,4), of engine "tbl_partitions (tm_proto s)" "tbl_partitions (tm_proto t)"]
    compareTriggers_perm [OF assms(3,4), of "tbl_triggers (tm_proto s)" "tbl_triggers (tm_proto t)"]
  have sorted:
    "SortFunc cmp_IndexDiff (compareIndexes a engine s t) = SortFunc cmp_IndexDiff (compareIndexes b engine s t)"
    "SortFunc cmp_ForeignKeyDiff (compareForeignKeys a (tbl_foreign_keys (tm_proto s)) (tbl_foreign_keys (tm_proto t))) =
     SortFunc cmp_ForeignKeyDiff (compareForeignKeys b (tbl_foreign_keys (tm_proto s)) (tbl_foreign_keys (tm_proto t)))"
    "SortFunc cmp_CheckConstraintDiff (check_diff a engine (tbl_check_constraints (tm_proto s)) (tbl_check_constraints (tm_proto t))) =
     SortFunc cmp_CheckConstraintDiff (check_diff b engine (tbl_check_constraints (tm_proto s)) (tbl_check_constraints (tm_proto t)))"
    "SortFunc cmp_PartitionDiff (comparePartitions a engine (tbl_partitions (tm_proto s)) (tbl_partitions (tm_proto t))) =
     SortFunc cmp_PartitionDiff (comparePartitions b engine (tbl_partitions (tm_proto s)) (tbl_partitions (tm_proto t)))"
    "SortFunc cmp_TriggerDiff (compareTriggers a (tbl_triggers (tm_proto s)) (tbl_triggers (tm_proto t))) =
     SortFunc cmp_TriggerDiff (compareTriggers b (tbl_triggers (tm_proto s)) (tbl_triggers (tm_proto t)))"
    using order assms
    by (auto intro!: SortFunc_diff_perm compareIndexes_inj compareForeignKeys_inj check_diff_inj
        comparePartitions_inj compareTriggers_inj)
  show ?thesis
    unfolding compareTableDetails_def Let_def
    using order [THEN mset_eq_Nil] sorted
    by (simp add: compareCheckConstraints_eq assms(3,4) sortTableSubObjectChanges_def new_TableDiff_def)
qed


section \<open>The whole diff\<close>

text \<open>Every table a database is built with has its indexes under their normalized names.\<close>

definition schema_keyed :: "SchemaMetadata \<Rightarrow> bool" where
  "schema_keyed s \<longleftrightarrow> list_all (indexes_keyed \<circ> snd) (internalTables s)"

definition database_keyed :: "DatabaseMetadata \<Rightarrow> bool" where
  "database_keyed d \<longleftrightarrow> list_all (schema_keyed \<circ> snd) (dm_internal d)"

lemma recursive_keyed: "list_all indexes_keyed (fst (buildTablesMetadataRecursive cols cat ps root proto cs))"
  by (induction cols cat ps root proto cs rule: buildTablesMetadataRecursive.induct)
    (auto simp: Let_def indexes_keyed_def split: prod.splits)

lemma buildTablesMetadata_keyed: "list_all indexes_keyed (fst (buildTablesMetadata table catalog cs))"
  by (auto simp: buildTablesMetadata_def Let_def root_indexes_keyed split: prod.splits)
    (metis fst_conv recursive_keyed)

lemma NewDatabaseMetadata_keyed: "database_keyed (NewDatabaseMetadata p dump config engine ocs)"
proof -
  have "indexes_keyed v" if "(k, v) \<in> set (internalTables (newSchemaMetadata ocs dcs cat s))" for k v dcs cat s
    using newSchemaMetadata_tables [OF that] buildTablesMetadata_keyed by (fastforce simp: list_all_iff)
  then have "schema_keyed (newSchemaMetadata ocs dcs cat s)" for dcs cat s
    by (auto simp: schema_keyed_def list_all_iff)
  then show ?thesis
    by (auto simp: database_keyed_def NewDatabaseMetadata_def Let_def list_all_iff dest!: set_map_by)
qed

lemma schema_keyed_table: "schema_keyed s \<Longrightarrow> GetTable s n = Some t \<Longrightarrow> indexes_keyed t"
  by (auto simp: GetTable_def schema_keyed_def list_all_iff dest!: map_of_SomeD)

lemma database_keyed_schema: "database_keyed d \<Longrightarrow> GetSchemaMetadata d n = Some s \<Longrightarrow> schema_keyed s"
  by (auto simp: GetSchemaMetadata_def database_keyed_def list_all_iff dest!: map_of_SomeD)

text \<open>A loop that may panic, up to a view of its results.\<close>

lemma map_panic_view:
  assumes "\<And>x. x \<in> set xs \<Longrightarrow> map_option (map g) (f x) = map_option (map g) (h x)"
  shows "map_option (\<lambda>ls. map g (concat ls)) (map_panic f xs) = map_option (\<lambda>ls. map g (concat ls)) (map_panic h xs)"
  using assms
proof (induction xs)
  case (Cons x xs)
  have "map_option (map g) (f x) = map_option (map g) (h x)" by (simp add: Cons.prems)
  moreover have "map_option (\<lambda>ls. map g (concat ls)) (map_panic f xs) =
      map_option (\<lambda>ls. map g (concat ls)) (map_panic h xs)"
    using Cons by simp
  ultimately show ?case
    by (cases "map_panic f xs"; cases "map_panic h xs") (auto split: option.splits)
qed simp

lemma compareTables_order:
  assumes "schema_keyed s" "schema_keyed t" "fair_order a" "fair_order b"
  shows "map_option (map sortTableSubObjectChanges) (compareTables a engine name s t) =
         map_option (map sortTableSubObjectChanges) (compareTables b engine name s t)"
proof -
  have details: "map_option (map sortTableSubObjectChanges)
      (case compareTableDetails a engine name n x y of None \<Rightarrow> None | Some None \<Rightarrow> Some [] | Some (Some d) \<Rightarrow> Some [d]) =
    map_option (map sortTableSubObjectChanges)
      (case compareTableDetails b engine name n x y of None \<Rightarrow> None | Some None \<Rightarrow> Some [] | Some (Some d) \<Rightarrow> Some [d])"
    if "GetTable s n = Some x" "GetTable t n = Some y" for n x y
    using compareTableDetails_order [OF schema_keyed_table schema_keyed_table assms(3,4), OF assms(1) that(1)
        assms(2) that(2), of engine name n]
    by (cases "compareTableDetails a engine name n x y"; cases "compareTableDetails b engine name n x y")
      (auto split: option.splits)
  note view = map_panic_view [where g = sortTableSubObjectChanges]
  show ?thesis
    unfolding compareTables_def Let_def option.map_comp comp_def map_append
    by (rule arg_cong [OF view, of _ _ _ "map_option ((@) _)", unfolded option.map_comp comp_def])
      (auto split: option.split simp: details)
qed

text \<open>
  What a schema adds to the diff, up to a panic: the panic and the changes do not depend on the order.
\<close>

lemma all_changes_lists:
  "all_changes (empty_diff\<lparr>TableChanges := ts\<rparr>) = image_mset TableChange (mset (map sortTableSubObjectChanges ts))"
  "all_changes (d\<lparr>FunctionChanges := FunctionChanges d @ fs\<rparr>) = all_changes d + image_mset FunctionChange (mset fs)"
  "all_changes (d\<lparr>SequenceChanges := SequenceChanges d @ qs\<rparr>) = all_changes d + image_mset SequenceChange (mset qs)"
  "all_changes (d\<lparr>EnumTypeChanges := EnumTypeChanges d @ es\<rparr>) = all_changes d + image_mset EnumTypeChange (mset es)"
  "all_changes (d\<lparr>EventChanges := EventChanges d @ vs\<rparr>) = all_changes d + image_mset EventChange (mset vs)"
  "all_changes (d\<lparr>ExtensionChanges := ExtensionChanges d @ xs\<rparr>) = all_changes d + image_mset ExtensionChange (mset xs)"
  "all_changes (d\<lparr>EventTriggerChanges := EventTriggerChanges d @ ys\<rparr>) =
     all_changes d + image_mset EventTriggerChange (mset ys)"
  by (simp_all add: all_changes_def changes_list_def new_MetadataDiff_def ac_simps image_mset.compositionality
      comp_def)

lemma loops_order:
  assumes "fair_order a" "fair_order b"
  shows "all_changes (compareFunctions a e d n s t) = all_changes (compareFunctions b e d n s t)"
    and "all_changes (compareSequences a d n s t) = all_changes (compareSequences b d n s t)"
    and "all_changes (compareEnumTypes a d n s t) = all_changes (compareEnumTypes b d n s t)"
    and "all_changes (compareEvents a d n s t) = all_changes (compareEvents b d n s t)"
    and "all_changes (compareExtensions a d p q) = all_changes (compareExtensions b d p q)"
    and "all_changes (compareEventTriggers a d p q) = all_changes (compareEventTriggers b d p q)"
  using assms
  by (simp_all add: compareFunctions_def compareSequences_def compareEnumTypes_def compareEvents_def
      compareExtensions_def compareEventTriggers_def Let_def all_changes_lists mset_append
      map_diff_perm [of "a _" "a _" "b _" "b _"] map_changed_perm [of "a _" "b _"])

lemma compareSchemaObjects_order:
  assumes "schema_keyed s" "schema_keyed t" "fair_order a" "fair_order b"
  shows "map_option all_changes (compareSchemaObjects a engine d name s t) =
         map_option all_changes (compareSchemaObjects b engine d name s t)"
proof -
  have "map_option (\<lambda>ts. f (map sortTableSubObjectChanges ts)) (compareTables a engine name s t) =
        map_option (\<lambda>ts. f (map sortTableSubObjectChanges ts)) (compareTables b engine name s t)"
    for f :: "TableDiff list \<Rightarrow> change multiset"
    using arg_cong [OF compareTables_order [OF assms, of engine name], of "map_option f"]
    by (simp add: option.map_comp comp_def)
  then show ?thesis
    using loops_order [OF assms(3,4)]
    by (simp add: compareSchemaObjects_delta objects_delta_def option.map_comp comp_def all_changes_lists
        del: mset_map)
qed

lemma compareSchemaObjects_base:
  "map_option all_changes (compareSchemaObjects ord engine d name s t) =
   map_option (\<lambda>c. all_changes d + c)
     (map_option all_changes (compareSchemaObjects ord engine empty_diff name s t))"
  unfolding compareSchemaObjects_delta option.map_comp comp_def all_changes_foldl
  by (simp add: ac_simps)

definition schema_changes ::
  "range_order \<Rightarrow> Engine \<Rightarrow> DatabaseMetadata \<Rightarrow> DatabaseMetadata \<Rightarrow> string \<Rightarrow> change multiset option" where
  "schema_changes ord engine m m' n = map_option all_changes (compareNewSchema ord engine m m' n empty_diff)"

lemma compareNewSchema_base:
  "map_option all_changes (compareNewSchema ord engine m m' n d) =
   map_option (\<lambda>c. all_changes d + c) (schema_changes ord engine m m' n)"
proof -
  have add: "all_changes (addNewSchemaObjects d n s) = all_changes d + all_changes (addNewSchemaObjects empty_diff n s)"
    for d n s by (subst addNewSchemaObjects_append) simp
  have sch: "all_changes (d\<lparr>SchemaChanges := SchemaChanges d @ [c]\<rparr>) =
      all_changes d + {#SchemaChange c#}" for d c
    by (simp add: all_changes_def changes_list_def)
  show ?thesis
    using compareSchemaObjects_base [of ord engine d n]
    by (simp add: schema_changes_def compareNewSchema_def Let_def add [of "_\<lparr>SchemaChanges := _\<rparr>"] sch
        ac_simps split: option.split)
qed

lemma schema_changes_order:
  assumes "database_keyed m" "database_keyed m'" "fair_order a" "fair_order b"
  shows "schema_changes a engine m m' n = schema_changes b engine m m' n"
  using compareSchemaObjects_order [OF database_keyed_schema database_keyed_schema assms(3,4), OF assms(1) _ assms(2)]
  by (auto simp: schema_changes_def compareNewSchema_def split: option.split)

text \<open>The loop over the schemas adds the changes of each.\<close>

lemma compareNewSchemas_sum:
  "map_option all_changes (compareNewSchemas ord engine m m' names d) =
   (if \<exists>n \<in> set names. schema_changes ord engine m m' n = None then None
    else Some (all_changes d + (\<Sum>n \<in># mset names. the (schema_changes ord engine m m' n))))"
proof (induction names arbitrary: d)
  case (Cons n names)
  have *: "map_option all_changes (compareNewSchema ord engine m m' n d) =
    map_option (\<lambda>c. all_changes d + c) (schema_changes ord engine m m' n)"
    by (rule compareNewSchema_base)
  show ?case
  proof (cases "compareNewSchema ord engine m m' n d")
    case None
    then show ?thesis using * by simp
  next
    case (Some d')
    then obtain c where "schema_changes ord engine m m' n = Some c" "all_changes d' = all_changes d + c"
      using * by auto
    then show ?thesis using Some Cons.IH [of d'] by (simp add: ac_simps)
  qed
qed simp

lemma ListSchemaNames_perm:
  "fair_order a \<Longrightarrow> fair_order b \<Longrightarrow> mset (ListSchemaNames a m) = mset (ListSchemaNames b m)"
  by (simp add: ListSchemaNames_def mset_go_range [of "a _" "b _"])

lemma droppedSchemas_perm:
  "fair_order a \<Longrightarrow> fair_order b \<Longrightarrow> mset (droppedSchemas a m m') = mset (droppedSchemas b m m')"
  unfolding droppedSchemas_def by (intro mset_concat_map_perm ListSchemaNames_perm)

lemma compareNewSchemas_order:
  assumes "database_keyed m" "database_keyed m'" "fair_order a" "fair_order b"
    and "all_changes d = all_changes d'"
  shows "map_option all_changes (compareNewSchemas a engine m m' (ListSchemaNames a m') d) =
         map_option all_changes (compareNewSchemas b engine m m' (ListSchemaNames b m') d')"
proof -
  have "mset (ListSchemaNames a m') = mset (ListSchemaNames b m')"
    using assms by (intro ListSchemaNames_perm)
  then show ?thesis
    unfolding compareNewSchemas_sum schema_changes_order [OF assms(1-4), of engine] assms(5)
    by (metis (no_types, lifting) set_mset_mset)
qed

lemma GetDatabaseSchemaDiff_order:
  assumes "database_keyed m" "database_keyed m'" "fair_order a" "fair_order b"
  shows "map_option (map_option all_changes) (GetDatabaseSchemaDiff a engine (Some m) (Some m')) =
         map_option (map_option all_changes) (GetDatabaseSchemaDiff b engine (Some m) (Some m'))"
proof (cases "dm_proto m = None \<or> dm_proto m' = None")
  case True
  then show ?thesis by (auto simp: GetDatabaseSchemaDiff_def split: option.split)
next
  case False
  then obtain p q where pq: "dm_proto m = Some p" "dm_proto m' = Some q" by auto
  let ?top = "\<lambda>ord d. compareEventTriggers ord (compareExtensions ord d p q) p q"
  let ?start = "\<lambda>ord. (new_MetadataDiff (db_name q))\<lparr>SchemaChanges := droppedSchemas ord m m'\<rparr>"
  have start: "all_changes (?start a) = all_changes (?start b)"
    using droppedSchemas_perm [OF assms(3,4), of m m']
    by (simp add: all_changes_def changes_list_def new_MetadataDiff_def)
  have ext: "all_changes (compareExtensions ord d p q) = all_changes d + all_changes (compareExtensions b empty_diff p q)"
    if "ord = a \<or> ord = b" for ord d
    using that loops_order(5) [OF assms(3,4)] by (subst compareExtensions_append) auto
  have evt: "all_changes (compareEventTriggers ord d p q) = all_changes d + all_changes (compareEventTriggers b empty_diff p q)"
    if "ord = a \<or> ord = b" for ord d
    using that loops_order(6) [OF assms(3,4)] by (subst compareEventTriggers_append) auto
  have top: "all_changes (?top a d) = all_changes d + (all_changes (compareExtensions b empty_diff p q) +
      all_changes (compareEventTriggers b empty_diff p q))"
    "all_changes (?top b d) = all_changes d + (all_changes (compareExtensions b empty_diff p q) +
      all_changes (compareEventTriggers b empty_diff p q))" for d
    using ext [of a d] ext [of b d] evt [of a "compareExtensions a d p q"] evt [of b "compareExtensions b d p q"]
    by simp_all
  have "map_option (\<lambda>c. f (all_changes c)) (compareNewSchemas a engine m m' (ListSchemaNames a m') (?start a)) =
      map_option (\<lambda>c. f (all_changes c)) (compareNewSchemas b engine m m' (ListSchemaNames b m') (?start b))"
    for f :: "change multiset \<Rightarrow> change multiset option"
    using arg_cong [OF compareNewSchemas_order [OF assms start, of engine], of "map_option f"]
    by (simp add: option.map_comp comp_def)
  then show ?thesis
    by (simp add: GetDatabaseSchemaDiff_def pq Let_def option.map_comp comp_def top)
qed

end
