(* ===== verification/DiffSpec.thy ===== *)
theory DiffSpec
  imports DiffOrder
begin

text \<open>
  What a diff means: when a table, a schema or a database counts as unchanged, which changes are
  reported, in which order, and when the differ panics.
\<close>

section \<open>Pointwise agreement of maps\<close>

lemma map_diff_Nil_iff:
  assumes "perm_order a1" "perm_order a2"
    and "\<And>k x. map_of m k = Some x \<Longrightarrow> d k x \<noteq> []" "\<And>k y. map_of n k = Some y \<Longrightarrow> c k y \<noteq> []"
    and "\<And>k x y. map_of m k = Some x \<Longrightarrow> map_of n k = Some y \<Longrightarrow> b k x y = [] \<longleftrightarrow> R x y"
  shows "map_diff a1 a2 m n d c b = [] \<longleftrightarrow> (\<forall>k. rel_option R (map_of m k) (map_of n k))"
proof -
  let ?in = "\<lambda>z. z \<in> set (map_diff a1 a2 m n d c b)"
  have "map_diff a1 a2 m n d c b = [] \<longleftrightarrow> (\<forall>k z. \<not>
     ((\<exists>x. map_of m k = Some x \<and> map_of n k = None \<and> z \<in> set (d k x)) \<or>
      (\<exists>y. map_of n k = Some y \<and> map_of m k = None \<and> z \<in> set (c k y)) \<or>
      (\<exists>x y. map_of m k = Some x \<and> map_of n k = Some y \<and> z \<in> set (b k x y))))"
    using map_diff_set [OF assms(1,2), of _ m n d c b] by (metis list.set_intros(1) neq_Nil_conv set_empty equals0D)
  also have "\<dots> \<longleftrightarrow> (\<forall>k. rel_option R (map_of m k) (map_of n k))"
  proof (rule all_cong1)
    fix k
    show "(\<forall>z. \<not> ((\<exists>x. map_of m k = Some x \<and> map_of n k = None \<and> z \<in> set (d k x)) \<or>
        (\<exists>y. map_of n k = Some y \<and> map_of m k = None \<and> z \<in> set (c k y)) \<or>
        (\<exists>x y. map_of m k = Some x \<and> map_of n k = Some y \<and> z \<in> set (b k x y)))) \<longleftrightarrow>
      rel_option R (map_of m k) (map_of n k)"
      using assms(3-5) [of k] by (cases "map_of m k"; cases "map_of n k") (auto simp flip: set_empty)
  qed
  finally show ?thesis .
qed


section \<open>When a table is unchanged\<close>

lemma check_diff_Nil_iff:
  assumes "fair_order ord"
  shows "check_diff ord engine xs ys = [] \<longleftrightarrow>
    (\<forall>k. rel_option (\<lambda>c d. checkConstraintsEqual engine c d = Some True)
       (map_of (map_by chk_name id xs) k) (map_of (map_by chk_name id ys) k))"
  unfolding check_diff_def by (rule map_diff_Nil_iff) (use assms in \<open>auto simp: check_both_def\<close>)

lemma compareForeignKeys_Nil_iff:
  "fair_order ord \<Longrightarrow> compareForeignKeys ord xs ys = [] \<longleftrightarrow>
    (\<forall>k. rel_option foreignKeysEqual (map_of (map_by fk_name id xs) k) (map_of (map_by fk_name id ys) k))"
  unfolding compareForeignKeys_def by (rule map_diff_Nil_iff) auto

lemma comparePartitions_Nil_iff:
  "fair_order ord \<Longrightarrow> comparePartitions ord engine xs ys = [] \<longleftrightarrow>
    (\<forall>k. rel_option (partitionsEqual engine) (map_of (map_by part_name id xs) k) (map_of (map_by part_name id ys) k))"
  unfolding comparePartitions_def by (rule map_diff_Nil_iff) auto

lemma compareTriggers_Nil_iff:
  "fair_order ord \<Longrightarrow> compareTriggers ord xs ys = [] \<longleftrightarrow>
    (\<forall>k. rel_option triggersEqual (map_of (map_by trg_name id xs) k) (map_of (map_by trg_name id ys) k))"
  unfolding compareTriggers_def by (rule map_diff_Nil_iff) auto

definition columns_agree :: "Engine \<Rightarrow> TableMetadata \<Rightarrow> TableMetadata \<Rightarrow> bool" where
  "columns_agree engine s t \<longleftrightarrow>
     (\<forall>c \<in> set (tbl_columns (tm_proto s)). GetColumn t (col_name c) \<noteq> None) \<and>
     (\<forall>c \<in> set (tbl_columns (tm_proto t)).
        case GetColumn s (col_name c) of None \<Rightarrow> False | Some w \<Rightarrow> columnsEqual engine (cm_proto w) c)"

definition indexes_agree :: "Engine \<Rightarrow> TableMetadata \<Rightarrow> TableMetadata \<Rightarrow> bool" where
  "indexes_agree engine s t \<longleftrightarrow>
     (\<forall>k i. map_of (internalIndexes s) k = Some i \<longrightarrow> table_GetIndex t (idx_name (im_proto i)) \<noteq> None) \<and>
     (\<forall>k j. map_of (internalIndexes t) k = Some j \<longrightarrow>
        (\<exists>i. table_GetIndex s (idx_name (im_proto j)) = Some i \<and> indexesEqual engine (im_proto i) (im_proto j)))"

lemma concat_map_Nil_iff: "concat (map f xs) = [] \<longleftrightarrow> (\<forall>x \<in> set xs. f x = [])"
  by (induction xs) auto

lemma compareColumns_Nil_iff: "compareColumns engine s t = [] \<longleftrightarrow> columns_agree engine s t"
  unfolding compareColumns_def append_is_Nil_conv concat_map_Nil_iff columns_agree_def
  by (intro conj_cong ball_cong) (auto simp: Let_def split: option.splits)

lemma ListIndexes_mem:
  assumes "fair_order ord"
  shows "i \<in> set (ListIndexes ord t) \<longleftrightarrow> (\<exists>k. map_of (internalIndexes t) k = Some i)"
proof -
  have "i \<in> set (ListIndexes ord t) \<longleftrightarrow>
      (\<exists>k. (k, i) \<in> set (go_range (ord Site_ListIndexes) (internalIndexes t)))"
    unfolding ListIndexes_def by force
  then show ?thesis using assms by (simp add: go_range_set)
qed

lemma compareIndexes_Nil_iff:
  assumes "fair_order ord"
  shows "compareIndexes ord engine s t = [] \<longleftrightarrow> indexes_agree engine s t"
proof -
  have "compareIndexes ord engine s t = [] \<longleftrightarrow>
     (\<forall>i \<in> set (ListIndexes ord s). table_GetIndex t (idx_name (im_proto i)) \<noteq> None) \<and>
     (\<forall>j \<in> set (ListIndexes ord t).
        \<exists>i. table_GetIndex s (idx_name (im_proto j)) = Some i \<and> indexesEqual engine (im_proto i) (im_proto j))"
    unfolding compareIndexes_def append_is_Nil_conv concat_map_Nil_iff
    by (intro conj_cong ball_cong) (auto split: option.splits)
  then show ?thesis by (auto simp: indexes_agree_def ListIndexes_mem [OF assms])
qed

text \<open>
  C3. A table is reported as unchanged exactly when every part of it agrees: each column and index
  name is on both sides and equal, and the foreign keys, check constraints, partitions and triggers
  agree name by name, the checks without a panic, and the comment is the same.
\<close>
theorem table_unchanged_iff:
  assumes "fair_order ord"
  shows "compareTableDetails ord engine schema name s t = Some None \<longleftrightarrow>
    \<not> checks_panic engine (tbl_check_constraints (tm_proto s)) (tbl_check_constraints (tm_proto t)) \<and>
    columns_agree engine s t \<and> indexes_agree engine s t \<and>
    (\<forall>k. rel_option foreignKeysEqual (map_of (map_by fk_name id (tbl_foreign_keys (tm_proto s))) k)
       (map_of (map_by fk_name id (tbl_foreign_keys (tm_proto t))) k)) \<and>
    (\<forall>k. rel_option (\<lambda>c d. checkConstraintsEqual engine c d = Some True)
       (map_of (map_by chk_name id (tbl_check_constraints (tm_proto s))) k)
       (map_of (map_by chk_name id (tbl_check_constraints (tm_proto t))) k)) \<and>
    (\<forall>k. rel_option (partitionsEqual engine) (map_of (map_by part_name id (tbl_partitions (tm_proto s))) k)
       (map_of (map_by part_name id (tbl_partitions (tm_proto t))) k)) \<and>
    (\<forall>k. rel_option triggersEqual (map_of (map_by trg_name id (tbl_triggers (tm_proto s))) k)
       (map_of (map_by trg_name id (tbl_triggers (tm_proto t))) k)) \<and>
    tbl_comment (tm_proto s) = tbl_comment (tm_proto t)"
  unfolding compareColumns_Nil_iff [symmetric] compareIndexes_Nil_iff [OF assms, symmetric]
    compareForeignKeys_Nil_iff [OF assms, symmetric] check_diff_Nil_iff [OF assms, symmetric]
    comparePartitions_Nil_iff [OF assms, symmetric] compareTriggers_Nil_iff [OF assms, symmetric]
  by (simp add: compareTableDetails_def Let_def compareCheckConstraints_eq [OF assms])


text \<open>A one-table database, to apply the theorems to.\<close>

definition sample_column :: "string \<Rightarrow> storepb_ColumnMetadata" where
  "sample_column name = zero_ColumnMetadata\<lparr>col_name := name, col_type := ''int''\<rparr>"

definition sample_table :: "string list \<Rightarrow> storepb_TableMetadata" where
  "sample_table cols = zero_TableMetadata\<lparr>tbl_name := ''t'', tbl_columns := map sample_column cols\<rparr>"

definition sample_db :: "storepb_TableMetadata list \<Rightarrow> storepb_DatabaseSchemaMetadata" where
  "sample_db tables =
     zero_DatabaseSchemaMetadata\<lparr>db_name := ''db'',
       db_schemas := [zero_SchemaMetadata\<lparr>sch_name := ''public'', sch_tables := tables\<rparr>]\<rparr>"

definition sample_meta :: "storepb_TableMetadata list \<Rightarrow> DatabaseMetadata" where
  "sample_meta tables = NewDatabaseMetadata (sample_db tables) [] None Engine_POSTGRES True"

definition table_meta :: "storepb_TableMetadata \<Rightarrow> TableMetadata" where
  "table_meta table = hd (fst (buildTablesMetadata table None True))"


theorem table_unchanged_iff_witness:
  "compareTableDetails (\<lambda>_. rev) Engine_POSTGRES ''public'' ''t''
     (table_meta (sample_table [''a''])) (table_meta (sample_table [''b''])) \<noteq> Some None"
proof -
  have "\<not> columns_agree Engine_POSTGRES (table_meta (sample_table [''a''])) (table_meta (sample_table [''b'']))"
    by code_simp
  then show ?thesis using table_unchanged_iff [OF fair_order_rev] by blast
qed


section \<open>Comparing a database with itself\<close>




section \<open>The order of iteration\<close>



text \<open>
  The change of one table, its lists sorted, is the same whatever the order: not only the
  collection of index, foreign key, check, partition and trigger changes but their sequence.
\<close>
lemma table_diff_deterministic:
  assumes "indexes_keyed s" "indexes_keyed t" "fair_order a" "fair_order b"
  shows "map_option (map_option sortTableSubObjectChanges) (compareTableDetails a engine schema name s t) =
         map_option (map_option sortTableSubObjectChanges) (compareTableDetails b engine schema name s t)"
  using assms by (rule compareTableDetails_order)

theorem table_diff_deterministic_witness:
  "map_option (map_option sortTableSubObjectChanges)
     (compareTableDetails (\<lambda>_. rev) Engine_MYSQL ''public'' ''t''
        (table_meta (sample_table [''a''])) (table_meta (sample_table [''b'']))) =
   map_option (map_option sortTableSubObjectChanges)
     (compareTableDetails (\<lambda>_. insertion_order) Engine_MYSQL ''public'' ''t''
        (table_meta (sample_table [''a''])) (table_meta (sample_table [''b''])))"
proof -
  have "indexes_keyed (table_meta (sample_table [''a'']))" "indexes_keyed (table_meta (sample_table [''b'']))"
    by code_simp+
  then show ?thesis by (rule table_diff_deterministic) simp_all
qed


section \<open>Sorted output\<close>

lemma GetDatabaseSchemaDiff_sorted_form:
  "GetDatabaseSchemaDiff ord engine m m' = Some (Some d) \<Longrightarrow> \<exists>d0. d = sortDiffLists d0"
  by (auto simp: GetDatabaseSchemaDiff_def Let_def split: option.splits)

text \<open>
  The lists of a diff come out sorted: schemas by name and action, the objects of schemas by
  schema, name and action, and inside each table change the indexes and constraints by name and
  action.
\<close>
lemma diff_sorted:
  assumes "GetDatabaseSchemaDiff ord engine m m' = Some (Some d)"
  shows "sorted (map key_SchemaDiff (SchemaChanges d)) \<and> sorted (map key_TableDiff (TableChanges d)) \<and>
    sorted (map key_ViewDiff (ViewChanges d)) \<and>
    sorted (map key_MaterializedViewDiff (MaterializedViewChanges d)) \<and>
    sorted (map key_FunctionDiff (FunctionChanges d)) \<and> sorted (map key_ProcedureDiff (ProcedureChanges d)) \<and>
    sorted (map key_SequenceDiff (SequenceChanges d)) \<and> sorted (map key_EnumTypeDiff (EnumTypeChanges d)) \<and>
    sorted (map key_ExtensionDiff (ExtensionChanges d)) \<and>
    sorted (map key_EventTriggerDiff (EventTriggerChanges d)) \<and> sorted (map key_EventDiff (EventChanges d)) \<and>
    (\<forall>t \<in> set (TableChanges d).
       sorted (map key_IndexDiff (td_IndexChanges t)) \<and>
       sorted (map key_ForeignKeyDiff (td_ForeignKeyChanges t)) \<and>
       sorted (map key_CheckConstraintDiff (td_CheckConstraintChanges t)) \<and>
       sorted (map key_PartitionDiff (td_PartitionChanges t)) \<and>
       sorted (map key_TriggerDiff (td_TriggerChanges t)))"
proof -
  obtain d0 where d: "d = sortDiffLists d0" using GetDatabaseSchemaDiff_sorted_form [OF assms] by blast
  have "map key_TableDiff (map sortTableSubObjectChanges ts) = map key_TableDiff ts" for ts by simp
  then show ?thesis
    by (auto simp: d sortDiffLists_def sorted_diff_list sortTableSubObjectChanges_def simp del: map_map)
qed

theorem diff_sorted_witness:
  "sorted (map key_TableDiff (TableChanges (the (the
     (GetDatabaseSchemaDiff (\<lambda>_. rev) Engine_POSTGRES (Some (sample_meta [sample_table [''a'']])) (Some (sample_meta [])))))))"
proof -
  have "GetDatabaseSchemaDiff (\<lambda>_. rev) Engine_POSTGRES (Some (sample_meta [sample_table [''a'']])) (Some (sample_meta [])) =
      Some (Some (the (the (GetDatabaseSchemaDiff (\<lambda>_. rev) Engine_POSTGRES (Some (sample_meta [sample_table [''a'']]))
        (Some (sample_meta []))))))"
    by code_simp
  from diff_sorted [OF this] show ?thesis by blast
qed


section \<open>Schemas created and dropped\<close>

definition createdSchemas :: "DatabaseMetadata \<Rightarrow> DatabaseMetadata \<Rightarrow> string list \<Rightarrow> SchemaDiff list" where
  "createdSchemas oldMeta newMeta names =
     concat (map (\<lambda>n. case (GetSchemaMetadata newMeta n, GetSchemaMetadata oldMeta n) of
         (Some s, None) \<Rightarrow> [(new_SchemaDiff MetadataDiffActionCreate)
             \<lparr>sd_SchemaName := n, sd_NewSchema := Some (sm_proto s)\<rparr>]
       | _ \<Rightarrow> []) names)"

lemma SchemaChanges_keep [simp]:
  "SchemaChanges (compareViews e d n s t) = SchemaChanges d"
  "SchemaChanges (compareMaterializedViews e d n s t) = SchemaChanges d"
  "SchemaChanges (compareFunctions ord e d n s t) = SchemaChanges d"
  "SchemaChanges (compareProcedures d n s t) = SchemaChanges d"
  "SchemaChanges (compareSequences ord d n s t) = SchemaChanges d"
  "SchemaChanges (compareEnumTypes ord d n s t) = SchemaChanges d"
  "SchemaChanges (compareEvents ord d n s t) = SchemaChanges d"
  "SchemaChanges (compareExtensions ord d p q) = SchemaChanges d"
  "SchemaChanges (compareEventTriggers ord d p q) = SchemaChanges d"
  "SchemaChanges (addNewSchemaObjects d n s) = SchemaChanges d"
  by (simp_all add: compareViews_def compareMaterializedViews_def compareFunctions_def compareProcedures_def
      compareSequences_def compareEnumTypes_def compareEvents_def compareExtensions_def
      compareEventTriggers_def addNewSchemaObjects_def Let_def)

lemma compareNewSchema_SchemaChanges:
  "compareNewSchema ord e m m' n d = Some d' \<Longrightarrow>
   SchemaChanges d' = SchemaChanges d @ createdSchemas m m' [n]"
  by (auto simp: compareNewSchema_def createdSchemas_def Let_def compareSchemaObjects_def split: option.splits)

lemma compareNewSchemas_SchemaChanges:
  "compareNewSchemas ord e m m' names d = Some d' \<Longrightarrow>
   SchemaChanges d' = SchemaChanges d @ createdSchemas m m' names"
proof (induction names arbitrary: d)
  case (Cons n names)
  then obtain d1 where "compareNewSchema ord e m m' n d = Some d1"
    "compareNewSchemas ord e m m' names d1 = Some d'"
    by (auto simp: bind_eq_Some_conv)
  with Cons.IH show ?case by (auto dest: compareNewSchema_SchemaChanges simp: createdSchemas_def)
qed (simp add: createdSchemas_def)

lemma ListSchemaNames_mem:
  assumes "fair_order ord"
  shows "n \<in> set (ListSchemaNames ord m) \<longleftrightarrow> (\<exists>k s. map_of (dm_internal m) k = Some s \<and> n = sch_name (sm_proto s))"
proof -
  have "n \<in> set (ListSchemaNames ord m) \<longleftrightarrow>
      (\<exists>k s. (k, s) \<in> set (go_range (ord Site_ListSchemaNames) (dm_internal m)) \<and> n = sch_name (sm_proto s))"
    unfolding ListSchemaNames_def by force
  then show ?thesis using assms by (simp add: go_range_set)
qed

lemma newSchemaMetadata_proto [simp]: "sm_proto (newSchemaMetadata ocs dcs cat s) = s"
  by (simp add: newSchemaMetadata_def Let_def)

text \<open>The names listed for a database are those of its schemas, when they differ up to case.\<close>

lemma ListSchemaNames_New:
  assumes "fair_order ord"
    and "distinct (map (\<lambda>s. normalizeNameByCaseSensitivity (sch_name s) ocs) (db_schemas p))"
  shows "set (ListSchemaNames ord (NewDatabaseMetadata p dump cfg engine ocs)) = sch_name ` set (db_schemas p)"
proof -
  let ?key = "\<lambda>s. normalizeNameByCaseSensitivity (sch_name s) ocs"
  let ?val = "newSchemaMetadata ocs (getIsDetailCaseSensitive engine)
     (case cfg of None \<Rightarrow> [] | Some c \<Rightarrow> map_by scat_name id (dbc_schemas c))"
  have m: "dm_internal (NewDatabaseMetadata p dump cfg engine ocs) = map_by ?key ?val (db_schemas p)"
    by (simp add: NewDatabaseMetadata_def Let_def)
  have "n \<in> set (ListSchemaNames ord (NewDatabaseMetadata p dump cfg engine ocs)) \<longleftrightarrow>
      (\<exists>x \<in> set (db_schemas p). n = sch_name x)" for n
    unfolding ListSchemaNames_mem [OF assms(1)] m
  proof
    assume "\<exists>k s. map_of (map_by ?key ?val (db_schemas p)) k = Some s \<and> n = sch_name (sm_proto s)"
    then show "\<exists>x \<in> set (db_schemas p). n = sch_name x" by (metis map_by_SomeD newSchemaMetadata_proto)
  next
    assume "\<exists>x \<in> set (db_schemas p). n = sch_name x"
    then show "\<exists>k s. map_of (map_by ?key ?val (db_schemas p)) k = Some s \<and> n = sch_name (sm_proto s)"
      using map_by_inj [OF assms(2)] by (metis newSchemaMetadata_proto)
  qed
  then show ?thesis by auto
qed

lemma GetSchemaMetadata_New_None_iff:
  "GetSchemaMetadata (NewDatabaseMetadata p dump cfg engine ocs) n = None \<longleftrightarrow>
   (\<forall>s \<in> set (db_schemas p). normalizeNameByCaseSensitivity (sch_name s) ocs \<noteq> normalizeNameByCaseSensitivity n ocs)"
  by (auto simp: GetSchemaMetadata_def NewDatabaseMetadata_def Let_def map_by_None_iff image_iff)

text \<open>
  C18. Exactly the schemas that are on one side only are reported, those of the new database as
  created and those of the old one as dropped; names are compared up to case where the instance
  ignores it.  (When the differ returns a diff, and the names of each side differ up to case.)
\<close>
theorem schema_changes_iff:
  assumes "GetDatabaseSchemaDiff ord engine' (Some (NewDatabaseMetadata p dp cp engine ocs))
      (Some (NewDatabaseMetadata q dq cq engine ocs)) = Some (Some d)"
    and "fair_order ord"
    and "distinct (map (\<lambda>s. normalizeNameByCaseSensitivity (sch_name s) ocs) (db_schemas p))"
    and "distinct (map (\<lambda>s. normalizeNameByCaseSensitivity (sch_name s) ocs) (db_schemas q))"
  shows "(action, n) \<in> set (map (\<lambda>c. (sd_Action c, sd_SchemaName c)) (SchemaChanges d)) \<longleftrightarrow>
    action = MetadataDiffActionDrop \<and> (\<exists>s \<in> set (db_schemas p). sch_name s = n) \<and>
      (\<forall>s \<in> set (db_schemas q). normalizeNameByCaseSensitivity (sch_name s) ocs \<noteq> normalizeNameByCaseSensitivity n ocs) \<or>
    action = MetadataDiffActionCreate \<and> (\<exists>s \<in> set (db_schemas q). sch_name s = n) \<and>
      (\<forall>s \<in> set (db_schemas p). normalizeNameByCaseSensitivity (sch_name s) ocs \<noteq> normalizeNameByCaseSensitivity n ocs)"
proof -
  let ?m = "NewDatabaseMetadata p dp cp engine ocs" and ?m' = "NewDatabaseMetadata q dq cq engine ocs"
  have "dm_proto ?m = Some p" "dm_proto ?m' = Some q" by (simp_all add: NewDatabaseMetadata_def Let_def)
  with assms(1) obtain d1 where d1:
    "compareNewSchemas ord engine' ?m ?m' (ListSchemaNames ord ?m')
       ((new_MetadataDiff (db_name q))\<lparr>SchemaChanges := droppedSchemas ord ?m ?m'\<rparr>) = Some d1"
    and "d = sortDiffLists (compareEventTriggers ord (compareExtensions ord d1 p q) p q)"
    by (auto simp: GetDatabaseSchemaDiff_def Let_def)
  then have set_d: "set (SchemaChanges d) =
      set (droppedSchemas ord ?m ?m') \<union> set (createdSchemas ?m ?m' (ListSchemaNames ord ?m'))"
    using compareNewSchemas_SchemaChanges [OF d1] by (simp add: sortDiffLists_def)
  have found: "GetSchemaMetadata ?m s \<noteq> None" if "s \<in> set (ListSchemaNames ord ?m)" for s
    using that ListSchemaNames_New [OF assms(2,3)] by (auto simp: GetSchemaMetadata_New_None_iff)
  have found': "GetSchemaMetadata ?m' s \<noteq> None" if "s \<in> set (ListSchemaNames ord ?m')" for s
    using that ListSchemaNames_New [OF assms(2,4)] by (auto simp: GetSchemaMetadata_New_None_iff)
  have "(action, n) \<in> (\<lambda>c. (sd_Action c, sd_SchemaName c)) ` set (droppedSchemas ord ?m ?m') \<longleftrightarrow>
      action = MetadataDiffActionDrop \<and> n \<in> set (ListSchemaNames ord ?m) \<and> GetSchemaMetadata ?m' n = None"
    using found by (force simp: droppedSchemas_def new_SchemaDiff_def split: option.splits)
  moreover have "(action, n) \<in> (\<lambda>c. (sd_Action c, sd_SchemaName c)) ` set (createdSchemas ?m ?m' (ListSchemaNames ord ?m')) \<longleftrightarrow>
      action = MetadataDiffActionCreate \<and> n \<in> set (ListSchemaNames ord ?m') \<and> GetSchemaMetadata ?m n = None"
    using found' by (force simp: createdSchemas_def new_SchemaDiff_def split: option.splits)
  ultimately show ?thesis
    unfolding GetSchemaMetadata_New_None_iff ListSchemaNames_New [OF assms(2,3)] ListSchemaNames_New [OF assms(2,4)]
    by (auto simp: set_d image_Un)
qed

theorem schema_changes_iff_witness:
  "\<exists>d. GetDatabaseSchemaDiff (\<lambda>_. rev) Engine_POSTGRES
     (Some (NewDatabaseMetadata (sample_db []) [] None Engine_POSTGRES True))
     (Some (NewDatabaseMetadata zero_DatabaseSchemaMetadata [] None Engine_POSTGRES True)) = Some (Some d) \<and>
   (MetadataDiffActionDrop, ''public'') \<in> set (map (\<lambda>c. (sd_Action c, sd_SchemaName c)) (SchemaChanges d))"
proof -
  let ?r = "GetDatabaseSchemaDiff (\<lambda>_. rev) Engine_POSTGRES
     (Some (NewDatabaseMetadata (sample_db []) [] None Engine_POSTGRES True))
     (Some (NewDatabaseMetadata zero_DatabaseSchemaMetadata [] None Engine_POSTGRES True))"
  have "?r = Some (Some (the (the ?r)))" by code_simp
  then have r: "?r = Some (Some (the (the ?r)))" .
  have "distinct (map (\<lambda>s. normalizeNameByCaseSensitivity (sch_name s) True) (db_schemas (sample_db [])))"
    "distinct (map (\<lambda>s. normalizeNameByCaseSensitivity (sch_name s) True) (db_schemas zero_DatabaseSchemaMetadata))"
    "MetadataDiffActionDrop = MetadataDiffActionDrop \<and> (\<exists>s \<in> set (db_schemas (sample_db [])). sch_name s = ''public'') \<and>
      (\<forall>s \<in> set (db_schemas zero_DatabaseSchemaMetadata).
         normalizeNameByCaseSensitivity (sch_name s) True \<noteq> normalizeNameByCaseSensitivity ''public'' True)"
    by code_simp+
  with schema_changes_iff [OF r fair_order_rev, of MetadataDiffActionDrop "''public''"] r show ?thesis
    by blast
qed


section \<open>Panics\<close>

lemma map_option_None_iff [simp]: "None = map_option f x \<longleftrightarrow> x = None"
  by (cases x) auto












section \<open>The archive schema\<close>

text \<open>The schema a change belongs to; the changes of database-level objects belong to none.\<close>

fun schema_of_change :: "change \<Rightarrow> string option" where
  "schema_of_change (SchemaChange c) = Some (sd_SchemaName c)"
| "schema_of_change (TableChange c) = Some (td_SchemaName c)"
| "schema_of_change (ViewChange_of c) = Some (vd_SchemaName c)"
| "schema_of_change (MaterializedViewChange_of c) = Some (mvd_SchemaName c)"
| "schema_of_change (FunctionChange c) = Some (fd_SchemaName c)"
| "schema_of_change (ProcedureChange c) = Some (prd_SchemaName c)"
| "schema_of_change (SequenceChange c) = Some (sqd_SchemaName c)"
| "schema_of_change (EnumTypeChange c) = Some (etd_SchemaName c)"
| "schema_of_change _ = None"

lemma td_SchemaName_sorted [simp]: "td_SchemaName (sortTableSubObjectChanges t) = td_SchemaName t"
  by (simp add: sortTableSubObjectChanges_def)

lemma filter_map_change:
  "filter (\<lambda>c. schema_of_change c \<noteq> Some n) (map f xs) = map f (filter (\<lambda>x. schema_of_change (f x) \<noteq> Some n) xs)"
  by (simp add: filter_map comp_def)

text \<open>
  Filtering for PostgreSQL keeps exactly the changes that do not belong to the archive schema
  \<open>bbdataarchive\<close>, in their order; extensions, event triggers and events are all kept, and nothing
  else of the diff is touched.
\<close>
lemma archive_filtered:
  "map_option changes_list (FilterPostgresArchiveSchema diff) =
   map_option (filter (\<lambda>c. schema_of_change c \<noteq> Some ''bbdataarchive'') \<circ> changes_list) diff"
proof (cases diff)
  case (Some d)
  then show ?thesis
    by (simp add: FilterPostgresArchiveSchema_def Let_def changes_list_def filter_map_change new_MetadataDiff_def
        del: filter_map)
qed (simp add: FilterPostgresArchiveSchema_def)

lemma FilterPostgresArchiveSchema_idem:
  "FilterPostgresArchiveSchema (FilterPostgresArchiveSchema diff) = FilterPostgresArchiveSchema diff"
  by (cases diff) (simp_all add: FilterPostgresArchiveSchema_def Let_def new_MetadataDiff_def)


section \<open>Where the differ falls short\<close>

text \<open>
  A partition is entered in the table map under its own name, with the message of the partitioned
  table; the listing of the map therefore has the table once for itself and once for each partition.
\<close>

definition range_partition :: "string \<Rightarrow> storepb_TablePartitionMetadata" where
  "range_partition name = TablePartitionMetadata name TablePartition_RANGE ''RANGE (id)'' ''10'' [] [] [] [] []"

definition partitioned_table :: storepb_TableMetadata where
  "partitioned_table = (sample_table [''id''])\<lparr>tbl_partitions := [range_partition ''p0'', range_partition ''p1'']\<rparr>"

text \<open>
  A new table with two partitions is reported as created three times.
\<close>
lemma partitioned_table_created_thrice:
  "map_option (map_option (\<lambda>d. map (\<lambda>t. (td_Action t, td_TableName t)) (TableChanges d)))
     (GetDatabaseSchemaDiff (\<lambda>_. insertion_order) Engine_MYSQL (Some (sample_meta []))
        (Some (sample_meta [partitioned_table]))) =
   Some (Some (replicate 3 (MetadataDiffActionCreate, ''t'')))"
  by code_simp

definition column_change :: "string \<Rightarrow> int32 \<Rightarrow> ColumnDiff" where
  "column_change name position =
     (new_ColumnDiff MetadataDiffActionCreate)
       \<lparr>cd_NewColumn := Some (zero_ColumnMetadata\<lparr>col_name := name, col_position := position\<rparr>)\<rparr>"

text \<open>
  The comparison of column changes is no order: with one position unknown (0) it runs in a
  circle, so the sorted column list depends on the order it had before.
\<close>
lemma column_comparison_cyclic:
  "cmp_ColumnDiff (column_change ''a'' 2) (column_change ''b'' 0) < 0 \<and>
   cmp_ColumnDiff (column_change ''b'' 0) (column_change ''c'' 1) < 0 \<and>
   cmp_ColumnDiff (column_change ''c'' 1) (column_change ''a'' 2) < 0"
  by (simp add: cmp_ColumnDiff_def column_change_def new_ColumnDiff_def pos_ColumnDiff_def name_ColumnDiff_def
      zero_ColumnMetadata_def word_sless_alt)

lemma column_sort_depends_on_order:
  "SortFunc cmp_ColumnDiff [column_change ''a'' 2, column_change ''b'' 0, column_change ''c'' 1] \<noteq>
   SortFunc cmp_ColumnDiff [column_change ''b'' 0, column_change ''c'' 1, column_change ''a'' 2]"
  by code_simp

text \<open>
  Among column changes that all have a position the comparison orders by position, then name,
  then action; among those that all lack one, by name and action.
\<close>
lemma column_comparison_keys:
  "(0 <s pos_ColumnDiff a \<and> 0 <s pos_ColumnDiff b \<longrightarrow>
      (cmp_ColumnDiff a b < 0 \<longleftrightarrow> key_ColumnDiff_pos a < key_ColumnDiff_pos b)) \<and>
   (\<not> 0 <s pos_ColumnDiff a \<or> \<not> 0 <s pos_ColumnDiff b \<longrightarrow>
      (cmp_ColumnDiff a b < 0 \<longleftrightarrow> key_ColumnDiff_name a < key_ColumnDiff_name b))"
  using cmp_ColumnDiff_all_pos cmp_ColumnDiff_no_pos by blast

theorem column_comparison_keys_witness:
  "cmp_ColumnDiff (column_change ''z'' 1) (column_change ''a'' 2) < 0"
proof -
  have "0 <s pos_ColumnDiff (column_change ''z'' 1) \<and> 0 <s pos_ColumnDiff (column_change ''a'' 2)"
    "key_ColumnDiff_pos (column_change ''z'' 1) < key_ColumnDiff_pos (column_change ''a'' 2)"
    by code_simp+
  then show ?thesis using column_comparison_keys by blast
qed

end
