(* ===== verification/PgSearcher.thy ===== *)
theory PgSearcher
  imports SchemaModel
begin

text \<open>
  \<^verbatim>\<open>backend/store/model/pg_searcher.go\<close>: looking an object up in the schemas of a search path.  The
  same searches exist as methods of \<open>DatabaseSearcher\<close> (which holds the path) and of
  \<open>DatabaseMetadata\<close> (which is passed it).  A result is Go's pair: the empty name and nil when
  nothing is found.
\<close>

section \<open>The loop of a search\<close>

text \<open>The schemas of the path in turn, those that do not exist skipped, until \<open>get\<close> finds something.\<close>

primrec search_loop ::
  "DatabaseMetadata \<Rightarrow> (SchemaMetadata \<Rightarrow> 'a option) \<Rightarrow> string list \<Rightarrow> string \<times> 'a option" where
  "search_loop d get [] = ([], None)"
| "search_loop d get (schemaName # path) =
     (case GetSchemaMetadata d schemaName of
        None \<Rightarrow> search_loop d get path
      | Some schema \<Rightarrow>
          (case get schema of
             None \<Rightarrow> search_loop d get path
           | Some x \<Rightarrow> (sch_name (sm_proto schema), Some x)))"

text \<open>The body of the loops that collect functions.\<close>

definition functions_named :: "DatabaseMetadata \<Rightarrow> string \<Rightarrow> string \<Rightarrow> (string \<times> storepb_FunctionMetadata) list" where
  "functions_named d name schemaName =
     (case GetSchemaMetadata d schemaName of
        None \<Rightarrow> []
      | Some schema \<Rightarrow>
          map (\<lambda>function. (sch_name (sm_proto schema), function))
            (filter (\<lambda>function. if dm_isDetailCaseSensitive d then fn_name function = name
                               else EqualFold (fn_name function) name)
              (sch_functions (sm_proto schema))))"

text \<open>The condition of the loops that look for any object; \<open>Some ()\<close> is found.\<close>

definition any_object :: "string \<Rightarrow> SchemaMetadata \<Rightarrow> unit option" where
  "any_object name s =
     (if GetTable s name \<noteq> None \<or> GetView s name \<noteq> None \<or> GetMaterializedView s name \<noteq> None \<or>
         GetFunction s name \<noteq> None \<or> GetProcedure s name \<noteq> None \<or> GetPackage s name \<noteq> None \<or>
         GetSequence s name \<noteq> None \<or> GetExternalTable s name \<noteq> None
      then Some () else None)"


section \<open>Searching a database\<close>

definition db_SearchTable :: "DatabaseMetadata \<Rightarrow> string list \<Rightarrow> string \<Rightarrow> string \<times> TableMetadata option" where
  "db_SearchTable d searchPath name = search_loop d (\<lambda>s. GetTable s name) searchPath"

definition db_SearchIndex :: "range_order \<Rightarrow> DatabaseMetadata \<Rightarrow> string list \<Rightarrow> string \<Rightarrow> string \<times> IndexMetadata option" where
  "db_SearchIndex ord d searchPath name = search_loop d (\<lambda>s. schema_GetIndex ord s name) searchPath"

definition db_SearchView :: "DatabaseMetadata \<Rightarrow> string list \<Rightarrow> string \<Rightarrow> string \<times> storepb_ViewMetadata option" where
  "db_SearchView d searchPath name = search_loop d (\<lambda>s. GetView s name) searchPath"

definition db_SearchExternalTable :: "DatabaseMetadata \<Rightarrow> string list \<Rightarrow> string \<Rightarrow> string \<times> ExternalTableMetadata option" where
  "db_SearchExternalTable d searchPath name = search_loop d (\<lambda>s. GetExternalTable s name) searchPath"

definition db_SearchSequence :: "DatabaseMetadata \<Rightarrow> string list \<Rightarrow> string \<Rightarrow> string \<times> storepb_SequenceMetadata option" where
  "db_SearchSequence d searchPath name = search_loop d (\<lambda>s. GetSequence s name) searchPath"

definition db_SearchMaterializedView :: "DatabaseMetadata \<Rightarrow> string list \<Rightarrow> string \<Rightarrow> string \<times> storepb_MaterializedViewMetadata option" where
  "db_SearchMaterializedView d searchPath name = search_loop d (\<lambda>s. GetMaterializedView s name) searchPath"

definition db_SearchFunctions ::
  "DatabaseMetadata \<Rightarrow> string list \<Rightarrow> string \<Rightarrow> string list \<times> storepb_FunctionMetadata list" where
  "db_SearchFunctions d searchPath name =
     (let found = concat (map (functions_named d name) searchPath) in (map fst found, map snd found))"

definition db_SearchObject :: "DatabaseMetadata \<Rightarrow> string list \<Rightarrow> string \<Rightarrow> string \<times> string" where
  "db_SearchObject d searchPath name =
     (case search_loop d (any_object name) searchPath of
        (schema, Some _) \<Rightarrow> (schema, name)
      | (_, None) \<Rightarrow> ([], []))"


section \<open>The searcher\<close>

record DatabaseSearcher =
  ds_db :: DatabaseMetadata
  ds_searchPath :: "string list"

definition NewSearcher :: "DatabaseMetadata \<Rightarrow> string \<Rightarrow> string list \<Rightarrow> DatabaseSearcher" where
  "NewSearcher d schemaName fallbackSearchPath =
     \<lparr>ds_db = d,
      ds_searchPath =
        (if schemaName \<noteq> [] then [schemaName]
         else if length fallbackSearchPath = 0 then [''public'']
         else fallbackSearchPath)\<rparr>"

definition SearchTable :: "DatabaseSearcher \<Rightarrow> string \<Rightarrow> string \<times> TableMetadata option" where
  "SearchTable r name = search_loop (ds_db r) (\<lambda>s. GetTable s name) (ds_searchPath r)"

definition SearchIndex :: "range_order \<Rightarrow> DatabaseSearcher \<Rightarrow> string \<Rightarrow> string \<times> IndexMetadata option" where
  "SearchIndex ord r name = search_loop (ds_db r) (\<lambda>s. schema_GetIndex ord s name) (ds_searchPath r)"

definition SearchView :: "DatabaseSearcher \<Rightarrow> string \<Rightarrow> string \<times> storepb_ViewMetadata option" where
  "SearchView r name = search_loop (ds_db r) (\<lambda>s. GetView s name) (ds_searchPath r)"

definition SearchExternalTable :: "DatabaseSearcher \<Rightarrow> string \<Rightarrow> string \<times> ExternalTableMetadata option" where
  "SearchExternalTable r name = search_loop (ds_db r) (\<lambda>s. GetExternalTable s name) (ds_searchPath r)"

definition SearchSequence :: "DatabaseSearcher \<Rightarrow> string \<Rightarrow> string \<times> storepb_SequenceMetadata option" where
  "SearchSequence r name = search_loop (ds_db r) (\<lambda>s. GetSequence s name) (ds_searchPath r)"

definition SearchMaterializedView :: "DatabaseSearcher \<Rightarrow> string \<Rightarrow> string \<times> storepb_MaterializedViewMetadata option" where
  "SearchMaterializedView r name = search_loop (ds_db r) (\<lambda>s. GetMaterializedView s name) (ds_searchPath r)"

definition SearchFunctions :: "DatabaseSearcher \<Rightarrow> string \<Rightarrow> string list \<times> storepb_FunctionMetadata list" where
  "SearchFunctions r name =
     (let found = concat (map (functions_named (ds_db r) name) (ds_searchPath r))
      in (map fst found, map snd found))"

definition SearchObject :: "DatabaseSearcher \<Rightarrow> string \<Rightarrow> string \<times> string" where
  "SearchObject r name =
     (case search_loop (ds_db r) (any_object name) (ds_searchPath r) of
        (schema, Some _) \<Rightarrow> (schema, name)
      | (_, None) \<Rightarrow> ([], []))"


section \<open>What a search finds\<close>

definition has_object :: "string \<Rightarrow> SchemaMetadata \<Rightarrow> bool" where
  "has_object name s \<longleftrightarrow> GetTable s name \<noteq> None \<or> GetView s name \<noteq> None \<or> GetMaterializedView s name \<noteq> None \<or>
     GetFunction s name \<noteq> None \<or> GetProcedure s name \<noteq> None \<or> GetPackage s name \<noteq> None \<or>
     GetSequence s name \<noteq> None \<or> GetExternalTable s name \<noteq> None"

lemma any_object_iff: "any_object name s = None \<longleftrightarrow> \<not> has_object name s"
  "any_object name s = Some u \<longleftrightarrow> has_object name s"
  by (simp_all add: any_object_def has_object_def)

text \<open>The contract of a search: the first schema of the path that exists and has the object.\<close>

definition found_at :: "DatabaseMetadata \<Rightarrow> (SchemaMetadata \<Rightarrow> 'a option) \<Rightarrow> string \<Rightarrow> SchemaMetadata \<Rightarrow> 'a \<Rightarrow> bool" where
  "found_at d get n s x \<longleftrightarrow> GetSchemaMetadata d n = Some s \<and> get s = Some x"

lemma search_loop_None_iff:
  "snd (search_loop d get path) = None \<longleftrightarrow> (\<forall>n \<in> set path. \<forall>s x. \<not> found_at d get n s x)"
  by (induction path) (auto simp: found_at_def split: option.splits)

lemma search_loop_Some_iff:
  "search_loop d get path = (schema, Some x) \<longleftrightarrow>
   (\<exists>before n after s. path = before @ n # after \<and> found_at d get n s x \<and> schema = sch_name (sm_proto s) \<and>
      (\<forall>m \<in> set before. \<forall>t y. \<not> found_at d get m t y))"
proof (induction path)
  case (Cons m path)
  let ?R = "\<lambda>path. \<exists>before n after s. path = before @ n # after \<and> found_at d get n s x \<and>
      schema = sch_name (sm_proto s) \<and> (\<forall>m \<in> set before. \<forall>t y. \<not> found_at d get m t y)"
  have step: "?R (m # path) \<longleftrightarrow>
      (\<exists>s. found_at d get m s x \<and> schema = sch_name (sm_proto s)) \<or>
      (\<forall>t y. \<not> found_at d get m t y) \<and> ?R path"
  proof
    assume "?R (m # path)"
    then obtain before n after s where *: "m # path = before @ n # after" "found_at d get n s x"
      "schema = sch_name (sm_proto s)" "\<forall>m \<in> set before. \<forall>t y. \<not> found_at d get m t y" by blast
    then show "(\<exists>s. found_at d get m s x \<and> schema = sch_name (sm_proto s)) \<or>
        (\<forall>t y. \<not> found_at d get m t y) \<and> ?R path"
    proof (cases before)
      case Nil
      with * show ?thesis by auto
    next
      case (Cons a list)
      then have "path = list @ n # after" "\<forall>t y. \<not> found_at d get m t y"
        "\<forall>m \<in> set list. \<forall>t y. \<not> found_at d get m t y"
        using * by auto
      with * show ?thesis by blast
    qed
  next
    assume "(\<exists>s. found_at d get m s x \<and> schema = sch_name (sm_proto s)) \<or>
        (\<forall>t y. \<not> found_at d get m t y) \<and> ?R path"
    then show "?R (m # path)"
    proof
      assume "\<exists>s. found_at d get m s x \<and> schema = sch_name (sm_proto s)"
      then show ?thesis by (metis append_Nil empty_iff list.set(1))
    next
      assume *: "(\<forall>t y. \<not> found_at d get m t y) \<and> ?R path"
      then obtain before n after s where "path = before @ n # after" "found_at d get n s x"
        "schema = sch_name (sm_proto s)" "\<forall>m \<in> set before. \<forall>t y. \<not> found_at d get m t y" by blast
      with * show ?thesis by (intro exI [of _ "m # before"]) auto
    qed
  qed
  show ?case unfolding step using Cons.IH
    by (auto simp: found_at_def split: option.splits)
qed simp

lemma not_found_iff:
  "(\<forall>s x. \<not> found_at d get n s x) \<longleftrightarrow> (\<forall>s. GetSchemaMetadata d n = Some s \<longrightarrow> get s = None)"
  by (auto simp: found_at_def)

lemma search_loop_nil_name: "search_loop d get path = (schema, None) \<Longrightarrow> schema = []"
  by (induction path) (auto split: option.splits)

text \<open>
  A table search returns the table of the first schema on the path that exists and has it,
  with that schema's name; it returns nothing exactly when no schema on the path has it.
\<close>
lemma SearchTable_first:
  "(SearchTable r name = (schema, Some t) \<longleftrightarrow>
      (\<exists>before n after s. ds_searchPath r = before @ n # after \<and>
         GetSchemaMetadata (ds_db r) n = Some s \<and> GetTable s name = Some t \<and> schema = sch_name (sm_proto s) \<and>
         (\<forall>m \<in> set before. \<forall>s'. GetSchemaMetadata (ds_db r) m = Some s' \<longrightarrow> GetTable s' name = None))) \<and>
   (SearchTable r name = ([], None) \<longleftrightarrow>
      (\<forall>n \<in> set (ds_searchPath r). \<forall>s. GetSchemaMetadata (ds_db r) n = Some s \<longrightarrow> GetTable s name = None))"
proof (rule conjI)
  show "SearchTable r name = (schema, Some t) \<longleftrightarrow>
      (\<exists>before n after s. ds_searchPath r = before @ n # after \<and>
         GetSchemaMetadata (ds_db r) n = Some s \<and> GetTable s name = Some t \<and> schema = sch_name (sm_proto s) \<and>
         (\<forall>m \<in> set before. \<forall>s'. GetSchemaMetadata (ds_db r) m = Some s' \<longrightarrow> GetTable s' name = None))"
    unfolding SearchTable_def search_loop_Some_iff not_found_iff unfolding found_at_def conj_assoc by (rule refl)
  have "SearchTable r name = ([], None) \<longleftrightarrow> snd (SearchTable r name) = None"
    using search_loop_nil_name [of "ds_db r" "\<lambda>s. GetTable s name" "ds_searchPath r"]
    by (cases "SearchTable r name") (auto simp: SearchTable_def)
  then show "SearchTable r name = ([], None) \<longleftrightarrow>
      (\<forall>n \<in> set (ds_searchPath r). \<forall>s. GetSchemaMetadata (ds_db r) n = Some s \<longrightarrow> GetTable s name = None)"
    unfolding SearchTable_def search_loop_None_iff not_found_iff .
qed

theorem SearchTable_first_witness:
  "SearchTable (NewSearcher (NewDatabaseMetadataFromProto (zero_DatabaseSchemaMetadata
     \<lparr>db_schemas := [zero_SchemaMetadata\<lparr>sch_name := ''app''\<rparr>]\<rparr>)) [] [''app'', ''public'']) ''t'' = ([], None)"
proof -
  define r where "r = NewSearcher (NewDatabaseMetadataFromProto (zero_DatabaseSchemaMetadata
     \<lparr>db_schemas := [zero_SchemaMetadata\<lparr>sch_name := ''app''\<rparr>]\<rparr>)) [] [''app'', ''public'']"
  have "list_all (\<lambda>n. case GetSchemaMetadata (ds_db r) n of None \<Rightarrow> True | Some s \<Rightarrow> GetTable s ''t'' = None)
      (ds_searchPath r)" unfolding r_def by code_simp
  then have "\<forall>n \<in> set (ds_searchPath r). \<forall>s. GetSchemaMetadata (ds_db r) n = Some s \<longrightarrow> GetTable s ''t'' = None"
    by (auto simp: list_all_iff split: option.splits)
  then have "SearchTable r ''t'' = ([], None)" using SearchTable_first by blast
  then show ?thesis unfolding r_def .
qed

text \<open>
  The two interfaces are the same: a searcher's searches are the database's with the searcher's
  path, which is the given schema alone, or the fallback path, or \<open>public\<close>.
\<close>
lemma searcher_is_database_search:
  "(let r = NewSearcher d schemaName fallback;
        path = (if schemaName \<noteq> [] then [schemaName] else if fallback = [] then [''public''] else fallback)
    in SearchTable r name = db_SearchTable d path name \<and> SearchIndex ord r name = db_SearchIndex ord d path name \<and>
       SearchView r name = db_SearchView d path name \<and>
       SearchExternalTable r name = db_SearchExternalTable d path name \<and>
       SearchSequence r name = db_SearchSequence d path name \<and>
       SearchMaterializedView r name = db_SearchMaterializedView d path name \<and>
       SearchFunctions r name = db_SearchFunctions d path name \<and>
       SearchObject r name = db_SearchObject d path name)"
  by (simp add: Let_def NewSearcher_def SearchTable_def db_SearchTable_def SearchIndex_def db_SearchIndex_def
      SearchView_def db_SearchView_def SearchExternalTable_def db_SearchExternalTable_def SearchSequence_def
      db_SearchSequence_def SearchMaterializedView_def db_SearchMaterializedView_def SearchFunctions_def
      db_SearchFunctions_def SearchObject_def db_SearchObject_def)

text \<open>
  An object search names the first schema on the path that has anything of that name, be it a
  table, view, materialized view, function, procedure, package, sequence or external table; it names
  nothing exactly when no schema on the path has any of these.
\<close>
lemma SearchObject_found:
  "(\<exists>before n after s. ds_searchPath r = before @ n # after \<and> GetSchemaMetadata (ds_db r) n = Some s \<and>
      has_object name s \<and> SearchObject r name = (sch_name (sm_proto s), name) \<and>
      (\<forall>m \<in> set before. \<forall>s'. GetSchemaMetadata (ds_db r) m = Some s' \<longrightarrow> \<not> has_object name s')) \<or>
   SearchObject r name = ([], []) \<and>
      (\<forall>n \<in> set (ds_searchPath r). \<forall>s. GetSchemaMetadata (ds_db r) n = Some s \<longrightarrow> \<not> has_object name s)"
proof (cases "search_loop (ds_db r) (any_object name) (ds_searchPath r)")
  case (Pair schema x)
  have absent: "(\<forall>s x. \<not> found_at (ds_db r) (any_object name) n s x) \<longleftrightarrow>
      (\<forall>s. GetSchemaMetadata (ds_db r) n = Some s \<longrightarrow> \<not> has_object name s)" for n
    unfolding not_found_iff by (auto simp: any_object_iff)
  show ?thesis
  proof (cases x)
    case None
    with Pair have "\<forall>n \<in> set (ds_searchPath r). \<forall>s x. \<not> found_at (ds_db r) (any_object name) n s x"
      using search_loop_None_iff [of "ds_db r" "any_object name" "ds_searchPath r"] by simp
    with Pair None show ?thesis unfolding absent by (simp add: SearchObject_def)
  next
    case (Some u)
    then obtain before n after s where "ds_searchPath r = before @ n # after"
      "found_at (ds_db r) (any_object name) n s u" "schema = sch_name (sm_proto s)"
      "\<forall>m \<in> set before. \<forall>t y. \<not> found_at (ds_db r) (any_object name) m t y"
      using Pair search_loop_Some_iff [of "ds_db r" "any_object name" "ds_searchPath r" schema u] by auto
    moreover from this have "GetSchemaMetadata (ds_db r) n = Some s \<and> has_object name s"
      by (auto simp: found_at_def any_object_iff)
    moreover have "SearchObject r name = (schema, name)" using Pair Some by (simp add: SearchObject_def)
    ultimately show ?thesis unfolding absent by blast
  qed
qed

definition two_schemas :: DatabaseMetadata where
  "two_schemas = NewDatabaseMetadataFromProto (zero_DatabaseSchemaMetadata
     \<lparr>db_schemas := [zero_SchemaMetadata\<lparr>sch_name := ''app''\<rparr>, zero_SchemaMetadata\<lparr>sch_name := ''public'',
        sch_views := [zero_ViewMetadata\<lparr>view_name := ''v''\<rparr>]\<rparr>]\<rparr>)"

theorem SearchObject_found_witness:
  "SearchObject (NewSearcher two_schemas [] [''app'', ''public'']) ''v'' = (''public'', ''v'')"
proof -
  let ?r = "NewSearcher two_schemas [] [''app'', ''public'']"
  have "list_ex (\<lambda>n. case GetSchemaMetadata (ds_db ?r) n of None \<Rightarrow> False | Some s \<Rightarrow> has_object ''v'' s) (ds_searchPath ?r)"
    by code_simp
  then have "\<exists>n \<in> set (ds_searchPath ?r). \<exists>s. GetSchemaMetadata (ds_db ?r) n = Some s \<and> has_object ''v'' s"
    by (auto simp: list_ex_iff split: option.splits)
  then obtain before n after s where path: "ds_searchPath ?r = before @ n # after"
    and s: "GetSchemaMetadata (ds_db ?r) n = Some s" "has_object ''v'' s"
      "SearchObject ?r ''v'' = (sch_name (sm_proto s), ''v'')"
    using SearchObject_found [of ?r "''v''"] by blast
  have "list_all (\<lambda>n. case GetSchemaMetadata (ds_db ?r) n of None \<Rightarrow> True
      | Some s \<Rightarrow> has_object ''v'' s \<longrightarrow> sch_name (sm_proto s) = ''public'') (ds_searchPath ?r)"
    by code_simp
  with path s show ?thesis by (simp add: list_all_iff)
qed

end
