(* ===== verification/ChangedResources.thy ===== *)
theory ChangedResources
  imports SchemaModel
begin

text \<open>
  \<^verbatim>\<open>backend/store/model/changed_resources.go\<close>: the tables a statement changes, by database, schema and
  table.  Each \<open>range\<close> over a map has its own order (\<open>cr_site\<close>).  \<open>Build\<close> writes the row counts into
  the table messages it was given, so it returns the updated state beside its result.
\<close>

datatype cr_site = CR_Build | CR_schemas | CR_tables | CR_count_databases | CR_count_schemas | CR_count_tables

type_synonym cr_order = "cr_site \<Rightarrow> string list \<Rightarrow> string list"

definition fair_cr :: "cr_order \<Rightarrow> bool" where
  "fair_cr ord \<longleftrightarrow> (\<forall>s. perm_order (ord s))"

lemma fair_crD [simp]: "fair_cr ord \<Longrightarrow> perm_order (ord s)"
  by (simp add: fair_cr_def)


section \<open>Types\<close>

record storepb_ChangedResourceTable =
  crt_name :: string
  crt_table_rows :: int64

record storepb_ChangedResourceSchema =
  crs_name :: string
  crs_tables :: "storepb_ChangedResourceTable list"

record storepb_ChangedResourceDatabase =
  crd_name :: string
  crd_schemas :: "storepb_ChangedResourceSchema list"

record storepb_ChangedResources =
  cr_databases :: "storepb_ChangedResourceDatabase list"

record ChangedTable =
  ct_table :: storepb_ChangedResourceTable
  ct_affectedTable :: bool

record ChangedSchema =
  cs_tables :: "ChangedTable gomap"

record ChangedDatabase =
  chd_schemas :: "ChangedSchema gomap"

record ChangedResources =
  chr_databases :: "ChangedDatabase gomap"
  chr_dbMetadata :: "DatabaseMetadata option"

definition NewChangedResources :: "DatabaseMetadata option \<Rightarrow> ChangedResources" where
  "NewChangedResources dbMetadata = \<lparr>chr_databases = [], chr_dbMetadata = dbMetadata\<rparr>"


section \<open>Adding a table\<close>

definition AddTable ::
  "ChangedResources \<Rightarrow> string \<Rightarrow> string \<Rightarrow> storepb_ChangedResourceTable \<Rightarrow> bool \<Rightarrow> ChangedResources" where
  "AddTable r database schema change affectedTable =
     (let d = (case map_of (chr_databases r) database of None \<Rightarrow> \<lparr>chd_schemas = []\<rparr> | Some d \<Rightarrow> d);
          s = (case map_of (chd_schemas d) schema of None \<Rightarrow> \<lparr>cs_tables = []\<rparr> | Some s \<Rightarrow> s);
          t = (case map_of (cs_tables s) (crt_name change) of
                 None \<Rightarrow> \<lparr>ct_table = change, ct_affectedTable = affectedTable\<rparr>
               | Some v \<Rightarrow> if affectedTable then v\<lparr>ct_affectedTable := True\<rparr> else v);
          s' = s\<lparr>cs_tables := AList.update (crt_name change) t (cs_tables s)\<rparr>;
          d' = d\<lparr>chd_schemas := AList.update schema s' (chd_schemas d)\<rparr>
      in r\<lparr>chr_databases := AList.update database d' (chr_databases r)\<rparr>)"


section \<open>Building the message\<close>

text \<open>The comparison both sorts use.\<close>

definition cmp_name :: "('a \<Rightarrow> string) \<Rightarrow> 'a \<Rightarrow> 'a \<Rightarrow> int" where
  "cmp_name name a b = (if name a < name b then -1 else if name a > name b then 1 else 0)"

definition schema_build :: "cr_order \<Rightarrow> ChangedSchema \<Rightarrow> storepb_ChangedResourceSchema" where
  "schema_build ord s =
     \<lparr>crs_name = [],
      crs_tables = SortFunc (cmp_name crt_name)
        (map (\<lambda>(_, table). ct_table table) (go_range (ord CR_tables) (cs_tables s)))\<rparr>"

definition database_build :: "cr_order \<Rightarrow> ChangedDatabase \<Rightarrow> storepb_ChangedResourceDatabase" where
  "database_build ord d =
     \<lparr>crd_name = [],
      crd_schemas = SortFunc (cmp_name crs_name)
        (map (\<lambda>(name, schema). (schema_build ord schema)\<lparr>crs_name := name\<rparr>)
          (go_range (ord CR_schemas) (chd_schemas d)))\<rparr>"

text \<open>The row count of a table, when the metadata has it.\<close>

definition table_rows :: "DatabaseMetadata option \<Rightarrow> string \<Rightarrow> string \<Rightarrow> int64 option" where
  "table_rows dbMetadata schemaName tableName =
     (case dbMetadata of
        None \<Rightarrow> None
      | Some m \<Rightarrow>
          (case GetSchemaMetadata m schemaName of
             None \<Rightarrow> None
           | Some schemaMetadata \<Rightarrow>
               map_option (\<lambda>t. tbl_row_count (tm_proto t)) (GetTable schemaMetadata tableName)))"

definition fill_rows ::
  "DatabaseMetadata option \<Rightarrow> string \<Rightarrow> storepb_ChangedResourceTable \<Rightarrow> storepb_ChangedResourceTable" where
  "fill_rows dbMetadata schemaName table =
     (case table_rows dbMetadata schemaName (crt_name table) of
        None \<Rightarrow> table
      | Some n \<Rightarrow> table\<lparr>crt_table_rows := n\<rparr>)"

definition Build :: "cr_order \<Rightarrow> ChangedResources \<Rightarrow> storepb_ChangedResources \<times> ChangedResources" where
  "Build ord r =
     (let fill = fill_rows (chr_dbMetadata r);
          filled = (\<lambda>d. d\<lparr>crd_schemas :=
            map (\<lambda>s. s\<lparr>crs_tables := map (fill (crs_name s)) (crs_tables s)\<rparr>) (crd_schemas d)\<rparr>)
      in (\<lparr>cr_databases =
             map (\<lambda>(name, database). filled ((database_build ord database)\<lparr>crd_name := name\<rparr>))
               (go_range (ord CR_Build) (chr_databases r))\<rparr>,
          r\<lparr>chr_databases :=
              map (\<lambda>(dn, d). (dn, d\<lparr>chd_schemas :=
                map (\<lambda>(sn, s). (sn, s\<lparr>cs_tables :=
                  map (\<lambda>(tn, t). (tn, t\<lparr>ct_table := fill sn (ct_table t)\<rparr>)) (cs_tables s)\<rparr>))
                  (chd_schemas d)\<rparr>)) (chr_databases r)\<rparr>))"

definition CountAffectedTableRows :: "cr_order \<Rightarrow> ChangedResources \<Rightarrow> int64" where
  "CountAffectedTableRows ord r =
     (if chr_dbMetadata r = None then 0
      else sum_list (concat (map (\<lambda>(_, d).
             concat (map (\<lambda>(schemaName, schema).
               concat (map (\<lambda>(tableName, table).
                 if \<not> ct_affectedTable table then []
                 else (case table_rows (chr_dbMetadata r) schemaName tableName of None \<Rightarrow> [] | Some n \<Rightarrow> [n]))
               (go_range (ord CR_count_tables) (cs_tables schema))))
             (go_range (ord CR_count_schemas) (chd_schemas d))))
           (go_range (ord CR_count_databases) (chr_databases r)))))"


section \<open>What is recorded\<close>

text \<open>The entry for one table.\<close>

definition changed_table :: "ChangedResources \<Rightarrow> string \<Rightarrow> string \<Rightarrow> string \<Rightarrow> ChangedTable option" where
  "changed_table r database schema table =
     Option.bind (map_of (chr_databases r) database) (\<lambda>d.
       Option.bind (map_of (chd_schemas d) schema) (\<lambda>s. map_of (cs_tables s) table))"

lemma changed_table_New [simp]: "changed_table (NewChangedResources m) d s t = None"
  by (simp add: changed_table_def NewChangedResources_def)

lemma changed_table_AddTable:
  "changed_table (AddTable r d s c f) d' s' t' =
   (if d' = d \<and> s' = s \<and> t' = crt_name c
    then Some (case changed_table r d s (crt_name c) of
                 None \<Rightarrow> \<lparr>ct_table = c, ct_affectedTable = f\<rparr>
               | Some v \<Rightarrow> v\<lparr>ct_affectedTable := ct_affectedTable v \<or> f\<rparr>)
    else changed_table r d' s' t')"
  by (auto simp: changed_table_def AddTable_def Let_def update_conv' split: option.splits)

type_synonym add = "string \<times> string \<times> storepb_ChangedResourceTable \<times> bool"

definition add_all :: "ChangedResources \<Rightarrow> add list \<Rightarrow> ChangedResources" where
  "add_all r adds = foldl (\<lambda>r (d, s, c, f). AddTable r d s c f) r adds"

definition add_matches :: "string \<Rightarrow> string \<Rightarrow> string \<Rightarrow> add \<Rightarrow> bool" where
  "add_matches d s t = (\<lambda>(d', s', c, f). d' = d \<and> s' = s \<and> crt_name c = t)"

lemma changed_table_add_all:
  "changed_table (add_all r adds) d s t =
   (case (changed_table r d s t, filter (add_matches d s t) adds) of
      (None, []) \<Rightarrow> None
    | (None, a # as) \<Rightarrow> Some \<lparr>ct_table = fst (snd (snd a)),
                          ct_affectedTable = (\<exists>x \<in> set (a # as). snd (snd (snd x)))\<rparr>
    | (Some v, as) \<Rightarrow> Some (v\<lparr>ct_affectedTable := ct_affectedTable v \<or> (\<exists>x \<in> set as. snd (snd (snd x)))\<rparr>))"
proof (induction adds arbitrary: r)
  case (Cons a adds)
  obtain d' s' c f where a: "a = (d', s', c, f)" by (cases a) auto
  have "add_all r (a # adds) = add_all (AddTable r d' s' c f) adds" by (simp add: add_all_def a)
  then show ?case
    using Cons.IH [of "AddTable r d' s' c f"]
    by (auto simp: changed_table_AddTable a add_matches_def split: option.splits list.splits)
qed (auto simp: add_all_def split: option.splits)

text \<open>
  After any sequence of additions a table is recorded exactly when some addition named it, with
  the message of the first one, and it counts as affected exactly when one of them said so.
\<close>
lemma changed_resources_record:
  "changed_table (add_all (NewChangedResources m) adds) d s t =
   (case filter (add_matches d s t) adds of
      [] \<Rightarrow> None
    | a # as \<Rightarrow> Some \<lparr>ct_table = fst (snd (snd a)),
                   ct_affectedTable = (\<exists>x \<in> set (a # as). snd (snd (snd x)))\<rparr>)"
  by (simp add: changed_table_add_all split: list.split)

lemma mset_range_concat_cong:
  assumes "perm_order o1" "perm_order o2" "\<And>k v. mset (f (k, v)) = mset (g (k, v))"
  shows "mset (concat (map f (go_range o1 m))) = mset (concat (map g (go_range o2 m)))"
proof -
  have "mset (f p) = mset (g p)" for p using assms(3) by (cases p) simp
  then have "mset (concat (map f xs)) = mset (concat (map g xs))" for xs
    by (induction xs) simp_all
  then show ?thesis using mset_range_concat [OF assms(1,2), of f m] by simp
qed

text \<open>
  The count of affected rows does not depend on the order in which the maps are visited
  (64-bit addition, which may wrap around, is commutative).
\<close>
lemma affected_rows_order_independent:
  assumes "fair_cr a" "fair_cr b"
  shows "CountAffectedTableRows a r = CountAffectedTableRows b r"
  unfolding CountAffectedTableRows_def sum_mset_sum_list [symmetric]
  using assms
  by (intro if_cong refl arg_cong [where f = "sum_mset"] mset_range_concat_cong)
    (simp_all, (intro mset_range_concat_cong; simp?)+)

definition sample_add :: "string \<Rightarrow> bool \<Rightarrow> add" where
  "sample_add t f = (''db'', ''public'', \<lparr>crt_name = t, crt_table_rows = 0\<rparr>, f)"

theorem affected_rows_order_independent_witness:
  "CountAffectedTableRows (\<lambda>_. rev) (add_all (NewChangedResources None) [sample_add ''t'' True]) =
   CountAffectedTableRows (\<lambda>_. insertion_order) (add_all (NewChangedResources None) [sample_add ''t'' True])"
  by (rule affected_rows_order_independent) (simp_all add: fair_cr_def)

text \<open>A table is kept under the name in its message.\<close>

definition cr_keyed :: "ChangedResources \<Rightarrow> bool" where
  "cr_keyed r \<longleftrightarrow> (\<forall>d s t v. changed_table r d s t = Some v \<longrightarrow> crt_name (ct_table v) = t)"

lemma cr_keyed_add_all: "cr_keyed (add_all (NewChangedResources m) adds)"
proof -
  have "crt_name (ct_table v) = t" if "changed_table (add_all (NewChangedResources m) adds) d s t = Some v" for d s t v
  proof (cases "filter (add_matches d s t) adds")
    case (Cons a as)
    then have "add_matches d s t a" by (metis filter_eq_ConsD)
    then show ?thesis
      using that Cons by (cases a) (auto simp: changed_table_add_all add_matches_def)
  qed (use that in \<open>simp add: changed_table_add_all\<close>)
  then show ?thesis by (simp add: cr_keyed_def)
qed

lemma cmp_name_key: "cmp_key (cmp_name name) name"
  by (auto simp: cmp_key_def cmp_name_def)

lemma sorted_by_name_order:
  assumes "perm_order o1" "perm_order o2" "\<And>k v. map_of m k = Some v \<Longrightarrow> name (f (k, v)) = k"
  shows "SortFunc (cmp_name name) (map f (go_range o1 m)) = SortFunc (cmp_name name) (map f (go_range o2 m))"
proof (rule SortFunc_perm [OF cmp_name_key])
  show "mset (map f (go_range o1 m)) = mset (map f (go_range o2 m))"
    unfolding mset_map by (simp add: mset_go_range [OF assms(1,2)])
  show "inj_on name (set (map f (go_range o1 m)))"
  proof (rule inj_onI)
    fix x y
    assume "x \<in> set (map f (go_range o1 m))" "y \<in> set (map f (go_range o1 m))" and eq: "name x = name y"
    then obtain k v l w where "x = f (k, v)" "map_of m k = Some v" "y = f (l, w)" "map_of m l = Some w"
      by (auto simp: go_range_set [OF assms(1)])
    with eq assms(3) show "x = y" by (metis option.inject)
  qed
qed

lemma schema_build_order:
  assumes "fair_cr a" "fair_cr b" "\<And>t v. map_of (cs_tables s) t = Some v \<Longrightarrow> crt_name (ct_table v) = t"
  shows "schema_build a s = schema_build b s"
  using sorted_by_name_order [of "a CR_tables" "b CR_tables" "cs_tables s" crt_name "\<lambda>(_, table). ct_table table"] assms
  by (simp add: schema_build_def)

lemma database_build_order:
  assumes "fair_cr a" "fair_cr b"
    and "\<And>sn s t v. map_of (chd_schemas d) sn = Some s \<Longrightarrow> map_of (cs_tables s) t = Some v \<Longrightarrow> crt_name (ct_table v) = t"
  shows "database_build a d = database_build b d"
proof -
  let ?f = "\<lambda>ord. \<lambda>(name, schema). (schema_build ord schema)\<lparr>crs_name := name\<rparr>"
  have "map (?f a) (go_range (a CR_schemas) (chd_schemas d)) = map (?f b) (go_range (a CR_schemas) (chd_schemas d))"
    using schema_build_order [OF assms(1,2)] assms(3) assms(1) by (auto simp: go_range_set)
  moreover have "SortFunc (cmp_name crs_name) (map (?f b) (go_range (a CR_schemas) (chd_schemas d))) =
      SortFunc (cmp_name crs_name) (map (?f b) (go_range (b CR_schemas) (chd_schemas d)))"
    using assms(1,2) by (intro sorted_by_name_order) auto
  ultimately show ?thesis unfolding database_build_def by (simp only:)
qed

text \<open>
  The message built for each database, its schemas and tables sorted by name, does not depend
  on the order in which the maps are visited; that order only permutes the list of databases.
\<close>
lemma changed_resources_build_deterministic:
  assumes "fair_cr a" "fair_cr b"
  shows "mset (cr_databases (fst (Build a (add_all (NewChangedResources m) adds)))) =
         mset (cr_databases (fst (Build b (add_all (NewChangedResources m) adds))))"
proof -
  let ?r = "add_all (NewChangedResources m) adds"
  have "database_build a d = database_build b d" if "map_of (chr_databases ?r) n = Some d" for n d
  proof (rule database_build_order [OF assms])
    fix sn s t v
    assume "map_of (chd_schemas d) sn = Some s" "map_of (cs_tables s) t = Some v"
    with that have "changed_table ?r n sn t = Some v" by (simp add: changed_table_def)
    then show "crt_name (ct_table v) = t" using cr_keyed_add_all [of m adds] by (simp add: cr_keyed_def)
  qed
  then have eq: "map (\<lambda>(n, d). F n (database_build a d)) (go_range (a CR_Build) (chr_databases ?r)) =
      map (\<lambda>(n, d). F n (database_build b d)) (go_range (a CR_Build) (chr_databases ?r))"
    for F :: "string \<Rightarrow> storepb_ChangedResourceDatabase \<Rightarrow> storepb_ChangedResourceDatabase"
    using assms(1) by (auto simp: go_range_set)
  have "mset (go_range (a CR_Build) (chr_databases ?r)) = mset (go_range (b CR_Build) (chr_databases ?r))"
    using assms by (simp add: mset_go_range [of "a _" "b _"])
  then have perm: "mset (map f (go_range (a CR_Build) (chr_databases ?r))) =
      mset (map f (go_range (b CR_Build) (chr_databases ?r)))"
    for f :: "string \<times> ChangedDatabase \<Rightarrow> storepb_ChangedResourceDatabase"
    unfolding mset_map by simp
  define G where "G n x = (let d = x\<lparr>crd_name := n\<rparr> in d\<lparr>crd_schemas :=
      map (\<lambda>s. s\<lparr>crs_tables := map (fill_rows (chr_dbMetadata ?r) (crs_name s)) (crs_tables s)\<rparr>)
        (crd_schemas d)\<rparr>)" for n and x :: storepb_ChangedResourceDatabase
  have form: "cr_databases (fst (Build ord ?r)) =
      map (\<lambda>(n, d). G n (database_build ord d)) (go_range (ord CR_Build) (chr_databases ?r))" for ord
    by (simp add: Build_def G_def Let_def)
  show ?thesis unfolding form eq [of G] by (rule perm)
qed

theorem changed_resources_build_deterministic_witness:
  "mset (cr_databases (fst (Build (\<lambda>_. rev)
      (add_all (NewChangedResources None) [sample_add ''t'' True, sample_add ''a'' False])))) =
   mset (cr_databases (fst (Build (\<lambda>_. insertion_order)
      (add_all (NewChangedResources None) [sample_add ''t'' True, sample_add ''a'' False]))))"
  by (rule changed_resources_build_deterministic) (simp_all add: fair_cr_def)

end
