(* ===== verification/GoRunes.thy ===== *)
theory GoRunes
  imports GoStrings
begin

text \<open>
  Go's conversions between a string, a list of bytes, and its code points, \<open>[]rune(s)\<close> and
  \<open>string(rs)\<close> (UTF-8 as in package \<^verbatim>\<open>unicode/utf8\<close>), and the printing of integers in decimal
  (\<^verbatim>\<open>strconv.FormatInt\<close>, \<^verbatim>\<open>strconv.FormatUint\<close>).
\<close>

type_synonym rune = nat

definition RuneError :: rune where "RuneError = 0xFFFD"

section \<open>Decoding\<close>

text \<open>The second byte's range depends on the first; a byte that starts no valid sequence is an error.\<close>

definition second_ok :: "nat \<Rightarrow> nat \<Rightarrow> bool" where
  "second_ok a b \<longleftrightarrow>
     (if a = 0xE0 then 0xA0 \<le> b \<and> b \<le> 0xBF
      else if a = 0xED then 0x80 \<le> b \<and> b \<le> 0x9F
      else if a = 0xF0 then 0x90 \<le> b \<and> b \<le> 0xBF
      else if a = 0xF4 then 0x80 \<le> b \<and> b \<le> 0x8F
      else 0x80 \<le> b \<and> b \<le> 0xBF)"

definition continuation :: "nat \<Rightarrow> bool" where
  "continuation b \<longleftrightarrow> 0x80 \<le> b \<and> b \<le> 0xBF"

text \<open>The rune at the front and how many bytes it takes after the first.\<close>

definition DecodeRune :: "nat \<Rightarrow> nat list \<Rightarrow> rune \<times> nat" where
  "DecodeRune a bs =
     (if a < 0x80 then (a, 0)
      else if 0xC2 \<le> a \<and> a \<le> 0xDF then
        (case bs of b # _ \<Rightarrow> if second_ok a b then ((a - 0xC0) * 64 + (b - 0x80), 1) else (RuneError, 0)
         | _ \<Rightarrow> (RuneError, 0))
      else if 0xE0 \<le> a \<and> a \<le> 0xEF then
        (case bs of b # c # _ \<Rightarrow>
           if second_ok a b \<and> continuation c
           then ((a - 0xE0) * 4096 + (b - 0x80) * 64 + (c - 0x80), 2) else (RuneError, 0)
         | _ \<Rightarrow> (RuneError, 0))
      else if 0xF0 \<le> a \<and> a \<le> 0xF4 then
        (case bs of b # c # d # _ \<Rightarrow>
           if second_ok a b \<and> continuation c \<and> continuation d
           then ((a - 0xF0) * 262144 + (b - 0x80) * 4096 + (c - 0x80) * 64 + (d - 0x80), 3) else (RuneError, 0)
         | _ \<Rightarrow> (RuneError, 0))
      else (RuneError, 0))"

fun decode :: "nat list \<Rightarrow> rune list" where
  "decode [] = []"
| "decode (a # bs) = (case DecodeRune a bs of (r, n) \<Rightarrow> r # decode (drop n bs))"

definition runes :: "string \<Rightarrow> rune list" where
  "runes s = decode (map of_char s)"


section \<open>Encoding\<close>

text \<open>A number that is no Unicode scalar value is written as the error rune.\<close>

definition scalar_value :: "rune \<Rightarrow> bool" where
  "scalar_value r \<longleftrightarrow> r < 0xD800 \<or> 0xE000 \<le> r \<and> r \<le> 0x10FFFF"

definition encode_rune :: "rune \<Rightarrow> nat list" where
  "encode_rune r =
     (if r < 0x80 then [r]
      else if r < 0x800 then [0xC0 + r div 64, 0x80 + r mod 64]
      else if \<not> scalar_value r then [0xEF, 0xBF, 0xBD]
      else if r < 0x10000 then [0xE0 + r div 4096, 0x80 + r div 64 mod 64, 0x80 + r mod 64]
      else [0xF0 + r div 262144, 0x80 + r div 4096 mod 64, 0x80 + r div 64 mod 64, 0x80 + r mod 64])"

definition string_of :: "rune list \<Rightarrow> string" where
  "string_of rs = map char_of (concat (map encode_rune rs))"


section \<open>Round trip\<close>

text \<open>The digits of a number in base 64, from the lowest.\<close>

lemma base64:
  fixes r :: nat
  obtains q0 q1 q2 q3 where "r = ((q3 * 64 + q2) * 64 + q1) * 64 + q0" "q0 < 64" "q1 < 64" "q2 < 64"
    "r mod 64 = q0" "r div 64 mod 64 = q1" "r div 4096 mod 64 = q2" "r div 262144 = q3"
    "r div 64 = (q3 * 64 + q2) * 64 + q1" "r div 4096 = q3 * 64 + q2"
proof -
  define q0 q1 q2 q3 where "q0 = r mod 64" and "q1 = r div 64 mod 64" and "q2 = r div 64 div 64 mod 64"
    and "q3 = r div 64 div 64 div 64"
  have e: "r div 4096 = r div 64 div 64" "r div 262144 = r div 64 div 64 div 64"
    by (simp_all add: div_mult2_eq [symmetric])
  have d: "r = r div 64 * 64 + q0" "r div 64 = r div 64 div 64 * 64 + q1"
    "r div 64 div 64 = r div 64 div 64 div 64 * 64 + q2"
    unfolding q0_def q1_def q2_def by (rule div_mult_mod_eq [symmetric])+
  show ?thesis
    by (rule that [of q3 q2 q1 q0]; use d in \<open>simp add: e q0_def q1_def q2_def q3_def\<close>)
qed

lemma DecodeRune_encode:
  assumes "scalar_value r"
  obtains a bs where "encode_rune r = a # bs" "DecodeRune a (bs @ s) = (r, length bs)"
proof -
  obtain q0 q1 q2 q3 where r: "r = ((q3 * 64 + q2) * 64 + q1) * 64 + q0" and q: "q0 < 64" "q1 < 64" "q2 < 64"
    and e: "r mod 64 = q0" "r div 64 mod 64 = q1" "r div 4096 mod 64 = q2" "r div 262144 = q3"
      "r div 64 = (q3 * 64 + q2) * 64 + q1" "r div 4096 = q3 * 64 + q2"
    by (rule base64)
  consider (one) "r < 0x80" | (two) "0x80 \<le> r" "r < 0x800" | (three) "0x800 \<le> r" "r < 0x10000"
    | (four) "0x10000 \<le> r" "r \<le> 0x10FFFF"
    using assms by (force simp: scalar_value_def)
  then show ?thesis
  proof cases
    case one
    then have "encode_rune r = r # []" "DecodeRune r ([] @ s) = (r, length ([] :: nat list))"
      by (simp_all add: encode_rune_def DecodeRune_def)
    then show ?thesis by (rule that)
  next
    case two
    then have z0: "q3 = 0" "q2 = 0" using r q by auto
    then have z: "q3 = 0" "q2 = 0" "2 \<le> q1" "q1 < 32" using two r q by simp_all
    have "encode_rune r = (0xC0 + q1) # [0x80 + q0]" using two z by (simp add: encode_rune_def e)
    moreover have "DecodeRune (0xC0 + q1) ([0x80 + q0] @ s) = (r, length [0x80 + q0])"
      using z q by (simp add: DecodeRune_def second_ok_def r)
    ultimately show ?thesis by (rule that)
  next
    case three
    then have z: "q3 = 0" "q2 < 16" using r q by auto
    have "encode_rune r = (0xE0 + q2) # [0x80 + q1, 0x80 + q0]"
      using three assms z e(1,2,6) by (simp add: encode_rune_def)
    moreover have "q2 = 0 \<Longrightarrow> 32 \<le> q1" using three z r q by simp
    moreover have "q2 = 13 \<Longrightarrow> q1 < 32" using assms z q unfolding scalar_value_def r by simp
    ultimately have "second_ok (0xE0 + q2) (0x80 + q1)" using q z(2) by (auto simp: second_ok_def)
    then have "DecodeRune (0xE0 + q2) ([0x80 + q1, 0x80 + q0] @ s) = (r, length [0x80 + q1, 0x80 + q0])"
      using z q by (simp add: DecodeRune_def continuation_def r)
    with \<open>encode_rune r = _\<close> show ?thesis by (rule that)
  next
    case four
    then have z: "q3 \<le> 4" "q3 = 0 \<Longrightarrow> 16 \<le> q2" "q3 = 4 \<Longrightarrow> q2 < 16" using r q by simp_all
    have "encode_rune r = (0xF0 + q3) # [0x80 + q2, 0x80 + q1, 0x80 + q0]"
      using four assms e(1-4) by (simp add: encode_rune_def)
    moreover have "second_ok (0xF0 + q3) (0x80 + q2)" using z q by (auto simp: second_ok_def)
    then have "DecodeRune (0xF0 + q3) ([0x80 + q2, 0x80 + q1, 0x80 + q0] @ s) =
        (r, length [0x80 + q2, 0x80 + q1, 0x80 + q0])"
      using z q by (simp add: DecodeRune_def continuation_def r)
    ultimately show ?thesis by (rule that)
  qed
qed

lemma decode_encode: "list_all scalar_value rs \<Longrightarrow> decode (concat (map encode_rune rs)) = rs"
proof (induction rs)
  case (Cons r rs)
  obtain a bs where "encode_rune r = a # bs"
    "DecodeRune a (bs @ concat (map encode_rune rs)) = (r, length bs)"
    using DecodeRune_encode [of r "concat (map encode_rune rs)"] Cons.prems by auto
  with Cons show ?case by simp
qed simp

lemma encode_rune_bytes: "b \<in> set (encode_rune r) \<Longrightarrow> b < 256"
  by (auto simp: encode_rune_def scalar_value_def split: if_splits)

lemma runes_string_of: "list_all scalar_value rs \<Longrightarrow> runes (string_of rs) = rs"
proof -
  assume "list_all scalar_value rs"
  have "map (of_char \<circ> char_of) (concat (map encode_rune rs)) = concat (map encode_rune rs)"
    by (rule map_idI) (auto dest: encode_rune_bytes)
  then show ?thesis
    using decode_encode [OF \<open>list_all scalar_value rs\<close>] by (simp add: runes_def string_of_def)
qed


section \<open>Decimal numbers\<close>

fun FormatUint :: "nat \<Rightarrow> string" where
  "FormatUint n = (if n < 10 then [char_of (48 + n)] else FormatUint (n div 10) @ [char_of (48 + n mod 10)])"

definition FormatInt :: "int \<Rightarrow> string" where
  "FormatInt i = (if i < 0 then CHR ''-'' # FormatUint (nat (- i)) else FormatUint (nat i))"

declare FormatUint.simps [simp del]

end
