(* ===== verification/Strconv.thy ===== *)
theory Strconv
  imports GoRunes
begin

text \<open>
  The functions of Go's packages \<^verbatim>\<open>strconv\<close> and \<^verbatim>\<open>net/url\<close> that parse what the program prints:
  decimal numbers at their width and escaped path segments; and the splitting of a text at a
  separator as the inverse of joining.  Failure is \<open>None\<close>.
\<close>

section \<open>strconv.ParseUint in base 10\<close>

definition digit_value :: "char \<Rightarrow> nat option" where
  "digit_value c =
     (if CHR ''0'' \<le> c \<and> c \<le> CHR ''9'' then Some (of_char c - 48) else None)"

fun digits_value :: "nat \<Rightarrow> string \<Rightarrow> nat option" where
  "digits_value n [] = Some n"
| "digits_value n (c # s) =
     (case digit_value c of None \<Rightarrow> None | Some d \<Rightarrow> digits_value (10 * n + d) s)"

text \<open>An empty text, a byte that is no digit, and a value of 64 bits or more are errors.\<close>

definition ParseUint :: "string \<Rightarrow> 64 word option" where
  "ParseUint s =
     (if s = [] then None
      else case digits_value 0 s of
             None \<Rightarrow> None
           | Some n \<Rightarrow> if n < 2 ^ 64 then Some (of_nat n) else None)"

text \<open>The same on binary integers, for evaluation.\<close>

lemma ParseUint_code [code]:
  "ParseUint s =
     (if s = [] then None
      else case digits_value 0 s of
             None \<Rightarrow> None
           | Some n \<Rightarrow> if int n < 18446744073709551616 then Some (word_of_int (int n)) else None)"
  by (simp add: ParseUint_def split: option.splits)


text \<open>\<open>strconv.ParseInt(s, 10, 64)\<close>: an optional sign, then the range of \<open>int64\<close>.\<close>

definition ParseInt :: "string \<Rightarrow> 64 word option" where
  "ParseInt s =
     (let neg = HasPrefix s ''-'';
          t = if neg \<or> HasPrefix s ''+'' then drop 1 s else s
      in case ParseUint t of
           None \<Rightarrow> None
         | Some un \<Rightarrow>
             if \<not> neg \<and> unat un \<ge> 2 ^ 63 then None
             else if neg \<and> unat un > 2 ^ 63 then None
             else Some (if neg then - un else un))"

lemma ParseInt_code [code]:
  "ParseInt s =
     (let neg = HasPrefix s ''-'';
          t = if neg \<or> HasPrefix s ''+'' then drop 1 s else s
      in case ParseUint t of
           None \<Rightarrow> None
         | Some un \<Rightarrow>
             if \<not> neg \<and> 9223372036854775808 \<le> un then None
             else if neg \<and> 9223372036854775808 < un then None
             else Some (if neg then - un else un))"
  by (simp add: ParseInt_def Let_def word_le_nat_alt word_less_nat_alt split: option.splits)

lemma digit_value_print: "d < 10 \<Longrightarrow> digit_value (char_of (48 + d)) = Some d"
proof -
  assume "d < 10"
  then have "d \<in> {0, 1, 2, 3, 4, 5, 6, 7, 8, 9}" by auto
  then show ?thesis by (auto simp: digit_value_def less_eq_char_def)
qed

lemma digits_value_append:
  "digits_value n (s @ t) = Option.bind (digits_value n s) (\<lambda>m. digits_value m t)"
  by (induction n s rule: digits_value.induct) (auto split: option.splits)

lemma digits_value_print: "digits_value 0 (FormatUint n) = Some n"
proof (induction n rule: FormatUint.induct)
  case (1 n)
  show ?case
  proof (cases "n < 10")
    case True
    then show ?thesis using digit_value_print [of n] by (simp add: FormatUint.simps [of n])
  next
    case False
    with 1 digit_value_print [of "n mod 10"] show ?thesis
      by (simp add: FormatUint.simps [of n] digits_value_append)
  qed
qed

lemma FormatUint_nonempty [simp]: "FormatUint n \<noteq> []"
  by (subst FormatUint.simps) simp

lemma ParseUint_print: "ParseUint (FormatUint (unat w)) = Some w" for w :: "64 word"
proof -
  have "unat w < 2 ^ LENGTH(64)" by (rule unsigned_less)
  then show ?thesis by (simp add: ParseUint_def digits_value_print)
qed

lemma FormatUint_value: "c \<in> set (FormatUint n) \<Longrightarrow> digit_value c \<noteq> None"
proof (induction n rule: FormatUint.induct)
  case (1 n)
  from 1 digit_value_print [of n] digit_value_print [of "n mod 10"] show ?case
    by (cases "n < 10") (auto simp: FormatUint.simps [of n])
qed

text \<open>A printed number is made of digits only.\<close>

lemma FormatUint_only_digits: "digit_value c = None \<Longrightarrow> c \<notin> set (FormatUint n)"
  using FormatUint_value [of c n] by auto

lemma FormatUint_first: "digit_value c = None \<Longrightarrow> \<not> HasPrefix (FormatUint n) (c # p)"
  by (rule notI, erule HasPrefixE) (metis FormatUint_only_digits append_Cons list.set_intros(1))

lemma FormatInt_chars: "digit_value c = None \<Longrightarrow> c \<noteq> CHR ''-'' \<Longrightarrow> c \<notin> set (FormatInt i)"
  by (auto simp: FormatInt_def dest: FormatUint_only_digits)

lemma FormatInt_first: "digit_value c = None \<Longrightarrow> c \<noteq> CHR ''-'' \<Longrightarrow> \<not> HasPrefix (FormatInt i) (c # p)"
  using FormatUint_first [of c] by (auto simp: FormatInt_def HasPrefix_def)

lemma ParseUint_Format: "n < 2 ^ 64 \<Longrightarrow> ParseUint (FormatUint n) = Some (word_of_nat n)"
  by (simp add: ParseUint_def digits_value_print)

lemma unat_word_of_nat: "n < 2 ^ 64 \<Longrightarrow> unat (word_of_nat n :: 64 word) = n"
  by (simp add: unat_of_nat)

lemma ParseInt_neg: "n \<le> 2 ^ 63 \<Longrightarrow> ParseInt (CHR ''-'' # FormatUint n) = Some (- word_of_nat n)"
  by (simp add: ParseInt_def HasPrefix_def ParseUint_Format unat_word_of_nat)

lemma ParseInt_pos: "n < 2 ^ 63 \<Longrightarrow> ParseInt (FormatUint n) = Some (word_of_nat n)"
proof -
  assume "n < 2 ^ 63"
  moreover have "\<not> HasPrefix (FormatUint n) ''-''" "\<not> HasPrefix (FormatUint n) ''+''"
    by (rule FormatUint_first, code_simp)+
  ultimately show ?thesis by (simp add: ParseInt_def ParseUint_Format unat_word_of_nat)
qed

text \<open>Every \<open>int64\<close> is printed and parsed back.\<close>

lemma ParseInt_print: "ParseInt (FormatInt (sint w)) = Some w" for w :: "64 word"
proof (cases "sint w < 0")
  case True
  define n where "n = nat (- sint w)"
  have "- (2 ^ 63) \<le> sint w" using sint_greater_eq [of w] by simp
  with True have n: "n \<le> 2 ^ 63" "int n = - sint w" by (auto simp: n_def)
  have "- word_of_nat n = (of_int (- int n) :: 64 word)" by simp
  also have "\<dots> = w" unfolding n(2) by simp
  finally have "- word_of_nat n = w" .
  with ParseInt_neg [OF n(1)] True show ?thesis by (simp add: FormatInt_def n_def)
next
  case False
  define n where "n = nat (sint w)"
  have "sint w < 2 ^ 63" using sint_less [of w] by simp
  with False have n: "n < 2 ^ 63" "int n = sint w" by (auto simp: n_def)
  have "word_of_nat n = (of_int (int n) :: 64 word)" by simp
  also have "\<dots> = w" unfolding n(2) by simp
  finally have "word_of_nat n = w" .
  with ParseInt_pos [OF n(1)] False show ?thesis by (simp add: FormatInt_def n_def)
qed


section \<open>Splitting at a single character\<close>

lemma Index_char: "c \<notin> set x \<Longrightarrow> Index (x @ c # rest) [c] = Some (length x)"
  by (induction x) (auto simp: HasPrefix_def)

lemma Index_no_char: "c \<notin> set x \<Longrightarrow> Index x [c] = None"
  by (induction x) (auto simp: HasPrefix_def)

lemma Split_char: "c \<notin> set x \<Longrightarrow> Split (x @ c # rest) [c] = x # Split rest [c]"
  by (simp add: Split.simps [of "x @ _"] Index_char)

lemma Split_no_char: "c \<notin> set x \<Longrightarrow> Split x [c] = [x]"
  by (simp add: Split.simps [of x] Index_no_char)

lemma Split_Join:
  "xs \<noteq> [] \<Longrightarrow> \<forall>x \<in> set xs. c \<notin> set x \<Longrightarrow> Split (Join xs [c]) [c] = xs"
proof (induction xs)
  case (Cons x xs)
  then show ?case by (cases "xs = []") (simp_all add: Join_Cons Split_char Split_no_char)
qed simp

lemma Split_nonempty [simp]: "Split s sep \<noteq> []"
  by (subst Split.simps) (simp split: option.splits)

text \<open>Joining what was split gives the text back, and no part holds the separator.\<close>

lemma Join_Split: "Join (Split s sep) sep = s"
proof (induction s sep rule: Split.induct)
  case (1 s sep)
  show ?case
  proof (cases "sep = [] \<or> Index s sep = None")
    case True
    then show ?thesis by (auto simp: Split.simps [of s sep])
  next
    case False
    then obtain i where i: "sep \<noteq> []" "Index s sep = Some i" by auto
    then have "HasPrefix (drop i s) sep" by (auto dest: Index_SomeD)
    then have "drop i s = sep @ drop (i + length sep) s"
      by (auto simp: HasPrefix_def) (metis append_take_drop_id add.commute drop_drop)
    with 1 i show ?thesis
      by (simp add: Split.simps [of s sep] Join_Cons) (metis append_take_drop_id)
  qed
qed

lemma Split_parts: "x \<in> set (Split s [c]) \<Longrightarrow> c \<notin> set x"
proof (induction s "[c]" rule: Split.induct)
  case (1 s)
  show ?case
  proof (cases "c \<in> set s")
    case False
    with 1 show ?thesis by (simp add: Split_no_char)
  next
    case True
    then obtain u v where s: "s = u @ c # v" "c \<notin> set u" by (meson split_list_first)
    then have "Index s [c] = Some (length u)" by (simp add: Index_char)
    from 1(1) [OF _ this] 1(2) s show ?thesis by (auto simp: Split_char)
  qed
qed

lemma Split_iff:
  "Split s [c] = xs \<longleftrightarrow> xs \<noteq> [] \<and> (\<forall>x \<in> set xs. c \<notin> set x) \<and> s = Join xs [c]"
  using Split_Join Split_nonempty Join_Split Split_parts by metis


section \<open>net/url: path segments\<close>

definition hex_digits :: string where "hex_digits = ''0123456789ABCDEF''"

text \<open>What \<open>PathEscape\<close> leaves as it is: \<open>shouldEscape\<close> in the mode of a path segment.\<close>

definition byte_in :: "char \<times> char \<Rightarrow> char \<Rightarrow> bool" where
  "byte_in lohi c = (fst lohi \<le> c \<and> c \<le> snd lohi)"

definition unescaped :: "char \<Rightarrow> bool" where
  "unescaped c =
     (list_ex (\<lambda>lohi. byte_in lohi c) (zip ''aA0'' ''zZ9'') \<or> c \<in> set ''-_.~$&+:=@'')"

primrec PathEscape :: "string \<Rightarrow> string" where
  "PathEscape [] = []"
| "PathEscape (c # s) =
     (if unescaped c then [c]
      else [CHR ''%'', hex_digits ! (of_char c div 16), hex_digits ! (of_char c mod 16)]) @ PathEscape s"

definition unhex :: "char \<Rightarrow> nat option" where
  "unhex c =
     (if byte_in (CHR ''0'', CHR ''9'') c then Some (of_char c - 48)
      else if byte_in (CHR ''a'', CHR ''f'') c then Some (of_char c - 87)
      else if byte_in (CHR ''A'', CHR ''F'') c then Some (of_char c - 55)
      else None)"

fun PathUnescape :: "string \<Rightarrow> string option" where
  "PathUnescape [] = Some []"
| "PathUnescape (c # s) =
     (if c = CHR ''%'' then
        (case s of
           a # b # t \<Rightarrow>
             (case (unhex a, unhex b) of
                (Some x, Some y) \<Rightarrow> map_option ((#) (char_of (16 * x + y))) (PathUnescape t)
              | _ \<Rightarrow> None)
         | _ \<Rightarrow> None)
      else map_option ((#) c) (PathUnescape s))"

lemma unhex_digit: "n < 16 \<Longrightarrow> unhex (hex_digits ! n) = Some n"
proof -
  assume "n < 16"
  then have "n \<in> set [0..<16]" by simp
  moreover have "list_all (\<lambda>n. unhex (hex_digits ! n) = Some n) [0..<16]" by code_simp
  ultimately show ?thesis by (simp add: list_all_iff)
qed

text \<open>Escaping is undone by unescaping, for every text.\<close>

lemma PathUnescape_PathEscape: "PathUnescape (PathEscape s) = Some s"
proof (induction s)
  case (Cons c s)
  have "of_char c < (256 :: nat)" by simp
  then have "of_char c div 16 < (16 :: nat)" by (intro less_mult_imp_div_less) simp
  moreover have "of_char c mod 16 < (16 :: nat)" by simp
  moreover have "\<not> unescaped (CHR ''%'')" by code_simp
  ultimately show ?case using Cons by (auto simp: unhex_digit)
qed simp

end
