(* ===== verification/Version.thy ===== *)
theory Version
  imports Strconv
begin

text \<open>
  \<^verbatim>\<open>backend/store/model/version.go\<close>: dotted version numbers.  An error is \<open>Inl\<close>.
\<close>

section \<open>Versions\<close>

datatype version_error = EmptyVersion | InvalidVersion string

record Version =
  parts :: "64 word list"

primrec parse_parts :: "string list \<Rightarrow> 64 word list option" where
  "parse_parts [] = Some []"
| "parse_parts (p # ps) =
     (case ParseUint p of None \<Rightarrow> None | Some n \<Rightarrow> map_option ((#) n) (parse_parts ps))"

definition NewVersion :: "string \<Rightarrow> version_error + Version" where
  "NewVersion v =
     (if v = [] then Inl EmptyVersion
      else case parse_parts (Split v ''.'') of
             None \<Rightarrow> Inl (InvalidVersion v)
           | Some ps \<Rightarrow> Inr \<lparr>parts = ps\<rparr>)"

text \<open>The loop over the common prefix, then the lengths.\<close>

fun less_parts :: "64 word list \<Rightarrow> 64 word list \<Rightarrow> bool" where
  "less_parts (a # as) (b # bs) =
     (if a > b then False else if a < b then True else less_parts as bs)"
| "less_parts as bs = (length as < length bs)"

definition LessThan :: "Version \<Rightarrow> Version \<Rightarrow> bool" where
  "LessThan v other = less_parts (parts v) (parts other)"

definition LessThanOrEqual :: "Version \<Rightarrow> Version \<Rightarrow> bool" where
  "LessThanOrEqual v other = (\<not> LessThan other v)"


section \<open>Order and printing\<close>

lemma Nil_less_iff: "[] < bs \<longleftrightarrow> bs \<noteq> []" for bs :: "'a::linorder list"
  by (cases bs) auto

lemma less_parts_lex: "less_parts as bs \<longleftrightarrow> as < bs"
  by (induction as bs rule: less_parts.induct) (auto simp: Nil_less_iff)

text \<open>
  Versions are compared lexicographically, a proper prefix before its extensions, and the
  comparison is a total order.
\<close>
lemma version_order:
  "(LessThan v w \<longleftrightarrow> parts v < parts w) \<and> (LessThanOrEqual v w \<longleftrightarrow> parts v \<le> parts w) \<and>
   (LessThan v w \<or> v = w \<or> LessThan w v)"
  by (auto simp: LessThan_def LessThanOrEqual_def less_parts_lex not_less)

definition print_version :: "Version \<Rightarrow> string" where
  "print_version v = Join (map (\<lambda>n. FormatUint (unat n)) (parts v)) ''.''"

lemma FormatUint_digits: "CHR ''.'' \<notin> set (FormatUint n)"
  by (rule FormatUint_only_digits) code_simp

lemma parse_parts_print: "parse_parts (map (\<lambda>n. FormatUint (unat n)) ps) = Some ps"
  by (induction ps) (simp_all add: ParseUint_print)

text \<open>
  A version printed in decimal is parsed back: every non-empty list of 64-bit parts is a
  version, none is lost or rounded.
\<close>
lemma version_roundtrip:
  assumes "parts v \<noteq> []"
  shows "NewVersion (print_version v) = Inr v"
proof -
  let ?xs = "map (\<lambda>n. FormatUint (unat n)) (parts v)"
  have "Split (print_version v) ''.'' = ?xs"
    unfolding print_version_def using assms by (intro Split_Join) (auto simp: FormatUint_digits)
  moreover have "print_version v \<noteq> []"
    using assms by (cases "parts v"; cases "tl (parts v)") (auto simp: print_version_def)
  ultimately show ?thesis by (simp add: NewVersion_def parse_parts_print)
qed

theorem version_roundtrip_witness:
  "NewVersion (print_version \<lparr>parts = [3, 10, 0]\<rparr>) = Inr \<lparr>parts = [3, 10, 0]\<rparr>"
  by (rule version_roundtrip) simp

end
