(* ===== verification/SchemaStore.thy ===== *)
theory SchemaStore
  imports SchemaModel
begin

text \<open>
  The mutators of \<^verbatim>\<open>backend/store/model\<close> (\<^verbatim>\<open>database.go\<close>, \<^verbatim>\<open>schema_metadata.go\<close>, \<^verbatim>\<open>table_metadata.go\<close>).
  A message is reachable from the list of its parent message and from the lookup map of the parent's
  wrapper, and the mutators rely on that sharing: a rename through the map is seen in the list.  The
  model has an explicit store, from references (Go's pointers) to objects; what is shared is a
  reference, what is owned is a value.  An object passed to a mutator is stored at a fresh reference.
  The capacity hints of the filter loops, one less than the length of the list, are left out: they could
  be negative, and \<^verbatim>\<open>make\<close> panic, only where a map has a member and the list has none, and
  the invariant of theory StoreProps excludes that.
  The fields no mutator reads or writes (the catalogs, and the maps of external tables, procedures,
  sequences and packages) are left out of the wrappers.
\<close>

section \<open>The store\<close>

type_synonym ref = nat

text \<open>The wrapper \<open>ColumnMetadata\<close>, never changed after it is made, and the wrapper \<open>IndexMetadata\<close>.\<close>

record ColumnObj =
  co_proto :: ref
  co_config :: "storepb_ColumnCatalog option"

record IndexObj =
  io_tableProto :: ref
  io_proto :: ref

text \<open>A table message with its columns and indexes by reference, the other fields in \<open>tp_fields\<close>.\<close>

record TableProto =
  tp_name :: string
  tp_columns :: "ref list"
  tp_indexes :: "ref list"
  tp_fields :: storepb_TableMetadata

record TableObj =
  to_partitionOf :: "ref option"
  to_isDetailCaseSensitive :: bool
  to_internalColumn :: "ColumnObj gomap"
  to_internalIndexes :: "IndexObj gomap"
  to_proto :: ref

record SchemaProtoObj =
  sp_name :: string
  sp_tables :: "ref list"
  sp_views :: "ref list"
  sp_materialized_views :: "ref list"
  sp_fields :: storepb_SchemaMetadata

record SchemaObj =
  so_isObjectCaseSensitive :: bool
  so_isDetailCaseSensitive :: bool
  so_internalTables :: "ref gomap"
  so_internalViews :: "ref gomap"
  so_internalMaterializedView :: "ref gomap"
  so_proto :: ref

record DatabaseObj =
  do_isObjectCaseSensitive :: bool
  do_isDetailCaseSensitive :: bool
  do_internal :: "ref gomap"
  do_name :: string
  do_schemas :: "ref list"

record store =
  next_ref :: ref
  columns :: "ref \<Rightarrow> storepb_ColumnMetadata option"
  indexes :: "ref \<Rightarrow> storepb_IndexMetadata option"
  views :: "ref \<Rightarrow> storepb_ViewMetadata option"
  mviews :: "ref \<Rightarrow> storepb_MaterializedViewMetadata option"
  tableProtos :: "ref \<Rightarrow> TableProto option"
  tables :: "ref \<Rightarrow> TableObj option"
  schemaProtos :: "ref \<Rightarrow> SchemaProtoObj option"
  schemas :: "ref \<Rightarrow> SchemaObj option"

text \<open>What \<open>errors.Errorf\<close> reports: the kind of object, its name, the name of its container.\<close>

datatype kind = KColumn | KIndex | KTable | KView | KMaterializedView | KSchema

datatype store_error = AlreadyExists kind string string | DoesNotExist kind string string

abbreviation tableOf :: "store \<Rightarrow> ref \<Rightarrow> TableObj" where "tableOf \<sigma> t \<equiv> the (tables \<sigma> t)"
abbreviation protoOf :: "store \<Rightarrow> ref \<Rightarrow> TableProto" where
  "protoOf \<sigma> t \<equiv> the (tableProtos \<sigma> (to_proto (tableOf \<sigma> t)))"
abbreviation schemaOf :: "store \<Rightarrow> ref \<Rightarrow> SchemaObj" where "schemaOf \<sigma> s \<equiv> the (schemas \<sigma> s)"
abbreviation schemaProtoOf :: "store \<Rightarrow> ref \<Rightarrow> SchemaProtoObj" where
  "schemaProtoOf \<sigma> s \<equiv> the (schemaProtos \<sigma> (so_proto (schemaOf \<sigma> s)))"

definition set_table :: "ref \<Rightarrow> TableObj \<Rightarrow> store \<Rightarrow> store" where
  "set_table t T \<sigma> = \<sigma>\<lparr>tables := (tables \<sigma>)(t \<mapsto> T)\<rparr>"

definition set_proto :: "ref \<Rightarrow> TableProto \<Rightarrow> store \<Rightarrow> store" where
  "set_proto t P \<sigma> = \<sigma>\<lparr>tableProtos := (tableProtos \<sigma>)(to_proto (tableOf \<sigma> t) \<mapsto> P)\<rparr>"

text \<open>The test of every filter loop: \<open>a == b\<close>, or \<open>EqualFold\<close> where case does not count.\<close>

definition same_name :: "bool \<Rightarrow> string \<Rightarrow> string \<Rightarrow> bool" where
  "same_name caseSensitive a b = (if caseSensitive then a = b else EqualFold a b)"


section \<open>Columns\<close>

definition lookupColumn :: "store \<Rightarrow> ref \<Rightarrow> string \<Rightarrow> ColumnObj option" where
  "lookupColumn \<sigma> t name =
     map_of (to_internalColumn (tableOf \<sigma> t))
       (normalizeNameByCaseSensitivity name (to_isDetailCaseSensitive (tableOf \<sigma> t)))"

definition CreateColumn ::
  "ref \<Rightarrow> storepb_ColumnMetadata \<Rightarrow> storepb_ColumnCatalog option \<Rightarrow> store \<Rightarrow> store_error + store" where
  "CreateColumn t columnProto columnCatalog \<sigma> =
     (if lookupColumn \<sigma> t (col_name columnProto) \<noteq> None
      then Inl (AlreadyExists KColumn (col_name columnProto) (tp_name (protoOf \<sigma> t)))
      else
        let r = next_ref \<sigma>;
            T = tableOf \<sigma> t;
            P = protoOf \<sigma> t;
            columnID = normalizeNameByCaseSensitivity (col_name columnProto) (to_isDetailCaseSensitive T);
            \<sigma>1 = \<sigma>\<lparr>next_ref := Suc r, columns := (columns \<sigma>)(r \<mapsto> columnProto)\<rparr>;
            \<sigma>2 = set_proto t (P\<lparr>tp_columns := tp_columns P @ [r]\<rparr>) \<sigma>1
        in Inr (set_table t (T\<lparr>to_internalColumn :=
              AList.update columnID \<lparr>co_proto = r, co_config = columnCatalog\<rparr> (to_internalColumn T)\<rparr>) \<sigma>2))"

text \<open>Both drops take the column out of the map and out of the message's list.\<close>

definition remove_column :: "ref \<Rightarrow> string \<Rightarrow> store \<Rightarrow> store" where
  "remove_column t columnName \<sigma> =
     (let T = tableOf \<sigma> t;
          P = protoOf \<sigma> t;
          cs = to_isDetailCaseSensitive T;
          columnID = normalizeNameByCaseSensitivity columnName cs;
          newColumns = filter (\<lambda>r. \<not> same_name cs (col_name (the (columns \<sigma> r))) columnName) (tp_columns P)
      in set_table t (T\<lparr>to_internalColumn := AList.delete columnID (to_internalColumn T)\<rparr>)
           (set_proto t (P\<lparr>tp_columns := newColumns\<rparr>) \<sigma>))"

text \<open>\<open>for i, col := range newColumns { col.Position = int32(i + 1) }\<close>\<close>

primrec renumber :: "nat \<Rightarrow> ref list \<Rightarrow> store \<Rightarrow> store" where
  "renumber i [] \<sigma> = \<sigma>"
| "renumber i (r # rs) \<sigma> =
     renumber (Suc i) rs
       (\<sigma>\<lparr>columns := (columns \<sigma>)(r \<mapsto> (the (columns \<sigma> r))\<lparr>col_position := of_nat (Suc i)\<rparr>)\<rparr>)"

text \<open>The loops over the index map that rewrite \<open>Expressions\<close>.\<close>

definition map_index_expressions ::
  "(string list \<Rightarrow> string list) \<Rightarrow> IndexObj gomap \<Rightarrow> store \<Rightarrow> store" where
  "map_index_expressions f m \<sigma> =
     foldl (\<lambda>\<sigma> (_, i). \<sigma>\<lparr>indexes := (indexes \<sigma>)(io_proto i \<mapsto>
         (let idx = the (indexes \<sigma> (io_proto i)) in idx\<lparr>idx_expressions := f (idx_expressions idx)\<rparr>))\<rparr>)
       \<sigma> m"

definition remove_empty_indexes :: "ref \<Rightarrow> store \<Rightarrow> store" where
  "remove_empty_indexes t \<sigma> =
     (let T = tableOf \<sigma> t;
          P = protoOf \<sigma> t;
          empty = (\<lambda>r. idx_expressions (the (indexes \<sigma> r)) = []);
          indexesToRemove = map fst (filter (\<lambda>(_, i). empty (io_proto i)) (to_internalIndexes T))
      in set_table t
           (T\<lparr>to_internalIndexes := foldl (\<lambda>m k. AList.delete k m) (to_internalIndexes T) indexesToRemove\<rparr>)
           (set_proto t (P\<lparr>tp_indexes := filter (\<lambda>r. \<not> empty r) (tp_indexes P)\<rparr>) \<sigma>))"

definition dropColumnInternal :: "ref \<Rightarrow> string \<Rightarrow> bool \<Rightarrow> store \<Rightarrow> store_error + store" where
  "dropColumnInternal t columnName renumberPositions \<sigma> =
     (if lookupColumn \<sigma> t columnName = None
      then Inl (DoesNotExist KColumn columnName (tp_name (protoOf \<sigma> t)))
      else
        let cs = to_isDetailCaseSensitive (tableOf \<sigma> t);
            \<sigma>1 = remove_column t columnName \<sigma>;
            \<sigma>2 = (if renumberPositions then renumber 0 (tp_columns (protoOf \<sigma>1 t)) \<sigma>1 else \<sigma>1);
            \<sigma>3 = map_index_expressions (filter (\<lambda>expr. \<not> same_name cs expr columnName))
                   (to_internalIndexes (tableOf \<sigma>2 t)) \<sigma>2
        in Inr (remove_empty_indexes t \<sigma>3))"

definition DropColumn :: "ref \<Rightarrow> string \<Rightarrow> store \<Rightarrow> store_error + store" where
  "DropColumn t columnName = dropColumnInternal t columnName True"

definition DropColumnWithoutRenumbering :: "ref \<Rightarrow> string \<Rightarrow> store \<Rightarrow> store_error + store" where
  "DropColumnWithoutRenumbering t columnName = dropColumnInternal t columnName False"

definition DropColumnWithoutUpdatingIndexes :: "ref \<Rightarrow> string \<Rightarrow> store \<Rightarrow> store_error + store" where
  "DropColumnWithoutUpdatingIndexes t columnName \<sigma> =
     (if lookupColumn \<sigma> t columnName = None
      then Inl (DoesNotExist KColumn columnName (tp_name (protoOf \<sigma> t)))
      else Inr (remove_column t columnName \<sigma>))"

definition RenameColumn :: "ref \<Rightarrow> string \<Rightarrow> string \<Rightarrow> store \<Rightarrow> store_error + store" where
  "RenameColumn t oldName newName \<sigma> =
     (if oldName = newName then Inr \<sigma>
      else case lookupColumn \<sigma> t oldName of
             None \<Rightarrow> Inl (DoesNotExist KColumn oldName (tp_name (protoOf \<sigma> t)))
           | Some oldColumn \<Rightarrow>
               if lookupColumn \<sigma> t newName \<noteq> None
               then Inl (AlreadyExists KColumn newName (tp_name (protoOf \<sigma> t)))
               else
                 let T = tableOf \<sigma> t;
                     cs = to_isDetailCaseSensitive T;
                     m = AList.delete (normalizeNameByCaseSensitivity oldName cs) (to_internalColumn T);
                     r = co_proto oldColumn;
                     \<sigma>1 = \<sigma>\<lparr>columns := (columns \<sigma>)(r \<mapsto> (the (columns \<sigma> r))\<lparr>col_name := newName\<rparr>)\<rparr>;
                     \<sigma>2 = set_table t (T\<lparr>to_internalColumn :=
                            AList.update (normalizeNameByCaseSensitivity newName cs) oldColumn m\<rparr>) \<sigma>1
                 in Inr (map_index_expressions
                      (map (\<lambda>expr. if same_name cs expr oldName then newName else expr))
                      (to_internalIndexes T) \<sigma>2))"


section \<open>Indexes\<close>

definition lookupIndex :: "store \<Rightarrow> ref \<Rightarrow> string \<Rightarrow> IndexObj option" where
  "lookupIndex \<sigma> t name =
     map_of (to_internalIndexes (tableOf \<sigma> t))
       (normalizeNameByCaseSensitivity name (to_isDetailCaseSensitive (tableOf \<sigma> t)))"

definition CreateIndex :: "ref \<Rightarrow> storepb_IndexMetadata \<Rightarrow> store \<Rightarrow> store_error + store" where
  "CreateIndex t indexProto \<sigma> =
     (if lookupIndex \<sigma> t (idx_name indexProto) \<noteq> None
      then Inl (AlreadyExists KIndex (idx_name indexProto) (tp_name (protoOf \<sigma> t)))
      else
        let r = next_ref \<sigma>;
            T = tableOf \<sigma> t;
            P = protoOf \<sigma> t;
            indexID = normalizeNameByCaseSensitivity (idx_name indexProto) (to_isDetailCaseSensitive T);
            \<sigma>1 = \<sigma>\<lparr>next_ref := Suc r, indexes := (indexes \<sigma>)(r \<mapsto> indexProto)\<rparr>;
            \<sigma>2 = set_proto t (P\<lparr>tp_indexes := tp_indexes P @ [r]\<rparr>) \<sigma>1
        in Inr (set_table t (T\<lparr>to_internalIndexes :=
              AList.update indexID \<lparr>io_tableProto = to_proto T, io_proto = r\<rparr> (to_internalIndexes T)\<rparr>) \<sigma>2))"

definition DropIndex :: "ref \<Rightarrow> string \<Rightarrow> store \<Rightarrow> store_error + store" where
  "DropIndex t indexName \<sigma> =
     (if lookupIndex \<sigma> t indexName = None
      then Inl (DoesNotExist KIndex indexName (tp_name (protoOf \<sigma> t)))
      else
        let T = tableOf \<sigma> t;
            P = protoOf \<sigma> t;
            cs = to_isDetailCaseSensitive T;
            indexID = normalizeNameByCaseSensitivity indexName cs;
            newIndexes = filter (\<lambda>r. \<not> same_name cs (idx_name (the (indexes \<sigma> r))) indexName) (tp_indexes P)
        in Inr (set_table t (T\<lparr>to_internalIndexes := AList.delete indexID (to_internalIndexes T)\<rparr>)
             (set_proto t (P\<lparr>tp_indexes := newIndexes\<rparr>) \<sigma>)))"

definition RenameIndex :: "ref \<Rightarrow> string \<Rightarrow> string \<Rightarrow> store \<Rightarrow> store_error + store" where
  "RenameIndex t oldName newName \<sigma> =
     (if oldName = newName then Inr \<sigma>
      else case lookupIndex \<sigma> t oldName of
             None \<Rightarrow> Inl (DoesNotExist KIndex oldName (tp_name (protoOf \<sigma> t)))
           | Some oldIndex \<Rightarrow>
               if lookupIndex \<sigma> t newName \<noteq> None
               then Inl (AlreadyExists KIndex newName (tp_name (protoOf \<sigma> t)))
               else
                 let T = tableOf \<sigma> t;
                     cs = to_isDetailCaseSensitive T;
                     m = AList.delete (normalizeNameByCaseSensitivity oldName cs) (to_internalIndexes T);
                     r = io_proto oldIndex;
                     \<sigma>1 = \<sigma>\<lparr>indexes := (indexes \<sigma>)(r \<mapsto> (the (indexes \<sigma> r))\<lparr>idx_name := newName\<rparr>)\<rparr>
                 in Inr (set_table t (T\<lparr>to_internalIndexes :=
                      AList.update (normalizeNameByCaseSensitivity newName cs) oldIndex m\<rparr>) \<sigma>1))"


section \<open>Tables\<close>

definition set_schema :: "ref \<Rightarrow> SchemaObj \<Rightarrow> store \<Rightarrow> store" where
  "set_schema s S \<sigma> = \<sigma>\<lparr>schemas := (schemas \<sigma>)(s \<mapsto> S)\<rparr>"

definition set_schema_proto :: "ref \<Rightarrow> SchemaProtoObj \<Rightarrow> store \<Rightarrow> store" where
  "set_schema_proto s P \<sigma> = \<sigma>\<lparr>schemaProtos := (schemaProtos \<sigma>)(so_proto (schemaOf \<sigma> s) \<mapsto> P)\<rparr>"

abbreviation objectID :: "store \<Rightarrow> ref \<Rightarrow> string \<Rightarrow> string" where
  "objectID \<sigma> s name \<equiv> normalizeNameByCaseSensitivity name (so_isObjectCaseSensitive (schemaOf \<sigma> s))"

definition lookupTable :: "store \<Rightarrow> ref \<Rightarrow> string \<Rightarrow> ref option" where
  "lookupTable \<sigma> s name = map_of (so_internalTables (schemaOf \<sigma> s)) (objectID \<sigma> s name)"

definition CreateTable :: "ref \<Rightarrow> string \<Rightarrow> store \<Rightarrow> store_error + ref \<times> store" where
  "CreateTable s tableName \<sigma> =
     (if lookupTable \<sigma> s tableName \<noteq> None
      then Inl (AlreadyExists KTable tableName (sp_name (schemaProtoOf \<sigma> s)))
      else
        let p = next_ref \<sigma>;
            t = Suc p;
            S = schemaOf \<sigma> s;
            P = schemaProtoOf \<sigma> s;
            newTableProto = \<lparr>tp_name = tableName, tp_columns = [], tp_indexes = [], tp_fields = zero_TableMetadata\<rparr>;
            tableMeta = \<lparr>to_partitionOf = None, to_isDetailCaseSensitive = so_isDetailCaseSensitive S,
                         to_internalColumn = [], to_internalIndexes = [], to_proto = p\<rparr>;
            \<sigma>1 = \<sigma>\<lparr>next_ref := Suc t, tableProtos := (tableProtos \<sigma>)(p \<mapsto> newTableProto),
                    tables := (tables \<sigma>)(t \<mapsto> tableMeta)\<rparr>;
            \<sigma>2 = set_schema_proto s (P\<lparr>sp_tables := sp_tables P @ [p]\<rparr>) \<sigma>1
        in Inr (t, set_schema s (S\<lparr>so_internalTables :=
              AList.update (objectID \<sigma> s tableName) t (so_internalTables S)\<rparr>) \<sigma>2))"

definition DropTable :: "ref \<Rightarrow> string \<Rightarrow> store \<Rightarrow> store_error + store" where
  "DropTable s tableName \<sigma> =
     (if lookupTable \<sigma> s tableName = None
      then Inl (DoesNotExist KTable tableName (sp_name (schemaProtoOf \<sigma> s)))
      else
        let S = schemaOf \<sigma> s;
            P = schemaProtoOf \<sigma> s;
            newTables = filter (\<lambda>p. \<not> same_name (so_isObjectCaseSensitive S) (tp_name (the (tableProtos \<sigma> p))) tableName)
                          (sp_tables P)
        in Inr (set_schema s (S\<lparr>so_internalTables := AList.delete (objectID \<sigma> s tableName) (so_internalTables S)\<rparr>)
             (set_schema_proto s (P\<lparr>sp_tables := newTables\<rparr>) \<sigma>)))"

definition RenameTable :: "ref \<Rightarrow> string \<Rightarrow> string \<Rightarrow> store \<Rightarrow> store_error + store" where
  "RenameTable s oldName newName \<sigma> =
     (if oldName = newName then Inr \<sigma>
      else case lookupTable \<sigma> s oldName of
             None \<Rightarrow> Inl (DoesNotExist KTable oldName (sp_name (schemaProtoOf \<sigma> s)))
           | Some oldTable \<Rightarrow>
               if lookupTable \<sigma> s newName \<noteq> None
               then Inl (AlreadyExists KTable newName (sp_name (schemaProtoOf \<sigma> s)))
               else
                 let S = schemaOf \<sigma> s;
                     m = AList.delete (objectID \<sigma> s oldName) (so_internalTables S);
                     \<sigma>1 = set_proto oldTable ((protoOf \<sigma> oldTable)\<lparr>tp_name := newName\<rparr>) \<sigma>
                 in Inr (set_schema s (S\<lparr>so_internalTables :=
                      AList.update (objectID \<sigma> s newName) oldTable m\<rparr>) \<sigma>1))"

text \<open>The table names a schema lists: the names in the messages of its map's tables.\<close>

definition listTableNames :: "store \<Rightarrow> ref \<Rightarrow> string list" where
  "listTableNames \<sigma> s = sort (map (\<lambda>(_, t). tp_name (protoOf \<sigma> t)) (so_internalTables (schemaOf \<sigma> s)))"


section \<open>Views\<close>

definition lookupView :: "store \<Rightarrow> ref \<Rightarrow> string \<Rightarrow> ref option" where
  "lookupView \<sigma> s name = map_of (so_internalViews (schemaOf \<sigma> s)) (objectID \<sigma> s name)"

definition CreateView ::
  "ref \<Rightarrow> string \<Rightarrow> string \<Rightarrow> storepb_DependencyColumn list \<Rightarrow> store \<Rightarrow> store_error + ref \<times> store" where
  "CreateView s viewName defn dependencyColumns \<sigma> =
     (if lookupView \<sigma> s viewName \<noteq> None
      then Inl (AlreadyExists KView viewName (sp_name (schemaProtoOf \<sigma> s)))
      else
        let r = next_ref \<sigma>;
            S = schemaOf \<sigma> s;
            P = schemaProtoOf \<sigma> s;
            newViewProto = zero_ViewMetadata
              \<lparr>view_name := viewName, view_definition := defn, view_dependency_columns := dependencyColumns\<rparr>;
            \<sigma>1 = \<sigma>\<lparr>next_ref := Suc r, views := (views \<sigma>)(r \<mapsto> newViewProto)\<rparr>;
            \<sigma>2 = set_schema_proto s (P\<lparr>sp_views := sp_views P @ [r]\<rparr>) \<sigma>1
        in Inr (r, set_schema s (S\<lparr>so_internalViews :=
              AList.update (objectID \<sigma> s viewName) r (so_internalViews S)\<rparr>) \<sigma>2))"

definition DropView :: "ref \<Rightarrow> string \<Rightarrow> store \<Rightarrow> store_error + store" where
  "DropView s viewName \<sigma> =
     (if lookupView \<sigma> s viewName = None
      then Inl (DoesNotExist KView viewName (sp_name (schemaProtoOf \<sigma> s)))
      else
        let S = schemaOf \<sigma> s;
            P = schemaProtoOf \<sigma> s;
            newViews = filter (\<lambda>r. \<not> same_name (so_isObjectCaseSensitive S) (view_name (the (views \<sigma> r))) viewName)
                         (sp_views P)
        in Inr (set_schema s (S\<lparr>so_internalViews := AList.delete (objectID \<sigma> s viewName) (so_internalViews S)\<rparr>)
             (set_schema_proto s (P\<lparr>sp_views := newViews\<rparr>) \<sigma>)))"

definition RenameView :: "ref \<Rightarrow> string \<Rightarrow> string \<Rightarrow> store \<Rightarrow> store_error + store" where
  "RenameView s oldName newName \<sigma> =
     (if oldName = newName then Inr \<sigma>
      else case lookupView \<sigma> s oldName of
             None \<Rightarrow> Inl (DoesNotExist KView oldName (sp_name (schemaProtoOf \<sigma> s)))
           | Some oldView \<Rightarrow>
               if lookupView \<sigma> s newName \<noteq> None
               then Inl (AlreadyExists KView newName (sp_name (schemaProtoOf \<sigma> s)))
               else
                 let S = schemaOf \<sigma> s;
                     m = AList.delete (objectID \<sigma> s oldName) (so_internalViews S);
                     \<sigma>1 = \<sigma>\<lparr>views := (views \<sigma>)(oldView \<mapsto> (the (views \<sigma> oldView))\<lparr>view_name := newName\<rparr>)\<rparr>
                 in Inr (set_schema s (S\<lparr>so_internalViews :=
                      AList.update (objectID \<sigma> s newName) oldView m\<rparr>) \<sigma>1))"


section \<open>Materialized views\<close>

definition lookupMaterializedView :: "store \<Rightarrow> ref \<Rightarrow> string \<Rightarrow> ref option" where
  "lookupMaterializedView \<sigma> s name = map_of (so_internalMaterializedView (schemaOf \<sigma> s)) (objectID \<sigma> s name)"

definition CreateMaterializedView :: "ref \<Rightarrow> string \<Rightarrow> string \<Rightarrow> store \<Rightarrow> store_error + ref \<times> store" where
  "CreateMaterializedView s viewName defn \<sigma> =
     (if lookupMaterializedView \<sigma> s viewName \<noteq> None
      then Inl (AlreadyExists KMaterializedView viewName (sp_name (schemaProtoOf \<sigma> s)))
      else
        let r = next_ref \<sigma>;
            S = schemaOf \<sigma> s;
            P = schemaProtoOf \<sigma> s;
            newViewProto = zero_MaterializedViewMetadata\<lparr>mv_name := viewName, mv_definition := defn\<rparr>;
            \<sigma>1 = \<sigma>\<lparr>next_ref := Suc r, mviews := (mviews \<sigma>)(r \<mapsto> newViewProto)\<rparr>;
            \<sigma>2 = set_schema_proto s (P\<lparr>sp_materialized_views := sp_materialized_views P @ [r]\<rparr>) \<sigma>1
        in Inr (r, set_schema s (S\<lparr>so_internalMaterializedView :=
              AList.update (objectID \<sigma> s viewName) r (so_internalMaterializedView S)\<rparr>) \<sigma>2))"

definition DropMaterializedView :: "ref \<Rightarrow> string \<Rightarrow> store \<Rightarrow> store_error + store" where
  "DropMaterializedView s viewName \<sigma> =
     (if lookupMaterializedView \<sigma> s viewName = None
      then Inl (DoesNotExist KMaterializedView viewName (sp_name (schemaProtoOf \<sigma> s)))
      else
        let S = schemaOf \<sigma> s;
            P = schemaProtoOf \<sigma> s;
            newViews = filter (\<lambda>r. \<not> same_name (so_isObjectCaseSensitive S) (mv_name (the (mviews \<sigma> r))) viewName)
                         (sp_materialized_views P)
        in Inr (set_schema s (S\<lparr>so_internalMaterializedView :=
               AList.delete (objectID \<sigma> s viewName) (so_internalMaterializedView S)\<rparr>)
             (set_schema_proto s (P\<lparr>sp_materialized_views := newViews\<rparr>) \<sigma>)))"

definition DropMaterializedViewIndex :: "ref \<Rightarrow> string \<Rightarrow> string \<Rightarrow> store \<Rightarrow> store_error + store" where
  "DropMaterializedViewIndex s viewName indexName \<sigma> =
     (case lookupMaterializedView \<sigma> s viewName of
        None \<Rightarrow> Inl (DoesNotExist KMaterializedView viewName (sp_name (schemaProtoOf \<sigma> s)))
      | Some r \<Rightarrow>
          let mv = the (mviews \<sigma> r);
              hit = (\<lambda>idx. same_name (so_isObjectCaseSensitive (schemaOf \<sigma> s)) (idx_name idx) indexName);
              newIndexes = filter (\<lambda>idx. \<not> hit idx) (mv_indexes mv);
              found = list_ex hit (mv_indexes mv)
          in if \<not> found then Inl (DoesNotExist KIndex indexName viewName)
             else Inr (\<sigma>\<lparr>mviews := (mviews \<sigma>)(r \<mapsto> mv\<lparr>mv_indexes := newIndexes\<rparr>)\<rparr>))"


section \<open>Schemas\<close>

text \<open>The database object is passed along; \<open>CreateSchema\<close> does not look whether the schema exists.\<close>

definition lookupSchema :: "DatabaseObj \<Rightarrow> string \<Rightarrow> ref option" where
  "lookupSchema d name =
     map_of (do_internal d) (normalizeNameByCaseSensitivity name (do_isObjectCaseSensitive d))"

definition CreateSchema :: "string \<Rightarrow> DatabaseObj \<times> store \<Rightarrow> ref \<times> DatabaseObj \<times> store" where
  "CreateSchema schemaName = (\<lambda>(d, \<sigma>).
     let p = next_ref \<sigma>;
         s = Suc p;
         newSchemaProto = \<lparr>sp_name = schemaName, sp_tables = [], sp_views = [], sp_materialized_views = [],
                           sp_fields = zero_SchemaMetadata\<rparr>;
         schemaMeta = \<lparr>so_isObjectCaseSensitive = do_isObjectCaseSensitive d,
                       so_isDetailCaseSensitive = do_isDetailCaseSensitive d,
                       so_internalTables = [], so_internalViews = [], so_internalMaterializedView = [],
                       so_proto = p\<rparr>
     in (s,
         d\<lparr>do_schemas := do_schemas d @ [p],
           do_internal := AList.update
             (normalizeNameByCaseSensitivity schemaName (do_isObjectCaseSensitive d)) s (do_internal d)\<rparr>,
         \<sigma>\<lparr>next_ref := Suc s, schemaProtos := (schemaProtos \<sigma>)(p \<mapsto> newSchemaProto),
           schemas := (schemas \<sigma>)(s \<mapsto> schemaMeta)\<rparr>))"

definition DropSchema :: "string \<Rightarrow> DatabaseObj \<times> store \<Rightarrow> store_error + DatabaseObj \<times> store" where
  "DropSchema schemaName = (\<lambda>(d, \<sigma>).
     if lookupSchema d schemaName = None then Inl (DoesNotExist KSchema schemaName (do_name d))
     else Inr (d\<lparr>do_internal := AList.delete
                   (normalizeNameByCaseSensitivity schemaName (do_isObjectCaseSensitive d)) (do_internal d),
                 do_schemas := filter (\<lambda>p. \<not> same_name (do_isObjectCaseSensitive d)
                   (sp_name (the (schemaProtos \<sigma> p))) schemaName) (do_schemas d)\<rparr>, \<sigma>))"

end
