(* ===== verification/StoreSpec.thy ===== *)
theory StoreSpec
  imports SchemaStore
begin

text \<open>
  The contract of the schema mutators.  A container keeps its members twice, as the list of its message
  and in the map of its wrapper; \<open>coherent\<close> says that the two agree.  Seen from outside a container
  is the list of its members' normalized names, without repetition, and each mutator is the obvious
  operation on that list.  The locales state what a container's operations do to the two structures,
  the lemmas in them follow for all containers at once, and the interpretations discharge the laws for
  the columns, indexes, tables, views and materialized views of the store.
\<close>

section \<open>Names in a list\<close>

definition spec_create :: "string \<Rightarrow> string list \<Rightarrow> string list option" where
  "spec_create k ns = (if k \<in> set ns then None else Some (ns @ [k]))"

definition spec_drop :: "string \<Rightarrow> string list \<Rightarrow> string list option" where
  "spec_drop k ns = (if k \<in> set ns then Some (filter (\<lambda>n. n \<noteq> k) ns) else None)"

definition spec_rename :: "string \<Rightarrow> string \<Rightarrow> string list \<Rightarrow> string list option" where
  "spec_rename k k' ns =
     (if k \<notin> set ns \<or> k' \<in> set ns then None else Some (map (\<lambda>n. if n = k then k' else n) ns))"


section \<open>Agreement of list and map\<close>

definition coherent :: "('r \<Rightarrow> string) \<Rightarrow> 'r list \<Rightarrow> (string \<Rightarrow> 'r option) \<Rightarrow> bool" where
  "coherent nm refs lk \<longleftrightarrow> distinct refs \<and> (\<forall>k r. lk k = Some r \<longleftrightarrow> r \<in> set refs \<and> nm r = k)"

lemma coherent_inj: "coherent nm refs lk \<Longrightarrow> inj_on nm (set refs)"
  unfolding coherent_def inj_on_def by (metis option.inject)

lemma coherent_distinct: "coherent nm refs lk \<Longrightarrow> distinct (map nm refs)"
  using coherent_inj by (auto simp: distinct_map coherent_def)

lemma coherent_Some_iff: "coherent nm refs lk \<Longrightarrow> lk k = Some r \<longleftrightarrow> r \<in> set refs \<and> nm r = k"
  by (simp add: coherent_def)

lemma coherent_None_iff:
  assumes "coherent nm refs lk"
  shows "lk k = None \<longleftrightarrow> k \<notin> set (map nm refs)"
proof -
  have "lk k = None \<longleftrightarrow> (\<forall>r. lk k \<noteq> Some r)" by auto
  then show ?thesis by (auto simp: coherent_Some_iff [OF assms])
qed

lemma coherent_create:
  assumes "coherent nm refs lk" "r \<notin> set refs" "lk k = None"
  shows "coherent (nm(r := k)) (refs @ [r]) (lk(k \<mapsto> r))"
proof -
  have "\<forall>q \<in> set refs. nm q \<noteq> k" using assms(3) coherent_None_iff [OF assms(1)] by auto
  then show ?thesis
    using assms(1,2) by (auto simp: coherent_def)
qed

lemma coherent_drop:
  "coherent nm refs lk \<Longrightarrow> coherent nm (filter (\<lambda>r. nm r \<noteq> k) refs) (lk(k := None))"
  by (auto simp: coherent_def)

lemma coherent_rename:
  assumes "coherent nm refs lk" "lk k = Some r" "lk k' = None"
  shows "coherent (nm(r := k')) refs (lk(k := None, k' \<mapsto> r))"
proof -
  have new: "\<forall>q \<in> set refs. nm q \<noteq> k'" using assms(3) coherent_None_iff [OF assms(1)] by auto
  have r: "r \<in> set refs" "nm r = k" using assms(1,2) by (auto simp: coherent_Some_iff)
  then have "\<forall>q \<in> set refs. q \<noteq> r \<longrightarrow> nm q \<noteq> k"
    using coherent_inj [OF assms(1)] by (auto simp: inj_on_def)
  with new r assms(1) show ?thesis by (auto simp: coherent_def)
qed

lemma coherent_filter:
  assumes "coherent nm refs lk" "\<And>k. lk' k = (case lk k of None \<Rightarrow> None | Some r \<Rightarrow> if p r then Some r else None)"
  shows "coherent nm (filter p refs) lk'"
proof -
  have "lk' k = Some r \<longleftrightarrow> lk k = Some r \<and> p r" for k r
    using assms(2) [of k] by (auto split: option.splits if_splits)
  with assms(1) show ?thesis by (auto simp: coherent_def)
qed


section \<open>The contract of a container\<close>

text \<open>
  \<open>refs\<close> is the list, \<open>lk\<close> the map, \<open>nm\<close> the normalized name of a member, \<open>valid\<close> what the
  allocation of references guarantees, \<open>norm\<close> the normalization, \<open>key\<close> the normalized name of a
  new member.
\<close>

locale named_collection =
  fixes refs :: "'s \<Rightarrow> ref list" and lk :: "'s \<Rightarrow> string \<Rightarrow> ref option" and nm :: "'s \<Rightarrow> ref \<Rightarrow> string"
    and valid :: "'s \<Rightarrow> bool" and norm :: "'s \<Rightarrow> string \<Rightarrow> string" and key :: "'s \<Rightarrow> 'x \<Rightarrow> string"
    and create :: "'x \<Rightarrow> 's \<Rightarrow> store_error + 's" and drop :: "string \<Rightarrow> 's \<Rightarrow> store_error + 's"
  assumes create_exists: "lk s (key s x) \<noteq> None \<Longrightarrow> \<exists>e. create x s = Inl e"
    and create_new: "valid s \<Longrightarrow> lk s (key s x) = None \<Longrightarrow>
      \<exists>s' r. create x s = Inr s' \<and> valid s' \<and> r \<notin> set (refs s) \<and> refs s' = refs s @ [r] \<and>
        lk s' = (lk s)(key s x \<mapsto> r) \<and> nm s' = (nm s)(r := key s x)"
    and drop_missing: "lk s (norm s n) = None \<Longrightarrow> \<exists>e. drop n s = Inl e"
    and drop_found: "valid s \<Longrightarrow> lk s (norm s n) \<noteq> None \<Longrightarrow>
      \<exists>s'. drop n s = Inr s' \<and> valid s' \<and> refs s' = filter (\<lambda>r. nm s r \<noteq> norm s n) (refs s) \<and>
        lk s' = (lk s)(norm s n := None) \<and> nm s' = nm s"
begin

definition inv :: "'s \<Rightarrow> bool" where
  "inv s \<longleftrightarrow> valid s \<and> coherent (nm s) (refs s) (lk s)"

definition names :: "'s \<Rightarrow> string list" where
  "names s = map (nm s) (refs s)"

lemma inv_coherent: "inv s \<Longrightarrow> coherent (nm s) (refs s) (lk s)"
  by (simp add: inv_def)

lemma lookup_iff: "inv s \<Longrightarrow> lk s k = None \<longleftrightarrow> k \<notin> set (names s)"
  unfolding names_def by (rule coherent_None_iff) (rule inv_coherent)

lemma names_distinct: "inv s \<Longrightarrow> distinct (names s)"
  unfolding names_def by (rule coherent_distinct) (rule inv_coherent)

lemma create_refines:
  assumes "inv s"
  shows "case create x s of Inl _ \<Rightarrow> spec_create (key s x) (names s) = None
    | Inr s' \<Rightarrow> inv s' \<and> spec_create (key s x) (names s) = Some (names s')"
proof (cases "lk s (key s x) = None")
  case True
  with assms create_new obtain s' r where "create x s = Inr s'" "valid s'" "r \<notin> set (refs s)"
    "refs s' = refs s @ [r]" "lk s' = (lk s)(key s x \<mapsto> r)" "nm s' = (nm s)(r := key s x)"
    unfolding inv_def by blast
  with True assms coherent_create [OF inv_coherent [OF assms]] show ?thesis
    using lookup_iff [OF assms, of "key s x"]
    by (auto simp: inv_def spec_create_def names_def)
next
  case False
  with create_exists obtain e where "create x s = Inl e" by blast
  with False show ?thesis using lookup_iff [OF assms, of "key s x"] by (simp add: spec_create_def)
qed

lemma drop_refines:
  assumes "inv s"
  shows "case drop n s of Inl _ \<Rightarrow> spec_drop (norm s n) (names s) = None
    | Inr s' \<Rightarrow> inv s' \<and> spec_drop (norm s n) (names s) = Some (names s')"
proof (cases "lk s (norm s n) = None")
  case True
  with drop_missing obtain e where "drop n s = Inl e" by blast
  with True show ?thesis using lookup_iff [OF assms, of "norm s n"] by (simp add: spec_drop_def)
next
  case False
  with assms drop_found obtain s' where "drop n s = Inr s'" "valid s'"
    "refs s' = filter (\<lambda>r. nm s r \<noteq> norm s n) (refs s)" "lk s' = (lk s)(norm s n := None)" "nm s' = nm s"
    unfolding inv_def by blast
  with False coherent_drop [OF inv_coherent [OF assms]] show ?thesis
    using lookup_iff [OF assms, of "norm s n"]
    by (simp add: inv_def spec_drop_def names_def filter_map comp_def)
qed

end

locale renamable_collection = named_collection +
  fixes rename :: "string \<Rightarrow> string \<Rightarrow> 'a \<Rightarrow> store_error + 'a"
  assumes rename_same: "rename n n s = Inr s"
    and rename_missing: "n \<noteq> n' \<Longrightarrow> lk s (norm s n) = None \<Longrightarrow> \<exists>e. rename n n' s = Inl e"
    and rename_exists: "n \<noteq> n' \<Longrightarrow> lk s (norm s n) \<noteq> None \<Longrightarrow> lk s (norm s n') \<noteq> None \<Longrightarrow>
      \<exists>e. rename n n' s = Inl e"
    and rename_ok: "n \<noteq> n' \<Longrightarrow> valid s \<Longrightarrow> lk s (norm s n) = Some r \<Longrightarrow> lk s (norm s n') = None \<Longrightarrow>
      \<exists>s'. rename n n' s = Inr s' \<and> valid s' \<and> refs s' = refs s \<and>
        lk s' = (lk s)(norm s n := None, norm s n' \<mapsto> r) \<and> nm s' = (nm s)(r := norm s n')"
begin

lemma rename_refines:
  assumes "inv s" "n \<noteq> n'"
  shows "case rename n n' s of Inl _ \<Rightarrow> spec_rename (norm s n) (norm s n') (names s) = None
    | Inr s' \<Rightarrow> inv s' \<and> spec_rename (norm s n) (norm s n') (names s) = Some (names s')"
proof (cases "lk s (norm s n) = None \<or> lk s (norm s n') \<noteq> None")
  case True
  with rename_missing rename_exists assms(2) obtain e where "rename n n' s = Inl e" by blast
  with True show ?thesis
    using lookup_iff [OF assms(1), of "norm s n"] lookup_iff [OF assms(1), of "norm s n'"]
    by (auto simp: spec_rename_def)
next
  case False
  then obtain r where r: "lk s (norm s n) = Some r" and new: "lk s (norm s n') = None" by auto
  with assms rename_ok obtain s' where s': "rename n n' s = Inr s'" "valid s'" "refs s' = refs s"
    "lk s' = (lk s)(norm s n := None, norm s n' \<mapsto> r)" "nm s' = (nm s)(r := norm s n')"
    unfolding inv_def by blast
  have co: "coherent (nm s) (refs s) (lk s)" by (rule inv_coherent [OF assms(1)])
  then have "r \<in> set (refs s)" "nm s r = norm s n" using r by (auto simp: coherent_def)
  then have "x = r \<longleftrightarrow> nm s x = norm s n" if "x \<in> set (refs s)" for x
    using coherent_inj [OF co] that by (auto simp: inj_on_def)
  then have "names s' = map (\<lambda>m. if m = norm s n then norm s n' else m) (names s)"
    by (simp add: names_def s')
  with s' coherent_rename [OF co r new] show ?thesis
    using lookup_iff [OF assms(1), of "norm s n"] lookup_iff [OF assms(1), of "norm s n'"] r new
    by (simp add: inv_def spec_rename_def)
qed

end


section \<open>What an operation leaves alone\<close>

named_theorems store_simps "projections of the store after an update"

lemma set_table_simps [store_simps]:
  "tables (set_table t T \<sigma>) = (tables \<sigma>)(t \<mapsto> T)" "tableProtos (set_table t T \<sigma>) = tableProtos \<sigma>"
  "columns (set_table t T \<sigma>) = columns \<sigma>" "indexes (set_table t T \<sigma>) = indexes \<sigma>"
  "next_ref (set_table t T \<sigma>) = next_ref \<sigma>" "schemas (set_table t T \<sigma>) = schemas \<sigma>"
  "schemaProtos (set_table t T \<sigma>) = schemaProtos \<sigma>" "views (set_table t T \<sigma>) = views \<sigma>"
  "mviews (set_table t T \<sigma>) = mviews \<sigma>"
  by (simp_all add: set_table_def)

lemma set_proto_simps [store_simps]:
  "tables (set_proto t P \<sigma>) = tables \<sigma>"
  "tableProtos (set_proto t P \<sigma>) = (tableProtos \<sigma>)(to_proto (tableOf \<sigma> t) \<mapsto> P)"
  "columns (set_proto t P \<sigma>) = columns \<sigma>" "indexes (set_proto t P \<sigma>) = indexes \<sigma>"
  "next_ref (set_proto t P \<sigma>) = next_ref \<sigma>" "schemas (set_proto t P \<sigma>) = schemas \<sigma>"
  "schemaProtos (set_proto t P \<sigma>) = schemaProtos \<sigma>" "views (set_proto t P \<sigma>) = views \<sigma>"
  "mviews (set_proto t P \<sigma>) = mviews \<sigma>"
  by (simp_all add: set_proto_def)

lemma set_schema_simps [store_simps]:
  "schemas (set_schema s S \<sigma>) = (schemas \<sigma>)(s \<mapsto> S)" "schemaProtos (set_schema s S \<sigma>) = schemaProtos \<sigma>"
  "next_ref (set_schema s S \<sigma>) = next_ref \<sigma>" "tables (set_schema s S \<sigma>) = tables \<sigma>"
  "tableProtos (set_schema s S \<sigma>) = tableProtos \<sigma>" "views (set_schema s S \<sigma>) = views \<sigma>"
  "mviews (set_schema s S \<sigma>) = mviews \<sigma>"
  by (simp_all add: set_schema_def)

lemma set_schema_proto_simps [store_simps]:
  "schemas (set_schema_proto s P \<sigma>) = schemas \<sigma>"
  "schemaProtos (set_schema_proto s P \<sigma>) = (schemaProtos \<sigma>)(so_proto (schemaOf \<sigma> s) \<mapsto> P)"
  "next_ref (set_schema_proto s P \<sigma>) = next_ref \<sigma>" "tables (set_schema_proto s P \<sigma>) = tables \<sigma>"
  "tableProtos (set_schema_proto s P \<sigma>) = tableProtos \<sigma>" "views (set_schema_proto s P \<sigma>) = views \<sigma>"
  "mviews (set_schema_proto s P \<sigma>) = mviews \<sigma>"
  by (simp_all add: set_schema_proto_def)

lemma renumber_simps [store_simps]:
  "tables (renumber i rs \<sigma>) = tables \<sigma>" "tableProtos (renumber i rs \<sigma>) = tableProtos \<sigma>"
  "indexes (renumber i rs \<sigma>) = indexes \<sigma>" "next_ref (renumber i rs \<sigma>) = next_ref \<sigma>"
  by (induction rs arbitrary: i \<sigma>) simp_all

lemma renumber_name [store_simps]: "col_name (the (columns (renumber i rs \<sigma>) r)) = col_name (the (columns \<sigma> r))"
  by (induction rs arbitrary: i \<sigma>) simp_all

lemma map_index_expressions_Nil [simp]: "map_index_expressions f [] \<sigma> = \<sigma>"
  by (simp add: map_index_expressions_def)

lemma map_index_expressions_Cons [simp]:
  "map_index_expressions f ((k, i) # m) \<sigma> =
   map_index_expressions f m (\<sigma>\<lparr>indexes := (indexes \<sigma>)(io_proto i \<mapsto>
     (let idx = the (indexes \<sigma> (io_proto i)) in idx\<lparr>idx_expressions := f (idx_expressions idx)\<rparr>))\<rparr>)"
  by (simp add: map_index_expressions_def)

lemma map_index_expressions_simps [store_simps]:
  "tables (map_index_expressions f m \<sigma>) = tables \<sigma>" "tableProtos (map_index_expressions f m \<sigma>) = tableProtos \<sigma>"
  "columns (map_index_expressions f m \<sigma>) = columns \<sigma>" "next_ref (map_index_expressions f m \<sigma>) = next_ref \<sigma>"
  by (induction m arbitrary: \<sigma>) auto

lemma map_index_expressions_name [store_simps]:
  "idx_name (the (indexes (map_index_expressions f m \<sigma>) r)) = idx_name (the (indexes \<sigma> r))"
  by (induction m arbitrary: \<sigma>) (auto simp: Let_def)

lemma remove_column_simps [store_simps]:
  "columns (remove_column t n \<sigma>) = columns \<sigma>" "indexes (remove_column t n \<sigma>) = indexes \<sigma>"
  "next_ref (remove_column t n \<sigma>) = next_ref \<sigma>"
  "tables (remove_column t n \<sigma>) = (tables \<sigma>)(t \<mapsto> (tableOf \<sigma> t)\<lparr>to_internalColumn :=
     AList.delete (normalizeNameByCaseSensitivity n (to_isDetailCaseSensitive (tableOf \<sigma> t)))
       (to_internalColumn (tableOf \<sigma> t))\<rparr>)"
  "tableProtos (remove_column t n \<sigma>) = (tableProtos \<sigma>)(to_proto (tableOf \<sigma> t) \<mapsto> (protoOf \<sigma> t)\<lparr>tp_columns :=
     filter (\<lambda>r. \<not> same_name (to_isDetailCaseSensitive (tableOf \<sigma> t)) (col_name (the (columns \<sigma> r))) n)
       (tp_columns (protoOf \<sigma> t))\<rparr>)"
  by (simp_all add: remove_column_def Let_def store_simps)

lemma remove_empty_indexes_simps [store_simps]:
  "columns (remove_empty_indexes t \<sigma>) = columns \<sigma>" "indexes (remove_empty_indexes t \<sigma>) = indexes \<sigma>"
  "next_ref (remove_empty_indexes t \<sigma>) = next_ref \<sigma>"
  "tables (remove_empty_indexes t \<sigma>) = (tables \<sigma>)(t \<mapsto> (tableOf \<sigma> t)\<lparr>to_internalIndexes :=
     foldl (\<lambda>m k. AList.delete k m) (to_internalIndexes (tableOf \<sigma> t))
       (map fst (filter (\<lambda>(_, i). idx_expressions (the (indexes \<sigma> (io_proto i))) = [])
         (to_internalIndexes (tableOf \<sigma> t))))\<rparr>)"
  "tableProtos (remove_empty_indexes t \<sigma>) = (tableProtos \<sigma>)(to_proto (tableOf \<sigma> t) \<mapsto> (protoOf \<sigma> t)\<lparr>tp_indexes :=
     filter (\<lambda>r. idx_expressions (the (indexes \<sigma> r)) \<noteq> []) (tp_indexes (protoOf \<sigma> t))\<rparr>)"
  by (simp_all add: remove_empty_indexes_def Let_def store_simps)

lemma same_name_iff:
  "same_name cs a b \<longleftrightarrow> normalizeNameByCaseSensitivity a cs = normalizeNameByCaseSensitivity b cs"
  by (simp add: same_name_def normalizeNameByCaseSensitivity_def EqualFold_def)


section \<open>Columns\<close>

abbreviation detail_cs :: "store \<Rightarrow> ref \<Rightarrow> bool" where
  "detail_cs \<sigma> t \<equiv> to_isDetailCaseSensitive (tableOf \<sigma> t)"

definition column_refs :: "ref \<Rightarrow> store \<Rightarrow> ref list" where
  "column_refs t \<sigma> = tp_columns (protoOf \<sigma> t)"

definition column_lookup :: "ref \<Rightarrow> store \<Rightarrow> string \<Rightarrow> ref option" where
  "column_lookup t \<sigma> k = map_option co_proto (map_of (to_internalColumn (tableOf \<sigma> t)) k)"

definition column_key :: "ref \<Rightarrow> store \<Rightarrow> ref \<Rightarrow> string" where
  "column_key t \<sigma> r = normalizeNameByCaseSensitivity (col_name (the (columns \<sigma> r))) (detail_cs \<sigma> t)"

definition columns_valid :: "ref \<Rightarrow> store \<Rightarrow> bool" where
  "columns_valid t \<sigma> \<longleftrightarrow> (\<forall>r \<in> set (column_refs t \<sigma>). r < next_ref \<sigma>)"

definition detail_norm :: "ref \<Rightarrow> store \<Rightarrow> string \<Rightarrow> string" where
  "detail_norm t \<sigma> n = normalizeNameByCaseSensitivity n (detail_cs \<sigma> t)"

lemmas column_defs = column_refs_def column_lookup_def column_key_def columns_valid_def detail_norm_def

lemma lookupColumn_None_iff: "lookupColumn \<sigma> t n = None \<longleftrightarrow> column_lookup t \<sigma> (detail_norm t \<sigma> n) = None"
  by (simp add: lookupColumn_def column_defs)

lemma CreateColumn_new:
  assumes "columns_valid t \<sigma>" "column_lookup t \<sigma> (detail_norm t \<sigma> (col_name c)) = None"
  shows "\<exists>\<sigma>' r. CreateColumn t c cat \<sigma> = Inr \<sigma>' \<and> columns_valid t \<sigma>' \<and> r \<notin> set (column_refs t \<sigma>) \<and>
    column_refs t \<sigma>' = column_refs t \<sigma> @ [r] \<and>
    column_lookup t \<sigma>' = (column_lookup t \<sigma>)(detail_norm t \<sigma> (col_name c) \<mapsto> r) \<and>
    column_key t \<sigma>' = (column_key t \<sigma>)(r := detail_norm t \<sigma> (col_name c))"
  using assms
  by (auto simp: CreateColumn_def lookupColumn_None_iff Let_def store_simps column_defs fun_eq_iff update_conv'
      less_Suc_eq)

lemma remove_column_effect:
  assumes "columns_valid t \<sigma>" "\<sigma>' = remove_column t n \<sigma>"
  shows "columns_valid t \<sigma>' \<and> column_refs t \<sigma>' = filter (\<lambda>r. column_key t \<sigma> r \<noteq> detail_norm t \<sigma> n) (column_refs t \<sigma>) \<and>
    column_lookup t \<sigma>' = (column_lookup t \<sigma>)(detail_norm t \<sigma> n := None) \<and> column_key t \<sigma>' = column_key t \<sigma>"
  using assms by (auto simp: store_simps column_defs same_name_iff fun_eq_iff delete_conv')

lemma dropColumnInternal_found:
  assumes "columns_valid t \<sigma>" "column_lookup t \<sigma> (detail_norm t \<sigma> n) \<noteq> None"
  shows "\<exists>\<sigma>'. dropColumnInternal t n b \<sigma> = Inr \<sigma>' \<and> columns_valid t \<sigma>' \<and>
    column_refs t \<sigma>' = filter (\<lambda>r. column_key t \<sigma> r \<noteq> detail_norm t \<sigma> n) (column_refs t \<sigma>) \<and>
    column_lookup t \<sigma>' = (column_lookup t \<sigma>)(detail_norm t \<sigma> n := None) \<and> column_key t \<sigma>' = column_key t \<sigma>"
  using assms
  by (simp add: dropColumnInternal_def lookupColumn_None_iff Let_def)
    (auto simp: store_simps column_defs fun_eq_iff delete_conv' same_name_iff)

lemma RenameColumn_ok:
  assumes "n \<noteq> n'" "columns_valid t \<sigma>" "column_lookup t \<sigma> (detail_norm t \<sigma> n) = Some r"
    "column_lookup t \<sigma> (detail_norm t \<sigma> n') = None"
  shows "\<exists>\<sigma>'. RenameColumn t n n' \<sigma> = Inr \<sigma>' \<and> columns_valid t \<sigma>' \<and> column_refs t \<sigma>' = column_refs t \<sigma> \<and>
    column_lookup t \<sigma>' = (column_lookup t \<sigma>)(detail_norm t \<sigma> n := None, detail_norm t \<sigma> n' \<mapsto> r) \<and>
    column_key t \<sigma>' = (column_key t \<sigma>)(r := detail_norm t \<sigma> n')"
  using assms
  by (auto simp: RenameColumn_def lookupColumn_def Let_def store_simps column_defs fun_eq_iff update_conv' delete_conv')

interpretation cols: renamable_collection "column_refs t" "column_lookup t" "column_key t" "columns_valid t"
  "detail_norm t" "\<lambda>\<sigma> (c, cat). detail_norm t \<sigma> (col_name c)" "\<lambda>(c, cat). CreateColumn t c cat" "DropColumn t"
  "RenameColumn t" for t
proof unfold_locales
  fix \<sigma> and x :: "storepb_ColumnMetadata \<times> storepb_ColumnCatalog option"
  assume "columns_valid t \<sigma>" "column_lookup t \<sigma> (case x of (c, cat) \<Rightarrow> detail_norm t \<sigma> (col_name c)) = None"
  then show "\<exists>s' r. (case x of (c, cat) \<Rightarrow> CreateColumn t c cat) \<sigma> = Inr s' \<and> columns_valid t s' \<and>
      r \<notin> set (column_refs t \<sigma>) \<and> column_refs t s' = column_refs t \<sigma> @ [r] \<and>
      column_lookup t s' = (column_lookup t \<sigma>)((case x of (c, cat) \<Rightarrow> detail_norm t \<sigma> (col_name c)) \<mapsto> r) \<and>
      column_key t s' = (column_key t \<sigma>)(r := case x of (c, cat) \<Rightarrow> detail_norm t \<sigma> (col_name c))"
    using CreateColumn_new [of t \<sigma> "fst x" "snd x"] by (cases x) simp
next
  fix \<sigma> n assume "columns_valid t \<sigma>" "column_lookup t \<sigma> (detail_norm t \<sigma> n) \<noteq> None"
  then show "\<exists>s'. DropColumn t n \<sigma> = Inr s' \<and> columns_valid t s' \<and>
      column_refs t s' = filter (\<lambda>r. column_key t \<sigma> r \<noteq> detail_norm t \<sigma> n) (column_refs t \<sigma>) \<and>
      column_lookup t s' = (column_lookup t \<sigma>)(detail_norm t \<sigma> n := None) \<and> column_key t s' = column_key t \<sigma>"
    unfolding DropColumn_def by (rule dropColumnInternal_found)
next
  fix n n' \<sigma> r
  assume "n \<noteq> n'" "columns_valid t \<sigma>" "column_lookup t \<sigma> (detail_norm t \<sigma> n) = Some r"
    "column_lookup t \<sigma> (detail_norm t \<sigma> n') = None"
  then show "\<exists>s'. RenameColumn t n n' \<sigma> = Inr s' \<and> columns_valid t s' \<and> column_refs t s' = column_refs t \<sigma> \<and>
      column_lookup t s' = (column_lookup t \<sigma>)(detail_norm t \<sigma> n := None, detail_norm t \<sigma> n' \<mapsto> r) \<and>
      column_key t s' = (column_key t \<sigma>)(r := detail_norm t \<sigma> n')"
    by (rule RenameColumn_ok)
qed (auto simp: CreateColumn_def DropColumn_def dropColumnInternal_def RenameColumn_def lookupColumn_None_iff
    lookupColumn_def detail_norm_def column_lookup_def split: option.splits)

text \<open>The two other drops of a column keep the same contract.\<close>

interpretation cols_no_renumber: named_collection "column_refs t" "column_lookup t" "column_key t" "columns_valid t"
  "detail_norm t" "\<lambda>\<sigma> (c, cat). detail_norm t \<sigma> (col_name c)" "\<lambda>(c, cat). CreateColumn t c cat"
  "DropColumnWithoutRenumbering t" for t
proof unfold_locales
  fix \<sigma> n assume "columns_valid t \<sigma>" "column_lookup t \<sigma> (detail_norm t \<sigma> n) \<noteq> None"
  then show "\<exists>s'. DropColumnWithoutRenumbering t n \<sigma> = Inr s' \<and> columns_valid t s' \<and>
      column_refs t s' = filter (\<lambda>r. column_key t \<sigma> r \<noteq> detail_norm t \<sigma> n) (column_refs t \<sigma>) \<and>
      column_lookup t s' = (column_lookup t \<sigma>)(detail_norm t \<sigma> n := None) \<and> column_key t s' = column_key t \<sigma>"
    unfolding DropColumnWithoutRenumbering_def by (rule dropColumnInternal_found)
qed (rule cols.create_exists, assumption, rule cols.create_new, assumption, assumption,
  simp add: DropColumnWithoutRenumbering_def dropColumnInternal_def lookupColumn_None_iff)

interpretation cols_no_index_update: named_collection "column_refs t" "column_lookup t" "column_key t"
  "columns_valid t" "detail_norm t" "\<lambda>\<sigma> (c, cat). detail_norm t \<sigma> (col_name c)"
  "\<lambda>(c, cat). CreateColumn t c cat" "DropColumnWithoutUpdatingIndexes t" for t
proof unfold_locales
  fix \<sigma> n assume "columns_valid t \<sigma>" "column_lookup t \<sigma> (detail_norm t \<sigma> n) \<noteq> None"
  then show "\<exists>s'. DropColumnWithoutUpdatingIndexes t n \<sigma> = Inr s' \<and> columns_valid t s' \<and>
      column_refs t s' = filter (\<lambda>r. column_key t \<sigma> r \<noteq> detail_norm t \<sigma> n) (column_refs t \<sigma>) \<and>
      column_lookup t s' = (column_lookup t \<sigma>)(detail_norm t \<sigma> n := None) \<and> column_key t s' = column_key t \<sigma>"
    using remove_column_effect [of t \<sigma> _ n]
    by (simp add: DropColumnWithoutUpdatingIndexes_def lookupColumn_None_iff)
qed (rule cols.create_exists, assumption, rule cols.create_new, assumption, assumption,
  simp add: DropColumnWithoutUpdatingIndexes_def lookupColumn_None_iff)


section \<open>Indexes\<close>

definition index_refs :: "ref \<Rightarrow> store \<Rightarrow> ref list" where
  "index_refs t \<sigma> = tp_indexes (protoOf \<sigma> t)"

definition index_lookup :: "ref \<Rightarrow> store \<Rightarrow> string \<Rightarrow> ref option" where
  "index_lookup t \<sigma> k = map_option io_proto (map_of (to_internalIndexes (tableOf \<sigma> t)) k)"

definition index_key :: "ref \<Rightarrow> store \<Rightarrow> ref \<Rightarrow> string" where
  "index_key t \<sigma> r = normalizeNameByCaseSensitivity (idx_name (the (indexes \<sigma> r))) (detail_cs \<sigma> t)"

definition indexes_valid :: "ref \<Rightarrow> store \<Rightarrow> bool" where
  "indexes_valid t \<sigma> \<longleftrightarrow> (\<forall>r \<in> set (index_refs t \<sigma>). r < next_ref \<sigma>)"

lemmas index_defs = index_refs_def index_lookup_def index_key_def indexes_valid_def detail_norm_def

lemma lookupIndex_None_iff: "lookupIndex \<sigma> t n = None \<longleftrightarrow> index_lookup t \<sigma> (detail_norm t \<sigma> n) = None"
  by (simp add: lookupIndex_def index_defs)

interpretation idxs: renamable_collection "index_refs t" "index_lookup t" "index_key t" "indexes_valid t"
  "detail_norm t" "\<lambda>\<sigma> i. detail_norm t \<sigma> (idx_name i)" "CreateIndex t" "DropIndex t" "RenameIndex t" for t
proof unfold_locales
  fix \<sigma> and x :: storepb_IndexMetadata assume "indexes_valid t \<sigma>" "index_lookup t \<sigma> (detail_norm t \<sigma> (idx_name x)) = None"
  then show "\<exists>s' r. CreateIndex t x \<sigma> = Inr s' \<and> indexes_valid t s' \<and> r \<notin> set (index_refs t \<sigma>) \<and>
      index_refs t s' = index_refs t \<sigma> @ [r] \<and>
      index_lookup t s' = (index_lookup t \<sigma>)(detail_norm t \<sigma> (idx_name x) \<mapsto> r) \<and>
      index_key t s' = (index_key t \<sigma>)(r := detail_norm t \<sigma> (idx_name x))"
    by (auto simp: CreateIndex_def lookupIndex_None_iff Let_def store_simps index_defs fun_eq_iff update_conv'
        less_Suc_eq)
next
  fix \<sigma> n assume "indexes_valid t \<sigma>" "index_lookup t \<sigma> (detail_norm t \<sigma> n) \<noteq> None"
  then show "\<exists>s'. DropIndex t n \<sigma> = Inr s' \<and> indexes_valid t s' \<and>
      index_refs t s' = filter (\<lambda>r. index_key t \<sigma> r \<noteq> detail_norm t \<sigma> n) (index_refs t \<sigma>) \<and>
      index_lookup t s' = (index_lookup t \<sigma>)(detail_norm t \<sigma> n := None) \<and> index_key t s' = index_key t \<sigma>"
    by (simp add: DropIndex_def lookupIndex_None_iff Let_def)
      (auto simp: store_simps index_defs fun_eq_iff delete_conv' same_name_iff)
next
  fix n n' \<sigma> r
  assume "n \<noteq> n'" "indexes_valid t \<sigma>" "index_lookup t \<sigma> (detail_norm t \<sigma> n) = Some r"
    "index_lookup t \<sigma> (detail_norm t \<sigma> n') = None"
  then show "\<exists>s'. RenameIndex t n n' \<sigma> = Inr s' \<and> indexes_valid t s' \<and> index_refs t s' = index_refs t \<sigma> \<and>
      index_lookup t s' = (index_lookup t \<sigma>)(detail_norm t \<sigma> n := None, detail_norm t \<sigma> n' \<mapsto> r) \<and>
      index_key t s' = (index_key t \<sigma>)(r := detail_norm t \<sigma> n')"
    by (auto simp: RenameIndex_def lookupIndex_def Let_def store_simps index_defs fun_eq_iff update_conv' delete_conv')
qed (auto simp: CreateIndex_def DropIndex_def RenameIndex_def lookupIndex_None_iff lookupIndex_def detail_norm_def
    index_lookup_def split: option.splits)


section \<open>Tables and views\<close>

definition object_norm :: "ref \<Rightarrow> store \<Rightarrow> string \<Rightarrow> string" where
  "object_norm s \<sigma> n = objectID \<sigma> s n"

text \<open>The map of a schema leads to the wrappers of its tables, the list to their messages.\<close>

definition table_refs :: "ref \<Rightarrow> store \<Rightarrow> ref list" where
  "table_refs s \<sigma> = sp_tables (schemaProtoOf \<sigma> s)"

definition table_lookup :: "ref \<Rightarrow> store \<Rightarrow> string \<Rightarrow> ref option" where
  "table_lookup s \<sigma> k =
     map_option (\<lambda>t. to_proto (tableOf \<sigma> t)) (map_of (so_internalTables (schemaOf \<sigma> s)) k)"

definition table_key :: "ref \<Rightarrow> store \<Rightarrow> ref \<Rightarrow> string" where
  "table_key s \<sigma> p = objectID \<sigma> s (tp_name (the (tableProtos \<sigma> p)))"

definition tables_valid :: "ref \<Rightarrow> store \<Rightarrow> bool" where
  "tables_valid s \<sigma> \<longleftrightarrow> (\<forall>p \<in> set (table_refs s \<sigma>). p < next_ref \<sigma>) \<and>
     (\<forall>k t. map_of (so_internalTables (schemaOf \<sigma> s)) k = Some t \<longrightarrow> t < next_ref \<sigma>)"

lemmas table_defs = table_refs_def table_lookup_def table_key_def tables_valid_def object_norm_def

lemma lookupTable_None_iff: "lookupTable \<sigma> s n = None \<longleftrightarrow> table_lookup s \<sigma> (object_norm s \<sigma> n) = None"
  by (simp add: lookupTable_def table_defs)

definition CreateTable_state :: "ref \<Rightarrow> string \<Rightarrow> store \<Rightarrow> store_error + store" where
  "CreateTable_state s n \<sigma> = map_sum id snd (CreateTable s n \<sigma>)"

lemma CreateTable_new:
  assumes "tables_valid s \<sigma>" "table_lookup s \<sigma> (object_norm s \<sigma> n) = None"
  shows "\<exists>\<sigma>' r. CreateTable_state s n \<sigma> = Inr \<sigma>' \<and> tables_valid s \<sigma>' \<and> r \<notin> set (table_refs s \<sigma>) \<and>
    table_refs s \<sigma>' = table_refs s \<sigma> @ [r] \<and>
    table_lookup s \<sigma>' = (table_lookup s \<sigma>)(object_norm s \<sigma> n \<mapsto> r) \<and>
    table_key s \<sigma>' = (table_key s \<sigma>)(r := object_norm s \<sigma> n)"
proof -
  have lt: "t \<noteq> Suc (next_ref \<sigma>) \<and> t < Suc (Suc (next_ref \<sigma>))"
    if "map_of (so_internalTables (schemaOf \<sigma> s)) k = Some t" for k t
  proof -
    have "t < next_ref \<sigma>" using that assms(1) by (auto simp: tables_valid_def)
    then show ?thesis by simp
  qed
  have "map_option (\<lambda>t. to_proto (the (((tables \<sigma>)(Suc (next_ref \<sigma>) \<mapsto> T)) t)))
      (map_of (so_internalTables (schemaOf \<sigma> s)) k) =
    map_option (\<lambda>t. to_proto (tableOf \<sigma> t)) (map_of (so_internalTables (schemaOf \<sigma> s)) k)" for k T
    using lt [of k] by (cases "map_of (so_internalTables (schemaOf \<sigma> s)) k") auto
  then show ?thesis
    using assms lt
    by (auto simp: CreateTable_state_def CreateTable_def lookupTable_None_iff Let_def store_simps table_defs
        fun_eq_iff update_conv' less_Suc_eq)
qed

interpretation tabs: renamable_collection "table_refs s" "table_lookup s" "table_key s" "tables_valid s"
  "object_norm s" "object_norm s" "CreateTable_state s" "DropTable s" "RenameTable s" for s
proof unfold_locales
  fix \<sigma> n assume "tables_valid s \<sigma>" "table_lookup s \<sigma> (object_norm s \<sigma> n) = None"
  then show "\<exists>s' r. CreateTable_state s n \<sigma> = Inr s' \<and> tables_valid s s' \<and> r \<notin> set (table_refs s \<sigma>) \<and>
      table_refs s s' = table_refs s \<sigma> @ [r] \<and> table_lookup s s' = (table_lookup s \<sigma>)(object_norm s \<sigma> n \<mapsto> r) \<and>
      table_key s s' = (table_key s \<sigma>)(r := object_norm s \<sigma> n)"
    by (rule CreateTable_new)
next
  fix \<sigma> n assume "tables_valid s \<sigma>" "table_lookup s \<sigma> (object_norm s \<sigma> n) \<noteq> None"
  then show "\<exists>s'. DropTable s n \<sigma> = Inr s' \<and> tables_valid s s' \<and>
      table_refs s s' = filter (\<lambda>r. table_key s \<sigma> r \<noteq> object_norm s \<sigma> n) (table_refs s \<sigma>) \<and>
      table_lookup s s' = (table_lookup s \<sigma>)(object_norm s \<sigma> n := None) \<and> table_key s s' = table_key s \<sigma>"
    by (simp add: DropTable_def lookupTable_None_iff Let_def)
      (auto simp: store_simps table_defs fun_eq_iff delete_conv' same_name_iff)
next
  fix n n' \<sigma> r
  assume "n \<noteq> n'" "tables_valid s \<sigma>" "table_lookup s \<sigma> (object_norm s \<sigma> n) = Some r"
    "table_lookup s \<sigma> (object_norm s \<sigma> n') = None"
  then show "\<exists>s'. RenameTable s n n' \<sigma> = Inr s' \<and> tables_valid s s' \<and> table_refs s s' = table_refs s \<sigma> \<and>
      table_lookup s s' = (table_lookup s \<sigma>)(object_norm s \<sigma> n := None, object_norm s \<sigma> n' \<mapsto> r) \<and>
      table_key s s' = (table_key s \<sigma>)(r := object_norm s \<sigma> n')"
    by (auto simp: RenameTable_def lookupTable_def Let_def store_simps table_defs fun_eq_iff update_conv' delete_conv')
qed (auto simp: CreateTable_state_def CreateTable_def DropTable_def RenameTable_def lookupTable_None_iff
    lookupTable_def object_norm_def table_lookup_def split: option.splits)

definition view_refs :: "ref \<Rightarrow> store \<Rightarrow> ref list" where
  "view_refs s \<sigma> = sp_views (schemaProtoOf \<sigma> s)"

definition view_lookup :: "ref \<Rightarrow> store \<Rightarrow> string \<Rightarrow> ref option" where
  "view_lookup s \<sigma> k = map_of (so_internalViews (schemaOf \<sigma> s)) k"

definition view_key :: "ref \<Rightarrow> store \<Rightarrow> ref \<Rightarrow> string" where
  "view_key s \<sigma> r = objectID \<sigma> s (view_name (the (views \<sigma> r)))"

definition views_valid :: "ref \<Rightarrow> store \<Rightarrow> bool" where
  "views_valid s \<sigma> \<longleftrightarrow> (\<forall>r \<in> set (view_refs s \<sigma>). r < next_ref \<sigma>)"

lemmas view_defs = view_refs_def view_lookup_def view_key_def views_valid_def object_norm_def

lemma lookupView_None_iff: "lookupView \<sigma> s n = None \<longleftrightarrow> view_lookup s \<sigma> (object_norm s \<sigma> n) = None"
  by (simp add: lookupView_def view_defs)

definition CreateView_state :: "ref \<Rightarrow> string \<times> string \<times> storepb_DependencyColumn list \<Rightarrow> store \<Rightarrow> store_error + store" where
  "CreateView_state s = (\<lambda>(n, defn, deps) \<sigma>. map_sum id snd (CreateView s n defn deps \<sigma>))"

interpretation views: renamable_collection "view_refs s" "view_lookup s" "view_key s" "views_valid s"
  "object_norm s" "\<lambda>\<sigma> (x :: string \<times> string \<times> storepb_DependencyColumn list). object_norm s \<sigma> (fst x)" "CreateView_state s" "DropView s" "RenameView s"
  for s
proof unfold_locales
  fix \<sigma> and x :: "string \<times> string \<times> storepb_DependencyColumn list"
  assume "views_valid s \<sigma>" "view_lookup s \<sigma> (object_norm s \<sigma> (fst x)) = None"
  then show "\<exists>s' r. CreateView_state s x \<sigma> = Inr s' \<and> views_valid s s' \<and> r \<notin> set (view_refs s \<sigma>) \<and>
      view_refs s s' = view_refs s \<sigma> @ [r] \<and>
      view_lookup s s' = (view_lookup s \<sigma>)(object_norm s \<sigma> (fst x) \<mapsto> r) \<and>
      view_key s s' = (view_key s \<sigma>)(r := object_norm s \<sigma> (fst x))"
    by (cases x) (auto simp: CreateView_state_def CreateView_def lookupView_None_iff Let_def store_simps view_defs
        fun_eq_iff update_conv' less_Suc_eq zero_ViewMetadata_def)
next
  fix \<sigma> n assume "views_valid s \<sigma>" "view_lookup s \<sigma> (object_norm s \<sigma> n) \<noteq> None"
  then show "\<exists>s'. DropView s n \<sigma> = Inr s' \<and> views_valid s s' \<and>
      view_refs s s' = filter (\<lambda>r. view_key s \<sigma> r \<noteq> object_norm s \<sigma> n) (view_refs s \<sigma>) \<and>
      view_lookup s s' = (view_lookup s \<sigma>)(object_norm s \<sigma> n := None) \<and> view_key s s' = view_key s \<sigma>"
    by (simp add: DropView_def lookupView_None_iff Let_def)
      (auto simp: store_simps view_defs fun_eq_iff delete_conv' same_name_iff)
next
  fix n n' \<sigma> r
  assume "n \<noteq> n'" "views_valid s \<sigma>" "view_lookup s \<sigma> (object_norm s \<sigma> n) = Some r"
    "view_lookup s \<sigma> (object_norm s \<sigma> n') = None"
  then show "\<exists>s'. RenameView s n n' \<sigma> = Inr s' \<and> views_valid s s' \<and> view_refs s s' = view_refs s \<sigma> \<and>
      view_lookup s s' = (view_lookup s \<sigma>)(object_norm s \<sigma> n := None, object_norm s \<sigma> n' \<mapsto> r) \<and>
      view_key s s' = (view_key s \<sigma>)(r := object_norm s \<sigma> n')"
    by (auto simp: RenameView_def lookupView_def Let_def store_simps view_defs fun_eq_iff update_conv' delete_conv')
qed (auto simp: CreateView_state_def CreateView_def DropView_def RenameView_def lookupView_None_iff
    lookupView_def object_norm_def view_lookup_def split: option.splits prod.splits)

definition mview_refs :: "ref \<Rightarrow> store \<Rightarrow> ref list" where
  "mview_refs s \<sigma> = sp_materialized_views (schemaProtoOf \<sigma> s)"

definition mview_lookup :: "ref \<Rightarrow> store \<Rightarrow> string \<Rightarrow> ref option" where
  "mview_lookup s \<sigma> k = map_of (so_internalMaterializedView (schemaOf \<sigma> s)) k"

definition mview_key :: "ref \<Rightarrow> store \<Rightarrow> ref \<Rightarrow> string" where
  "mview_key s \<sigma> r = objectID \<sigma> s (mv_name (the (mviews \<sigma> r)))"

definition mviews_valid :: "ref \<Rightarrow> store \<Rightarrow> bool" where
  "mviews_valid s \<sigma> \<longleftrightarrow> (\<forall>r \<in> set (mview_refs s \<sigma>). r < next_ref \<sigma>)"

lemmas mview_defs = mview_refs_def mview_lookup_def mview_key_def mviews_valid_def object_norm_def

lemma lookupMaterializedView_None_iff: "lookupMaterializedView \<sigma> s n = None \<longleftrightarrow> mview_lookup s \<sigma> (object_norm s \<sigma> n) = None"
  by (simp add: lookupMaterializedView_def mview_defs)

definition CreateMaterializedView_state :: "ref \<Rightarrow> string \<times> string \<Rightarrow> store \<Rightarrow> store_error + store" where
  "CreateMaterializedView_state s = (\<lambda>(n, defn) \<sigma>. map_sum id snd (CreateMaterializedView s n defn \<sigma>))"

interpretation mvs: named_collection "mview_refs s" "mview_lookup s" "mview_key s" "mviews_valid s"
  "object_norm s" "\<lambda>\<sigma> (x :: string \<times> string). object_norm s \<sigma> (fst x)" "CreateMaterializedView_state s" "DropMaterializedView s"
  for s
proof unfold_locales
  fix \<sigma> and x :: "string \<times> string"
  assume "mviews_valid s \<sigma>" "mview_lookup s \<sigma> (object_norm s \<sigma> (fst x)) = None"
  then show "\<exists>s' r. CreateMaterializedView_state s x \<sigma> = Inr s' \<and> mviews_valid s s' \<and> r \<notin> set (mview_refs s \<sigma>) \<and>
      mview_refs s s' = mview_refs s \<sigma> @ [r] \<and>
      mview_lookup s s' = (mview_lookup s \<sigma>)(object_norm s \<sigma> (fst x) \<mapsto> r) \<and>
      mview_key s s' = (mview_key s \<sigma>)(r := object_norm s \<sigma> (fst x))"
    by (cases x) (auto simp: CreateMaterializedView_state_def CreateMaterializedView_def lookupMaterializedView_None_iff Let_def store_simps mview_defs
        fun_eq_iff update_conv' less_Suc_eq zero_MaterializedViewMetadata_def)
next
  fix \<sigma> n assume "mviews_valid s \<sigma>" "mview_lookup s \<sigma> (object_norm s \<sigma> n) \<noteq> None"
  then show "\<exists>s'. DropMaterializedView s n \<sigma> = Inr s' \<and> mviews_valid s s' \<and>
      mview_refs s s' = filter (\<lambda>r. mview_key s \<sigma> r \<noteq> object_norm s \<sigma> n) (mview_refs s \<sigma>) \<and>
      mview_lookup s s' = (mview_lookup s \<sigma>)(object_norm s \<sigma> n := None) \<and> mview_key s s' = mview_key s \<sigma>"
    by (simp add: DropMaterializedView_def lookupMaterializedView_None_iff Let_def)
      (auto simp: store_simps mview_defs fun_eq_iff delete_conv' same_name_iff)
qed (auto simp: CreateMaterializedView_state_def CreateMaterializedView_def DropMaterializedView_def lookupMaterializedView_None_iff
    lookupMaterializedView_def object_norm_def mview_lookup_def split: option.splits prod.splits)

end
