(* ===== verification/StoreProps.thy ===== *)
theory StoreProps
  imports StoreSpec
begin

text \<open>
  The schema mutators as operations on lists of names, what dropping and renaming a column does to the
  indexes, and where the mutators fall short.
\<close>

section \<open>Refinement\<close>

definition columns_ok :: "ref \<Rightarrow> store \<Rightarrow> bool" where
  "columns_ok t \<sigma> \<longleftrightarrow> columns_valid t \<sigma> \<and> coherent (column_key t \<sigma>) (column_refs t \<sigma>) (column_lookup t \<sigma>)"

definition indexes_ok :: "ref \<Rightarrow> store \<Rightarrow> bool" where
  "indexes_ok t \<sigma> \<longleftrightarrow> indexes_valid t \<sigma> \<and> coherent (index_key t \<sigma>) (index_refs t \<sigma>) (index_lookup t \<sigma>)"

definition tables_ok :: "ref \<Rightarrow> store \<Rightarrow> bool" where
  "tables_ok s \<sigma> \<longleftrightarrow> tables_valid s \<sigma> \<and> coherent (table_key s \<sigma>) (table_refs s \<sigma>) (table_lookup s \<sigma>)"

definition views_ok :: "ref \<Rightarrow> store \<Rightarrow> bool" where
  "views_ok s \<sigma> \<longleftrightarrow> views_valid s \<sigma> \<and> coherent (view_key s \<sigma>) (view_refs s \<sigma>) (view_lookup s \<sigma>)"

definition mviews_ok :: "ref \<Rightarrow> store \<Rightarrow> bool" where
  "mviews_ok s \<sigma> \<longleftrightarrow> mviews_valid s \<sigma> \<and> coherent (mview_key s \<sigma>) (mview_refs s \<sigma>) (mview_lookup s \<sigma>)"

definition column_names :: "ref \<Rightarrow> store \<Rightarrow> string list" where
  "column_names t \<sigma> = map (column_key t \<sigma>) (column_refs t \<sigma>)"

definition index_names :: "ref \<Rightarrow> store \<Rightarrow> string list" where
  "index_names t \<sigma> = map (index_key t \<sigma>) (index_refs t \<sigma>)"

definition table_names :: "ref \<Rightarrow> store \<Rightarrow> string list" where
  "table_names s \<sigma> = map (table_key s \<sigma>) (table_refs s \<sigma>)"

definition view_names :: "ref \<Rightarrow> store \<Rightarrow> string list" where
  "view_names s \<sigma> = map (view_key s \<sigma>) (view_refs s \<sigma>)"

definition mview_names :: "ref \<Rightarrow> store \<Rightarrow> string list" where
  "mview_names s \<sigma> = map (mview_key s \<sigma>) (mview_refs s \<sigma>)"

text \<open>An operation fails exactly when its specification does, and else leaves a state that is in order
  and shows the specified names.\<close>

definition refines ::
  "(store \<Rightarrow> bool) \<Rightarrow> (store \<Rightarrow> string list) \<Rightarrow> store_error + store \<Rightarrow> string list option \<Rightarrow> bool" where
  "refines ok names result spec \<longleftrightarrow>
     (case result of Inl _ \<Rightarrow> spec = None | Inr \<sigma>' \<Rightarrow> ok \<sigma>' \<and> spec = Some (names \<sigma>'))"

lemmas col_refines =
  cols.create_refines [where x = "(c, cat)", unfolded cols.inv_def cols.names_def prod.case,
    folded columns_ok_def column_names_def]
  cols.drop_refines [unfolded cols.inv_def cols.names_def, folded columns_ok_def column_names_def]
  cols_no_renumber.drop_refines [unfolded cols.inv_def cols.names_def, folded columns_ok_def column_names_def]
  cols_no_index_update.drop_refines [unfolded cols.inv_def cols.names_def, folded columns_ok_def column_names_def]
  cols.rename_refines [unfolded cols.inv_def cols.names_def, folded columns_ok_def column_names_def]
  for c cat

lemmas idx_refines =
  idxs.create_refines [unfolded idxs.inv_def idxs.names_def, folded indexes_ok_def index_names_def]
  idxs.drop_refines [unfolded idxs.inv_def idxs.names_def, folded indexes_ok_def index_names_def]
  idxs.rename_refines [unfolded idxs.inv_def idxs.names_def, folded indexes_ok_def index_names_def]

lemmas tab_refines =
  tabs.create_refines [unfolded tabs.inv_def tabs.names_def, folded tables_ok_def table_names_def]
  tabs.drop_refines [unfolded tabs.inv_def tabs.names_def, folded tables_ok_def table_names_def]
  tabs.rename_refines [unfolded tabs.inv_def tabs.names_def, folded tables_ok_def table_names_def]

lemmas vw_refines =
  views.create_refines [where x = "(n, defn, deps)", unfolded views.inv_def views.names_def fst_conv,
    folded views_ok_def view_names_def]
  views.drop_refines [unfolded views.inv_def views.names_def, folded views_ok_def view_names_def]
  views.rename_refines [unfolded views.inv_def views.names_def, folded views_ok_def view_names_def]
  for n defn deps

lemmas mvw_refines =
  mvs.create_refines [where x = "(n, defn)", unfolded mvs.inv_def mvs.names_def fst_conv,
    folded mviews_ok_def mview_names_def]
  mvs.drop_refines [unfolded mvs.inv_def mvs.names_def, folded mviews_ok_def mview_names_def]
  for n defn

text \<open>A table with two columns and an index on them, in a store of its own.\<close>

definition empty_store :: store where
  "empty_store = \<lparr>next_ref = 10, columns = (\<lambda>_. None), indexes = (\<lambda>_. None), views = (\<lambda>_. None),
     mviews = (\<lambda>_. None), tableProtos = (\<lambda>_. None), tables = (\<lambda>_. None), schemaProtos = (\<lambda>_. None),
     schemas = (\<lambda>_. None)\<rparr>"

definition new_table :: "bool \<Rightarrow> string \<Rightarrow> store" where
  "new_table cs name = empty_store
     \<lparr>tableProtos := [0 \<mapsto> \<lparr>tp_name = name, tp_columns = [], tp_indexes = [], tp_fields = zero_TableMetadata\<rparr>],
      tables := [1 \<mapsto> \<lparr>to_partitionOf = None, to_isDetailCaseSensitive = cs, to_internalColumn = [],
                      to_internalIndexes = [], to_proto = 0\<rparr>]\<rparr>"

lemma new_table_ok: "columns_ok 1 (new_table cs n)" "indexes_ok 1 (new_table cs n)"
  by (simp_all add: columns_ok_def indexes_ok_def coherent_def column_defs index_defs new_table_def empty_store_def)

text \<open>
  C34. The column operations of a table are operations on a list of distinct normalized names: creating
  appends the name unless it is there, the three ways of dropping remove it if it is there, renaming
  replaces it in place; the list of the message and the lookup map agree afterwards.
\<close>
theorem column_ops_refine:
  assumes "columns_ok t \<sigma>"
  shows "refines (columns_ok t) (column_names t) (CreateColumn t c catalog \<sigma>)
      (spec_create (detail_norm t \<sigma> (col_name c)) (column_names t \<sigma>)) \<and>
    refines (columns_ok t) (column_names t) (DropColumn t n \<sigma>)
      (spec_drop (detail_norm t \<sigma> n) (column_names t \<sigma>)) \<and>
    refines (columns_ok t) (column_names t) (DropColumnWithoutRenumbering t n \<sigma>)
      (spec_drop (detail_norm t \<sigma> n) (column_names t \<sigma>)) \<and>
    refines (columns_ok t) (column_names t) (DropColumnWithoutUpdatingIndexes t n \<sigma>)
      (spec_drop (detail_norm t \<sigma> n) (column_names t \<sigma>)) \<and>
    (n \<noteq> n' \<longrightarrow> refines (columns_ok t) (column_names t) (RenameColumn t n n' \<sigma>)
      (spec_rename (detail_norm t \<sigma> n) (detail_norm t \<sigma> n') (column_names t \<sigma>)))"
  unfolding refines_def
  by (intro conjI impI col_refines assms)

theorem column_ops_refine_witness:
  "refines (columns_ok 1) (column_names 1) (CreateColumn 1 (zero_ColumnMetadata\<lparr>col_name := ''A''\<rparr>) None (new_table False ''t''))
     (Some [''a''])"
proof -
  have "spec_create (detail_norm 1 (new_table False ''t'') (col_name (zero_ColumnMetadata\<lparr>col_name := ''A''\<rparr>)))
      (column_names 1 (new_table False ''t'')) = Some [''a'']" by code_simp
  with column_ops_refine [OF new_table_ok(1), of "zero_ColumnMetadata\<lparr>col_name := ''A''\<rparr>" None False "''t''"]
  show ?thesis by simp
qed

text \<open>
  The index operations of a table, likewise.
\<close>
lemma index_ops_refine:
  assumes "indexes_ok t \<sigma>"
  shows "refines (indexes_ok t) (index_names t) (CreateIndex t i \<sigma>)
      (spec_create (detail_norm t \<sigma> (idx_name i)) (index_names t \<sigma>)) \<and>
    refines (indexes_ok t) (index_names t) (DropIndex t n \<sigma>) (spec_drop (detail_norm t \<sigma> n) (index_names t \<sigma>)) \<and>
    (n \<noteq> n' \<longrightarrow> refines (indexes_ok t) (index_names t) (RenameIndex t n n' \<sigma>)
      (spec_rename (detail_norm t \<sigma> n) (detail_norm t \<sigma> n') (index_names t \<sigma>)))"
  unfolding refines_def
  by (intro conjI impI idx_refines assms)

theorem index_ops_refine_witness:
  "refines (indexes_ok 1) (index_names 1) (CreateIndex 1 (zero_IndexMetadata\<lparr>idx_name := ''I''\<rparr>) (new_table True ''t''))
     (Some [''I''])"
proof -
  have "spec_create (detail_norm 1 (new_table True ''t'') (idx_name (zero_IndexMetadata\<lparr>idx_name := ''I''\<rparr>)))
      (index_names 1 (new_table True ''t'')) = Some [''I'']" by code_simp
  with index_ops_refine [OF new_table_ok(2), of "zero_IndexMetadata\<lparr>idx_name := ''I''\<rparr>" True "''t''"]
  show ?thesis by simp
qed

definition new_schema :: store where
  "new_schema = empty_store
     \<lparr>schemaProtos := [0 \<mapsto> \<lparr>sp_name = ''public'', sp_tables = [], sp_views = [], sp_materialized_views = [],
        sp_fields = zero_SchemaMetadata\<rparr>],
      schemas := [1 \<mapsto> \<lparr>so_isObjectCaseSensitive = True, so_isDetailCaseSensitive = True, so_internalTables = [],
        so_internalViews = [], so_internalMaterializedView = [], so_proto = 0\<rparr>]\<rparr>"

lemma new_schema_ok: "tables_ok 1 new_schema" "views_ok 1 new_schema" "mviews_ok 1 new_schema"
  by (simp_all add: tables_ok_def views_ok_def mviews_ok_def coherent_def table_defs view_defs mview_defs
      new_schema_def empty_store_def)

text \<open>
  The operations of a schema on its tables, views and materialized views, likewise, as long as the
  table map holds nothing but the tables themselves (no entries of partitions).
\<close>
lemma schema_ops_refine:
  assumes "tables_ok s \<sigma>" "views_ok s \<sigma>" "mviews_ok s \<sigma>"
  shows "refines (tables_ok s) (table_names s) (CreateTable_state s n \<sigma>)
      (spec_create (object_norm s \<sigma> n) (table_names s \<sigma>)) \<and>
    refines (tables_ok s) (table_names s) (DropTable s n \<sigma>) (spec_drop (object_norm s \<sigma> n) (table_names s \<sigma>)) \<and>
    (n \<noteq> n' \<longrightarrow> refines (tables_ok s) (table_names s) (RenameTable s n n' \<sigma>)
      (spec_rename (object_norm s \<sigma> n) (object_norm s \<sigma> n') (table_names s \<sigma>))) \<and>
    refines (views_ok s) (view_names s) (CreateView_state s (n, defn, deps) \<sigma>)
      (spec_create (object_norm s \<sigma> n) (view_names s \<sigma>)) \<and>
    refines (views_ok s) (view_names s) (DropView s n \<sigma>) (spec_drop (object_norm s \<sigma> n) (view_names s \<sigma>)) \<and>
    (n \<noteq> n' \<longrightarrow> refines (views_ok s) (view_names s) (RenameView s n n' \<sigma>)
      (spec_rename (object_norm s \<sigma> n) (object_norm s \<sigma> n') (view_names s \<sigma>))) \<and>
    refines (mviews_ok s) (mview_names s) (CreateMaterializedView_state s (n, defn) \<sigma>)
      (spec_create (object_norm s \<sigma> n) (mview_names s \<sigma>)) \<and>
    refines (mviews_ok s) (mview_names s) (DropMaterializedView s n \<sigma>)
      (spec_drop (object_norm s \<sigma> n) (mview_names s \<sigma>))"
  unfolding refines_def
  by (intro conjI impI tab_refines vw_refines mvw_refines assms)

theorem schema_ops_refine_witness:
  "refines (tables_ok 1) (table_names 1) (CreateTable_state 1 ''t'' new_schema) (Some [''t''])"
proof -
  have "spec_create (object_norm 1 new_schema ''t'') (table_names 1 new_schema) = Some [''t'']" by code_simp
  with schema_ops_refine [OF new_schema_ok, of "''t''"] show ?thesis by simp
qed


section \<open>Columns and indexes together\<close>

text \<open>The whole table: columns, indexes, and a map of indexes with one entry for each key.\<close>

definition table_coherent :: "ref \<Rightarrow> store \<Rightarrow> bool" where
  "table_coherent t \<sigma> \<longleftrightarrow> columns_ok t \<sigma> \<and> indexes_ok t \<sigma> \<and> distinct (map fst (to_internalIndexes (tableOf \<sigma> t)))"

lemma indexes_frame:
  assumes "indexes_ok t \<sigma>" "index_refs t \<sigma>' = index_refs t \<sigma>" "index_lookup t \<sigma>' = index_lookup t \<sigma>"
    "index_key t \<sigma>' = index_key t \<sigma>" "next_ref \<sigma> \<le> next_ref \<sigma>'"
  shows "indexes_ok t \<sigma>'"
  using assms by (auto simp: indexes_ok_def indexes_valid_def)

lemma columns_frame:
  assumes "columns_ok t \<sigma>" "column_refs t \<sigma>' = column_refs t \<sigma>" "column_lookup t \<sigma>' = column_lookup t \<sigma>"
    "column_key t \<sigma>' = column_key t \<sigma>" "next_ref \<sigma> \<le> next_ref \<sigma>'"
  shows "columns_ok t \<sigma>'"
  using assms by (auto simp: columns_ok_def columns_valid_def)

text \<open>The loop over the index map applies \<open>f\<close> once to each index in it.\<close>

lemma map_index_expressions_effect:
  "distinct (map (io_proto \<circ> snd) m) \<Longrightarrow>
   idx_expressions (the (indexes (map_index_expressions f m \<sigma>) r)) =
   (if r \<in> (io_proto \<circ> snd) ` set m then f (idx_expressions (the (indexes \<sigma> r)))
    else idx_expressions (the (indexes \<sigma> r)))"
proof (induction m arbitrary: \<sigma>)
  case (Cons a m)
  define i where "i = io_proto (snd a)"
  define \<sigma>1 where "\<sigma>1 = map_index_expressions f [a] \<sigma>"
  have ni: "i \<notin> (io_proto \<circ> snd) ` set m" and d: "distinct (map (io_proto \<circ> snd) m)"
    using Cons.prems unfolding list.map distinct.simps i_def by (simp_all only: set_map comp_def, simp_all)
  have step: "map_index_expressions f (a # m) \<sigma> = map_index_expressions f m \<sigma>1"
    by (cases a) (simp add: \<sigma>1_def map_index_expressions_def)
  have one: "idx_expressions (the (indexes \<sigma>1 r)) =
      (if r = i then f (idx_expressions (the (indexes \<sigma> r))) else idx_expressions (the (indexes \<sigma> r)))"
    by (cases a) (simp add: \<sigma>1_def i_def map_index_expressions_def Let_def)
  have "(io_proto \<circ> snd) ` set (a # m) = insert i ((io_proto \<circ> snd) ` set m)" by (simp add: i_def)
  then show ?case unfolding step Cons.IH [OF d] one using ni by auto
qed simp

lemma index_map_protos:
  assumes "indexes_ok t \<sigma>" "distinct (map fst (to_internalIndexes (tableOf \<sigma> t)))"
  shows "distinct (map (io_proto \<circ> snd) (to_internalIndexes (tableOf \<sigma> t)))"
    and "(io_proto \<circ> snd) ` set (to_internalIndexes (tableOf \<sigma> t)) = set (index_refs t \<sigma>)"
proof -
  let ?m = "to_internalIndexes (tableOf \<sigma> t)"
  have co: "coherent (index_key t \<sigma>) (index_refs t \<sigma>) (index_lookup t \<sigma>)"
    using assms(1) by (simp add: indexes_ok_def)
  have lk: "index_lookup t \<sigma> k = Some (io_proto i)" if "(k, i) \<in> set ?m" for k i
    using that assms(2) by (simp add: index_lookup_def)
  then have key: "io_proto i \<in> set (index_refs t \<sigma>) \<and> index_key t \<sigma> (io_proto i) = k" if "(k, i) \<in> set ?m" for k i
    using that coherent_Some_iff [OF co] by blast
  have "inj_on (io_proto \<circ> snd) (set ?m)"
  proof (rule inj_onI)
    fix x y assume xy: "x \<in> set ?m" "y \<in> set ?m" and eq: "(io_proto \<circ> snd) x = (io_proto \<circ> snd) y"
    obtain k i l j where x: "x = (k, i)" and y: "y = (l, j)" by fastforce
    from key [of k i] key [of l j] xy eq have "k = l" by (simp add: x y)
    with xy assms(2) show "x = y" unfolding x y by (metis eq_key_imp_eq_value)
  qed
  then show "distinct (map (io_proto \<circ> snd) ?m)"
    using assms(2) by (simp add: distinct_map)
  show "(io_proto \<circ> snd) ` set ?m = set (index_refs t \<sigma>)"
  proof
    show "(io_proto \<circ> snd) ` set ?m \<subseteq> set (index_refs t \<sigma>)" using key by auto
  next
    show "set (index_refs t \<sigma>) \<subseteq> (io_proto \<circ> snd) ` set ?m"
    proof
      fix r assume "r \<in> set (index_refs t \<sigma>)"
      then have "index_lookup t \<sigma> (index_key t \<sigma> r) = Some r" using coherent_Some_iff [OF co] by blast
      then obtain i where "map_of ?m (index_key t \<sigma> r) = Some i" "io_proto i = r"
        by (auto simp: index_lookup_def)
      then show "r \<in> (io_proto \<circ> snd) ` set ?m" by (force dest: map_of_SomeD)
    qed
  qed
qed

lemma map_of_foldl_delete:
  "map_of (foldl (\<lambda>m k. AList.delete k m) m ks) k = (if k \<in> set ks then None else map_of m k)"
  by (induction ks arbitrary: m) (auto simp: delete_conv')

lemma distinct_foldl_delete: "distinct (map fst m) \<Longrightarrow> distinct (map fst (foldl (\<lambda>m k. AList.delete k m) m ks))"
  by (induction ks arbitrary: m) (auto simp: distinct_delete)

lemma remove_empty_indexes_ok:
  assumes "indexes_ok t \<sigma>" "distinct (map fst (to_internalIndexes (tableOf \<sigma> t)))"
  shows "indexes_ok t (remove_empty_indexes t \<sigma>)"
proof -
  let ?p = "\<lambda>r. idx_expressions (the (indexes \<sigma> r)) \<noteq> []"
  let ?m = "to_internalIndexes (tableOf \<sigma> t)"
  have mem: "k \<in> fst ` {x \<in> set ?m. case x of (_, i) \<Rightarrow> \<not> ?p (io_proto i)} \<longleftrightarrow>
      (\<exists>i. map_of ?m k = Some i \<and> \<not> ?p (io_proto i))" for k
    using assms(2) by (force dest: map_of_SomeD)
  have "index_lookup t (remove_empty_indexes t \<sigma>) k =
      (case index_lookup t \<sigma> k of None \<Rightarrow> None | Some r \<Rightarrow> if ?p r then Some r else None)" for k
    using mem [of k] by (cases "map_of ?m k") (auto simp: index_lookup_def store_simps map_of_foldl_delete)
  moreover have "coherent (index_key t \<sigma>) (index_refs t \<sigma>) (index_lookup t \<sigma>)"
    using assms(1) by (simp add: indexes_ok_def)
  ultimately have "coherent (index_key t \<sigma>) (filter ?p (index_refs t \<sigma>)) (index_lookup t (remove_empty_indexes t \<sigma>))"
    by (rule coherent_filter [rotated])
  moreover have "index_refs t (remove_empty_indexes t \<sigma>) = filter ?p (index_refs t \<sigma>)"
    "index_key t (remove_empty_indexes t \<sigma>) = index_key t \<sigma>"
    by (simp_all add: index_defs store_simps fun_eq_iff)
  ultimately show ?thesis
    using assms(1) by (auto simp: indexes_ok_def indexes_valid_def store_simps)
qed

lemma dropColumnInternal_state:
  assumes "dropColumnInternal t n b \<sigma> = Inr \<sigma>'"
  obtains \<sigma>3 where "\<sigma>' = remove_empty_indexes t \<sigma>3"
    and "index_refs t \<sigma>3 = index_refs t \<sigma>" "index_lookup t \<sigma>3 = index_lookup t \<sigma>"
    and "index_key t \<sigma>3 = index_key t \<sigma>" "next_ref \<sigma>3 = next_ref \<sigma>"
    and "to_internalIndexes (tableOf \<sigma>3 t) = to_internalIndexes (tableOf \<sigma> t)"
    and "indexes \<sigma>3 = indexes (map_index_expressions (filter (\<lambda>e. detail_norm t \<sigma> e \<noteq> detail_norm t \<sigma> n))
           (to_internalIndexes (tableOf \<sigma> t)) \<sigma>)"
proof -
  have ix: "indexes (map_index_expressions f m \<sigma>1) = indexes (map_index_expressions f m \<sigma>2)"
    if "indexes \<sigma>1 = indexes \<sigma>2" for f m \<sigma>1 \<sigma>2
    using that by (induction m arbitrary: \<sigma>1 \<sigma>2) auto
  define \<sigma>1 where "\<sigma>1 = remove_column t n \<sigma>"
  define \<sigma>2 where "\<sigma>2 = (if b then renumber 0 (tp_columns (protoOf \<sigma>1 t)) \<sigma>1 else \<sigma>1)"
  define \<sigma>3 where "\<sigma>3 = map_index_expressions (filter (\<lambda>expr. \<not> same_name (detail_cs \<sigma> t) expr n))
      (to_internalIndexes (tableOf \<sigma>2 t)) \<sigma>2"
  have proj: "tables \<sigma>2 = tables \<sigma>1" "tableProtos \<sigma>2 = tableProtos \<sigma>1" "indexes \<sigma>2 = indexes \<sigma>"
    "next_ref \<sigma>2 = next_ref \<sigma>"
    by (simp_all add: \<sigma>2_def \<sigma>1_def store_simps)
  have "\<sigma>' = remove_empty_indexes t \<sigma>3"
    using assms by (auto simp: dropColumnInternal_def Let_def \<sigma>1_def \<sigma>2_def \<sigma>3_def split: if_splits)
  moreover have "index_refs t \<sigma>3 = index_refs t \<sigma>" "index_lookup t \<sigma>3 = index_lookup t \<sigma>"
    "index_key t \<sigma>3 = index_key t \<sigma>" "next_ref \<sigma>3 = next_ref \<sigma>"
    "to_internalIndexes (tableOf \<sigma>3 t) = to_internalIndexes (tableOf \<sigma> t)"
    by (simp_all add: \<sigma>3_def index_defs store_simps proj fun_eq_iff) (simp_all add: \<sigma>1_def store_simps)
  moreover have "to_internalIndexes (tableOf \<sigma>2 t) = to_internalIndexes (tableOf \<sigma> t)"
    by (simp add: proj) (simp add: \<sigma>1_def store_simps)
  then have "indexes \<sigma>3 = indexes (map_index_expressions (filter (\<lambda>e. detail_norm t \<sigma> e \<noteq> detail_norm t \<sigma> n))
           (to_internalIndexes (tableOf \<sigma> t)) \<sigma>)"
    unfolding \<sigma>3_def using ix [OF proj(3)] by (simp add: same_name_iff detail_norm_def)
  ultimately show ?thesis by (rule that)
qed

lemma index_map_unchanged:
  "to_internalIndexes (tableOf (renumber i rs \<sigma>) t) = to_internalIndexes (tableOf \<sigma> t)"
  "to_internalIndexes (tableOf (remove_column t n \<sigma>) t) = to_internalIndexes (tableOf \<sigma> t)"
  by (simp_all add: store_simps)

text \<open>Each operation keeps the table in order.\<close>

lemma CreateColumn_coherent:
  assumes "table_coherent t \<sigma>" "CreateColumn t c cat \<sigma> = Inr \<sigma>'"
  shows "table_coherent t \<sigma>'"
proof -
  have ok: "columns_ok t \<sigma>" "indexes_ok t \<sigma>" "distinct (map fst (to_internalIndexes (tableOf \<sigma> t)))"
    using assms(1) by (simp_all add: table_coherent_def)
  have fr: "index_refs t \<sigma>' = index_refs t \<sigma>" "index_lookup t \<sigma>' = index_lookup t \<sigma>"
    "index_key t \<sigma>' = index_key t \<sigma>" "next_ref \<sigma> \<le> next_ref \<sigma>'"
    "to_internalIndexes (tableOf \<sigma>' t) = to_internalIndexes (tableOf \<sigma> t)"
    using assms(2) by (auto simp: CreateColumn_def Let_def store_simps index_defs fun_eq_iff split: if_splits)
  have "columns_ok t \<sigma>'" using col_refines(1) [OF ok(1), of c cat] assms(2) by simp
  with indexes_frame [OF ok(2) fr(1-4)] ok(3) fr(5) show ?thesis by (simp add: table_coherent_def)
qed

lemma dropColumnInternal_coherent:
  assumes "table_coherent t \<sigma>" "dropColumnInternal t n b \<sigma> = Inr \<sigma>'"
  shows "table_coherent t \<sigma>'"
proof -
  have ok: "columns_ok t \<sigma>" "indexes_ok t \<sigma>" "distinct (map fst (to_internalIndexes (tableOf \<sigma> t)))"
    using assms(1) by (simp_all add: table_coherent_def)
  obtain \<sigma>3 where \<sigma>': "\<sigma>' = remove_empty_indexes t \<sigma>3"
    and fr: "index_refs t \<sigma>3 = index_refs t \<sigma>" "index_lookup t \<sigma>3 = index_lookup t \<sigma>"
      "index_key t \<sigma>3 = index_key t \<sigma>" "next_ref \<sigma>3 = next_ref \<sigma>"
      "to_internalIndexes (tableOf \<sigma>3 t) = to_internalIndexes (tableOf \<sigma> t)"
    using dropColumnInternal_state [OF assms(2)] by metis
  have "indexes_ok t \<sigma>3" using indexes_frame [OF ok(2) fr(1-3)] fr(4) by simp
  then have "indexes_ok t \<sigma>'" unfolding \<sigma>' using ok(3) fr(5) by (intro remove_empty_indexes_ok) simp_all
  moreover have "columns_ok t \<sigma>'"
    using col_refines(2,3) [OF ok(1), of n] assms(2)
    by (cases b) (simp_all add: DropColumn_def DropColumnWithoutRenumbering_def)
  moreover have "distinct (map fst (to_internalIndexes (tableOf \<sigma>' t)))"
    using ok(3) fr(5) by (simp add: \<sigma>' store_simps distinct_foldl_delete)
  ultimately show ?thesis by (simp add: table_coherent_def)
qed

lemma DropColumnWithoutUpdatingIndexes_coherent:
  assumes "table_coherent t \<sigma>" "DropColumnWithoutUpdatingIndexes t n \<sigma> = Inr \<sigma>'"
  shows "table_coherent t \<sigma>'"
proof -
  have ok: "columns_ok t \<sigma>" "indexes_ok t \<sigma>" "distinct (map fst (to_internalIndexes (tableOf \<sigma> t)))"
    using assms(1) by (simp_all add: table_coherent_def)
  have \<sigma>': "\<sigma>' = remove_column t n \<sigma>"
    using assms(2) by (auto simp: DropColumnWithoutUpdatingIndexes_def split: if_splits)
  have "indexes_ok t \<sigma>'"
    by (rule indexes_frame [OF ok(2)]) (simp_all add: \<sigma>' store_simps index_defs fun_eq_iff)
  moreover have "columns_ok t \<sigma>'" using col_refines(4) [OF ok(1), of n] assms(2) by simp
  ultimately show ?thesis using ok(3) index_map_unchanged(2) by (simp add: table_coherent_def \<sigma>')
qed

text \<open>What a rename does, apart from the columns themselves.\<close>

lemma RenameColumn_state:
  assumes "RenameColumn t n n' \<sigma> = Inr \<sigma>'" "n \<noteq> n'"
  shows "index_refs t \<sigma>' = index_refs t \<sigma>" "index_lookup t \<sigma>' = index_lookup t \<sigma>"
    "index_key t \<sigma>' = index_key t \<sigma>" "next_ref \<sigma>' = next_ref \<sigma>"
    "to_internalIndexes (tableOf \<sigma>' t) = to_internalIndexes (tableOf \<sigma> t)"
    "\<exists>\<sigma>1. indexes \<sigma>1 = indexes \<sigma> \<and> indexes \<sigma>' = indexes (map_index_expressions
        (map (\<lambda>e. if detail_norm t \<sigma> e = detail_norm t \<sigma> n then n' else e)) (to_internalIndexes (tableOf \<sigma> t)) \<sigma>1)"
proof -
  obtain \<sigma>1 where \<sigma>': "\<sigma>' = map_index_expressions
        (map (\<lambda>e. if detail_norm t \<sigma> e = detail_norm t \<sigma> n then n' else e)) (to_internalIndexes (tableOf \<sigma> t)) \<sigma>1"
    and e: "indexes \<sigma>1 = indexes \<sigma>" "tableProtos \<sigma>1 = tableProtos \<sigma>" "next_ref \<sigma>1 = next_ref \<sigma>"
      "to_internalIndexes (tableOf \<sigma>1 t) = to_internalIndexes (tableOf \<sigma> t)"
      "to_proto (tableOf \<sigma>1 t) = to_proto (tableOf \<sigma> t)" "detail_cs \<sigma>1 t = detail_cs \<sigma> t"
    using assms
    by (fastforce simp: RenameColumn_def Let_def store_simps same_name_iff detail_norm_def
        split: option.splits if_splits)
  show "index_refs t \<sigma>' = index_refs t \<sigma>" "index_lookup t \<sigma>' = index_lookup t \<sigma>"
    "index_key t \<sigma>' = index_key t \<sigma>" "next_ref \<sigma>' = next_ref \<sigma>"
    "to_internalIndexes (tableOf \<sigma>' t) = to_internalIndexes (tableOf \<sigma> t)"
    by (simp_all add: \<sigma>' index_defs store_simps e fun_eq_iff)
  show "\<exists>\<sigma>1. indexes \<sigma>1 = indexes \<sigma> \<and> indexes \<sigma>' = indexes (map_index_expressions
        (map (\<lambda>e. if detail_norm t \<sigma> e = detail_norm t \<sigma> n then n' else e)) (to_internalIndexes (tableOf \<sigma> t)) \<sigma>1)"
    using \<sigma>' e(1) by blast
qed

lemma RenameColumn_coherent:
  assumes "table_coherent t \<sigma>" "RenameColumn t n n' \<sigma> = Inr \<sigma>'"
  shows "table_coherent t \<sigma>'"
proof (cases "n = n'")
  case True
  with assms show ?thesis by (simp add: RenameColumn_def)
next
  case False
  have ok: "columns_ok t \<sigma>" "indexes_ok t \<sigma>" "distinct (map fst (to_internalIndexes (tableOf \<sigma> t)))"
    using assms(1) by (simp_all add: table_coherent_def)
  note fr = RenameColumn_state [OF assms(2) False]
  have "columns_ok t \<sigma>'" using col_refines(5) [OF ok(1) False] assms(2) by simp
  with indexes_frame [OF ok(2) fr(1-3)] ok(3) fr(4,5) show ?thesis by (simp add: table_coherent_def)
qed

lemma index_op_frame:
  assumes "columns_ok t \<sigma>"
    and "CreateIndex t i \<sigma> = Inr \<sigma>' \<or> DropIndex t n \<sigma> = Inr \<sigma>' \<or> RenameIndex t n n' \<sigma> = Inr \<sigma>'"
  shows "columns_ok t \<sigma>'"
  using assms(2)
  by (intro columns_frame [OF assms(1)])
    (auto simp: CreateIndex_def DropIndex_def RenameIndex_def Let_def store_simps
      column_defs fun_eq_iff split: option.splits if_splits)

lemma index_op_distinct:
  assumes "distinct (map fst (to_internalIndexes (tableOf \<sigma> t)))"
  shows "CreateIndex t i \<sigma> = Inr \<sigma>' \<Longrightarrow> distinct (map fst (to_internalIndexes (tableOf \<sigma>' t)))"
    and "DropIndex t n \<sigma> = Inr \<sigma>' \<Longrightarrow> distinct (map fst (to_internalIndexes (tableOf \<sigma>' t)))"
    and "RenameIndex t n n' \<sigma> = Inr \<sigma>' \<Longrightarrow> distinct (map fst (to_internalIndexes (tableOf \<sigma>' t)))"
  using assms
  by (auto simp: CreateIndex_def DropIndex_def RenameIndex_def Let_def store_simps distinct_update distinct_delete
      split: option.splits if_splits)

lemma index_ops_coherent:
  assumes "table_coherent t \<sigma>"
  shows "CreateIndex t i \<sigma> = Inr \<sigma>' \<Longrightarrow> table_coherent t \<sigma>'"
    and "DropIndex t n \<sigma> = Inr \<sigma>' \<Longrightarrow> table_coherent t \<sigma>'"
    and "RenameIndex t n n' \<sigma> = Inr \<sigma>' \<Longrightarrow> table_coherent t \<sigma>'"
proof -
  have ok: "columns_ok t \<sigma>" "indexes_ok t \<sigma>" "distinct (map fst (to_internalIndexes (tableOf \<sigma> t)))"
    using assms by (simp_all add: table_coherent_def)
  show "CreateIndex t i \<sigma> = Inr \<sigma>' \<Longrightarrow> table_coherent t \<sigma>'"
    using idx_refines(1) [OF ok(2), of i] index_op_frame [OF ok(1), of i] index_op_distinct(1) [OF ok(3), of i]
    by (simp add: table_coherent_def)
  show "DropIndex t n \<sigma> = Inr \<sigma>' \<Longrightarrow> table_coherent t \<sigma>'"
    using idx_refines(2) [OF ok(2), of n] index_op_frame [OF ok(1), of _ _ n] index_op_distinct(2) [OF ok(3), of n]
    by (simp add: table_coherent_def)
  show "table_coherent t \<sigma>'" if r: "RenameIndex t n n' \<sigma> = Inr \<sigma>'"
  proof (cases "n = n'")
    case True
    with r assms show ?thesis by (simp add: RenameIndex_def)
  next
    case False
    with idx_refines(3) [OF ok(2) False] r index_op_frame [OF ok(1), of _ _ n n'] index_op_distinct(3) [OF ok(3) r]
    show ?thesis by (simp add: table_coherent_def)
  qed
qed


section \<open>Sequences of operations\<close>

text \<open>One successful call on the table \<open>t\<close>.\<close>

inductive table_step :: "ref \<Rightarrow> store \<Rightarrow> store \<Rightarrow> bool" for t :: ref where
  create_column: "CreateColumn t c catalog \<sigma> = Inr \<sigma>' \<Longrightarrow> table_step t \<sigma> \<sigma>'"
| drop_column: "DropColumn t n \<sigma> = Inr \<sigma>' \<Longrightarrow> table_step t \<sigma> \<sigma>'"
| drop_column_keep_positions: "DropColumnWithoutRenumbering t n \<sigma> = Inr \<sigma>' \<Longrightarrow> table_step t \<sigma> \<sigma>'"
| drop_column_keep_indexes: "DropColumnWithoutUpdatingIndexes t n \<sigma> = Inr \<sigma>' \<Longrightarrow> table_step t \<sigma> \<sigma>'"
| rename_column: "RenameColumn t n n' \<sigma> = Inr \<sigma>' \<Longrightarrow> table_step t \<sigma> \<sigma>'"
| create_index: "CreateIndex t i \<sigma> = Inr \<sigma>' \<Longrightarrow> table_step t \<sigma> \<sigma>'"
| drop_index: "DropIndex t n \<sigma> = Inr \<sigma>' \<Longrightarrow> table_step t \<sigma> \<sigma>'"
| rename_index: "RenameIndex t n n' \<sigma> = Inr \<sigma>' \<Longrightarrow> table_step t \<sigma> \<sigma>'"

inductive_cases table_stepE: "table_step t \<sigma> \<sigma>'"

lemma table_step_coherent: "table_step t \<sigma> \<sigma>' \<Longrightarrow> table_coherent t \<sigma> \<Longrightarrow> table_coherent t \<sigma>'"
  by (erule table_stepE)
    (auto simp: DropColumn_def DropColumnWithoutRenumbering_def intro: CreateColumn_coherent dropColumnInternal_coherent
      DropColumnWithoutUpdatingIndexes_coherent RenameColumn_coherent index_ops_coherent)

lemma table_steps_coherent: "(table_step t)\<^sup>*\<^sup>* \<sigma> \<sigma>' \<Longrightarrow> table_coherent t \<sigma> \<Longrightarrow> table_coherent t \<sigma>'"
  by (induction rule: rtranclp_induct) (auto intro: table_step_coherent)

lemma CreateTable_coherent: "CreateTable s n \<sigma> = Inr (t, \<sigma>') \<Longrightarrow> table_coherent t \<sigma>'"
  by (auto simp: CreateTable_def Let_def table_coherent_def columns_ok_def indexes_ok_def coherent_def
      column_defs index_defs store_simps split: if_splits)

text \<open>
  C11. A table made by \<open>CreateTable\<close> and then changed by any sequence of column and index operations
  never holds two columns or two indexes of one normalized name, and its lookup maps find exactly the
  columns and indexes that its message lists.
\<close>
theorem table_operations_coherent:
  assumes "CreateTable s n \<sigma> = Inr (t, \<sigma>0)" "(table_step t)\<^sup>*\<^sup>* \<sigma>0 \<sigma>'"
  shows "distinct (column_names t \<sigma>') \<and> distinct (index_names t \<sigma>') \<and>
    (\<forall>k r. column_lookup t \<sigma>' k = Some r \<longleftrightarrow> r \<in> set (column_refs t \<sigma>') \<and> column_key t \<sigma>' r = k) \<and>
    (\<forall>k r. index_lookup t \<sigma>' k = Some r \<longleftrightarrow> r \<in> set (index_refs t \<sigma>') \<and> index_key t \<sigma>' r = k)"
proof -
  have "table_coherent t \<sigma>'"
    by (rule table_steps_coherent [OF assms(2) CreateTable_coherent [OF assms(1)]])
  then have co: "coherent (column_key t \<sigma>') (column_refs t \<sigma>') (column_lookup t \<sigma>')"
    "coherent (index_key t \<sigma>') (index_refs t \<sigma>') (index_lookup t \<sigma>')"
    by (simp_all add: table_coherent_def columns_ok_def indexes_ok_def)
  show ?thesis
    using coherent_distinct [OF co(1)] coherent_distinct [OF co(2)] coherent_Some_iff [OF co(1)]
      coherent_Some_iff [OF co(2)] by (simp add: column_names_def index_names_def)
qed

definition column_named :: "string \<Rightarrow> storepb_ColumnMetadata" where
  "column_named n = zero_ColumnMetadata\<lparr>col_name := n\<rparr>"

definition index_on :: "string \<Rightarrow> string list \<Rightarrow> storepb_IndexMetadata" where
  "index_on n es = zero_IndexMetadata\<lparr>idx_name := n, idx_expressions := es\<rparr>"

text \<open>The table \<open>T(a, b)\<close> with an index on \<open>a\<close> and one on both columns.\<close>

definition t_created :: store where "t_created = snd (projr (CreateTable 1 ''T'' new_schema))"
definition t_a :: store where "t_a = projr (CreateColumn 11 (column_named ''a'') None t_created)"
definition t_ab :: store where "t_ab = projr (CreateColumn 11 (column_named ''b'') None t_a)"
definition t_i :: store where "t_i = projr (CreateIndex 11 (index_on ''i'' [''a'']) t_ab)"
definition t_ij :: store where "t_ij = projr (CreateIndex 11 (index_on ''j'' [''a'', ''b'']) t_i)"

lemma Inr_projr: "(\<not> isl r) \<Longrightarrow> r = Inr (projr r)"
  by (cases r) simp_all

lemma example_calls:
  "CreateTable 1 ''T'' new_schema = Inr (11, t_created)"
  "CreateColumn 11 (column_named ''a'') None t_created = Inr t_a"
  "CreateColumn 11 (column_named ''b'') None t_a = Inr t_ab"
  "CreateIndex 11 (index_on ''i'' [''a'']) t_ab = Inr t_i"
  "CreateIndex 11 (index_on ''j'' [''a'', ''b'']) t_i = Inr t_ij"
proof -
  have "\<not> isl (CreateTable 1 ''T'' new_schema) \<and> fst (projr (CreateTable 1 ''T'' new_schema)) = 11" by code_simp
  then show "CreateTable 1 ''T'' new_schema = Inr (11, t_created)"
    unfolding t_created_def by (cases "CreateTable 1 ''T'' new_schema") auto
  show "CreateColumn 11 (column_named ''a'') None t_created = Inr t_a" unfolding t_a_def by (rule Inr_projr) code_simp
  show "CreateColumn 11 (column_named ''b'') None t_a = Inr t_ab" unfolding t_ab_def by (rule Inr_projr) code_simp
  show "CreateIndex 11 (index_on ''i'' [''a'']) t_ab = Inr t_i" unfolding t_i_def by (rule Inr_projr) code_simp
  show "CreateIndex 11 (index_on ''j'' [''a'', ''b'']) t_i = Inr t_ij" unfolding t_ij_def by (rule Inr_projr) code_simp
qed

lemma example_steps: "(table_step 11)\<^sup>*\<^sup>* t_created t_ij"
  using example_calls(2-5) by (meson converse_rtranclp_into_rtranclp rtranclp.rtrancl_refl table_step.intros)

lemma example_coherent: "table_coherent 11 t_ij"
  by (rule table_steps_coherent [OF example_steps CreateTable_coherent [OF example_calls(1)]])

theorem table_operations_coherent_witness:
  "distinct (column_names 11 t_ij) \<and> index_names 11 t_ij = [''i'', ''j'']"
proof
  show "distinct (column_names 11 t_ij)"
    using table_operations_coherent [OF example_calls(1) example_steps] by blast
  show "index_names 11 t_ij = [''i'', ''j'']" by code_simp
qed


section \<open>Dropping and renaming a column\<close>

abbreviation expressions :: "store \<Rightarrow> ref \<Rightarrow> string list" where
  "expressions \<sigma> r \<equiv> idx_expressions (the (indexes \<sigma> r))"

lemma renumber_frame: "r \<notin> set rs \<Longrightarrow> columns (renumber i rs \<sigma>) r = columns \<sigma> r"
  by (induction rs arbitrary: i \<sigma>) simp_all

lemma renumber_position:
  "distinct rs \<Longrightarrow> j < length rs \<Longrightarrow> col_position (the (columns (renumber i rs \<sigma>) (rs ! j))) = of_nat (Suc (i + j))"
proof (induction rs arbitrary: i j \<sigma>)
  case (Cons r rs)
  then show ?case by (cases j) (simp_all add: renumber_frame)
qed simp

lemma map_index_expressions_table:
  assumes "table_coherent t \<sigma>" "indexes \<sigma>1 = indexes \<sigma>" "r \<in> set (index_refs t \<sigma>)"
  shows "expressions (map_index_expressions f (to_internalIndexes (tableOf \<sigma> t)) \<sigma>1) r = f (expressions \<sigma> r)"
proof -
  note m = index_map_protos [of t \<sigma>]
  show ?thesis
    unfolding map_index_expressions_effect [OF m(1)]
    using assms m by (simp add: table_coherent_def map_index_expressions_effect)
qed

lemma dropColumn_positions:
  assumes "columns_ok t \<sigma>" "DropColumn t n \<sigma> = Inr \<sigma>'" "j < length (column_refs t \<sigma>')"
  shows "col_position (the (columns \<sigma>' (column_refs t \<sigma>' ! j))) = of_nat (Suc j)"
proof -
  let ?rs = "column_refs t (remove_column t n \<sigma>)"
  have "columns \<sigma>' = columns (renumber 0 ?rs (remove_column t n \<sigma>))" "column_refs t \<sigma>' = ?rs"
    using assms(2)
    by (auto simp: DropColumn_def dropColumnInternal_def Let_def store_simps column_refs_def split: if_splits)
  moreover have "distinct ?rs"
    using assms(1) remove_column_effect [OF _ refl, of t \<sigma> n]
    by (auto simp: columns_ok_def coherent_def)
  ultimately show ?thesis using assms(3) renumber_position [of ?rs j 0] by simp
qed

text \<open>
  C33. Dropping a column renumbers the columns that remain 1, 2, 3 in their order, takes the column out of
  the expressions of every index of the table, and removes exactly the indexes that are left without any.
\<close>
theorem drop_column_effect:
  assumes "table_coherent t \<sigma>" "DropColumn t n \<sigma> = Inr \<sigma>'"
  shows "(\<forall>j < length (column_refs t \<sigma>'). col_position (the (columns \<sigma>' (column_refs t \<sigma>' ! j))) = of_nat (Suc j)) \<and>
    index_refs t \<sigma>' = filter (\<lambda>r. \<exists>e \<in> set (expressions \<sigma> r). detail_norm t \<sigma> e \<noteq> detail_norm t \<sigma> n) (index_refs t \<sigma>) \<and>
    (\<forall>r \<in> set (index_refs t \<sigma>').
       expressions \<sigma>' r = filter (\<lambda>e. detail_norm t \<sigma> e \<noteq> detail_norm t \<sigma> n) (expressions \<sigma> r))"
proof -
  let ?f = "filter (\<lambda>e. detail_norm t \<sigma> e \<noteq> detail_norm t \<sigma> n)"
  obtain \<sigma>3 where \<sigma>': "\<sigma>' = remove_empty_indexes t \<sigma>3" and refs: "index_refs t \<sigma>3 = index_refs t \<sigma>"
    and idx: "indexes \<sigma>3 = indexes (map_index_expressions ?f (to_internalIndexes (tableOf \<sigma> t)) \<sigma>)"
    using dropColumnInternal_state [OF assms(2) [unfolded DropColumn_def]] by metis
  have ex: "expressions \<sigma>3 r = ?f (expressions \<sigma> r)" if "r \<in> set (index_refs t \<sigma>)" for r
    unfolding idx by (rule map_index_expressions_table [OF assms(1) refl that])
  have "index_refs t \<sigma>' = filter (\<lambda>r. expressions \<sigma>3 r \<noteq> []) (index_refs t \<sigma>)"
    unfolding refs [symmetric] by (simp add: \<sigma>' store_simps index_refs_def)
  then have "index_refs t \<sigma>' = filter (\<lambda>r. \<exists>e \<in> set (expressions \<sigma> r). detail_norm t \<sigma> e \<noteq> detail_norm t \<sigma> n) (index_refs t \<sigma>)"
    by (auto simp: ex filter_empty_conv intro: filter_cong)
  moreover from this have "\<forall>r \<in> set (index_refs t \<sigma>'). expressions \<sigma>' r = ?f (expressions \<sigma> r)"
    using ex by (simp add: \<sigma>' store_simps)
  ultimately show ?thesis
    using dropColumn_positions [OF _ assms(2)] assms(1) by (simp add: table_coherent_def)
qed

definition t_drop :: store where "t_drop = projr (DropColumn 11 ''a'' t_ij)"

theorem drop_column_effect_witness:
  "map (\<lambda>r. (col_name (the (columns t_drop r)), col_position (the (columns t_drop r)))) (column_refs 11 t_drop) = [(''b'', 1)] \<and>
   map (\<lambda>r. (idx_name (the (indexes t_drop r)), expressions t_drop r)) (index_refs 11 t_drop) = [(''j'', [''b''])] \<and>
   index_refs 11 t_drop = filter (\<lambda>r. \<exists>e \<in> set (expressions t_ij r). detail_norm 11 t_ij e \<noteq> detail_norm 11 t_ij ''a'') (index_refs 11 t_ij)"
proof (intro conjI)
  have "DropColumn 11 ''a'' t_ij = Inr t_drop" unfolding t_drop_def by (rule Inr_projr) code_simp
  from drop_column_effect [OF example_coherent this]
  show "index_refs 11 t_drop = filter (\<lambda>r. \<exists>e \<in> set (expressions t_ij r). detail_norm 11 t_ij e \<noteq> detail_norm 11 t_ij ''a'') (index_refs 11 t_ij)"
    by blast
  show "map (\<lambda>r. (col_name (the (columns t_drop r)), col_position (the (columns t_drop r)))) (column_refs 11 t_drop) = [(''b'', 1)]"
    by code_simp
  show "map (\<lambda>r. (idx_name (the (indexes t_drop r)), expressions t_drop r)) (index_refs 11 t_drop) = [(''j'', [''b''])]"
    by code_simp
qed

text \<open>
  Renaming a column keeps every index of the table and puts the new name in place of the old one
  wherever an expression of an index is the column's name, and nowhere else.
\<close>
lemma rename_column_indexes:
  assumes "table_coherent t \<sigma>" "n \<noteq> n'" "RenameColumn t n n' \<sigma> = Inr \<sigma>'"
  shows "index_refs t \<sigma>' = index_refs t \<sigma> \<and>
    (\<forall>r \<in> set (index_refs t \<sigma>). expressions \<sigma>' r =
       map (\<lambda>e. if detail_norm t \<sigma> e = detail_norm t \<sigma> n then n' else e) (expressions \<sigma> r))"
proof -
  note st = RenameColumn_state [OF assms(3,2)]
  obtain \<sigma>1 where "indexes \<sigma>1 = indexes \<sigma>" and idx: "indexes \<sigma>' = indexes (map_index_expressions
      (map (\<lambda>e. if detail_norm t \<sigma> e = detail_norm t \<sigma> n then n' else e)) (to_internalIndexes (tableOf \<sigma> t)) \<sigma>1)"
    using st(6) by blast
  then show ?thesis using st(1) map_index_expressions_table [OF assms(1)] by (simp add: idx)
qed

definition t_rename :: store where "t_rename = projr (RenameColumn 11 ''a'' ''c'' t_ij)"

theorem rename_column_indexes_witness:
  "index_refs 11 t_rename = index_refs 11 t_ij \<and>
   map (expressions t_rename) (index_refs 11 t_rename) = [[''c''], [''c'', ''b'']]"
proof
  have "RenameColumn 11 ''a'' ''c'' t_ij = Inr t_rename" unfolding t_rename_def by (rule Inr_projr) code_simp
  with rename_column_indexes [OF example_coherent, of "''a''" "''c''"]
  show "index_refs 11 t_rename = index_refs 11 t_ij" by simp
  show "map (expressions t_rename) (index_refs 11 t_rename) = [[''c''], [''c'', ''b'']]" by code_simp
qed


section \<open>Where the mutators fall short\<close>

text \<open>
  On a database without case sensitivity, a column or an index, a table or a view cannot be renamed to
  a name that differs from its own in case only: the call reports that the new name already exists.
\<close>
lemma case_rename_refused:
  assumes "n \<noteq> n'" "ToLower n = ToLower n'"
  shows "(\<not> to_isDetailCaseSensitive (tableOf \<sigma> t) \<longrightarrow>
      (lookupColumn \<sigma> t n \<noteq> None \<longrightarrow>
         RenameColumn t n n' \<sigma> = Inl (AlreadyExists KColumn n' (tp_name (protoOf \<sigma> t)))) \<and>
      (lookupIndex \<sigma> t n \<noteq> None \<longrightarrow>
         RenameIndex t n n' \<sigma> = Inl (AlreadyExists KIndex n' (tp_name (protoOf \<sigma> t))))) \<and>
    (\<not> so_isObjectCaseSensitive (schemaOf \<sigma> s) \<longrightarrow>
      (lookupTable \<sigma> s n \<noteq> None \<longrightarrow>
         RenameTable s n n' \<sigma> = Inl (AlreadyExists KTable n' (sp_name (schemaProtoOf \<sigma> s)))) \<and>
      (lookupView \<sigma> s n \<noteq> None \<longrightarrow>
         RenameView s n n' \<sigma> = Inl (AlreadyExists KView n' (sp_name (schemaProtoOf \<sigma> s)))))"
proof -
  have norm: "normalizeNameByCaseSensitivity n False = normalizeNameByCaseSensitivity n' False"
    using assms(2) by (simp add: normalizeNameByCaseSensitivity_def)
  show ?thesis
    using assms(1) norm
    by (auto simp: RenameColumn_def RenameIndex_def RenameTable_def RenameView_def lookupColumn_def lookupIndex_def
        lookupTable_def lookupView_def)
qed

theorem case_rename_refused_witness:
  "RenameColumn 1 ''A'' ''a'' (projr (CreateColumn 1 (column_named ''A'') None (new_table False ''t''))) =
   Inl (AlreadyExists KColumn ''a'' ''t'')"
proof -
  let ?\<sigma> = "projr (CreateColumn 1 (column_named ''A'') None (new_table False ''t''))"
  have "\<not> to_isDetailCaseSensitive (tableOf ?\<sigma> 1)" "lookupColumn ?\<sigma> 1 ''A'' \<noteq> None"
    "tp_name (protoOf ?\<sigma> 1) = ''t''" "ToLower ''A'' = ToLower ''a''" by code_simp+
  with case_rename_refused [of "''A''" "''a''" ?\<sigma> 1] show ?thesis by simp
qed

text \<open>
  Dropping a partitioned table removes the entry of the table but not the entries of its partitions,
  which lead to the same message: the schema goes on listing the table's name.
\<close>
lemma dropped_partitioned_table_listed:
  assumes "lookupTable \<sigma> s n = Some t" "DropTable s n \<sigma> = Inr \<sigma>'"
    and "map_of (so_internalTables (schemaOf \<sigma> s)) k = Some q" "k \<noteq> object_norm s \<sigma> n"
    and "to_proto (tableOf \<sigma> q) = to_proto (tableOf \<sigma> t)"
  shows "lookupTable \<sigma>' s n = None \<and> tp_name (protoOf \<sigma> t) \<in> set (listTableNames \<sigma>' s)"
proof -
  have del: "so_internalTables (schemaOf \<sigma>' s) = AList.delete (object_norm s \<sigma> n) (so_internalTables (schemaOf \<sigma> s))"
    and eq: "tables \<sigma>' = tables \<sigma>" "tableProtos \<sigma>' = tableProtos \<sigma>"
      "so_isObjectCaseSensitive (schemaOf \<sigma>' s) = so_isObjectCaseSensitive (schemaOf \<sigma> s)"
    using assms(1,2) by (auto simp: DropTable_def Let_def store_simps object_norm_def)
  have "(k, q) \<in> set (so_internalTables (schemaOf \<sigma>' s))"
    using assms(3,4) by (intro map_of_SomeD) (simp add: del delete_conv')
  then have "tp_name (protoOf \<sigma> q) \<in> set (listTableNames \<sigma>' s)"
    by (force simp: listTableNames_def eq)
  then show ?thesis
    using assms(5) by (simp add: lookupTable_def del eq delete_conv' object_norm_def)
qed

definition partitioned_store :: store where
  "partitioned_store = empty_store
     \<lparr>tableProtos := [2 \<mapsto> \<lparr>tp_name = ''T'', tp_columns = [], tp_indexes = [], tp_fields = zero_TableMetadata
          \<lparr>tbl_partitions := [TablePartitionMetadata ''T1'' TablePartition_RANGE [] [] [] [] [] [] []]\<rparr>\<rparr>],
      tables := [3 \<mapsto> \<lparr>to_partitionOf = None, to_isDetailCaseSensitive = True, to_internalColumn = [],
                      to_internalIndexes = [], to_proto = 2\<rparr>,
                 4 \<mapsto> \<lparr>to_partitionOf = Some 3, to_isDetailCaseSensitive = True, to_internalColumn = [],
                      to_internalIndexes = [], to_proto = 2\<rparr>],
      schemaProtos := [0 \<mapsto> \<lparr>sp_name = ''public'', sp_tables = [2], sp_views = [], sp_materialized_views = [],
        sp_fields = zero_SchemaMetadata\<rparr>],
      schemas := [1 \<mapsto> \<lparr>so_isObjectCaseSensitive = True, so_isDetailCaseSensitive = True,
        so_internalTables = [(''T'', 3), (''T1'', 4)], so_internalViews = [], so_internalMaterializedView = [],
        so_proto = 0\<rparr>]\<rparr>"

theorem dropped_partitioned_table_listed_witness:
  "''T'' \<in> set (listTableNames (projr (DropTable 1 ''T'' partitioned_store)) 1)"
proof -
  let ?\<sigma> = "partitioned_store"
  have "lookupTable ?\<sigma> 1 ''T'' = Some 3" "map_of (so_internalTables (schemaOf ?\<sigma> 1)) ''T1'' = Some 4"
    "''T1'' \<noteq> object_norm 1 ?\<sigma> ''T''" "to_proto (tableOf ?\<sigma> 4) = to_proto (tableOf ?\<sigma> 3)"
    "tp_name (protoOf ?\<sigma> 3) = ''T''" by code_simp+
  moreover have "DropTable 1 ''T'' ?\<sigma> = Inr (projr (DropTable 1 ''T'' ?\<sigma>))" by (rule Inr_projr) code_simp
  ultimately show ?thesis using dropped_partitioned_table_listed [of ?\<sigma> 1 "''T''" 3] by metis
qed

end
