(* ===== verification/Masker.thy ===== *)
theory Masker
  imports GoRunes
begin

text \<open>
  \<^verbatim>\<open>backend/component/masker/masker.go\<close>: the maskers that hide the values of sensitive columns in
  query results.  Outer \<open>None\<close> is a panic, inner \<open>None\<close> a \<^verbatim>\<open>nil\<close> result.  Text is UTF-8, as in Go: a
  string is its bytes, its characters are \<open>runes\<close>.  What the code takes from packages \<^verbatim>\<open>strconv\<close>
  (shortest decimal form of a float), \<^verbatim>\<open>crypto/md5\<close> and \<^verbatim>\<open>time\<close> (formatting of instants) is a
  parameter, a record of functions; nothing is assumed of it.
\<close>

section \<open>Values\<close>

datatype float32 = Float32 (bits32: "32 word")

record Timestamp =
  ts_seconds :: int64
  ts_nanos :: int32

record RowValue_Timestamp =
  rvt_google_timestamp :: Timestamp
  rvt_accuracy :: int32

record RowValue_TimestampTZ =
  tz_google_timestamp :: Timestamp
  tz_zone :: string
  tz_offset :: int32
  tz_accuracy :: int32

text \<open>\<^verbatim>\<open>structpb.Value\<close>; \<open>PV_nil\<close> is a nil pointer, \<open>PV_unset\<close> a value without a kind.\<close>

datatype structpb_Value =
  PV_nil
| PV_unset
| PV_Null int32
| PV_Number float64
| PV_String string
| PV_Bool bool
| PV_Struct "(string \<times> structpb_Value) list"
| PV_List "structpb_Value list"

datatype RowValue =
  RV_unset
| RV_Null int32
| RV_Bool bool
| RV_Bytes string
| RV_Double float64
| RV_Float float32
| RV_Int32 int32
| RV_Int64 int64
| RV_String string
| RV_Uint32 "32 word"
| RV_Uint64 "64 word"
| RV_Value structpb_Value
| RV_Timestamp RowValue_Timestamp
| RV_TimestampTZ RowValue_TimestampTZ

record MaskData =
  WantBytes :: bool
  Data :: RowValue

text \<open>The getters of a result: zero unless the kind is theirs.\<close>

definition GetNullValue :: "RowValue option \<Rightarrow> int32" where
  "GetNullValue r = (case r of Some (RV_Null n) \<Rightarrow> n | _ \<Rightarrow> 0)"

definition GetDoubleValue :: "RowValue option \<Rightarrow> float64" where
  "GetDoubleValue r = (case r of Some (RV_Double x) \<Rightarrow> x | _ \<Rightarrow> Float64 0)"

definition GetStringValue :: "RowValue option \<Rightarrow> string" where
  "GetStringValue r = (case r of Some (RV_String s) \<Rightarrow> s | _ \<Rightarrow> [])"

definition GetBoolValue :: "RowValue option \<Rightarrow> bool" where
  "GetBoolValue r = (case r of Some (RV_Bool b) \<Rightarrow> b | _ \<Rightarrow> False)"

record library =
  FormatFloat64 :: "float64 \<Rightarrow> string"
  FormatFloat32 :: "float32 \<Rightarrow> string"
  md5_hex :: "string \<Rightarrow> string"
  FormatTimestamp :: "Timestamp \<Rightarrow> string"
  FormatTimestampTZ :: "RowValue_TimestampTZ \<Rightarrow> string"

text \<open>The text of a number, a string or an instant, in the switches of all maskers.\<close>

definition value_text :: "library \<Rightarrow> RowValue \<Rightarrow> string option" where
  "value_text lib v =
     (case v of
        RV_Double x \<Rightarrow> Some (FormatFloat64 lib x)
      | RV_Float x \<Rightarrow> Some (FormatFloat32 lib x)
      | RV_Int32 i \<Rightarrow> Some (FormatInt (sint i))
      | RV_Int64 i \<Rightarrow> Some (FormatInt (sint i))
      | RV_String s \<Rightarrow> Some s
      | RV_Uint32 i \<Rightarrow> Some (FormatUint (unat i))
      | RV_Uint64 i \<Rightarrow> Some (FormatUint (unat i))
      | RV_Timestamp t \<Rightarrow> Some (FormatTimestamp lib (rvt_google_timestamp t))
      | RV_TimestampTZ t \<Rightarrow> Some (FormatTimestampTZ lib t)
      | _ \<Rightarrow> None)"

definition six_stars :: "RowValue option" where
  "six_stars = Some (RV_String ''******'')"


section \<open>Range masker\<close>

record MaskRangeSlice =
  mrs_Start :: int32
  mrs_End :: int32
  mrs_Substitution :: string

definition enableMask :: "MaskRangeSlice list \<Rightarrow> bool" where
  "enableMask ranges = (length ranges > 0)"

definition getValidRangeValue :: "int32 \<Rightarrow> int32 \<Rightarrow> int32" where
  "getValidRangeValue len val =
     (if 0 <=s val then val
      else let resp = len + val + 1 in if resp <s 0 then 0 else resp)"

text \<open>One round of the merging loop.\<close>

definition merge_range :: "int32 \<Rightarrow> MaskRangeSlice list \<Rightarrow> MaskRangeSlice \<Rightarrow> MaskRangeSlice list" where
  "merge_range maxLength merged maskRange =
     (let start = getValidRangeValue maxLength (mrs_Start maskRange);
          end0 = getValidRangeValue maxLength (mrs_End maskRange);
          stop = (if end0 <s start then start + 1 else end0);
          new = \<lparr>mrs_Start = start, mrs_End = stop, mrs_Substitution = mrs_Substitution maskRange\<rparr>
      in if merged = [] then [new]
         else if start <=s mrs_End (last merged)
         then butlast merged @ [(last merged)\<lparr>mrs_End := stop\<rparr>]
         else merged @ [new])"

definition cmp_Start :: "MaskRangeSlice \<Rightarrow> MaskRangeSlice \<Rightarrow> int" where
  "cmp_Start a b =
     (if mrs_Start a <s mrs_Start b then -1 else if mrs_Start b <s mrs_Start a then 1 else 0)"

definition formatRanges :: "MaskRangeSlice list \<Rightarrow> int32 \<Rightarrow> MaskRangeSlice list" where
  "formatRanges ranges maxLength = SortFunc cmp_Start (foldl (merge_range maxLength) [] ranges)"

text \<open>
  The loop of \<open>fRune\<close> and of \<open>fBytes\<close>, which differ in the type of element and in the conversion
  of the substitution.  A \<open>break\<close> returns the state, a slice out of range is a panic.
\<close>

fun range_loop ::
  "(string \<Rightarrow> 'a list) \<Rightarrow> 'a list \<Rightarrow> MaskRangeSlice list \<Rightarrow> int \<Rightarrow> 'a list \<Rightarrow> ('a list \<times> int) option" where
  "range_loop conv s [] prevEnd ret = Some (ret, prevEnd)"
| "range_loop conv s (r # rs) prevEnd ret =
     (if int (length s) \<le> prevEnd then Some (ret, prevEnd)
      else
        let start = sint (mrs_Start r);
            stop = (if int (length s) < start then int (length s) else start)
        in if prevEnd < 0 \<or> stop < prevEnd then None
           else
             let ret1 = ret @ take (nat (stop - prevEnd)) (drop (nat prevEnd) s)
             in if stop = int (length s) then Some (ret1, stop)
                else range_loop conv s rs (min (int (length s)) (sint (mrs_End r)))
                       (ret1 @ conv (mrs_Substitution r)))"

definition mask_ranges :: "MaskRangeSlice list \<Rightarrow> (string \<Rightarrow> 'a list) \<Rightarrow> 'a list \<Rightarrow> 'a list option" where
  "mask_ranges ranges conv s =
     (case range_loop conv s (formatRanges ranges (of_nat (length s))) 0 [] of
        None \<Rightarrow> None
      | Some (ret, prevEnd) \<Rightarrow>
          if prevEnd < int (length s)
          then (if prevEnd < 0 then None else Some (ret @ drop (nat prevEnd) s))
          else Some ret)"

definition fRune :: "MaskRangeSlice list \<Rightarrow> rune list \<Rightarrow> rune list option" where
  "fRune ranges s = mask_ranges ranges runes s"

definition fBytes :: "MaskRangeSlice list \<Rightarrow> string \<Rightarrow> string option" where
  "fBytes ranges s = mask_ranges ranges id s"

definition RangeMasker_Mask :: "library \<Rightarrow> MaskRangeSlice list \<Rightarrow> RowValue \<Rightarrow> RowValue option option" where
  "RangeMasker_Mask lib ranges v =
     (if \<not> enableMask ranges then Some (Some v)
      else case v of
        RV_Null n \<Rightarrow> Some (if n = 0 then six_stars else None)
      | RV_Bool _ \<Rightarrow> Some six_stars
      | RV_Bytes b \<Rightarrow> map_option (\<lambda>b. Some (RV_Bytes b)) (fBytes ranges b)
      | _ \<Rightarrow>
          (case value_text lib v of
             None \<Rightarrow> Some None
           | Some s \<Rightarrow> map_option (\<lambda>rs. Some (RV_String (string_of rs))) (fRune ranges (runes s))))"


section \<open>Default range masker\<close>

definition middle :: "'a list \<Rightarrow> 'a list" where
  "middle str =
     (if length str = 0 \<or> length str = 1 then []
      else if length str = 2 \<or> length str = 3
      then take (length str div 2 + 1 - length str div 2) (drop (length str div 2) str)
      else
        let str = (if length str mod 4 \<noteq> 0 then take (length str div 4 * 4) str else str);
            n = length str
        in take (n div 2 - n div 4) (drop (n div 4) str) @
           take (n div 4 * 3 - n div 2) (drop (n div 2) str))"

definition paddingAsterisk :: "string \<Rightarrow> string" where
  "paddingAsterisk t = ''**'' @ t @ ''**''"

definition DefaultRangeMasker_Mask :: "library \<Rightarrow> RowValue \<Rightarrow> RowValue option" where
  "DefaultRangeMasker_Mask lib v =
     (case v of
        RV_Null n \<Rightarrow> if n = 0 then six_stars else Some (RV_String (paddingAsterisk []))
      | RV_Bool _ \<Rightarrow> six_stars
      | RV_Bytes b \<Rightarrow> Some (RV_Bytes (''**'' @ middle b @ ''**''))
      | RV_String s \<Rightarrow> Some (RV_String (paddingAsterisk (string_of (middle (runes s)))))
      | RV_Timestamp t \<Rightarrow> Some (RV_String (middle (FormatTimestamp lib (rvt_google_timestamp t))))
      | RV_TimestampTZ t \<Rightarrow> Some (RV_String (middle (FormatTimestampTZ lib t)))
      | _ \<Rightarrow> Some (RV_String (paddingAsterisk (case value_text lib v of None \<Rightarrow> [] | Some s \<Rightarrow> middle s))))"


section \<open>MD5 masker\<close>

definition MD5Masker_Mask :: "library \<Rightarrow> string \<Rightarrow> RowValue \<Rightarrow> RowValue option" where
  "MD5Masker_Mask lib salt v =
     (let f = (\<lambda>s. md5_hex lib (s @ salt))
      in case v of
        RV_Null n \<Rightarrow> if n = 0 then six_stars else Some (RV_String [])
      | RV_Bool _ \<Rightarrow> six_stars
      | RV_Bytes b \<Rightarrow> Some (RV_String (f b))
      | RV_TimestampTZ t \<Rightarrow> Some (RV_String (middle (FormatTimestampTZ lib t)))
      | _ \<Rightarrow> Some (RV_String (case value_text lib v of None \<Rightarrow> [] | Some s \<Rightarrow> f s)))"


section \<open>Inner and outer masker\<close>

definition InnerOuterMaskerTypeUndefined :: int32 where "InnerOuterMaskerTypeUndefined = 0"
definition InnerOuterMaskerTypeInner :: int32 where "InnerOuterMaskerTypeInner = 1"
definition InnerOuterMaskerTypeOuter :: int32 where "InnerOuterMaskerTypeOuter = 2"

record InnerOuterMasker =
  iom_prefixLen :: int32
  iom_suffixLen :: int32
  iom_maskerType :: int32
  iom_substitution :: string

datatype InnerOuterMask_MaskType = MASK_TYPE_UNSPECIFIED | INNER | OUTER

text \<open>An invalid type is an error.\<close>

definition NewInnerOuterMasker ::
  "InnerOuterMask_MaskType \<Rightarrow> int32 \<Rightarrow> int32 \<Rightarrow> string \<Rightarrow> InnerOuterMask_MaskType + InnerOuterMasker" where
  "NewInnerOuterMasker storeMaskerType prefixLen suffixLen substitution =
     (let new = (\<lambda>maskerType. Inr \<lparr>iom_prefixLen = prefixLen, iom_suffixLen = suffixLen,
            iom_maskerType = maskerType, iom_substitution = substitution\<rparr>)
      in case storeMaskerType of
           INNER \<Rightarrow> new InnerOuterMaskerTypeInner
         | OUTER \<Rightarrow> new InnerOuterMaskerTypeOuter
         | MASK_TYPE_UNSPECIFIED \<Rightarrow> Inl storeMaskerType)"

definition strings_Repeat :: "string \<Rightarrow> nat \<Rightarrow> string" where
  "strings_Repeat s n = concat (replicate n s)"

text \<open>The sum of the margins is an \<open>int32\<close> and may wrap around.\<close>

definition isMarginSumWithinRange :: "InnerOuterMasker \<Rightarrow> nat \<Rightarrow> bool" where
  "isMarginSumWithinRange m lenRange \<longleftrightarrow> iom_prefixLen m + iom_suffixLen m <=s of_nat lenRange"

definition isMarginNegetive :: "InnerOuterMasker \<Rightarrow> bool" where
  "isMarginNegetive m \<longleftrightarrow> sint (iom_prefixLen m) < 0 \<or> sint (iom_suffixLen m) < 0"

definition maskInner :: "InnerOuterMasker \<Rightarrow> rune list \<Rightarrow> string" where
  "maskInner m data =
     (let maxSuffixLen = int (length data) - sint (iom_prefixLen m);
          maskLen = maxSuffixLen - sint (iom_suffixLen m)
      in if 0 < maskLen
         then string_of (take (nat (sint (iom_prefixLen m))) data) @
              strings_Repeat (iom_substitution m) (nat maskLen) @
              string_of (drop (nat (sint (iom_prefixLen m + of_int maskLen))) data)
         else string_of data)"

definition maskOuter :: "InnerOuterMasker \<Rightarrow> rune list \<Rightarrow> string" where
  "maskOuter m data =
     (let maxSuffixLen = int (length data) - sint (iom_prefixLen m);
          dataLen = maxSuffixLen - sint (iom_suffixLen m)
      in if 0 < dataLen
         then let dataStartIdx = sint (iom_prefixLen m);
                  dataEndIdx = sint (iom_prefixLen m + of_int dataLen)
              in strings_Repeat (iom_substitution m) (nat (sint (iom_prefixLen m))) @
                 string_of (take (nat (dataEndIdx - dataStartIdx)) (drop (nat dataStartIdx) data)) @
                 strings_Repeat (iom_substitution m) (nat (sint (iom_suffixLen m)))
         else strings_Repeat (iom_substitution m) (length data))"

definition InnerOuterMasker_Mask :: "library \<Rightarrow> InnerOuterMasker \<Rightarrow> RowValue \<Rightarrow> RowValue option" where
  "InnerOuterMasker_Mask lib m v =
     (let unmaskedData =
            (case v of RV_Bytes b \<Rightarrow> b | _ \<Rightarrow> (case value_text lib v of None \<Rightarrow> [] | Some s \<Rightarrow> s));
          isDataNullOrBool = (case v of RV_Null _ \<Rightarrow> True | RV_Bool _ \<Rightarrow> True | _ \<Rightarrow> False)
      in Some
        (if isDataNullOrBool then RV_String (strings_Repeat (iom_substitution m) 6)
         else if \<not> isMarginSumWithinRange m (length (runes unmaskedData)) then RV_String unmaskedData
         else if isMarginNegetive m then RV_Null 0
         else if iom_maskerType m = InnerOuterMaskerTypeInner then RV_String (maskInner m (runes unmaskedData))
         else if iom_maskerType m = InnerOuterMaskerTypeOuter then RV_String (maskOuter m (runes unmaskedData))
         else RV_String unmaskedData))"


section \<open>All maskers\<close>

datatype Masker =
  NoneMasker
| FullMasker string
| RangeMasker "MaskRangeSlice list"
| DefaultRangeMasker
| MD5Masker string
| InnerOuter InnerOuterMasker

definition NewDefaultFullMasker :: Masker where
  "NewDefaultFullMasker = FullMasker ''******''"

text \<open>The masking of everything but a JSON value, which the switches hand to \<open>maskProtoValue\<close>.\<close>

definition Mask_plain :: "library \<Rightarrow> Masker \<Rightarrow> RowValue \<Rightarrow> RowValue option option" where
  "Mask_plain lib m v =
     (case m of
        NoneMasker \<Rightarrow> Some (Some v)
      | FullMasker substitution \<Rightarrow> Some (Some (RV_String substitution))
      | RangeMasker ranges \<Rightarrow> RangeMasker_Mask lib ranges v
      | DefaultRangeMasker \<Rightarrow> Some (DefaultRangeMasker_Mask lib v)
      | MD5Masker salt \<Rightarrow> Some (MD5Masker_Mask lib salt v)
      | InnerOuter iom \<Rightarrow> Some (InnerOuterMasker_Mask lib iom v))"

lemma map_panic_cong [fundef_cong]:
  "xs = ys \<Longrightarrow> (\<And>x. x \<in> set ys \<Longrightarrow> f x = g x) \<Longrightarrow> map_panic f xs = map_panic g ys"
  by (induction xs arbitrary: ys) (auto split: option.splits)

fun maskProtoValue :: "library \<Rightarrow> Masker \<Rightarrow> structpb_Value \<Rightarrow> structpb_Value option" where
  "maskProtoValue lib m PV_nil = None"
| "maskProtoValue lib m PV_unset = Some PV_nil"
| "maskProtoValue lib m (PV_Null n) = map_option (\<lambda>r. PV_Null (GetNullValue r)) (Mask_plain lib m (RV_Null n))"
| "maskProtoValue lib m (PV_Number x) =
     map_option (\<lambda>r. PV_Number (GetDoubleValue r)) (Mask_plain lib m (RV_Double x))"
| "maskProtoValue lib m (PV_String s) =
     map_option (\<lambda>r. PV_String (GetStringValue r)) (Mask_plain lib m (RV_String s))"
| "maskProtoValue lib m (PV_Bool b) = map_option (\<lambda>r. PV_Bool (GetBoolValue r)) (Mask_plain lib m (RV_Bool b))"
| "maskProtoValue lib m (PV_Struct fs) =
     map_option PV_Struct (map_panic (\<lambda>(k, v). map_option (Pair k) (maskProtoValue lib m v)) fs)"
| "maskProtoValue lib m (PV_List vs) = map_option PV_List (map_panic (\<lambda>v. maskProtoValue lib m v) vs)"

definition masks_inside :: "Masker \<Rightarrow> bool" where
  "masks_inside m =
     (case m of NoneMasker \<Rightarrow> False | FullMasker _ \<Rightarrow> False | RangeMasker ranges \<Rightarrow> enableMask ranges | _ \<Rightarrow> True)"

definition Mask :: "library \<Rightarrow> Masker \<Rightarrow> MaskData \<Rightarrow> RowValue option option" where
  "Mask lib m data =
     (case Data data of
        RV_Value v \<Rightarrow>
          if masks_inside m then map_option (\<lambda>v. Some (RV_Value v)) (maskProtoValue lib m v)
          else Mask_plain lib m (Data data)
      | v \<Rightarrow> Mask_plain lib m v)"

definition Equal :: "Masker \<Rightarrow> Masker \<Rightarrow> bool" where
  "Equal m other =
     (case (m, other) of
        (NoneMasker, NoneMasker) \<Rightarrow> True
      | (FullMasker a, FullMasker b) \<Rightarrow> a = b
      | (RangeMasker as, RangeMasker bs) \<Rightarrow>
          length as = length bs \<and>
          list_all (\<lambda>(a, b). mrs_Start a = mrs_Start b \<and> mrs_End a = mrs_End b \<and>
            mrs_Substitution a = mrs_Substitution b) (zip as bs)
      | (DefaultRangeMasker, DefaultRangeMasker) \<Rightarrow> True
      | (MD5Masker a, MD5Masker b) \<Rightarrow> a = b
      | (InnerOuter a, InnerOuter b) \<Rightarrow>
          iom_maskerType b = iom_maskerType a \<and> iom_prefixLen b = iom_prefixLen a \<and>
          iom_suffixLen b = iom_suffixLen a
      | _ \<Rightarrow> False)"

end
