(* ===== verification/MaskerSpec.thy ===== *)
theory MaskerSpec
  imports Masker
begin

text \<open>
  What the maskers hide.  A range masker with ordered ranges replaces exactly the characters of the
  ranges; with overlapping ranges it does not, and may panic.
\<close>

section \<open>Ranges of a text of given length\<close>

definition range_start :: "nat \<Rightarrow> MaskRangeSlice \<Rightarrow> int" where
  "range_start n r = sint (getValidRangeValue (of_nat n) (mrs_Start r))"

definition range_end :: "nat \<Rightarrow> MaskRangeSlice \<Rightarrow> int" where
  "range_end n r = sint (getValidRangeValue (of_nat n) (mrs_End r))"

definition covers :: "nat \<Rightarrow> nat \<Rightarrow> MaskRangeSlice \<Rightarrow> bool" where
  "covers n i r \<longleftrightarrow> range_start n r \<le> int i \<and> int i < range_end n r"

text \<open>Each range is non-empty and ends before the next one starts.\<close>

definition ordered_ranges :: "nat \<Rightarrow> MaskRangeSlice list \<Rightarrow> bool" where
  "ordered_ranges n rs \<longleftrightarrow>
     list_all (\<lambda>r. 0 \<le> range_start n r \<and> range_start n r < range_end n r) rs \<and>
     sorted_wrt (\<lambda>a b. range_end n a < range_start n b) rs"

text \<open>What stands in the place of the character at position \<open>i\<close>.\<close>

definition masked_at :: "(string \<Rightarrow> 'a list) \<Rightarrow> MaskRangeSlice list \<Rightarrow> 'a list \<Rightarrow> nat \<Rightarrow> 'a list" where
  "masked_at conv rs s i =
     (case find (covers (length s) i) rs of
        None \<Rightarrow> [s ! i]
      | Some r \<Rightarrow> if int i = range_start (length s) r then conv (mrs_Substitution r) else [])"

definition normalized :: "nat \<Rightarrow> MaskRangeSlice \<Rightarrow> MaskRangeSlice" where
  "normalized n r = r\<lparr>mrs_Start := getValidRangeValue (of_nat n) (mrs_Start r),
                      mrs_End := getValidRangeValue (of_nat n) (mrs_End r)\<rparr>"

lemma normalized_sel [simp]:
  "sint (mrs_Start (normalized n r)) = range_start n r" "sint (mrs_End (normalized n r)) = range_end n r"
  "mrs_Substitution (normalized n r) = mrs_Substitution r"
  by (simp_all add: normalized_def range_start_def range_end_def)


section \<open>Formatting ordered ranges\<close>

lemma merge_range_append:
  assumes "range_start n r < range_end n r"
    and "merged \<noteq> [] \<Longrightarrow> sint (mrs_End (last merged)) < range_start n r"
  shows "merge_range (of_nat n) merged r = merged @ [normalized n r]"
  using assms
  by (auto simp: merge_range_def Let_def normalized_def range_start_def range_end_def word_sle_eq word_sless_alt)

lemma merge_ordered:
  "ordered_ranges n (rs @ rs') \<Longrightarrow>
   foldl (merge_range (of_nat n)) (map (normalized n) rs) rs' = map (normalized n) (rs @ rs')"
proof (induction rs' arbitrary: rs)
  case (Cons r rs')
  have "merge_range (of_nat n) (map (normalized n) rs) r = map (normalized n) rs @ [normalized n r]"
    using Cons.prems
    by (intro merge_range_append) (auto simp: ordered_ranges_def sorted_wrt_append last_map)
  then show ?case using Cons.IH [of "rs @ [r]"] Cons.prems by simp
qed simp

lemma cmp_Start_key: "cmp_key cmp_Start (\<lambda>r. sint (mrs_Start r))"
  by (auto simp: cmp_key_def cmp_Start_def word_sless_alt)

lemma sorted_wrt_starts:
  assumes "ordered_ranges n rs"
  shows "sorted_wrt (\<lambda>a b. range_start n a < range_start n b) rs"
proof -
  have "list_all (\<lambda>r. range_start n r < range_end n r) rs" "sorted_wrt (\<lambda>a b. range_end n a < range_start n b) rs"
    using assms by (auto simp: ordered_ranges_def list_all_iff)
  then show ?thesis by (induction rs) fastforce+
qed

lemma formatRanges_ordered:
  assumes "ordered_ranges n rs"
  shows "formatRanges rs (of_nat n) = map (normalized n) rs"
proof -
  have strict: "sorted_wrt (<) (map (range_start n) rs)"
    using sorted_wrt_starts [OF assms] by (simp add: sorted_wrt_map)
  have keys: "map (\<lambda>r. sint (mrs_Start r)) (map (normalized n) rs) = map (range_start n) rs" by simp
  have "SortFunc cmp_Start (map (normalized n) rs) = map (normalized n) rs"
  proof (rule sorted_key_unique [where key = "\<lambda>r. sint (mrs_Start r)"])
    show "sorted (map (\<lambda>r. sint (mrs_Start r)) (SortFunc cmp_Start (map (normalized n) rs)))"
      by (rule sorted_SortFunc [OF cmp_Start_key])
    show "sorted (map (\<lambda>r. sint (mrs_Start r)) (map (normalized n) rs))"
      unfolding keys using strict by (rule strict_sorted_imp_sorted)
    have "distinct (map (\<lambda>r. sint (mrs_Start r)) (map (normalized n) rs))"
      unfolding keys using strict by (simp add: strict_sorted_iff)
    then show "inj_on (\<lambda>r. sint (mrs_Start r)) (set (SortFunc cmp_Start (map (normalized n) rs)))"
      by (simp only: distinct_map set_SortFunc)
  qed simp
  then show ?thesis
    using merge_ordered [of n "[]" rs] assms by (simp add: formatRanges_def)
qed


section \<open>The loop\<close>

definition finish :: "'a list \<Rightarrow> 'a list \<times> int \<Rightarrow> 'a list option" where
  "finish s = (\<lambda>(ret, prevEnd).
     if prevEnd < int (length s) then (if prevEnd < 0 then None else Some (ret @ drop (nat prevEnd) s))
     else Some ret)"

lemma mask_ranges_finish:
  "mask_ranges rs conv s = Option.bind (range_loop conv s (formatRanges rs (of_nat (length s))) 0 []) (finish s)"
  by (simp add: mask_ranges_def finish_def split: option.splits)

lemma concat_singletons: "concat (map (\<lambda>i. [s ! i]) [p..<q]) = map ((!) s) [p..<q]"
  by (simp add: concat_map_singleton)

lemma map_nth_upt: "p \<le> q \<Longrightarrow> q \<le> length s \<Longrightarrow> map ((!) s) [p..<q] = take (q - p) (drop p s)"
  by (rule nth_equalityI) auto

lemma upt_split: "i \<le> j \<Longrightarrow> j \<le> k \<Longrightarrow> [i..<k] = [i..<j] @ [j..<k]"
  using upt_add_eq_append [of i j "k - j"] by simp

lemma masked_at_outside:
  "\<forall>r \<in> set rs. \<not> covers (length s) i r \<Longrightarrow> masked_at conv rs s i = [s ! i]"
  using find_None_iff [of "covers (length s) i" rs] by (auto simp: masked_at_def)

lemma masked_before:
  assumes "\<forall>r \<in> set rs. int q \<le> range_start (length s) r" "q \<le> length s" "p \<le> q"
  shows "concat (map (masked_at conv rs s) [p..<q]) = take (q - p) (drop p s)"
proof -
  have "map (masked_at conv rs s) [p..<q] = map (\<lambda>i. [s ! i]) [p..<q]"
    using assms(1) by (intro map_cong refl masked_at_outside) (force simp: covers_def)
  then show ?thesis using map_nth_upt [OF assms(3,2)] by (simp only: concat_singletons)
qed

lemma range_loop_ordered:
  assumes "ordered_ranges (length s) rs" "p \<le> length s" "\<forall>r \<in> set rs. int p \<le> range_start (length s) r"
  shows "Option.bind (range_loop conv s (map (normalized (length s)) rs) (int p) ret) (finish s) =
    Some (ret @ concat (map (masked_at conv rs s) [p..<length s]))"
  using assms
proof (induction rs arbitrary: p ret)
  case Nil
  then show ?case using masked_before [of "[]" "length s" s p conv] by (auto simp: finish_def)
next
  case (Cons r rs)
  let ?n = "length s"
  have minus: "nat (int i - int j) = i - j" for i j by simp
  obtain a b where a: "range_start ?n r = int a" and b: "range_end ?n r = int b" and ab: "a < b" and pa: "p \<le> a"
  proof (rule that [of "nat (range_start ?n r)" "nat (range_end ?n r)"])
  qed (use Cons.prems in \<open>auto simp: ordered_ranges_def\<close>)
  have rest: "ordered_ranges ?n rs" and later: "\<forall>x \<in> set rs. int b < range_start ?n x"
    using Cons.prems(1) b by (auto simp: ordered_ranges_def)
  have "\<forall>x \<in> set (r # rs). int a \<le> range_start ?n x" using later a ab by auto
  note before = masked_before [OF this _ pa]
  consider (over) "p = ?n" | (beyond) "p < ?n" "?n \<le> a" | (inside) "p < ?n" "a < ?n"
    using Cons.prems(2) by linarith
  then show ?case
  proof cases
    case over
    then show ?thesis by (simp add: finish_def)
  next
    case beyond
    then have "\<forall>x \<in> set (r # rs). int ?n \<le> range_start ?n x" using later a ab by auto
    from masked_before [OF this] beyond show ?thesis by (simp add: a finish_def)
  next
    case inside
    define q where "q = min ?n b"
    have q: "a < q" "q \<le> ?n" "q \<le> b" using inside ab by (auto simp: q_def)
    have split: "[p..<?n] = [p..<a] @ [a] @ [Suc a..<q] @ [q..<?n]"
      using upt_split [of p a ?n] upt_split [of a q ?n] upt_conv_Cons [of a q] pa q by simp
    have front: "concat (map (masked_at conv (r # rs) s) [p..<a]) = take (a - p) (drop p s)"
      using before inside by simp
    have start: "masked_at conv (r # rs) s a = conv (mrs_Substitution r)"
      by (simp add: masked_at_def covers_def a b ab)
    have in_range: "concat (map (masked_at conv (r # rs) s) [Suc a..<q]) = []"
      using q by (auto simp: masked_at_def covers_def a b)
    have tail: "map (masked_at conv (r # rs) s) [q..<?n] = map (masked_at conv rs s) [q..<?n]"
      by (rule map_cong) (auto simp: masked_at_def covers_def b q_def)
    have "concat (map (masked_at conv (r # rs) s) [p..<?n]) =
        take (a - p) (drop p s) @ conv (mrs_Substitution r) @ concat (map (masked_at conv rs s) [q..<?n])"
      unfolding split map_append concat_append front tail in_range by (simp add: start)
    moreover have after: "\<forall>x \<in> set rs. int q \<le> range_start ?n x" using later q(3) by force
    ultimately show ?thesis
      using Cons.IH [OF rest q(2) after, of "ret @ take (a - p) (drop p s) @ conv (mrs_Substitution r)"] inside pa
      by (simp add: a b q_def of_nat_min minus)
  qed
qed

lemma mask_ranges_ordered:
  assumes "ordered_ranges (length s) rs"
  shows "mask_ranges rs conv s = Some (concat (map (masked_at conv rs s) [0..<length s]))"
  using range_loop_ordered [OF assms, of 0 conv "[]"] assms
  by (simp add: mask_ranges_finish formatRanges_ordered ordered_ranges_def list_all_iff)



section \<open>Properties of the range masker\<close>

abbreviation text_data :: "string \<Rightarrow> MaskData" where
  "text_data s \<equiv> \<lparr>WantBytes = False, Data = RV_String s\<rparr>"

lemma Mask_range_text:
  "rs \<noteq> [] \<Longrightarrow> Mask lib (RangeMasker rs) (text_data s) =
     map_option (\<lambda>out. Some (RV_String (string_of out))) (mask_ranges rs runes (runes s))"
  by (simp add: Mask_def Mask_plain_def RangeMasker_Mask_def enableMask_def value_text_def fRune_def)

text \<open>
  C19. A range masker whose ranges, taken for the length of the text (a negative bound counts from the
  end), are non-empty and in order with gaps between them, replaces each range that begins inside the text
  by its substitution and leaves every character outside the ranges where it is.
\<close>
theorem range_mask_text:
  assumes "rs \<noteq> []" "ordered_ranges (length (runes s)) rs"
  shows "Mask lib (RangeMasker rs) (text_data s) =
    Some (Some (RV_String (string_of
      (concat (map (masked_at runes rs (runes s)) [0..<length (runes s)])))))"
  using mask_ranges_ordered [OF assms(2)] by (simp add: Mask_range_text [OF assms(1)])

definition sample_library :: library where
  "sample_library = \<lparr>FormatFloat64 = (\<lambda>_. ''42''), FormatFloat32 = (\<lambda>_. ''4.2''), md5_hex = rev,
     FormatTimestamp = (\<lambda>_. ''2024-01-01 00:00:00.000000''), FormatTimestampTZ = (\<lambda>_. ''2024-01-01T00:00:00Z'')\<rparr>"

definition phone_ranges :: "MaskRangeSlice list" where
  "phone_ranges = [\<lparr>mrs_Start = 0, mrs_End = 3, mrs_Substitution = ''##''\<rparr>,
                   \<lparr>mrs_Start = 5, mrs_End = - 2, mrs_Substitution = ''*''\<rparr>]"

theorem range_mask_text_witness:
  "Mask sample_library (RangeMasker phone_ranges) (text_data ''123456789'') = Some (Some (RV_String ''##45*9''))"
proof -
  have "ordered_ranges (length (runes ''123456789'')) phone_ranges" "phone_ranges \<noteq> []" by code_simp+
  from range_mask_text [OF this(2,1), of sample_library] show ?thesis
    by (simp add: phone_ranges_def [symmetric]) code_simp
qed

text \<open>
  The masked text says nothing of the characters in the ranges: two texts of one length that agree
  outside the (ordered) ranges are masked to the same text.
\<close>
lemma range_mask_hides:
  assumes "rs \<noteq> []" "ordered_ranges (length (runes s)) rs" "length (runes t) = length (runes s)"
    and "\<forall>i < length (runes s). (\<forall>r \<in> set rs. \<not> covers (length (runes s)) i r) \<longrightarrow> runes s ! i = runes t ! i"
  shows "Mask lib (RangeMasker rs) (text_data s) = Mask lib (RangeMasker rs) (text_data t)"
proof -
  have "masked_at runes rs (runes s) i = masked_at runes rs (runes t) i" if "i < length (runes s)" for i
    using that assms(3,4) find_None_iff [of "covers (length (runes s)) i" rs]
    by (cases "find (covers (length (runes s)) i) rs") (simp_all add: masked_at_def)
  then have "map (masked_at runes rs (runes s)) [0..<length (runes s)] = map (masked_at runes rs (runes t)) [0..<length (runes s)]"
    by (intro map_cong refl) simp
  then show ?thesis
    using mask_ranges_ordered [of "runes s" rs runes] mask_ranges_ordered [of "runes t" rs runes] assms(2,3)
    by (simp add: Mask_range_text [OF assms(1)] del: map_eq_conv)
qed

theorem range_mask_hides_witness:
  "Mask sample_library (RangeMasker phone_ranges) (text_data ''123456789'') = Mask sample_library (RangeMasker phone_ranges) (text_data ''xyz45uvw9'')"
proof (rule range_mask_hides)
  have "list_all (\<lambda>i. list_ex (covers (length (runes ''123456789'')) i) phone_ranges \<or>
      runes ''123456789'' ! i = runes ''xyz45uvw9'' ! i) [0..<length (runes ''123456789'')]" by code_simp
  then show "\<forall>i < length (runes ''123456789''). (\<forall>r \<in> set phone_ranges. \<not> covers (length (runes ''123456789'')) i r) \<longrightarrow>
      runes ''123456789'' ! i = runes ''xyz45uvw9'' ! i"
    unfolding list_all_iff list_ex_iff by (metis atLeastLessThan_iff le0 set_upt)
qed code_simp+

text \<open>
  Two ranges of which the first contains the second are merged to a range that ends where the second
  one does: what the first range covers after that stands in clear text.
\<close>
lemma nested_range_uncovers:
  assumes "0 \<le> a" "a \<le> c" "c \<le> d" "d \<le> b" "b < 2 ^ 31" "a < int (length (runes s))" "d \<le> int (length (runes s))"
  shows "Mask lib (RangeMasker
      [\<lparr>mrs_Start = of_int a, mrs_End = of_int b, mrs_Substitution = x\<rparr>,
       \<lparr>mrs_Start = of_int c, mrs_End = of_int d, mrs_Substitution = y\<rparr>]) (text_data s) =
    Some (Some (RV_String (string_of (take (nat a) (runes s) @ runes x @ drop (nat d) (runes s)))))"
proof -
  have w: "sint (of_int i :: int32) = i" if "0 \<le> i" "i \<le> b" for i
    using that assms(5) by (simp add: sint_sbintrunc' signed_take_bit_int_eq_self)
  have valid: "getValidRangeValue n (of_int i) = of_int i" if "0 \<le> i" "i \<le> b" for n i
    using w [OF that] that by (simp add: getValidRangeValue_def word_sle_eq)
  let ?m = "\<lparr>mrs_Start = of_int a, mrs_End = of_int d, mrs_Substitution = x\<rparr>"
  have "foldl (merge_range n) [] [\<lparr>mrs_Start = of_int a, mrs_End = of_int b, mrs_Substitution = x\<rparr>,
       \<lparr>mrs_Start = of_int c, mrs_End = of_int d, mrs_Substitution = y\<rparr>] = [?m]" for n
    using assms by (simp add: merge_range_def Let_def valid word_sle_eq word_sless_alt w)
  then have f: "formatRanges [\<lparr>mrs_Start = of_int a, mrs_End = of_int b, mrs_Substitution = x\<rparr>,
       \<lparr>mrs_Start = of_int c, mrs_End = of_int d, mrs_Substitution = y\<rparr>] n = [?m]" for n
    by (simp add: formatRanges_def SortFunc_def)
  have "mask_ranges [\<lparr>mrs_Start = of_int a, mrs_End = of_int b, mrs_Substitution = x\<rparr>,
       \<lparr>mrs_Start = of_int c, mrs_End = of_int d, mrs_Substitution = y\<rparr>] runes (runes s) =
     Some (take (nat a) (runes s) @ runes x @ drop (nat d) (runes s))"
    unfolding mask_ranges_def f using assms by (cases "runes s") (simp_all add: w)
  then show ?thesis by (simp add: Mask_range_text)
qed

theorem nested_range_uncovers_witness:
  "Mask sample_library (RangeMasker [\<lparr>mrs_Start = 0, mrs_End = 8, mrs_Substitution = ''*''\<rparr>,
     \<lparr>mrs_Start = 2, mrs_End = 3, mrs_Substitution = ''*''\<rparr>]) (text_data ''secret42'') =
   Some (Some (RV_String ''*ret42''))"
proof -
  have l: "length (runes ''secret42'') = 8" by code_simp
  have "string_of (take (nat 0) (runes ''secret42'') @ runes ''*'' @ drop (nat 3) (runes ''secret42'')) = ''*ret42''"
    by code_simp
  with nested_range_uncovers [of 0 2 3 8 "''secret42''" sample_library "''*''" "''*''"] show ?thesis by (simp add: l)
qed

text \<open>
  Three overlapping ranges that are not in order make the range masker panic on a text of twelve
  characters: after the merge one range ends after the next one starts.
\<close>
lemma range_mask_panics:
  "Mask lib (RangeMasker [\<lparr>mrs_Start = 5, mrs_End = 10, mrs_Substitution = ''*''\<rparr>,
     \<lparr>mrs_Start = 0, mrs_End = 3, mrs_Substitution = ''*''\<rparr>,
     \<lparr>mrs_Start = 4, mrs_End = 9, mrs_Substitution = ''*''\<rparr>]) (text_data ''abcdefghijkl'') = None"
  by code_simp


section \<open>Default range masker\<close>

lemma take_one_drop: "i < length xs \<Longrightarrow> take (Suc 0) (drop i xs) = [xs ! i]"
  by (metis Cons_nth_drop_Suc take0 take_Suc_Cons)

lemma middle_eq:
  "middle xs = (if length xs \<le> 1 then []
     else if length xs \<le> 3 then [xs ! 1]
     else take (2 * (length xs div 4)) (drop (length xs div 4) xs))"
proof -
  have "middle xs = take (2 * (length xs div 4)) (drop (length xs div 4) xs)" if big: "4 \<le> length xs"
  proof -
    define k where "k = length xs div 4"
    define ys where "ys = (if length xs mod 4 \<noteq> 0 then take (k * 4) xs else xs)"
    have "4 * k \<le> length xs" "length xs mod 4 = 0 \<Longrightarrow> length xs = 4 * k" unfolding k_def by presburger+
    then have len: "length ys = 4 * k" by (auto simp: ys_def)
    have pre: "ys = take (4 * k) xs" unfolding ys_def k_def by (auto simp: mult.commute)
    have "middle xs = (let n = length ys in take (n div 2 - n div 4) (drop (n div 4) ys) @
        take (n div 4 * 3 - n div 2) (drop (n div 2) ys))"
      using big by (auto simp: middle_def Let_def ys_def k_def)
    also have "\<dots> = take k (drop k ys) @ take k (drop (2 * k) ys)"
      unfolding Let_def len by (simp add: mult.commute)
    also have "drop (2 * k) ys = drop k (drop k ys)" by (simp add: mult_2)
    also have "take k (drop k ys) @ take k (drop k (drop k ys)) = take (2 * k) (drop k ys)"
      by (simp add: mult_2 take_add)
    also have "take (2 * k) (drop k ys) = take (2 * k) (drop k xs)" by (simp add: pre drop_take min_def)
    finally show ?thesis by (simp add: k_def)
  qed
  moreover have "middle xs = []" if "length xs \<le> 1" using that by (auto simp: middle_def)
  moreover have "middle xs = [xs ! 1]" if "2 \<le> length xs" "length xs \<le> 3"
  proof -
    have "length xs = 2 \<or> length xs = 3" "length xs div 2 = 1" using that by auto
    then show ?thesis by (auto simp: middle_def take_one_drop)
  qed
  ultimately show ?thesis by auto
qed

text \<open>
  The default partial masker shows between its asterisks at most half of the characters of a text:
  the second and third quarter of a text of four or more, the second character of a text of two or
  three, nothing of a shorter one.
\<close>
lemma default_range_shows_middle:
  "\<exists>k. Mask lib DefaultRangeMasker (text_data s) =
     Some (Some (RV_String (''**'' @ string_of (take k (drop (max 1 (length (runes s) div 4)) (runes s))) @ ''**''))) \<and>
   k = (if length (runes s) \<le> 3 then length (runes s) div 2 else 2 * (length (runes s) div 4)) \<and>
   2 * k \<le> length (runes s)"
proof -
  let ?r = "runes s"
  let ?k = "if length ?r \<le> 3 then length ?r div 2 else 2 * (length ?r div 4)"
  have "middle ?r = take ?k (drop (max 1 (length ?r div 4)) ?r)"
  proof (cases "length ?r \<le> 3")
    case True
    then consider "length ?r \<le> 1" | "length ?r = 2" | "length ?r = 3" by linarith
    then show ?thesis
      by cases (simp_all add: middle_eq take_one_drop del: take_all take_all_iff)
  next
    case False
    then have "1 \<le> length ?r div 4" by linarith
    with False show ?thesis by (simp add: middle_eq max_def)
  qed
  moreover have "2 * ?k \<le> length ?r" by auto
  ultimately show ?thesis
    by (intro exI [of _ ?k]) (simp add: Mask_def Mask_plain_def DefaultRangeMasker_Mask_def paddingAsterisk_def)
qed

lemma default_range_example:
  "Mask lib DefaultRangeMasker (text_data ''13800138000'') = Some (Some (RV_String ''**8001**''))"
  by code_simp


section \<open>Inner and outer masks\<close>

text \<open>The masker made for margins \<open>p\<close> and \<open>q\<close>, and its arithmetic on a text of \<open>n\<close> characters.\<close>

lemma sint_of_nat32: "i < 2 ^ 31 \<Longrightarrow> sint (of_nat i :: int32) = int i"
  using sint_sbintrunc' [of "int i", where 'a = 32] by (simp add: signed_take_bit_int_eq_self)

lemma NewInnerOuterMasker_Inr:
  assumes "NewInnerOuterMasker ty (of_nat p) (of_nat q) sub = Inr m"
  shows "m = \<lparr>iom_prefixLen = of_nat p, iom_suffixLen = of_nat q,
    iom_maskerType = (if ty = INNER then 1 else 2), iom_substitution = sub\<rparr>" "ty \<noteq> MASK_TYPE_UNSPECIFIED"
  using assms by (auto simp: NewInnerOuterMasker_def Let_def InnerOuterMaskerTypeInner_def
      InnerOuterMaskerTypeOuter_def split: InnerOuterMask_MaskType.splits)

definition margins_fit :: "nat \<Rightarrow> nat \<Rightarrow> nat \<Rightarrow> InnerOuterMasker \<Rightarrow> bool" where
  "margins_fit p q n m \<longleftrightarrow>
     iom_prefixLen m = of_nat p \<and> iom_suffixLen m = of_nat q \<and> p + q < 2 ^ 31 \<and> n < 2 ^ 31"

lemma margins:
  assumes fit: "margins_fit p q n m"
  shows "sint (iom_prefixLen m) = int p" "sint (iom_suffixLen m) = int q"
  "isMarginSumWithinRange m n \<longleftrightarrow> p + q \<le> n"
proof -
  show "sint (iom_prefixLen m) = int p" "sint (iom_suffixLen m) = int q"
    using fit sint_of_nat32 [of p] sint_of_nat32 [of q] by (simp_all add: margins_fit_def)
  have "sint (iom_prefixLen m + iom_suffixLen m) = int (p + q)"
    using fit sint_of_nat32 [of "p + q"] by (simp add: margins_fit_def)
  then show "isMarginSumWithinRange m n \<longleftrightarrow> p + q \<le> n"
    unfolding isMarginSumWithinRange_def word_sle_eq using fit sint_of_nat32 [of n] by (simp add: margins_fit_def) linarith
qed

lemma end_index:
  assumes "margins_fit p q n m" "p + q < n"
  shows "sint (iom_prefixLen m + of_int (int n - int p - int q)) = int (n - q)"
proof -
  have "(of_nat p :: int32) + of_int (int n - int p - int q) = of_nat (n - q)"
    using assms by (simp add: of_nat_diff)
  moreover have "n - q < 2 ^ 31" using assms(1) by (auto simp: margins_fit_def)
  note sint_of_nat32 [OF this]
  ultimately show ?thesis using assms(1) by (simp add: margins_fit_def)
qed

lemma maskInner_margins:
  assumes fit: "margins_fit p q n m" and "length rs = n"
  shows "maskInner m rs =
    (if p + q < n then string_of (take p rs) @ strings_Repeat (iom_substitution m) (n - p - q) @ string_of (drop (n - q) rs)
     else string_of rs)"
proof (cases "p + q < n")
  case True
  then have "nat (int n - int p - int q) = n - p - q" "nat (int n - int q) = n - q" by simp_all
  with True end_index [OF fit True] show ?thesis by (simp add: maskInner_def Let_def margins [OF fit] assms)
next
  case False
  then show ?thesis using assms by (simp add: maskInner_def Let_def margins [OF fit])
qed

lemma maskOuter_margins:
  assumes fit: "margins_fit p q n m" and "length rs = n" "p + q \<le> n"
  shows "maskOuter m rs = strings_Repeat (iom_substitution m) p @ string_of (take (n - p - q) (drop p rs)) @
    strings_Repeat (iom_substitution m) q"
proof (cases "p + q < n")
  case True
  then have "nat (int (n - q) - int p) = n - p - q" by simp
  with True end_index [OF fit True] show ?thesis by (simp add: maskOuter_def Let_def margins [OF fit] assms)
next
  case False
  with assms(3) have "n = p + q" by simp
  then show ?thesis using assms(2)
    by (simp add: maskOuter_def Let_def margins [OF fit] strings_Repeat_def replicate_add string_of_def)
qed

text \<open>
  With margins \<open>p\<close> and \<open>q\<close>, not negative, an inner mask shows exactly the first \<open>p\<close> and the last \<open>q\<close>
  characters and puts the substitution once for each character between, an outer mask shows exactly what is
  between; when the margins leave nothing between, the inner mask shows everything, and so does the
  outer one when they exceed the text.
\<close>
lemma inner_outer_mask:
  assumes "NewInnerOuterMasker ty (of_nat p) (of_nat q) sub = Inr m"
    and "p + q < 2 ^ 31" "length (runes s) < 2 ^ 31" "string_of (runes s) = s"
  shows "Mask lib (InnerOuter m) (text_data s) = Some (Some (RV_String
    (let r = runes s; n = length r
     in if n < p + q then s
        else if ty = INNER then
          (if p + q = n then s else string_of (take p r) @ strings_Repeat sub (n - p - q) @ string_of (drop (n - q) r))
        else strings_Repeat sub p @ string_of (take (n - p - q) (drop p r)) @ strings_Repeat sub q)))"
proof -
  note m = NewInnerOuterMasker_Inr [OF assms(1)]
  have fit: "margins_fit p q (length (runes s)) m" using assms(2,3) by (simp add: margins_fit_def m(1))
  note facts = margins [OF fit] maskInner_margins [OF fit refl] maskOuter_margins [OF fit refl]
  show ?thesis
    using m(2) assms(4) facts
    by (auto simp: Mask_def Mask_plain_def InnerOuterMasker_Mask_def value_text_def Let_def isMarginNegetive_def
        m(1) InnerOuterMaskerTypeInner_def InnerOuterMaskerTypeOuter_def)
qed

theorem inner_outer_mask_witness:
  "Mask sample_library (InnerOuter \<lparr>iom_prefixLen = 1, iom_suffixLen = 2, iom_maskerType = 1, iom_substitution = ''*''\<rparr>)
     (text_data ''secret'') = Some (Some (RV_String ''s***et''))"
proof -
  have "string_of (take 1 (runes ''secret'')) @ strings_Repeat ''*'' (6 - 1 - 2) @
      string_of (drop (6 - 2) (runes ''secret'')) = ''s***et''" "length (runes ''secret'') = 6"
    "string_of (runes ''secret'') = ''secret''" by code_simp+
  moreover have "NewInnerOuterMasker INNER (of_nat 1) (of_nat 2) ''*'' =
      Inr \<lparr>iom_prefixLen = 1, iom_suffixLen = 2, iom_maskerType = 1, iom_substitution = ''*''\<rparr>"
    by (simp add: NewInnerOuterMasker_def Let_def InnerOuterMaskerTypeInner_def)
  note inner_outer_mask [OF this, of "''secret''" sample_library]
  ultimately show ?thesis by (simp add: Let_def)
qed


section \<open>JSON values\<close>

text \<open>The masked value on the right has the shape and keys of the left one, and nothing of its numbers,
  truth values and nulls.\<close>

inductive json_hidden :: "structpb_Value \<Rightarrow> structpb_Value \<Rightarrow> bool" where
  unset: "json_hidden PV_unset PV_nil"
| null: "json_hidden (PV_Null n) (PV_Null 0)"
| number: "json_hidden (PV_Number x) (PV_Number (Float64 0))"
| string: "json_hidden (PV_String s) (PV_String t)"
| bool: "json_hidden (PV_Bool b) (PV_Bool False)"
| struct: "list_all2 (rel_prod (=) json_hidden) fs gs \<Longrightarrow> json_hidden (PV_Struct fs) (PV_Struct gs)"
| list: "list_all2 json_hidden vs ws \<Longrightarrow> json_hidden (PV_List vs) (PV_List ws)"

inductive_simps json_hidden_number: "json_hidden (PV_Number x) w"
inductive_simps json_hidden_bool: "json_hidden (PV_Bool b) w"

lemma getters_of_masked:
  assumes "masks_inside m"
  shows "Mask_plain lib m (RV_Null n) = Some r \<Longrightarrow> GetNullValue r = 0"
    and "Mask_plain lib m (RV_Double x) = Some r \<Longrightarrow> GetDoubleValue r = Float64 0"
    and "Mask_plain lib m (RV_Bool b) = Some r \<Longrightarrow> GetBoolValue r = False"
  using assms
  by (auto simp: Mask_plain_def masks_inside_def RangeMasker_Mask_def DefaultRangeMasker_Mask_def MD5Masker_Mask_def
      InnerOuterMasker_Mask_def value_text_def six_stars_def Let_def GetNullValue_def GetDoubleValue_def GetBoolValue_def
      split: Masker.splits if_splits)

text \<open>
  C40. A JSON value masked by any masker that looks into it keeps its shape and its keys; every number in
  it becomes 0, every truth value false, every null stays null.
\<close>
theorem json_masked:
  assumes "masks_inside m" "maskProtoValue lib m v = Some w"
  shows "json_hidden v w"
  using assms
proof (induction lib m v arbitrary: w rule: maskProtoValue.induct)
  case (7 lib m fs)
  then obtain gs where "map_panic (\<lambda>(k, v). map_option (Pair k) (maskProtoValue lib m v)) fs = Some gs" "w = PV_Struct gs"
    by auto
  moreover from this(1) have "list_all2 (rel_prod (=) json_hidden) fs gs"
    by (rule list.rel_mono_strong [OF map_panic_list_all2]) (use 7(1,2) in \<open>fastforce simp: rel_prod_sel\<close>)
  ultimately show ?case by (simp add: json_hidden.struct)
next
  case (8 lib m vs)
  then obtain ws where "map_panic (\<lambda>v. maskProtoValue lib m v) vs = Some ws" "w = PV_List ws" by auto
  moreover from this(1) have "list_all2 json_hidden vs ws"
    by (rule list.rel_mono_strong [OF map_panic_list_all2]) (use 8(1,2) in blast)
  ultimately show ?case by (simp add: json_hidden.list)
qed (auto simp: getters_of_masked intro: json_hidden.intros)

theorem json_masked_witness:
  "json_hidden (PV_Struct [(''age'', PV_Number (Float64 42)), (''name'', PV_String ''Ann'')])
     (PV_Struct [(''age'', PV_Number (Float64 0)), (''name'', PV_String ''**n**'')])"
proof (rule json_masked)
  show "masks_inside DefaultRangeMasker" by code_simp
  show "maskProtoValue sample_library DefaultRangeMasker
      (PV_Struct [(''age'', PV_Number (Float64 42)), (''name'', PV_String ''Ann'')]) =
    Some (PV_Struct [(''age'', PV_Number (Float64 0)), (''name'', PV_String ''**n**'')])"
    by code_simp
qed


section \<open>Equality of maskers\<close>

text \<open>
  Two maskers count as equal exactly when they are the same, except that two inner or outer maskers
  count as equal whatever their substitutions.
\<close>
lemma masker_equal_iff:
  "Equal a b \<longleftrightarrow> a = b \<or>
     (\<exists>x y. a = InnerOuter x \<and> b = InnerOuter y \<and> y = x\<lparr>iom_substitution := iom_substitution y\<rparr>)"
proof -
  have ranges: "as = bs \<longleftrightarrow> length as = length bs \<and> list_all (\<lambda>(a, b). mrs_Start a = mrs_Start b \<and>
      mrs_End a = mrs_End b \<and> mrs_Substitution a = mrs_Substitution b) (zip as bs)" for as bs :: "MaskRangeSlice list"
    by (induction as bs rule: list_induct2') auto
  have sub: "y = x\<lparr>iom_substitution := iom_substitution y\<rparr> \<longleftrightarrow> iom_maskerType y = iom_maskerType x \<and>
      iom_prefixLen y = iom_prefixLen x \<and> iom_suffixLen y = iom_suffixLen x" for x y :: InnerOuterMasker
    by (cases x; cases y) auto
  show ?thesis
    by (cases a; cases b) (auto simp: Equal_def ranges [symmetric] sub)
qed

lemma equal_maskers_differ:
  "let a = InnerOuter \<lparr>iom_prefixLen = 0, iom_suffixLen = 0, iom_maskerType = 1, iom_substitution = ''*''\<rparr>;
       b = InnerOuter \<lparr>iom_prefixLen = 0, iom_suffixLen = 0, iom_maskerType = 1, iom_substitution = ''x''\<rparr>
   in Equal a b \<and> Mask lib a (text_data ''ab'') \<noteq> Mask lib b (text_data ''ab'')"
  unfolding Let_def by code_simp

text \<open>An instant with a time zone is the one kind of value the MD5 masker does not hash.\<close>

lemma md5_shows_timestamptz:
  "Mask lib (MD5Masker salt) \<lparr>WantBytes = w, Data = RV_TimestampTZ t\<rparr> =
   Some (Some (RV_String (middle (FormatTimestampTZ lib t))))"
  by (simp add: Mask_def Mask_plain_def MD5Masker_Mask_def Let_def)

end
