(* ===== verification/TopoSort.thy ===== *)
theory TopoSort
  imports Prelude
begin

text \<open>
  \<^verbatim>\<open>backend/plugin/parser/base/topo_sort.go\<close>: the dependency graph of statements and its topological
  sort.  The map of in-degrees, read with its zero default and written, is a function; the map of
  outgoing edges is an association list.
\<close>

section \<open>Graphs\<close>

record Node =
  ID :: string

record Edge =
  Start :: string
  End :: string

record Graph =
  NodeMap :: "Node gomap"
  EdgeList :: "Edge list"

definition NewGraph :: Graph where
  "NewGraph = \<lparr>NodeMap = [], EdgeList = []\<rparr>"

definition AddNode :: "string \<Rightarrow> Graph \<Rightarrow> Graph" where
  "AddNode i g = g\<lparr>NodeMap := AList.update i \<lparr>ID = i\<rparr> (NodeMap g)\<rparr>"

definition AddEdge :: "string \<Rightarrow> string \<Rightarrow> Graph \<Rightarrow> Graph" where
  "AddEdge start stop g =
     (let g1 = (if has_key (NodeMap g) start then g else AddNode start g);
          g2 = (if has_key (NodeMap g1) stop then g1 else AddNode stop g1)
      in g2\<lparr>EdgeList := EdgeList g2 @ [\<lparr>Start = start, End = stop\<rparr>]\<rparr>)"


section \<open>The sort\<close>

definition out_of :: "Edge list gomap \<Rightarrow> string \<Rightarrow> Edge list" where
  "out_of outEdge node = (case map_of outEdge node of None \<Rightarrow> [] | Some es \<Rightarrow> es)"

text \<open>The first loop: \<open>inDegree[edge.End]++\<close> and \<open>outEdge[edge.Start] = append(...)\<close>.\<close>

definition count_edge ::
  "(string \<Rightarrow> int) \<times> Edge list gomap \<Rightarrow> Edge \<Rightarrow> (string \<Rightarrow> int) \<times> Edge list gomap" where
  "count_edge = (\<lambda>(inDegree, outEdge) edge.
     (inDegree(End edge := inDegree (End edge) + 1),
      AList.update (Start edge) (out_of outEdge (Start edge) @ [edge]) outEdge))"

text \<open>The loop over the edges of the node taken from the queue.\<close>

definition relax_edge :: "(string \<Rightarrow> int) \<times> string list \<Rightarrow> Edge \<Rightarrow> (string \<Rightarrow> int) \<times> string list" where
  "relax_edge = (\<lambda>(inDegree, queue) edge.
     let inDegree' = inDegree(End edge := inDegree (End edge) - 1)
     in (inDegree', if inDegree' (End edge) = 0 then queue @ [End edge] else queue))"

text \<open>The nodes that can still enter the queue: they enter when their in-degree falls to zero.\<close>

definition waiting :: "Edge list gomap \<Rightarrow> (string \<Rightarrow> int) \<Rightarrow> string list" where
  "waiting outEdge inDegree = filter (\<lambda>y. 0 < inDegree y) (remdups (map End (concat (map snd outEdge))))"

lemma relax_edge_measure:
  assumes "End e \<in> set ends"
  shows "length (snd (relax_edge (deg, q) e)) + length (filter (\<lambda>y. 0 < fst (relax_edge (deg, q) e) y) (remdups ends)) \<le>
    length q + length (filter (\<lambda>y. 0 < deg y) (remdups ends))"
proof -
  let ?deg = "deg(End e := deg (End e) - 1)"
  have len: "length (filter p (remdups ends)) = card {y \<in> set ends. p y}" for p
    by (metis distinct_card distinct_filter distinct_remdups set_filter set_remdups)
  have sub: "{y \<in> set ends. 0 < ?deg y} \<subseteq> {y \<in> set ends. 0 < deg y}" by auto
  show ?thesis
  proof (cases "deg (End e) = 1")
    case True
    then have "{y \<in> set ends. 0 < ?deg y} = {y \<in> set ends. 0 < deg y} - {End e}" by auto
    moreover have "End e \<in> {y \<in> set ends. 0 < deg y}" using True assms by simp
    then have "card {y \<in> set ends. 0 < deg y} = Suc (card ({y \<in> set ends. 0 < deg y} - {End e}))"
      by (intro card.remove) auto
    ultimately show ?thesis unfolding len using True by (simp add: relax_edge_def)
  next
    case False
    then show ?thesis unfolding len using card_mono [OF _ sub] by (simp add: relax_edge_def)
  qed
qed

lemma relax_measure:
  assumes "set (map End es) \<subseteq> set ends"
  shows "(case foldl relax_edge (deg, q) es of (deg', q') \<Rightarrow>
      length q' + length (filter (\<lambda>y. 0 < deg' y) (remdups ends))) \<le>
    length q + length (filter (\<lambda>y. 0 < deg y) (remdups ends))"
  using assms
proof (induction es arbitrary: deg q)
  case (Cons e es)
  obtain deg1 q1 where r: "relax_edge (deg, q) e = (deg1, q1)" by fastforce
  show ?case using Cons.IH [of deg1 q1] relax_edge_measure [of e ends deg q] Cons.prems by (simp add: r)
qed simp

lemma relax_out_measure:
  assumes "(deg', q') = foldl relax_edge (deg, q) (out_of outEdge node)"
  shows "length q' + length (waiting outEdge deg') \<le> length q + length (waiting outEdge deg)"
proof -
  have "set (map End (out_of outEdge node)) \<subseteq> set (map End (concat (map snd outEdge)))"
  proof (cases "map_of outEdge node")
    case (Some es)
    then have "es \<in> set (map snd outEdge)" by (force dest: map_of_SomeD)
    then show ?thesis by (auto simp: out_of_def Some)
  qed (simp add: out_of_def)
  from relax_measure [OF this, of deg q] show ?thesis
    by (simp add: waiting_def assms [symmetric])
qed

function topo_loop ::
  "Edge list gomap \<Rightarrow> (string \<Rightarrow> int) \<Rightarrow> string list \<Rightarrow> string list \<Rightarrow> string list" where
  "topo_loop outEdge inDegree [] result = result"
| "topo_loop outEdge inDegree (node # queue) result =
     (case foldl relax_edge (inDegree, queue) (out_of outEdge node) of
        (inDegree', queue') \<Rightarrow> topo_loop outEdge inDegree' queue' (result @ [node]))"
  by pat_completeness auto

termination
  by (relation "measure (\<lambda>(outEdge, deg, q, r). length q + length (waiting outEdge deg))")
    (auto dest: relax_out_measure)

datatype topo_error = GraphHasCycle

definition TopologicalSort :: "(string list \<Rightarrow> string list) \<Rightarrow> Graph \<Rightarrow> topo_error + string list" where
  "TopologicalSort ord g =
     (case foldl count_edge (\<lambda>_. 0, []) (EdgeList g) of (inDegree, outEdge) \<Rightarrow>
        let queue = sort (filter (\<lambda>i. inDegree i = 0) (map fst (go_range ord (NodeMap g))));
            result = topo_loop outEdge inDegree queue []
        in if length result \<noteq> length (NodeMap g) then Inl GraphHasCycle else Inr result)"


section \<open>Degrees and edges\<close>

definition in_count :: "string \<Rightarrow> Edge list \<Rightarrow> int" where
  "in_count y es = int (length (filter (\<lambda>e. End e = y) es))"

lemma in_count_simps [simp]:
  "in_count y [] = 0"
  "in_count y (e # es) = (if End e = y then 1 else 0) + in_count y es"
  "in_count y (es @ fs) = in_count y es + in_count y fs"
  by (simp_all add: in_count_def)

lemma in_count_zero_iff: "in_count y es = 0 \<longleftrightarrow> (\<forall>e \<in> set es. End e \<noteq> y)"
  by (auto simp: in_count_def filter_empty_conv)

lemma in_count_nonneg: "0 \<le> in_count y es"
  by (simp add: in_count_def)

lemma count_edges:
  "(case foldl count_edge (\<lambda>_. 0, []) es of (deg, out) \<Rightarrow>
     (\<forall>y. deg y = in_count y es) \<and> (\<forall>x. out_of out x = filter (\<lambda>e. Start e = x) es))"
proof (induction es rule: rev_induct)
  case (snoc e es)
  then show ?case
    by (auto simp: count_edge_def out_of_def update_conv' split: prod.splits)
qed (simp add: out_of_def)

text \<open>Relaxing edges lowers the degrees by what the edges count, and appends, once each, the nodes whose
  degree was positive and is no more.\<close>

lemma relax_edges:
  "\<exists>new. foldl relax_edge (deg, q) es = (\<lambda>y. deg y - in_count y es, q @ new) \<and> distinct new \<and>
     set new = {y. 0 < deg y \<and> deg y \<le> in_count y es}"
proof (induction es arbitrary: deg q)
  case Nil
  then show ?case by (intro exI [of _ "[]"]) auto
next
  case (Cons e es)
  define deg1 where "deg1 = deg(End e := deg (End e) - 1)"
  define now where "now = (if deg1 (End e) = 0 then [End e] else [])"
  have step: "relax_edge (deg, q) e = (deg1, q @ now)" by (simp add: relax_edge_def deg1_def now_def)
  obtain new where new: "foldl relax_edge (deg1, q @ now) es = (\<lambda>y. deg1 y - in_count y es, (q @ now) @ new)"
    "distinct new" "set new = {y. 0 < deg1 y \<and> deg1 y \<le> in_count y es}"
    using Cons.IH [of deg1 "q @ now"] by blast
  have "(\<lambda>y. deg1 y - in_count y es) = (\<lambda>y. deg y - in_count y (e # es))" by (auto simp: deg1_def)
  moreover have "distinct (now @ new)" using new(2,3) by (auto simp: now_def)
  moreover have "set (now @ new) = {y. 0 < deg y \<and> deg y \<le> in_count y (e # es)}"
    using in_count_nonneg [of "End e" es] by (auto simp: now_def new(3) deg1_def split: if_splits)
  ultimately show ?case using new(1) by (intro exI [of _ "now @ new"]) (simp add: step)
qed


section \<open>The invariant of the loop\<close>

text \<open>
  \<open>V\<close> are the nodes.  A node's degree counts the edges into it from nodes not yet in the result; it is in
  the result or the queue exactly when that is none; the edges into the nodes of the result come from
  earlier nodes of it.
\<close>

definition before :: "string list \<Rightarrow> string \<Rightarrow> string \<Rightarrow> bool" where
  "before xs x y \<longleftrightarrow> (\<exists>us vs. xs = us @ y # vs \<and> x \<in> set us)"

definition topo_inv :: "string set \<Rightarrow> Edge list \<Rightarrow> (string \<Rightarrow> int) \<Rightarrow> string list \<Rightarrow> string list \<Rightarrow> bool" where
  "topo_inv V es deg queue result \<longleftrightarrow>
     (\<forall>y. deg y = in_count y (filter (\<lambda>e. Start e \<notin> set result) es)) \<and>
     distinct (result @ queue) \<and> (\<forall>y. y \<in> set (result @ queue) \<longleftrightarrow> y \<in> V \<and> deg y = 0) \<and>
     (\<forall>e \<in> set es. End e \<in> set result \<longrightarrow> before result (Start e) (End e))"

lemma before_append: "before xs x y \<Longrightarrow> before (xs @ ys) x y"
  by (force simp: before_def)

lemma in_count_split:
  "in_count y (filter (\<lambda>e. Start e \<notin> S) es) =
   in_count y (filter (\<lambda>e. Start e \<notin> insert x S) es) +
   (if x \<in> S then 0 else in_count y (filter (\<lambda>e. Start e = x) es))"
  by (induction es) auto

lemma topo_inv_step:
  assumes inv: "topo_inv V es deg (node # queue) result" and V: "\<forall>e \<in> set es. End e \<in> V"
    and step: "foldl relax_edge (deg, queue) (filter (\<lambda>e. Start e = node) es) = (deg', queue')"
  shows "topo_inv V es deg' queue' (result @ [node])"
proof -
  let ?out = "filter (\<lambda>e. Start e = node) es"
  have deg: "\<And>y. deg y = in_count y (filter (\<lambda>e. Start e \<notin> set result) es)"
    and dist: "distinct (result @ node # queue)"
    and zero: "\<And>y. y \<in> set (result @ node # queue) \<longleftrightarrow> y \<in> V \<and> deg y = 0"
    and ord: "\<And>e. e \<in> set es \<Longrightarrow> End e \<in> set result \<Longrightarrow> before result (Start e) (End e)"
    using inv unfolding topo_inv_def by blast+
  obtain new where new: "deg' = (\<lambda>y. deg y - in_count y ?out)" "queue' = queue @ new" "distinct new"
    "set new = {y. 0 < deg y \<and> deg y \<le> in_count y ?out}"
    using relax_edges [of deg queue ?out] step by auto
  have node: "node \<notin> set result" "deg node = 0" "node \<in> V" using dist zero [of node] by auto
  have deg': "deg' y = in_count y (filter (\<lambda>e. Start e \<notin> set (result @ [node])) es)" for y
    using in_count_split [of y "set result" es node] node(1) by (simp add: new(1) deg)
  have new_iff: "y \<in> set new \<longleftrightarrow> deg y \<noteq> 0 \<and> deg' y = 0" for y
    using in_count_nonneg [of y "filter (\<lambda>e. Start e \<notin> set (result @ [node])) es"]
      in_count_nonneg [of y "filter (\<lambda>e. Start e \<notin> set result) es"] deg' [of y] deg [of y]
    by (auto simp: new(4) new(1))
  have in_V: "y \<in> V" if "y \<in> set new" for y
  proof -
    from that have "in_count y ?out \<noteq> 0" by (auto simp: new(4))
    then show ?thesis using V by (auto simp: in_count_zero_iff)
  qed
  have stays: "deg' y = 0" if "deg y = 0" for y
    using that in_count_nonneg [of y ?out] deg' [of y]
      in_count_nonneg [of y "filter (\<lambda>e. Start e \<notin> set (result @ [node])) es"] by (simp add: new(1))
  have "distinct ((result @ [node]) @ queue')"
    using dist new(3) new_iff zero by (auto simp: new(2))
  moreover have "y \<in> set ((result @ [node]) @ queue') \<longleftrightarrow> y \<in> V \<and> deg' y = 0" for y
    using zero [of y] new_iff [of y] in_V [of y] stays [of y] by (auto simp: new(2))
  moreover have "before (result @ [node]) (Start e) (End e)" if e: "e \<in> set es" "End e \<in> set (result @ [node])" for e
  proof (cases "End e \<in> set result")
    case True
    then show ?thesis using ord e(1) before_append by blast
  next
    case False
    then have "End e = node" using e(2) by simp
    then have "in_count (End e) (filter (\<lambda>e. Start e \<notin> set result) es) = 0" using deg node(2) by simp
    then have "Start e \<in> set result" using e(1) by (auto simp: in_count_zero_iff)
    then show ?thesis using \<open>End e = node\<close> by (auto simp: before_def)
  qed
  ultimately show ?thesis using deg' by (simp add: topo_inv_def)
qed

lemma topo_loop_inv:
  assumes "topo_inv V es deg queue result" "\<forall>e \<in> set es. End e \<in> V"
    and "\<forall>x. out_of outEdge x = filter (\<lambda>e. Start e = x) es"
  shows "\<exists>deg'. topo_inv V es deg' [] (topo_loop outEdge deg queue result)"
  using assms
proof (induction outEdge deg queue result rule: topo_loop.induct)
  case (2 outEdge deg node queue result)
  obtain deg' queue' where step: "foldl relax_edge (deg, queue) (out_of outEdge node) = (deg', queue')" by fastforce
  have "topo_inv V es deg' queue' (result @ [node])"
    by (rule topo_inv_step [OF 2(2,3)]) (use step 2(4) in simp)
  from 2(1) [OF step [symmetric] this 2(3,4)] show ?case by (simp add: step)
qed auto


section \<open>Topological order\<close>

definition nodes :: "Graph \<Rightarrow> string set" where
  "nodes g = fst ` set (NodeMap g)"

definition edge_rel :: "Graph \<Rightarrow> (string \<times> string) set" where
  "edge_rel g = (\<lambda>e. (Start e, End e)) ` set (EdgeList g)"

definition graph_ok :: "Graph \<Rightarrow> bool" where
  "graph_ok g \<longleftrightarrow> distinct (map fst (NodeMap g)) \<and> (\<forall>e \<in> set (EdgeList g). Start e \<in> nodes g \<and> End e \<in> nodes g)"

text \<open>The graphs the operations can build.\<close>

inductive built :: "Graph \<Rightarrow> bool" where
  new: "built NewGraph"
| node: "built g \<Longrightarrow> built (AddNode i g)"
| edge: "built g \<Longrightarrow> built (AddEdge start stop g)"

lemma AddNode_sel [simp]: "nodes (AddNode i g) = insert i (nodes g)" "EdgeList (AddNode i g) = EdgeList g"
  by (simp_all add: AddNode_def nodes_def dom_update flip: dom_map_of_conv_image_fst)
    (auto simp: update_conv' dom_map_of_conv_image_fst)

lemma AddNode_ok: "graph_ok g \<Longrightarrow> graph_ok (AddNode i g)"
  unfolding graph_ok_def AddNode_sel by (auto simp: AddNode_def distinct_update)

lemma has_key_nodes: "has_key (NodeMap g) i \<longleftrightarrow> i \<in> nodes g"
  by (simp add: has_key_def nodes_def map_of_eq_None_iff)

lemma AddEdge_ok: "graph_ok g \<Longrightarrow> graph_ok (AddEdge start stop g)"
proof -
  assume ok: "graph_ok g"
  define g1 where "g1 = (if has_key (NodeMap g) start then g else AddNode start g)"
  define g2 where "g2 = (if has_key (NodeMap g1) stop then g1 else AddNode stop g1)"
  have "graph_ok g2" using ok AddNode_ok by (simp add: g1_def g2_def)
  moreover have "start \<in> nodes g2 \<and> stop \<in> nodes g2" by (simp add: g1_def g2_def has_key_nodes)
  moreover have "AddEdge start stop g = g2\<lparr>EdgeList := EdgeList g2 @ [\<lparr>Start = start, End = stop\<rparr>]\<rparr>"
    by (simp only: AddEdge_def Let_def g1_def g2_def)
  ultimately show ?thesis by (auto simp: graph_ok_def nodes_def)
qed

lemma built_ok: "built g \<Longrightarrow> graph_ok g"
  by (induction rule: built.induct) (simp_all add: AddNode_ok AddEdge_ok, simp add: graph_ok_def NewGraph_def)

lemma queue_set:
  assumes "graph_ok g" "perm_order ord"
  shows "set (map fst (go_range ord (NodeMap g))) = nodes g" "distinct (map fst (go_range ord (NodeMap g)))"
proof -
  have "mset (map fst (go_range ord (NodeMap g))) = mset (map fst (go_range insertion_order (NodeMap g)))"
    using mset_go_range [OF assms(2) perm_order_insertion] by (metis mset_map)
  moreover have "go_range insertion_order m = m" if "distinct (map fst m)" for m :: "Node gomap"
  proof -
    have "concat (map (\<lambda>k. case map_of m k of None \<Rightarrow> [] | Some v \<Rightarrow> [(k, v)]) (map fst xs)) = xs" if "set xs \<subseteq> set m" for xs
      using that \<open>distinct (map fst m)\<close> by (induction xs) auto
    then show ?thesis by (simp add: go_range_def insertion_order_def)
  qed
  ultimately have "mset (map fst (go_range ord (NodeMap g))) = mset (map fst (NodeMap g))"
    using assms(1) by (simp add: graph_ok_def)
  then show "set (map fst (go_range ord (NodeMap g))) = nodes g" "distinct (map fst (go_range ord (NodeMap g)))"
    using assms(1) by (metis graph_ok_def image_set nodes_def set_mset_mset, metis graph_ok_def mset_eq_imp_distinct_iff)
qed

text \<open>The list the loop ends with: in order, and complete exactly on an acyclic graph.\<close>

definition topo_result :: "(string list \<Rightarrow> string list) \<Rightarrow> Graph \<Rightarrow> string list" where
  "topo_result ord g =
     (case foldl count_edge (\<lambda>_. 0, []) (EdgeList g) of (inDegree, outEdge) \<Rightarrow>
        topo_loop outEdge inDegree
          (sort (filter (\<lambda>i. inDegree i = 0) (map fst (go_range ord (NodeMap g))))) [])"

lemma TopologicalSort_eq:
  "TopologicalSort ord g =
     (if length (topo_result ord g) \<noteq> length (NodeMap g) then Inl GraphHasCycle else Inr (topo_result ord g))"
  by (simp add: TopologicalSort_def topo_result_def Let_def split: prod.splits)

lemma topo_result_inv:
  assumes "graph_ok g" "perm_order ord"
  shows "\<exists>deg. topo_inv (nodes g) (EdgeList g) deg [] (topo_result ord g)"
proof -
  obtain deg out where c: "foldl count_edge (\<lambda>_. 0, []) (EdgeList g) = (deg, out)" by fastforce
  have deg: "\<forall>y. deg y = in_count y (EdgeList g)"
    and out: "\<forall>x. out_of out x = filter (\<lambda>e. Start e = x) (EdgeList g)"
    using count_edges [of "EdgeList g"] unfolding c by simp_all
  have "topo_inv (nodes g) (EdgeList g) deg (sort (filter (\<lambda>i. deg i = 0) (map fst (go_range ord (NodeMap g))))) []"
    using queue_set [OF assms] deg by (auto simp: topo_inv_def)
  from topo_loop_inv [OF this _ out] assms(1) show ?thesis by (simp add: topo_result_def c graph_ok_def)
qed

lemma before_acyclic:
  assumes "distinct xs" "\<forall>(x, y) \<in> R. before xs x y"
  shows "acyclic R"
proof -
  have "R \<subseteq> inv_image less_than (\<lambda>x. length (takeWhile (\<lambda>z. z \<noteq> x) xs))"
  proof
    fix p assume "p \<in> R"
    then obtain x y where p: "p = (x, y)" "before xs x y" using assms(2) by (cases p) auto
    then obtain us vs where xs: "xs = us @ y # vs" and x: "x \<in> set us" by (auto simp: before_def)
    have "y \<notin> set us" using assms(1) by (auto simp: xs)
    then have "length (takeWhile (\<lambda>z. z \<noteq> y) xs) = length us" by (auto simp: xs takeWhile_append)
    moreover have "length (takeWhile (\<lambda>z. z \<noteq> x) xs) < length us"
    proof -
      obtain as bs where us: "us = as @ x # bs" "x \<notin> set as" using split_list_first [OF x] by blast
      then show ?thesis by (simp add: xs takeWhile_append)
    qed
    ultimately show "p \<in> inv_image less_than (\<lambda>x. length (takeWhile (\<lambda>z. z \<noteq> x) xs))" by (simp add: p)
  qed
  then show ?thesis by (meson wf_acyclic wf_inv_image wf_less_than wf_subset)
qed

lemma topo_complete:
  assumes "graph_ok g" "topo_inv (nodes g) (EdgeList g) deg [] r" "acyclic (edge_rel g)"
  shows "set r = nodes g"
proof (rule ccontr)
  have zero: "\<And>y. y \<in> set r \<longleftrightarrow> y \<in> nodes g \<and> deg y = 0"
    and deg: "\<And>y. deg y = in_count y (filter (\<lambda>e. Start e \<notin> set r) (EdgeList g))"
    using assms(2) unfolding topo_inv_def append_Nil2 by blast+
  assume "set r \<noteq> nodes g"
  then obtain y where y: "y \<in> nodes g - set r" using zero by blast
  have "wf (edge_rel g)" using assms(3) by (intro finite_acyclic_wf) (simp_all add: edge_rel_def)
  then obtain z where z: "z \<in> nodes g - set r" and min: "\<And>x. (x, z) \<in> edge_rel g \<Longrightarrow> x \<notin> nodes g - set r"
    using wfE_min [OF _ y] by blast
  have "in_count z (filter (\<lambda>e. Start e \<notin> set r) (EdgeList g)) \<noteq> 0" using z zero [of z] deg [of z] by auto
  then obtain e where e: "e \<in> set (EdgeList g)" "Start e \<notin> set r" "End e = z" by (auto simp: in_count_zero_iff)
  then have "(Start e, z) \<in> edge_rel g" "Start e \<in> nodes g" using assms(1) by (auto simp: edge_rel_def graph_ok_def)
  with min e(2) show False by blast
qed

text \<open>
  C17. On every graph built with the graph's operations the sort returns: an order of all nodes, each once,
  in which every edge leads from an earlier to a later node, if the graph has no cycle; the error if it
  has one.
\<close>
theorem topological_sort_correct:
  assumes "built g" "perm_order ord"
  shows "case TopologicalSort ord g of
      Inr r \<Rightarrow> acyclic (edge_rel g) \<and> distinct r \<and> set r = nodes g \<and> (\<forall>(x, y) \<in> edge_rel g. before r x y)
    | Inl _ \<Rightarrow> \<not> acyclic (edge_rel g)"
proof -
  let ?r = "topo_result ord g"
  have ok: "graph_ok g" by (rule built_ok [OF assms(1)])
  obtain deg where inv: "topo_inv (nodes g) (EdgeList g) deg [] ?r" using topo_result_inv [OF ok assms(2)] by blast
  have r: "distinct ?r" "set ?r \<subseteq> nodes g" using inv by (auto simp: topo_inv_def)
  have card: "length (NodeMap g) = card (nodes g)"
    using ok by (metis distinct_card graph_ok_def image_set length_map nodes_def)
  have full: "length ?r = length (NodeMap g) \<longleftrightarrow> set ?r = nodes g"
    using r card by (metis card_subset_eq distinct_card finite_imageI finite_set nodes_def)
  show ?thesis
  proof (cases "set ?r = nodes g")
    case True
    then have ord: "\<forall>(x, y) \<in> edge_rel g. before ?r x y"
      using inv ok by (auto simp: topo_inv_def edge_rel_def graph_ok_def)
    with True full r(1) before_acyclic [OF r(1) ord] show ?thesis by (simp add: TopologicalSort_eq)
  next
    case False
    with full topo_complete [OF ok inv] show ?thesis by (auto simp: TopologicalSort_eq)
  qed
qed

text \<open>A diamond, and a graph with a cycle.\<close>

definition diamond :: Graph where
  "diamond = AddEdge ''b'' ''d'' (AddEdge ''c'' ''d'' (AddEdge ''a'' ''c'' (AddEdge ''a'' ''b'' NewGraph)))"

theorem topological_sort_correct_witness:
  "TopologicalSort rev diamond = Inr [''a'', ''b'', ''c'', ''d''] \<and> acyclic (edge_rel diamond)"
proof
  show s: "TopologicalSort rev diamond = Inr [''a'', ''b'', ''c'', ''d'']" by code_simp
  have "built diamond" unfolding diamond_def by (intro built.intros)
  from topological_sort_correct [OF this perm_order_rev] show "acyclic (edge_rel diamond)" by (simp add: s)
qed

lemma topological_sort_cycle_example:
  "TopologicalSort rev (AddEdge ''b'' ''a'' (AddEdge ''a'' ''b'' NewGraph)) = Inl GraphHasCycle"
  by code_simp

text \<open>
  The order in which the map of nodes is visited does not matter to the result.
\<close>
lemma topological_sort_deterministic:
  assumes "built g" "perm_order a" "perm_order b"
  shows "TopologicalSort a g = TopologicalSort b g"
proof -
  have "sort (filter p (map fst (go_range a (NodeMap g)))) = sort (filter p (map fst (go_range b (NodeMap g))))" for p
    by (intro properties_for_sort) (use mset_go_range [OF assms(2,3), of "NodeMap g"] in \<open>auto\<close>)
  then show ?thesis by (simp only: TopologicalSort_def)
qed

theorem topological_sort_deterministic_witness:
  "TopologicalSort rev diamond = TopologicalSort insertion_order diamond"
  by (rule topological_sort_deterministic) (simp_all add: diamond_def built.intros)

end
