(* ===== verification/CircuitBreaker.thy ===== *)
theory CircuitBreaker
  imports Prelude
begin

text \<open>
  \<^verbatim>\<open>backend/component/circuitbreaker/breaker.go\<close>: the circuit breaker.  \<open>Execute\<close> holds the mutex in
  three sections, reading the state, entering half-open, and recording the outcome; the call itself runs
  without it, so the sections of concurrent calls interleave.  Instants and durations are integers, in
  nanoseconds, of a monotonic clock; the outcome of the guarded function is its error, if any.  The
  metrics are left out: they are written and never read.
\<close>

type_synonym time = int

datatype State = StateClosed | StateOpen | StateHalfOpen

record Config =
  cfg_Name :: string
  cfg_FailureThreshold :: int64
  cfg_SuccessThreshold :: int64
  cfg_Timeout :: time

record CircuitBreaker =
  cb_config :: Config
  cb_state :: State
  cb_failures :: int64
  cb_successes :: int64
  cb_lastFailureTime :: time

definition New :: "Config \<Rightarrow> CircuitBreaker" where
  "New cfg =
     (let cfg = (if cfg_FailureThreshold cfg <=s 0 then cfg\<lparr>cfg_FailureThreshold := 5\<rparr> else cfg);
          cfg = (if cfg_SuccessThreshold cfg <=s 0 then cfg\<lparr>cfg_SuccessThreshold := 2\<rparr> else cfg);
          cfg = (if cfg_Timeout cfg \<le> 0 then cfg\<lparr>cfg_Timeout := 30 * 1000000000\<rparr> else cfg)
      in \<lparr>cb_config = cfg, cb_state = StateClosed, cb_failures = 0, cb_successes = 0, cb_lastFailureTime = 0\<rparr>)"

definition currentState :: "time \<Rightarrow> CircuitBreaker \<Rightarrow> State" where
  "currentState now b =
     (if cb_state b = StateOpen \<and> cfg_Timeout (cb_config b) \<le> now - cb_lastFailureTime b
      then StateHalfOpen else cb_state b)"

text \<open>The second section, for a call that saw the state \<open>seen\<close>.\<close>

definition enter :: "State \<Rightarrow> CircuitBreaker \<Rightarrow> CircuitBreaker" where
  "enter seen b =
     (if seen = StateHalfOpen \<and> cb_state b = StateOpen then b\<lparr>cb_state := StateHalfOpen\<rparr> else b)"

text \<open>The third section, after the function returned at time \<open>now\<close>.\<close>

definition record_outcome :: "time \<Rightarrow> bool \<Rightarrow> CircuitBreaker \<Rightarrow> CircuitBreaker" where
  "record_outcome now failed b =
     (if failed then
        let b1 = b\<lparr>cb_failures := cb_failures b + 1, cb_successes := 0, cb_lastFailureTime := now\<rparr>
        in if cb_state b1 = StateHalfOpen \<or> cfg_FailureThreshold (cb_config b1) <=s cb_failures b1
           then b1\<lparr>cb_state := StateOpen\<rparr> else b1
      else if cb_state b = StateHalfOpen then
        let b1 = b\<lparr>cb_successes := cb_successes b + 1\<rparr>
        in if cfg_SuccessThreshold (cb_config b1) <=s cb_successes b1
           then b1\<lparr>cb_state := StateClosed, cb_failures := 0, cb_successes := 0\<rparr> else b1
      else if cb_state b = StateClosed then b\<lparr>cb_failures := 0, cb_successes := 0\<rparr>
      else b)"

datatype 'e exec_error = ErrCircuitOpen | FnError 'e

text \<open>A call without others in between, started at \<open>t0\<close>, its function returning \<open>err\<close> at \<open>t1\<close>.\<close>

definition Execute ::
  "time \<Rightarrow> time \<Rightarrow> 'e option \<Rightarrow> CircuitBreaker \<Rightarrow> 'e exec_error option \<times> CircuitBreaker" where
  "Execute t0 t1 err b =
     (let state = currentState t0 b
      in if state = StateOpen then (Some ErrCircuitOpen, b)
         else (map_option FnError err, record_outcome t1 (err \<noteq> None) (enter state b)))"


section \<open>Concurrent calls\<close>

text \<open>The breaker with the calls that have read the state and those that run their function.\<close>

record calls =
  breaker :: CircuitBreaker
  admitted :: "State list"
  running :: nat

inductive call_step :: "time \<Rightarrow> calls \<Rightarrow> calls \<Rightarrow> bool" for now :: time where
  reject: "currentState now (breaker c) = StateOpen \<Longrightarrow> call_step now c c"
| admit: "currentState now (breaker c) \<noteq> StateOpen \<Longrightarrow>
    call_step now c (c\<lparr>admitted := admitted c @ [currentState now (breaker c)]\<rparr>)"
| start: "admitted c = before @ seen # after \<Longrightarrow>
    call_step now c (c\<lparr>breaker := enter seen (breaker c), admitted := before @ after, running := Suc (running c)\<rparr>)"
| finish: "running c = Suc n \<Longrightarrow>
    call_step now c (c\<lparr>breaker := record_outcome now failed (breaker c), running := n\<rparr>)"

inductive_cases call_stepE: "call_step now c c'"

text \<open>The states the breaker can be in, as time goes on.\<close>

inductive reachable :: "Config \<Rightarrow> time \<Rightarrow> calls \<Rightarrow> bool" for cfg :: Config where
  init: "reachable cfg t \<lparr>breaker = New cfg, admitted = [], running = 0\<rparr>"
| step: "reachable cfg t c \<Longrightarrow> t \<le> t' \<Longrightarrow> call_step t' c c' \<Longrightarrow> reachable cfg t' c'"

definition breaker_inv :: "CircuitBreaker \<Rightarrow> bool" where
  "breaker_inv b \<longleftrightarrow>
     0 <s cfg_FailureThreshold (cb_config b) \<and> 0 <s cfg_SuccessThreshold (cb_config b) \<and>
     (cb_state b = StateClosed \<longrightarrow> 0 <=s cb_failures b \<and> cb_failures b <s cfg_FailureThreshold (cb_config b)) \<and>
     (cb_state b = StateHalfOpen \<longrightarrow> 0 <=s cb_successes b \<and> cb_successes b <s cfg_SuccessThreshold (cb_config b)) \<and>
     (cb_state b \<noteq> StateHalfOpen \<longrightarrow> cb_successes b = 0)"

lemmas word_signed = word_sle_eq word_sless_alt

lemma sint_inc: "w <s t \<Longrightarrow> sint (w + 1) = sint w + 1" for w t :: int64
proof -
  assume "w <s t"
  then have "sint w < sint t" by (simp add: word_sless_alt)
  then have "sint w + 1 < 2 ^ 63" "- (2 ^ 63) \<le> sint w"
    using sint_lt [of t] sint_ge [of w] by simp_all
  then show ?thesis by (simp add: sint_word_ariths(1) signed_take_bit_int_eq_self)
qed

lemma New_inv: "breaker_inv (New cfg)"
  by (auto simp: breaker_inv_def New_def Let_def word_signed)

lemma enter_inv: "breaker_inv b \<Longrightarrow> breaker_inv (enter seen b)"
  by (auto simp: breaker_inv_def enter_def word_signed)

lemma record_outcome_inv: "breaker_inv b \<Longrightarrow> breaker_inv (record_outcome now failed b)"
  using sint_inc [of "cb_failures b" "cfg_FailureThreshold (cb_config b)"]
    sint_inc [of "cb_successes b" "cfg_SuccessThreshold (cb_config b)"]
  by (cases "cb_state b") (auto simp: breaker_inv_def record_outcome_def Let_def word_signed)



section \<open>Properties\<close>

lemma call_step_inv: "call_step now c c' \<Longrightarrow> breaker_inv (breaker c) \<Longrightarrow> breaker_inv (breaker c')"
  by (erule call_stepE) (simp_all add: enter_inv record_outcome_inv)

lemma step_config: "call_step now c c' \<Longrightarrow> cb_config (breaker c') = cb_config (breaker c)"
  by (erule call_stepE) (auto simp: enter_def record_outcome_def Let_def)

lemma reachable_inv: "reachable cfg t c \<Longrightarrow> breaker_inv (breaker c) \<and> cb_config (breaker c) = cb_config (New cfg)"
  by (induction rule: reachable.induct) (simp_all add: New_inv call_step_inv step_config)


definition tight :: Config where
  "tight = \<lparr>cfg_Name = ''db'', cfg_FailureThreshold = 1, cfg_SuccessThreshold = 2, cfg_Timeout = 10\<rparr>"

text \<open>Schedules, to run the step relation: the next section to execute, and when.\<close>

datatype event = Admit | Start_first | Finish bool

definition perform :: "time \<Rightarrow> event \<Rightarrow> calls \<Rightarrow> calls option" where
  "perform now e c =
     (case e of
        Admit \<Rightarrow>
          (if currentState now (breaker c) = StateOpen then None
           else Some (c\<lparr>admitted := admitted c @ [currentState now (breaker c)]\<rparr>))
      | Start_first \<Rightarrow>
          (case admitted c of [] \<Rightarrow> None
           | seen # after \<Rightarrow>
               Some (c\<lparr>breaker := enter seen (breaker c), admitted := after, running := Suc (running c)\<rparr>))
      | Finish failed \<Rightarrow>
          (case running c of 0 \<Rightarrow> None
           | Suc n \<Rightarrow> Some (c\<lparr>breaker := record_outcome now failed (breaker c), running := n\<rparr>)))"

fun run :: "time \<Rightarrow> (time \<times> event) list \<Rightarrow> calls \<Rightarrow> calls option" where
  "run t [] c = Some c"
| "run t ((t', e) # es) c = (if t' < t then None else Option.bind (perform t' e c) (run t' es))"

lemma perform_step: "perform now e c = Some c' \<Longrightarrow> call_step now c c'"
  using call_step.start [of c "[]" _ _ now]
  by (auto simp: perform_def intro: call_step.intros split: event.splits if_splits list.splits nat.splits)

lemma run_reachable:
  "reachable cfg t c \<Longrightarrow> run t es c = Some c' \<Longrightarrow> \<exists>t'. reachable cfg t' c' \<and> t' = last (t # map fst es)"
proof (induction es arbitrary: t c)
  case (Cons a es)
  obtain t' e where a: "a = (t', e)" by fastforce
  with Cons.prems obtain d where d: "t \<le> t'" "perform t' e c = Some d" "run t' es d = Some c'"
    by (auto simp: bind_eq_Some_conv split: if_splits)
  have "reachable cfg t' d" by (rule reachable.step [OF Cons.prems(1) d(1) perform_step [OF d(2)]])
  from Cons.IH [OF this d(3)] show ?case by (simp add: a)
qed simp

definition fresh :: "Config \<Rightarrow> calls" where
  "fresh cfg = \<lparr>breaker = New cfg, admitted = [], running = 0\<rparr>"

lemma run_fresh: "run 0 es (fresh cfg) = Some c \<Longrightarrow> reachable cfg (last (0 # map fst es)) c"
  using run_reachable [OF reachable.init [of cfg 0], of es c] by (auto simp: fresh_def)

text \<open>Calls A and B start; A fails at 1, the breaker opens; C reads half-open at 11; B fails at 12; C enters.\<close>

definition race :: "(time \<times> event) list" where
  "race = [(0, Admit), (0, Admit), (0, Start_first), (0, Start_first), (1, Finish True), (11, Admit),
           (12, Finish True), (12, Start_first)]"

definition raced :: calls where
  "raced = the (run 0 race (fresh tight))"

lemma raced_reachable: "reachable tight 12 raced"
proof -
  have "run 0 race (fresh tight) \<noteq> None" by code_simp
  then have "run 0 race (fresh tight) = Some raced" by (simp add: raced_def)
  from run_fresh [OF this] show ?thesis by (simp add: race_def)
qed


text \<open>
  A breaker can be half-open before its timeout has passed since the last failure: a call that read
  the state before another one failed enters half-open after it.
\<close>
lemma half_open_too_early:
  "\<exists>c. reachable tight 12 c \<and> cb_state (breaker c) = StateHalfOpen \<and>
     12 - cb_lastFailureTime (breaker c) < cfg_Timeout (cb_config (breaker c))"
proof (intro exI conjI)
  show "reachable tight 12 raced" by (rule raced_reachable)
  show "cb_state (breaker raced) = StateHalfOpen" by code_simp
  show "12 - cb_lastFailureTime (breaker raced) < cfg_Timeout (cb_config (breaker raced))" by code_simp
qed


section \<open>Calls one after the other\<close>

definition run_calls :: "(time \<times> time \<times> 'e option) list \<Rightarrow> CircuitBreaker \<Rightarrow> CircuitBreaker" where
  "run_calls xs b = foldl (\<lambda>b (t0, t1, err). snd (Execute t0 t1 err b)) b xs"

lemma run_calls_snoc:
  "run_calls (xs @ [(t0, t1, err)]) b = snd (Execute t0 t1 err (run_calls xs b))"
  by (simp add: run_calls_def)

lemma Execute_closed_fail:
  assumes "cb_state b = StateClosed"
  shows "snd (Execute t0 t1 (Some e) b) = b\<lparr>cb_failures := cb_failures b + 1, cb_successes := 0, cb_lastFailureTime := t1,
    cb_state := (if cfg_FailureThreshold (cb_config b) <=s cb_failures b + 1 then StateOpen else StateClosed)\<rparr>"
  using assms by (cases b) (simp add: Execute_def currentState_def enter_def record_outcome_def Let_def)

lemma failing_calls:
  fixes xs :: "(time \<times> time \<times> 'e option) list"
  assumes "\<forall>(t0, t1, err) \<in> set xs. err \<noteq> None" "int (length xs) \<le> sint (cfg_FailureThreshold (cb_config (New cfg)))"
  shows "cb_state (run_calls xs (New cfg)) =
      (if int (length xs) < sint (cfg_FailureThreshold (cb_config (New cfg))) then StateClosed else StateOpen) \<and>
    cb_failures (run_calls xs (New cfg)) = of_nat (length xs) \<and>
    cb_config (run_calls xs (New cfg)) = cb_config (New cfg) \<and>
    (xs \<noteq> [] \<longrightarrow> cb_lastFailureTime (run_calls xs (New cfg)) = fst (snd (last xs)))"
  using assms
proof (induction xs rule: rev_induct)
  case Nil
  show ?case using New_inv [of cfg] by (auto simp: run_calls_def breaker_inv_def word_signed New_def Let_def)
next
  case (snoc x xs)
  obtain t0 t1 e where x: "x = (t0, t1, Some e)" using snoc.prems(1) by (cases x) auto
  let ?ft = "cfg_FailureThreshold (cb_config (New cfg))"
  have IH: "cb_state (run_calls xs (New cfg)) = StateClosed" "cb_failures (run_calls xs (New cfg)) = of_nat (length xs)"
    "cb_config (run_calls xs (New cfg)) = cb_config (New cfg)"
    using snoc by auto
  have "sint (of_nat (Suc (length xs)) :: int64) = int (Suc (length xs))"
    using snoc.prems(2) sint_lt [of ?ft] sint_sbintrunc' [of "int (Suc (length xs))", where 'a = 64]
    by (simp add: signed_take_bit_int_eq_self)
  then have "?ft <=s of_nat (Suc (length xs)) \<longleftrightarrow> sint ?ft \<le> int (Suc (length xs))"
    by (simp add: word_sle_eq)
  then show ?case
    unfolding x run_calls_snoc Execute_closed_fail [OF IH(1)] using IH(2,3) by (auto simp: add.commute)
qed

text \<open>
  From the start, as many failing calls in a row as the failure threshold open the breaker, and fewer
  leave it closed; once open, it rejects a call, unchanged, until the timeout has passed since the last
  failure, and then lets one run.
\<close>
lemma breaker_opens:
  fixes xs :: "(time \<times> time \<times> 'e option) list"
  assumes "\<forall>(t0, t1, err) \<in> set xs. err \<noteq> None" "xs \<noteq> []"
    and "int (length xs) \<le> sint (cfg_FailureThreshold (cb_config (New cfg)))"
  shows "(let b = run_calls xs (New cfg); opened = fst (snd (last xs)); timeout = cfg_Timeout (cb_config (New cfg))
    in if int (length xs) < sint (cfg_FailureThreshold (cb_config (New cfg))) then cb_state b = StateClosed
       else cb_state b = StateOpen \<and>
         (\<forall>t0 t1 (err :: 'e option). Execute t0 t1 err b = (Some ErrCircuitOpen, b) \<longleftrightarrow> t0 - opened < timeout))"
proof -
  note f = failing_calls [OF assms(1,3)]
  have "Execute t0 t1 err (run_calls xs (New cfg)) = (Some ErrCircuitOpen, run_calls xs (New cfg)) \<longleftrightarrow>
      t0 - fst (snd (last xs)) < cfg_Timeout (cb_config (New cfg))"
    if "cb_state (run_calls xs (New cfg)) = StateOpen" for t0 t1 and err :: "'e option"
    using that f assms(2) by (cases err) (auto simp: Execute_def currentState_def Let_def)
  with f show ?thesis by (simp add: Let_def)
qed

theorem breaker_opens_witness:
  "cb_state (run_calls [(0, 1, Some ()), (2, 3, Some ()), (4, 5, Some ())] (New (tight\<lparr>cfg_FailureThreshold := 3\<rparr>))) = StateOpen"
proof -
  have "cfg_FailureThreshold (cb_config (New (tight\<lparr>cfg_FailureThreshold := 3\<rparr>))) = 3" by code_simp
  with breaker_opens [of "[(0, 1, Some ()), (2, 3, Some ()), (4, 5, Some ())]" "tight\<lparr>cfg_FailureThreshold := 3\<rparr>"]
  show ?thesis by (simp add: Let_def)
qed

lemma succeeding_calls:
  fixes xs :: "(time \<times> time \<times> 'e option) list"
  assumes "breaker_inv b" "cb_state b = StateOpen" "xs \<noteq> []" "\<forall>(t0, t1, err) \<in> set xs. err = None"
    and "cfg_Timeout (cb_config b) \<le> fst (hd xs) - cb_lastFailureTime b"
    and "int (length xs) \<le> sint (cfg_SuccessThreshold (cb_config b))"
  shows "cb_state (run_calls xs b) =
      (if int (length xs) < sint (cfg_SuccessThreshold (cb_config b)) then StateHalfOpen else StateClosed) \<and>
    (int (length xs) < sint (cfg_SuccessThreshold (cb_config b)) \<longrightarrow> cb_successes (run_calls xs b) = of_nat (length xs)) \<and>
    cb_config (run_calls xs b) = cb_config b"
  using assms(3-6)
proof (induction xs rule: rev_induct)
  case (snoc x xs)
  obtain t0 t1 where x: "x = (t0, t1, None)" using snoc.prems(2) by (cases x) auto
  let ?st = "cfg_SuccessThreshold (cb_config b)"
  have n: "sint (of_nat (Suc (length xs)) :: int64) = int (Suc (length xs))"
    using snoc.prems(4) sint_lt [of ?st] sint_sbintrunc' [of "int (Suc (length xs))", where 'a = 64]
    by (simp add: signed_take_bit_int_eq_self)
  show ?case
  proof (cases "xs = []")
    case True
    have "cb_successes b = 0" using assms(1,2) by (simp add: breaker_inv_def)
    with True snoc.prems assms(2) n show ?thesis
      by (auto simp: run_calls_def x Execute_def currentState_def enter_def record_outcome_def Let_def word_sle_eq)
  next
    case False
    with snoc have IH: "cb_state (run_calls xs b) = StateHalfOpen" "cb_successes (run_calls xs b) = of_nat (length xs)"
      "cb_config (run_calls xs b) = cb_config b" by auto
    with n show ?thesis
      unfolding x run_calls_snoc
      by (auto simp: Execute_def currentState_def enter_def record_outcome_def Let_def word_sle_eq add.commute)
  qed
qed simp

text \<open>
  C36. An open breaker recovers: once the timeout has passed, as many successful calls in a row as the
  success threshold close it.
\<close>
theorem breaker_recovers:
  fixes xs :: "(time \<times> time \<times> 'e option) list"
  assumes "reachable cfg t c" "cb_state (breaker c) = StateOpen" "\<forall>(t0, t1, err) \<in> set xs. err = None"
    and "cfg_Timeout (cb_config (breaker c)) \<le> fst (hd xs) - cb_lastFailureTime (breaker c)"
    and "int (length xs) = sint (cfg_SuccessThreshold (cb_config (breaker c)))"
  shows "cb_state (run_calls xs (breaker c)) = StateClosed"
proof -
  have inv: "breaker_inv (breaker c)" using reachable_inv [OF assms(1)] by simp
  then have "xs \<noteq> []" using assms(5) by (auto simp: breaker_inv_def word_signed)
  from succeeding_calls [OF inv assms(2) this assms(3,4)] assms(5) show ?thesis by simp
qed

definition opened :: calls where
  "opened = the (run 0 [(0, Admit), (0, Start_first), (1, Finish True)] (fresh tight))"

theorem breaker_recovers_witness:
  "cb_state (run_calls [(11, 12, None :: unit option), (12, 13, None)] (breaker opened)) = StateClosed"
proof (rule breaker_recovers)
  have "run 0 [(0, Admit), (0, Start_first), (1, Finish True)] (fresh tight) \<noteq> None" by code_simp
  then have "run 0 [(0, Admit), (0, Start_first), (1, Finish True)] (fresh tight) = Some opened"
    by (simp add: opened_def)
  from run_fresh [OF this] show "reachable tight 1 opened" by simp
  show "cb_state (breaker opened) = StateOpen" by code_simp
  show "cfg_Timeout (cb_config (breaker opened)) \<le>
      fst (hd [(11, 12, None :: unit option), (12, 13, None)]) - cb_lastFailureTime (breaker opened)" by code_simp
  show "int (length [(11, 12, None :: unit option), (12, 13, None)]) =
      sint (cfg_SuccessThreshold (cb_config (breaker opened)))" by code_simp
qed simp

end
