(* ===== verification/Resilience.thy ===== *)
theory Resilience
  imports Prelude
begin

text \<open>
  \<^verbatim>\<open>backend/common/resilience\<close>: the package's own circuit breaker (\<^verbatim>\<open>circuit_breaker.go\<close>), the bulkhead
  (\<^verbatim>\<open>bulkhead.go\<close>) and the retry loop (\<^verbatim>\<open>retry.go\<close>).  Instants and durations are integers of a monotonic
  clock; contexts are what the code asks of them, whether they are done.  The token bucket of
  \<^verbatim>\<open>rate_limiter.go\<close> and the delays between retries are computed in \<^verbatim>\<open>float64\<close> and are left out.
\<close>

section \<open>Circuit breaker\<close>

type_synonym instant = int

datatype RState = RClosed | ROpen | RHalfOpen

record RBreaker =
  rb_state :: RState
  rb_failures :: int64
  rb_successes :: int64
  rb_maxFailures :: int64
  rb_resetTimeout :: instant
  rb_lastFailure :: instant
  rb_lastStateChange :: instant

record CircuitBreakerConfig =
  rc_MaxFailures :: int64
  rc_ResetTimeout :: instant

definition NewCircuitBreaker :: "instant \<Rightarrow> CircuitBreakerConfig \<Rightarrow> RBreaker" where
  "NewCircuitBreaker now cfg =
     \<lparr>rb_state = RClosed, rb_failures = 0, rb_successes = 0,
      rb_maxFailures = (if rc_MaxFailures cfg <=s 0 then 5 else rc_MaxFailures cfg),
      rb_resetTimeout = (if rc_ResetTimeout cfg \<le> 0 then 30 * 1000000000 else rc_ResetTimeout cfg),
      rb_lastFailure = 0, rb_lastStateChange = now\<rparr>"

text \<open>\<open>currentStateLocked\<close> may change the state; \<open>State()\<close> calls it as well.\<close>

definition currentStateLocked :: "instant \<Rightarrow> RBreaker \<Rightarrow> RState \<times> RBreaker" where
  "currentStateLocked now b =
     (let b1 = (if rb_state b = ROpen \<and> rb_resetTimeout b < now - rb_lastFailure b
                then b\<lparr>rb_state := RHalfOpen, rb_lastStateChange := now\<rparr> else b)
      in (rb_state b1, b1))"

definition toOpenLocked :: "instant \<Rightarrow> RBreaker \<Rightarrow> RBreaker" where
  "toOpenLocked now b = b\<lparr>rb_state := ROpen, rb_lastStateChange := now\<rparr>"

definition toClosedLocked :: "instant \<Rightarrow> RBreaker \<Rightarrow> RBreaker" where
  "toClosedLocked now b = b\<lparr>rb_state := RClosed, rb_failures := 0, rb_lastStateChange := now\<rparr>"

text \<open>The section after the function, for a call that was let through in the state \<open>seen\<close>.\<close>

definition rb_finish :: "instant \<Rightarrow> RState \<Rightarrow> bool \<Rightarrow> RBreaker \<Rightarrow> RBreaker" where
  "rb_finish now seen failed b =
     (case seen of
        RHalfOpen \<Rightarrow> if failed then toOpenLocked now b else toClosedLocked now b
      | _ \<Rightarrow>
          if failed then
            let b1 = b\<lparr>rb_failures := rb_failures b + 1, rb_lastFailure := now\<rparr>
            in if rb_maxFailures b1 <=s rb_failures b1 then toOpenLocked now b1 else b1
          else b\<lparr>rb_failures := 0, rb_successes := rb_successes b + 1\<rparr>)"

datatype 'e rb_error = ContextErr 'e | RErrCircuitOpen | RFnError 'e

text \<open>A call without others in between; \<open>ctxErr\<close> is the context's error at the start.\<close>

definition RExecute ::
  "'e option \<Rightarrow> instant \<Rightarrow> instant \<Rightarrow> 'e option \<Rightarrow> RBreaker \<Rightarrow> 'e rb_error option \<times> RBreaker" where
  "RExecute ctxErr t0 t1 err b =
     (case ctxErr of
        Some e \<Rightarrow> (Some (ContextErr e), b)
      | None \<Rightarrow>
          (case currentStateLocked t0 b of (seen, b1) \<Rightarrow>
             if seen = ROpen then (Some RErrCircuitOpen, b1)
             else (map_option RFnError err, rb_finish t1 seen (err \<noteq> None) b1)))"

text \<open>Concurrent calls: the breaker and the states that the running calls were let through in.\<close>

inductive rb_step :: "instant \<Rightarrow> RBreaker \<times> RState list \<Rightarrow> RBreaker \<times> RState list \<Rightarrow> bool" for now :: instant where
  rb_reject: "currentStateLocked now b = (ROpen, b1) \<Longrightarrow> rb_step now (b, run) (b1, run)"
| rb_admit: "currentStateLocked now b = (seen, b1) \<Longrightarrow> seen \<noteq> ROpen \<Longrightarrow> rb_step now (b, run) (b1, run @ [seen])"
| rb_done: "run = before @ seen # after \<Longrightarrow> rb_step now (b, run) (rb_finish now seen failed b, before @ after)"

inductive_cases rb_stepE: "rb_step now (b, run) (b', run')"

inductive rb_reachable :: "CircuitBreakerConfig \<Rightarrow> instant \<Rightarrow> RBreaker \<times> RState list \<Rightarrow> bool" for cfg where
  rb_init: "rb_reachable cfg t (NewCircuitBreaker t cfg, [])"
| rb_next: "rb_reachable cfg t s \<Longrightarrow> t \<le> t' \<Longrightarrow> rb_step t' s s' \<Longrightarrow> rb_reachable cfg t' s'"

definition rb_inv :: "RBreaker \<Rightarrow> bool" where
  "rb_inv b \<longleftrightarrow> 0 <s rb_maxFailures b \<and>
     (rb_state b = RClosed \<longrightarrow> 0 <=s rb_failures b \<and> rb_failures b <s rb_maxFailures b)"

lemmas rword = word_sle_eq word_sless_alt

lemma rb_sint_inc: "w <s t \<Longrightarrow> sint (w + 1) = sint w + 1" for w t :: int64
proof -
  assume "w <s t"
  then have "sint w < sint t" by (simp add: word_sless_alt)
  then have "sint w + 1 < 2 ^ 63" "- (2 ^ 63) \<le> sint w"
    using sint_lt [of t] sint_ge [of w] by simp_all
  then show ?thesis by (simp add: sint_word_ariths(1) signed_take_bit_int_eq_self)
qed

lemma rb_finish_inv: "rb_inv b \<Longrightarrow> rb_inv (rb_finish now seen failed b)"
  using rb_sint_inc [of "rb_failures b" "rb_maxFailures b"]
  by (auto simp: rb_inv_def rb_finish_def toOpenLocked_def toClosedLocked_def Let_def rword split: RState.split)

lemma rb_step_inv: "rb_step now s s' \<Longrightarrow> rb_inv (fst s) \<Longrightarrow> rb_inv (fst s')"
  by (induction rule: rb_step.induct)
    (auto simp: rb_finish_inv, auto simp: rb_inv_def currentStateLocked_def Let_def split: if_splits)

text \<open>
  However concurrent calls interleave, a closed breaker has counted fewer consecutive failures than
  its maximum.
\<close>
lemma resilience_breaker_invariant:
  assumes "rb_reachable cfg t (b, run)" "rb_state b = RClosed"
  shows "0 \<le> sint (rb_failures b) \<and> sint (rb_failures b) < sint (rb_maxFailures b)"
proof -
  have "rb_inv (fst s)" if "rb_reachable cfg t s" for s
    using that by (induction rule: rb_reachable.induct)
      (auto simp: rb_step_inv, auto simp: rb_inv_def NewCircuitBreaker_def rword)
  from this [OF assms(1)] assms(2) show ?thesis by (simp add: rb_inv_def rword)
qed

definition quick :: CircuitBreakerConfig where
  "quick = \<lparr>rc_MaxFailures = 1, rc_ResetTimeout = 10\<rparr>"

theorem resilience_breaker_invariant_witness:
  "sint (rb_failures (NewCircuitBreaker 0 quick)) < 1"
proof -
  have "rb_maxFailures (NewCircuitBreaker 0 quick) = 1" by (simp add: NewCircuitBreaker_def quick_def rword)
  with resilience_breaker_invariant [OF rb_reachable.rb_init [of quick 0]] show ?thesis
    by (simp add: NewCircuitBreaker_def)
qed

text \<open>
  After a failed probe the breaker does not stay open: the time of the failure is not recorded, so
  that the reset timeout still counts as over and every later call runs its function, however soon.
\<close>
lemma failed_probe_lets_through:
  assumes "currentStateLocked t0 b = (RHalfOpen, b1)" "rb_state b = ROpen" "t1 \<le> t2" "t0 \<le> t1"
  shows "rb_state (snd (RExecute None t0 t1 (Some e) b)) = ROpen \<and>
    fst (RExecute None t2 t3 err (snd (RExecute None t0 t1 (Some e) b))) \<noteq> Some RErrCircuitOpen"
proof -
  have over: "rb_resetTimeout b < t0 - rb_lastFailure b"
    using assms(1,2) by (auto simp: currentStateLocked_def Let_def split: if_splits)
  have after: "snd (RExecute None t0 t1 (Some e) b) = toOpenLocked t1 (b\<lparr>rb_state := RHalfOpen, rb_lastStateChange := t0\<rparr>)"
    using over assms(2) by (simp add: RExecute_def currentStateLocked_def Let_def rb_finish_def)
  show ?thesis unfolding after
    using over assms(3,4) by (cases err) (simp_all add: RExecute_def currentStateLocked_def Let_def toOpenLocked_def)
qed

text \<open>An open breaker, last failure at 1, asked at 20 and 22; the calls at 20 and 23 fail.\<close>

theorem failed_probe_lets_through_witness:
  "fst (RExecute None 22 23 (Some ()) (snd (RExecute None 20 21 (Some ())
     (snd (RExecute None 0 1 (Some ()) (NewCircuitBreaker 0 quick)))))) \<noteq> Some RErrCircuitOpen"
proof -
  let ?b = "snd (RExecute None 0 1 (Some ()) (NewCircuitBreaker 0 quick))"
  have "fst (currentStateLocked 20 ?b) = RHalfOpen" "rb_state ?b = ROpen" by code_simp+
  then have "currentStateLocked 20 ?b = (RHalfOpen, snd (currentStateLocked 20 ?b))" by (metis prod.collapse)
  from failed_probe_lets_through [OF this \<open>rb_state ?b = ROpen\<close>, of 21 22 "()" 23 "Some ()"] show ?thesis by simp
qed

text \<open>
  A half-open breaker lets any number of calls probe at once, not one.
\<close>
lemma many_probes:
  "\<exists>b. rb_reachable quick 20 (b, replicate (Suc n) RHalfOpen) \<and> rb_state b = RHalfOpen"
proof (induction n)
  case 0
  define b0 where "b0 = NewCircuitBreaker 0 quick"
  define b1 where "b1 = rb_finish 1 RClosed True b0"
  have "rb_reachable quick 0 (b0, [])" unfolding b0_def by (rule rb_reachable.rb_init)
  moreover have "currentStateLocked 0 b0 = (RClosed, b0)" by (simp add: b0_def NewCircuitBreaker_def currentStateLocked_def)
  then have "rb_step 0 (b0, []) (b0, [] @ [RClosed])" by (rule rb_step.rb_admit) simp
  moreover have "rb_step 1 (b0, [RClosed]) (b1, [] @ [])" unfolding b1_def by (rule rb_step.rb_done) simp
  moreover have "rb_step 20 (b1, []) (snd (currentStateLocked 20 b1), [] @ [RHalfOpen])"
  proof (rule rb_step.rb_admit)
    have "fst (currentStateLocked 20 b1) = RHalfOpen" unfolding b1_def b0_def by code_simp
    then show "currentStateLocked 20 b1 = (RHalfOpen, snd (currentStateLocked 20 b1))" by (metis prod.collapse)
  qed simp
  ultimately have "rb_reachable quick 20 (snd (currentStateLocked 20 b1), [RHalfOpen])"
    using rb_reachable.rb_next by (metis append_Nil order_refl zero_le_one one_le_numeral)
  moreover have "rb_state (snd (currentStateLocked 20 b1)) = RHalfOpen" unfolding b1_def b0_def by code_simp
  ultimately show ?case by auto
next
  case (Suc n)
  then obtain b where r: "rb_reachable quick 20 (b, replicate (Suc n) RHalfOpen)" "rb_state b = RHalfOpen" by blast
  then have "currentStateLocked 20 b = (RHalfOpen, b)" by (simp add: currentStateLocked_def)
  then have "rb_step 20 (b, replicate (Suc n) RHalfOpen) (b, replicate (Suc n) RHalfOpen @ [RHalfOpen])"
    by (rule rb_step.rb_admit) simp
  from rb_reachable.rb_next [OF r(1) order_refl this] r(2) show ?case by (auto simp: replicate_append_same)
qed


section \<open>Bulkhead\<close>

text \<open>
  The semaphore is a channel of capacity \<open>maxConcurrent\<close>; a call sends, counts itself active, runs, counts
  itself out, receives.  A call that finds its context done leaves without a permit; where both the
  channel and the context are ready, \<open>select\<close> takes either.
\<close>

record Bulkhead =
  bh_maxConcurrent :: int64
  bh_sem :: nat
  bh_active :: int64

definition NewBulkhead :: "int64 \<Rightarrow> Bulkhead" where
  "NewBulkhead maxConcurrent =
     \<lparr>bh_maxConcurrent = (if maxConcurrent <s 1 then 1 else maxConcurrent), bh_sem = 0, bh_active = 0\<rparr>"

datatype phase = Acquired | Running | Counted_out

text \<open>The bulkhead with the phases of the calls inside it.\<close>

inductive bulkhead_step :: "Bulkhead \<times> phase list \<Rightarrow> Bulkhead \<times> phase list \<Rightarrow> bool" where
  refuse: "bulkhead_step s s"
| acquire: "int (bh_sem b) < sint (bh_maxConcurrent b) \<Longrightarrow>
    bulkhead_step (b, ps) (b\<lparr>bh_sem := Suc (bh_sem b)\<rparr>, ps @ [Acquired])"
| count_in: "bulkhead_step (b, ps @ Acquired # qs) (b\<lparr>bh_active := bh_active b + 1\<rparr>, ps @ Running # qs)"
| count_out: "bulkhead_step (b, ps @ Running # qs) (b\<lparr>bh_active := bh_active b - 1\<rparr>, ps @ Counted_out # qs)"
| release: "bulkhead_step (b, ps @ Counted_out # qs) (b\<lparr>bh_sem := bh_sem b - 1\<rparr>, ps @ qs)"

definition bulkhead_inv :: "Bulkhead \<times> phase list \<Rightarrow> bool" where
  "bulkhead_inv = (\<lambda>(b, ps). bh_sem b = length ps \<and> int (length ps) \<le> sint (bh_maxConcurrent b) \<and>
     bh_active b = of_nat (length (filter (\<lambda>p. p = Running) ps)))"

lemma bulkhead_step_inv: "bulkhead_step s s' \<Longrightarrow> bulkhead_inv s \<Longrightarrow> bulkhead_inv s'"
  by (induction rule: bulkhead_step.induct) (auto simp: bulkhead_inv_def)

lemma bulkhead_step_max: "bulkhead_step s s' \<Longrightarrow> bh_maxConcurrent (fst s') = bh_maxConcurrent (fst s)"
  by (induction rule: bulkhead_step.induct) auto

text \<open>
  The bulkhead never runs more than its maximum of calls at once, and the number of active calls it
  reports is the number that run.
\<close>
lemma bulkhead_bounded:
  assumes "bulkhead_step\<^sup>*\<^sup>* (NewBulkhead m, []) (b, ps)"
  shows "int (length (filter (\<lambda>p. p = Running) ps)) \<le> max 1 (sint m) \<and>
    sint (bh_active b) = int (length (filter (\<lambda>p. p = Running) ps))"
proof -
  have new: "bulkhead_inv (NewBulkhead m, [])" by (auto simp: bulkhead_inv_def NewBulkhead_def rword)
  have "bulkhead_inv (b, ps) \<and> bh_maxConcurrent b = bh_maxConcurrent (NewBulkhead m)"
    using assms
  proof (induction "(b, ps)" arbitrary: b ps rule: rtranclp_induct)
    case (step s)
    then show ?case using bulkhead_step_inv bulkhead_step_max by (cases s) (metis fst_conv)
  qed (use new in simp)
  then have inv: "int (length ps) \<le> max 1 (sint m)" "bh_active b = of_nat (length (filter (\<lambda>p. p = Running) ps))"
    by (auto simp: bulkhead_inv_def NewBulkhead_def rword split: if_splits)
  have le: "length (filter (\<lambda>p. p = Running) ps) \<le> length ps" by simp
  then have "int (length (filter (\<lambda>p. p = Running) ps)) < 2 ^ 63"
  proof -
    have "int (length ps) < 2 ^ 63" using inv(1) sint_lt [of m] by simp
    then show ?thesis using le by linarith
  qed
  then have "sint (of_nat (length (filter (\<lambda>p. p = Running) ps)) :: int64) = int (length (filter (\<lambda>p. p = Running) ps))"
    using sint_sbintrunc' [of "int (length (filter (\<lambda>p. p = Running) ps))", where 'a = 64]
    by (simp add: signed_take_bit_int_eq_self)
  moreover have "int (length (filter (\<lambda>p. p = Running) ps)) \<le> max 1 (sint m)"
    using inv(1) le by linarith
  ultimately show ?thesis using inv(2) by simp
qed

theorem bulkhead_bounded_witness:
  "\<exists>b. bulkhead_step\<^sup>*\<^sup>* (NewBulkhead 1, []) (b, [Running]) \<and> sint (bh_active b) = 1"
proof -
  define b0 b1 b2 where "b0 = NewBulkhead 1" and "b1 = b0\<lparr>bh_sem := Suc (bh_sem b0)\<rparr>"
    and "b2 = b1\<lparr>bh_active := bh_active b1 + 1\<rparr>"
  have "bulkhead_step (b0, []) (b1, [] @ [Acquired])"
    unfolding b1_def by (rule bulkhead_step.acquire) (simp add: b0_def NewBulkhead_def rword)
  moreover have "bulkhead_step (b1, [] @ Acquired # []) (b2, [] @ Running # [])"
    unfolding b2_def by (rule bulkhead_step.count_in)
  ultimately have r: "bulkhead_step\<^sup>*\<^sup>* (NewBulkhead 1, []) (b2, [Running])"
    by (simp add: b0_def [symmetric])
  from bulkhead_bounded [OF this] r show ?thesis by auto
qed


section \<open>Retry\<close>

record RetryConfig =
  rt_MaxRetries :: int64
  rt_InitialDelay :: instant
  rt_MaxDelay :: instant
  rt_Multiplier :: float64
  rt_Jitter :: bool

datatype 'e retry_error = RetryCancelled int | RetryExhausted int "'e option"

text \<open>
  The loop from attempt \<open>n\<close> on, with \<open>fuel\<close> attempts left.  \<open>fn\<close> is the outcome of each attempt, \<open>done\<close> says
  at which attempts the context ends the wait before it.  The result is paired with the number of calls.
\<close>

primrec retry_from ::
  "nat \<Rightarrow> nat \<Rightarrow> (nat \<Rightarrow> bool) \<Rightarrow> (nat \<Rightarrow> 'e option) \<Rightarrow> int \<Rightarrow> 'e option \<Rightarrow> 'e retry_error option \<times> nat" where
  "retry_from 0 attempt ended fn maxRetries lastErr = (Some (RetryExhausted maxRetries lastErr), 0)"
| "retry_from (Suc fuel) attempt ended fn maxRetries lastErr =
     (if 0 < attempt \<and> ended attempt then (Some (RetryCancelled (int attempt)), 0)
      else case fn attempt of
             None \<Rightarrow> (None, 1)
           | Some e \<Rightarrow> apsnd Suc (retry_from fuel (Suc attempt) ended fn maxRetries (Some e)))"

text \<open>\<open>x <= 0\<close> on the bits of a \<^verbatim>\<open>float64\<close>: zero or negative, and not a NaN.\<close>

definition float_le_zero :: "float64 \<Rightarrow> bool" where
  "float_le_zero x =
     (let w = bits x; magnitude = take_bit 63 w
      in magnitude = 0 \<or> bit w 63 \<and> magnitude \<le> 0x7FF0000000000000)"

definition DefaultRetryConfig :: RetryConfig where
  "DefaultRetryConfig =
     \<lparr>rt_MaxRetries = 3, rt_InitialDelay = 100 * 1000000, rt_MaxDelay = 30 * 1000000000,
      rt_Multiplier = Float64 0x4000000000000000, rt_Jitter = True\<rparr>"

definition applyDefaults :: "RetryConfig \<Rightarrow> RetryConfig" where
  "applyDefaults cfg =
     (let cfg = (if rt_MaxRetries cfg <=s 0 then cfg\<lparr>rt_MaxRetries := rt_MaxRetries DefaultRetryConfig\<rparr> else cfg);
          cfg = (if rt_InitialDelay cfg \<le> 0 then cfg\<lparr>rt_InitialDelay := rt_InitialDelay DefaultRetryConfig\<rparr> else cfg);
          cfg = (if rt_MaxDelay cfg \<le> 0 then cfg\<lparr>rt_MaxDelay := rt_MaxDelay DefaultRetryConfig\<rparr> else cfg)
      in if float_le_zero (rt_Multiplier cfg) then cfg\<lparr>rt_Multiplier := rt_Multiplier DefaultRetryConfig\<rparr> else cfg)"

abbreviation effective_retries :: "RetryConfig \<Rightarrow> int" where
  "effective_retries cfg \<equiv> sint (rt_MaxRetries (applyDefaults cfg))"

lemma effective_retries_pos: "0 \<le> effective_retries cfg"
  by (auto simp: applyDefaults_def DefaultRetryConfig_def Let_def word_sle_eq)

text \<open>
  The loop runs for the attempts \<open>0 \<dots> MaxRetries\<close>.  With the largest \<^verbatim>\<open>int\<close> as maximum the Go
  counter would wrap around after the last of them and go on; the model is that of any smaller maximum.
\<close>

definition Retry ::
  "RetryConfig \<Rightarrow> (nat \<Rightarrow> bool) \<Rightarrow> (nat \<Rightarrow> 'e option) \<Rightarrow> 'e retry_error option \<times> nat" where
  "Retry cfg ended fn = retry_from (Suc (nat (effective_retries cfg))) 0 ended fn (effective_retries cfg) None"

lemma retry_from_spec:
  "case retry_from fuel n ended fn m lastErr of
     (None, k) \<Rightarrow> 0 < k \<and> k \<le> fuel \<and> fn (n + k - 1) = None \<and> (\<forall>i < k - 1. fn (n + i) \<noteq> None) \<and>
       (\<forall>i < k. 0 < n + i \<longrightarrow> \<not> ended (n + i))
   | (Some (RetryCancelled a), k) \<Rightarrow> a = int (n + k) \<and> k < fuel \<and> 0 < n + k \<and> ended (n + k) \<and> (\<forall>i < k. fn (n + i) \<noteq> None)
   | (Some (RetryExhausted a e), k) \<Rightarrow> a = m \<and> k = fuel \<and> (\<forall>i < fuel. fn (n + i) \<noteq> None) \<and>
       (0 < fuel \<longrightarrow> e = fn (n + fuel - 1)) \<and> (fuel = 0 \<longrightarrow> e = lastErr)"
proof (induction fuel arbitrary: n lastErr)
  case (Suc fuel)
  have sh: "(\<forall>i < Suc k. P (n + i)) \<longleftrightarrow> P n \<and> (\<forall>i < k. P (Suc n + i))" for k and P :: "nat \<Rightarrow> bool"
    by (auto simp: less_Suc_eq_0_disj)
  show ?case
  proof (cases "0 < n \<and> ended n")
    case False
    show ?thesis
    proof (cases "fn n")
      case None
      with False show ?thesis by auto
    next
      case (Some e)
      obtain r k where rk: "retry_from fuel (Suc n) ended fn m (Some e) = (r, k)" by fastforce
      have "(\<forall>i < k. fn (n + i) \<noteq> None) \<longleftrightarrow> (\<forall>i < k - 1. fn (Suc n + i) \<noteq> None)" if "0 < k"
        using that sh [of "k - 1" "\<lambda>j. fn j \<noteq> None"] Some by simp
      with Suc.IH [of "Suc n" "Some e"] rk Some False show ?thesis
        using sh [of k "\<lambda>j. fn j \<noteq> None"] sh [of fuel "\<lambda>j. fn j \<noteq> None"] sh [of k "\<lambda>j. 0 < j \<longrightarrow> \<not> ended j"]
        by (auto split: option.splits retry_error.splits)
    qed
  qed auto
qed simp


text \<open>
  A retry makes at most one call more than the maximum of retries.  It succeeds exactly when some
  attempt up to that maximum is the first to succeed and the context ended none of the waits up to it;
  the error for exhausted retries means that every attempt was made and failed.
\<close>
lemma retry_result:
  assumes "effective_retries cfg < 2 ^ 63 - 1"
  shows "(case Retry cfg ended fn of (r, k) \<Rightarrow>
     int k \<le> effective_retries cfg + 1 \<and>
     (r = None \<longleftrightarrow> (\<exists>j. int j \<le> effective_retries cfg \<and> fn j = None \<and> (\<forall>i < j. fn i \<noteq> None) \<and>
        (\<forall>i \<le> j. 0 < i \<longrightarrow> \<not> ended i))) \<and>
     (\<forall>m e. r = Some (RetryExhausted m e) \<longrightarrow>
        int k = effective_retries cfg + 1 \<and> (\<forall>i < k. fn i \<noteq> None) \<and> e = fn (k - 1)))"
proof -
  obtain r k where rk: "Retry cfg ended fn = (r, k)" by fastforce
  note pos = effective_retries_pos [of cfg]
  let ?f = "Suc (nat (effective_retries cfg))"
  note spec = retry_from_spec [where fuel = ?f and n = 0 and ended = ended and fn = fn
      and m = "effective_retries cfg" and lastErr = None, unfolded Retry_def [symmetric] rk prod.case add_0]
  consider (ok) "r = None" | (cancelled) a where "r = Some (RetryCancelled a)" | (exhausted) m e where "r = Some (RetryExhausted m e)"
    by (metis not_None_eq retry_error.exhaust)
  then show ?thesis
  proof cases
    case ok
    then have s: "0 < k" "k \<le> ?f" "fn (k - 1) = None" "\<forall>i < k - 1. fn i \<noteq> None" "\<forall>i < k. 0 < i \<longrightarrow> \<not> ended i"
      using spec by auto
    then have "int (k - 1) \<le> effective_retries cfg" "\<forall>i \<le> k - 1. 0 < i \<longrightarrow> \<not> ended i" using pos by auto
    then have "\<exists>j. int j \<le> effective_retries cfg \<and> fn j = None \<and> (\<forall>i < j. fn i \<noteq> None) \<and>
        (\<forall>i \<le> j. 0 < i \<longrightarrow> \<not> ended i)"
      using s by (intro exI [of _ "k - 1"]) simp
    with s ok pos show ?thesis unfolding rk by simp
  next
    case cancelled
    then have s: "k < ?f" "0 < k" "ended k" "\<forall>i < k. fn i \<noteq> None" using spec by auto
    then have "\<not> (fn j = None \<and> (\<forall>i \<le> j. 0 < i \<longrightarrow> \<not> ended i))" for j by (meson not_le)
    with s cancelled pos show ?thesis unfolding rk by auto
  next
    case exhausted
    then have s: "k = ?f" "\<forall>i < ?f. fn i \<noteq> None" "e = fn (k - 1)" using spec by auto
    then have "\<not> (int j \<le> effective_retries cfg \<and> fn j = None)" for j using pos by auto
    with s exhausted pos show ?thesis unfolding rk by auto
  qed
qed

theorem retry_result_witness:
  "Retry \<lparr>rt_MaxRetries = 2, rt_InitialDelay = 1, rt_MaxDelay = 8, rt_Multiplier = Float64 0, rt_Jitter = False\<rparr>
     (\<lambda>_. False) (\<lambda>i. if i < 2 then Some ''busy'' else None) = (None, 3)"
proof -
  let ?cfg = "\<lparr>rt_MaxRetries = 2, rt_InitialDelay = 1, rt_MaxDelay = 8, rt_Multiplier = Float64 0, rt_Jitter = False\<rparr>"
  let ?fn = "\<lambda>i. if i < (2 :: nat) then Some ''busy'' else None"
  obtain r k where rk: "Retry ?cfg (\<lambda>_. False) ?fn = (r, k)" by fastforce
  have m: "effective_retries ?cfg = 2" by code_simp
  then have small: "effective_retries ?cfg < 2 ^ 63 - 1" by simp
  have "\<exists>j. int j \<le> effective_retries ?cfg \<and> ?fn j = None \<and> (\<forall>i < j. ?fn i \<noteq> None) \<and> (\<forall>i \<le> j. 0 < i \<longrightarrow> \<not> False)"
    by (rule exI [of _ 2]) (simp add: m)
  with retry_result [OF small, where ended = "\<lambda>_. False" and fn = ?fn] have "r = None" unfolding rk by simp
  moreover have "snd (Retry ?cfg (\<lambda>_. False) ?fn) = 3" by code_simp
  ultimately show ?thesis unfolding rk by simp
qed

end
