(* ===== verification/QueryResult.thy ===== *)
theory QueryResult
  imports Masker
begin

text \<open>
  The fields of \<^verbatim>\<open>v1pb.QueryResult\<close> (\<^verbatim>\<open>proto/v1/v1/sql_service.proto\<close>) that the masking of results
  reads or writes, and the details an error carries; a row is its values, of which some can be nil.
\<close>

record MaskingReason =
  mr_SemanticTypeId :: string
  mr_SemanticTypeTitle :: string
  mr_MaskingRuleId :: string
  mr_Algorithm :: string
  mr_Context :: string
  mr_ClassificationLevel :: int32
  mr_SemanticTypeIcon :: string

record PostgresError =
  pge_Severity :: string
  pge_Code :: string
  pge_Message :: string
  pge_Detail :: string
  pge_Hint :: string
  pge_Position :: int32
  pge_InternalPosition :: int32
  pge_InternalQuery :: string
  pge_Where :: string
  pge_SchemaName :: string
  pge_TableName :: string
  pge_ColumnName :: string
  pge_DataTypeName :: string
  pge_ConstraintName :: string
  pge_File :: string
  pge_Line :: int32
  pge_Routine :: string

datatype DetailedError =
  QueryResult_PostgresError PostgresError
| QueryResult_SyntaxError "(int32 \<times> int32) option"
| QueryResult_PermissionDenied "string list" "string list"
| QueryResult_CommandError int32

record QueryResult =
  res_ColumnNames :: "string list"
  res_Rows :: "RowValue option list list"
  res_RowsCount :: int64
  res_Error :: string
  res_DetailedError :: "DetailedError option"
  res_Statement :: string
  res_Masked :: "MaskingReason option list"

definition string_value :: "string \<Rightarrow> RowValue option" where
  "string_value s = Some (RV_String s)"

text \<open>What a refused statement leaves of its result: the message, no rows, the details as they were.\<close>

definition blank :: "string \<Rightarrow> QueryResult \<Rightarrow> QueryResult" where
  "blank msg result = result\<lparr>res_Error := msg, res_Rows := [], res_RowsCount := 0\<rparr>"

end
