(* ===== verification/Outcome.thy ===== *)
theory Outcome
  imports Prelude
begin

text \<open>
  The result of a Go function that returns an \<^verbatim>\<open>error\<close> and may panic: a panic, an error, or a value.
  \<open>bind_outcome\<close> is the sequence with its \<^verbatim>\<open>if err != nil { return err }\<close>, \<open>traverse\<close> the loop that
  rebuilds a list and stops at the first panic or error.
\<close>

datatype ('e, 'a) outcome = Panic | Err 'e | Ok 'a

definition bind_outcome :: "('e, 'a) outcome \<Rightarrow> ('a \<Rightarrow> ('e, 'b) outcome) \<Rightarrow> ('e, 'b) outcome" where
  "bind_outcome r f = (case r of Panic \<Rightarrow> Panic | Err e \<Rightarrow> Err e | Ok x \<Rightarrow> f x)"

primrec traverse :: "('a \<Rightarrow> ('e, 'b) outcome) \<Rightarrow> 'a list \<Rightarrow> ('e, 'b list) outcome" where
  "traverse f [] = Ok []"
| "traverse f (x # xs) =
     bind_outcome (f x) (\<lambda>y. bind_outcome (traverse f xs) (\<lambda>ys. Ok (y # ys)))"

text \<open>An error wrapped by the caller.\<close>

definition wrap :: "('e \<Rightarrow> 'f) \<Rightarrow> ('e, 'a) outcome \<Rightarrow> ('f, 'a) outcome" where
  "wrap g r = (case r of Panic \<Rightarrow> Panic | Err e \<Rightarrow> Err (g e) | Ok x \<Rightarrow> Ok x)"

definition of_option :: "'e \<Rightarrow> 'a option \<Rightarrow> ('e, 'a) outcome" where
  "of_option e r = (case r of None \<Rightarrow> Err e | Some x \<Rightarrow> Ok x)"

lemma bind_outcome_simps [simp]:
  "bind_outcome Panic f = Panic" "bind_outcome (Err e) f = Err e" "bind_outcome (Ok x) f = f x"
  by (simp_all add: bind_outcome_def)

lemma wrap_simps [simp]: "wrap g Panic = Panic" "wrap g (Err e) = Err (g e)" "wrap g (Ok x) = Ok x"
  by (simp_all add: wrap_def)

lemma of_option_simps [simp]: "of_option e None = Err e" "of_option e (Some x) = Ok x"
  by (simp_all add: of_option_def)

lemma bind_Ok_iff: "bind_outcome r f = Ok y \<longleftrightarrow> (\<exists>x. r = Ok x \<and> f x = Ok y)"
  by (cases r) simp_all

lemma wrap_Ok_iff: "wrap g r = Ok y \<longleftrightarrow> r = Ok y"
  by (cases r) simp_all

lemma of_option_Ok_iff: "of_option e r = Ok y \<longleftrightarrow> r = Some y"
  by (cases r) simp_all

lemma bind_outcome_cong [fundef_cong]:
  "r = r' \<Longrightarrow> (\<And>x. r' = Ok x \<Longrightarrow> f x = g x) \<Longrightarrow> bind_outcome r f = bind_outcome r' g"
  by (cases r') auto

lemma traverse_cong [fundef_cong]:
  "xs = ys \<Longrightarrow> (\<And>x. x \<in> set ys \<Longrightarrow> f x = g x) \<Longrightarrow> traverse f xs = traverse g ys"
  by (induction ys arbitrary: xs) auto

lemma traverse_Ok_iff: "traverse f xs = Ok ys \<longleftrightarrow> list_all2 (\<lambda>x y. f x = Ok y) xs ys"
  by (induction xs arbitrary: ys) (auto simp: bind_Ok_iff list_all2_Cons1)

lemma traverse_origin: "traverse f xs = Ok ys \<Longrightarrow> y \<in> set ys \<Longrightarrow> \<exists>x \<in> set xs. f x = Ok y"
  by (induction xs arbitrary: ys) (auto simp: bind_Ok_iff)

lemma traverse_Ok_map: "(\<And>x. x \<in> set xs \<Longrightarrow> f x = Ok (g x)) \<Longrightarrow> traverse f xs = Ok (map g xs)"
  by (induction xs) auto

lemma traverse_ident: "(\<And>x. x \<in> set xs \<Longrightarrow> f x = Ok x) \<Longrightarrow> traverse f xs = Ok xs"
  by (induction xs) auto

text \<open>Loops over related lists give the same list, where both end well.\<close>

lemma traverse_same:
  assumes "list_all2 (\<lambda>x x'. \<forall>y y'. f x = Ok y \<longrightarrow> f x' = Ok y' \<longrightarrow> y = y') xs xs'"
    and "traverse f xs = Ok ys" "traverse f xs' = Ok ys'"
  shows "ys = ys'"
  using assms
  by (induction arbitrary: ys ys' rule: list_all2_induct) (auto simp: bind_Ok_iff)

text \<open>No step of the loop can panic, so neither can the loop.\<close>

lemma traverse_not_Panic: "(\<And>x. x \<in> set xs \<Longrightarrow> f x \<noteq> Panic) \<Longrightarrow> traverse f xs \<noteq> Panic"
  by (induction xs) (auto simp: bind_outcome_def split: outcome.splits)


section \<open>Results that are an error or a value\<close>

text \<open>The same sequence for a function that does not panic; \<open>require\<close> names the error of a failure.\<close>

definition bind_sum :: "'err + 'v \<Rightarrow> ('v \<Rightarrow> 'err + 'res) \<Rightarrow> 'err + 'res" where
  "bind_sum r k = (case r of Inr v \<Rightarrow> k v | Inl err \<Rightarrow> Inl err)"

definition require :: "'e \<Rightarrow> 'a option \<Rightarrow> 'e + 'a" where
  "require e r = (case r of None \<Rightarrow> Inl e | Some x \<Rightarrow> Inr x)"

definition wrap_error :: "('e \<Rightarrow> 'f) \<Rightarrow> 'e + 'a \<Rightarrow> 'f + 'a" where
  "wrap_error g r = (case r of Inl e \<Rightarrow> Inl (g e) | Inr x \<Rightarrow> Inr x)"

lemma bind_sum_simps [simp]: "bind_sum (Inl e) f = Inl e" "bind_sum (Inr x) f = f x"
  by (simp_all add: bind_sum_def)

lemma require_simps [simp]: "require e None = Inl e" "require e (Some x) = Inr x"
  by (simp_all add: require_def)

lemma wrap_error_simps [simp]: "wrap_error g (Inl e) = Inl (g e)" "wrap_error g (Inr x) = Inr x"
  by (simp_all add: wrap_error_def)

lemma bind_sum_Inr_iff: "bind_sum r f = Inr y \<longleftrightarrow> (\<exists>x. r = Inr x \<and> f x = Inr y)"
  by (cases r) simp_all

lemma require_Inr_iff: "require e r = Inr y \<longleftrightarrow> r = Some y"
  by (cases r) simp_all

lemma wrap_error_Inr_iff: "wrap_error g r = Inr y \<longleftrightarrow> r = Inr y"
  by (cases r) simp_all

lemma bind_sum_cong [fundef_cong]:
  "r = r' \<Longrightarrow> (\<And>x. r' = Inr x \<Longrightarrow> f x = g x) \<Longrightarrow> bind_sum r f = bind_sum r' g"
  by (cases r') auto

end
