(* ===== verification/QuerySpan.thy ===== *)
theory QuerySpan
  imports SchemaProto GoStrings GoRunes
begin

text \<open>
  What the parsers report of a query, as the masking of its result reads it:
  \<^verbatim>\<open>backend/plugin/parser/base/{span,json_path,document_analysis}.go\<close>.  A Go map that the code only
  ranges over and looks up in is an association list in the order the range visits.
\<close>

section \<open>Paths into documents\<close>

text \<open>A path is the list of its nodes, which Go links by \<open>Next\<close>; a nil path is \<open>None\<close>.\<close>

datatype SelectorNode = ItemSelector (Identifier: string) | ArraySelector (Identifier: string) (index: int64)

type_synonym PathAST = "SelectorNode list"

definition node_string :: "SelectorNode \<Rightarrow> string" where
  "node_string n =
     (case n of
        ItemSelector i \<Rightarrow> i
      | ArraySelector i ix \<Rightarrow> i @ ''['' @ FormatInt (sint ix) @ '']'')"

fun toString :: "PathAST \<Rightarrow> string" where
  "toString [] = []"
| "toString [n] = node_string n"
| "toString (n # ns) = node_string n @ ''.'' @ toString ns"

text \<open>The string of a path is its nodes, joined by dots.\<close>

lemma toString_Join: "toString p = Join (map node_string p) ''.''"
  by (induction p rule: toString.induct) simp_all


section \<open>Columns\<close>

record ColumnResource =
  cr_Server :: string
  cr_Database :: string
  cr_Schema :: string
  cr_Table :: string
  cr_Column :: string

definition ColumnResource_String :: "ColumnResource \<Rightarrow> string" where
  "ColumnResource_String c =
     Join (filter (\<lambda>s. s \<noteq> []) [cr_Server c, cr_Database c, cr_Schema c, cr_Table c, cr_Column c]) ''.''"

text \<open>A set of columns, \<open>map[ColumnResource]bool\<close>, in the order of a range over it.\<close>

type_synonym SourceColumnSet = "ColumnResource list"

definition MergeSourceColumnSet :: "SourceColumnSet \<Rightarrow> SourceColumnSet \<Rightarrow> SourceColumnSet \<times> bool" where
  "MergeSourceColumnSet m n =
     (let r = foldl (\<lambda>r k. if k \<in> set r then r else r @ [k]) m n
      in (r, length r \<noteq> length m))"

lemma MergeSourceColumnSet_set:
  "distinct m \<Longrightarrow> set (fst (MergeSourceColumnSet m n)) = set m \<union> set n \<and> distinct (fst (MergeSourceColumnSet m n))"
proof -
  have "set (foldl (\<lambda>r k. if k \<in> set r then r else r @ [k]) r n) = set r \<union> set n \<and>
      (distinct r \<longrightarrow> distinct (foldl (\<lambda>r k. if k \<in> set r then r else r @ [k]) r n))" for r :: "ColumnResource list"
    by (induction n arbitrary: r) (auto split: if_splits)
  then show "distinct m \<Longrightarrow> ?thesis" by (auto simp: MergeSourceColumnSet_def Let_def)
qed

text \<open>The second result tells whether anything was added.\<close>

lemma MergeSourceColumnSet_changed:
  assumes "distinct m"
  shows "snd (MergeSourceColumnSet m n) \<longleftrightarrow> \<not> set n \<subseteq> set m"
proof -
  let ?r = "fst (MergeSourceColumnSet m n)"
  have s: "set ?r = set m \<union> set n" "distinct ?r" using MergeSourceColumnSet_set [OF assms] by auto
  have "snd (MergeSourceColumnSet m n) \<longleftrightarrow> card (set ?r) \<noteq> card (set m)"
    using distinct_card [OF s(2)] distinct_card [OF assms] by (simp add: MergeSourceColumnSet_def Let_def)
  also have "\<dots> \<longleftrightarrow> set ?r \<noteq> set m"
    using card_subset_eq [of "set ?r" "set m"] s(1) by auto
  finally show ?thesis using s(1) by blast
qed


section \<open>Document queries\<close>

datatype MongoDBMaskableAPI =
  MongoDBMaskableAPIUnsupported | MongoDBMaskableAPIFind | MongoDBMaskableAPIFindOne
| MongoDBMaskableAPIUnsupportedRead | MongoDBMaskableAPIAggregate

record MongoDBJoinedCollection =
  jc_AsField :: string
  jc_Collection :: string

record MongoDBAnalysis =
  mg_API :: MongoDBMaskableAPI
  mg_Operation :: string
  mg_Collection :: string
  mg_PredicateFields :: "string list"
  mg_UnsupportedStage :: string
  mg_JoinedCollections :: "MongoDBJoinedCollection list"

datatype ElasticsearchMaskableAPI =
  ElasticsearchAPIUnsupported | ElasticsearchAPIMaskSearch | ElasticsearchAPIMaskGetDoc
| ElasticsearchAPIMaskGetSource | ElasticsearchAPIMaskMGet | ElasticsearchAPIMaskExplain
| ElasticsearchAPIBlocked

datatype ElasticsearchBlockedFeature =
  ElasticsearchBlockedFeatureAggs | ElasticsearchBlockedFeatureSuggest
| ElasticsearchBlockedFeatureScriptFields | ElasticsearchBlockedFeatureRuntimeMappings
| ElasticsearchBlockedFeatureStoredFields | ElasticsearchBlockedFeatureDocvalueFields

definition ElasticsearchBlockedFeatureNames :: "ElasticsearchBlockedFeature \<Rightarrow> string" where
  "ElasticsearchBlockedFeatureNames f =
     (case f of
        ElasticsearchBlockedFeatureAggs \<Rightarrow> ''aggregations''
      | ElasticsearchBlockedFeatureSuggest \<Rightarrow> ''suggest''
      | ElasticsearchBlockedFeatureScriptFields \<Rightarrow> ''script_fields''
      | ElasticsearchBlockedFeatureRuntimeMappings \<Rightarrow> ''runtime_mappings''
      | ElasticsearchBlockedFeatureStoredFields \<Rightarrow> ''stored_fields''
      | ElasticsearchBlockedFeatureDocvalueFields \<Rightarrow> ''docvalue_fields'')"

record ElasticsearchAnalysis =
  es_API :: ElasticsearchMaskableAPI
  es_Index :: string
  es_BlockedFeatures :: "ElasticsearchBlockedFeature list"
  es_SourceFields :: "string list option"
  es_SourceDisabled :: bool
  es_RequestedFields :: "string list"
  es_HighlightFields :: "string list"
  es_SortFields :: "string list"
  es_HasInnerHits :: bool
  es_PredicateFields :: "string list"


section \<open>Query spans\<close>

datatype QueryType = QueryTypeUnknown | Select | Explain | SelectInfoSchema | DDL | DML

record QuerySpanResult =
  qr_Name :: string
  qr_SourceColumns :: SourceColumnSet
  qr_IsPlainField :: bool
  qr_SourceFieldPaths :: "PathAST option list gomap"
  qr_SelectAsterisk :: bool

record QuerySpan =
  qs_Type :: QueryType
  qs_Results :: "QuerySpanResult list"
  qs_SourceColumns :: SourceColumnSet
  qs_PredicateColumns :: SourceColumnSet
  qs_PredicatePaths :: "PathAST option gomap"
  qs_MongoDBAnalysis :: "MongoDBAnalysis option"
  qs_ElasticsearchAnalysis :: "ElasticsearchAnalysis option"
  qs_NotFoundError :: "string option"
  qs_FunctionNotSupportedError :: "string option"

definition zero_QuerySpan :: QuerySpan where
  "zero_QuerySpan = \<lparr>qs_Type = QueryTypeUnknown, qs_Results = [], qs_SourceColumns = [], qs_PredicateColumns = [],
     qs_PredicatePaths = [], qs_MongoDBAnalysis = None, qs_ElasticsearchAnalysis = None,
     qs_NotFoundError = None, qs_FunctionNotSupportedError = None\<rparr>"

end
