(* ===== verification/DocumentMasking.thy ===== *)
theory DocumentMasking
  imports QueryResult Outcome QuerySpan SchemaModel
begin

text \<open>
  \<^verbatim>\<open>backend/api/v1/document_masking.go\<close>: the masking of results of document databases (CosmosDB,
  MongoDB, Elasticsearch).  A document is the tree \<^verbatim>\<open>encoding/json\<close> decodes; its objects are lists of
  fields with distinct keys, in the order in which \<open>range\<close> visits them.  Decoding, encoding and
  \<^verbatim>\<open>strconv.Quote\<close> are parameters, of which nothing is assumed here, and so is the store's
  \<^verbatim>\<open>GetDBSchema\<close>.  The code changes the decoded tree in place; nothing else refers to it, so that the
  model returns the changed tree.
\<close>

section \<open>Documents\<close>

text \<open>The kinds after \<open>JObject\<close> are not decoded from JSON; the masker's result can have them.\<close>

datatype json =
  JNull
| JBool bool
| JNumber float64
| JString string
| JArray "json list"
| JObject "(string \<times> json) list"
| JFloat32 float32
| JInt32 int32
| JUint32 "32 word"
| JUint64 "64 word"

record doc_env =
  lib :: library
  json_Unmarshal :: "string \<Rightarrow> json option"
  json_Marshal :: "json \<Rightarrow> string option"
  strconv_Quote :: "string \<Rightarrow> string"

datatype doc_error =
  UnmarshalError
| MarshalError
| SchemaError string
| ResultsError nat
| SpanError
| RequestBlocked string

type_synonym 'a doc_outcome = "(doc_error, 'a) outcome"

definition Unmarshal :: "doc_env \<Rightarrow> string \<Rightarrow> json doc_outcome" where
  "Unmarshal env s = of_option UnmarshalError (json_Unmarshal env s)"

definition Marshal :: "doc_env \<Rightarrow> json \<Rightarrow> string doc_outcome" where
  "Marshal env d = of_option MarshalError (json_Marshal env d)"

text \<open>
  Decoding into a \<^verbatim>\<open>map[string]any\<close> fails for every value but an object and \<open>null\<close>, which leaves the
  map without entries; likewise for a \<^verbatim>\<open>[]any\<close>, which \<open>null\<close> leaves nil.
\<close>

definition Unmarshal_object :: "doc_env \<Rightarrow> string \<Rightarrow> (string \<times> json) list doc_outcome" where
  "Unmarshal_object env s =
     bind_outcome (Unmarshal env s) (\<lambda>d.
       case d of JObject fs \<Rightarrow> Ok fs | JNull \<Rightarrow> Ok [] | _ \<Rightarrow> Err UnmarshalError)"

definition Unmarshal_array :: "doc_env \<Rightarrow> string \<Rightarrow> json list option doc_outcome" where
  "Unmarshal_array env s =
     bind_outcome (Unmarshal env s) (\<lambda>d.
       case d of JArray vs \<Rightarrow> Ok (Some vs) | JNull \<Rightarrow> Ok None | _ \<Rightarrow> Err UnmarshalError)"

text \<open>The nil-safe getters of an object schema.\<close>

definition GetProperties :: "storepb_ObjectSchema \<Rightarrow> (string \<times> storepb_ObjectSchema) list option" where
  "GetProperties os = (case os_kind os of Some (StructKind props) \<Rightarrow> Some props | _ \<Rightarrow> None)"

definition GetItem :: "storepb_ObjectSchema \<Rightarrow> storepb_ObjectSchema option" where
  "GetItem os = (case os_kind os of Some (ArrayKind item) \<Rightarrow> item | _ \<Rightarrow> None)"

definition property :: "storepb_ObjectSchema \<Rightarrow> string \<Rightarrow> storepb_ObjectSchema option" where
  "property os k = (case GetProperties os of None \<Rightarrow> None | Some props \<Rightarrow> map_of props k)"


section \<open>Masking an atomic value\<close>

definition getRowValueFromJSONAtomicMember :: "json \<Rightarrow> RowValue option" where
  "getRowValueFromJSONAtomicMember data =
     (case data of
        JNull \<Rightarrow> Some (RV_Null 0)
      | JString s \<Rightarrow> Some (RV_String s)
      | JNumber x \<Rightarrow> Some (RV_Double x)
      | JBool b \<Rightarrow> Some (RV_Bool b)
      | _ \<Rightarrow> None)"

definition getJSONMemberFromRowValue :: "RowValue \<Rightarrow> json" where
  "getJSONMemberFromRowValue v =
     (case v of
        RV_Null _ \<Rightarrow> JNull
      | RV_Bool b \<Rightarrow> JBool b
      | RV_Bytes b \<Rightarrow> JString b
      | RV_Double x \<Rightarrow> JNumber x
      | RV_Float x \<Rightarrow> JFloat32 x
      | RV_Int32 i \<Rightarrow> JInt32 i
      | RV_String s \<Rightarrow> JString s
      | RV_Uint32 i \<Rightarrow> JUint32 i
      | RV_Uint64 i \<Rightarrow> JUint64 i
      | _ \<Rightarrow> JNull)"

text \<open>The masker's panic, and the one of reading the kind of a nil result.\<close>

definition mask_value :: "doc_env \<Rightarrow> Masker \<Rightarrow> RowValue \<Rightarrow> json doc_outcome" where
  "mask_value env m v =
     (case Mask (lib env) m \<lparr>WantBytes = False, Data = v\<rparr> of
        Some (Some r) \<Rightarrow> Ok (getJSONMemberFromRowValue r)
      | _ \<Rightarrow> Panic)"

definition applyMaskerToJSONMember :: "doc_env \<Rightarrow> json \<Rightarrow> Masker \<Rightarrow> json doc_outcome" where
  "applyMaskerToJSONMember env data m =
     (case getRowValueFromJSONAtomicMember data of
        Some v \<Rightarrow> mask_value env m v
      | None \<Rightarrow> bind_outcome (Marshal env data) (\<lambda>s. mask_value env m (RV_String s)))"

fun applyMaskerToData :: "doc_env \<Rightarrow> json \<Rightarrow> Masker \<Rightarrow> json doc_outcome" where
  "applyMaskerToData env (JObject fs) m =
     bind_outcome (traverse (\<lambda>(k, v). bind_outcome (applyMaskerToData env v m) (\<lambda>v'. Ok (k, v'))) fs)
       (\<lambda>fs'. Ok (JObject fs'))"
| "applyMaskerToData env (JArray vs) m =
     bind_outcome (traverse (\<lambda>v. applyMaskerToData env v m) vs) (\<lambda>vs'. Ok (JArray vs'))"
| "applyMaskerToData env data m =
     (case getRowValueFromJSONAtomicMember data of Some v \<Rightarrow> mask_value env m v | None \<Rightarrow> Ok data)"


section \<open>Walking a document along its schema\<close>

definition is_array :: "json \<Rightarrow> bool" where
  "is_array data = (case data of JArray _ \<Rightarrow> True | _ \<Rightarrow> False)"

lemma property_size [termination_simp]: "property os k = Some c \<Longrightarrow> size c < size os"
proof (cases os)
  case (ObjectSchema ty kind sem)
  assume "property os k = Some c"
  then obtain props where k: "kind = Some (StructKind props)" "map_of props k = Some c"
    by (auto simp: property_def GetProperties_def ObjectSchema split: option.splits ObjectSchema_kind.splits)
  then have "(k, c) \<in> set props" by (auto dest: map_of_SomeD)
  then have "size c \<le> size_list (size_prod (\<lambda>_. 0) size) props"
    by (intro order_trans [OF _ size_list_estimation' [OF _ order_refl]]) auto
  then show ?thesis by (simp add: ObjectSchema k)
qed

lemma GetItem_size [termination_simp]: "GetItem os = Some c \<Longrightarrow> size c < size os"
  by (cases os) (auto simp: GetItem_def split: option.splits ObjectSchema_kind.splits)

function walkAndMaskJSONRecursive ::
  "doc_env \<Rightarrow> Masker gomap \<Rightarrow> json \<Rightarrow> storepb_ObjectSchema option \<Rightarrow> json doc_outcome" where
  "walkAndMaskJSONRecursive env sm data None = Ok data"
| "walkAndMaskJSONRecursive env sm data (Some os) =
     (if os_type os = ObjectSchema_ARRAY \<and> os_semantic_type os = [] \<and> \<not> is_array data
      then (case GetItem os of
              Some item \<Rightarrow> walkAndMaskJSONRecursive env sm data (Some item)
            | None \<Rightarrow> Ok data)
      else
        (case data of
           JObject fs \<Rightarrow>
             if os_semantic_type os \<noteq> [] then
               (case map_of sm (os_semantic_type os) of
                  Some m \<Rightarrow> applyMaskerToJSONMember env data m
                | None \<Rightarrow> Ok data)
             else
               (case GetProperties os of
                  None \<Rightarrow> Ok data
                | Some _ \<Rightarrow>
                    bind_outcome
                      (traverse (\<lambda>(k, v). case property os k of
                           None \<Rightarrow> Ok (k, v)
                         | Some child \<Rightarrow>
                             bind_outcome (walkAndMaskJSONRecursive env sm v (Some child)) (\<lambda>v'. Ok (k, v'))) fs)
                      (\<lambda>fs'. Ok (JObject fs')))
         | JArray vs \<Rightarrow>
             if os_semantic_type os \<noteq> [] then
               (case map_of sm (os_semantic_type os) of
                  Some m \<Rightarrow> applyMaskerToJSONMember env data m
                | None \<Rightarrow> Ok data)
             else
               (case GetItem os of
                  None \<Rightarrow> Ok data
                | Some item \<Rightarrow>
                    bind_outcome (traverse (\<lambda>v. walkAndMaskJSONRecursive env sm v (Some item)) vs)
                      (\<lambda>vs'. Ok (JArray vs')))
         | _ \<Rightarrow>
             if os_semantic_type os \<noteq> [] then
               (case map_of sm (os_semantic_type os) of
                  Some m \<Rightarrow> applyMaskerToData env data m
                | None \<Rightarrow> Ok data)
             else Ok data))"
  by pat_completeness auto
termination
  by (relation "measures [\<lambda>(env, sm, data, os). size data, \<lambda>(env, sm, data, os). size_option size os]")
    (auto simp: less_Suc_eq_le size_list_estimation' Suc_le_eq GetItem_size)



definition maskDocumentString ::
  "doc_env \<Rightarrow> Masker gomap \<Rightarrow> string \<Rightarrow> storepb_ObjectSchema option \<Rightarrow> string doc_outcome" where
  "maskDocumentString env sm document objectSchema =
     (if document = [] \<or> objectSchema = None then Ok document
      else
        bind_outcome (Unmarshal env document) (\<lambda>parsed.
        bind_outcome (walkAndMaskJSONRecursive env sm parsed objectSchema) (\<lambda>masked.
        Marshal env masked)))"

primrec objectSchemaHasSemanticTypes :: "storepb_ObjectSchema \<Rightarrow> bool"
  and kindHasSemanticTypes :: "ObjectSchema_kind \<Rightarrow> bool" where
  "objectSchemaHasSemanticTypes (ObjectSchema ty kind sem) =
     (sem \<noteq> [] \<or> (case map_option kindHasSemanticTypes kind of None \<Rightarrow> False | Some b \<Rightarrow> b))"
| "kindHasSemanticTypes (StructKind props) =
     list_ex (\<lambda>(k, b). b) (map (map_prod id objectSchemaHasSemanticTypes) props)"
| "kindHasSemanticTypes (ArrayKind item) =
     (case map_option objectSchemaHasSemanticTypes item of None \<Rightarrow> False | Some b \<Rightarrow> b)"


section \<open>Semantic types along a path\<close>

text \<open>The schema and the semantic type a path leads to, from the node after the container.\<close>

fun schema_by_path :: "storepb_ObjectSchema \<Rightarrow> PathAST \<Rightarrow> storepb_ObjectSchema option \<times> string" where
  "schema_by_path outer [] = (Some outer, os_semantic_type outer)"
| "schema_by_path outer (node # path) =
     (case os_type outer of
        ObjectSchema_OBJECT \<Rightarrow>
          (case property outer (Identifier node) of
             None \<Rightarrow> (None, os_semantic_type outer)
           | Some inner \<Rightarrow> schema_by_path inner path)
      | ObjectSchema_ARRAY \<Rightarrow>
          (case GetItem outer of
             None \<Rightarrow> (None, os_semantic_type outer)
           | Some item \<Rightarrow>
               if os_type item \<noteq> ObjectSchema_OBJECT then (None, os_semantic_type outer)
               else (case property item (Identifier node) of
                       None \<Rightarrow> (None, os_semantic_type outer)
                     | Some inner \<Rightarrow> schema_by_path inner path))
      | _ \<Rightarrow> (None, os_semantic_type outer))"

definition getObjectSchemaByPath :: "storepb_ObjectSchema \<Rightarrow> PathAST \<Rightarrow> storepb_ObjectSchema option \<times> string" where
  "getObjectSchemaByPath objectSchema path =
     (if os_semantic_type objectSchema \<noteq> [] then (Some objectSchema, os_semantic_type objectSchema)
      else schema_by_path objectSchema path)"

definition stripContainerFromPath :: "PathAST option \<Rightarrow> PathAST" where
  "stripContainerFromPath path = (case path of None \<Rightarrow> [] | Some p \<Rightarrow> tl p)"

text \<open>The predicate check of CosmosDB: the first semantic type of a node on the path.\<close>

fun first_semantic_type :: "storepb_ObjectSchema \<Rightarrow> PathAST \<Rightarrow> string" where
  "first_semantic_type os [] = []"
| "first_semantic_type os (node # path) =
     (if Identifier node = [] \<or> os_type os \<noteq> ObjectSchema_OBJECT then []
      else case property os (Identifier node) of
        None \<Rightarrow> []
      | Some child \<Rightarrow>
          (case node of
             ItemSelector _ \<Rightarrow>
               if os_semantic_type child \<noteq> [] then os_semantic_type child
               else first_semantic_type child path
           | ArraySelector _ _ \<Rightarrow>
               if os_type child \<noteq> ObjectSchema_ARRAY then []
               else case GetItem child of
                 None \<Rightarrow> []
               | Some item \<Rightarrow>
                   if os_semantic_type item \<noteq> [] then os_semantic_type item
                   else first_semantic_type item path))"

definition getFirstSemanticTypeInPath :: "PathAST option \<Rightarrow> storepb_ObjectSchema option \<Rightarrow> string" where
  "getFirstSemanticTypeInPath ast objectSchema =
     (case (ast, objectSchema) of
        (Some (container # path), Some os) \<Rightarrow>
          if path = [] then []
          else if os_semantic_type os \<noteq> [] then os_semantic_type os
          else first_semantic_type os path
      | _ \<Rightarrow> [])"

text \<open>The predicate check of MongoDB and Elasticsearch, and the lookup of a field of a hit.\<close>

fun semantic_type_of_parts :: "storepb_ObjectSchema \<Rightarrow> string list \<Rightarrow> string" where
  "semantic_type_of_parts current [] = os_semantic_type current"
| "semantic_type_of_parts current (part # parts) =
     (if os_semantic_type current \<noteq> [] then os_semantic_type current
      else case property current part of
        None \<Rightarrow> []
      | Some child \<Rightarrow> semantic_type_of_parts child parts)"

definition lookupSemanticTypeByDotPath :: "string \<Rightarrow> storepb_ObjectSchema option \<Rightarrow> string" where
  "lookupSemanticTypeByDotPath dotPath objectSchema =
     (case objectSchema of
        None \<Rightarrow> []
      | Some os \<Rightarrow> semantic_type_of_parts os (Split dotPath ''.''))"


section \<open>Masking along field paths\<close>

fun maskBySourcePaths ::
  "doc_env \<Rightarrow> Masker gomap \<Rightarrow> json \<Rightarrow> PathAST option list \<Rightarrow> storepb_ObjectSchema \<Rightarrow> json option doc_outcome" where
  "maskBySourcePaths env sm data [] objectSchema = Ok None"
| "maskBySourcePaths env sm data (path # paths) objectSchema =
     (let sem = snd (getObjectSchemaByPath objectSchema (stripContainerFromPath path))
      in case (if sem = [] then None else map_of sm sem) of
           Some m \<Rightarrow> bind_outcome (applyMaskerToJSONMember env data m) (\<lambda>d. Ok (Some d))
         | None \<Rightarrow> maskBySourcePaths env sm data paths objectSchema)"

text \<open>Only called with a path at least.\<close>

definition maskFieldBySourcePaths ::
  "doc_env \<Rightarrow> Masker gomap \<Rightarrow> json \<Rightarrow> PathAST option list \<Rightarrow> storepb_ObjectSchema \<Rightarrow> json doc_outcome" where
  "maskFieldBySourcePaths env sm data paths objectSchema =
     bind_outcome (maskBySourcePaths env sm data paths objectSchema) (\<lambda>r.
       case r of
         Some d \<Rightarrow> Ok d
       | None \<Rightarrow>
           (case paths of
              [] \<Rightarrow> Panic
            | path # _ \<Rightarrow>
                walkAndMaskJSONRecursive env sm data
                  (fst (getObjectSchemaByPath objectSchema (stripContainerFromPath path)))))"

definition maskFieldByDirectLookup ::
  "doc_env \<Rightarrow> Masker gomap \<Rightarrow> string \<Rightarrow> json \<Rightarrow> storepb_ObjectSchema \<Rightarrow> json doc_outcome" where
  "maskFieldByDirectLookup env sm key data objectSchema =
     (let (os, sem) = getObjectSchemaByPath objectSchema [ItemSelector key]
      in case (if sem = [] then None else map_of sm sem) of
           Some m \<Rightarrow> applyMaskerToJSONMember env data m
         | None \<Rightarrow> walkAndMaskJSONRecursive env sm data os)"

definition maskJSONField ::
  "doc_env \<Rightarrow> Masker gomap \<Rightarrow> PathAST option list gomap \<Rightarrow> storepb_ObjectSchema \<Rightarrow> string \<Rightarrow> json \<Rightarrow> json doc_outcome" where
  "maskJSONField env sm fieldPaths objectSchema key data =
     (case map_of fieldPaths key of
        Some (path # paths) \<Rightarrow> maskFieldBySourcePaths env sm data (path # paths) objectSchema
      | _ \<Rightarrow> maskFieldByDirectLookup env sm key data objectSchema)"

definition walkAndMaskJSON ::
  "doc_env \<Rightarrow> Masker gomap \<Rightarrow> (string \<times> json) list \<Rightarrow> PathAST option list gomap \<Rightarrow> storepb_ObjectSchema \<Rightarrow>
   (string \<times> json) list doc_outcome" where
  "walkAndMaskJSON env sm data fieldPaths objectSchema =
     traverse (\<lambda>(k, v). bind_outcome (maskJSONField env sm fieldPaths objectSchema k v) (\<lambda>v'. Ok (k, v'))) data"


section \<open>Elasticsearch hits\<close>

text \<open>The arrays under the dot paths of the section \<open>name\<close> of a hit.\<close>

definition mask_dot_path ::
  "doc_env \<Rightarrow> Masker gomap \<Rightarrow> storepb_ObjectSchema option \<Rightarrow> string \<Rightarrow> json \<Rightarrow> json doc_outcome" where
  "mask_dot_path env sm objectSchema dotPath vals =
     (let sem = lookupSemanticTypeByDotPath dotPath objectSchema
      in case (if sem = [] then None else map_of sm sem) of
           None \<Rightarrow> Ok vals
         | Some m \<Rightarrow>
             (case vals of
                JArray arr \<Rightarrow>
                  bind_outcome (traverse (\<lambda>v. applyMaskerToData env v m) arr) (\<lambda>arr'. Ok (JArray arr'))
              | _ \<Rightarrow> Ok vals))"

definition mask_section ::
  "string \<Rightarrow> doc_env \<Rightarrow> Masker gomap \<Rightarrow> storepb_ObjectSchema option \<Rightarrow> (string \<times> json) list \<Rightarrow>
   (string \<times> json) list doc_outcome" where
  "mask_section name env sm objectSchema hitMap =
     (case map_of hitMap name of
        Some (JObject fieldsMap) \<Rightarrow>
          bind_outcome
            (traverse (\<lambda>(p, v). bind_outcome (mask_dot_path env sm objectSchema p v) (\<lambda>v'. Ok (p, v'))) fieldsMap)
            (\<lambda>fieldsMap'. Ok (AList.update name (JObject fieldsMap') hitMap))
      | _ \<Rightarrow> Ok hitMap)"

definition maskElasticsearchHitFields ::
  "doc_env \<Rightarrow> Masker gomap \<Rightarrow> storepb_ObjectSchema option \<Rightarrow> (string \<times> json) list \<Rightarrow> (string \<times> json) list doc_outcome" where
  "maskElasticsearchHitFields = mask_section ''fields''"

definition maskElasticsearchHitHighlight ::
  "doc_env \<Rightarrow> Masker gomap \<Rightarrow> storepb_ObjectSchema option \<Rightarrow> (string \<times> json) list \<Rightarrow> (string \<times> json) list doc_outcome" where
  "maskElasticsearchHitHighlight = mask_section ''highlight''"

fun sort_loop ::
  "doc_env \<Rightarrow> Masker gomap \<Rightarrow> storepb_ObjectSchema option \<Rightarrow> string list \<Rightarrow> json list \<Rightarrow> json list doc_outcome" where
  "sort_loop env sm objectSchema (fieldName # sortFields) (val # sortArr) =
     (let sem = (if fieldName = [] then [] else lookupSemanticTypeByDotPath fieldName objectSchema)
      in bind_outcome
           (case (if sem = [] then None else map_of sm sem) of
              None \<Rightarrow> Ok val
            | Some m \<Rightarrow> applyMaskerToData env val m) (\<lambda>val'.
         bind_outcome (sort_loop env sm objectSchema sortFields sortArr) (\<lambda>rest. Ok (val' # rest))))"
| "sort_loop env sm objectSchema sortFields sortArr = Ok sortArr"

definition maskElasticsearchHitSort ::
  "doc_env \<Rightarrow> Masker gomap \<Rightarrow> string list \<Rightarrow> storepb_ObjectSchema option \<Rightarrow> (string \<times> json) list \<Rightarrow>
   (string \<times> json) list doc_outcome" where
  "maskElasticsearchHitSort env sm sortFields objectSchema hitMap =
     (case map_of hitMap ''sort'' of
        Some (JArray sortArr) \<Rightarrow>
          bind_outcome (sort_loop env sm objectSchema sortFields sortArr)
            (\<lambda>sortArr'. Ok (AList.update ''sort'' (JArray sortArr') hitMap))
      | _ \<Rightarrow> Ok hitMap)"

definition mask_source ::
  "doc_env \<Rightarrow> Masker gomap \<Rightarrow> storepb_ObjectSchema option \<Rightarrow> (string \<times> json) list \<Rightarrow> (string \<times> json) list doc_outcome" where
  "mask_source env sm objectSchema hitMap =
     (case map_of hitMap ''_source'' of
        Some (JObject source) \<Rightarrow>
          bind_outcome (walkAndMaskJSONRecursive env sm (JObject source) objectSchema)
            (\<lambda>masked. Ok (AList.update ''_source'' masked hitMap))
      | _ \<Rightarrow> Ok hitMap)"

text \<open>
  A hit and the inner hits below it.  The sections masked before the inner hits lie under other keys,
  so that the inner hits are those of the hit given.
\<close>

lemma map_of_size: "map_of fs k = Some v \<Longrightarrow> size v < size (JObject fs)"
  using size_list_estimation' [of "(k, v)" fs "size v" "size_prod (\<lambda>_. 0) size"]
  by (auto dest!: map_of_SomeD)

lemma JArray_member_size: "v \<in> set vs \<Longrightarrow> size v < size (JArray vs)"
  using size_list_estimation' [of v vs "size v" size] by auto

lemma JObject_member_size: "(k, v) \<in> set fs \<Longrightarrow> size v < size (JObject fs)"
  using size_list_estimation' [of "(k, v)" fs "size v" "size_prod (\<lambda>_. 0) size"] by auto

definition inner_hits_array :: "json \<Rightarrow> ((string \<times> json) list \<times> (string \<times> json) list \<times> json list) option" where
  "inner_hits_array ihVal =
     (case ihVal of
        JObject ihObj \<Rightarrow>
          (case map_of ihObj ''hits'' of
             Some (JObject hitsObj) \<Rightarrow>
               (case map_of hitsObj ''hits'' of
                  Some (JArray hitsArray) \<Rightarrow> Some (ihObj, hitsObj, hitsArray)
                | _ \<Rightarrow> None)
           | _ \<Rightarrow> None)
      | _ \<Rightarrow> None)"

lemma inner_hits_array_size:
  assumes "inner_hits_array ihVal = Some (ihObj, hitsObj, hitsArray)" "h \<in> set hitsArray"
  shows "size h < size ihVal"
proof -
  have "ihVal = JObject ihObj" "map_of ihObj ''hits'' = Some (JObject hitsObj)"
    "map_of hitsObj ''hits'' = Some (JArray hitsArray)"
    using assms(1) by (auto simp: inner_hits_array_def split: json.splits option.splits)
  with map_of_size [of ihObj] map_of_size [of hitsObj] JArray_member_size [OF assms(2)] show ?thesis
    by (metis order.strict_trans)
qed

function maskElasticsearchSingleHit ::
    "doc_env \<Rightarrow> Masker gomap \<Rightarrow> string list \<Rightarrow> storepb_ObjectSchema option \<Rightarrow> (string \<times> json) list \<Rightarrow>
     (string \<times> json) list doc_outcome"
  and maskElasticsearchInnerHitGroup ::
    "doc_env \<Rightarrow> Masker gomap \<Rightarrow> string list \<Rightarrow> storepb_ObjectSchema option \<Rightarrow> json \<Rightarrow> json doc_outcome" where
  "maskElasticsearchSingleHit env sm sortFields objectSchema hitMap =
     bind_outcome (mask_source env sm objectSchema hitMap) (\<lambda>hit1.
     bind_outcome (maskElasticsearchHitFields env sm objectSchema hit1) (\<lambda>hit2.
     bind_outcome (maskElasticsearchHitHighlight env sm objectSchema hit2) (\<lambda>hit3.
     bind_outcome (maskElasticsearchHitSort env sm sortFields objectSchema hit3) (\<lambda>hit4.
       case map_of hitMap ''inner_hits'' of
         Some (JObject innerHitsMap) \<Rightarrow>
           bind_outcome
             (traverse (\<lambda>(name, ih).
                bind_outcome (maskElasticsearchInnerHitGroup env sm sortFields objectSchema ih) (\<lambda>ih'. Ok (name, ih')))
                innerHitsMap)
             (\<lambda>innerHitsMap'. Ok (AList.update ''inner_hits'' (JObject innerHitsMap') hit4))
       | _ \<Rightarrow> Ok hit4))))"
| "maskElasticsearchInnerHitGroup env sm sortFields objectSchema ihVal =
     (case inner_hits_array ihVal of
        None \<Rightarrow> Ok ihVal
      | Some (ihObj, hitsObj, hitsArray) \<Rightarrow>
          bind_outcome
            (traverse (\<lambda>h. case h of
                JObject hit \<Rightarrow>
                  bind_outcome (maskElasticsearchSingleHit env sm sortFields objectSchema hit) (\<lambda>hit'. Ok (JObject hit'))
              | _ \<Rightarrow> Ok h) hitsArray)
            (\<lambda>hitsArray'. Ok (JObject (AList.update ''hits''
               (JObject (AList.update ''hits'' (JArray hitsArray') hitsObj)) ihObj))))"
  by pat_completeness auto
termination
proof (relation "measure (\<lambda>x. case x of
    Inl (env, sm, sortFields, os, hitMap) \<Rightarrow> size (JObject hitMap)
  | Inr (env, sm, sortFields, os, ihVal) \<Rightarrow> size ihVal)", goal_cases)
  case (2 env sm sortFields os hitMap h1 h2 h3 h4 x innerHitsMap p k ih)
  then have "(k, ih) \<in> set innerHitsMap" "map_of hitMap ''inner_hits'' = Some (JObject innerHitsMap)" by simp_all
  from JObject_member_size [OF this(1)] map_of_size [OF this(2)] show ?case by simp
next
  case (3 env sm sortFields os ihVal x ihObj y hitsObj hitsArray h hit)
  then have "inner_hits_array ihVal = Some (ihObj, hitsObj, hitsArray)" "h \<in> set hitsArray" by simp_all
  from inner_hits_array_size [OF this] 3 show ?case by simp
qed simp

declare walkAndMaskJSONRecursive.simps(2) [simp del]
declare maskElasticsearchSingleHit.simps [simp del] maskElasticsearchInnerHitGroup.simps [simp del]

text \<open>The hits of an array of hits; what is no object stays.\<close>

definition mask_hits ::
  "doc_env \<Rightarrow> Masker gomap \<Rightarrow> string list \<Rightarrow> storepb_ObjectSchema option \<Rightarrow> json list \<Rightarrow> json list doc_outcome" where
  "mask_hits env sm sortFields objectSchema hitsArray =
     traverse (\<lambda>h. case h of
         JObject hit \<Rightarrow>
           bind_outcome (maskElasticsearchSingleHit env sm sortFields objectSchema hit) (\<lambda>hit'. Ok (JObject hit'))
       | _ \<Rightarrow> Ok h) hitsArray"

definition maskElasticsearchHitsColumn ::
  "doc_env \<Rightarrow> Masker gomap \<Rightarrow> string \<Rightarrow> string list \<Rightarrow> storepb_ObjectSchema option \<Rightarrow> string doc_outcome" where
  "maskElasticsearchHitsColumn env sm hitsColumnJSON sortFields objectSchema =
     bind_outcome (Unmarshal_object env hitsColumnJSON) (\<lambda>hitsObj.
       case map_of hitsObj ''hits'' of
         Some (JArray hitsArray) \<Rightarrow>
           bind_outcome (mask_hits env sm sortFields objectSchema hitsArray) (\<lambda>hitsArray'.
           Marshal env (JObject (AList.update ''hits'' (JArray hitsArray') hitsObj)))
       | _ \<Rightarrow> Ok hitsColumnJSON)"

definition maskElasticsearchGetSourceColumn ::
  "doc_env \<Rightarrow> Masker gomap \<Rightarrow> string \<Rightarrow> string \<Rightarrow> storepb_ObjectSchema \<Rightarrow> string doc_outcome" where
  "maskElasticsearchGetSourceColumn env sm fieldName valueJSON objectSchema =
     (case property objectSchema fieldName of
        None \<Rightarrow> Ok valueJSON
      | Some childSchema \<Rightarrow>
          bind_outcome (Unmarshal env valueJSON) (\<lambda>v.
          bind_outcome (walkAndMaskJSONRecursive env sm v (Some childSchema)) (\<lambda>masked.
          Marshal env masked)))"

definition maskElasticsearchMGetSource ::
  "doc_env \<Rightarrow> Masker gomap \<Rightarrow> string \<Rightarrow> storepb_ObjectSchema option \<Rightarrow> string doc_outcome" where
  "maskElasticsearchMGetSource env sm docsColumnJSON objectSchema =
     bind_outcome (Unmarshal_array env docsColumnJSON) (\<lambda>docs.
       case docs of
         None \<Rightarrow> Marshal env JNull
       | Some docs \<Rightarrow>
           bind_outcome
             (traverse (\<lambda>doc. case doc of
                 JObject docMap \<Rightarrow>
                   bind_outcome (mask_source env sm objectSchema docMap) (\<lambda>docMap'. Ok (JObject docMap'))
               | _ \<Rightarrow> Ok doc) docs)
             (\<lambda>docs'. Marshal env (JArray docs')))"

definition maskElasticsearchMSearchSingleResponse ::
  "doc_env \<Rightarrow> Masker gomap \<Rightarrow> string list \<Rightarrow> storepb_ObjectSchema option \<Rightarrow> (string \<times> json) list \<Rightarrow>
   (string \<times> json) list doc_outcome" where
  "maskElasticsearchMSearchSingleResponse env sm sortFields objectSchema respMap =
     (case map_of respMap ''hits'' of
        Some (JObject hitsObj) \<Rightarrow>
          (case map_of hitsObj ''hits'' of
             Some (JArray hitsArray) \<Rightarrow>
               bind_outcome (mask_hits env sm sortFields objectSchema hitsArray) (\<lambda>hitsArray'.
               Ok (AList.update ''hits'' (JObject (AList.update ''hits'' (JArray hitsArray') hitsObj)) respMap))
           | _ \<Rightarrow> Ok respMap)
      | _ \<Rightarrow> Ok respMap)"

definition maskElasticsearchMSearchResponses ::
  "doc_env \<Rightarrow> Masker gomap \<Rightarrow> string \<Rightarrow> string list \<Rightarrow> storepb_ObjectSchema option \<Rightarrow> string doc_outcome" where
  "maskElasticsearchMSearchResponses env sm responsesColumnJSON sortFields objectSchema =
     bind_outcome (Unmarshal_array env responsesColumnJSON) (\<lambda>responses.
       case responses of
         None \<Rightarrow> Marshal env JNull
       | Some responses \<Rightarrow>
           bind_outcome
             (traverse (\<lambda>resp. case resp of
                 JObject respMap \<Rightarrow>
                   bind_outcome (maskElasticsearchMSearchSingleResponse env sm sortFields objectSchema respMap)
                     (\<lambda>respMap'. Ok (JObject respMap'))
               | _ \<Rightarrow> Ok resp) responses)
             (\<lambda>responses'. Marshal env (JArray responses')))"


section \<open>Requests that are refused\<close>

definition checkMongoDBRequestBlocked :: "doc_env \<Rightarrow> MongoDBAnalysis option \<Rightarrow> unit doc_outcome" where
  "checkMongoDBRequestBlocked env analysis =
     (case analysis of
        None \<Rightarrow> Ok ()
      | Some a \<Rightarrow>
          if mg_API a = MongoDBMaskableAPIUnsupportedRead then
            let operation = (if mg_Operation a = [] then ''unknown'' else mg_Operation a)
            in Err (RequestBlocked
                 (if mg_UnsupportedStage a \<noteq> [] then
                    ''MongoDB aggregate() with stage '' @ strconv_Quote env (mg_UnsupportedStage a) @
                    '' on collection '' @ strconv_Quote env (mg_Collection a) @
                    '' is not supported for dynamic masking. Supported operations are find(), findOne(), and aggregate() with shape-preserving stages only''
                  else
                    ''MongoDB operation '' @ strconv_Quote env (operation @ ''()'') @
                    '' on collection '' @ strconv_Quote env (mg_Collection a) @
                    '' is not supported for dynamic masking in this release. Supported operations are find() and findOne()''))
          else Ok ())"

definition checkElasticsearchRequestBlocked :: "ElasticsearchAnalysis \<Rightarrow> unit doc_outcome" where
  "checkElasticsearchRequestBlocked analysis =
     (if es_API analysis = ElasticsearchAPIBlocked
      then Err (RequestBlocked ''this Elasticsearch API is not supported when data masking is configured on the target index'')
      else if es_BlockedFeatures analysis \<noteq> []
      then Err (RequestBlocked (''the following features are not supported when data masking is configured: '' @
             Join (map ElasticsearchBlockedFeatureNames (es_BlockedFeatures analysis)) '', ''))
      else Ok ())"


section \<open>The schema of a collection\<close>

text \<open>\<open>GetDBSchema\<close> of the store: an error, nothing, or the metadata of the database.\<close>

type_synonym get_db_schema = "string \<Rightarrow> string \<Rightarrow> string + DatabaseMetadata option"

definition getTableObjectSchema ::
  "get_db_schema \<Rightarrow> string \<Rightarrow> string \<Rightarrow> string \<Rightarrow> storepb_ObjectSchema option doc_outcome" where
  "getTableObjectSchema GetDBSchema instanceID databaseName tableName =
     (case GetDBSchema instanceID databaseName of
        Inl e \<Rightarrow> Err (SchemaError e)
      | Inr None \<Rightarrow> Ok None
      | Inr (Some dbMetadata) \<Rightarrow>
          (case dm_config dbMetadata of
             None \<Rightarrow> Ok None
           | Some config \<Rightarrow>
               (case find (\<lambda>t. tcat_name t = tableName) (concat (map scat_tables (dbc_schemas config))) of
                  None \<Rightarrow> Ok None
                | Some t \<Rightarrow> Ok (tcat_object_schema t))))"

record joinedSchema =
  js_asField :: string
  js_schema :: "storepb_ObjectSchema option"

definition injectJoinedSchemas ::
  "storepb_ObjectSchema option \<Rightarrow> joinedSchema list \<Rightarrow> storepb_ObjectSchema option" where
  "injectJoinedSchemas objectSchema joins =
     (case objectSchema of
        None \<Rightarrow> None
      | Some os \<Rightarrow>
          if joins = [] then Some os
          else case GetProperties os of
            None \<Rightarrow> Some os
          | Some properties \<Rightarrow>
              let props = foldl (\<lambda>props j. case js_schema j of
                    None \<Rightarrow> props
                  | Some s \<Rightarrow> AList.update (js_asField j)
                      (ObjectSchema ObjectSchema_ARRAY (Some (ArrayKind (Some s))) []) props) properties joins
              in Some (ObjectSchema ObjectSchema_OBJECT (Some (StructKind props)) []))"



section \<open>Checks of a statement\<close>

definition predicate_message :: "doc_env \<Rightarrow> string \<Rightarrow> string \<Rightarrow> string \<Rightarrow> string \<Rightarrow> string" where
  "predicate_message env what pathStr sem place =
     ''using '' @ what @ '' '' @ strconv_Quote env pathStr @ '' tagged by semantic type '' @ strconv_Quote env sem @
     '' in '' @ place @ '' is not allowed''"

definition checkSensitivePredicates ::
  "doc_env \<Rightarrow> get_db_schema \<Rightarrow> string \<Rightarrow> string \<Rightarrow> QuerySpan \<Rightarrow> string doc_outcome" where
  "checkSensitivePredicates env GetDBSchema instanceID databaseName span =
     (if qs_PredicatePaths span = [] then Ok []
      else
        bind_outcome
          (case qs_MongoDBAnalysis span of
             Some a \<Rightarrow>
               if mg_Collection a \<noteq> [] then getTableObjectSchema GetDBSchema instanceID databaseName (mg_Collection a)
               else (case qs_ElasticsearchAnalysis span of
                       Some e \<Rightarrow> if es_Index e \<noteq> [] then getTableObjectSchema GetDBSchema instanceID databaseName (es_Index e)
                                 else Ok None
                     | None \<Rightarrow> Ok None)
           | None \<Rightarrow>
               (case qs_ElasticsearchAnalysis span of
                  Some e \<Rightarrow> if es_Index e \<noteq> [] then getTableObjectSchema GetDBSchema instanceID databaseName (es_Index e)
                            else Ok None
                | None \<Rightarrow> Ok None)) (\<lambda>objectSchema.
        case objectSchema of
          None \<Rightarrow> Ok []
        | Some _ \<Rightarrow>
            (case find (\<lambda>p. lookupSemanticTypeByDotPath p objectSchema \<noteq> []) (map fst (qs_PredicatePaths span)) of
               None \<Rightarrow> Ok []
             | Some p \<Rightarrow>
                 Ok (predicate_message env ''field'' p (lookupSemanticTypeByDotPath p objectSchema) ''query predicate''))))"

definition preExecuteMaskingCheckMongoDB ::
  "doc_env \<Rightarrow> get_db_schema \<Rightarrow> string \<Rightarrow> string \<Rightarrow> QuerySpan list \<Rightarrow> unit list doc_outcome" where
  "preExecuteMaskingCheckMongoDB env GetDBSchema instanceID databaseName spans =
     traverse (\<lambda>span. case qs_MongoDBAnalysis span of
         None \<Rightarrow> Ok ()
       | Some analysis \<Rightarrow>
           if mg_Collection analysis = [] then Ok ()
           else
             bind_outcome (getTableObjectSchema GetDBSchema instanceID databaseName (mg_Collection analysis)) (\<lambda>os.
               if os = None then Ok () else checkMongoDBRequestBlocked env (Some analysis))) spans"

definition preExecuteMaskingCheckElasticsearch ::
  "get_db_schema \<Rightarrow> string \<Rightarrow> string \<Rightarrow> QuerySpan list \<Rightarrow> unit list doc_outcome" where
  "preExecuteMaskingCheckElasticsearch GetDBSchema instanceID databaseName spans =
     traverse (\<lambda>span. case qs_ElasticsearchAnalysis span of
         None \<Rightarrow> Ok ()
       | Some analysis \<Rightarrow>
           if es_API analysis = ElasticsearchAPIUnsupported \<or> es_Index analysis = [] then Ok ()
           else
             bind_outcome (getTableObjectSchema GetDBSchema instanceID databaseName (es_Index analysis)) (\<lambda>os.
               case os of
                 None \<Rightarrow> Ok ()
               | Some os \<Rightarrow>
                   if \<not> objectSchemaHasSemanticTypes os then Ok ()
                   else checkElasticsearchRequestBlocked analysis)) spans"

definition preExecuteMaskingCheck ::
  "doc_env \<Rightarrow> get_db_schema \<Rightarrow> Engine \<Rightarrow> string \<Rightarrow> string \<Rightarrow> QuerySpan list \<Rightarrow> unit list doc_outcome" where
  "preExecuteMaskingCheck env GetDBSchema engine instanceID databaseName spans =
     (case engine of
        Engine_MONGODB \<Rightarrow> preExecuteMaskingCheckMongoDB env GetDBSchema instanceID databaseName spans
      | Engine_ELASTICSEARCH \<Rightarrow> preExecuteMaskingCheckElasticsearch GetDBSchema instanceID databaseName spans
      | _ \<Rightarrow> Ok [])"


section \<open>Query results\<close>

definition update_rows ::
  "(RowValue option list \<Rightarrow> RowValue option list doc_outcome) \<Rightarrow> QueryResult \<Rightarrow> QueryResult doc_outcome" where
  "update_rows f result = bind_outcome (traverse f (res_Rows result)) (\<lambda>rows. Ok (result\<lparr>res_Rows := rows\<rparr>))"


section \<open>CosmosDB\<close>

definition maskCosmosDB ::
  "doc_env \<Rightarrow> Masker gomap \<Rightarrow> QuerySpan \<Rightarrow> (string \<times> json) list \<Rightarrow> storepb_ObjectSchema \<Rightarrow> (string \<times> json) list doc_outcome" where
  "maskCosmosDB env sm span data objectSchema =
     (case qs_Results span of
        [r] \<Rightarrow> walkAndMaskJSON env sm data (qr_SourceFieldPaths r) objectSchema
      | rs \<Rightarrow> Err (ResultsError (length rs)))"

definition findMaskerForScalarValue ::
  "PathAST option list gomap \<Rightarrow> storepb_ObjectSchema \<Rightarrow> Masker gomap \<Rightarrow> Masker option" where
  "findMaskerForScalarValue fieldPaths objectSchema sm =
     (let masker = (\<lambda>path.
            let sem = snd (getObjectSchemaByPath objectSchema (stripContainerFromPath path))
            in if sem = [] then None else map_of sm sem)
      in case find (\<lambda>path. masker path \<noteq> None) (concat (map snd fieldPaths)) of
           None \<Rightarrow> None
         | Some path \<Rightarrow> masker path)"

definition applyMaskerToScalarJSON :: "doc_env \<Rightarrow> string \<Rightarrow> Masker \<Rightarrow> string doc_outcome" where
  "applyMaskerToScalarJSON env rawJSON m =
     (case json_Unmarshal env rawJSON of
        None \<Rightarrow> Ok rawJSON
      | Some parsed \<Rightarrow>
          bind_outcome (applyMaskerToJSONMember env parsed m) (\<lambda>masked. Marshal env masked))"

definition maskCosmosDBScalarValue ::
  "doc_env \<Rightarrow> Masker gomap \<Rightarrow> QuerySpan \<Rightarrow> string \<Rightarrow> storepb_ObjectSchema \<Rightarrow> string doc_outcome" where
  "maskCosmosDBScalarValue env sm span rawJSON objectSchema =
     (case qs_Results span of
        [r] \<Rightarrow>
          (case findMaskerForScalarValue (qr_SourceFieldPaths r) objectSchema sm of
             None \<Rightarrow> Ok rawJSON
           | Some m \<Rightarrow> applyMaskerToScalarJSON env rawJSON m)
      | _ \<Rightarrow> Ok rawJSON)"

definition cosmosDB_row ::
  "doc_env \<Rightarrow> Masker gomap \<Rightarrow> QuerySpan \<Rightarrow> storepb_ObjectSchema \<Rightarrow> RowValue option list \<Rightarrow> RowValue option list doc_outcome" where
  "cosmosDB_row env sm span objectSchema row =
     (case row of
        [v] \<Rightarrow>
          let s = GetStringValue v
          in if s = [] then Ok row
             else (case Unmarshal_object env s of
               Ok doc \<Rightarrow>
                 bind_outcome (maskCosmosDB env sm span doc objectSchema) (\<lambda>maskedDoc.
                 bind_outcome (Marshal env (JObject maskedDoc)) (\<lambda>t. Ok [string_value t]))
             | _ \<Rightarrow>
                 bind_outcome (maskCosmosDBScalarValue env sm span s objectSchema) (\<lambda>t. Ok [string_value t]))
      | _ \<Rightarrow> Ok row)"

definition cosmosDB_maskResults ::
  "doc_env \<Rightarrow> get_db_schema \<Rightarrow> string \<Rightarrow> string \<Rightarrow> QuerySpan list \<Rightarrow> QueryResult list \<Rightarrow> Masker gomap \<Rightarrow> string \<Rightarrow>
   QueryResult list doc_outcome" where
  "cosmosDB_maskResults env GetDBSchema instanceID databaseName spans results sm container =
     (case spans of
        [span] \<Rightarrow>
          bind_outcome (getTableObjectSchema GetDBSchema instanceID databaseName container) (\<lambda>objectSchema.
            case find (\<lambda>(p, path). getFirstSemanticTypeInPath path objectSchema \<noteq> []) (qs_PredicatePaths span) of
              Some (p, path) \<Rightarrow>
                Ok (map (blank (predicate_message env ''path'' p (getFirstSemanticTypeInPath path objectSchema) ''WHERE clause'')) results)
            | None \<Rightarrow>
                (case objectSchema of
                   None \<Rightarrow> Ok results
                 | Some os \<Rightarrow> traverse (update_rows (cosmosDB_row env sm span os)) results))
      | _ \<Rightarrow> Err SpanError)"


section \<open>MongoDB\<close>

text \<open>The loop body of both handlers; \<open>span\<close> is missing when there are fewer spans than results.\<close>

definition mongoDB_row ::
  "doc_env \<Rightarrow> Masker gomap \<Rightarrow> storepb_ObjectSchema option \<Rightarrow> RowValue option list \<Rightarrow> RowValue option list doc_outcome" where
  "mongoDB_row env sm objectSchema row =
     (case row of
        [] \<Rightarrow> Ok []
      | v # vs \<Rightarrow>
          if GetStringValue v = [] then Ok row
          else bind_outcome (maskDocumentString env sm (GetStringValue v) objectSchema) (\<lambda>t. Ok (string_value t # vs)))"

definition mongoDB_result ::
  "doc_env \<Rightarrow> get_db_schema \<Rightarrow> string \<Rightarrow> string \<Rightarrow> Masker gomap \<Rightarrow> QuerySpan option \<Rightarrow> QueryResult \<Rightarrow> QueryResult doc_outcome" where
  "mongoDB_result env GetDBSchema instanceID databaseName sm span result =
     (case span of
        None \<Rightarrow> Ok result
      | Some span \<Rightarrow>
          bind_outcome (checkSensitivePredicates env GetDBSchema instanceID databaseName span) (\<lambda>errMsg.
            if errMsg \<noteq> [] then Ok (blank errMsg result)
            else case qs_MongoDBAnalysis span of
              None \<Rightarrow> Ok result
            | Some analysis \<Rightarrow>
                if mg_Collection analysis = [] \<or>
                   mg_API analysis \<notin> {MongoDBMaskableAPIFind, MongoDBMaskableAPIFindOne, MongoDBMaskableAPIAggregate}
                then Ok result
                else
                  bind_outcome (getTableObjectSchema GetDBSchema instanceID databaseName (mg_Collection analysis)) (\<lambda>objectSchema.
                    if objectSchema = None then Ok result
                    else
                      bind_outcome
                        (traverse (\<lambda>jc. bind_outcome (getTableObjectSchema GetDBSchema instanceID databaseName (jc_Collection jc))
                            (\<lambda>js. Ok \<lparr>js_asField = jc_AsField jc, js_schema = js\<rparr>)) (mg_JoinedCollections analysis))
                        (\<lambda>joined. update_rows (mongoDB_row env sm (injectJoinedSchemas objectSchema joined)) result))))"

definition with_spans :: "QuerySpan list \<Rightarrow> QueryResult list \<Rightarrow> (QuerySpan option \<times> QueryResult) list" where
  "with_spans spans results = zip (map Some spans @ replicate (length results - length spans) None) results"

definition mongoDB_maskResults ::
  "doc_env \<Rightarrow> get_db_schema \<Rightarrow> string \<Rightarrow> string \<Rightarrow> QuerySpan list \<Rightarrow> QueryResult list \<Rightarrow> Masker gomap \<Rightarrow>
   QueryResult list doc_outcome" where
  "mongoDB_maskResults env GetDBSchema instanceID databaseName spans results sm =
     traverse (\<lambda>(span, result). mongoDB_result env GetDBSchema instanceID databaseName sm span result)
       (with_spans spans results)"


section \<open>Elasticsearch\<close>

text \<open>The masked text of a column, or \<open>None\<close> when the column is left as it is.\<close>

definition elasticsearch_column ::
  "doc_env \<Rightarrow> Masker gomap \<Rightarrow> ElasticsearchAnalysis \<Rightarrow> storepb_ObjectSchema \<Rightarrow> string \<Rightarrow> string \<Rightarrow> string option doc_outcome" where
  "elasticsearch_column env sm analysis os colName v =
     (let some = (\<lambda>r. bind_outcome r (\<lambda>t. Ok (Some t)))
      in case es_API analysis of
           ElasticsearchAPIMaskSearch \<Rightarrow>
             if colName = ''hits'' then some (maskElasticsearchHitsColumn env sm v (es_SortFields analysis) (Some os))
             else if colName = ''responses''
             then some (maskElasticsearchMSearchResponses env sm v (es_SortFields analysis) (Some os))
             else Ok None
         | ElasticsearchAPIMaskGetDoc \<Rightarrow>
             if colName = ''_source'' then some (maskDocumentString env sm v (Some os)) else Ok None
         | ElasticsearchAPIMaskExplain \<Rightarrow>
             if colName = ''_source'' then some (maskDocumentString env sm v (Some os)) else Ok None
         | ElasticsearchAPIMaskGetSource \<Rightarrow> some (maskElasticsearchGetSourceColumn env sm colName v os)
         | ElasticsearchAPIMaskMGet \<Rightarrow>
             if colName = ''docs'' then some (maskElasticsearchMGetSource env sm v (Some os)) else Ok None
         | _ \<Rightarrow> Ok None)"

fun elasticsearch_row ::
  "doc_env \<Rightarrow> Masker gomap \<Rightarrow> ElasticsearchAnalysis \<Rightarrow> storepb_ObjectSchema \<Rightarrow> string list \<Rightarrow> RowValue option list \<Rightarrow>
   RowValue option list doc_outcome" where
  "elasticsearch_row env sm analysis os (colName # colNames) (v # vs) =
     bind_outcome
       (if GetStringValue v = [] then Ok v
        else bind_outcome (elasticsearch_column env sm analysis os colName (GetStringValue v)) (\<lambda>r.
          Ok (case r of None \<Rightarrow> v | Some t \<Rightarrow> string_value t))) (\<lambda>v'.
     bind_outcome (elasticsearch_row env sm analysis os colNames vs) (\<lambda>vs'. Ok (v' # vs')))"
| "elasticsearch_row env sm analysis os colNames vs = Ok vs"

definition elasticsearch_result ::
  "doc_env \<Rightarrow> get_db_schema \<Rightarrow> string \<Rightarrow> string \<Rightarrow> Masker gomap \<Rightarrow> QuerySpan option \<Rightarrow> QueryResult \<Rightarrow> QueryResult doc_outcome" where
  "elasticsearch_result env GetDBSchema instanceID databaseName sm span result =
     (case span of
        None \<Rightarrow> Ok result
      | Some span \<Rightarrow>
          bind_outcome (checkSensitivePredicates env GetDBSchema instanceID databaseName span) (\<lambda>errMsg.
            if errMsg \<noteq> [] then Ok (blank errMsg result)
            else case qs_ElasticsearchAnalysis span of
              None \<Rightarrow> Ok result
            | Some analysis \<Rightarrow>
                if es_API analysis \<in> {ElasticsearchAPIUnsupported, ElasticsearchAPIBlocked} \<or> es_Index analysis = []
                then Ok result
                else
                  bind_outcome (getTableObjectSchema GetDBSchema instanceID databaseName (es_Index analysis)) (\<lambda>objectSchema.
                    case objectSchema of
                      None \<Rightarrow> Ok result
                    | Some os \<Rightarrow>
                        if \<not> objectSchemaHasSemanticTypes os then Ok result
                        else update_rows (elasticsearch_row env sm analysis os (res_ColumnNames result)) result)))"

definition elasticsearch_maskResults ::
  "doc_env \<Rightarrow> get_db_schema \<Rightarrow> string \<Rightarrow> string \<Rightarrow> QuerySpan list \<Rightarrow> QueryResult list \<Rightarrow> Masker gomap \<Rightarrow>
   QueryResult list doc_outcome" where
  "elasticsearch_maskResults env GetDBSchema instanceID databaseName spans results sm =
     traverse (\<lambda>(span, result). elasticsearch_result env GetDBSchema instanceID databaseName sm span result)
       (with_spans spans results)"

text \<open>The handler of the engine, if there is one.\<close>

definition document_maskResults ::
  "doc_env \<Rightarrow> get_db_schema \<Rightarrow> Engine \<Rightarrow> string \<Rightarrow> string \<Rightarrow> QuerySpan list \<Rightarrow> QueryResult list \<Rightarrow> Masker gomap \<Rightarrow>
   string \<Rightarrow> QueryResult list doc_outcome option" where
  "document_maskResults env GetDBSchema engine instanceID databaseName spans results sm container =
     (case engine of
        Engine_COSMOSDB \<Rightarrow> Some (cosmosDB_maskResults env GetDBSchema instanceID databaseName spans results sm container)
      | Engine_MONGODB \<Rightarrow> Some (mongoDB_maskResults env GetDBSchema instanceID databaseName spans results sm)
      | Engine_ELASTICSEARCH \<Rightarrow> Some (elasticsearch_maskResults env GetDBSchema instanceID databaseName spans results sm)
      | _ \<Rightarrow> None)"

end
