(* ===== verification/DocumentSpec.thy ===== *)
theory DocumentSpec
  imports DocumentMasking MaskerSpec
begin

text \<open>
  What the masking of documents hides, what it leaves, and where a tagged field escapes it.
\<close>

section \<open>Documents that masking makes equal\<close>

text \<open>A document as JSON decodes it.\<close>

primrec decoded :: "json \<Rightarrow> bool" where
  "decoded JNull = True"
| "decoded (JBool b) = True"
| "decoded (JNumber x) = True"
| "decoded (JString s) = True"
| "decoded (JArray vs) = list_all id (map decoded vs)"
| "decoded (JObject fs) = list_all snd (map (map_prod id decoded) fs)"
| "decoded (JFloat32 x) = False"
| "decoded (JInt32 i) = False"
| "decoded (JUint32 i) = False"
| "decoded (JUint64 i) = False"

text \<open>Two documents that differ only below places whose semantic type is masked in full.\<close>

inductive alike :: "Masker gomap \<Rightarrow> storepb_ObjectSchema option \<Rightarrow> json \<Rightarrow> json \<Rightarrow> bool" for sm where
  same: "alike sm os d d"
| tagged: "\<lbrakk>os_semantic_type os \<noteq> []; map_of sm (os_semantic_type os) = Some (FullMasker x);
    decoded d; decoded d'\<rbrakk> \<Longrightarrow> alike sm (Some os) d d'"
| item: "\<lbrakk>os_type os = ObjectSchema_ARRAY; os_semantic_type os = []; \<not> is_array d; \<not> is_array d';
    GetItem os = Some i; alike sm (Some i) d d'\<rbrakk> \<Longrightarrow> alike sm (Some os) d d'"
| object: "\<lbrakk>os_type os \<noteq> ObjectSchema_ARRAY; os_semantic_type os = [];
    list_all2 (\<lambda>f f'. fst f = fst f' \<and> alike sm (property os (fst f)) (snd f) (snd f')) fs fs'\<rbrakk> \<Longrightarrow>
    alike sm (Some os) (JObject fs) (JObject fs')"
| array: "\<lbrakk>os_semantic_type os = []; list_all2 (alike sm (GetItem os)) vs vs'\<rbrakk> \<Longrightarrow>
    alike sm (Some os) (JArray vs) (JArray vs')"

lemma mask_value_full [simp]: "mask_value env (FullMasker x) v = Ok (JString x)"
  by (simp add: mask_value_def Mask_def Mask_plain_def masks_inside_def getJSONMemberFromRowValue_def split: RowValue.split)

lemma applyMaskerToJSONMember_full:
  "applyMaskerToJSONMember env d (FullMasker x) = Ok r \<Longrightarrow> r = JString x"
  by (auto simp: applyMaskerToJSONMember_def bind_Ok_iff split: option.splits)

lemmas walk_simps = walkAndMaskJSONRecursive.simps

text \<open>The equations of the walk by the shape of the document, which rewriting can use.\<close>

lemma walk_item:
  "os_type os = ObjectSchema_ARRAY \<Longrightarrow> os_semantic_type os = [] \<Longrightarrow> \<not> is_array d \<Longrightarrow>
   walkAndMaskJSONRecursive env sm d (Some os) =
     (case GetItem os of None \<Rightarrow> Ok d | Some item \<Rightarrow> walkAndMaskJSONRecursive env sm d (Some item))"
  by (subst walk_simps(2)) (simp split: option.split)

lemma walk_tagged:
  "os_semantic_type os \<noteq> [] \<Longrightarrow>
   walkAndMaskJSONRecursive env sm d (Some os) =
     (case map_of sm (os_semantic_type os) of
        None \<Rightarrow> Ok d
      | Some m \<Rightarrow> (case d of JObject _ \<Rightarrow> applyMaskerToJSONMember env d m | JArray _ \<Rightarrow> applyMaskerToJSONMember env d m
          | _ \<Rightarrow> applyMaskerToData env d m))"
  by (subst walk_simps(2)) (simp split: json.split option.split)

lemma walk_object:
  "os_type os \<noteq> ObjectSchema_ARRAY \<Longrightarrow> os_semantic_type os = [] \<Longrightarrow>
   walkAndMaskJSONRecursive env sm (JObject fs) (Some os) =
     (if GetProperties os = None then Ok (JObject fs)
      else bind_outcome
        (traverse (\<lambda>f. case property os (fst f) of
             None \<Rightarrow> Ok (fst f, snd f)
           | Some child \<Rightarrow> bind_outcome (walkAndMaskJSONRecursive env sm (snd f) (Some child)) (\<lambda>v'. Ok (fst f, v'))) fs)
        (\<lambda>fs'. Ok (JObject fs')))"
  by (subst walk_simps(2)) (simp add: case_prod_beta' split: option.split)

lemma walk_array:
  "os_semantic_type os = [] \<Longrightarrow>
   walkAndMaskJSONRecursive env sm (JArray vs) (Some os) =
     (case GetItem os of
        None \<Rightarrow> Ok (JArray vs)
      | Some item \<Rightarrow> bind_outcome (traverse (\<lambda>v. walkAndMaskJSONRecursive env sm v (Some item)) vs) (\<lambda>vs'. Ok (JArray vs')))"
  by (subst walk_simps(2)) (simp add: is_array_def split: option.split)

lemma walk_atom:
  "os_type os \<noteq> ObjectSchema_ARRAY \<Longrightarrow> os_semantic_type os = [] \<Longrightarrow> getRowValueFromJSONAtomicMember d \<noteq> None \<Longrightarrow>
   walkAndMaskJSONRecursive env sm d (Some os) = Ok d"
  by (subst walk_simps(2)) (simp add: getRowValueFromJSONAtomicMember_def split: json.splits)

lemma walk_tagged_full:
  assumes "os_semantic_type os \<noteq> []" "map_of sm (os_semantic_type os) = Some (FullMasker x)" "decoded d"
    and "walkAndMaskJSONRecursive env sm d (Some os) = Ok r"
  shows "r = JString x"
  using assms applyMaskerToJSONMember_full [of env d x r]
  by (cases d) (auto simp: walk_simps getRowValueFromJSONAtomicMember_def)

text \<open>Masking makes documents that are alike equal.\<close>

lemma walk_alike:
  assumes "alike sm os d d'" "walkAndMaskJSONRecursive env sm d os = Ok r" "walkAndMaskJSONRecursive env sm d' os = Ok r'"
  shows "r = r'"
  using assms
proof (induction arbitrary: r r' rule: alike.induct)
  case (tagged os x d d')
  then show ?case using walk_tagged_full [of os sm x d env r] walk_tagged_full [of os sm x d' env r'] by metis
next
  case (item os d d' i)
  then show ?case by (simp add: walk_simps)
next
  case (object os fs fs')
  let ?f = "\<lambda>(k, v). case property os k of None \<Rightarrow> Ok (k, v)
    | Some child \<Rightarrow> bind_outcome (walkAndMaskJSONRecursive env sm v (Some child)) (\<lambda>v'. Ok (k, v'))"
  have same: "list_all2 (\<lambda>f f'. \<forall>y y'. ?f f = Ok y \<longrightarrow> ?f f' = Ok y' \<longrightarrow> y = y') fs fs'"
    using object.IH by (rule list_all2_mono) (auto simp: bind_Ok_iff split: option.splits)
  show ?case
  proof (cases "GetProperties os")
    case None
    then have "property os k = None" for k by (simp add: property_def)
    with object.IH have "list_all2 (=) fs fs'" by (auto elim!: list_all2_mono intro: prod_eqI)
    then have "fs = fs'" by (simp add: list.rel_eq)
    with object.prems show ?thesis by simp
  next
    case (Some props)
    with object show ?thesis using traverse_same [OF same] by (auto simp: walk_simps bind_Ok_iff)
  qed
next
  case (array os vs vs')
  have same: "list_all2 (\<lambda>v v'. \<forall>y y'. walkAndMaskJSONRecursive env sm v (GetItem os) = Ok y \<longrightarrow>
      walkAndMaskJSONRecursive env sm v' (GetItem os) = Ok y' \<longrightarrow> y = y') vs vs'"
    using array.IH by (rule list_all2_mono) blast
  show ?case
  proof (cases "GetItem os")
    case None
    with array.IH have "list_all2 (=) vs vs'" by (auto elim!: list_all2_mono)
    then have "vs = vs'" by (simp add: list.rel_eq)
    with array.prems show ?thesis by simp
  next
    case (Some i)
    with array show ?thesis using traverse_same [OF same] by (auto simp: walk_simps bind_Ok_iff is_array_def)
  qed
qed simp

text \<open>
  C24. A masked document tells nothing of the fields that are masked in full: two documents that differ
  only there, however deep, are given the same text.
\<close>
theorem document_mask_hides:
  assumes "json_Unmarshal env s = Some d" "json_Unmarshal env s' = Some d'" "alike sm (Some os) d d'"
    and "s \<noteq> []" "s' \<noteq> []"
    and "maskDocumentString env sm s (Some os) = Ok t" "maskDocumentString env sm s' (Some os) = Ok t'"
  shows "t = t'"
proof -
  obtain r r' where "walkAndMaskJSONRecursive env sm d (Some os) = Ok r" "Marshal env r = Ok t"
    "walkAndMaskJSONRecursive env sm d' (Some os) = Ok r'" "Marshal env r' = Ok t'"
    using assms by (auto simp: maskDocumentString_def Unmarshal_def bind_Ok_iff)
  with walk_alike [OF assms(3), of env r r'] show ?thesis by simp
qed

text \<open>A customer with a tagged telephone number, in an array of contacts.\<close>

definition leaf :: "string \<Rightarrow> storepb_ObjectSchema" where
  "leaf sem = ObjectSchema ObjectSchema_STRING None sem"

definition struct :: "(string \<times> storepb_ObjectSchema) list \<Rightarrow> string \<Rightarrow> storepb_ObjectSchema" where
  "struct props sem = ObjectSchema ObjectSchema_OBJECT (Some (StructKind props)) sem"

definition contacts_schema :: storepb_ObjectSchema where
  "contacts_schema = struct [(''name'', leaf []),
     (''contacts'', ObjectSchema ObjectSchema_ARRAY (Some (ArrayKind (Some (struct [(''phone'', leaf ''pii'')] [])))) [])] []"

definition customer :: "string \<Rightarrow> json" where
  "customer phone = JObject [(''name'', JString ''Ann''), (''contacts'', JArray [JObject [(''phone'', JString phone)]])]"

definition pii_masker :: "Masker gomap" where
  "pii_masker = [(''pii'', FullMasker ''***'')]"

text \<open>An environment in which a text is read as the customer with that number.\<close>

definition sample_env :: doc_env where
  "sample_env = \<lparr>lib = sample_library, json_Unmarshal = (\<lambda>s. Some (customer s)),
     json_Marshal = (\<lambda>d. case d of JObject [_, (_, JArray [JObject [(_, JString s)]])] \<Rightarrow> Some s | _ \<Rightarrow> None),
     strconv_Quote = (\<lambda>s. [CHR 0x22] @ s @ [CHR 0x22])\<rparr>"

lemma customers_alike: "alike pii_masker (Some contacts_schema) (customer p) (customer q)"
proof -
  have "alike pii_masker (Some (leaf ''pii'')) (JString p) (JString q)"
    by (rule alike.tagged) (simp_all add: leaf_def pii_masker_def)
  then have "alike pii_masker (Some (struct [(''phone'', leaf ''pii'')] []))
      (JObject [(''phone'', JString p)]) (JObject [(''phone'', JString q)])"
    by (intro alike.object) (simp_all add: struct_def property_def GetProperties_def)
  then have "alike pii_masker (property contacts_schema ''contacts'')
      (JArray [JObject [(''phone'', JString p)]]) (JArray [JObject [(''phone'', JString q)]])"
    unfolding contacts_schema_def struct_def property_def GetProperties_def
    by (auto intro!: alike.array simp: GetItem_def)
  then show ?thesis
    unfolding customer_def
    by (intro alike.object) (auto simp: contacts_schema_def struct_def intro: alike.same)
qed

theorem document_mask_hides_witness:
  "maskDocumentString sample_env pii_masker ''555-1234'' (Some contacts_schema) =
   maskDocumentString sample_env pii_masker ''555-9876'' (Some contacts_schema)"
proof -
  have t: "maskDocumentString sample_env pii_masker ''555-1234'' (Some contacts_schema) = Ok ''***''"
    "maskDocumentString sample_env pii_masker ''555-9876'' (Some contacts_schema) = Ok ''***''" by code_simp+
  have u: "json_Unmarshal sample_env ''555-1234'' = Some (customer ''555-1234'')"
    "json_Unmarshal sample_env ''555-9876'' = Some (customer ''555-9876'')" by (simp_all add: sample_env_def)
  from document_mask_hides [OF u customers_alike _ _ t] t show ?thesis by simp
qed


section \<open>Schemas without semantic types\<close>

lemma list_ex_map_snd: "list_ex (\<lambda>(k, b). b) (map (map_prod id f) xs) \<longleftrightarrow> (\<exists>(k, x) \<in> set xs. f x)"
  by (induction xs) auto

lemma untagged_child:
  assumes "\<not> objectSchemaHasSemanticTypes os"
  shows "os_semantic_type os = []" "property os k = Some c \<Longrightarrow> \<not> objectSchemaHasSemanticTypes c"
    "GetItem os = Some c \<Longrightarrow> \<not> objectSchemaHasSemanticTypes c"
  using assms
  by (cases os; fastforce simp: property_def GetProperties_def GetItem_def list_ex_map_snd
      split: option.splits ObjectSchema_kind.splits dest: map_of_SomeD)+

lemma walk_untagged:
  "(\<And>os'. os = Some os' \<Longrightarrow> \<not> objectSchemaHasSemanticTypes os') \<Longrightarrow> walkAndMaskJSONRecursive env sm d os = Ok d"
proof (induction env sm d os rule: walkAndMaskJSONRecursive.induct)
  case (2 env sm data os)
  note u = untagged_child [OF 2(4) [OF refl]]
  have child: "(case property os (fst f) of None \<Rightarrow> Ok (fst f, snd f)
      | Some child \<Rightarrow> bind_outcome (walkAndMaskJSONRecursive env sm (snd f) (Some child)) (\<lambda>v'. Ok (fst f, v'))) = Ok f"
    if "os_type os \<noteq> ObjectSchema_ARRAY" "data = JObject fs" "GetProperties os \<noteq> None" "f \<in> set fs" for f fs
    using 2(3) [of fs _ f "fst f" "snd f"] that u by (auto split: option.split)
  show ?case
  proof (cases "os_type os = ObjectSchema_ARRAY \<and> \<not> is_array data")
    case True
    with 2(1) u show ?thesis by (simp add: walk_item split: option.split)
  next
    case no: False
    show ?thesis
    proof (cases data)
      case (JArray vs)
      have "traverse (\<lambda>v. walkAndMaskJSONRecursive env sm v (Some i)) vs = Ok vs" if "GetItem os = Some i" for i
        using 2(2) [of vs i] that no u JArray by (intro traverse_ident) (auto simp: is_array_def)
      with u show ?thesis by (simp add: walk_array JArray split: option.split)
    next
      case (JObject fs)
      with no have "os_type os \<noteq> ObjectSchema_ARRAY" by (simp add: is_array_def)
      with child [OF this JObject] u show ?thesis
        by (simp add: walk_object JObject traverse_ident)
    qed (use no u in \<open>simp_all add: is_array_def, (subst walk_simps(2), simp)+\<close>)
  qed
qed simp

lemma walk_untagged_Some:
  "\<not> objectSchemaHasSemanticTypes os \<Longrightarrow> walkAndMaskJSONRecursive env sm d (Some os) = Ok d"
  by (rule walk_untagged) simp

lemma update_same: "map_of m k = Some v \<Longrightarrow> AList.update k v m = m"
  by (induction m) (auto split: if_splits)

lemma semantic_type_untagged: "\<not> objectSchemaHasSemanticTypes os \<Longrightarrow> semantic_type_of_parts os ps = []"
  by (induction os ps rule: semantic_type_of_parts.induct) (auto dest: untagged_child split: option.split)

lemma lookup_untagged: "\<not> objectSchemaHasSemanticTypes os \<Longrightarrow> lookupSemanticTypeByDotPath p (Some os) = []"
  by (simp add: lookupSemanticTypeByDotPath_def semantic_type_untagged)

lemma mask_section_untagged:
  "\<not> objectSchemaHasSemanticTypes os \<Longrightarrow> mask_section name env sm (Some os) hit = Ok hit"
  by (auto simp: mask_section_def mask_dot_path_def lookup_untagged traverse_ident update_same
      split: option.split json.split)

lemma sort_loop_untagged:
  "\<not> objectSchemaHasSemanticTypes os \<Longrightarrow> sort_loop env sm (Some os) fns vs = Ok vs"
  by (induction env sm "Some os" fns vs rule: sort_loop.induct) (simp_all add: lookup_untagged Let_def)

lemma mask_source_untagged: "\<not> objectSchemaHasSemanticTypes os \<Longrightarrow> mask_source env sm (Some os) hit = Ok hit"
  by (auto simp: mask_source_def walk_untagged_Some update_same split: option.split json.split)

lemmas hit_steps = maskElasticsearchHitFields_def maskElasticsearchHitHighlight_def maskElasticsearchHitSort_def

lemma hit_untagged:
  "(\<And>o1. os = Some o1 \<Longrightarrow> \<not> objectSchemaHasSemanticTypes o1) \<Longrightarrow> os \<noteq> None \<Longrightarrow>
   maskElasticsearchSingleHit env sm sf os hit = Ok hit"
  "(\<And>o1. os = Some o1 \<Longrightarrow> \<not> objectSchemaHasSemanticTypes o1) \<Longrightarrow> os \<noteq> None \<Longrightarrow>
   maskElasticsearchInnerHitGroup env sm sf os ih = Ok ih"
proof (induction env sm sf os hit and env sm sf os ih
    rule: maskElasticsearchSingleHit_maskElasticsearchInnerHitGroup.induct)
  case (1 env sm sf os hit)
  then obtain o1 where os: "os = Some o1" "\<not> objectSchemaHasSemanticTypes o1" by blast
  have steps: "mask_source env sm os hit = Ok hit" "maskElasticsearchHitFields env sm os hit = Ok hit"
    "maskElasticsearchHitHighlight env sm os hit = Ok hit" "maskElasticsearchHitSort env sm sf os hit = Ok hit"
    using os by (auto simp: hit_steps mask_source_untagged mask_section_untagged sort_loop_untagged update_same
        split: option.split json.split)
  have "traverse (\<lambda>(name, ih). bind_outcome (maskElasticsearchInnerHitGroup env sm sf os ih) (\<lambda>ih'. Ok (name, ih'))) inner = Ok inner"
    if "map_of hit ''inner_hits'' = Some (JObject inner)" for inner
    using 1 that steps by (intro traverse_ident) fastforce
  with steps show ?case
    by (subst maskElasticsearchSingleHit.simps) (auto simp: update_same split: option.split json.split)
next
  case (2 env sm sf os ih)
  have "traverse (\<lambda>h. case h of
        JObject hit \<Rightarrow> bind_outcome (maskElasticsearchSingleHit env sm sf os hit) (\<lambda>hit'. Ok (JObject hit'))
      | _ \<Rightarrow> Ok h) hits = Ok hits"
    if "inner_hits_array ih = Some (ihObj, hitsObj, hits)" for ihObj hitsObj hits
    using 2 that by (intro traverse_ident) (fastforce split: json.split)
  then show ?case
    by (subst maskElasticsearchInnerHitGroup.simps)
      (auto simp: inner_hits_array_def update_same split: option.splits json.splits)
qed

text \<open>
  A schema without semantic types masks nothing: documents and hits pass unchanged, so that
  skipping such a schema, as the Elasticsearch masker does, is the same as walking it.
\<close>
lemma untagged_schema_unmasked:
  assumes "\<not> objectSchemaHasSemanticTypes os"
  shows "walkAndMaskJSONRecursive env sm d (Some os) = Ok d \<and>
    maskElasticsearchSingleHit env sm sortFields (Some os) hit = Ok hit \<and>
    mask_hits env sm sortFields (Some os) hits = Ok hits"
proof -
  have h: "maskElasticsearchSingleHit env sm sortFields (Some os) hit = Ok hit" for hit
    by (rule hit_untagged(1)) (use assms in auto)
  then have "mask_hits env sm sortFields (Some os) hits = Ok hits"
    unfolding mask_hits_def by (intro traverse_ident) (simp split: json.split)
  with h show ?thesis using assms by (simp add: walk_untagged_Some)
qed

theorem untagged_schema_unmasked_witness:
  "walkAndMaskJSONRecursive sample_env pii_masker (customer ''555'') (Some (struct [(''name'', leaf [])] [])) = Ok (customer ''555'')"
proof -
  have "\<not> objectSchemaHasSemanticTypes (struct [(''name'', leaf [])] [])" by code_simp
  from untagged_schema_unmasked [OF this] show ?thesis by blast
qed


section \<open>Dot paths and the walk\<close>

text \<open>The kind of a schema fits its type, at every level.\<close>

primrec schema_fits :: "storepb_ObjectSchema \<Rightarrow> bool" and kind_fits :: "ObjectSchema_kind \<Rightarrow> bool" where
  "schema_fits (ObjectSchema ty kind sem) =
     ((case kind of Some (StructKind _) \<Rightarrow> ty = ObjectSchema_OBJECT | Some (ArrayKind _) \<Rightarrow> ty = ObjectSchema_ARRAY
        | None \<Rightarrow> True) \<and>
      (case map_option kind_fits kind of None \<Rightarrow> True | Some b \<Rightarrow> b))"
| "kind_fits (StructKind props) = list_all (\<lambda>(k, b). b) (map (map_prod id schema_fits) props)"
| "kind_fits (ArrayKind item) = (case map_option schema_fits item of None \<Rightarrow> True | Some b \<Rightarrow> b)"










section \<open>Fields that escape\<close>

text \<open>
  A tagged field of the objects of an array is masked in the document and nowhere else: the dot path to
  it has no semantic type, so that the section of requested fields shows it in clear, and a query may
  compare it.
\<close>
lemma array_field_leaks:
  "walkAndMaskJSONRecursive env pii_masker (customer p) (Some contacts_schema) = Ok (customer ''***'') \<and>
   maskElasticsearchHitFields env pii_masker (Some contacts_schema)
     [(''fields'', JObject [(''contacts.phone'', JArray [JString p])])] =
     Ok [(''fields'', JObject [(''contacts.phone'', JArray [JString p])])] \<and>
   lookupSemanticTypeByDotPath ''contacts.phone'' (Some contacts_schema) = []"
proof -
  have l: "lookupSemanticTypeByDotPath ''contacts.phone'' (Some contacts_schema) = []" by code_simp
  have w: "walkAndMaskJSONRecursive env pii_masker (JString p) (Some (leaf ''pii'')) = Ok (JString ''***'')"
    by (subst walk_tagged) (simp_all add: leaf_def pii_masker_def getRowValueFromJSONAtomicMember_def)
  have n: "walkAndMaskJSONRecursive env pii_masker (JString s) (Some (leaf [])) = Ok (JString s)" for s
    by (rule walk_atom) (simp_all add: leaf_def getRowValueFromJSONAtomicMember_def)
  have i: "walkAndMaskJSONRecursive env pii_masker (JObject [(''phone'', JString p)])
      (Some (struct [(''phone'', leaf ''pii'')] [])) = Ok (JObject [(''phone'', JString ''***'')])"
    by (subst walk_object) (simp_all add: struct_def property_def GetProperties_def w)
  then have "walkAndMaskJSONRecursive env pii_masker (customer p) (Some contacts_schema) = Ok (customer ''***'')"
    unfolding customer_def contacts_schema_def
    by (subst walk_object) (simp_all add: struct_def [of _ "[]"] property_def GetProperties_def n walk_array GetItem_def)
  with l show ?thesis by (simp add: maskElasticsearchHitFields_def mask_section_def mask_dot_path_def)
qed

text \<open>An object with a semantic type of its own, whose fields have none.\<close>

definition tagged_contact :: storepb_ObjectSchema where
  "tagged_contact = struct [(''contact'', struct [(''phone'', leaf [])] ''pii'')] []"

definition phone_path :: PathAST where
  "phone_path = [ItemSelector ''c'', ItemSelector ''contact'', ItemSelector ''phone'']"

text \<open>
  A projection of one field of a tagged object is not masked, whatever its value, since only the type at
  the end of the path counts; the whole object is masked, and the same path in a predicate is refused.
\<close>
lemma projected_field_leaks:
  "maskJSONField env pii_masker [(''x'', [Some phone_path])] tagged_contact ''x'' v = Ok v \<and>
   walkAndMaskJSONRecursive env pii_masker (JObject [(''contact'', JString s)]) (Some tagged_contact) =
     Ok (JObject [(''contact'', JString ''***'')]) \<and>
   getFirstSemanticTypeInPath (Some phone_path) (Some tagged_contact) = ''pii''"
proof -
  have "getObjectSchemaByPath tagged_contact (stripContainerFromPath (Some phone_path)) = (Some (leaf []), [])"
    "getFirstSemanticTypeInPath (Some phone_path) (Some tagged_contact) = ''pii''" by code_simp+
  moreover have "walkAndMaskJSONRecursive env pii_masker v (Some (leaf [])) = Ok v"
    by (rule walk_untagged_Some) (simp add: leaf_def)
  moreover have "walkAndMaskJSONRecursive env pii_masker (JObject [(''contact'', JString s)]) (Some tagged_contact) =
      Ok (JObject [(''contact'', JString ''***'')])"
    unfolding tagged_contact_def struct_def
    by (simp add: walk_object walk_tagged property_def GetProperties_def pii_masker_def getRowValueFromJSONAtomicMember_def)
  ultimately show ?thesis
    by (simp add: maskJSONField_def maskFieldBySourcePaths_def Let_def)
qed

text \<open>
  Joining any collection drops the semantic type of the collection itself: its fields, masked with the
  whole document before, are shown.
\<close>
lemma join_drops_type_of_document:
  "walkAndMaskJSONRecursive env pii_masker (JObject [(''name'', JString s)])
     (injectJoinedSchemas (Some (struct [(''name'', leaf [])] ''pii'')) [\<lparr>js_asField = ''orders'', js_schema = None\<rparr>]) =
   Ok (JObject [(''name'', JString s)])"
proof -
  have j: "injectJoinedSchemas (Some (struct [(''name'', leaf [])] ''pii'')) [\<lparr>js_asField = ''orders'', js_schema = None\<rparr>] =
      Some (struct [(''name'', leaf [])] [])" by code_simp
  have "\<not> objectSchemaHasSemanticTypes (struct [(''name'', leaf [])] [])" by code_simp
  then show ?thesis unfolding j by (rule walk_untagged_Some)
qed

text \<open>An array of objects under the schema of one object is not masked at all.\<close>

lemma array_under_object_schema:
  "os_type os = ObjectSchema_OBJECT \<Longrightarrow> os_kind os = Some (StructKind props) \<Longrightarrow> os_semantic_type os = [] \<Longrightarrow>
   walkAndMaskJSONRecursive env sm (JArray vs) (Some os) = Ok (JArray vs)"
  by (simp add: walk_array GetItem_def)

text \<open>A collection without a schema is not masked, whatever it is joined with.\<close>

lemma joined_collection_unmasked:
  assumes "qs_PredicatePaths span = []" "qs_MongoDBAnalysis span = Some analysis"
    and "getTableObjectSchema GetDBSchema i db (mg_Collection analysis) = Ok None"
  shows "mongoDB_result env GetDBSchema i db sm (Some span) result = Ok result"
  using assms by (simp add: mongoDB_result_def checkSensitivePredicates_def)


section \<open>Predicates on tagged fields\<close>







section \<open>No panic\<close>

text \<open>The maskers that cannot panic: all but those with ranges.\<close>

definition safe_masker :: "Masker \<Rightarrow> bool" where
  "safe_masker m = (case m of RangeMasker _ \<Rightarrow> False | _ \<Rightarrow> True)"

lemma mask_value_safe:
  "safe_masker m \<Longrightarrow> getRowValueFromJSONAtomicMember d = Some v \<Longrightarrow> \<exists>r. mask_value env m v = Ok r"
  by (cases d; cases m)
    (auto simp: safe_masker_def getRowValueFromJSONAtomicMember_def mask_value_def Mask_def Mask_plain_def
      DefaultRangeMasker_Mask_def MD5Masker_Mask_def InnerOuterMasker_Mask_def six_stars_def Let_def)

text \<open>A result that is no panic and no error but those of JSON.\<close>

definition json_only :: "'a doc_outcome \<Rightarrow> bool" where
  "json_only r = (case r of Panic \<Rightarrow> False | Err e \<Rightarrow> e = UnmarshalError \<or> e = MarshalError | Ok _ \<Rightarrow> True)"

lemma json_only_Ok [simp]: "json_only (Ok x)"
  by (simp add: json_only_def)

lemma json_only_bind: "json_only r \<Longrightarrow> (\<And>x. r = Ok x \<Longrightarrow> json_only (f x)) \<Longrightarrow> json_only (bind_outcome r f)"
  by (cases r) (auto simp: json_only_def)

lemma json_only_traverse: "(\<And>x. x \<in> set xs \<Longrightarrow> json_only (f x)) \<Longrightarrow> json_only (traverse f xs)"
  by (induction xs) (auto intro!: json_only_bind)

lemma json_only_Marshal: "json_only (Marshal env d)" "json_only (Unmarshal env s)"
  by (simp_all add: Marshal_def Unmarshal_def of_option_def json_only_def split: option.split)

lemma mask_value_json_only: "safe_masker m \<Longrightarrow> getRowValueFromJSONAtomicMember d = Some v \<Longrightarrow> json_only (mask_value env m v)"
  using mask_value_safe [of m d v env] by auto

lemmas json_only_intros = json_only_bind json_only_traverse json_only_Marshal

lemma applyMaskerToJSONMember_safe: "safe_masker m \<Longrightarrow> json_only (applyMaskerToJSONMember env d m)"
  using mask_value_json_only [of m "JString s" "RV_String s" env for s]
  by (cases "getRowValueFromJSONAtomicMember d")
    (auto simp: applyMaskerToJSONMember_def mask_value_json_only [of m d]
      getRowValueFromJSONAtomicMember_def [of "JString _"] intro!: json_only_intros)

lemma applyMaskerToData_safe: "safe_masker m \<Longrightarrow> json_only (applyMaskerToData env d m)"
  by (induction env d m rule: applyMaskerToData.induct)
    (fastforce intro!: json_only_intros simp: mask_value_json_only split: option.split)+

lemma walk_safe:
  "(\<And>t m. map_of sm t = Some m \<Longrightarrow> safe_masker m) \<Longrightarrow> json_only (walkAndMaskJSONRecursive env sm d os)"
proof (induction env sm d os rule: walkAndMaskJSONRecursive.induct)
  case (2 env sm d os)
  note safe = applyMaskerToJSONMember_safe applyMaskerToData_safe
  show ?case
  proof (cases "os_semantic_type os = []")
    case False
    show ?thesis
    proof (cases "map_of sm (os_semantic_type os)")
      case (Some m)
      note safe = safe [OF 2(4) [OF Some]]
      show ?thesis using False Some by (cases d) (simp_all add: walk_tagged safe del: applyMaskerToData.simps)
    qed (use False in \<open>simp add: walk_tagged\<close>)
  next
    case sem: True
    show ?thesis
    proof (cases "os_type os = ObjectSchema_ARRAY \<and> \<not> is_array d")
      case True
      with sem 2(1,4) show ?thesis by (simp add: walk_item split: option.split)
    next
      case no: False
      show ?thesis
      proof (cases d)
        case (JArray vs)
        with sem no 2(2) [of vs] 2(4) show ?thesis
          by (auto simp: walk_array is_array_def intro!: json_only_intros split: option.split)
      next
        case (JObject fs)
        with no have ty: "os_type os \<noteq> ObjectSchema_ARRAY" by (simp add: is_array_def)
        have "json_only (case property os (fst f) of None \<Rightarrow> Ok (fst f, snd f)
            | Some child \<Rightarrow> bind_outcome (walkAndMaskJSONRecursive env sm (snd f) (Some child)) (\<lambda>v'. Ok (fst f, v')))"
          if "GetProperties os = Some props" "f \<in> set fs" for f props
          using 2(3) [of fs props f "fst f" "snd f"] 2(4) that ty sem JObject
          by (auto intro!: json_only_bind split: option.split)
        with ty sem show ?thesis by (auto simp: walk_object JObject intro!: json_only_intros)
      qed (use no sem in \<open>simp_all add: is_array_def, (subst walk_simps(2), simp)+\<close>)
    qed
  qed
qed simp

text \<open>
  Without range masks, masking a document never panics: it ends with a text or with the error that the
  document is not JSON or that the masked document has no JSON text.
\<close>
lemma document_mask_no_panic:
  assumes "\<forall>t m. map_of sm t = Some m \<longrightarrow> (\<forall>ranges. m \<noteq> RangeMasker ranges)"
  shows "maskDocumentString env sm s os \<noteq> Panic \<and>
    (\<forall>e. maskDocumentString env sm s os = Err e \<longrightarrow> e = UnmarshalError \<or> e = MarshalError)"
proof -
  have "json_only (walkAndMaskJSONRecursive env sm d os)" for d
    by (rule walk_safe) (use assms in \<open>simp add: safe_masker_def split: Masker.split\<close>)
  then have "json_only (maskDocumentString env sm s os)"
    unfolding maskDocumentString_def by (auto intro!: json_only_intros)
  then show ?thesis by (auto simp: json_only_def)
qed

theorem document_mask_no_panic_witness:
  "maskDocumentString sample_env pii_masker ''555'' (Some contacts_schema) \<noteq> Panic"
proof -
  have "\<forall>t m. map_of pii_masker t = Some m \<longrightarrow> (\<forall>ranges. m \<noteq> RangeMasker ranges)" by (simp add: pii_masker_def)
  from document_mask_no_panic [OF this] show ?thesis by blast
qed

end
