(* ===== verification/ResourceName.thy ===== *)
theory ResourceName
  imports Strconv Outcome
begin

text \<open>
  \<^verbatim>\<open>backend/common/resource_name.go\<close> and \<^verbatim>\<open>resource_ref.go\<close>: the names of resources, their parsing
  and printing.  An error is \<open>Inl\<close>, with the arguments of its message; \<^verbatim>\<open>int64\<close> is a word read as
  signed; a \<^verbatim>\<open>*string\<close> that may be \<^verbatim>\<open>nil\<close> is an option.
\<close>

named_theorems resource_consts "the prefixes of the names"


section \<open>Prefixes\<close>

definition WorkspacePrefix :: string where [resource_consts]: "WorkspacePrefix = ''workspaces/''"
definition ProjectNamePrefix :: string where [resource_consts]: "ProjectNamePrefix = ''projects/''"
definition EnvironmentNamePrefix :: string where [resource_consts]: "EnvironmentNamePrefix = ''environments/''"
definition InstanceNamePrefix :: string where [resource_consts]: "InstanceNamePrefix = ''instances/''"
definition DatabaseIDPrefix :: string where [resource_consts]: "DatabaseIDPrefix = ''databases/''"
definition UserNamePrefix :: string where [resource_consts]: "UserNamePrefix = ''users/''"
definition IdentityProviderNamePrefix :: string where [resource_consts]: "IdentityProviderNamePrefix = ''idps/''"
definition SettingNamePrefix :: string where [resource_consts]: "SettingNamePrefix = ''settings/''"
definition StagePrefix :: string where [resource_consts]: "StagePrefix = ''stages/''"
definition TaskPrefix :: string where [resource_consts]: "TaskPrefix = ''tasks/''"
definition TaskRunPrefix :: string where [resource_consts]: "TaskRunPrefix = ''taskRuns/''"
definition PlanPrefix :: string where [resource_consts]: "PlanPrefix = ''plans/''"
definition PlanCheckRunPrefix :: string where [resource_consts]: "PlanCheckRunPrefix = ''planCheckRuns/''"
definition SpecPrefix :: string where [resource_consts]: "SpecPrefix = ''specs/''"
definition RolePrefix :: string where [resource_consts]: "RolePrefix = ''roles/''"
definition WebhookIDPrefix :: string where [resource_consts]: "WebhookIDPrefix = ''webhooks/''"
definition SheetIDPrefix :: string where [resource_consts]: "SheetIDPrefix = ''sheets/''"
definition WorksheetIDPrefix :: string where [resource_consts]: "WorksheetIDPrefix = ''worksheets/''"
definition DatabaseGroupNamePrefix :: string where [resource_consts]: "DatabaseGroupNamePrefix = ''databaseGroups/''"
definition ChangelogPrefix :: string where [resource_consts]: "ChangelogPrefix = ''changelogs/''"
definition IssueNamePrefix :: string where [resource_consts]: "IssueNamePrefix = ''issues/''"
definition IssueCommentNamePrefix :: string where [resource_consts]: "IssueCommentNamePrefix = ''issueComments/''"
definition GroupPrefix :: string where [resource_consts]: "GroupPrefix = ''groups/''"
definition ReviewConfigPrefix :: string where [resource_consts]: "ReviewConfigPrefix = ''reviewConfigs/''"
definition ReleaseNamePrefix :: string where [resource_consts]: "ReleaseNamePrefix = ''releases/''"
definition FileNamePrefix :: string where [resource_consts]: "FileNamePrefix = ''files/''"
definition RevisionNamePrefix :: string where [resource_consts]: "RevisionNamePrefix = ''revisions/''"
definition AccessGrantNamePrefix :: string where [resource_consts]: "AccessGrantNamePrefix = ''accessGrants/''"
definition ServiceAccountNamePrefix :: string where [resource_consts]: "ServiceAccountNamePrefix = ''serviceAccounts/''"
definition WorkloadIdentityNamePrefix :: string where [resource_consts]: "WorkloadIdentityNamePrefix = ''workloadIdentities/''"


definition WorkloadIdentitySuffix :: string where "WorkloadIdentitySuffix = ''workload.bytebase.com''"
definition ServiceAccountSuffix :: string where "ServiceAccountSuffix = ''service.bytebase.com''"
definition AllUsers :: string where "AllUsers = ''allUsers''"
definition EmptyStageID :: string where "EmptyStageID = ''-''"

datatype name_error =
    InvalidRequest string
  | InvalidPrefix string string
  | InvalidRef string string name_error
  | InvalidUID string string
  | InvalidUIDInRef string string string
  | InvalidName string string
  | InvalidSegments string string
  | MissingSuffix string string
  | MissingFiles string
  | ReleaseFileName string
  | FileIDEncoding string
  | EmptyPolicyParent
  | InvalidArgument name_error
  | UnknownRequest string


section \<open>Tokens of a name\<close>

text \<open>The loop over the prefixes, after the number of parts is known to be right.\<close>

fun match_tokens :: "string \<Rightarrow> string list \<Rightarrow> string list \<Rightarrow> name_error + string list" where
  "match_tokens name (k # t # rest) (p # ps) =
     (if k @ ''/'' \<noteq> p then Inl (InvalidPrefix p name)
      else bind_sum (match_tokens name rest ps) (\<lambda>ts. Inr (t # ts)))"
| "match_tokens name _ _ = Inr []"

definition GetNameParentTokens :: "string \<Rightarrow> string list \<Rightarrow> name_error + string list" where
  "GetNameParentTokens name tokenPrefixes =
     (let parts = Split name ''/''
      in if length parts \<noteq> 2 * length tokenPrefixes then Inl (InvalidRequest name)
         else match_tokens name parts tokenPrefixes)"

text \<open>\<open>tokens[0]\<close>, \<open>tokens[0], tokens[1]\<close> and so on, after the parsing of a name.\<close>

definition tokens1 :: "string \<Rightarrow> string \<Rightarrow> name_error + string" where
  "tokens1 name p = bind_sum (GetNameParentTokens name [p]) (\<lambda>ts. Inr (ts ! 0))"

definition tokens2 :: "string \<Rightarrow> string \<Rightarrow> string \<Rightarrow> name_error + string \<times> string" where
  "tokens2 name p q = bind_sum (GetNameParentTokens name [p, q]) (\<lambda>ts. Inr (ts ! 0, ts ! 1))"

definition tokens3 :: "string \<Rightarrow> string \<Rightarrow> string \<Rightarrow> string \<Rightarrow> name_error + string \<times> string \<times> string" where
  "tokens3 name p q r =
     bind_sum (GetNameParentTokens name [p, q, r]) (\<lambda>ts. Inr (ts ! 0, ts ! 1, ts ! 2))"

definition TrimSuffix_checked :: "string \<Rightarrow> string \<Rightarrow> name_error + string" where
  "TrimSuffix_checked name suffix =
     (if \<not> HasSuffix name suffix then Inl (MissingSuffix name suffix) else Inr (TrimSuffix name suffix))"


section \<open>References\<close>

record ProjectRef = ProjectRef_ProjectID :: string

record ResourcePlanRef =
  PlanRef_ProjectID :: string
  PlanRef_PlanUID :: "64 word"

record IssueResourceRef =
  IssueRef_ProjectID :: string
  IssueRef_IssueUID :: "64 word"

record ReleaseRef =
  ReleaseRef_ProjectID :: string
  ReleaseRef_ReleaseID :: string

record RolloutRef =
  RolloutRef_ProjectID :: string
  RolloutRef_PlanUID :: "64 word"

record StageRef =
  StageRef_ProjectID :: string
  StageRef_PlanUID :: "64 word"
  StageRef_StageID :: string

record TaskResourceRef =
  TaskRef_ProjectID :: string
  TaskRef_PlanUID :: "64 word"
  TaskRef_StageID :: string
  TaskRef_TaskUID :: "64 word"

record TaskRunResourceRef =
  TaskRunRef_ProjectID :: string
  TaskRunRef_PlanUID :: "64 word"
  TaskRunRef_StageID :: string
  TaskRunRef_TaskUID :: "64 word"
  TaskRunRef_TaskRunUID :: "64 word"

record InstanceRef = InstanceRef_InstanceID :: string

record DatabaseResourceRef =
  DatabaseRef_InstanceID :: string
  DatabaseRef_DatabaseName :: string

record SettingRef = SettingRef_SettingName :: string

record UserResourceRef = UserRef_Email :: string

text \<open>\<open>%d\<close> of an \<^verbatim>\<open>int64\<close>.\<close>

definition fmt_d :: "64 word \<Rightarrow> string" where
  "fmt_d w = FormatInt (sint w)"

definition ProjectRef_String :: "ProjectRef \<Rightarrow> string" where
  "ProjectRef_String r = ''projects/'' @ ProjectRef_ProjectID r"

definition ResourcePlanRef_String :: "ResourcePlanRef \<Rightarrow> string" where
  "ResourcePlanRef_String r =
     ''projects/'' @ PlanRef_ProjectID r @ ''/plans/'' @ fmt_d (PlanRef_PlanUID r)"

definition IssueResourceRef_String :: "IssueResourceRef \<Rightarrow> string" where
  "IssueResourceRef_String r =
     ''projects/'' @ IssueRef_ProjectID r @ ''/issues/'' @ fmt_d (IssueRef_IssueUID r)"

definition ReleaseRef_String :: "ReleaseRef \<Rightarrow> string" where
  "ReleaseRef_String r =
     ''projects/'' @ ReleaseRef_ProjectID r @ ''/releases/'' @ ReleaseRef_ReleaseID r"

definition RolloutRef_String :: "RolloutRef \<Rightarrow> string" where
  "RolloutRef_String r =
     ''projects/'' @ RolloutRef_ProjectID r @ ''/plans/'' @ fmt_d (RolloutRef_PlanUID r) @ ''/rollout''"

definition StageRef_String :: "StageRef \<Rightarrow> string" where
  "StageRef_String r =
     ''projects/'' @ StageRef_ProjectID r @ ''/plans/'' @ fmt_d (StageRef_PlanUID r) @
     ''/rollout/stages/'' @ StageRef_StageID r"

definition TaskResourceRef_String :: "TaskResourceRef \<Rightarrow> string" where
  "TaskResourceRef_String r =
     ''projects/'' @ TaskRef_ProjectID r @ ''/plans/'' @ fmt_d (TaskRef_PlanUID r) @
     ''/rollout/stages/'' @ TaskRef_StageID r @ ''/tasks/'' @ fmt_d (TaskRef_TaskUID r)"

definition TaskRunResourceRef_String :: "TaskRunResourceRef \<Rightarrow> string" where
  "TaskRunResourceRef_String r =
     ''projects/'' @ TaskRunRef_ProjectID r @ ''/plans/'' @ fmt_d (TaskRunRef_PlanUID r) @
     ''/rollout/stages/'' @ TaskRunRef_StageID r @ ''/tasks/'' @ fmt_d (TaskRunRef_TaskUID r) @
     ''/taskRuns/'' @ fmt_d (TaskRunRef_TaskRunUID r)"

definition InstanceRef_String :: "InstanceRef \<Rightarrow> string" where
  "InstanceRef_String r = ''instances/'' @ InstanceRef_InstanceID r"

definition DatabaseResourceRef_String :: "DatabaseResourceRef \<Rightarrow> string" where
  "DatabaseResourceRef_String r =
     ''instances/'' @ DatabaseRef_InstanceID r @ ''/databases/'' @ DatabaseRef_DatabaseName r"

definition SettingRef_String :: "SettingRef \<Rightarrow> string" where
  "SettingRef_String r = ''settings/'' @ SettingRef_SettingName r"

definition UserResourceRef_String :: "UserResourceRef \<Rightarrow> string" where
  "UserResourceRef_String r = ''users/'' @ UserRef_Email r"

text \<open>\<^verbatim>\<open>errors.Wrapf\<close> of what the tokens report.\<close>

abbreviation ref_tokens :: "string \<Rightarrow> string \<Rightarrow> string list \<Rightarrow> name_error + string list" where
  "ref_tokens what name ps \<equiv> wrap_error (InvalidRef what name) (GetNameParentTokens name ps)"

definition ParseProjectRef :: "string \<Rightarrow> name_error + ProjectRef" where
  "ParseProjectRef name =
     bind_sum (ref_tokens ''project'' name [ProjectNamePrefix])
       (\<lambda>ts. Inr \<lparr>ProjectRef_ProjectID = ts ! 0\<rparr>)"

definition ParseResourcePlanRef :: "string \<Rightarrow> name_error + ResourcePlanRef" where
  "ParseResourcePlanRef name =
     bind_sum (ref_tokens ''plan'' name [ProjectNamePrefix, PlanPrefix])
       (\<lambda>ts. bind_sum (require (InvalidUIDInRef ''plan'' (ts ! 1) name) (ParseInt (ts ! 1)))
       (\<lambda>planUID. Inr \<lparr>PlanRef_ProjectID = ts ! 0, PlanRef_PlanUID = planUID\<rparr>))"

definition ParseIssueResourceRef :: "string \<Rightarrow> name_error + IssueResourceRef" where
  "ParseIssueResourceRef name =
     bind_sum (ref_tokens ''issue'' name [ProjectNamePrefix, IssueNamePrefix])
       (\<lambda>ts. bind_sum (require (InvalidUIDInRef ''issue'' (ts ! 1) name) (ParseInt (ts ! 1)))
       (\<lambda>issueUID. Inr \<lparr>IssueRef_ProjectID = ts ! 0, IssueRef_IssueUID = issueUID\<rparr>))"

definition ParseInstanceRef :: "string \<Rightarrow> name_error + InstanceRef" where
  "ParseInstanceRef name =
     bind_sum (ref_tokens ''instance'' name [InstanceNamePrefix])
       (\<lambda>ts. Inr \<lparr>InstanceRef_InstanceID = ts ! 0\<rparr>)"

definition ParseDatabaseResourceRef :: "string \<Rightarrow> name_error + DatabaseResourceRef" where
  "ParseDatabaseResourceRef name =
     bind_sum (ref_tokens ''database'' name [InstanceNamePrefix, DatabaseIDPrefix])
       (\<lambda>ts. Inr \<lparr>DatabaseRef_InstanceID = ts ! 0, DatabaseRef_DatabaseName = ts ! 1\<rparr>)"

definition ParseSettingRef :: "string \<Rightarrow> name_error + SettingRef" where
  "ParseSettingRef name =
     bind_sum (ref_tokens ''setting'' name [SettingNamePrefix])
       (\<lambda>ts. Inr \<lparr>SettingRef_SettingName = ts ! 0\<rparr>)"

definition ParseUserResourceRef :: "string \<Rightarrow> name_error + UserResourceRef" where
  "ParseUserResourceRef name =
     bind_sum (ref_tokens ''user'' name [UserNamePrefix])
       (\<lambda>ts. Inr \<lparr>UserRef_Email = ts ! 0\<rparr>)"

text \<open>\<open>strings.Split(name, "/rollout")\<close> into exactly two parts, and the parts of the second.\<close>

definition rollout_parts :: "string \<Rightarrow> string \<Rightarrow> name_error + string \<times> string" where
  "rollout_parts what name =
     (case Split name ''/rollout'' of
        [a, b] \<Rightarrow> Inr (a, b)
      | _ \<Rightarrow> Inl (InvalidName what name))"

definition suffix_parts :: "string \<Rightarrow> string list" where
  "suffix_parts b = Split (TrimPrefix b ''/'') ''/''"

text \<open>The suffixes \<open>/stages/{stage}/tasks/{task}\<close> and the one of a task run.\<close>

definition task_suffix :: "string \<Rightarrow> name_error + string \<times> string" where
  "task_suffix b =
     (case suffix_parts b of
        [k0, stage, k1, task] \<Rightarrow>
          if k0 @ ''/'' \<noteq> StagePrefix \<or> k1 @ ''/'' \<noteq> TaskPrefix then Inl (InvalidSegments ''task'' b)
          else Inr (stage, task)
      | _ \<Rightarrow> Inl (InvalidSegments ''task'' b))"

definition task_run_suffix :: "string \<Rightarrow> name_error + string \<times> string \<times> string" where
  "task_run_suffix b =
     (case suffix_parts b of
        [k0, stage, k1, task, k2, taskRun] \<Rightarrow>
          if k0 @ ''/'' \<noteq> StagePrefix \<or> k1 @ ''/'' \<noteq> TaskPrefix \<or> k2 @ ''/'' \<noteq> TaskRunPrefix
          then Inl (InvalidSegments ''task run'' b)
          else Inr (stage, task, taskRun)
      | _ \<Rightarrow> Inl (InvalidSegments ''task run'' b))"

definition ParseTaskRunResourceRef :: "string \<Rightarrow> name_error + TaskRunResourceRef" where
  "ParseTaskRunResourceRef name =
     bind_sum (rollout_parts ''task run ref'' name) (\<lambda>(a, b).
     bind_sum (ParseResourcePlanRef a) (\<lambda>planRef.
     bind_sum (task_run_suffix b) (\<lambda>(stage, task, taskRun).
     bind_sum (require (InvalidUID ''task UID'' task) (ParseInt task)) (\<lambda>taskUID.
     bind_sum (require (InvalidUID ''task run UID'' taskRun) (ParseInt taskRun)) (\<lambda>taskRunUID.
       Inr \<lparr>TaskRunRef_ProjectID = PlanRef_ProjectID planRef, TaskRunRef_PlanUID = PlanRef_PlanUID planRef,
            TaskRunRef_StageID = stage, TaskRunRef_TaskUID = taskUID, TaskRunRef_TaskRunUID = taskRunUID\<rparr>)))))"


section \<open>Parsing\<close>

definition GetEnvironmentID :: "string \<Rightarrow> name_error + string" where
  "GetEnvironmentID name = tokens1 name EnvironmentNamePrefix"

definition GetIdentityProviderID :: "string \<Rightarrow> name_error + string" where
  "GetIdentityProviderID name = tokens1 name IdentityProviderNamePrefix"

definition GetRoleID :: "string \<Rightarrow> name_error + string" where
  "GetRoleID name = tokens1 name RolePrefix"

definition GetReviewConfigID :: "string \<Rightarrow> name_error + string" where
  "GetReviewConfigID name = tokens1 name ReviewConfigPrefix"

definition GetGroupEmail :: "string \<Rightarrow> name_error + string" where
  "GetGroupEmail name = tokens1 name GroupPrefix"

definition GetWorkspaceID :: "string \<Rightarrow> name_error + string" where
  "GetWorkspaceID name = tokens1 name WorkspacePrefix"

definition GetServiceAccountEmail :: "string \<Rightarrow> name_error + string" where
  "GetServiceAccountEmail name = tokens1 name ServiceAccountNamePrefix"

definition GetWorkloadIdentityEmail :: "string \<Rightarrow> name_error + string" where
  "GetWorkloadIdentityEmail name = tokens1 name WorkloadIdentityNamePrefix"

definition GetProjectIDDatabaseGroupID :: "string \<Rightarrow> name_error + string \<times> string" where
  "GetProjectIDDatabaseGroupID name = tokens2 name ProjectNamePrefix DatabaseGroupNamePrefix"

definition GetProjectIDWebhookID :: "string \<Rightarrow> name_error + string \<times> string" where
  "GetProjectIDWebhookID name = tokens2 name ProjectNamePrefix WebhookIDPrefix"

definition GetProjectIDAccessGrantID :: "string \<Rightarrow> name_error + string \<times> string" where
  "GetProjectIDAccessGrantID name = tokens2 name ProjectNamePrefix AccessGrantNamePrefix"

definition GetProjectResourceIDSheetSha256 :: "string \<Rightarrow> name_error + string \<times> string" where
  "GetProjectResourceIDSheetSha256 name = tokens2 name ProjectNamePrefix SheetIDPrefix"

definition GetProjectIDWorksheetID :: "string \<Rightarrow> name_error + string \<times> string" where
  "GetProjectIDWorksheetID name = tokens2 name ProjectNamePrefix WorksheetIDPrefix"

definition GetProjectReleaseID :: "string \<Rightarrow> name_error + string \<times> string" where
  "GetProjectReleaseID name = tokens2 name ProjectNamePrefix ReleaseNamePrefix"

definition GetProjectID :: "string \<Rightarrow> name_error + string" where
  "GetProjectID name = bind_sum (ParseProjectRef name) (\<lambda>ref. Inr (ProjectRef_ProjectID ref))"

definition GetInstanceID :: "string \<Rightarrow> name_error + string" where
  "GetInstanceID name = bind_sum (ParseInstanceRef name) (\<lambda>ref. Inr (InstanceRef_InstanceID ref))"

definition GetInstanceDatabaseID :: "string \<Rightarrow> name_error + string \<times> string" where
  "GetInstanceDatabaseID name =
     bind_sum (ParseDatabaseResourceRef name)
       (\<lambda>ref. Inr (DatabaseRef_InstanceID ref, DatabaseRef_DatabaseName ref))"

definition TrimSuffixAndGetInstanceDatabaseID :: "string \<Rightarrow> string \<Rightarrow> name_error + string \<times> string" where
  "TrimSuffixAndGetInstanceDatabaseID name suffix =
     bind_sum (TrimSuffix_checked name suffix) GetInstanceDatabaseID"

definition GetInstanceDatabaseRevisionID :: "string \<Rightarrow> name_error + string \<times> string \<times> string" where
  "GetInstanceDatabaseRevisionID name = tokens3 name InstanceNamePrefix DatabaseIDPrefix RevisionNamePrefix"

definition GetInstanceDatabaseChangelogID :: "string \<Rightarrow> name_error + string \<times> string \<times> string" where
  "GetInstanceDatabaseChangelogID name = tokens3 name InstanceNamePrefix DatabaseIDPrefix ChangelogPrefix"

definition GetUserEmail :: "string \<Rightarrow> name_error + string" where
  "GetUserEmail name = bind_sum (ParseUserResourceRef name) (\<lambda>ref. Inr (UserRef_Email ref))"

definition GetSettingName :: "string \<Rightarrow> name_error + string" where
  "GetSettingName name = bind_sum (ParseSettingRef name) (\<lambda>ref. Inr (SettingRef_SettingName ref))"

definition GetProjectIDIssueUID :: "string \<Rightarrow> name_error + string \<times> 64 word" where
  "GetProjectIDIssueUID name =
     bind_sum (ParseIssueResourceRef name) (\<lambda>ref. Inr (IssueRef_ProjectID ref, IssueRef_IssueUID ref))"

definition GetProjectIDIssueUIDIssueCommentID ::
    "string \<Rightarrow> name_error + string \<times> 64 word \<times> string" where
  "GetProjectIDIssueUIDIssueCommentID name =
     bind_sum (tokens3 name ProjectNamePrefix IssueNamePrefix IssueCommentNamePrefix) (\<lambda>(p, i, c).
     bind_sum (require (InvalidUID ''issue ID'' i) (ParseInt i)) (\<lambda>issueUID. Inr (p, issueUID, c)))"

definition GetProjectIDPlanID :: "string \<Rightarrow> name_error + string \<times> 64 word" where
  "GetProjectIDPlanID name =
     bind_sum (ParseResourcePlanRef name) (\<lambda>ref. Inr (PlanRef_ProjectID ref, PlanRef_PlanUID ref))"

definition GetProjectIDPlanIDPlanCheckRunID ::
    "string \<Rightarrow> name_error + string \<times> 64 word \<times> 64 word" where
  "GetProjectIDPlanIDPlanCheckRunID name =
     bind_sum (tokens3 name ProjectNamePrefix PlanPrefix PlanCheckRunPrefix) (\<lambda>(p, n, c).
     bind_sum (require (InvalidUID ''plan ID'' n) (ParseInt n)) (\<lambda>planID.
     bind_sum (require (InvalidUID ''plan check run ID'' c) (ParseInt c)) (\<lambda>planCheckRunID.
       Inr (p, planID, planCheckRunID))))"

definition GetProjectIDPlanIDFromPlanCheckRun :: "string \<Rightarrow> name_error + string \<times> 64 word" where
  "GetProjectIDPlanIDFromPlanCheckRun name =
     (if \<not> HasSuffix name ''/planCheckRun'' then Inl (InvalidName ''plan check run'' name)
      else GetProjectIDPlanID (TrimSuffix name ''/planCheckRun''))"

definition GetProjectIDPlanIDFromRolloutName :: "string \<Rightarrow> name_error + string \<times> 64 word" where
  "GetProjectIDPlanIDFromRolloutName name =
     (if \<not> HasSuffix name ''/rollout'' then Inl (InvalidName ''rollout'' name)
      else GetProjectIDPlanID (TrimSuffix name ''/rollout''))"

text \<open>The placeholder \<open>-\<close> of a stage or a task is \<^verbatim>\<open>nil\<close>.\<close>

definition maybe_id :: "string \<Rightarrow> string option" where
  "maybe_id s = (if s \<noteq> ''-'' then Some s else None)"

definition maybe_task :: "string \<Rightarrow> name_error + 64 word option" where
  "maybe_task s =
     (if s \<noteq> ''-'' then bind_sum (require (InvalidUID ''task ID'' s) (ParseInt s)) (\<lambda>n. Inr (Some n))
      else Inr None)"

definition GetProjectIDPlanIDMaybeStageID ::
    "string \<Rightarrow> name_error + string \<times> 64 word \<times> string option" where
  "GetProjectIDPlanIDMaybeStageID name =
     bind_sum (rollout_parts ''rollout stage name'' name) (\<lambda>(a, b).
     bind_sum (GetProjectIDPlanID a) (\<lambda>(projectID, planID).
       case suffix_parts b of
         [k0, stage] \<Rightarrow>
           if k0 @ ''/'' \<noteq> StagePrefix then Inl (InvalidSegments ''stage'' b)
           else Inr (projectID, planID, maybe_id stage)
       | _ \<Rightarrow> Inl (InvalidSegments ''stage'' b)))"

definition GetProjectIDPlanIDStageIDMaybeTaskID ::
    "string \<Rightarrow> name_error + string \<times> 64 word \<times> string \<times> 64 word option" where
  "GetProjectIDPlanIDStageIDMaybeTaskID name =
     bind_sum (rollout_parts ''rollout task name'' name) (\<lambda>(a, b).
     bind_sum (GetProjectIDPlanID a) (\<lambda>(projectID, planID).
     bind_sum (task_suffix b) (\<lambda>(stage, task).
     bind_sum (maybe_task task) (\<lambda>taskID. Inr (projectID, planID, stage, taskID)))))"

definition GetProjectIDPlanIDMaybeStageIDMaybeTaskID ::
    "string \<Rightarrow> name_error + string \<times> 64 word \<times> string option \<times> 64 word option" where
  "GetProjectIDPlanIDMaybeStageIDMaybeTaskID name =
     bind_sum (rollout_parts ''rollout task name'' name) (\<lambda>(a, b).
     bind_sum (GetProjectIDPlanID a) (\<lambda>(projectID, planID).
     bind_sum (task_suffix b) (\<lambda>(stage, task).
     bind_sum (maybe_task task) (\<lambda>taskID. Inr (projectID, planID, maybe_id stage, taskID)))))"

definition GetProjectIDPlanIDStageIDTaskID ::
    "string \<Rightarrow> name_error + string \<times> 64 word \<times> string \<times> 64 word" where
  "GetProjectIDPlanIDStageIDTaskID name =
     bind_sum (rollout_parts ''rollout task name'' name) (\<lambda>(a, b).
     bind_sum (GetProjectIDPlanID a) (\<lambda>(projectID, planID).
     bind_sum (task_suffix b) (\<lambda>(stage, task).
     bind_sum (require (InvalidUID ''task ID'' task) (ParseInt task)) (\<lambda>taskID.
       Inr (projectID, planID, stage, taskID)))))"

definition GetProjectIDPlanIDStageIDTaskIDTaskRunID ::
    "string \<Rightarrow> name_error + string \<times> 64 word \<times> string \<times> 64 word \<times> 64 word" where
  "GetProjectIDPlanIDStageIDTaskIDTaskRunID name =
     bind_sum (rollout_parts ''rollout task run name'' name) (\<lambda>(a, b).
     bind_sum (GetProjectIDPlanID a) (\<lambda>(projectID, planID).
     bind_sum (task_run_suffix b) (\<lambda>(stage, task, taskRun).
     bind_sum (require (InvalidUID ''task ID'' task) (ParseInt task)) (\<lambda>taskID.
     bind_sum (require (InvalidUID ''task run ID'' taskRun) (ParseInt taskRun)) (\<lambda>taskRunID.
       Inr (projectID, planID, stage, taskID, taskRunID))))))"

text \<open>\<open>strings.Cut\<close> at the first \<open>/files/\<close>; whatever the tokens report is replaced.\<close>

definition GetProjectReleaseIDFile :: "string \<Rightarrow> name_error + string \<times> string \<times> string" where
  "GetProjectReleaseIDFile name =
     (let sep = ''/'' @ FileNamePrefix
      in case Index name sep of
           None \<Rightarrow> Inl (MissingFiles name)
         | Some i \<Rightarrow>
             (case tokens2 (take i name) ProjectNamePrefix ReleaseNamePrefix of
                Inl _ \<Rightarrow> Inl (ReleaseFileName name)
              | Inr (p, r) \<Rightarrow>
                  bind_sum (require (FileIDEncoding name) (PathUnescape (drop (i + length sep) name)))
                    (\<lambda>fileID. Inr (p, r, fileID))))"

datatype Policy_Resource = Policy_RESOURCE_UNSPECIFIED | Policy_WORKSPACE | Policy_ENVIRONMENT | Policy_PROJECT

definition GetPolicyResourceTypeAndResource :: "string \<Rightarrow> name_error + Policy_Resource \<times> string option" where
  "GetPolicyResourceTypeAndResource requestName =
     (if requestName = '''' then Inl (InvalidArgument EmptyPolicyParent)
      else if HasPrefix requestName WorkspacePrefix then Inr (Policy_WORKSPACE, Some requestName)
      else if HasPrefix requestName ProjectNamePrefix then
        bind_sum (wrap_error InvalidArgument (GetProjectID requestName)) (\<lambda>projectID.
          Inr (Policy_PROJECT, if projectID = ''-'' then None else Some requestName))
      else if HasPrefix requestName EnvironmentNamePrefix then
        bind_sum (GetEnvironmentID requestName) (\<lambda>environmentID.
          Inr (Policy_ENVIRONMENT, if environmentID = ''-'' then None else Some requestName))
      else Inl (UnknownRequest requestName))"


section \<open>Printing\<close>

definition FormatWorkspace :: "string \<Rightarrow> string" where
  "FormatWorkspace resourceID = WorkspacePrefix @ resourceID"

definition FormatProject :: "string \<Rightarrow> string" where
  "FormatProject resourceID = ProjectNamePrefix @ resourceID"

definition FormatUserEmail :: "string \<Rightarrow> string" where
  "FormatUserEmail email = UserNamePrefix @ email"

definition FormatGroupEmail :: "string \<Rightarrow> string" where
  "FormatGroupEmail email = GroupPrefix @ email"

definition FormatReviewConfig :: "string \<Rightarrow> string" where
  "FormatReviewConfig resourceID = ReviewConfigPrefix @ resourceID"

definition FormatEnvironment :: "string \<Rightarrow> string" where
  "FormatEnvironment resourceID = EnvironmentNamePrefix @ resourceID"

definition FormatInstance :: "string \<Rightarrow> string" where
  "FormatInstance resourceID = InstanceNamePrefix @ resourceID"

definition FormatRole :: "string \<Rightarrow> string" where
  "FormatRole role = RolePrefix @ role"

definition FormatServiceAccountEmail :: "string \<Rightarrow> string" where
  "FormatServiceAccountEmail email = ServiceAccountNamePrefix @ email"

definition FormatWorkloadIdentityEmail :: "string \<Rightarrow> string" where
  "FormatWorkloadIdentityEmail email = WorkloadIdentityNamePrefix @ email"

definition FormatDatabase :: "string \<Rightarrow> string \<Rightarrow> string" where
  "FormatDatabase inst database = FormatInstance inst @ ''/'' @ DatabaseIDPrefix @ database"

definition FormatAccessGrant :: "string \<Rightarrow> string \<Rightarrow> string" where
  "FormatAccessGrant projectID accessGrantID = FormatProject projectID @ ''/'' @ AccessGrantNamePrefix @ accessGrantID"

definition FormatWorksheet :: "string \<Rightarrow> string \<Rightarrow> string" where
  "FormatWorksheet projectID worksheetID = FormatProject projectID @ ''/'' @ WorksheetIDPrefix @ worksheetID"

definition FormatSheet :: "string \<Rightarrow> string \<Rightarrow> string" where
  "FormatSheet projectID sheetSha256 = FormatProject projectID @ ''/'' @ SheetIDPrefix @ sheetSha256"

definition FormatIssue :: "string \<Rightarrow> 64 word \<Rightarrow> string" where
  "FormatIssue projectID issueUID = FormatProject projectID @ ''/'' @ IssueNamePrefix @ fmt_d issueUID"

definition FormatPlan :: "string \<Rightarrow> 64 word \<Rightarrow> string" where
  "FormatPlan projectID planUID = FormatProject projectID @ ''/'' @ PlanPrefix @ fmt_d planUID"

definition FormatRollout :: "string \<Rightarrow> 64 word \<Rightarrow> string" where
  "FormatRollout projectID planUID = FormatPlan projectID planUID @ ''/rollout''"

definition FormatStageID :: "string \<Rightarrow> string" where
  "FormatStageID environment = (if environment = '''' then EmptyStageID else environment)"

definition FormatStage :: "string \<Rightarrow> 64 word \<Rightarrow> string \<Rightarrow> string" where
  "FormatStage projectID planUID stageID = FormatRollout projectID planUID @ ''/'' @ StagePrefix @ stageID"

definition FormatTask :: "string \<Rightarrow> 64 word \<Rightarrow> string \<Rightarrow> 64 word \<Rightarrow> string" where
  "FormatTask projectID planUID stageID taskUID = FormatStage projectID planUID stageID @ ''/'' @ TaskPrefix @ fmt_d taskUID"

definition FormatTaskRun :: "string \<Rightarrow> 64 word \<Rightarrow> string \<Rightarrow> 64 word \<Rightarrow> 64 word \<Rightarrow> string" where
  "FormatTaskRun projectID planUID stageID taskUID taskRunUID = 
     FormatTask projectID planUID stageID taskUID @ ''/'' @ TaskRunPrefix @ fmt_d taskRunUID"

definition FormatReleaseName :: "string \<Rightarrow> string \<Rightarrow> string" where
  "FormatReleaseName projectID releaseID = FormatProject projectID @ ''/'' @ ReleaseNamePrefix @ releaseID"

definition FormatReleaseFile :: "string \<Rightarrow> string \<Rightarrow> string" where
  "FormatReleaseFile release fileID = release @ ''/'' @ FileNamePrefix @ PathEscape fileID"

definition FormatRevision :: "string \<Rightarrow> string \<Rightarrow> string \<Rightarrow> string" where
  "FormatRevision instanceID databaseID revisionID = FormatDatabase instanceID databaseID @ ''/'' @ RevisionNamePrefix @ revisionID"

definition FormatChangelog :: "string \<Rightarrow> string \<Rightarrow> string \<Rightarrow> string" where
  "FormatChangelog instanceID databaseID changelogID = FormatDatabase instanceID databaseID @ ''/'' @ ChangelogPrefix @ changelogID"

definition FormatPlanCheckRun :: "string \<Rightarrow> 64 word \<Rightarrow> string" where
  "FormatPlanCheckRun projectID planUID = FormatPlan projectID planUID @ ''/planCheckRun''"

definition FormatSpec :: "string \<Rightarrow> 64 word \<Rightarrow> string \<Rightarrow> string" where
  "FormatSpec projectID planUID specID = FormatPlan projectID planUID @ ''/'' @ SpecPrefix @ specID"


section \<open>Emails of service accounts and workload identities\<close>

definition isProjectLevelEmail :: "string \<Rightarrow> string \<Rightarrow> bool" where
  "isProjectLevelEmail email suffix =
     (case Split email ''@'' of
        [_, domain] \<Rightarrow> HasSuffix domain (''.'' @ suffix)
      | _ \<Rightarrow> False)"

definition IsWorkloadIdentityEmail :: "string \<Rightarrow> bool" where
  "IsWorkloadIdentityEmail email \<longleftrightarrow>
     HasSuffix email (''@'' @ WorkloadIdentitySuffix) \<or> isProjectLevelEmail email WorkloadIdentitySuffix"

definition IsServiceAccountEmail :: "string \<Rightarrow> bool" where
  "IsServiceAccountEmail email \<longleftrightarrow>
     HasSuffix email (''@'' @ ServiceAccountSuffix) \<or> isProjectLevelEmail email ServiceAccountSuffix"

definition BuildServiceAccountEmail :: "string \<Rightarrow> string \<Rightarrow> string" where
  "BuildServiceAccountEmail name projectID =
     (if projectID = '''' then name @ ''@'' @ ServiceAccountSuffix
      else name @ ''@'' @ projectID @ ''.'' @ ServiceAccountSuffix)"

definition BuildWorkloadIdentityEmail :: "string \<Rightarrow> string \<Rightarrow> string" where
  "BuildWorkloadIdentityEmail name projectID =
     (if projectID = '''' then name @ ''@'' @ WorkloadIdentitySuffix
      else name @ ''@'' @ projectID @ ''.'' @ WorkloadIdentitySuffix)"

end
