(* ===== verification/ResourceNameSpec.thy ===== *)
theory ResourceNameSpec
  imports ResourceName
begin

text \<open>
  Properties of the resource names: which names a parser accepts and what it reads from them, and for
  the names with a rollout or a file where printing and parsing are inverse and where they are not.
\<close>

section \<open>Names made of tokens\<close>

text \<open>The prefixes of the program are a collection and a slash.\<close>

definition slash_free :: "string \<Rightarrow> bool" where
  "slash_free s \<longleftrightarrow> CHR ''/'' \<notin> set s"

definition collection_prefix :: "string \<Rightarrow> bool" where
  "collection_prefix p \<longleftrightarrow> p \<noteq> [] \<and> last p = CHR ''/'' \<and> slash_free (butlast p)"

lemma collection_prefix_snoc [simp]: "collection_prefix (k @ ''/'') \<longleftrightarrow> slash_free k"
  by (simp add: collection_prefix_def)

lemma collection_prefixE:
  assumes "collection_prefix p"
  obtains k where "p = k @ ''/''" "slash_free k"
  using assms by (metis append_butlast_last_id collection_prefix_def)

lemma slash_free_simps [simp]:
  "slash_free []" "slash_free (c # s) \<longleftrightarrow> c \<noteq> CHR ''/'' \<and> slash_free s"
  "slash_free (s @ t) \<longleftrightarrow> slash_free s \<and> slash_free t"
  by (auto simp: slash_free_def)

lemma slash_free_fmt_d [simp]: "slash_free (fmt_d w)"
proof -
  have "digit_value (CHR ''/'') = None" by code_simp
  then show ?thesis by (simp add: slash_free_def fmt_d_def FormatInt_chars)
qed

lemma collection_prefixes:
  "list_all collection_prefix
     [WorkspacePrefix, ProjectNamePrefix, EnvironmentNamePrefix, InstanceNamePrefix, DatabaseIDPrefix,
      UserNamePrefix, IdentityProviderNamePrefix, SettingNamePrefix, StagePrefix, TaskPrefix,
      TaskRunPrefix, PlanPrefix, PlanCheckRunPrefix, SpecPrefix, RolePrefix, WebhookIDPrefix,
      SheetIDPrefix, WorksheetIDPrefix, DatabaseGroupNamePrefix, ChangelogPrefix, IssueNamePrefix,
      IssueCommentNamePrefix, GroupPrefix, ReviewConfigPrefix, ReleaseNamePrefix, FileNamePrefix,
      RevisionNamePrefix, AccessGrantNamePrefix, ServiceAccountNamePrefix, WorkloadIdentityNamePrefix]"
  by (simp add: collection_prefix_def resource_consts)

lemmas known_prefixes [simp] = collection_prefixes [unfolded list.pred_inject simp_thms]

text \<open>The segments of a name, alternately a collection and a token.\<close>

primrec segments :: "string list \<Rightarrow> string list \<Rightarrow> string list" where
  "segments [] ts = []"
| "segments (p # ps) ts = butlast p # hd ts # segments ps (tl ts)"

lemma segments_slash_free:
  "list_all collection_prefix ps \<Longrightarrow> length ts = length ps \<Longrightarrow>
   (\<forall>x \<in> set (segments ps ts). slash_free x) \<longleftrightarrow> (\<forall>t \<in> set ts. slash_free t)"
proof (induction ps arbitrary: ts)
  case (Cons p ps)
  then show ?case by (cases ts) (auto simp: collection_prefix_def)
qed simp

lemma Join_segments:
  "list_all collection_prefix ps \<Longrightarrow> length ts = length ps \<Longrightarrow>
   Join (segments ps ts) ''/'' = Join (map2 (@) ps ts) ''/''"
proof (induction ps arbitrary: ts)
  case (Cons p ps)
  then obtain t ts' where ts: "ts = t # ts'" by (cases ts) auto
  from Cons.prems obtain k where p: "p = k @ ''/''" by (auto elim: collection_prefixE)
  show ?case
  proof (cases ps)
    case Nil
    with ts p show ?thesis by (cases ts') simp_all
  next
    case (Cons q qs)
    with Cons.prems ts have "map2 (@) ps ts' \<noteq> []" "segments ps ts' \<noteq> []" by (cases ts'; simp)+
    with Cons.IH [of ts'] Cons.prems ts p show ?thesis by (simp add: Join_Cons)
  qed
qed simp

lemma match_tokens_iff:
  "list_all collection_prefix ps \<Longrightarrow> length segs = 2 * length ps \<Longrightarrow>
   match_tokens name segs ps = Inr ts \<longleftrightarrow> length ts = length ps \<and> segs = segments ps ts"
proof (induction ps arbitrary: segs ts)
  case Nil
  then show ?case by auto
next
  case (Cons p ps)
  then obtain k t rest where segs: "segs = k # t # rest" and "length rest = 2 * length ps"
    by (cases segs; cases "tl segs") auto
  moreover from Cons.prems have "k @ ''/'' = p \<longleftrightarrow> k = butlast p"
    by (auto elim: collection_prefixE)
  ultimately show ?case
    using Cons by (cases ts) (auto simp: bind_sum_Inr_iff)
qed

lemma segments_nonempty [simp]: "segments ps ts = [] \<longleftrightarrow> ps = []"
  by (cases ps) simp_all

lemma length_segments: "length (segments ps ts) = 2 * length ps"
  by (induction ps arbitrary: ts) simp_all

lemma GetNameParentTokens_iff:
  assumes "list_all collection_prefix ps" "ps \<noteq> []"
  shows "GetNameParentTokens name ps = Inr ts \<longleftrightarrow>
         length ts = length ps \<and> (\<forall>t \<in> set ts. slash_free t) \<and> name = Join (map2 (@) ps ts) ''/''"
proof
  assume "GetNameParentTokens name ps = Inr ts"
  then have len: "length (Split name ''/'') = 2 * length ps" and
    "match_tokens name (Split name ''/'') ps = Inr ts"
    by (auto simp: GetNameParentTokens_def Let_def split: if_splits)
  with match_tokens_iff [OF assms(1) len] have "length ts = length ps" "Split name ''/'' = segments ps ts"
    by auto
  with assms show "length ts = length ps \<and> (\<forall>t \<in> set ts. slash_free t) \<and>
      name = Join (map2 (@) ps ts) ''/''"
    by (auto simp: Split_iff segments_slash_free Join_segments simp flip: slash_free_def)
next
  assume "length ts = length ps \<and> (\<forall>t \<in> set ts. slash_free t) \<and>
      name = Join (map2 (@) ps ts) ''/''"
  with assms have ts: "length ts = length ps" "Split name ''/'' = segments ps ts"
    by (auto simp: Split_iff segments_slash_free Join_segments simp flip: slash_free_def)
  with assms show "GetNameParentTokens name ps = Inr ts"
    by (simp add: GetNameParentTokens_def length_segments match_tokens_iff)
qed

lemma ex_length:
  "(\<exists>ts. length ts = Suc n \<and> P ts) \<longleftrightarrow> (\<exists>t ts. length ts = n \<and> P (t # ts))"
  "(\<exists>ts. length ts = 0 \<and> P ts) \<longleftrightarrow> P []"
  by (auto simp: length_Suc_conv)

lemma tokens1_iff:
  "collection_prefix p \<Longrightarrow> tokens1 name p = Inr t \<longleftrightarrow> slash_free t \<and> name = p @ t"
  by (auto simp: tokens1_def bind_sum_Inr_iff GetNameParentTokens_iff length_Suc_conv)

lemma tokens2_iff:
  "collection_prefix p \<Longrightarrow> collection_prefix q \<Longrightarrow>
   tokens2 name p q = Inr (t, u) \<longleftrightarrow> slash_free t \<and> slash_free u \<and> name = p @ t @ ''/'' @ q @ u"
  by (simp add: tokens2_def bind_sum_Inr_iff GetNameParentTokens_iff ex_length conj_assoc del: length_0_conv)

lemma tokens3_iff:
  "collection_prefix p \<Longrightarrow> collection_prefix q \<Longrightarrow> collection_prefix r \<Longrightarrow>
   tokens3 name p q r = Inr (t, u, v) \<longleftrightarrow>
   slash_free t \<and> slash_free u \<and> slash_free v \<and> name = p @ t @ ''/'' @ q @ u @ ''/'' @ r @ v"
  by (simp add: tokens3_def bind_sum_Inr_iff GetNameParentTokens_iff ex_length conj_assoc del: length_0_conv)

text \<open>
  A name is parsed into tokens exactly when it is the prefixes followed by the tokens, with slashes
  in between, and the tokens hold no slash: parsing is the inverse of printing and accepts nothing else.
\<close>
lemma resource_name_tokens:
  assumes "list_all collection_prefix ps" "ps \<noteq> []"
  shows "GetNameParentTokens name ps = Inr ts \<longleftrightarrow>
         length ts = length ps \<and> (\<forall>t \<in> set ts. CHR ''/'' \<notin> set t) \<and> name = Join (map2 (@) ps ts) ''/''"
  unfolding GetNameParentTokens_iff [OF assms] slash_free_def ..

theorem resource_name_tokens_witness:
  "GetNameParentTokens ''instances/prod/databases/hr'' [InstanceNamePrefix, DatabaseIDPrefix] =
     Inr [''prod'', ''hr'']"
proof -
  have "list_all collection_prefix [InstanceNamePrefix, DatabaseIDPrefix]" by simp
  from resource_name_tokens [OF this] show ?thesis by (simp add: resource_consts)
qed


section \<open>Splitting at a segment\<close>

lemma Index_seg:
  "slash_free x \<Longrightarrow>
   Index (x @ CHR ''/'' # rest) (CHR ''/'' # w) =
     (if HasPrefix rest w then Some (length x)
      else map_option (\<lambda>i. Suc (length x + i)) (Index rest (CHR ''/'' # w)))"
proof (induction x)
  case Nil
  have "HasPrefix (CHR ''/'' # rest) (CHR ''/'' # w) \<longleftrightarrow> HasPrefix rest w"
    by (simp add: HasPrefix_def)
  then show ?case by simp
next
  case (Cons c x)
  then have "\<not> HasPrefix (c # x @ CHR ''/'' # rest) (CHR ''/'' # w)" by (auto simp: HasPrefix_def)
  with Cons show ?case by (simp add: option.map_comp comp_def)
qed

lemma Index_seg_none: "slash_free x \<Longrightarrow> Index x (CHR ''/'' # w) = None"
  by (induction x) (auto simp: HasPrefix_def)

lemma HasPrefix_self [simp]: "HasPrefix y y"
  by (simp add: HasPrefix_def)

lemma HasPrefix_seg:
  assumes "slash_free y" "slash_free w"
  shows "HasPrefix (y @ CHR ''/'' # rest) w \<longleftrightarrow> HasPrefix y w"
proof
  assume "HasPrefix (y @ CHR ''/'' # rest) w"
  then obtain t where "y @ CHR ''/'' # rest = w @ t" by (erule HasPrefixE)
  with assms show "HasPrefix y w"
    by (auto simp: append_eq_append_conv2 Cons_eq_append_conv)
qed (auto elim: HasPrefixE)

lemma HasPrefix_Join:
  "list_all slash_free (y # ys) \<Longrightarrow> slash_free w \<Longrightarrow> HasPrefix (Join (y # ys) ''/'') w \<longleftrightarrow> HasPrefix y w"
  by (cases ys) (simp_all add: HasPrefix_seg)

lemma Index_Join_none:
  "list_all slash_free (x # xs) \<Longrightarrow> slash_free w \<Longrightarrow> list_all (\<lambda>t. \<not> HasPrefix t w) xs \<Longrightarrow>
   Index (Join (x # xs) ''/'') (CHR ''/'' # w) = None"
proof (induction xs arbitrary: x)
  case Nil
  then show ?case by (simp add: Index_seg_none)
next
  case (Cons y ys)
  with HasPrefix_Join [of y ys w] show ?case by (simp add: Join_Cons Index_seg)
qed

lemma Index_Join_some:
  "list_all slash_free (x # xs @ y # ys) \<Longrightarrow> slash_free w \<Longrightarrow> list_all (\<lambda>t. \<not> HasPrefix t w) xs \<Longrightarrow>
   HasPrefix y w \<Longrightarrow>
   Index (Join (x # xs @ y # ys) ''/'') (CHR ''/'' # w) = Some (length (Join (x # xs) ''/''))"
proof (induction xs arbitrary: x)
  case Nil
  with HasPrefix_Join [of y ys w] show ?case by (simp add: Join_Cons Index_seg)
next
  case (Cons z zs)
  with HasPrefix_Join [of z "zs @ y # ys" w] show ?case by (simp add: Join_Cons Index_seg)
qed

lemma Join_append: "xs \<noteq> [] \<Longrightarrow> ys \<noteq> [] \<Longrightarrow> Join (xs @ ys) sep = Join xs sep @ sep @ Join ys sep"
proof (induction xs)
  case (Cons x xs)
  then show ?case by (cases "xs = []") (simp_all add: Join_Cons)
qed simp

lemma drop_Join: "HasPrefix y w \<Longrightarrow> drop (length w) (Join (y # ys) sep) = Join (drop (length w) y # ys) sep"
  by (cases ys) (auto dest: HasPrefix_length)

lemma Split_Join_none:
  "list_all slash_free (x # xs) \<Longrightarrow> slash_free w \<Longrightarrow> list_all (\<lambda>t. \<not> HasPrefix t w) xs \<Longrightarrow>
   Split (Join (x # xs) ''/'') (CHR ''/'' # w) = [Join (x # xs) ''/'']"
  by (subst Split.simps) (simp add: Index_Join_none)

lemma Split_Join_some:
  assumes "list_all slash_free (x # xs @ y # ys)" "slash_free w" "list_all (\<lambda>t. \<not> HasPrefix t w) xs"
    "HasPrefix y w"
  shows "Split (Join (x # xs @ y # ys) ''/'') (CHR ''/'' # w) =
         Join (x # xs) ''/'' # Split (Join (drop (length w) y # ys) ''/'') (CHR ''/'' # w)"
proof -
  have "Join (x # xs @ y # ys) ''/'' = Join (x # xs) ''/'' @ ''/'' @ Join (y # ys) ''/''"
    using Join_append [of "x # xs" "y # ys" "''/''"] by simp
  with Index_Join_some [OF assms] show ?thesis
    by (subst Split.simps) (simp add: drop_Join [OF assms(4)])
qed

lemma slash_free_drop: "slash_free y \<Longrightarrow> slash_free (drop n y)"
  by (auto simp: slash_free_def dest: in_set_dropD)

text \<open>The number of parts is that of the segments, after the first, that begin with the pattern.\<close>

lemma length_Split_Join:
  "list_all slash_free (x # xs) \<Longrightarrow> slash_free w \<Longrightarrow>
   length (Split (Join (x # xs) ''/'') (CHR ''/'' # w)) = Suc (length (filter (\<lambda>t. HasPrefix t w) xs))"
proof (induction "length xs" arbitrary: x xs rule: less_induct)
  case less
  show ?case
  proof (cases "\<exists>t \<in> set xs. HasPrefix t w")
    case False
    with less show ?thesis by (simp add: Split_Join_none list_all_iff filter_False)
  next
    case True
    then obtain us y ys where xs: "xs = us @ y # ys" "HasPrefix y w" "\<forall>t \<in> set us. \<not> HasPrefix t w"
      using split_list_first_prop [OF True] by blast
    from less.prems(1) have all: "list_all slash_free (x # us @ y # ys)" by (simp add: xs(1))
    then have rest: "list_all slash_free (drop (length w) y # ys)" by (simp add: slash_free_drop)
    have none: "list_all (\<lambda>t. \<not> HasPrefix t w) us" using xs(3) by (simp add: list_all_iff)
    have "length (Split (Join (drop (length w) y # ys) ''/'') (CHR ''/'' # w)) =
        Suc (length (filter (\<lambda>t. HasPrefix t w) ys))"
      using less.hyps [OF _ rest less.prems(2)] xs(1) by simp
    with Split_Join_some [OF all less.prems(2) none xs(2)] xs show ?thesis
      by (simp add: filter_False)
  qed
qed


section \<open>Names with a rollout\<close>

lemmas format_names = FormatTaskRun_def FormatTask_def FormatStage_def FormatRollout_def FormatPlan_def
  FormatProject_def FormatReleaseName_def FormatReleaseFile_def FormatDatabase_def FormatInstance_def

text \<open>The name of a task run by its segments, before and after \<open>rollout\<close>.\<close>

definition plan_segments :: "string \<Rightarrow> 64 word \<Rightarrow> string list" where
  "plan_segments p n = [p, ''plans'', fmt_d n]"

definition task_run_segments :: "string \<Rightarrow> 64 word \<Rightarrow> 64 word \<Rightarrow> string list" where
  "task_run_segments s t r = [''stages'', s, ''tasks'', fmt_d t, ''taskRuns'', fmt_d r]"

lemma FormatTaskRun_segments:
  "FormatTaskRun p n s t r =
   Join (''projects'' # plan_segments p n @ ''rollout'' # task_run_segments s t r) ''/''"
  by (simp add: format_names resource_consts plan_segments_def task_run_segments_def)

lemma FormatPlan_segments: "FormatPlan p n = Join (''projects'' # plan_segments p n) ''/''"
  by (simp add: format_names resource_consts plan_segments_def)

lemma segments_free:
  "slash_free p \<Longrightarrow> list_all slash_free (plan_segments p n)"
  "slash_free s \<Longrightarrow> list_all slash_free (task_run_segments s t r)"
  by (simp_all add: plan_segments_def task_run_segments_def)

lemma fmt_d_not_prefix: "\<not> HasPrefix (fmt_d w) ''rollout''"
proof -
  have "digit_value (CHR ''r'') = None" by code_simp
  then show ?thesis by (simp add: fmt_d_def FormatInt_first)
qed

lemma rollout_literals:
  "\<not> HasPrefix ''plans'' ''rollout''" "\<not> HasPrefix ''stages'' ''rollout''"
  "\<not> HasPrefix ''tasks'' ''rollout''" "\<not> HasPrefix ''taskRuns'' ''rollout''" "slash_free ''rollout''"
  "slash_free ''projects''"
  by code_simp+

lemma segments_rollout:
  "filter (\<lambda>x. HasPrefix x ''rollout'') (plan_segments p n) = (if HasPrefix p ''rollout'' then [p] else [])"
  "filter (\<lambda>x. HasPrefix x ''rollout'') (task_run_segments s t r) = (if HasPrefix s ''rollout'' then [s] else [])"
  by (simp_all only: plan_segments_def task_run_segments_def filter.simps rollout_literals
      fmt_d_not_prefix if_True if_False)

lemma ParseInt_fmt_d [simp]: "ParseInt (fmt_d w) = Some w"
  by (simp add: fmt_d_def ParseInt_print)

lemma ParseResourcePlanRef_Format:
  assumes "slash_free p"
  shows "ParseResourcePlanRef (FormatPlan p n) = Inr \<lparr>PlanRef_ProjectID = p, PlanRef_PlanUID = n\<rparr>"
proof -
  have "GetNameParentTokens (FormatPlan p n) [ProjectNamePrefix, PlanPrefix] = Inr [p, fmt_d n]"
    using assms by (subst GetNameParentTokens_iff) (simp_all add: FormatPlan_def FormatProject_def)
  then show ?thesis by (simp add: ParseResourcePlanRef_def)
qed

lemma list_all_none: "filter P xs = [] \<Longrightarrow> list_all (\<lambda>x. \<not> P x) xs"
  by (induction xs) (auto split: if_splits)

lemma rollout_parts_task_run:
  assumes "slash_free p" "slash_free s"
  shows "rollout_parts what (FormatTaskRun p n s t r) =
    (if HasPrefix p ''rollout'' \<or> HasPrefix s ''rollout'' then Inl (InvalidName what (FormatTaskRun p n s t r))
     else Inr (FormatPlan p n, ''/'' @ Join (task_run_segments s t r) ''/''))"
proof (cases "HasPrefix p ''rollout'' \<or> HasPrefix s ''rollout''")
  case True
  have "list_all slash_free (''projects'' # plan_segments p n @ ''rollout'' # task_run_segments s t r)"
    using segments_free assms rollout_literals by simp
  from length_Split_Join [OF this rollout_literals(5)] True
  have "length (Split (FormatTaskRun p n s t r) ''/rollout'') \<noteq> 2"
    by (auto simp: FormatTaskRun_segments segments_rollout)
  then have "rollout_parts what (FormatTaskRun p n s t r) = Inl (InvalidName what (FormatTaskRun p n s t r))"
    by (auto simp: rollout_parts_def split: list.split)
  with True show ?thesis by simp
next
  case False
  let ?ys = "task_run_segments s t r"
  have free: "list_all slash_free (''projects'' # plan_segments p n @ ''rollout'' # ?ys)"
    "list_all slash_free ([] # ?ys)"
    using segments_free assms rollout_literals by simp_all
  have none: "list_all (\<lambda>x. \<not> HasPrefix x ''rollout'') (plan_segments p n)"
    "list_all (\<lambda>x. \<not> HasPrefix x ''rollout'') ?ys"
    using False by (simp_all add: list_all_none segments_rollout)
  have "Split (FormatTaskRun p n s t r) ''/rollout'' =
      FormatPlan p n # Split (Join ([] # ?ys) ''/'') ''/rollout''"
    using Split_Join_some [OF free(1) rollout_literals(5) none(1) HasPrefix_self]
    by (simp add: FormatTaskRun_segments FormatPlan_segments)
  also have "Split (Join ([] # ?ys) ''/'') ''/rollout'' = [Join ([] # ?ys) ''/'']"
    by (rule Split_Join_none [OF free(2) rollout_literals(5) none(2)])
  finally show ?thesis using False
    by (simp add: rollout_parts_def task_run_segments_def)
qed

lemma task_run_suffix_Format:
  assumes "slash_free s"
  shows "task_run_suffix (''/'' @ Join (task_run_segments s t r) ''/'') = Inr (s, fmt_d t, fmt_d r)"
proof -
  have "Split (Join (task_run_segments s t r) ''/'') ''/'' = task_run_segments s t r"
    using segments_free(2) [OF assms, of t r]
    by (intro Split_Join) (auto simp: task_run_segments_def list_all_iff slash_free_def)
  then have "suffix_parts (''/'' @ Join (task_run_segments s t r) ''/'') = task_run_segments s t r"
    by (simp add: suffix_parts_def TrimPrefix_def HasPrefix_def)
  then show ?thesis by (simp add: task_run_suffix_def task_run_segments_def resource_consts)
qed

text \<open>
  C29. The name of a task run is parsed back into what it was made from, unless the identifier of the
  project or of the stage begins with \<open>rollout\<close>: then the text is cut at the wrong place and the name,
  although printed by the program itself, is refused.  (The resource identifiers of projects and
  environments may begin with \<open>rollout\<close>.)
\<close>
theorem task_run_name_roundtrip:
  assumes "CHR ''/'' \<notin> set p" "CHR ''/'' \<notin> set s"
  shows "GetProjectIDPlanIDStageIDTaskIDTaskRunID (FormatTaskRun p n s t r) =
    (if HasPrefix p ''rollout'' \<or> HasPrefix s ''rollout''
     then Inl (InvalidName ''rollout task run name'' (FormatTaskRun p n s t r))
     else Inr (p, n, s, t, r))"
  using assms
  by (simp add: GetProjectIDPlanIDStageIDTaskIDTaskRunID_def GetProjectIDPlanID_def
      rollout_parts_task_run task_run_suffix_Format ParseResourcePlanRef_Format del: append_Cons
      flip: slash_free_def)

theorem task_run_name_roundtrip_witness:
  "GetProjectIDPlanIDStageIDTaskIDTaskRunID (FormatTaskRun ''hr'' 7 ''prod'' 12 (- 1)) =
     Inr (''hr'', 7, ''prod'', 12, - 1) \<and>
   GetProjectIDPlanIDStageIDTaskIDTaskRunID (FormatTaskRun ''rollouts'' 7 ''prod'' 12 3) =
     Inl (InvalidName ''rollout task run name'' (FormatTaskRun ''rollouts'' 7 ''prod'' 12 3))"
  by (subst (1 2) task_run_name_roundtrip) (simp_all add: HasPrefix_def)

text \<open>The parser of references and the older one accept the same names and read the same from them.\<close>

lemma parse_task_run_ref_agrees:
  "GetProjectIDPlanIDStageIDTaskIDTaskRunID name = Inr (p, n, s, t, r) \<longleftrightarrow>
   ParseTaskRunResourceRef name = Inr \<lparr>TaskRunRef_ProjectID = p, TaskRunRef_PlanUID = n,
     TaskRunRef_StageID = s, TaskRunRef_TaskUID = t, TaskRunRef_TaskRunUID = r\<rparr>"
  by (auto simp: GetProjectIDPlanIDStageIDTaskIDTaskRunID_def ParseTaskRunResourceRef_def
      GetProjectIDPlanID_def rollout_parts_def bind_sum_Inr_iff require_Inr_iff
      split: list.splits)


section \<open>Names of release files\<close>

lemma takeWhile_seg: "slash_free y \<Longrightarrow> takeWhile (\<lambda>c. c \<noteq> CHR ''/'') (y @ CHR ''/'' # rest) = y"
  by (induction y) auto

lemma HasPrefix_exact_seg:
  assumes "slash_free y" "slash_free k"
  shows "HasPrefix (y @ CHR ''/'' # rest) (k @ ''/'') \<longleftrightarrow> y = k"
proof
  assume "HasPrefix (y @ CHR ''/'' # rest) (k @ ''/'')"
  then obtain t where "y @ CHR ''/'' # rest = k @ CHR ''/'' # t" by (auto elim: HasPrefixE)
  with assms show "y = k" by (metis takeWhile_seg)
qed (simp add: HasPrefix_def)

text \<open>Where a release file's name is cut: at the first segment called \<open>files\<close> that is not the last.\<close>

lemma Index_release_file:
  assumes "slash_free p" "slash_free r"
  shows "Index (''projects'' @ CHR ''/'' # p @ CHR ''/'' # ''releases'' @ CHR ''/'' # r @ CHR ''/'' # ''files'' @ ''/'' @ f)
           (CHR ''/'' # ''files'' @ ''/'') =
     (if p = ''files'' then Some 8 else if r = ''files'' then Some (18 + length p)
      else Some (19 + length p + length r))"
proof -
  have "HasPrefix (''files'' @ ''/'' @ f) (''files'' @ ''/'')"
    by (metis HasPrefix_append append_assoc)
  moreover have "slash_free ''files''" "slash_free ''projects''" "slash_free ''releases''" by code_simp+
  ultimately show ?thesis
    using assms by (simp add: Index_seg HasPrefix_exact_seg del: append_Cons)
qed

lemma tokens2_short: "tokens2 ''projects'' p q = Inl (InvalidRequest ''projects'')"
proof -
  have "Split ''projects'' ''/'' = [''projects'']" by code_simp
  then show ?thesis by (simp add: tokens2_def GetNameParentTokens_def)
qed

lemma tokens2_three:
  assumes "slash_free p"
  shows "\<exists>e. tokens2 (''projects/'' @ p @ ''/releases'') q r = Inl e"
proof -
  have "Split (Join [''projects'', p, ''releases''] ''/'') ''/'' = [''projects'', p, ''releases'']"
    using assms by (intro Split_Join) (auto simp: slash_free_def)
  then show ?thesis by (simp add: tokens2_def GetNameParentTokens_def)
qed

lemma take_exact: "s = a @ b \<Longrightarrow> n = length a \<Longrightarrow> take n s = a"
  and drop_exact: "s = a @ b \<Longrightarrow> n = length a \<Longrightarrow> drop n s = b"
  by simp_all

text \<open>
  The name of a file of a release is parsed back, whatever the path of the file is (it is escaped),
  unless the project or the release is itself called \<open>files\<close>: then the name is cut too early and refused.
\<close>
lemma release_file_roundtrip:
  assumes "CHR ''/'' \<notin> set p" "CHR ''/'' \<notin> set r"
  shows "GetProjectReleaseIDFile (FormatReleaseFile (FormatReleaseName p r) f) =
    (if p = ''files'' \<or> r = ''files''
     then Inl (ReleaseFileName (FormatReleaseFile (FormatReleaseName p r) f))
     else Inr (p, r, f))"
proof -
  have free: "slash_free p" "slash_free r" using assms by (simp_all add: slash_free_def)
  let ?name = "FormatReleaseFile (FormatReleaseName p r) f"
  have name: "?name = ''projects/'' @ p @ ''/releases/'' @ r @ ''/files/'' @ PathEscape f"
    by (simp add: format_names resource_consts)
  have ix: "Index ?name ''/files/'' = (if p = ''files'' then Some 8 else if r = ''files''
      then Some (18 + length p) else Some (19 + length p + length r))"
    using Index_release_file [OF free, of "PathEscape f"] by (simp add: name)
  consider "p = ''files''" | "p \<noteq> ''files''" "r = ''files''" | "p \<noteq> ''files''" "r \<noteq> ''files''" by blast
  then show ?thesis
  proof cases
    case 1
    have "take 8 ?name = ''projects''" by (simp add: name)
    with ix 1 show ?thesis by (simp add: GetProjectReleaseIDFile_def FileNamePrefix_def tokens2_short)
  next
    case 2
    have "take (18 + length p) ?name = ''projects/'' @ p @ ''/releases''"
      by (rule take_exact [where b = "CHR ''/'' # r @ ''/files/'' @ PathEscape f"]) (simp_all add: name)
    moreover obtain e where "tokens2 (''projects/'' @ p @ ''/releases'') ProjectNamePrefix ReleaseNamePrefix = Inl e"
      using tokens2_three [OF free(1)] by blast
    ultimately show ?thesis using ix 2
      by (simp add: GetProjectReleaseIDFile_def FileNamePrefix_def)
  next
    case 3
    have "take (19 + length p + length r) ?name = ''projects/'' @ p @ ''/releases/'' @ r"
      by (rule take_exact [where b = "''/files/'' @ PathEscape f"]) (simp_all add: name)
    moreover have "drop (26 + length p + length r) ?name = PathEscape f"
      by (rule drop_exact [where a = "''projects/'' @ p @ ''/releases/'' @ r @ ''/files/''"]) (simp_all add: name)
    moreover have "tokens2 (''projects/'' @ p @ ''/releases/'' @ r) ProjectNamePrefix ReleaseNamePrefix = Inr (p, r)"
      using free by (simp add: tokens2_iff) (simp add: resource_consts)
    ultimately show ?thesis using ix 3
      by (simp add: GetProjectReleaseIDFile_def FileNamePrefix_def PathUnescape_PathEscape ac_simps)
  qed
qed

theorem release_file_roundtrip_witness:
  "GetProjectReleaseIDFile (FormatReleaseFile (FormatReleaseName ''hr'' ''r1'') ''a/b c.sql'') =
     Inr (''hr'', ''r1'', ''a/b c.sql'') \<and>
   GetProjectReleaseIDFile (FormatReleaseFile (FormatReleaseName ''files'' ''r1'') ''x'') =
     Inl (ReleaseFileName (FormatReleaseFile (FormatReleaseName ''files'' ''r1'') ''x''))"
  by (subst (1 2) release_file_roundtrip) simp_all


section \<open>Names of databases, policies and emails\<close>

lemma database_name_iff:
  "GetInstanceDatabaseID name = Inr (i, d) \<longleftrightarrow> slash_free i \<and> slash_free d \<and> name = FormatDatabase i d"
proof -
  have "GetInstanceDatabaseID name = Inr (i, d) \<longleftrightarrow> tokens2 name InstanceNamePrefix DatabaseIDPrefix = Inr (i, d)"
    by (auto simp: GetInstanceDatabaseID_def ParseDatabaseResourceRef_def tokens2_def bind_sum_Inr_iff
        wrap_error_Inr_iff)
  then show ?thesis by (simp add: tokens2_iff FormatDatabase_def FormatInstance_def)
qed

text \<open>The email built for a service account of a project is recognized as one, and not as a workload identity.\<close>

lemma HasSuffix_append [simp]: "HasSuffix (s @ t) t"
  by (simp add: HasSuffix_def)

lemma Split_email:
  "CHR ''@'' \<notin> set n \<Longrightarrow> CHR ''@'' \<notin> set d \<Longrightarrow> Split (n @ ''@'' @ d) ''@'' = [n, d]"
  by (simp add: Split_char Split_no_char)

lemma service_account_email_kind:
  assumes "CHR ''@'' \<notin> set n" "CHR ''@'' \<notin> set p"
  shows "IsServiceAccountEmail (BuildServiceAccountEmail n p)"
proof (cases "p = []")
  case True
  then have "HasSuffix (BuildServiceAccountEmail n p) (''@'' @ ServiceAccountSuffix)"
    unfolding BuildServiceAccountEmail_def by (simp only: simp_thms if_True HasSuffix_append)
  then show ?thesis by (simp add: IsServiceAccountEmail_def)
next
  case False
  have "CHR ''@'' \<notin> set (p @ ''.'' @ ServiceAccountSuffix)"
    using assms(2) by (simp add: ServiceAccountSuffix_def)
  from Split_email [OF assms(1) this] False show ?thesis
    by (simp add: IsServiceAccountEmail_def isProjectLevelEmail_def BuildServiceAccountEmail_def del: append_Cons)
qed

end
