(* ===== verification/IAM.thy ===== *)
theory IAM
  imports ResourceName Prelude
begin

text \<open>
  Access control: \<^verbatim>\<open>backend/component/iam/manager.go\<close>, \<^verbatim>\<open>backend/utils/member.go\<close> and the
  evaluation of binding conditions in \<^verbatim>\<open>backend/common/cel.go\<close>.  The CEL library, the clock and the
  queries of the store are fields of a record of parameters, \<open>access_env\<close>; one call reads the clock
  once (the code reads it for each binding).  An \<^verbatim>\<open>error\<close> keeps its message and the sentinels it
  wraps, since the callers look at both.  Logging and the error counter are left out.
\<close>

section \<open>Errors\<close>

datatype sql_sentinel = ErrConnDone | ErrTxDone | ErrNoRows

record go_error =
  err_message :: string
  err_chain :: "sql_sentinel list"

text \<open>\<^verbatim>\<open>errors.Wrap\<close> and \<^verbatim>\<open>fmt.Errorf\<close> with \<open>%w\<close>: a prefix before the message, the chain is kept.\<close>

definition Wrap :: "string \<Rightarrow> go_error \<Rightarrow> go_error" where
  "Wrap msg e = e\<lparr>err_message := msg @ '': '' @ err_message e\<rparr>"

definition Errorf :: "string \<Rightarrow> go_error" where
  "Errorf msg = \<lparr>err_message = msg, err_chain = []\<rparr>"


section \<open>Policies, users and groups\<close>

record Expr =
  Expr_Expression :: string
  Expr_Title :: string
  Expr_Description :: string
  Expr_Location :: string

record Binding =
  Binding_Role :: string
  Binding_Members :: "string list"
  Binding_Condition :: "Expr option"

record IamPolicy = IamPolicy_Bindings :: "Binding list"

datatype PrincipalType = PRINCIPAL_TYPE_UNSPECIFIED | END_USER | WORKLOAD_IDENTITY | SERVICE_ACCOUNT

text \<open>The fields of a user and of an account that are read here.\<close>

record UserMessage =
  User_Email :: string
  User_Name :: string
  User_Type :: PrincipalType
  User_MemberDeleted :: bool

record GroupMessage =
  Group_ID :: string
  Group_Email :: string
  Group_Members :: "string list"

record ProjectMessage =
  Project_ResourceID :: string
  Project_Workspace :: string
  Project_DataClassificationConfigId :: string
  Project_Deleted :: bool

record DatabaseMessage =
  Database_ProjectID :: string
  Database_InstanceID :: string
  Database_DatabaseName :: string
  Database_EffectiveEnvironmentID :: "string option"

record RoleMessage =
  Role_ResourceID :: string
  Role_Workspace :: string
  Role_Name :: string
  Role_Description :: string
  Role_Permissions :: "bool gomap option"
  Role_Predefined :: bool

text \<open>The value of a CEL program: a truth value, or anything else, such as a residual expression.\<close>

datatype cel_value = CelBool bool | CelOther

datatype cel_stage = CelEnv | CelCompile | CelProgram | CelVars | CelEval

record access_env =
  cel_Partial :: "string \<Rightarrow> int \<Rightarrow> (cel_stage \<times> go_error) + cel_value"
  time_Now :: int
  Quote :: "string \<Rightarrow> string"
  GetGroupByName :: "string \<Rightarrow> string \<Rightarrow> go_error + GroupMessage option"
  GetAccountByEmail :: "string \<Rightarrow> go_error + UserMessage option"
  ListUsers :: "go_error + UserMessage list"
  GetWorkspaceIamPolicySnapshot :: "string \<Rightarrow> go_error + IamPolicy option"
  GetProjectIamPolicySnapshot :: "string \<Rightarrow> string \<Rightarrow> go_error + IamPolicy option"
  GetProject :: "string \<Rightarrow> string \<Rightarrow> go_error + ProjectMessage option"
  GetRoleSnapshot :: "string \<Rightarrow> string \<Rightarrow> go_error + RoleMessage option"
  GetGroupMembersSnapshot :: "string \<Rightarrow> string \<Rightarrow> go_error + bool gomap option"
  GetUserGroupsSnapshot :: "string \<Rightarrow> string \<Rightarrow> go_error + string list"


section \<open>Conditions of bindings\<close>

definition cel_stage_text :: "access_env \<Rightarrow> cel_stage \<Rightarrow> string \<Rightarrow> string" where
  "cel_stage_text env stage expr =
     (case stage of
        CelEnv \<Rightarrow> ''failed to new cel env''
      | CelCompile \<Rightarrow> ''failed to compile expr '' @ Quote env expr
      | CelProgram \<Rightarrow> ''failed to construct program''
      | CelVars \<Rightarrow> ''failed to get vars''
      | CelEval \<Rightarrow> ''failed to eval cel expr'')"

definition doEvalBindingCondition :: "access_env \<Rightarrow> string \<Rightarrow> int \<Rightarrow> go_error + bool" where
  "doEvalBindingCondition env expr requestTime =
     (if expr = [] then Inr True
      else case cel_Partial env expr requestTime of
             Inl (stage, e) \<Rightarrow> Inl (Wrap (cel_stage_text env stage expr) e)
           | Inr (CelBool b) \<Rightarrow> Inr b
           | Inr CelOther \<Rightarrow> Inr True)"

definition EvalBindingCondition :: "access_env \<Rightarrow> string \<Rightarrow> int \<Rightarrow> go_error + bool" where
  "EvalBindingCondition env expr requestTime = doEvalBindingCondition env expr requestTime"

text \<open>\<open>binding.Condition.GetExpression()\<close>: empty without a condition.\<close>

definition GetExpression :: "Expr option \<Rightarrow> string" where
  "GetExpression c = (case c of None \<Rightarrow> [] | Some e \<Rightarrow> Expr_Expression e)"

definition ValidateIAMBinding :: "access_env \<Rightarrow> Binding \<Rightarrow> bool" where
  "ValidateIAMBinding env binding =
     (case EvalBindingCondition env (GetExpression (Binding_Condition binding)) (time_Now env) of
        Inl _ \<Rightarrow> False
      | Inr ok \<Rightarrow> ok)"


section \<open>The manager\<close>

definition formatUserNameByType :: "UserMessage \<Rightarrow> string" where
  "formatUserNameByType user =
     (case User_Type user of
        SERVICE_ACCOUNT \<Rightarrow> FormatServiceAccountEmail (User_Email user)
      | WORKLOAD_IDENTITY \<Rightarrow> FormatWorkloadIdentityEmail (User_Email user)
      | _ \<Rightarrow> FormatUserEmail (User_Email user))"

text \<open>\<open>m[k]\<close> of a map to truth values, false where there is none.\<close>

definition flag :: "bool gomap \<Rightarrow> string \<Rightarrow> bool" where
  "flag m k \<longleftrightarrow> map_of m k = Some True"

text \<open>The loop over the members of a binding; \<open>False\<close> goes on with the next binding.\<close>

primrec check_members ::
    "string \<Rightarrow> (string \<Rightarrow> go_error + bool gomap option) \<Rightarrow> bool \<Rightarrow> string list \<Rightarrow> go_error + bool" where
  "check_members userName getGroupMembers skipAllUsers [] = Inr False"
| "check_members userName getGroupMembers skipAllUsers (member # rest) =
     (if member = AllUsers \<and> \<not> skipAllUsers then Inr True
      else if member = userName then Inr True
      else if HasPrefix member GroupPrefix then
        bind_sum (getGroupMembers member) (\<lambda>members.
          if members \<noteq> None \<and> flag (the members) userName then Inr True
          else check_members userName getGroupMembers skipAllUsers rest)
      else check_members userName getGroupMembers skipAllUsers rest)"

primrec check_bindings ::
    "access_env \<Rightarrow> string \<Rightarrow> string \<Rightarrow> (string \<Rightarrow> go_error + bool gomap option) \<Rightarrow>
     (string \<Rightarrow> go_error + bool gomap option) \<Rightarrow> bool \<Rightarrow> Binding list \<Rightarrow> go_error + bool" where
  "check_bindings env userName p getPermissions getGroupMembers skipAllUsers [] = Inr False"
| "check_bindings env userName p getPermissions getGroupMembers skipAllUsers (binding # rest) =
     (let continue = check_bindings env userName p getPermissions getGroupMembers skipAllUsers rest
      in if \<not> ValidateIAMBinding env binding then continue
         else bind_sum (getPermissions (Binding_Role binding)) (\<lambda>permissions.
           case permissions of
             None \<Rightarrow> continue
           | Some ps \<Rightarrow>
               if \<not> flag ps p then continue
               else bind_sum (check_members userName getGroupMembers skipAllUsers (Binding_Members binding))
                 (\<lambda>found. if found then Inr True else continue)))"

definition GetBindings :: "IamPolicy option \<Rightarrow> Binding list" where
  "GetBindings policy = (case policy of None \<Rightarrow> [] | Some x \<Rightarrow> IamPolicy_Bindings x)"

definition checkWithErrors ::
    "access_env \<Rightarrow> UserMessage \<Rightarrow> string \<Rightarrow> IamPolicy option \<Rightarrow> (string \<Rightarrow> go_error + bool gomap option) \<Rightarrow>
     (string \<Rightarrow> go_error + bool gomap option) \<Rightarrow> bool \<Rightarrow> go_error + bool" where
  "checkWithErrors env user p policy getPermissions getGroupMembers skipAllUsers =
     check_bindings env (formatUserNameByType user) p getPermissions getGroupMembers skipAllUsers
       (GetBindings policy)"

definition GetPermissions :: "access_env \<Rightarrow> string \<Rightarrow> string \<Rightarrow> go_error + bool gomap option" where
  "GetPermissions env workspaceID roleName =
     bind_sum (GetRoleSnapshot env workspaceID (TrimPrefix roleName ''roles/'')) (\<lambda>role.
       Inr (case role of None \<Rightarrow> None | Some r \<Rightarrow> Role_Permissions r))"

definition GetUserGroups :: "access_env \<Rightarrow> string \<Rightarrow> string \<Rightarrow> go_error + string list" where
  "GetUserGroups env workspaceID email = GetUserGroupsSnapshot env workspaceID (FormatUserEmail email)"

text \<open>The two closures of \<open>CheckPermission\<close>.\<close>

definition getPermissions :: "access_env \<Rightarrow> string \<Rightarrow> string \<Rightarrow> go_error + bool gomap option" where
  "getPermissions env workspaceID role =
     wrap_error (Wrap (''get permissions for role '' @ Quote env role)) (GetPermissions env workspaceID role)"

definition getGroupMembers :: "access_env \<Rightarrow> string \<Rightarrow> string \<Rightarrow> go_error + bool gomap option" where
  "getGroupMembers env workspaceID groupName =
     wrap_error (Wrap (''get group members for '' @ Quote env groupName))
       (GetGroupMembersSnapshot env workspaceID groupName)"

text \<open>The loop over the projects: it stops at the first that refuses.\<close>

primrec check_projects :: "access_env \<Rightarrow> string \<Rightarrow> UserMessage \<Rightarrow> string \<Rightarrow> string list \<Rightarrow> go_error + bool" where
  "check_projects env p user workspaceID [] = Inr True"
| "check_projects env p user workspaceID (projectID # rest) =
     bind_sum (GetProject env workspaceID projectID) (\<lambda>project.
       case project of
         None \<Rightarrow> Inl (Errorf (''project '' @ Quote env projectID @ '' not found''))
       | Some pr \<Rightarrow>
           bind_sum (GetProjectIamPolicySnapshot env workspaceID (Project_ResourceID pr)) (\<lambda>policy.
           bind_sum (wrap_error (Wrap (''project '' @ Quote env projectID @ '' IAM check''))
             (checkWithErrors env user p policy (getPermissions env workspaceID)
               (getGroupMembers env workspaceID) False))
             (\<lambda>ok. if \<not> ok then Inr False else check_projects env p user workspaceID rest)))"

definition CheckPermission ::
    "access_env \<Rightarrow> bool \<Rightarrow> string \<Rightarrow> UserMessage \<Rightarrow> string \<Rightarrow> string list \<Rightarrow> go_error + bool" where
  "CheckPermission env saas p user workspaceID projectIDs =
     bind_sum (GetWorkspaceIamPolicySnapshot env workspaceID) (\<lambda>policy.
     bind_sum (wrap_error (Wrap ''workspace IAM check'')
       (checkWithErrors env user p policy (getPermissions env workspaceID)
         (getGroupMembers env workspaceID) saas))
       (\<lambda>ok. if ok then Inr True
             else if projectIDs \<noteq> [] then check_projects env p user workspaceID projectIDs
             else Inr False))"


section \<open>Members\<close>

text \<open>\<open>formatMemberNameByType\<close> of \<^verbatim>\<open>utils\<close>, the same as the manager's.\<close>

definition formatMemberNameByType :: "UserMessage \<Rightarrow> string" where
  "formatMemberNameByType user =
     (case User_Type user of
        SERVICE_ACCOUNT \<Rightarrow> FormatServiceAccountEmail (User_Email user)
      | WORKLOAD_IDENTITY \<Rightarrow> FormatWorkloadIdentityEmail (User_Email user)
      | _ \<Rightarrow> FormatUserEmail (User_Email user))"

definition FormatGroupName :: "GroupMessage \<Rightarrow> string" where
  "FormatGroupName g = (if Group_Email g \<noteq> [] then FormatGroupEmail (Group_Email g) else FormatGroupEmail (Group_ID g))"

text \<open>A failed lookup of a group is logged and counts as a group without members.\<close>

definition group_members :: "access_env \<Rightarrow> string \<Rightarrow> string \<Rightarrow> string list" where
  "group_members env workspace member =
     (case GetGroupByName env workspace member of
        Inl _ \<Rightarrow> []
      | Inr None \<Rightarrow> []
      | Inr (Some g) \<Rightarrow> Group_Members g)"

definition MemberContainsUser :: "access_env \<Rightarrow> string \<Rightarrow> string \<Rightarrow> UserMessage \<Rightarrow> bool" where
  "MemberContainsUser env workspace member user =
     (let is_user = (\<lambda>r. case r of Inl _ \<Rightarrow> False | Inr memberEmail \<Rightarrow> memberEmail = User_Email user)
      in if member = AllUsers then True
         else if HasPrefix member UserNamePrefix then is_user (GetUserEmail member)
         else if HasPrefix member ServiceAccountNamePrefix then is_user (GetServiceAccountEmail member)
         else if HasPrefix member WorkloadIdentityNamePrefix then is_user (GetWorkloadIdentityEmail member)
         else if HasPrefix member GroupPrefix then
           formatMemberNameByType user \<in> set (group_members env workspace member)
         else False)"

text \<open>The loop over the members of a binding in \<open>GetUserIAMPolicyBindings\<close>.\<close>

definition binding_hasUser :: "access_env \<Rightarrow> string \<Rightarrow> string \<Rightarrow> Binding \<Rightarrow> bool" where
  "binding_hasUser env workspace userMemberName binding =
     list_ex (\<lambda>member. member = AllUsers \<or> userMemberName = member \<or>
        HasPrefix member GroupPrefix \<and> userMemberName \<in> set (group_members env workspace member))
       (Binding_Members binding)"

definition GetUserIAMPolicyBindings ::
    "access_env \<Rightarrow> string \<Rightarrow> UserMessage \<Rightarrow> IamPolicy list \<Rightarrow> Binding list" where
  "GetUserIAMPolicyBindings env workspace user policies =
     (let userMemberName = formatMemberNameByType user
      in concat (map (\<lambda>policy.
           filter (\<lambda>binding. ValidateIAMBinding env binding \<and> binding_hasUser env workspace userMemberName binding)
             (IamPolicy_Bindings policy)) policies))"

text \<open>\<open>common.Uniq\<close>, with the set of what was seen.\<close>

primrec uniq_loop :: "string set \<Rightarrow> string list \<Rightarrow> string list" where
  "uniq_loop seen [] = []"
| "uniq_loop seen (e # xs) = (if e \<in> seen then uniq_loop seen xs else e # uniq_loop (insert e seen) xs)"

definition Uniq :: "string list \<Rightarrow> string list" where
  "Uniq xs = uniq_loop {} xs"

definition GetUserRolesInIamPolicy :: "access_env \<Rightarrow> string \<Rightarrow> UserMessage \<Rightarrow> IamPolicy list \<Rightarrow> string list" where
  "GetUserRolesInIamPolicy env workspace user policies =
     Uniq (concat (map (\<lambda>policy. map Binding_Role (GetUserIAMPolicyBindings env workspace user [policy])) policies))"

definition GetUserFormattedRolesMap ::
    "access_env \<Rightarrow> string \<Rightarrow> UserMessage \<Rightarrow> IamPolicy list \<Rightarrow> bool gomap" where
  "GetUserFormattedRolesMap env workspace user policies =
     map_by id (\<lambda>_. True) (GetUserRolesInIamPolicy env workspace user policies)"

text \<open>The email of an identifier by the prefix the caller found; any failure gives no user.\<close>

definition getUserByIdentifier :: "access_env \<Rightarrow> string \<Rightarrow> string \<Rightarrow> UserMessage option" where
  "getUserByIdentifier env identifier prefix =
     (case (if prefix = ServiceAccountNamePrefix then GetServiceAccountEmail identifier
            else if prefix = WorkloadIdentityNamePrefix then GetWorkloadIdentityEmail identifier
            else GetUserEmail identifier) of
        Inl _ \<Rightarrow> None
      | Inr email \<Rightarrow>
          (case GetAccountByEmail env email of
             Inl _ \<Rightarrow> None
           | Inr account \<Rightarrow> account))"

definition GetUsersByMember :: "access_env \<Rightarrow> string \<Rightarrow> string \<Rightarrow> UserMessage list" where
  "GetUsersByMember env workspace member =
     (let one = (\<lambda>u. case u of None \<Rightarrow> [] | Some x \<Rightarrow> [x])
      in if HasPrefix member UserNamePrefix then one (getUserByIdentifier env member UserNamePrefix)
         else if HasPrefix member ServiceAccountNamePrefix then
           one (getUserByIdentifier env member ServiceAccountNamePrefix)
         else if HasPrefix member WorkloadIdentityNamePrefix then
           one (getUserByIdentifier env member WorkloadIdentityNamePrefix)
         else if HasPrefix member GroupPrefix then
           concat (map (\<lambda>m. one (getUserByIdentifier env m UserNamePrefix)) (group_members env workspace member))
         else [])"

text \<open>
  The users found so far with their emails; \<open>Inl\<close> is the early return of all users.  A failure to list
  all users skips the member.
\<close>

primrec role_users_of ::
    "UserMessage list \<Rightarrow> UserMessage list \<Rightarrow> UserMessage list" where
  "role_users_of users [] = users"
| "role_users_of users (user # rest) =
     role_users_of (if User_Email user \<in> User_Email ` set users then users else users @ [user]) rest"

primrec role_members ::
    "access_env \<Rightarrow> string \<Rightarrow> bool \<Rightarrow> string list \<Rightarrow> UserMessage list \<Rightarrow> UserMessage list + UserMessage list" where
  "role_members env workspace allowAllUsers [] users = Inr users"
| "role_members env workspace allowAllUsers (member # rest) users =
     (if member = AllUsers \<and> allowAllUsers then
        (case ListUsers env of
           Inl _ \<Rightarrow> role_members env workspace allowAllUsers rest users
         | Inr allUsers \<Rightarrow> Inl allUsers)
      else role_members env workspace allowAllUsers rest
             (role_users_of users (GetUsersByMember env workspace member)))"

primrec role_bindings ::
    "access_env \<Rightarrow> string \<Rightarrow> string \<Rightarrow> bool \<Rightarrow> Binding list \<Rightarrow> UserMessage list \<Rightarrow> UserMessage list + UserMessage list" where
  "role_bindings env workspace roleFullName allowAllUsers [] users = Inr users"
| "role_bindings env workspace roleFullName allowAllUsers (binding # rest) users =
     (if Binding_Role binding \<noteq> roleFullName \<or> \<not> ValidateIAMBinding env binding
      then role_bindings env workspace roleFullName allowAllUsers rest users
      else bind_sum (role_members env workspace allowAllUsers (Binding_Members binding) users)
             (role_bindings env workspace roleFullName allowAllUsers rest))"

definition GetUsersByRoleInIAMPolicy ::
    "access_env \<Rightarrow> string \<Rightarrow> string \<Rightarrow> bool \<Rightarrow> IamPolicy list \<Rightarrow> UserMessage list" where
  "GetUsersByRoleInIAMPolicy env workspace role allowAllUsers policies =
     (let roleFullName = if HasPrefix role RolePrefix then role else FormatRole role
      in case role_bindings env workspace roleFullName allowAllUsers (concat (map IamPolicy_Bindings policies)) [] of
           Inl allUsers \<Rightarrow> allUsers
         | Inr users \<Rightarrow> users)"

end
