(* ===== verification/ACL.thy ===== *)
theory ACL
  imports IAM
begin

text \<open>
  \<^verbatim>\<open>backend/api/v1/acl.go\<close> and \<^verbatim>\<open>acl_extractors.go\<close>: which resources a request touches and whether
  its user may.  A request is a protocol buffer message seen through reflection: its type and its
  fields, those that are not set with their default.  An error is a code with the arguments of its
  message; a panic is a value of its own, since the interceptor recovers from it.
\<close>

section \<open>Messages by reflection\<close>

datatype proto_field =
    FString string
  | FBool bool
  | FList "proto_field list"
  | FMessage "proto_message option"
  | FOther string
and proto_message = Message (message_type: string) (message_fields: "(string \<times> proto_field) list")

text \<open>\<open>Descriptor().Fields().ByName(name)\<close> and \<open>Get\<close>.\<close>

definition field :: "proto_message \<Rightarrow> string \<Rightarrow> proto_field option" where
  "field msg name = map_of (message_fields msg) name"

text \<open>
  \<open>Value.String()\<close>, \<open>Value.List()\<close> and \<open>Value.Message()\<close>: the first prints any value, with \<open>show\<close> for
  what is no text, the others panic on another kind.
\<close>

definition value_String :: "(proto_field \<Rightarrow> string) \<Rightarrow> proto_field \<Rightarrow> string" where
  "value_String show v = (case v of FString s \<Rightarrow> s | _ \<Rightarrow> show v)"

definition value_List :: "proto_field \<Rightarrow> ('e, proto_field list) outcome" where
  "value_List v = (case v of FList vs \<Rightarrow> Ok vs | _ \<Rightarrow> Panic)"

definition value_Message :: "proto_field \<Rightarrow> ('e, proto_message) outcome" where
  "value_Message v = (case v of FMessage (Some m) \<Rightarrow> Ok m | _ \<Rightarrow> Panic)"

text \<open>Generated getters: the zero value where the message or the field is missing.\<close>

definition get_message :: "proto_message option \<Rightarrow> string \<Rightarrow> proto_message option" where
  "get_message msg name =
     (case Option.bind msg (\<lambda>m. field m name) of Some (FMessage m) \<Rightarrow> m | _ \<Rightarrow> None)"

definition get_string :: "proto_message option \<Rightarrow> string \<Rightarrow> string" where
  "get_string msg name = (case Option.bind msg (\<lambda>m. field m name) of Some (FString s) \<Rightarrow> s | _ \<Rightarrow> [])"

definition get_strings :: "proto_message option \<Rightarrow> string \<Rightarrow> string list" where
  "get_strings msg name =
     (case Option.bind msg (\<lambda>m. field m name) of
        Some (FList vs) \<Rightarrow> concat (map (\<lambda>v. case v of FString s \<Rightarrow> [s] | _ \<Rightarrow> []) vs)
      | _ \<Rightarrow> [])"


section \<open>Contexts and errors\<close>

datatype AuthMethod = AuthMethodUnspecified | AuthMethodIAM | AuthMethodCustom

datatype ResourceType = ResourceTypeWorkspace | ResourceTypeProject | ResourceTypeOther int

record Resource =
  Resource_Type :: ResourceType
  Resource_ID :: string

record AuthContext =
  Auth_Audit :: bool
  Auth_AllowWithoutCredential :: bool
  Auth_Permission :: string
  Auth_AuthMethod :: AuthMethod
  Auth_Resources :: "Resource list"

text \<open>What the handlers find in the \<^verbatim>\<open>context.Context\<close>; a user may be there and be \<^verbatim>\<open>nil\<close>.\<close>

record request_context =
  ctx_AuthContext :: "AuthContext option"
  ctx_User :: "UserMessage option option"
  ctx_WorkspaceID :: string

text \<open>The store as the interceptor sees it, the manager's mode, the order of a map's keys.\<close>

record acl_env =
  acl_access :: access_env
  acl_saas :: bool
  acl_GetDatabase :: "string \<Rightarrow> string \<Rightarrow> string \<Rightarrow> go_error + DatabaseMessage option"
  acl_GetInstance :: "string \<Rightarrow> string \<Rightarrow> go_error + bool"
  acl_show :: "proto_field \<Rightarrow> string"
  acl_order :: "string list \<Rightarrow> string list"

datatype resource_error =
    NotAMessage string
  | InvalidMethod string
  | ExpectedRequest string
  | StaticExtractorFailed string resource_error
  | SubRequestFailed string resource_error
  | InvalidWorkspaceResource string
  | InvalidProjectResource string
  | NameOf name_error
  | ParseFailed string name_error
  | GetDatabaseFailed go_error
  | DatabaseNotFound string
  | GetInstanceFailed go_error
  | InstanceNotFound string

datatype connect_code = CodeInternal | CodeUnauthenticated | CodePermissionDenied | CodeNotFound | CodeUnavailable

datatype acl_reason =
    AuthContextNotFound
  | PopulateFailed resource_error
  | UserNotFound
  | Unauthenticated string
  | EmptyWorkspaceID
  | WorkspaceMismatch
  | GetProjectFailed go_error
  | ProjectNotFound string
  | TemporarilyUnavailable string
  | CheckFailed string "string list" go_error
  | PermissionDenied string "string list" "string list"
  | CreateCheckFailed string "string list" go_error
  | CreateDenied string "string list" "string list"

record acl_error =
  acl_code :: connect_code
  acl_reason :: acl_reason

abbreviation NewError :: "connect_code \<Rightarrow> acl_reason \<Rightarrow> acl_error" where
  "NewError c r \<equiv> \<lparr>acl_code = c, acl_reason = r\<rparr>"


section \<open>Extractors\<close>

type_synonym 'a extraction = "(resource_error, 'a) outcome"

type_synonym extractor = "(proto_field \<Rightarrow> string) \<Rightarrow> proto_message \<Rightarrow> string list extraction"

definition extractNone :: extractor where
  "extractNone show msg = Ok []"

definition extractField :: "string \<Rightarrow> extractor" where
  "extractField fieldName show msg =
     (case field msg fieldName of
        None \<Rightarrow> Ok []
      | Some v \<Rightarrow> let s = value_String show v in if s = [] then Ok [] else Ok [s])"

definition extractFromName :: extractor where
  "extractFromName = extractField ''name''"

definition extractFromParent :: extractor where
  "extractFromParent = extractField ''parent''"

definition extractFromResource :: extractor where
  "extractFromResource = extractField ''resource''"

definition extractFromProject :: extractor where
  "extractFromProject = extractField ''project''"

definition extractFromInstanceField :: extractor where
  "extractFromInstanceField = extractField ''instance''"

definition hasFieldMaskPath :: "proto_message option \<Rightarrow> string \<Rightarrow> bool" where
  "hasFieldMaskPath fm path \<longleftrightarrow> path \<in> set (get_strings fm ''paths'')"

definition extractFromDatabaseUpdate :: extractor where
  "extractFromDatabaseUpdate show msg =
     (if message_type msg \<noteq> ''UpdateDatabaseRequest'' then Err (ExpectedRequest ''UpdateDatabaseRequest'')
      else let database = get_message (Some msg) ''database'';
               name = get_string database ''name'';
               project = get_string database ''project''
           in Ok ((if name \<noteq> [] then [name] else []) @
                  (if hasFieldMaskPath (get_message (Some msg) ''update_mask'') ''project'' \<and> project \<noteq> []
                   then [project] else [])))"

definition extractFromBatchIssuesStatus :: extractor where
  "extractFromBatchIssuesStatus show msg =
     (if message_type msg \<noteq> ''BatchUpdateIssuesStatusRequest''
      then Err (ExpectedRequest ''BatchUpdateIssuesStatusRequest'')
      else Ok (get_strings (Some msg) ''issues''))"

text \<open>The shape of the updates that follow: the name of the message inside the request.\<close>

definition inner_name :: "string \<Rightarrow> string \<Rightarrow> extractor" where
  "inner_name typ fieldName show msg =
     (if message_type msg \<noteq> typ then Err (ExpectedRequest typ)
      else let name = get_string (get_message (Some msg) fieldName) ''name''
           in if name \<noteq> [] then Ok [name] else Ok [])"

definition extractFromUserUpdate :: extractor where
  "extractFromUserUpdate = inner_name ''UpdateUserRequest'' ''user''"

definition extractFromProjectUpdate :: extractor where
  "extractFromProjectUpdate = inner_name ''UpdateProjectRequest'' ''project''"

definition extractFromInstanceUpdate :: extractor where
  "extractFromInstanceUpdate = inner_name ''UpdateInstanceRequest'' ''instance''"

definition extractFromPlanUpdate :: extractor where
  "extractFromPlanUpdate = inner_name ''UpdatePlanRequest'' ''plan''"

definition extractFromIssueUpdate :: extractor where
  "extractFromIssueUpdate = inner_name ''UpdateIssueRequest'' ''issue''"

definition extractFromSettingUpdate :: extractor where
  "extractFromSettingUpdate = inner_name ''UpdateSettingRequest'' ''setting''"

definition extractFromRoleUpdate :: extractor where
  "extractFromRoleUpdate = inner_name ''UpdateRoleRequest'' ''role''"

definition extractFromReleaseUpdate :: extractor where
  "extractFromReleaseUpdate = inner_name ''UpdateReleaseRequest'' ''release''"

definition extractFromReviewConfigUpdate :: extractor where
  "extractFromReviewConfigUpdate = inner_name ''UpdateReviewConfigRequest'' ''review_config''"

definition extractFromGroupUpdate :: extractor where
  "extractFromGroupUpdate = inner_name ''UpdateGroupRequest'' ''group''"

definition extractFromIdentityProviderUpdate :: extractor where
  "extractFromIdentityProviderUpdate = inner_name ''UpdateIdentityProviderRequest'' ''identity_provider''"

text \<open>The static map from the name of a method to its extractor.\<close>

definition aclResourceExtractors :: "(string \<times> extractor) list" where
  "aclResourceExtractors =
     [(''Login'', extractNone), (''Logout'', extractNone), (''Refresh'', extractNone),
      (''GetCurrentUser'', extractNone), (''GetUser'', extractFromName), (''ListUsers'', extractNone),
      (''CreateUser'', extractNone), (''UpdateUser'', extractFromUserUpdate),
      (''DeleteUser'', extractFromName), (''UndeleteUser'', extractFromName),
      (''GetActuatorInfo'', extractNone), (''UpdateActuatorInfo'', extractNone),
      (''GetSubscription'', extractNone), (''UpdateSubscription'', extractNone),
      (''ListWorkspaces'', extractNone), (''GetProject'', extractFromName),
      (''ListProjects'', extractNone), (''SearchProjects'', extractNone), (''CreateProject'', extractNone),
      (''UpdateProject'', extractFromProjectUpdate), (''DeleteProject'', extractFromName),
      (''UndeleteProject'', extractFromName), (''GetIamPolicy'', extractFromResource),
      (''SetIamPolicy'', extractFromResource), (''AddWebhook'', extractFromProject),
      (''UpdateWebhook'', extractFromProject), (''RemoveWebhook'', extractFromProject),
      (''TestWebhook'', extractFromProject), (''GetDatabase'', extractFromName),
      (''ListDatabases'', extractFromParent), (''UpdateDatabase'', extractFromDatabaseUpdate),
      (''SyncDatabase'', extractFromName), (''GetDatabaseMetadata'', extractFromName),
      (''GetDatabaseSchema'', extractFromName), (''GetDatabaseSDLSchema'', extractFromName),
      (''DiffSchema'', extractFromName), (''GetSchemaString'', extractFromName),
      (''GetInstance'', extractFromName), (''ListInstances'', extractNone),
      (''CreateInstance'', extractNone), (''UpdateInstance'', extractFromInstanceUpdate),
      (''DeleteInstance'', extractFromName), (''UndeleteInstance'', extractFromName),
      (''SyncInstance'', extractFromName), (''AddDataSource'', extractFromInstanceField),
      (''UpdateDataSource'', extractFromInstanceField), (''RemoveDataSource'', extractFromInstanceField),
      (''GetPlan'', extractFromName), (''ListPlans'', extractFromParent),
      (''CreatePlan'', extractFromParent), (''UpdatePlan'', extractFromPlanUpdate),
      (''GetIssue'', extractFromName), (''ListIssues'', extractFromParent),
      (''SearchIssues'', extractFromParent), (''CreateIssue'', extractFromParent),
      (''UpdateIssue'', extractFromIssueUpdate), (''ApproveIssue'', extractFromName),
      (''RejectIssue'', extractFromName), (''RequestIssue'', extractFromName),
      (''ListIssueComments'', extractFromParent), (''CreateIssueComment'', extractFromParent),
      (''UpdateIssueComment'', extractFromParent), (''GetRollout'', extractFromName),
      (''CreateRollout'', extractFromParent), (''ListTaskRuns'', extractFromParent),
      (''GetTaskRunLog'', extractFromParent), (''RunTasks'', extractFromParent),
      (''SkipTasks'', extractFromParent), (''RestartTasks'', extractFromParent),
      (''CancelTaskRuns'', extractFromParent), (''GetSetting'', extractFromName),
      (''ListSettings'', extractNone), (''UpdateSetting'', extractFromSettingUpdate),
      (''GetEnvironment'', extractFromName), (''ListEnvironments'', extractNone),
      (''CreateEnvironment'', extractNone), (''UpdateEnvironment'', extractFromName),
      (''DeleteEnvironment'', extractFromName), (''UndeleteEnvironment'', extractFromName),
      (''GetRole'', extractFromName), (''ListRoles'', extractNone), (''CreateRole'', extractNone),
      (''UpdateRole'', extractFromRoleUpdate), (''DeleteRole'', extractFromName),
      (''GetSheet'', extractFromName), (''CreateSheet'', extractFromParent),
      (''UpdateSheet'', extractFromName), (''GetRelease'', extractFromName),
      (''ListReleases'', extractFromParent), (''CreateRelease'', extractFromParent),
      (''UpdateRelease'', extractFromReleaseUpdate), (''GetChangelist'', extractFromName),
      (''ListChangelists'', extractFromParent), (''CreateChangelist'', extractFromParent),
      (''UpdateChangelist'', extractFromName), (''DeleteChangelist'', extractFromName),
      (''GetBranch'', extractFromName), (''ListBranches'', extractFromParent),
      (''CreateBranch'', extractFromParent), (''UpdateBranch'', extractFromName),
      (''DeleteBranch'', extractFromName), (''MergeBranch'', extractFromName),
      (''RebaseBranch'', extractFromName), (''DiffDatabase'', extractFromName),
      (''Query'', extractFromName), (''Export'', extractFromName), (''AdminExecute'', extractFromName),
      (''Check'', extractNone), (''SearchAuditLogs'', extractNone), (''ExportAuditLogs'', extractNone),
      (''ListRisks'', extractNone), (''CreateRisk'', extractNone), (''UpdateRisk'', extractFromName),
      (''DeleteRisk'', extractFromName), (''GetReviewConfig'', extractFromName),
      (''ListReviewConfigs'', extractNone), (''CreateReviewConfig'', extractNone),
      (''UpdateReviewConfig'', extractFromReviewConfigUpdate), (''DeleteReviewConfig'', extractFromName),
      (''GetGroup'', extractFromName), (''ListGroups'', extractNone), (''CreateGroup'', extractNone),
      (''UpdateGroup'', extractFromGroupUpdate), (''DeleteGroup'', extractFromName),
      (''GetWorkspace'', extractFromName), (''GetVCSConnector'', extractFromName),
      (''ListVCSConnectors'', extractFromParent), (''CreateVCSConnector'', extractFromParent),
      (''UpdateVCSConnector'', extractFromName), (''DeleteVCSConnector'', extractFromName),
      (''GetVCSProvider'', extractFromName), (''ListVCSProviders'', extractNone),
      (''CreateVCSProvider'', extractNone), (''UpdateVCSProvider'', extractFromName),
      (''DeleteVCSProvider'', extractFromName), (''GetIdentityProvider'', extractFromName),
      (''ListIdentityProviders'', extractNone), (''CreateIdentityProvider'', extractNone),
      (''UpdateIdentityProvider'', extractFromIdentityProviderUpdate),
      (''DeleteIdentityProvider'', extractFromName), (''UndeleteIdentityProvider'', extractFromName),
      (''TestIdentityProvider'', extractNone)]"

definition batch_inner :: "string \<Rightarrow> string" where
  "batch_inner shortMethod = TrimSuffix (TrimPrefix shortMethod ''Batch'') ''s''"

definition lookupExtractor :: "string \<Rightarrow> extractor option" where
  "lookupExtractor shortMethod =
     (if shortMethod = ''BatchUpdateIssuesStatus'' then Some extractFromBatchIssuesStatus
      else case (if HasPrefix shortMethod ''Batch'' then map_of aclResourceExtractors (batch_inner shortMethod)
                 else None) of
             Some ext \<Rightarrow> Some ext
           | None \<Rightarrow> map_of aclResourceExtractors shortMethod)"

definition extractBatchGetNames :: extractor where
  "extractBatchGetNames show msg =
     (case field msg ''names'' of
        None \<Rightarrow> Ok []
      | Some v \<Rightarrow> bind_outcome (value_List v) (\<lambda>vs. Ok (map (value_String show) vs)))"

text \<open>Without an extractor for the inner method the name is tried, and its error dropped.\<close>

definition extractSubRequest :: "string \<Rightarrow> (proto_field \<Rightarrow> string) \<Rightarrow> proto_message \<Rightarrow> string list extraction" where
  "extractSubRequest innerMethod show subMsg =
     (case lookupExtractor innerMethod of
        Some extractor \<Rightarrow> wrap (SubRequestFailed innerMethod) (extractor show subMsg)
      | None \<Rightarrow> (case extractFromName show subMsg of Err _ \<Rightarrow> Ok [] | r \<Rightarrow> r))"

definition extractBatchSubRequests :: "string \<Rightarrow> extractor" where
  "extractBatchSubRequests shortMethod show msg =
     (case field msg ''requests'' of
        None \<Rightarrow> Ok []
      | Some v \<Rightarrow>
          bind_outcome (value_List v) (\<lambda>vs.
          bind_outcome (traverse (\<lambda>x. bind_outcome (value_Message x)
              (extractSubRequest (batch_inner shortMethod) show)) vs) (\<lambda>rs. Ok (concat rs))))"

text \<open>A request that is no message is \<open>None\<close>.  Phase 3: an unknown method has no resource.\<close>

definition getResourceFromRequest ::
    "(proto_field \<Rightarrow> string) \<Rightarrow> proto_message option \<Rightarrow> string \<Rightarrow> string list extraction" where
  "getResourceFromRequest show request fullMethod =
     (case request of
        None \<Rightarrow> Err (NotAMessage fullMethod)
      | Some pm \<Rightarrow>
          (case Split fullMethod ''/'' of
             [_, _, shortMethod] \<Rightarrow>
               if HasPrefix shortMethod ''BatchGet'' then extractBatchGetNames show pm
               else if HasPrefix shortMethod ''Batch'' \<and> shortMethod \<noteq> ''BatchUpdateIssuesStatus''
               then extractBatchSubRequests shortMethod show pm
               else (case lookupExtractor shortMethod of
                       Some extractor \<Rightarrow> wrap (StaticExtractorFailed shortMethod) (extractor show pm)
                     | None \<Rightarrow> Ok [])
           | _ \<Rightarrow> Err (InvalidMethod fullMethod)))"


section \<open>Resources of a request\<close>

text \<open>
  The regular expressions \<open>^workspaces/[^/]+\<close>, \<open>^projects/[^/]+\<close>, \<open>^instances/[^/]+\<close> and
  \<open>^instances/[^/]+/databases/[^/]+\<close>: the text they match at the front, \<open>None\<close> for no match.
\<close>

definition match_segment :: "string \<Rightarrow> string \<Rightarrow> string option" where
  "match_segment p name =
     (let seg = takeWhile (\<lambda>c. c \<noteq> CHR ''/'') (drop (length p) name)
      in if HasPrefix name p \<and> seg \<noteq> [] then Some (p @ seg) else None)"

definition match_database :: "string \<Rightarrow> string option" where
  "match_database name =
     Option.bind (match_segment ''instances/'' name) (\<lambda>a.
       map_option (\<lambda>b. a @ b) (match_segment ''/databases/'' (drop (length a) name)))"

definition workspace_resource :: "string \<Rightarrow> Resource list" where
  "workspace_resource workspaceID =
     (if workspaceID \<noteq> [] then [\<lparr>Resource_Type = ResourceTypeWorkspace, Resource_ID = workspaceID\<rparr>] else [])"

definition of_names :: "name_error + 'a \<Rightarrow> 'a extraction" where
  "of_names r = (case r of Inl e \<Rightarrow> Err (NameOf e) | Inr x \<Rightarrow> Ok x)"

text \<open>The branches of the loop of \<open>populateRawResources\<close>: what a name adds.\<close>

definition workspace_name :: "string \<Rightarrow> Resource list extraction" where
  "workspace_name name =
     (case match_segment ''workspaces/'' name of
        None \<Rightarrow> Err (InvalidWorkspaceResource name)
      | Some m \<Rightarrow> bind_outcome (of_names (GetWorkspaceID m)) (\<lambda>wsID.
          Ok [\<lparr>Resource_Type = ResourceTypeWorkspace, Resource_ID = wsID\<rparr>]))"

definition project_name :: "string \<Rightarrow> Resource list extraction" where
  "project_name name =
     (case match_segment ''projects/'' name of
        None \<Rightarrow> Err (InvalidProjectResource name)
      | Some m \<Rightarrow> bind_outcome (of_names (GetProjectID m)) (\<lambda>projectID.
          Ok [\<lparr>Resource_Type = ResourceTypeProject, Resource_ID = projectID\<rparr>]))"

definition database_name :: "acl_env \<Rightarrow> string \<Rightarrow> string \<Rightarrow> Resource list extraction" where
  "database_name env workspaceID name =
     (case match_database name of
        None \<Rightarrow> Ok []
      | Some m \<Rightarrow>
          (case GetInstanceDatabaseID m of
             Inl e \<Rightarrow> Err (ParseFailed m e)
           | Inr ids \<Rightarrow>
               (case acl_GetDatabase env workspaceID (fst ids) (snd ids) of
                  Inl e \<Rightarrow> Err (GetDatabaseFailed e)
                | Inr None \<Rightarrow> Err (DatabaseNotFound m)
                | Inr (Some database) \<Rightarrow>
                    Ok [\<lparr>Resource_Type = ResourceTypeProject, Resource_ID = Database_ProjectID database\<rparr>])))"

definition instance_name :: "acl_env \<Rightarrow> string \<Rightarrow> string \<Rightarrow> Resource list extraction" where
  "instance_name env workspaceID name =
     (case match_segment ''instances/'' name of
        None \<Rightarrow> Ok []
      | Some m \<Rightarrow>
          (case GetInstanceID m of
             Inl e \<Rightarrow> Err (ParseFailed m e)
           | Inr instanceID \<Rightarrow>
               (case acl_GetInstance env workspaceID instanceID of
                  Inl e \<Rightarrow> Err (GetInstanceFailed e)
                | Inr found \<Rightarrow>
                    if \<not> found then Err (InstanceNotFound m)
                    else Ok [\<lparr>Resource_Type = ResourceTypeWorkspace, Resource_ID = workspaceID\<rparr>])))"

definition name_resources :: "acl_env \<Rightarrow> string \<Rightarrow> string \<Rightarrow> Resource list extraction" where
  "name_resources env workspaceID name =
     (if HasPrefix name ''workspaces/'' then workspace_name name
      else if HasPrefix name ''projects/'' \<and> name \<noteq> ''projects/-'' then project_name name
      else if HasPrefix name ''instances/'' \<and> Contains name ''/databases/'' \<and>
              \<not> HasPrefix name ''instances/-/databases/'' then database_name env workspaceID name
      else if HasPrefix name ''instances/'' \<and> \<not> Contains name ''/databases/''
      then instance_name env workspaceID name
      else Ok (workspace_resource workspaceID))"

definition populateRawResources ::
    "acl_env \<Rightarrow> string \<Rightarrow> proto_message option \<Rightarrow> string \<Rightarrow> Resource list extraction" where
  "populateRawResources env workspaceID request fullMethod =
     bind_outcome (getResourceFromRequest (acl_show env) request fullMethod) (\<lambda>rawNames.
     bind_outcome (traverse (name_resources env workspaceID) rawNames) (\<lambda>rs.
       let resources = concat rs
       in Ok (if resources = [] then workspace_resource workspaceID else resources)))"


section \<open>The check\<close>

definition IsAuthenticationSkipped :: "string \<Rightarrow> AuthContext \<Rightarrow> bool" where
  "IsAuthenticationSkipped fullMethodName authContext \<longleftrightarrow>
     HasPrefix fullMethodName ''/grpc.reflection'' \<or> Auth_AllowWithoutCredential authContext"

definition storePatterns :: "string list" where
  "storePatterns =
     [''connection refused'', ''connection reset'', ''connection timed out'', ''database is closed'',
      ''broken pipe'', ''pgconn'', ''conn closed'', ''pool is closed'', ''too many clients'']"

definition isStoreError :: "go_error \<Rightarrow> bool" where
  "isStoreError e \<longleftrightarrow>
     err_chain e \<noteq> [] \<or> list_ex (\<lambda>pattern. Contains (ToLower (err_message e)) pattern) storePatterns"

definition hasAllowMissingEnabled :: "proto_message option \<Rightarrow> bool" where
  "hasAllowMissingEnabled request =
     (case Option.bind request (\<lambda>pm. field pm ''allow_missing'') of Some (FBool b) \<Rightarrow> b | _ \<Rightarrow> False)"

text \<open>\<open>strings.Replace(s, old, new, 1)\<close> with a non-empty \<open>old\<close>.\<close>

definition Replace_first :: "string \<Rightarrow> string \<Rightarrow> string \<Rightarrow> string" where
  "Replace_first s old new =
     (case Index s old of None \<Rightarrow> s | Some i \<Rightarrow> take i s @ new @ drop (i + length old) s)"

text \<open>The resources by kind: whether there is a workspace, the projects as the keys of a map.\<close>

primrec split_resources :: "Resource list \<Rightarrow> bool \<Rightarrow> string list \<Rightarrow> go_error + bool \<times> string list" where
  "split_resources [] ws ps = Inr (ws, ps)"
| "split_resources (r # rs) ws ps =
     (case Resource_Type r of
        ResourceTypeWorkspace \<Rightarrow> split_resources rs True ps
      | ResourceTypeProject \<Rightarrow> split_resources rs ws (if Resource_ID r \<in> set ps then ps else ps @ [Resource_ID r])
      | ResourceTypeOther n \<Rightarrow> Inl (Errorf (''unknown resource type '' @ FormatInt n)))"

definition doIAMPermissionCheck ::
    "acl_env \<Rightarrow> string \<Rightarrow> string \<Rightarrow> UserMessage \<Rightarrow> AuthContext \<Rightarrow> go_error + bool \<times> string list" where
  "doIAMPermissionCheck env workspaceID fullMethod user authContext =
     (if IsAuthenticationSkipped fullMethod authContext then Inr (True, [])
      else if Auth_AuthMethod authContext \<noteq> AuthMethodIAM then Inr (True, [])
      else if Auth_Resources authContext = [] then Inl (Errorf ''no resource found for IAM auth method'')
      else bind_sum (split_resources (Auth_Resources authContext) False []) (\<lambda>(hasWorkspace, ids).
        let check = CheckPermission (acl_access env) (acl_saas env) (Auth_Permission authContext) user workspaceID;
            projectIDs = acl_order env ids;
            projects = (if ids \<noteq> [] then
                bind_sum (check projectIDs) (\<lambda>ok.
                  if ok then Inr (True, []) else Inr (False, map FormatProject projectIDs))
              else Inr (True, []))
        in if hasWorkspace then bind_sum (check []) (\<lambda>ok. if \<not> ok then Inr (False, []) else projects)
           else projects))"

text \<open>Workspace isolation: the loop over the resources before the permission check.\<close>

primrec check_isolation :: "acl_env \<Rightarrow> string \<Rightarrow> Resource list \<Rightarrow> acl_error + unit" where
  "check_isolation env workspaceID [] = Inr ()"
| "check_isolation env workspaceID (r # rs) =
     (case Resource_Type r of
        ResourceTypeWorkspace \<Rightarrow>
          if Resource_ID r \<noteq> workspaceID then Inl (NewError CodePermissionDenied WorkspaceMismatch)
          else check_isolation env workspaceID rs
      | ResourceTypeProject \<Rightarrow>
          (case GetProject (acl_access env) workspaceID (Resource_ID r) of
             Inl e \<Rightarrow> Inl (NewError CodeInternal (GetProjectFailed e))
           | Inr None \<Rightarrow> Inl (NewError CodeNotFound (ProjectNotFound (Resource_ID r)))
           | Inr (Some project) \<Rightarrow>
               if Project_Workspace project \<noteq> workspaceID
               then Inl (NewError CodeNotFound (ProjectNotFound (Resource_ID r)))
               else check_isolation env workspaceID rs)
      | ResourceTypeOther _ \<Rightarrow> check_isolation env workspaceID rs)"

definition check_create ::
    "acl_env \<Rightarrow> string \<Rightarrow> string \<Rightarrow> UserMessage \<Rightarrow> AuthContext \<Rightarrow> acl_error + unit" where
  "check_create env workspaceID fullMethod user authContext =
     (let createPerm = Replace_first (Auth_Permission authContext) ''.update'' ''.create'';
          createAuthContext = \<lparr>Auth_Audit = False, Auth_AllowWithoutCredential = False,
            Auth_Permission = createPerm, Auth_AuthMethod = Auth_AuthMethod authContext,
            Auth_Resources = Auth_Resources authContext\<rparr>
      in case doIAMPermissionCheck env workspaceID fullMethod user createAuthContext of
           Inl e \<Rightarrow> Inl (NewError CodeInternal (CreateCheckFailed createPerm [] e))
         | Inr (ok, extra) \<Rightarrow>
             if \<not> ok then Inl (NewError CodePermissionDenied
               (CreateDenied fullMethod [Auth_Permission authContext, createPerm] extra))
             else Inr ())"

definition check_user ::
    "acl_env \<Rightarrow> request_context \<Rightarrow> proto_message option \<Rightarrow> string \<Rightarrow> AuthContext \<Rightarrow> acl_error + unit" where
  "check_user env ctx request fullMethod authContext =
     (case ctx_User ctx of
        None \<Rightarrow> Inl (NewError CodeInternal UserNotFound)
      | Some None \<Rightarrow> Inl (NewError CodeUnauthenticated (Unauthenticated fullMethod))
      | Some (Some user) \<Rightarrow>
          let workspaceID = ctx_WorkspaceID ctx
          in if workspaceID = [] then Inl (NewError CodeUnauthenticated EmptyWorkspaceID)
             else bind_sum (check_isolation env workspaceID (Auth_Resources authContext)) (\<lambda>_.
               case doIAMPermissionCheck env workspaceID fullMethod user authContext of
                 Inl e \<Rightarrow>
                   if isStoreError e then Inl (NewError CodeUnavailable (TemporarilyUnavailable fullMethod))
                   else Inl (NewError CodeInternal (CheckFailed fullMethod [] e))
               | Inr (ok, extra) \<Rightarrow>
                   if \<not> ok then Inl (NewError CodePermissionDenied
                     (PermissionDenied fullMethod [Auth_Permission authContext] extra))
                   else if hasAllowMissingEnabled request
                   then check_create env workspaceID fullMethod user authContext
                   else Inr ()))"

text \<open>The function without its \<^verbatim>\<open>defer\<close>.\<close>

definition acl_check_body ::
    "acl_env \<Rightarrow> request_context \<Rightarrow> proto_message option \<Rightarrow> string \<Rightarrow> (acl_error, unit) outcome" where
  "acl_check_body env ctx request fullMethod =
     (case ctx_AuthContext ctx of
        None \<Rightarrow> Err (NewError CodeInternal AuthContextNotFound)
      | Some authContext0 \<Rightarrow>
          bind_outcome (wrap (\<lambda>e. NewError CodeInternal (PopulateFailed e))
            (populateRawResources env (ctx_WorkspaceID ctx) request fullMethod)) (\<lambda>resources.
          let authContext = authContext0\<lparr>Auth_Resources := resources\<rparr>
          in if IsAuthenticationSkipped fullMethod authContext then Ok ()
             else case check_user env ctx request fullMethod authContext of
                    Inl e \<Rightarrow> Err e
                  | Inr u \<Rightarrow> Ok u))"

text \<open>
  The deferred \<open>recover\<close> logs the panic; the result of the function has no name, so that the zero
  value, a \<^verbatim>\<open>nil\<close> error, is returned.  \<open>None\<close> is \<^verbatim>\<open>nil\<close>.
\<close>

definition doACLCheck ::
    "acl_env \<Rightarrow> request_context \<Rightarrow> proto_message option \<Rightarrow> string \<Rightarrow> acl_error option" where
  "doACLCheck env ctx request fullMethod =
     (case acl_check_body env ctx request fullMethod of
        Panic \<Rightarrow> None
      | Err e \<Rightarrow> Some e
      | Ok _ \<Rightarrow> None)"

text \<open>The interceptors; \<open>next\<close> and \<open>receive\<close> are what they wrap, with a result of any type.\<close>

definition WrapUnary ::
    "acl_env \<Rightarrow> request_context \<Rightarrow> proto_message option \<Rightarrow> string \<Rightarrow> 'r \<Rightarrow> acl_error + 'r" where
  "WrapUnary env ctx req procedure next =
     (case doACLCheck env ctx req procedure of Some e \<Rightarrow> Inl e | None \<Rightarrow> Inr next)"

text \<open>The message is checked before it is received: it is still what the caller allocated.\<close>

definition stream_Receive ::
    "acl_env \<Rightarrow> request_context \<Rightarrow> proto_message option \<Rightarrow> string \<Rightarrow> 'r \<Rightarrow> acl_error + 'r" where
  "stream_Receive env ctx msg fullMethod receive =
     (case doACLCheck env ctx msg fullMethod of Some e \<Rightarrow> Inl e | None \<Rightarrow> Inr receive)"

end
