(* ===== verification/AccessSpec.thy ===== *)
theory AccessSpec
  imports ACL ResourceNameSpec
begin

text \<open>
  Properties of access control: when the manager grants a permission, what a request that passed the
  interceptor is known to satisfy, and where the interceptor lets a request pass that it did not check.
\<close>

section \<open>When a permission is granted\<close>

text \<open>A member of a binding stands for a user: everyone, the user, or a group the user is in.\<close>

definition covers :: "access_env \<Rightarrow> string \<Rightarrow> bool \<Rightarrow> string \<Rightarrow> string \<Rightarrow> bool" where
  "covers env workspaceID skipAllUsers userName member \<longleftrightarrow>
     member = AllUsers \<and> \<not> skipAllUsers \<or> member = userName \<or>
     HasPrefix member GroupPrefix \<and>
       (case GetGroupMembersSnapshot env workspaceID member of
          Inr (Some ms) \<Rightarrow> flag ms userName
        | _ \<Rightarrow> False)"

text \<open>A role has a permission.\<close>

definition role_allows :: "access_env \<Rightarrow> string \<Rightarrow> string \<Rightarrow> string \<Rightarrow> bool" where
  "role_allows env workspaceID p role \<longleftrightarrow>
     (case GetPermissions env workspaceID role of Inr (Some ps) \<Rightarrow> flag ps p | _ \<Rightarrow> False)"

text \<open>A policy grants a permission: a binding whose condition holds, whose role has it, for the user.\<close>

definition grants :: "access_env \<Rightarrow> string \<Rightarrow> bool \<Rightarrow> UserMessage \<Rightarrow> string \<Rightarrow> IamPolicy option \<Rightarrow> bool" where
  "grants env workspaceID skipAllUsers user p policy \<longleftrightarrow>
     (\<exists>b \<in> set (GetBindings policy). ValidateIAMBinding env b \<and> role_allows env workspaceID p (Binding_Role b) \<and>
        (\<exists>m \<in> set (Binding_Members b). covers env workspaceID skipAllUsers (formatUserNameByType user) m))"

definition workspace_grants :: "access_env \<Rightarrow> bool \<Rightarrow> string \<Rightarrow> UserMessage \<Rightarrow> string \<Rightarrow> bool" where
  "workspace_grants env saas workspaceID user p \<longleftrightarrow>
     (case GetWorkspaceIamPolicySnapshot env workspaceID of
        Inr policy \<Rightarrow> grants env workspaceID saas user p policy
      | Inl _ \<Rightarrow> False)"

definition project_grants :: "access_env \<Rightarrow> string \<Rightarrow> UserMessage \<Rightarrow> string \<Rightarrow> string \<Rightarrow> bool" where
  "project_grants env workspaceID user p projectID \<longleftrightarrow>
     (case GetProject env workspaceID projectID of
        Inr (Some project) \<Rightarrow>
          (case GetProjectIamPolicySnapshot env workspaceID (Project_ResourceID project) of
             Inr policy \<Rightarrow> grants env workspaceID False user p policy
           | Inl _ \<Rightarrow> False)
      | _ \<Rightarrow> False)"

text \<open>No lookup of the store fails.\<close>

definition store_up :: "access_env \<Rightarrow> string \<Rightarrow> string list \<Rightarrow> bool" where
  "store_up env workspaceID projectIDs \<longleftrightarrow>
     (\<forall>r e. GetRoleSnapshot env workspaceID r \<noteq> Inl e) \<and>
     (\<forall>g e. GetGroupMembersSnapshot env workspaceID g \<noteq> Inl e) \<and>
     (\<forall>e. GetWorkspaceIamPolicySnapshot env workspaceID \<noteq> Inl e) \<and>
     (\<forall>projectID \<in> set projectIDs. \<exists>project policy. GetProject env workspaceID projectID = Inr (Some project) \<and>
        GetProjectIamPolicySnapshot env workspaceID (Project_ResourceID project) = Inr policy)"

lemma ex_truth [simp]: "\<exists>b. \<not> b" "\<exists>b. b" by auto

lemma getGroupMembers_Inr:
  "getGroupMembers env ws g = Inr r \<longleftrightarrow> GetGroupMembersSnapshot env ws g = Inr r"
  by (simp add: getGroupMembers_def wrap_error_Inr_iff)

lemma getPermissions_Inr: "getPermissions env ws r = Inr x \<longleftrightarrow> GetPermissions env ws r = Inr x"
  by (simp add: getPermissions_def wrap_error_Inr_iff)

lemma covers_iff:
  "covers env ws skip userName member \<longleftrightarrow>
     member = AllUsers \<and> \<not> skip \<or> member = userName \<or>
     HasPrefix member GroupPrefix \<and>
       (\<exists>ms. GetGroupMembersSnapshot env ws member = Inr (Some ms) \<and> flag ms userName)"
  by (simp add: covers_def split: sum.split option.split)

lemma role_allows_iff:
  "role_allows env ws p role \<longleftrightarrow> (\<exists>ps. GetPermissions env ws role = Inr (Some ps) \<and> flag ps p)"
  by (simp add: role_allows_def split: sum.split option.split)

lemma check_members_sound:
  "check_members userName (getGroupMembers env ws) skip ms = Inr found \<Longrightarrow>
   found \<longleftrightarrow> (\<exists>m \<in> set ms. covers env ws skip userName m)"
  by (induction ms)
    (auto simp: covers_iff bind_sum_Inr_iff getGroupMembers_Inr split: if_splits)

lemma check_members_total:
  "\<forall>g e. GetGroupMembersSnapshot env ws g \<noteq> Inl e \<Longrightarrow>
   \<exists>found. check_members userName (getGroupMembers env ws) skip ms = Inr found"
proof (induction ms)
  case (Cons m ms)
  then obtain found where "check_members userName (getGroupMembers env ws) skip ms = Inr found" by auto
  moreover have "getGroupMembers env ws m \<in> range Inr"
    using Cons.prems by (cases "GetGroupMembersSnapshot env ws m") (auto simp: getGroupMembers_def)
  ultimately show ?case by auto
qed simp

lemma check_bindings_sound:
  "check_bindings env userName p (getPermissions env ws) (getGroupMembers env ws) skip bs = Inr ok \<Longrightarrow>
   ok \<longleftrightarrow> (\<exists>b \<in> set bs. ValidateIAMBinding env b \<and> role_allows env ws p (Binding_Role b) \<and>
        (\<exists>m \<in> set (Binding_Members b). covers env ws skip userName m))"
proof (induction bs)
  case (Cons b bs)
  then show ?case
    by (auto simp: Let_def bind_sum_Inr_iff getPermissions_Inr role_allows_iff
        dest!: check_members_sound split: if_splits option.splits)
qed simp

lemma check_bindings_total:
  assumes "\<forall>g e. GetGroupMembersSnapshot env ws g \<noteq> Inl e" "\<forall>r e. GetRoleSnapshot env ws r \<noteq> Inl e"
  shows "\<exists>ok. check_bindings env userName p (getPermissions env ws) (getGroupMembers env ws) skip bs = Inr ok"
proof (induction bs)
  case (Cons b bs)
  obtain found where "check_members userName (getGroupMembers env ws) skip (Binding_Members b) = Inr found"
    using check_members_total [OF assms(1)] by blast
  moreover have "getPermissions env ws (Binding_Role b) \<in> range Inr"
    using assms(2)
    by (cases "GetRoleSnapshot env ws (TrimPrefix (Binding_Role b) ''roles/'')")
      (auto simp: getPermissions_def GetPermissions_def)
  ultimately show ?case using Cons by (auto simp: Let_def split: option.split)
qed simp

lemma checkWithErrors_sound:
  "checkWithErrors env user p policy (getPermissions env ws) (getGroupMembers env ws) skip = Inr ok \<Longrightarrow>
   ok \<longleftrightarrow> grants env ws skip user p policy"
  unfolding checkWithErrors_def grants_def by (rule check_bindings_sound)

lemma checkWithErrors_total:
  assumes "store_up env ws ids"
  shows "checkWithErrors env user p policy (getPermissions env ws) (getGroupMembers env ws) skip =
         Inr (grants env ws skip user p policy)"
proof -
  from assms check_bindings_total [of env ws] obtain ok where
    "checkWithErrors env user p policy (getPermissions env ws) (getGroupMembers env ws) skip = Inr ok"
    unfolding store_up_def checkWithErrors_def by blast
  with checkWithErrors_sound [OF this] show ?thesis by simp
qed

lemma check_projects_sound:
  "check_projects env p user ws ids = Inr ok \<Longrightarrow> ok \<longleftrightarrow> (\<forall>i \<in> set ids. project_grants env ws user p i)"
proof (induction ids)
  case (Cons i ids)
  then obtain project policy ok1 where
    *: "GetProject env ws i = Inr (Some project)"
      "GetProjectIamPolicySnapshot env ws (Project_ResourceID project) = Inr policy"
      "checkWithErrors env user p policy (getPermissions env ws) (getGroupMembers env ws) False = Inr ok1"
    and ok: "(if \<not> ok1 then Inr False else check_projects env p user ws ids) = Inr ok"
    by (auto simp: bind_sum_Inr_iff wrap_error_Inr_iff split: option.splits)
  from * checkWithErrors_sound [OF *(3)] have "ok1 \<longleftrightarrow> project_grants env ws user p i"
    by (simp add: project_grants_def)
  with ok Cons.IH show ?case by (cases ok1) auto
qed simp

lemma CheckPermission_sound:
  assumes "CheckPermission env saas p user ws ids = Inr ok"
  shows "ok \<longleftrightarrow> workspace_grants env saas ws user p \<or> ids \<noteq> [] \<and> (\<forall>i \<in> set ids. project_grants env ws user p i)"
proof -
  from assms obtain policy ok1 where
    *: "GetWorkspaceIamPolicySnapshot env ws = Inr policy"
      "checkWithErrors env user p policy (getPermissions env ws) (getGroupMembers env ws) saas = Inr ok1"
    and ok: "(if ok1 then Inr True else if ids \<noteq> [] then check_projects env p user ws ids else Inr False) = Inr ok"
    by (auto simp: CheckPermission_def bind_sum_Inr_iff wrap_error_Inr_iff)
  from * checkWithErrors_sound [OF *(2)] have "ok1 \<longleftrightarrow> workspace_grants env saas ws user p"
    by (simp add: workspace_grants_def)
  with ok show ?thesis by (auto split: if_splits dest: check_projects_sound)
qed

lemma check_projects_total:
  assumes "store_up env ws all"
  shows "set ids \<subseteq> set all \<Longrightarrow> \<exists>ok. check_projects env p user ws ids = Inr ok"
proof (induction ids)
  case (Cons i ids)
  with assms obtain project policy where
    "GetProject env ws i = Inr (Some project)"
    "GetProjectIamPolicySnapshot env ws (Project_ResourceID project) = Inr policy"
    unfolding store_up_def by (metis list.set_intros(1) subsetD)
  moreover obtain ok where "check_projects env p user ws ids = Inr ok"
    using Cons by auto
  ultimately show ?case by (simp add: checkWithErrors_total [OF assms])
qed simp

text \<open>
  C25. While the store answers, a permission is granted exactly when the policy of the workspace grants it,
  or projects are named and the policy of every one of them does: by a binding whose condition holds
  now, whose role has the permission, and one of whose members is everyone, the user, or a group with
  the user in it.  In the hosted service, everyone does not count in the policy of the workspace.
\<close>
theorem check_permission_iff:
  assumes "store_up env workspaceID projectIDs"
  shows "CheckPermission env saas p user workspaceID projectIDs =
    Inr (workspace_grants env saas workspaceID user p \<or>
         projectIDs \<noteq> [] \<and> (\<forall>i \<in> set projectIDs. project_grants env workspaceID user p i))"
proof -
  obtain policy where "GetWorkspaceIamPolicySnapshot env workspaceID = Inr policy"
    using assms unfolding store_up_def by (metis sum.exhaust)
  moreover obtain ok where "check_projects env p user workspaceID projectIDs = Inr ok"
    using check_projects_total [OF assms subset_refl] by blast
  ultimately have "\<exists>ok. CheckPermission env saas p user workspaceID projectIDs = Inr ok"
    by (auto simp: CheckPermission_def checkWithErrors_total [OF assms])
  then show ?thesis by (auto dest: CheckPermission_sound)
qed

text \<open>A small store: a group of the workspace owns it, in the project everyone may create plans.\<close>

definition sample_access :: access_env where
  "sample_access =
     \<lparr>cel_Partial = \<lambda>e t. if e = ''expired'' then Inr (CelBool False) else Inr CelOther,
      time_Now = 0, Quote = id,
      GetGroupByName = \<lambda>ws g. Inr None, GetAccountByEmail = \<lambda>e. Inr None, ListUsers = Inr [],
      GetWorkspaceIamPolicySnapshot = \<lambda>ws. Inr (Some \<lparr>IamPolicy_Bindings =
        [\<lparr>Binding_Role = ''roles/owner'', Binding_Members = [''groups/dba''], Binding_Condition = None\<rparr>]\<rparr>),
      GetProjectIamPolicySnapshot = \<lambda>ws p. Inr (Some \<lparr>IamPolicy_Bindings =
        (if p = ''hr'' then
           [\<lparr>Binding_Role = ''roles/dev'', Binding_Members = [AllUsers], Binding_Condition = None\<rparr>]
         else [])\<rparr>),
      GetProject = \<lambda>ws p. Inr (Some \<lparr>Project_ResourceID = p, Project_Workspace = ''ws'',
        Project_DataClassificationConfigId = [], Project_Deleted = False\<rparr>),
      GetRoleSnapshot = \<lambda>ws r. Inr (Some \<lparr>Role_ResourceID = r, Role_Workspace = ws, Role_Name = r,
        Role_Description = [], Role_Permissions = Some [(''bb.plans.create'', True)], Role_Predefined = False\<rparr>),
      GetGroupMembersSnapshot = \<lambda>ws g. Inr (Some [(''users/ann'', True)]),
      GetUserGroupsSnapshot = \<lambda>ws u. Inr []\<rparr>"

definition sample_user :: "string \<Rightarrow> UserMessage" where
  "sample_user email =
     \<lparr>User_Email = email, User_Name = [], User_Type = END_USER, User_MemberDeleted = False\<rparr>"

lemma sample_access_up: "store_up sample_access ws ids"
  by (simp add: store_up_def sample_access_def)

theorem check_permission_iff_witness:
  "CheckPermission sample_access True ''bb.plans.create'' (sample_user ''ann'') ''ws'' [] = Inr True \<and>
   CheckPermission sample_access True ''bb.plans.create'' (sample_user ''bob'') ''ws'' [''hr''] = Inr True \<and>
   CheckPermission sample_access True ''bb.plans.create'' (sample_user ''bob'') ''ws'' [''hr'', ''it''] = Inr False"
  unfolding check_permission_iff [OF sample_access_up] by code_simp


section \<open>Requests that pass the interceptor\<close>

text \<open>The lists and messages of a request are what its descriptor says: no value of another kind.\<close>

definition request_kinds :: "proto_message option \<Rightarrow> bool" where
  "request_kinds request \<longleftrightarrow>
     (\<forall>pm. request = Some pm \<longrightarrow>
        (\<forall>v. field pm ''names'' = Some v \<longrightarrow> v \<in> range FList) \<and>
        (\<forall>v. field pm ''requests'' = Some v \<longrightarrow> v \<in> FList ` {vs. set vs \<subseteq> range (FMessage \<circ> Some)}))"

lemma bind_outcome_Panic: "bind_outcome r f = Panic \<longleftrightarrow> r = Panic \<or> (\<exists>x. r = Ok x \<and> f x = Panic)"
  by (cases r) simp_all

lemma wrap_Panic [simp]: "wrap g r = Panic \<longleftrightarrow> r = Panic"
  by (cases r) simp_all

lemmas extractor_defs = extractNone_def extractFromName_def extractFromParent_def extractFromResource_def
  extractFromProject_def extractFromInstanceField_def extractField_def extractFromDatabaseUpdate_def
  extractFromBatchIssuesStatus_def inner_name_def extractFromUserUpdate_def extractFromProjectUpdate_def
  extractFromInstanceUpdate_def extractFromPlanUpdate_def extractFromIssueUpdate_def
  extractFromSettingUpdate_def extractFromRoleUpdate_def extractFromReleaseUpdate_def
  extractFromReviewConfigUpdate_def extractFromGroupUpdate_def extractFromIdentityProviderUpdate_def

lemma extractors_no_panic:
  "extractNone show msg \<noteq> Panic" "extractField f show msg \<noteq> Panic" "inner_name t f show msg \<noteq> Panic"
  "extractFromDatabaseUpdate show msg \<noteq> Panic" "extractFromBatchIssuesStatus show msg \<noteq> Panic"
  by (simp_all add: extractNone_def extractField_def inner_name_def extractFromDatabaseUpdate_def
      extractFromBatchIssuesStatus_def Let_def split: option.splits)

lemma static_no_panic:
  "list_all (\<lambda>(n, ext). \<forall>show msg. ext show msg \<noteq> Panic) aclResourceExtractors"
  by (simp add: aclResourceExtractors_def extractors_no_panic extractFromName_def extractFromParent_def
      extractFromResource_def extractFromProject_def extractFromInstanceField_def extractFromUserUpdate_def
      extractFromProjectUpdate_def extractFromInstanceUpdate_def extractFromPlanUpdate_def
      extractFromIssueUpdate_def extractFromSettingUpdate_def extractFromRoleUpdate_def
      extractFromReleaseUpdate_def extractFromReviewConfigUpdate_def extractFromGroupUpdate_def
      extractFromIdentityProviderUpdate_def)

lemma map_of_no_panic: "map_of aclResourceExtractors n = Some ext \<Longrightarrow> ext show msg \<noteq> Panic"
  using static_no_panic by (auto simp: list_all_iff dest!: map_of_SomeD)

lemma lookupExtractor_no_panic: "lookupExtractor n = Some ext \<Longrightarrow> ext show msg \<noteq> Panic"
  by (auto simp: lookupExtractor_def extractors_no_panic map_of_no_panic split: if_splits option.splits)

lemma extractSubRequest_no_panic: "extractSubRequest n show msg \<noteq> Panic"
  by (auto simp: extractSubRequest_def lookupExtractor_no_panic extractFromName_def extractors_no_panic
      split: option.splits outcome.splits)

lemma getResourceFromRequest_no_panic:
  assumes "request_kinds req"
  shows "getResourceFromRequest show req m \<noteq> Panic"
proof (cases req)
  case None
  then show ?thesis by (simp add: getResourceFromRequest_def)
next
  case (Some pm)
  have "extractBatchGetNames show pm \<noteq> Panic"
    using assms Some
    by (auto simp: request_kinds_def extractBatchGetNames_def value_List_def bind_outcome_Panic split: option.split)
  moreover have "extractBatchSubRequests short show pm \<noteq> Panic" for short
  proof (cases "field pm ''requests''")
    case (Some v)
    with assms \<open>req = Some pm\<close> obtain vs where vs: "v = FList vs" "set vs \<subseteq> range (FMessage \<circ> Some)"
      by (auto simp: request_kinds_def)
    then have "traverse (\<lambda>x. bind_outcome (value_Message x) (extractSubRequest (batch_inner short) show)) vs \<noteq> Panic"
      by (intro traverse_not_Panic) (auto simp: bind_outcome_Panic value_Message_def extractSubRequest_no_panic)
    with Some vs show ?thesis by (simp add: extractBatchSubRequests_def value_List_def bind_outcome_Panic)
  qed (simp add: extractBatchSubRequests_def)
  ultimately show ?thesis using Some
    by (auto simp: getResourceFromRequest_def lookupExtractor_no_panic split: list.split option.split)
qed

lemma of_names_no_panic: "of_names r \<noteq> Panic"
  by (cases r) (simp_all add: of_names_def)

lemma name_kinds_no_panic:
  "workspace_name name \<noteq> Panic" "project_name name \<noteq> Panic" "database_name env ws name \<noteq> Panic"
  "instance_name env ws name \<noteq> Panic"
  by (simp_all add: workspace_name_def project_name_def database_name_def instance_name_def
      bind_outcome_Panic of_names_no_panic split: option.split sum.split)

lemma name_resources_no_panic: "name_resources env ws name \<noteq> Panic"
  by (simp add: name_resources_def name_kinds_no_panic)

lemma populate_no_panic: "request_kinds req \<Longrightarrow> populateRawResources env ws req m \<noteq> Panic"
  by (auto simp: populateRawResources_def bind_outcome_Panic getResourceFromRequest_no_panic Let_def
      intro!: traverse_not_Panic name_resources_no_panic)

lemma acl_check_no_panic: "request_kinds req \<Longrightarrow> acl_check_body env ctx req m \<noteq> Panic"
  by (auto simp: acl_check_body_def bind_outcome_Panic populate_no_panic Let_def
      split: option.split sum.split)

text \<open>What it means that a user may use a resource with a permission.\<close>

definition allowed :: "acl_env \<Rightarrow> string \<Rightarrow> UserMessage \<Rightarrow> string \<Rightarrow> Resource \<Rightarrow> bool" where
  "allowed env workspaceID user p r \<longleftrightarrow>
     (case Resource_Type r of
        ResourceTypeWorkspace \<Rightarrow> workspace_grants (acl_access env) (acl_saas env) workspaceID user p
      | ResourceTypeProject \<Rightarrow>
          workspace_grants (acl_access env) (acl_saas env) workspaceID user p \<or>
          project_grants (acl_access env) workspaceID user p (Resource_ID r)
      | ResourceTypeOther _ \<Rightarrow> False)"

text \<open>The resource is of the workspace of the request.\<close>

definition isolated :: "acl_env \<Rightarrow> string \<Rightarrow> Resource \<Rightarrow> bool" where
  "isolated env workspaceID r \<longleftrightarrow>
     (case Resource_Type r of
        ResourceTypeWorkspace \<Rightarrow> Resource_ID r = workspaceID
      | ResourceTypeProject \<Rightarrow>
          (case GetProject (acl_access env) workspaceID (Resource_ID r) of
             Inr (Some project) \<Rightarrow> Project_Workspace project = workspaceID
           | _ \<Rightarrow> False)
      | ResourceTypeOther _ \<Rightarrow> True)"

lemma check_isolation_Inr: "check_isolation env ws rs = Inr u \<longleftrightarrow> (\<forall>r \<in> set rs. isolated env ws r)"
proof (induction rs)
  case (Cons r rs)
  show ?case
  proof (cases "Resource_Type r")
    case ResourceTypeProject
    with Cons show ?thesis
      by (simp add: isolated_def split: sum.split option.split)
  qed (use Cons in \<open>simp_all add: isolated_def\<close>)
qed simp

lemma split_resources_Inr:
  "split_resources rs ws ps = Inr (w, ids) \<Longrightarrow>
   (w \<longleftrightarrow> ws \<or> (\<exists>r \<in> set rs. Resource_Type r = ResourceTypeWorkspace)) \<and>
   set ids = set ps \<union> Resource_ID ` {r \<in> set rs. Resource_Type r = ResourceTypeProject} \<and>
   (\<forall>r \<in> set rs. \<forall>n. Resource_Type r \<noteq> ResourceTypeOther n)"
proof (induction rs arbitrary: ws ps)
  case (Cons r rs)
  then show ?case by (cases "Resource_Type r") (auto split: if_splits)
qed simp

lemma doIAMPermissionCheck_sound:
  assumes "doIAMPermissionCheck env ws m user a = Inr (True, extra)"
    and "\<not> IsAuthenticationSkipped m a" "Auth_AuthMethod a = AuthMethodIAM" "perm_order (acl_order env)"
  shows "\<forall>r \<in> set (Auth_Resources a). allowed env ws user (Auth_Permission a) r"
proof -
  let ?check = "CheckPermission (acl_access env) (acl_saas env) (Auth_Permission a) user ws"
  from assms obtain w ids where split: "split_resources (Auth_Resources a) False [] = Inr (w, ids)"
    and w: "w \<Longrightarrow> ?check [] = Inr True" and ids: "ids \<noteq> [] \<Longrightarrow> ?check (acl_order env ids) = Inr True"
    by (auto simp: doIAMPermissionCheck_def bind_sum_Inr_iff Let_def split: if_splits)
  have set_order: "set (acl_order env ids) = set ids" by (rule perm_order_set [OF assms(4)])
  note kinds = split_resources_Inr [OF split]
  have "w \<Longrightarrow> workspace_grants (acl_access env) (acl_saas env) ws user (Auth_Permission a)"
    using CheckPermission_sound [OF w] by simp
  moreover have "workspace_grants (acl_access env) (acl_saas env) ws user (Auth_Permission a) \<or>
      project_grants (acl_access env) ws user (Auth_Permission a) i" if "i \<in> set ids" for i
    using CheckPermission_sound [OF ids] set_order that by (cases ids) auto
  moreover have "Resource_ID r \<in> set ids"
    if "r \<in> set (Auth_Resources a)" "Resource_Type r = ResourceTypeProject" for r
    using kinds that by auto
  ultimately show ?thesis using kinds
    by (auto simp: allowed_def split: ResourceType.split)
qed

lemma check_user_sound:
  assumes "check_user env ctx req m a = Inr u" "\<not> IsAuthenticationSkipped m a" "perm_order (acl_order env)"
  shows "\<exists>user. ctx_User ctx = Some (Some user) \<and> ctx_WorkspaceID ctx \<noteq> [] \<and>
     (\<forall>r \<in> set (Auth_Resources a). isolated env (ctx_WorkspaceID ctx) r \<and>
        (Auth_AuthMethod a = AuthMethodIAM \<longrightarrow>
           allowed env (ctx_WorkspaceID ctx) user (Auth_Permission a) r \<and>
           (hasAllowMissingEnabled req \<longrightarrow>
              allowed env (ctx_WorkspaceID ctx) user (Replace_first (Auth_Permission a) ''.update'' ''.create'') r)))"
proof -
  let ?ws = "ctx_WorkspaceID ctx"
  from assms(1) obtain user where user: "ctx_User ctx = Some (Some user)" "?ws \<noteq> []"
    and iso: "\<forall>r \<in> set (Auth_Resources a). isolated env ?ws r"
    and rest: "(case doIAMPermissionCheck env ?ws m user a of
        Inl e \<Rightarrow> if isStoreError e then Inl (NewError CodeUnavailable (TemporarilyUnavailable m))
                 else Inl (NewError CodeInternal (CheckFailed m [] e))
      | Inr (ok, extra) \<Rightarrow>
          if \<not> ok then Inl (NewError CodePermissionDenied (PermissionDenied m [Auth_Permission a] extra))
          else if hasAllowMissingEnabled req then check_create env ?ws m user a else Inr ()) = Inr u"
    by (auto simp: check_user_def Let_def bind_sum_Inr_iff check_isolation_Inr
        split: option.splits if_splits)
  from rest obtain extra where ok: "doIAMPermissionCheck env ?ws m user a = Inr (True, extra)"
    and create: "hasAllowMissingEnabled req \<Longrightarrow> check_create env ?ws m user a = Inr u"
    by (auto split: sum.splits if_splits)
  have "allowed env ?ws user (Replace_first (Auth_Permission a) ''.update'' ''.create'') r"
    if iam: "Auth_AuthMethod a = AuthMethodIAM" and "hasAllowMissingEnabled req" and "r \<in> set (Auth_Resources a)" for r
  proof -
    let ?a = "\<lparr>Auth_Audit = False, Auth_AllowWithoutCredential = False,
      Auth_Permission = Replace_first (Auth_Permission a) ''.update'' ''.create'',
      Auth_AuthMethod = Auth_AuthMethod a, Auth_Resources = Auth_Resources a\<rparr>"
    from create [OF that(2)] obtain extra where "doIAMPermissionCheck env ?ws m user ?a = Inr (True, extra)"
      by (auto simp: check_create_def Let_def split: sum.splits if_splits)
    from doIAMPermissionCheck_sound [OF this] assms(2,3) that show ?thesis
      by (auto simp: IsAuthenticationSkipped_def)
  qed
  with user iso doIAMPermissionCheck_sound [OF ok assms(2) _ assms(3)] show ?thesis by auto
qed

lemma populate_resources_nonempty:
  "populateRawResources env ws req m = Ok rs \<Longrightarrow> ws \<noteq> [] \<Longrightarrow> rs \<noteq> []"
  by (auto simp: populateRawResources_def bind_Ok_iff workspace_resource_def Let_def split: if_splits)

text \<open>
  C5. A request that the interceptor lets through, other than to a method open to everyone, has a user and
  a workspace; it touches at least one resource; every resource of it is of that workspace; and, where the
  method asks for a permission, the user has it on every one of them, from the policy of the workspace or of
  the project.  A request that may create what it does not find needs the permission to create as well.
\<close>
theorem passed_request_authorized:
  assumes "WrapUnary env ctx req procedure next = Inr r" "request_kinds req"
    "ctx_AuthContext ctx = Some a" "\<not> IsAuthenticationSkipped procedure a" "perm_order (acl_order env)"
  shows "\<exists>user rs. ctx_User ctx = Some (Some user) \<and> ctx_WorkspaceID ctx \<noteq> [] \<and>
    populateRawResources env (ctx_WorkspaceID ctx) req procedure = Ok rs \<and> rs \<noteq> [] \<and>
    (\<forall>x \<in> set rs. isolated env (ctx_WorkspaceID ctx) x \<and>
       (Auth_AuthMethod a = AuthMethodIAM \<longrightarrow>
          allowed env (ctx_WorkspaceID ctx) user (Auth_Permission a) x \<and>
          (hasAllowMissingEnabled req \<longrightarrow>
             allowed env (ctx_WorkspaceID ctx) user (Replace_first (Auth_Permission a) ''.update'' ''.create'') x)))"
proof -
  from assms(1) acl_check_no_panic [OF assms(2)] have "acl_check_body env ctx req procedure = Ok ()"
    by (auto simp: WrapUnary_def doACLCheck_def split: option.splits outcome.splits)
  then obtain rs where rs: "populateRawResources env (ctx_WorkspaceID ctx) req procedure = Ok rs"
    and cu: "(case check_user env ctx req procedure (a\<lparr>Auth_Resources := rs\<rparr>) of
        Inl e \<Rightarrow> Err e | Inr u \<Rightarrow> Ok u) = Ok ()"
    using assms(3,4) by (auto simp: acl_check_body_def bind_Ok_iff wrap_Ok_iff Let_def IsAuthenticationSkipped_def)
  from cu have "check_user env ctx req procedure (a\<lparr>Auth_Resources := rs\<rparr>) = Inr ()"
    by (cases "check_user env ctx req procedure (a\<lparr>Auth_Resources := rs\<rparr>)") simp_all
  from check_user_sound [OF this _ assms(5)] assms(4) populate_resources_nonempty [OF rs] rs show ?thesis
    by (auto simp: IsAuthenticationSkipped_def)
qed

text \<open>A user of the sample creates a plan in the project.\<close>

definition sample_acl :: acl_env where
  "sample_acl =
     \<lparr>acl_access = sample_access, acl_saas = True,
      acl_GetDatabase = \<lambda>ws i d. Inr (Some \<lparr>Database_ProjectID = ''hr'', Database_InstanceID = i,
        Database_DatabaseName = d, Database_EffectiveEnvironmentID = None\<rparr>),
      acl_GetInstance = \<lambda>ws i. Inr True, acl_show = \<lambda>v. [], acl_order = insertion_order\<rparr>"

definition sample_auth :: AuthContext where
  "sample_auth = \<lparr>Auth_Audit = False, Auth_AllowWithoutCredential = False,
     Auth_Permission = ''bb.plans.create'', Auth_AuthMethod = AuthMethodIAM, Auth_Resources = []\<rparr>"

definition sample_ctx :: request_context where
  "sample_ctx = \<lparr>ctx_AuthContext = Some sample_auth, ctx_User = Some (Some (sample_user ''bob'')),
     ctx_WorkspaceID = ''ws''\<rparr>"

definition create_plan :: "proto_message option" where
  "create_plan = Some (Message ''CreatePlanRequest'' [(''parent'', FString ''projects/hr'')])"

definition CreatePlan_procedure :: string where
  "CreatePlan_procedure = ''/bytebase.v1.PlanService/CreatePlan''"

theorem passed_request_authorized_witness:
  "\<exists>user rs. ctx_User sample_ctx = Some (Some user) \<and> ctx_WorkspaceID sample_ctx \<noteq> [] \<and>
    populateRawResources sample_acl (ctx_WorkspaceID sample_ctx) create_plan CreatePlan_procedure = Ok rs \<and> rs \<noteq> [] \<and>
    (\<forall>x \<in> set rs. isolated sample_acl (ctx_WorkspaceID sample_ctx) x \<and>
       (Auth_AuthMethod sample_auth = AuthMethodIAM \<longrightarrow>
          allowed sample_acl (ctx_WorkspaceID sample_ctx) user (Auth_Permission sample_auth) x \<and>
          (hasAllowMissingEnabled create_plan \<longrightarrow>
             allowed sample_acl (ctx_WorkspaceID sample_ctx) user
               (Replace_first (Auth_Permission sample_auth) ''.update'' ''.create'') x)))"
proof (rule passed_request_authorized)
  show "WrapUnary sample_acl sample_ctx create_plan CreatePlan_procedure () = Inr ()" by code_simp
  show "request_kinds create_plan" by (simp add: request_kinds_def create_plan_def field_def)
  show "ctx_AuthContext sample_ctx = Some sample_auth" by (simp add: sample_ctx_def)
  show "\<not> IsAuthenticationSkipped CreatePlan_procedure sample_auth" by code_simp
  show "perm_order (acl_order sample_acl)" by (simp add: sample_acl_def)
qed


section \<open>Where the check falls short of what it means to do\<close>

text \<open>
  A panic during the check is recovered from, and the request goes through unchecked.  (With lists and
  messages of their kinds the modelled code does not panic; what it calls may.)
\<close>

lemma panic_lets_through:
  "acl_check_body env ctx req procedure = Panic \<Longrightarrow> WrapUnary env ctx req procedure next = Inr next"
  by (simp add: WrapUnary_def doACLCheck_def)

text \<open>
  A batch method whose request has no \<open>requests\<close> is checked against the workspace only, whatever it names.
\<close>

lemma batch_without_requests:
  assumes "short \<noteq> ''BatchUpdateIssuesStatus''" "HasPrefix short ''Batch''" "\<not> HasPrefix short ''BatchGet''"
    "Split procedure ''/'' = [a, b, short]" "field pm ''requests'' = None"
  shows "populateRawResources env ws (Some pm) procedure = Ok (workspace_resource ws)"
  using assms
  by (simp add: populateRawResources_def getResourceFromRequest_def extractBatchSubRequests_def Let_def)

lemma run_tasks_at_workspace:
  "populateRawResources env ws
     (Some (Message ''BatchRunTasksRequest''
        [(''parent'', FString ''projects/hr/plans/1/rollout/stages/prod''), (''tasks'', FList [])]))
     ''/bytebase.v1.RolloutService/BatchRunTasks'' = Ok (workspace_resource ws)"
proof -
  have "Split ''/bytebase.v1.RolloutService/BatchRunTasks'' ''/'' =
      ['''', ''bytebase.v1.RolloutService'', ''BatchRunTasks'']"
    by code_simp
  then show ?thesis
    by (intro batch_without_requests) (auto simp: field_def HasPrefix_def)
qed

text \<open>A method of the API that is not in the map is checked against the workspace only.\<close>

lemma unlisted_method:
  "map_option (\<lambda>e. ()) (lookupExtractor ''GetDatabaseCatalog'') = None"
  "map_option (\<lambda>e. ()) (lookupExtractor ''UpdateDatabaseGroup'') = None"
  "map_option (\<lambda>e. ()) (lookupExtractor ''DeletePolicy'') = None"
  by code_simp+

text \<open>A stream is checked before its message is there: the resource is the workspace, not the database.\<close>

lemma stream_checked_before_receipt:
  "populateRawResources env ws (Some (Message ''AdminExecuteRequest'' [(''name'', FString [])]))
     ''/bytebase.v1.SQLService/AdminExecute'' = Ok (workspace_resource ws)"
proof -
  have "Split ''/bytebase.v1.SQLService/AdminExecute'' ''/'' =
      ['''', ''bytebase.v1.SQLService'', ''AdminExecute'']"
    by code_simp
  moreover have "map_of aclResourceExtractors ''AdminExecute'' = Some extractFromName"
    by (simp add: aclResourceExtractors_def)
  ultimately show ?thesis
    by (simp add: populateRawResources_def getResourceFromRequest_def lookupExtractor_def HasPrefix_def
        extractFromName_def extractField_def field_def value_String_def Let_def)
qed

text \<open>The manager accepts a service account in a group; listing the users of the group drops it.\<close>

lemma group_drops_service_account:
  assumes "GetGroupByName env ws g =
      Inr (Some \<lparr>Group_ID = [], Group_Email = [], Group_Members = [FormatServiceAccountEmail e]\<rparr>)"
    "HasPrefix g GroupPrefix"
  shows "GetUsersByMember env ws g = []"
proof -
  from assms(2) obtain t where "g = ''groups/'' @ t" by (auto simp: GroupPrefix_def elim: HasPrefixE)
  then have "\<not> HasPrefix g UserNamePrefix" "\<not> HasPrefix g ServiceAccountNamePrefix"
    "\<not> HasPrefix g WorkloadIdentityNamePrefix"
    by (simp_all add: resource_consts HasPrefix_def)
  moreover have "getUserByIdentifier env (FormatServiceAccountEmail e) UserNamePrefix = None"
  proof -
    have "list_all collection_prefix [UserNamePrefix]" by simp
    from GetNameParentTokens_iff [OF this]
    have "GetNameParentTokens (FormatServiceAccountEmail e) [UserNamePrefix] \<noteq> Inr ts" for ts
      by (auto simp: length_Suc_conv FormatServiceAccountEmail_def resource_consts)
    then have "GetUserEmail (FormatServiceAccountEmail e) \<noteq> Inr r" for r
      by (simp add: GetUserEmail_def ParseUserResourceRef_def bind_sum_Inr_iff wrap_error_Inr_iff)
    then show ?thesis
      by (simp add: getUserByIdentifier_def resource_consts split: sum.split)
  qed
  ultimately show ?thesis using assms
    by (simp add: GetUsersByMember_def group_members_def)
qed

text \<open>The roles found for a user are those of the valid bindings that contain the user, each once.\<close>

lemma uniq_loop_set: "set (uniq_loop seen xs) = set xs - seen"
  by (induction xs arbitrary: seen) auto

lemma distinct_uniq_loop: "distinct (uniq_loop seen xs)"
  by (induction xs arbitrary: seen) (auto simp: uniq_loop_set)

lemma user_roles_correct:
  "distinct (GetUserRolesInIamPolicy env ws user policies) \<and>
   set (GetUserRolesInIamPolicy env ws user policies) =
     {Binding_Role b | b policy. policy \<in> set policies \<and> b \<in> set (IamPolicy_Bindings policy) \<and>
        ValidateIAMBinding env b \<and> binding_hasUser env ws (formatMemberNameByType user) b}"
  by (auto simp: GetUserRolesInIamPolicy_def Uniq_def distinct_uniq_loop uniq_loop_set
      GetUserIAMPolicyBindings_def Let_def)

end
