(* ===== verification/Roles.thy ===== *)
theory Roles
  imports IAM
begin

text \<open>
  The permissions and the predefined roles: \<^verbatim>\<open>backend/common/permission/permission.go\<close> and
  \<^verbatim>\<open>backend/store/predefined_roles.go\<close>; and the roles of the metadata store with their cache,
  \<^verbatim>\<open>backend/store/role.go\<close>.  The table \<^verbatim>\<open>role\<close> is a list of rows, with the primary key of the
  schema; the result of a statement is an error or what the statement says.  The cache keeps what it
  is given until it is removed or, at any time, dropped.
\<close>

section \<open>Predefined roles\<close>

text \<open>The constants of \<^verbatim>\<open>common/permission\<close>, in the order of their declaration.\<close>

definition declaredPermissions :: "string list" where
  "declaredPermissions =
     [''bb.accessGrants.activate'', ''bb.accessGrants.create'', ''bb.accessGrants.get'',
      ''bb.accessGrants.list'', ''bb.accessGrants.revoke'', ''bb.auditLogs.export'',
      ''bb.auditLogs.search'', ''bb.changelogs.get'', ''bb.changelogs.list'',
      ''bb.databaseCatalogs.get'', ''bb.databaseCatalogs.update'', ''bb.databaseGroups.create'',
      ''bb.databaseGroups.delete'', ''bb.databaseGroups.get'', ''bb.databaseGroups.list'',
      ''bb.databaseGroups.update'', ''bb.databases.check'', ''bb.databases.get'',
      ''bb.databases.getSchema'', ''bb.databases.list'', ''bb.databases.sync'', ''bb.databases.update'',
      ''bb.identityProviders.create'', ''bb.identityProviders.delete'', ''bb.identityProviders.get'',
      ''bb.identityProviders.update'', ''bb.instances.create'', ''bb.instances.delete'',
      ''bb.instances.get'', ''bb.instances.list'', ''bb.instances.sync'', ''bb.instances.undelete'',
      ''bb.instances.update'', ''bb.instanceRoles.get'', ''bb.instanceRoles.list'',
      ''bb.issueComments.create'', ''bb.issueComments.list'', ''bb.issueComments.update'',
      ''bb.issues.create'', ''bb.issues.get'', ''bb.issues.list'', ''bb.issues.update'',
      ''bb.planCheckRuns.get'', ''bb.planCheckRuns.run'', ''bb.plans.create'', ''bb.plans.get'',
      ''bb.plans.list'', ''bb.plans.update'', ''bb.policies.create'', ''bb.policies.delete'',
      ''bb.policies.get'', ''bb.policies.list'', ''bb.policies.update'',
      ''bb.policies.getMaskingRulePolicy'', ''bb.policies.updateMaskingRulePolicy'',
      ''bb.policies.createMaskingRulePolicy'', ''bb.policies.deleteMaskingRulePolicy'',
      ''bb.policies.getMaskingExemptionPolicy'', ''bb.policies.updateMaskingExemptionPolicy'',
      ''bb.policies.createMaskingExemptionPolicy'', ''bb.policies.deleteMaskingExemptionPolicy'',
      ''bb.projects.create'', ''bb.projects.delete'', ''bb.projects.get'', ''bb.projects.getIamPolicy'',
      ''bb.projects.list'', ''bb.projects.setIamPolicy'', ''bb.projects.undelete'',
      ''bb.projects.update'', ''bb.releases.check'', ''bb.releases.create'', ''bb.releases.delete'',
      ''bb.releases.get'', ''bb.releases.list'', ''bb.releases.undelete'', ''bb.releases.update'',
      ''bb.reviewConfigs.create'', ''bb.reviewConfigs.delete'', ''bb.reviewConfigs.get'',
      ''bb.reviewConfigs.list'', ''bb.reviewConfigs.update'', ''bb.revisions.create'',
      ''bb.revisions.delete'', ''bb.revisions.get'', ''bb.revisions.list'', ''bb.roles.create'',
      ''bb.roles.delete'', ''bb.roles.list'', ''bb.roles.get'', ''bb.roles.update'',
      ''bb.rollouts.create'', ''bb.rollouts.get'', ''bb.rollouts.list'', ''bb.serviceAccounts.create'',
      ''bb.serviceAccounts.delete'', ''bb.serviceAccounts.get'', ''bb.serviceAccounts.list'',
      ''bb.serviceAccounts.undelete'', ''bb.serviceAccounts.update'', ''bb.subscription.manage'',
      ''bb.settings.get'', ''bb.settings.list'', ''bb.settings.set'', ''bb.settings.getEnvironment'',
      ''bb.settings.setEnvironment'', ''bb.settings.getWorkspaceProfile'',
      ''bb.settings.setWorkspaceProfile'', ''bb.sheets.create'', ''bb.sheets.get'',
      ''bb.sheets.update'', ''bb.sql.select'', ''bb.sql.ddl'', ''bb.sql.dml'', ''bb.sql.explain'',
      ''bb.sql.info'', ''bb.sql.admin'', ''bb.taskRuns.create'', ''bb.taskRuns.list'',
      ''bb.groups.create'', ''bb.groups.delete'', ''bb.groups.get'', ''bb.groups.list'',
      ''bb.groups.update'', ''bb.users.create'', ''bb.users.delete'', ''bb.users.get'',
      ''bb.users.list'', ''bb.users.undelete'', ''bb.users.update'', ''bb.users.updateEmail'',
      ''bb.workloadIdentities.create'', ''bb.workloadIdentities.delete'', ''bb.workloadIdentities.get'',
      ''bb.workloadIdentities.list'', ''bb.workloadIdentities.undelete'',
      ''bb.workloadIdentities.update'', ''bb.worksheets.get'', ''bb.worksheets.manage'',
      ''bb.workspaces.getIamPolicy'', ''bb.workspaces.setIamPolicy'', ''bb.workspaces.update'']"

definition WorkspaceAdminRole :: string where "WorkspaceAdminRole = ''workspaceAdmin''"
definition WorkspaceDBARole :: string where "WorkspaceDBARole = ''workspaceDBA''"
definition WorkspaceMemberRole :: string where "WorkspaceMemberRole = ''workspaceMember''"
definition ProjectOwnerRole :: string where "ProjectOwnerRole = ''projectOwner''"
definition ProjectDeveloperRole :: string where "ProjectDeveloperRole = ''projectDeveloper''"
definition SQLEditorUserRole :: string where "SQLEditorUserRole = ''sqlEditorUser''"
definition SQLEditorReadUserRole :: string where "SQLEditorReadUserRole = ''sqlEditorReadUser''"
definition ProjectReleaserRole :: string where "ProjectReleaserRole = ''projectReleaser''"
definition GitOpsServiceAgentRole :: string where "GitOpsServiceAgentRole = ''gitopsServiceAgent''"
definition ProjectViewerRole :: string where "ProjectViewerRole = ''projectViewer''"

definition permissionSet :: "string list \<Rightarrow> bool gomap" where
  "permissionSet perms = map_by id (\<lambda>_. True) perms"

definition workspaceAdminPermissions :: "string list" where
  "workspaceAdminPermissions =
     [''bb.accessGrants.activate'', ''bb.accessGrants.create'', ''bb.accessGrants.get'',
      ''bb.accessGrants.list'', ''bb.accessGrants.revoke'', ''bb.auditLogs.export'',
      ''bb.auditLogs.search'', ''bb.changelogs.get'', ''bb.changelogs.list'',
      ''bb.databaseCatalogs.get'', ''bb.databaseCatalogs.update'', ''bb.databaseGroups.create'',
      ''bb.databaseGroups.delete'', ''bb.databaseGroups.get'', ''bb.databaseGroups.list'',
      ''bb.databaseGroups.update'', ''bb.databases.check'', ''bb.databases.get'',
      ''bb.databases.getSchema'', ''bb.databases.list'', ''bb.databases.sync'', ''bb.databases.update'',
      ''bb.identityProviders.create'', ''bb.identityProviders.delete'', ''bb.identityProviders.get'',
      ''bb.identityProviders.update'', ''bb.instances.create'', ''bb.instances.delete'',
      ''bb.instances.get'', ''bb.instances.list'', ''bb.instances.sync'', ''bb.instances.undelete'',
      ''bb.instances.update'', ''bb.instanceRoles.get'', ''bb.instanceRoles.list'',
      ''bb.issueComments.create'', ''bb.issueComments.list'', ''bb.issueComments.update'',
      ''bb.issues.create'', ''bb.issues.get'', ''bb.issues.list'', ''bb.issues.update'',
      ''bb.planCheckRuns.get'', ''bb.planCheckRuns.run'', ''bb.plans.create'', ''bb.plans.get'',
      ''bb.plans.list'', ''bb.plans.update'', ''bb.policies.create'', ''bb.policies.delete'',
      ''bb.policies.get'', ''bb.policies.list'', ''bb.policies.update'',
      ''bb.policies.createMaskingExemptionPolicy'', ''bb.policies.updateMaskingExemptionPolicy'',
      ''bb.policies.deleteMaskingExemptionPolicy'', ''bb.policies.getMaskingExemptionPolicy'',
      ''bb.policies.createMaskingRulePolicy'', ''bb.policies.updateMaskingRulePolicy'',
      ''bb.policies.deleteMaskingRulePolicy'', ''bb.policies.getMaskingRulePolicy'',
      ''bb.projects.create'', ''bb.projects.delete'', ''bb.projects.get'', ''bb.projects.getIamPolicy'',
      ''bb.projects.list'', ''bb.projects.setIamPolicy'', ''bb.projects.undelete'',
      ''bb.projects.update'', ''bb.releases.check'', ''bb.releases.create'', ''bb.releases.delete'',
      ''bb.releases.get'', ''bb.releases.list'', ''bb.releases.undelete'', ''bb.releases.update'',
      ''bb.reviewConfigs.create'', ''bb.reviewConfigs.delete'', ''bb.reviewConfigs.get'',
      ''bb.reviewConfigs.list'', ''bb.reviewConfigs.update'', ''bb.revisions.create'',
      ''bb.revisions.delete'', ''bb.revisions.get'', ''bb.revisions.list'', ''bb.roles.create'',
      ''bb.roles.delete'', ''bb.roles.list'', ''bb.roles.get'', ''bb.roles.update'',
      ''bb.rollouts.create'', ''bb.rollouts.get'', ''bb.rollouts.list'', ''bb.settings.get'',
      ''bb.settings.getEnvironment'', ''bb.settings.getWorkspaceProfile'', ''bb.settings.list'',
      ''bb.settings.set'', ''bb.settings.setEnvironment'', ''bb.settings.setWorkspaceProfile'',
      ''bb.sheets.create'', ''bb.sheets.get'', ''bb.sheets.update'', ''bb.taskRuns.create'',
      ''bb.taskRuns.list'', ''bb.groups.create'', ''bb.groups.delete'', ''bb.groups.get'',
      ''bb.groups.list'', ''bb.groups.update'', ''bb.sql.admin'', ''bb.sql.ddl'', ''bb.sql.dml'',
      ''bb.sql.explain'', ''bb.sql.info'', ''bb.sql.select'', ''bb.users.create'', ''bb.users.delete'',
      ''bb.users.get'', ''bb.users.list'', ''bb.users.undelete'', ''bb.users.update'',
      ''bb.users.updateEmail'', ''bb.worksheets.get'', ''bb.worksheets.manage'',
      ''bb.workspaces.getIamPolicy'', ''bb.workspaces.update'', ''bb.workspaces.setIamPolicy'',
      ''bb.subscription.manage'', ''bb.serviceAccounts.create'', ''bb.serviceAccounts.delete'',
      ''bb.serviceAccounts.get'', ''bb.serviceAccounts.list'', ''bb.serviceAccounts.undelete'',
      ''bb.serviceAccounts.update'', ''bb.workloadIdentities.create'', ''bb.workloadIdentities.delete'',
      ''bb.workloadIdentities.get'', ''bb.workloadIdentities.list'', ''bb.workloadIdentities.undelete'',
      ''bb.workloadIdentities.update'']"

definition workspaceDBAPermissions :: "string list" where
  "workspaceDBAPermissions =
     [''bb.accessGrants.activate'', ''bb.accessGrants.create'', ''bb.accessGrants.get'',
      ''bb.accessGrants.list'', ''bb.accessGrants.revoke'', ''bb.auditLogs.export'',
      ''bb.auditLogs.search'', ''bb.changelogs.get'', ''bb.changelogs.list'',
      ''bb.databaseCatalogs.get'', ''bb.databaseCatalogs.update'', ''bb.databaseGroups.create'',
      ''bb.databaseGroups.delete'', ''bb.databaseGroups.get'', ''bb.databaseGroups.list'',
      ''bb.databaseGroups.update'', ''bb.databases.check'', ''bb.databases.get'',
      ''bb.databases.getSchema'', ''bb.databases.list'', ''bb.databases.sync'', ''bb.databases.update'',
      ''bb.instances.create'', ''bb.instances.delete'', ''bb.instances.get'', ''bb.instances.list'',
      ''bb.instances.sync'', ''bb.instances.undelete'', ''bb.instances.update'',
      ''bb.instanceRoles.get'', ''bb.instanceRoles.list'', ''bb.issueComments.create'',
      ''bb.issueComments.list'', ''bb.issueComments.update'', ''bb.issues.create'', ''bb.issues.get'',
      ''bb.issues.list'', ''bb.issues.update'', ''bb.planCheckRuns.get'', ''bb.planCheckRuns.run'',
      ''bb.plans.create'', ''bb.plans.get'', ''bb.plans.list'', ''bb.plans.update'',
      ''bb.policies.create'', ''bb.policies.delete'', ''bb.policies.get'', ''bb.policies.list'',
      ''bb.policies.update'', ''bb.policies.createMaskingExemptionPolicy'',
      ''bb.policies.updateMaskingExemptionPolicy'', ''bb.policies.deleteMaskingExemptionPolicy'',
      ''bb.policies.getMaskingExemptionPolicy'', ''bb.policies.createMaskingRulePolicy'',
      ''bb.policies.updateMaskingRulePolicy'', ''bb.policies.deleteMaskingRulePolicy'',
      ''bb.policies.getMaskingRulePolicy'', ''bb.projects.create'', ''bb.projects.delete'',
      ''bb.projects.get'', ''bb.projects.getIamPolicy'', ''bb.projects.list'',
      ''bb.projects.setIamPolicy'', ''bb.projects.undelete'', ''bb.projects.update'',
      ''bb.releases.check'', ''bb.releases.create'', ''bb.releases.delete'', ''bb.releases.get'',
      ''bb.releases.list'', ''bb.releases.undelete'', ''bb.releases.update'',
      ''bb.reviewConfigs.create'', ''bb.reviewConfigs.delete'', ''bb.reviewConfigs.get'',
      ''bb.reviewConfigs.list'', ''bb.reviewConfigs.update'', ''bb.revisions.create'',
      ''bb.revisions.delete'', ''bb.revisions.get'', ''bb.revisions.list'', ''bb.roles.create'',
      ''bb.roles.delete'', ''bb.roles.list'', ''bb.roles.get'', ''bb.roles.update'',
      ''bb.rollouts.create'', ''bb.rollouts.get'', ''bb.rollouts.list'', ''bb.settings.get'',
      ''bb.settings.getEnvironment'', ''bb.settings.getWorkspaceProfile'', ''bb.settings.list'',
      ''bb.settings.set'', ''bb.settings.setEnvironment'', ''bb.settings.setWorkspaceProfile'',
      ''bb.sheets.create'', ''bb.sheets.get'', ''bb.sheets.update'', ''bb.sql.admin'', ''bb.sql.ddl'',
      ''bb.sql.dml'', ''bb.sql.explain'', ''bb.sql.info'', ''bb.sql.select'', ''bb.users.get'',
      ''bb.users.list'', ''bb.taskRuns.create'', ''bb.taskRuns.list'', ''bb.groups.get'',
      ''bb.groups.list'', ''bb.worksheets.get'', ''bb.worksheets.manage'',
      ''bb.workspaces.getIamPolicy'', ''bb.serviceAccounts.get'', ''bb.serviceAccounts.list'',
      ''bb.workloadIdentities.get'', ''bb.workloadIdentities.list'']"

definition workspaceMemberPermissions :: "string list" where
  "workspaceMemberPermissions =
     [''bb.accessGrants.create'', ''bb.instanceRoles.get'', ''bb.instanceRoles.list'',
      ''bb.policies.get'', ''bb.reviewConfigs.get'', ''bb.reviewConfigs.list'', ''bb.roles.list'',
      ''bb.roles.get'', ''bb.settings.getEnvironment'', ''bb.settings.getWorkspaceProfile'',
      ''bb.groups.create'', ''bb.groups.get'', ''bb.groups.list'', ''bb.users.get'', ''bb.users.list'',
      ''bb.workspaces.getIamPolicy'', ''bb.serviceAccounts.get'', ''bb.serviceAccounts.list'',
      ''bb.workloadIdentities.get'', ''bb.workloadIdentities.list'']"

definition projectOwnerPermissions :: "string list" where
  "projectOwnerPermissions =
     [''bb.accessGrants.activate'', ''bb.accessGrants.create'', ''bb.accessGrants.get'',
      ''bb.accessGrants.list'', ''bb.accessGrants.revoke'', ''bb.auditLogs.export'',
      ''bb.auditLogs.search'', ''bb.changelogs.get'', ''bb.changelogs.list'',
      ''bb.databaseCatalogs.get'', ''bb.databaseCatalogs.update'', ''bb.databaseGroups.create'',
      ''bb.databaseGroups.delete'', ''bb.databaseGroups.get'', ''bb.databaseGroups.list'',
      ''bb.databaseGroups.update'', ''bb.databases.check'', ''bb.databases.get'',
      ''bb.databases.getSchema'', ''bb.databases.list'', ''bb.databases.sync'', ''bb.databases.update'',
      ''bb.issueComments.create'', ''bb.issueComments.list'', ''bb.issueComments.update'',
      ''bb.issues.create'', ''bb.issues.get'', ''bb.issues.list'', ''bb.issues.update'',
      ''bb.planCheckRuns.get'', ''bb.planCheckRuns.run'', ''bb.plans.create'', ''bb.plans.get'',
      ''bb.plans.list'', ''bb.plans.update'', ''bb.policies.create'', ''bb.policies.delete'',
      ''bb.policies.get'', ''bb.policies.list'', ''bb.policies.update'',
      ''bb.policies.createMaskingExemptionPolicy'', ''bb.policies.updateMaskingExemptionPolicy'',
      ''bb.policies.deleteMaskingExemptionPolicy'', ''bb.policies.getMaskingExemptionPolicy'',
      ''bb.policies.createMaskingRulePolicy'', ''bb.policies.updateMaskingRulePolicy'',
      ''bb.policies.deleteMaskingRulePolicy'', ''bb.policies.getMaskingRulePolicy'',
      ''bb.projects.get'', ''bb.projects.getIamPolicy'', ''bb.projects.setIamPolicy'',
      ''bb.projects.update'', ''bb.releases.check'', ''bb.releases.create'', ''bb.releases.delete'',
      ''bb.releases.get'', ''bb.releases.list'', ''bb.releases.undelete'', ''bb.releases.update'',
      ''bb.revisions.create'', ''bb.revisions.delete'', ''bb.revisions.get'', ''bb.revisions.list'',
      ''bb.rollouts.create'', ''bb.rollouts.get'', ''bb.rollouts.list'', ''bb.sheets.create'',
      ''bb.sheets.get'', ''bb.sheets.update'', ''bb.sql.ddl'', ''bb.sql.dml'', ''bb.sql.explain'',
      ''bb.sql.info'', ''bb.sql.select'', ''bb.users.get'', ''bb.users.list'', ''bb.taskRuns.create'',
      ''bb.taskRuns.list'', ''bb.worksheets.get'', ''bb.serviceAccounts.create'',
      ''bb.serviceAccounts.delete'', ''bb.serviceAccounts.get'', ''bb.serviceAccounts.list'',
      ''bb.serviceAccounts.undelete'', ''bb.serviceAccounts.update'', ''bb.workloadIdentities.create'',
      ''bb.workloadIdentities.delete'', ''bb.workloadIdentities.get'', ''bb.workloadIdentities.list'',
      ''bb.workloadIdentities.undelete'', ''bb.workloadIdentities.update'']"

definition projectDeveloperPermissions :: "string list" where
  "projectDeveloperPermissions =
     [''bb.auditLogs.search'', ''bb.changelogs.get'', ''bb.changelogs.list'',
      ''bb.databaseCatalogs.get'', ''bb.databaseGroups.get'', ''bb.databaseGroups.list'',
      ''bb.databases.check'', ''bb.databases.get'', ''bb.databases.getSchema'', ''bb.databases.list'',
      ''bb.databases.sync'', ''bb.issueComments.create'', ''bb.issueComments.list'',
      ''bb.issueComments.update'', ''bb.issues.create'', ''bb.issues.get'', ''bb.issues.list'',
      ''bb.issues.update'', ''bb.planCheckRuns.get'', ''bb.planCheckRuns.run'', ''bb.plans.create'',
      ''bb.plans.get'', ''bb.plans.list'', ''bb.projects.get'', ''bb.projects.getIamPolicy'',
      ''bb.releases.check'', ''bb.releases.get'', ''bb.releases.list'', ''bb.revisions.get'',
      ''bb.revisions.list'', ''bb.rollouts.get'', ''bb.rollouts.list'', ''bb.sheets.create'',
      ''bb.sheets.get'', ''bb.sheets.update'', ''bb.taskRuns.list'']"

definition sqlEditorUserPermissions :: "string list" where
  "sqlEditorUserPermissions =
     [''bb.databaseCatalogs.get'', ''bb.databaseGroups.get'', ''bb.databaseGroups.list'',
      ''bb.databases.check'', ''bb.databases.get'', ''bb.databases.getSchema'', ''bb.databases.list'',
      ''bb.databases.sync'', ''bb.projects.get'', ''bb.projects.getIamPolicy'', ''bb.sql.ddl'',
      ''bb.sql.dml'', ''bb.sql.explain'', ''bb.sql.info'', ''bb.sql.select'', ''bb.worksheets.get'']"

definition sqlEditorReadUserPermissions :: "string list" where
  "sqlEditorReadUserPermissions =
     [''bb.databaseCatalogs.get'', ''bb.databaseGroups.get'', ''bb.databaseGroups.list'',
      ''bb.databases.check'', ''bb.databases.get'', ''bb.databases.getSchema'', ''bb.databases.list'',
      ''bb.databases.sync'', ''bb.projects.get'', ''bb.projects.getIamPolicy'', ''bb.sql.explain'',
      ''bb.sql.info'', ''bb.sql.select'', ''bb.worksheets.get'']"

definition projectReleaserPermissions :: "string list" where
  "projectReleaserPermissions =
     [''bb.databaseCatalogs.get'', ''bb.changelogs.get'', ''bb.databaseGroups.get'',
      ''bb.databaseGroups.list'', ''bb.databases.check'', ''bb.databases.get'',
      ''bb.databases.getSchema'', ''bb.databases.list'', ''bb.issueComments.create'',
      ''bb.issueComments.list'', ''bb.issueComments.update'', ''bb.issues.get'', ''bb.issues.list'',
      ''bb.planCheckRuns.get'', ''bb.planCheckRuns.run'', ''bb.plans.get'', ''bb.plans.list'',
      ''bb.projects.get'', ''bb.projects.getIamPolicy'', ''bb.releases.get'', ''bb.releases.list'',
      ''bb.revisions.get'', ''bb.revisions.list'', ''bb.rollouts.create'', ''bb.rollouts.get'',
      ''bb.rollouts.list'', ''bb.sheets.get'', ''bb.taskRuns.create'', ''bb.taskRuns.list'']"

definition gitOpsServiceAgentPermissions :: "string list" where
  "gitOpsServiceAgentPermissions =
     [''bb.plans.create'', ''bb.plans.get'', ''bb.releases.check'', ''bb.releases.create'',
      ''bb.releases.get'', ''bb.rollouts.create'', ''bb.rollouts.get'', ''bb.rollouts.list'',
      ''bb.taskRuns.create'', ''bb.taskRuns.list'']"

definition projectViewerPermissions :: "string list" where
  "projectViewerPermissions =
     [''bb.databaseCatalogs.get'', ''bb.databaseGroups.get'', ''bb.databaseGroups.list'',
      ''bb.databases.get'', ''bb.databases.getSchema'', ''bb.databases.list'',
      ''bb.issueComments.create'', ''bb.issueComments.list'', ''bb.issueComments.update'',
      ''bb.issues.create'', ''bb.projects.get'', ''bb.projects.getIamPolicy'', ''bb.issues.get'']"

definition predefined_role :: "string \<Rightarrow> string \<Rightarrow> string list \<Rightarrow> RoleMessage" where
  "predefined_role resourceID name perms =
     \<lparr>Role_ResourceID = resourceID, Role_Workspace = [], Role_Name = name, Role_Description = [],
      Role_Permissions = Some (permissionSet perms), Role_Predefined = True\<rparr>"

definition PredefinedRoles :: "RoleMessage list" where
  "PredefinedRoles =
     [predefined_role WorkspaceAdminRole ''Workspace admin'' workspaceAdminPermissions,
      predefined_role WorkspaceDBARole ''Workspace DBA'' workspaceDBAPermissions,
      predefined_role WorkspaceMemberRole ''Workspace member'' workspaceMemberPermissions,
      predefined_role ProjectOwnerRole ''Project owner'' projectOwnerPermissions,
      predefined_role ProjectDeveloperRole ''Project developer'' projectDeveloperPermissions,
      predefined_role SQLEditorUserRole ''SQL Editor User'' sqlEditorUserPermissions,
      predefined_role SQLEditorReadUserRole ''SQL Editor Read User'' sqlEditorReadUserPermissions,
      predefined_role ProjectReleaserRole ''Project releaser'' projectReleaserPermissions,
      predefined_role GitOpsServiceAgentRole ''GitOps Service Agent'' gitOpsServiceAgentPermissions,
      predefined_role ProjectViewerRole ''Project viewer'' projectViewerPermissions]"

text \<open>\<open>predefinedRolesMap\<close>: the last of equal identifiers would win; they are distinct.\<close>

definition GetPredefinedRole :: "string \<Rightarrow> RoleMessage option" where
  "GetPredefinedRole roleID = map_of (map_by Role_ResourceID id PredefinedRoles) roleID"

definition IsPredefinedRole :: "string \<Rightarrow> bool" where
  "IsPredefinedRole roleID \<longleftrightarrow> GetPredefinedRole roleID \<noteq> None"

definition Exist :: "string \<Rightarrow> bool" where
  "Exist p \<longleftrightarrow> p \<in> set declaredPermissions"


section \<open>Which role has what\<close>

text \<open>
  A test that one list is among another which goes on searching where it left off: fast where both are
  almost in the same order.
\<close>

fun among :: "'a list \<Rightarrow> 'a list \<Rightarrow> 'a list \<Rightarrow> bool" where
  "among ys zs [] = True"
| "among ys zs (x # xs) =
     (case dropWhile (\<lambda>z. z \<noteq> x) zs of
        _ # rest \<Rightarrow> among ys rest xs
      | [] \<Rightarrow> (case dropWhile (\<lambda>z. z \<noteq> x) ys of _ # rest \<Rightarrow> among ys rest xs | [] \<Rightarrow> False))"

lemma dropWhile_found:
  assumes "dropWhile (\<lambda>z. z \<noteq> x) zs = y # rest"
  shows "x \<in> set zs \<and> set rest \<subseteq> set zs"
proof -
  from assms have "y = x" by (auto simp: dropWhile_eq_Cons_conv)
  with assms have "set (x # rest) \<subseteq> set zs" by (metis set_dropWhileD subsetI)
  then show ?thesis by simp
qed

lemma among_subset: "among ys zs xs \<Longrightarrow> set zs \<subseteq> set ys \<Longrightarrow> set xs \<subseteq> set ys"
proof (induction ys zs xs rule: among.induct)
  case (2 ys zs x xs)
  then show ?case
    by (auto split: list.splits dest!: dropWhile_found)
qed simp

lemma among_set: "among ys ys xs \<Longrightarrow> set xs \<subseteq> set ys"
  by (rule among_subset) auto

lemma projectViewer_projectDeveloper: "set projectViewerPermissions \<subseteq> set projectDeveloperPermissions"
  by (rule among_set) code_simp

lemma projectDeveloper_projectOwner: "set projectDeveloperPermissions \<subseteq> set projectOwnerPermissions"
  by (rule among_set) code_simp

lemma sqlEditorReadUser_sqlEditorUser: "set sqlEditorReadUserPermissions \<subseteq> set sqlEditorUserPermissions"
  by (rule among_set) code_simp

lemma sqlEditorUser_projectOwner: "set sqlEditorUserPermissions \<subseteq> set projectOwnerPermissions"
  by (rule among_set) code_simp

lemma projectReleaser_projectOwner: "set projectReleaserPermissions \<subseteq> set projectOwnerPermissions"
  by (rule among_set) code_simp

lemma gitOpsServiceAgent_projectOwner: "set gitOpsServiceAgentPermissions \<subseteq> set projectOwnerPermissions"
  by (rule among_set) code_simp

lemma projectOwner_workspaceAdmin: "set projectOwnerPermissions \<subseteq> set workspaceAdminPermissions"
  by (rule among_set) code_simp

lemma workspaceDBA_workspaceAdmin: "set workspaceDBAPermissions \<subseteq> set workspaceAdminPermissions"
  by (rule among_set) code_simp

lemma workspaceMember_workspaceAdmin: "set workspaceMemberPermissions \<subseteq> set workspaceAdminPermissions"
  by (rule among_set) code_simp

lemma declared_workspaceAdmin: "set declaredPermissions \<subseteq> set workspaceAdminPermissions"
  by (rule among_set) code_simp

text \<open>
  Among the predefined roles, whoever may look may do no more than whoever may change: a viewer less than
  a developer less than an owner, a reader of the SQL editor less than its user less than an owner, releasers
  and agents less than owners, the DBA, the owners and the members less than the administrator of the
  workspace, who has every permission there is.
\<close>
lemma predefined_roles_nested:
  "set projectViewerPermissions \<subseteq> set projectDeveloperPermissions \<and>
   set projectDeveloperPermissions \<subseteq> set projectOwnerPermissions \<and>
   set sqlEditorReadUserPermissions \<subseteq> set sqlEditorUserPermissions \<and>
   set sqlEditorUserPermissions \<subseteq> set projectOwnerPermissions \<and>
   set projectReleaserPermissions \<subseteq> set projectOwnerPermissions \<and>
   set gitOpsServiceAgentPermissions \<subseteq> set projectOwnerPermissions \<and>
   set projectOwnerPermissions \<subseteq> set workspaceAdminPermissions \<and>
   set workspaceDBAPermissions \<subseteq> set workspaceAdminPermissions \<and>
   set workspaceMemberPermissions \<subseteq> set workspaceAdminPermissions \<and>
   set declaredPermissions \<subseteq> set workspaceAdminPermissions"
  by (intro conjI projectViewer_projectDeveloper projectDeveloper_projectOwner sqlEditorReadUser_sqlEditorUser
      sqlEditorUser_projectOwner projectReleaser_projectOwner gitOpsServiceAgent_projectOwner
      projectOwner_workspaceAdmin workspaceDBA_workspaceAdmin workspaceMember_workspaceAdmin
      declared_workspaceAdmin)


section \<open>The roles of the store\<close>

record role_row =
  row_resource_id :: string
  row_workspace :: string
  row_name :: string
  row_description :: string
  row_permissions :: "string list"

record role_store =
  role_table :: "role_row list"
  rolesCache :: "RoleMessage gomap"

record UpdateRoleMessage =
  URole_ResourceID :: string
  URole_Workspace :: string
  URole_Name :: "string option"
  URole_Description :: "string option"
  URole_Permissions :: "bool gomap option"

datatype role_error = QueryFailed go_error | DuplicateRole string | NoRows | NoFieldsToUpdate | ManyRoles nat

definition cache_add :: "string \<Rightarrow> 'v \<Rightarrow> 'v gomap \<Rightarrow> 'v gomap" where
  "cache_add k v m = (k, v) # filter (\<lambda>(a, _). a \<noteq> k) m"

definition cache_remove :: "string \<Rightarrow> 'v gomap \<Rightarrow> 'v gomap" where
  "cache_remove k m = filter (\<lambda>(a, _). a \<noteq> k) m"

text \<open>The keys of a permission map in the order of their iteration, as they are stored.\<close>

definition stored_permissions :: "(string list \<Rightarrow> string list) \<Rightarrow> bool gomap option \<Rightarrow> string list" where
  "stored_permissions ord perms = (case perms of None \<Rightarrow> [] | Some m \<Rightarrow> ord (map fst m))"

definition row_role :: "role_row \<Rightarrow> RoleMessage" where
  "row_role r =
     \<lparr>Role_ResourceID = row_resource_id r, Role_Workspace = row_workspace r, Role_Name = row_name r,
      Role_Description = row_description r, Role_Permissions = Some (permissionSet (row_permissions r)),
      Role_Predefined = False\<rparr>"

text \<open>Every operation takes the error of its statement, if it fails.\<close>

definition CreateRole ::
    "(string list \<Rightarrow> string list) \<Rightarrow> go_error option \<Rightarrow> RoleMessage \<Rightarrow> role_store \<Rightarrow>
     (role_error + RoleMessage) \<times> role_store" where
  "CreateRole ord failure create s =
     (case failure of
        Some e \<Rightarrow> (Inl (QueryFailed e), s)
      | None \<Rightarrow>
          if Role_ResourceID create \<in> row_resource_id ` set (role_table s)
          then (Inl (DuplicateRole (Role_ResourceID create)), s)
          else (Inr create,
            s\<lparr>role_table := role_table s @ [\<lparr>row_resource_id = Role_ResourceID create,
                row_workspace = Role_Workspace create, row_name = Role_Name create,
                row_description = Role_Description create,
                row_permissions = stored_permissions ord (Role_Permissions create)\<rparr>],
              rolesCache := cache_add (Role_ResourceID create) create (rolesCache s)\<rparr>))"

text \<open>A role asked for by its identifier is looked for among the predefined ones first.\<close>

definition ListRoles ::
    "go_error option \<Rightarrow> string \<Rightarrow> string option \<Rightarrow> role_store \<Rightarrow>
     (role_error + RoleMessage list) \<times> role_store" where
  "ListRoles failure workspace resourceID s =
     (case Option.bind resourceID GetPredefinedRole of
        Some role \<Rightarrow> (Inr [role], s)
      | None \<Rightarrow>
          (case failure of
             Some e \<Rightarrow> (Inl (QueryFailed e), s)
           | None \<Rightarrow>
               let rows = filter (\<lambda>r. row_workspace r = workspace \<and>
                     (resourceID = None \<or> resourceID = Some (row_resource_id r))) (role_table s);
                   roles = map row_role rows
               in (Inr (roles @ (if resourceID = None then PredefinedRoles else [])),
                   s\<lparr>rolesCache := foldl (\<lambda>c role. cache_add (Role_ResourceID role) role c) (rolesCache s) roles\<rparr>)))"

definition GetRole ::
    "go_error option \<Rightarrow> string \<Rightarrow> string \<Rightarrow> role_store \<Rightarrow> (role_error + RoleMessage option) \<times> role_store" where
  "GetRole failure workspace resourceID s =
     (case ListRoles failure workspace (Some resourceID) s of
        (Inl e, s') \<Rightarrow> (Inl e, s')
      | (Inr [], s') \<Rightarrow> (Inr None, s')
      | (Inr [role], s') \<Rightarrow>
          (Inr (Some role), s'\<lparr>rolesCache := cache_add (Role_ResourceID role) role (rolesCache s')\<rparr>)
      | (Inr roles, s') \<Rightarrow> (Inl (ManyRoles (length roles)), s'))"

definition store_GetRoleSnapshot ::
    "go_error option \<Rightarrow> string \<Rightarrow> string \<Rightarrow> role_store \<Rightarrow> (role_error + RoleMessage option) \<times> role_store" where
  "store_GetRoleSnapshot failure workspaceID resourceID s =
     (case map_of (rolesCache s) resourceID of
        Some v \<Rightarrow> (Inr (Some v), s)
      | None \<Rightarrow> GetRole failure workspaceID resourceID s)"

definition updated_row :: "(string list \<Rightarrow> string list) \<Rightarrow> UpdateRoleMessage \<Rightarrow> role_row \<Rightarrow> role_row" where
  "updated_row ord patch r =
     r\<lparr>row_name := (case URole_Name patch of Some v \<Rightarrow> v | None \<Rightarrow> row_name r),
       row_description := (case URole_Description patch of Some v \<Rightarrow> v | None \<Rightarrow> row_description r),
       row_permissions := (case URole_Permissions patch of
          Some v \<Rightarrow> stored_permissions ord (Some v) | None \<Rightarrow> row_permissions r)\<rparr>"

text \<open>The role built from what the statement returns has no workspace.\<close>

definition UpdateRole ::
    "(string list \<Rightarrow> string list) \<Rightarrow> go_error option \<Rightarrow> UpdateRoleMessage \<Rightarrow> role_store \<Rightarrow>
     (role_error + RoleMessage) \<times> role_store" where
  "UpdateRole ord failure patch s =
     (if URole_Name patch = None \<and> URole_Description patch = None \<and> URole_Permissions patch = None
      then (Inl NoFieldsToUpdate, s)
      else case failure of
             Some e \<Rightarrow> (Inl (QueryFailed e), s)
           | None \<Rightarrow>
               let hit = (\<lambda>r. row_resource_id r = URole_ResourceID patch \<and> row_workspace r = URole_Workspace patch)
               in (case find hit (role_table s) of
                     None \<Rightarrow> (Inl NoRows, s)
                   | Some r \<Rightarrow>
                       let role = (row_role (updated_row ord patch r))\<lparr>Role_Workspace := []\<rparr>
                       in (Inr role,
                           s\<lparr>role_table := map (\<lambda>r. if hit r then updated_row ord patch r else r) (role_table s),
                             rolesCache := cache_add (URole_ResourceID patch) role
                               (cache_remove (URole_ResourceID patch) (rolesCache s))\<rparr>)))"

definition DeleteRole ::
    "go_error option \<Rightarrow> string \<Rightarrow> string \<Rightarrow> role_store \<Rightarrow> (role_error + unit) \<times> role_store" where
  "DeleteRole failure workspace resourceID s =
     (case failure of
        Some e \<Rightarrow> (Inl (QueryFailed e), s)
      | None \<Rightarrow>
          (Inr (), s\<lparr>role_table :=
               filter (\<lambda>r. \<not> (row_resource_id r = resourceID \<and> row_workspace r = workspace)) (role_table s),
             rolesCache := cache_remove resourceID (rolesCache s)\<rparr>))"

end
