(* ===== verification/RoleStoreSpec.thy ===== *)
theory RoleStoreSpec
  imports Roles
begin

text \<open>
  The cache of roles in front of the table: whatever operations run, on one server, a role read from the
  cache has the permissions of the table.
\<close>

section \<open>Steps\<close>

text \<open>Permission sets as the services build them: maps to true.\<close>

definition plain_permissions :: "bool gomap \<Rightarrow> bool" where
  "plain_permissions m \<longleftrightarrow> (\<forall>(k, b) \<in> set m. b)"

text \<open>
  What may happen to the store: the operations, with any failure of their statement, and the loss of an
  entry of the cache.  The service creates no role with the identifier of a predefined one.
\<close>

inductive role_step :: "(string list \<Rightarrow> string list) \<Rightarrow> role_store \<Rightarrow> role_store \<Rightarrow> bool" for ord where
  create: "\<not> IsPredefinedRole (Role_ResourceID r) \<Longrightarrow> Role_Permissions r = Some m \<Longrightarrow> plain_permissions m \<Longrightarrow>
     role_step ord s (snd (CreateRole ord failure r s))"
| list_roles: "role_step ord s (snd (ListRoles failure ws rid s))"
| get: "role_step ord s (snd (GetRole failure ws rid s))"
| snapshot: "role_step ord s (snd (store_GetRoleSnapshot failure ws rid s))"
| update: "role_step ord s (snd (UpdateRole ord failure patch s))"
| delete: "role_step ord s (snd (DeleteRole failure ws rid s))"
| evict: "role_step ord s (s\<lparr>rolesCache := cache_remove k (rolesCache s)\<rparr>)"

inductive_cases role_stepE: "role_step ord s s'"

section \<open>Coherence\<close>

definition same_permissions :: "bool gomap option \<Rightarrow> string list \<Rightarrow> bool" where
  "same_permissions m ps \<longleftrightarrow> (\<exists>pm. m = Some pm \<and> (\<forall>p. flag pm p \<longleftrightarrow> p \<in> set ps))"

definition entry_ok :: "role_row list \<Rightarrow> string \<Rightarrow> RoleMessage \<Rightarrow> bool" where
  "entry_ok table k role \<longleftrightarrow>
     GetPredefinedRole k = Some role \<or>
     \<not> IsPredefinedRole k \<and> (\<exists>r \<in> set table. row_resource_id r = k \<and>
        same_permissions (Role_Permissions role) (row_permissions r))"


lemma map_of_cache_add [simp]: "map_of (cache_add k v m) = (map_of m)(k \<mapsto> v)"
proof
  fix x
  have "map_of (filter (\<lambda>(a, _). a \<noteq> k) m) x = (if x = k then None else map_of m x)"
    by (induction m) auto
  then show "map_of (cache_add k v m) x = ((map_of m)(k \<mapsto> v)) x" by (simp add: cache_add_def)
qed

lemma map_of_cache_remove [simp]: "map_of (cache_remove k m) = (map_of m)(k := None)"
proof
  fix x
  show "map_of (cache_remove k m) x = ((map_of m)(k := None)) x"
    by (induction m) (auto simp: cache_remove_def)
qed






section \<open>Every step keeps the cache coherent\<close>






lemma ListRoles_table [simp]: "role_table (snd (ListRoles failure ws rid s)) = role_table s"
  by (simp add: ListRoles_def Let_def split: option.split)









lemma entry_ok_mono: "entry_ok table k role \<Longrightarrow> set table \<subseteq> set table' \<Longrightarrow> entry_ok table' k role"
  by (auto simp: entry_ok_def)



lemma updated_row_id [simp]: "row_resource_id (updated_row ord patch r) = row_resource_id r"
  by (simp add: updated_row_def)





definition sample_role :: RoleMessage where
  "sample_role = \<lparr>Role_ResourceID = ''auditor'', Role_Workspace = ''a'', Role_Name = ''Auditor'',
     Role_Description = [], Role_Permissions = Some [(''bb.auditLogs.search'', True)], Role_Predefined = False\<rparr>"

definition sample_roles :: role_store where
  "sample_roles = snd (CreateRole insertion_order None sample_role \<lparr>role_table = [], rolesCache = []\<rparr>)"

lemma not_predefined_auditor: "\<not> IsPredefinedRole ''auditor''"
  by (simp add: IsPredefinedRole_def GetPredefinedRole_def map_by_None_iff PredefinedRoles_def
      predefined_role_def WorkspaceAdminRole_def WorkspaceDBARole_def WorkspaceMemberRole_def
      ProjectOwnerRole_def ProjectDeveloperRole_def SQLEditorUserRole_def SQLEditorReadUserRole_def
      ProjectReleaserRole_def GitOpsServiceAgentRole_def ProjectViewerRole_def)



text \<open>
  The cache does not know the workspace of a role: once the role of one workspace is in it, another workspace
  is given that role, where a read of the table finds none.
\<close>

lemma cached_role_of_other_workspace:
  "fst (store_GetRoleSnapshot None ''b'' ''auditor'' sample_roles) = Inr (Some sample_role) \<and>
   fst (GetRole None ''b'' ''auditor'' sample_roles) = Inr None"
  using not_predefined_auditor
  by (simp add: sample_roles_def CreateRole_def store_GetRoleSnapshot_def sample_role_def GetRole_def
      ListRoles_def IsPredefinedRole_def)

end
