(* ===== verification/MaskingEvaluator.thy ===== *)
theory MaskingEvaluator
  imports IAM Masker QuerySpan SchemaModel Outcome
begin

text \<open>
  \<^verbatim>\<open>backend/api/v1/masking_evaluator.go\<close>: which semantic type, and so which masker, a column has.
  The rules of the workspace come first, the catalog of the column second, and an exemption of the
  user takes the mask off.  A CEL program is a parameter: from the text of the condition and the
  attributes it runs on to a value or the failing step.  The time of the request is read once.
\<close>

section \<open>Policies and settings\<close>

record Algorithm_RangeMask_Slice =
  slice_Start :: int32
  slice_End :: int32
  slice_Substitution :: string

text \<open>The \<^verbatim>\<open>oneof\<close> of \<^verbatim>\<open>storepb.Algorithm\<close>; \<open>Algorithm_unset\<close> has no kind.\<close>

datatype storepb_Algorithm =
  Algorithm_unset
| Algorithm_FullMask string
| Algorithm_RangeMask "Algorithm_RangeMask_Slice list"
| Algorithm_Md5Mask string
| Algorithm_InnerOuterMask int32 int32 InnerOuterMask_MaskType string

record SemanticType =
  st_Id :: string
  st_Title :: string
  st_Description :: string
  st_Algorithm :: "storepb_Algorithm option"
  st_Icon :: string

record DataClassification =
  dcl_Id :: string
  dcl_Title :: string
  dcl_Level :: "int32 option"

record DataClassificationConfig =
  dcc_Id :: string
  dcc_Title :: string
  dcc_Levels :: "(string \<times> int32) list"
  dcc_Classification :: "DataClassification gomap"

record MaskingRule =
  rule_Id :: string
  rule_Condition :: "Expr option"
  rule_SemanticType :: string

record Exemption =
  exempt_Members :: "string list"
  exempt_Condition :: "Expr option"


section \<open>The evaluator\<close>

record maskingLevelEvaluator =
  maskingRules :: "MaskingRule list"
  dataClassificationIDMap :: "DataClassificationConfig gomap"
  semanticTypesMap :: "SemanticType gomap"

record MaskingEvaluation =
  me_SemanticTypeID :: string
  me_SemanticTypeTitle :: string
  me_SemanticTypeIcon :: string
  me_MaskingRuleID :: string
  me_Algorithm :: string
  me_Context :: string
  me_ClassificationLevel :: int32

definition newEmptyMaskingLevelEvaluator :: maskingLevelEvaluator where
  "newEmptyMaskingLevelEvaluator =
     \<lparr>maskingRules = [], dataClassificationIDMap = [], semanticTypesMap = []\<rparr>"

definition put_all :: "('a \<Rightarrow> string) \<Rightarrow> 'a list \<Rightarrow> 'a gomap \<Rightarrow> 'a gomap" where
  "put_all key xs m = foldl (\<lambda>m x. AList.update (key x) x m) m xs"

definition withMaskingRulePolicy ::
    "MaskingRule list option \<Rightarrow> maskingLevelEvaluator \<Rightarrow> maskingLevelEvaluator" where
  "withMaskingRulePolicy policy m =
     (case policy of None \<Rightarrow> m | Some rules \<Rightarrow> m\<lparr>maskingRules := rules\<rparr>)"

definition withDataClassificationSetting ::
    "DataClassificationConfig list option \<Rightarrow> maskingLevelEvaluator \<Rightarrow> maskingLevelEvaluator" where
  "withDataClassificationSetting setting m =
     (case setting of
        None \<Rightarrow> m
      | Some configs \<Rightarrow> m\<lparr>dataClassificationIDMap := put_all dcc_Id configs (dataClassificationIDMap m)\<rparr>)"

definition withSemanticTypeSetting ::
    "SemanticType list option \<Rightarrow> maskingLevelEvaluator \<Rightarrow> maskingLevelEvaluator" where
  "withSemanticTypeSetting setting m =
     (case setting of
        None \<Rightarrow> m
      | Some types \<Rightarrow> m\<lparr>semanticTypesMap := put_all st_Id types (semanticTypesMap m)\<rparr>)"

definition getDataClassificationConfig ::
    "maskingLevelEvaluator \<Rightarrow> string \<Rightarrow> DataClassificationConfig option" where
  "getDataClassificationConfig m classificationID = map_of (dataClassificationIDMap m) classificationID"

text \<open>The getters of a catalog entry that may be nil.\<close>

definition GetSemanticType :: "storepb_ColumnCatalog option \<Rightarrow> string" where
  "GetSemanticType c = (case c of None \<Rightarrow> [] | Some x \<Rightarrow> ccat_semantic_type x)"

definition GetClassification :: "storepb_ColumnCatalog option \<Rightarrow> string" where
  "GetClassification c = (case c of None \<Rightarrow> [] | Some x \<Rightarrow> ccat_classification x)"

definition getClassificationLevelOfColumn :: "string \<Rightarrow> DataClassificationConfig option \<Rightarrow> int32" where
  "getClassificationLevelOfColumn columnClassificationID classificationConfig =
     (if columnClassificationID = [] then 0
      else case classificationConfig of
             None \<Rightarrow> 0
           | Some config \<Rightarrow>
               (case map_of (dcc_Classification config) columnClassificationID of
                  None \<Rightarrow> 0
                | Some classification \<Rightarrow>
                    (case dcl_Level classification of None \<Rightarrow> 0 | Some level \<Rightarrow> level)))"

definition getAlgorithmNameFromSemanticType :: "SemanticType option \<Rightarrow> string" where
  "getAlgorithmNameFromSemanticType semanticType =
     (case semanticType of
        None \<Rightarrow> []
      | Some t \<Rightarrow>
          (case st_Algorithm t of
             None \<Rightarrow> []
           | Some (Algorithm_FullMask _) \<Rightarrow> ''Full mask''
           | Some (Algorithm_RangeMask _) \<Rightarrow> ''Partial mask''
           | Some (Algorithm_Md5Mask _) \<Rightarrow> ''Hash (MD5)''
           | Some (Algorithm_InnerOuterMask _ _ _ _) \<Rightarrow> ''Inner/Outer mask''
           | Some Algorithm_unset \<Rightarrow> ''Unknown''))"


section \<open>Conditions\<close>

record rule_attributes =
  ra_environment_id :: string
  ra_project_id :: string
  ra_instance_id :: string
  ra_database_name :: string
  ra_schema_name :: string
  ra_table_name :: string
  ra_column_name :: string
  ra_classification_level :: int

record exemption_attributes =
  ea_instance_id :: string
  ea_database_name :: string
  ea_schema_name :: string
  ea_table_name :: string
  ea_column_name :: string
  ea_classification_level :: int
  ea_time :: int

datatype mask_cel_stage = MaskEnv | MaskCompile | MaskProgram | MaskEval | MaskConvert

type_synonym 'attr cel_program = "string \<Rightarrow> 'attr \<Rightarrow> (mask_cel_stage \<times> go_error) + cel_value"

record eval_env =
  ev_access :: access_env
  ev_rule :: "rule_attributes cel_program"
  ev_exemption :: "exemption_attributes cel_program"

definition mask_stage_text :: "string \<Rightarrow> string \<Rightarrow> mask_cel_stage \<Rightarrow> string" where
  "mask_stage_text what short stage =
     (case stage of
        MaskEnv \<Rightarrow> ''failed to create CEL environment for '' @ what
      | MaskCompile \<Rightarrow> ''failed to get the ast of CEL program for '' @ short
      | MaskProgram \<Rightarrow> ''failed to create CEL program for '' @ short
      | MaskEval \<Rightarrow> ''failed to eval CEL program for '' @ short
      | MaskConvert \<Rightarrow> ''expect bool result for '' @ short)"

text \<open>
  A value that is no truth value wraps a nil error, which is nil: the condition is false without an
  error.
\<close>

definition cel_result :: "string \<Rightarrow> string \<Rightarrow> (mask_cel_stage \<times> go_error) + cel_value \<Rightarrow> (go_error, bool) outcome" where
  "cel_result what short r =
     (case r of
        Inl (stage, e) \<Rightarrow> Err (Wrap (mask_stage_text what short stage) e)
      | Inr (CelBool b) \<Rightarrow> Ok b
      | Inr CelOther \<Rightarrow> Ok False)"

definition evaluateMaskingRulePolicyCondition ::
    "eval_env \<Rightarrow> string \<Rightarrow> rule_attributes \<Rightarrow> (go_error, bool) outcome" where
  "evaluateMaskingRulePolicyCondition env expression attributes =
     (if expression = [] then Ok True
      else cel_result ''masking rule policy'' ''masking rule'' (ev_rule env expression attributes))"

definition evaluateMaskingExemptionPolicyCondition ::
    "eval_env \<Rightarrow> Expr option \<Rightarrow> exemption_attributes \<Rightarrow> (go_error, bool) outcome" where
  "evaluateMaskingExemptionPolicyCondition env expression attributes =
     (case expression of
        None \<Rightarrow> Ok True
      | Some e \<Rightarrow>
          if Expr_Expression e = [] then Ok True
          else cel_result ''masking exemption policy'' ''masking exemption policy''
                 (ev_exemption env (Expr_Expression e) attributes))"


section \<open>The semantic type of a column\<close>

text \<open>The first rule whose condition holds; a rule without a condition is a nil dereference.\<close>

definition rule_title :: "MaskingRule \<Rightarrow> string" where
  "rule_title maskingRule =
     (let title = (case rule_Condition maskingRule of None \<Rightarrow> [] | Some c \<Rightarrow> Expr_Title c)
      in if title = [] then rule_Id maskingRule else title)"

definition rule_evaluation :: "maskingLevelEvaluator \<Rightarrow> int32 \<Rightarrow> MaskingRule \<Rightarrow> MaskingEvaluation" where
  "rule_evaluation m classificationLevel maskingRule =
     (let semanticTypeID = rule_SemanticType maskingRule;
          context = ''Global masking rule: '' @ rule_title maskingRule
      in case map_of (semanticTypesMap m) semanticTypeID of
           None \<Rightarrow>
             \<lparr>me_SemanticTypeID = semanticTypeID, me_SemanticTypeTitle = [], me_SemanticTypeIcon = [],
              me_MaskingRuleID = rule_Id maskingRule, me_Algorithm = [], me_Context = context,
              me_ClassificationLevel = classificationLevel\<rparr>
         | Some semanticType \<Rightarrow>
             \<lparr>me_SemanticTypeID = semanticTypeID, me_SemanticTypeTitle = st_Title semanticType,
              me_SemanticTypeIcon = st_Icon semanticType, me_MaskingRuleID = rule_Id maskingRule,
              me_Algorithm = getAlgorithmNameFromSemanticType (Some semanticType), me_Context = context,
              me_ClassificationLevel = classificationLevel\<rparr>)"

primrec first_rule :: "eval_env \<Rightarrow> rule_attributes \<Rightarrow> MaskingRule list \<Rightarrow> (go_error, MaskingRule option) outcome" where
  "first_rule env attributes [] = Ok None"
| "first_rule env attributes (maskingRule # rest) =
     (case rule_Condition maskingRule of
        None \<Rightarrow> Panic
      | Some condition \<Rightarrow>
          bind_outcome
            (wrap (Wrap ''failed to evaluate masking rule policy condition'')
              (evaluateMaskingRulePolicyCondition env (Expr_Expression condition) attributes))
            (\<lambda>pass. if pass then Ok (Some maskingRule) else first_rule env attributes rest))"

definition rule_attributes_of ::
    "DatabaseMessage \<Rightarrow> string \<Rightarrow> string \<Rightarrow> string \<Rightarrow> int32 \<Rightarrow> rule_attributes" where
  "rule_attributes_of databaseMessage schemaName tableName columnName classificationLevel =
     \<lparr>ra_environment_id =
        (case Database_EffectiveEnvironmentID databaseMessage of None \<Rightarrow> [] | Some e \<Rightarrow> e),
      ra_project_id = Database_ProjectID databaseMessage, ra_instance_id = Database_InstanceID databaseMessage,
      ra_database_name = Database_DatabaseName databaseMessage, ra_schema_name = schemaName,
      ra_table_name = tableName, ra_column_name = columnName,
      ra_classification_level = sint classificationLevel\<rparr>"

definition evaluateGlobalMaskingLevelOfColumn ::
    "eval_env \<Rightarrow> maskingLevelEvaluator \<Rightarrow> DatabaseMessage \<Rightarrow> string \<Rightarrow> string \<Rightarrow> string \<Rightarrow> string \<Rightarrow>
     storepb_ColumnCatalog option \<Rightarrow> (go_error, MaskingEvaluation option) outcome" where
  "evaluateGlobalMaskingLevelOfColumn env m databaseMessage schemaName tableName columnName
       databaseProjectDataClassificationID columnConfig =
     (let classificationLevel = getClassificationLevelOfColumn (GetClassification columnConfig)
            (getDataClassificationConfig m databaseProjectDataClassificationID);
          attributes = rule_attributes_of databaseMessage schemaName tableName columnName classificationLevel
      in bind_outcome (first_rule env attributes (maskingRules m)) (\<lambda>r.
           Ok (map_option (rule_evaluation m classificationLevel) r)))"

primrec exempted :: "eval_env \<Rightarrow> exemption_attributes \<Rightarrow> Exemption list \<Rightarrow> (go_error, bool) outcome" where
  "exempted env attributes [] = Ok False"
| "exempted env attributes (exemption # rest) =
     bind_outcome
       (wrap (Wrap ''failed to evaluate masking exemption policy condition'')
         (evaluateMaskingExemptionPolicyCondition env (exempt_Condition exemption) attributes))
       (\<lambda>pass. if pass then Ok True else exempted env attributes rest)"

definition evaluateExemptionOfColumn ::
    "eval_env \<Rightarrow> DatabaseMessage \<Rightarrow> string \<Rightarrow> string \<Rightarrow> string \<Rightarrow> int32 \<Rightarrow> Exemption list \<Rightarrow> (go_error, bool) outcome" where
  "evaluateExemptionOfColumn env databaseMessage schemaName tableName columnName classificationLevel exemptions =
     exempted env
       \<lparr>ea_instance_id = Database_InstanceID databaseMessage, ea_database_name = Database_DatabaseName databaseMessage,
        ea_schema_name = schemaName, ea_table_name = tableName, ea_column_name = columnName,
        ea_classification_level = sint classificationLevel, ea_time = time_Now (ev_access env)\<rparr>
       exemptions"

text \<open>The semantic type of the catalog, where the setting knows it.\<close>

definition column_evaluation ::
    "maskingLevelEvaluator \<Rightarrow> DatabaseMessage \<Rightarrow> string \<Rightarrow> string \<Rightarrow> string \<Rightarrow> storepb_ColumnCatalog option \<Rightarrow>
     MaskingEvaluation option" where
  "column_evaluation m databaseMessage schemaName tableName columnName columnConfig =
     (let semanticTypeID = GetSemanticType columnConfig
      in if semanticTypeID = [] then None
         else case map_of (semanticTypesMap m) semanticTypeID of
                None \<Rightarrow> None
              | Some semanticType \<Rightarrow>
                  Some
                    \<lparr>me_SemanticTypeID = semanticTypeID, me_SemanticTypeTitle = st_Title semanticType,
                     me_SemanticTypeIcon = st_Icon semanticType, me_MaskingRuleID = [],
                     me_Algorithm = getAlgorithmNameFromSemanticType (Some semanticType),
                     me_Context = ''Column-level semantic type: '' @
                       Join ([Database_InstanceID databaseMessage, Database_DatabaseName databaseMessage] @
                         (if schemaName \<noteq> [] then [schemaName] else []) @ [tableName, columnName]) ''.'',
                     me_ClassificationLevel = 0\<rparr>)"

definition evaluateSemanticTypeOfColumn ::
    "eval_env \<Rightarrow> maskingLevelEvaluator \<Rightarrow> DatabaseMessage \<Rightarrow> string \<Rightarrow> string \<Rightarrow> string \<Rightarrow> string \<Rightarrow>
     storepb_ColumnCatalog option \<Rightarrow> Exemption list \<Rightarrow> (go_error, MaskingEvaluation option) outcome" where
  "evaluateSemanticTypeOfColumn env m databaseMessage schemaName tableName columnName
       databaseProjectDataClassificationID columnConfig exemptions =
     bind_outcome
       (wrap (Wrap ''failed to evaluate masking level of column'')
         (evaluateGlobalMaskingLevelOfColumn env m databaseMessage schemaName tableName columnName
            databaseProjectDataClassificationID columnConfig))
       (\<lambda>rule_eval.
         let eval =
           (if rule_eval = None \<or> me_SemanticTypeID (the rule_eval) = []
            then (case column_evaluation m databaseMessage schemaName tableName columnName columnConfig of
                    None \<Rightarrow> rule_eval
                  | Some e \<Rightarrow> Some e)
            else rule_eval)
         in case eval of
              None \<Rightarrow> Ok None
            | Some e \<Rightarrow>
                if me_SemanticTypeID e = [] then Ok eval
                else bind_outcome
                  (evaluateExemptionOfColumn env databaseMessage schemaName tableName columnName
                    (getClassificationLevelOfColumn (GetClassification columnConfig)
                      (getDataClassificationConfig m databaseProjectDataClassificationID))
                    exemptions)
                  (\<lambda>pass. if pass then Ok None else Ok eval))"

end
