(* ===== verification/ResultMasker.thy ===== *)
theory ResultMasker
  imports MaskingEvaluator QueryResult
begin

text \<open>
  \<^verbatim>\<open>backend/api/v1/{query_result_masker,predicate_columns_check}.go\<close> and the end of \<open>queryRetry\<close> in
  \<^verbatim>\<open>sql_service_query.go\<close>: the masking of the results of relational databases.  The queries of the
  store are fields of \<open>result_env\<close>; so are the orders in which \<open>range\<close> visits the maps that are built
  here.  The columns of a span come in the order in which \<open>range\<close> visits them.
\<close>

datatype mask_site = MS_dbNames | MS_projectIDs | MS_databases | MS_policies

record InstanceMessage =
  inst_ResourceID :: string
  inst_Engine :: Engine

record result_env =
  rm_eval :: eval_env
  rm_library :: library
  rm_workspace :: string
  rm_order :: "mask_site \<Rightarrow> string list \<Rightarrow> string list"
  rm_columns :: "ColumnResource list \<Rightarrow> ColumnResource list"
  GetDataClassificationSetting :: "string \<Rightarrow> go_error + DataClassificationConfig list option"
  GetMaskingRulePolicy :: "string \<Rightarrow> go_error + MaskingRule list option"
  GetSemanticTypesSetting :: "string \<Rightarrow> go_error + SemanticType list option"
  ListDatabases :: "string \<Rightarrow> string \<Rightarrow> string list \<Rightarrow> go_error + DatabaseMessage list"
  ListProjects :: "string \<Rightarrow> string list \<Rightarrow> go_error + ProjectMessage list"
  GetDBSchema :: "string \<Rightarrow> string \<Rightarrow> string \<Rightarrow> go_error + DatabaseMetadata option"
  GetMaskingExemptionPolicyByProject :: "string \<Rightarrow> string \<Rightarrow> go_error + Exemption list option"

definition rm_access :: "result_env \<Rightarrow> access_env" where
  "rm_access env = ev_access (rm_eval env)"


section \<open>The maskers of the semantic types\<close>

definition getAlgorithmName :: "Masker \<Rightarrow> string" where
  "getAlgorithmName m =
     (case m of
        NoneMasker \<Rightarrow> ''None''
      | FullMasker _ \<Rightarrow> ''Full mask''
      | RangeMasker _ \<Rightarrow> ''Partial mask''
      | DefaultRangeMasker \<Rightarrow> ''Partial mask''
      | MD5Masker _ \<Rightarrow> ''Hash (MD5)''
      | InnerOuter _ \<Rightarrow> ''Inner/Outer mask'')"

definition convertRangeMaskSlices :: "Algorithm_RangeMask_Slice list \<Rightarrow> MaskRangeSlice list" where
  "convertRangeMaskSlices slices =
     map (\<lambda>slice. \<lparr>mrs_Start = slice_Start slice, mrs_End = slice_End slice,
                   mrs_Substitution = slice_Substitution slice\<rparr>) slices"

definition getMaskerByMaskingAlgorithmAndLevel :: "storepb_Algorithm option \<Rightarrow> go_error + Masker" where
  "getMaskerByMaskingAlgorithmAndLevel algorithm =
     (case algorithm of
        None \<Rightarrow> Inr NoneMasker
      | Some (Algorithm_FullMask substitution) \<Rightarrow> Inr (FullMasker substitution)
      | Some (Algorithm_RangeMask slices) \<Rightarrow> Inr (RangeMasker (convertRangeMaskSlices slices))
      | Some (Algorithm_Md5Mask salt) \<Rightarrow> Inr (MD5Masker salt)
      | Some (Algorithm_InnerOuterMask prefixLen suffixLen maskType substitution) \<Rightarrow>
          (case NewInnerOuterMasker maskType prefixLen suffixLen substitution of
             Inl _ \<Rightarrow> Inl (Errorf ''invalid masker type MASK_TYPE_UNSPECIFIED'')
           | Inr m \<Rightarrow> Inr (InnerOuter m))
      | Some Algorithm_unset \<Rightarrow> Inr NoneMasker)"

definition builtin_maskers :: "Masker gomap" where
  "builtin_maskers = [(''bb.default'', NewDefaultFullMasker), (''bb.default-partial'', DefaultRangeMasker)]"

primrec add_semantic_types :: "SemanticType list \<Rightarrow> Masker gomap \<Rightarrow> go_error + Masker gomap" where
  "add_semantic_types [] maskers = Inr maskers"
| "add_semantic_types (semanticType # rest) maskers =
     (if st_Id semanticType = ''bb.default'' \<or> st_Id semanticType = ''bb.default-partial''
      then add_semantic_types rest maskers
      else bind_sum (getMaskerByMaskingAlgorithmAndLevel (st_Algorithm semanticType)) (\<lambda>m.
        add_semantic_types rest
          (if m = NoneMasker then maskers else AList.update (st_Id semanticType) m maskers)))"

definition buildSemanticTypeToMaskerMap :: "result_env \<Rightarrow> go_error + Masker gomap" where
  "buildSemanticTypeToMaskerMap env =
     bind_sum (wrap_error (Wrap ''failed to get semantic types setting'')
       (GetSemanticTypesSetting env (rm_workspace env)))
       (\<lambda>setting. add_semantic_types (case setting of None \<Rightarrow> [] | Some types \<Rightarrow> types) builtin_maskers)"


section \<open>The data provider\<close>

record maskingDataProvider =
  mdp_databases :: "DatabaseMessage gomap"
  mdp_projects :: "ProjectMessage gomap"
  mdp_schemas :: "DatabaseMetadata gomap"
  mdp_policies :: "Exemption list option gomap"

definition newEmptyMaskingDataProvider :: maskingDataProvider where
  "newEmptyMaskingDataProvider =
     \<lparr>mdp_databases = [], mdp_projects = [], mdp_schemas = [], mdp_policies = []\<rparr>"

text \<open>A set of names, \<^verbatim>\<open>map[string]struct{}\<close>, and a range over it.\<close>

definition name_set :: "string list \<Rightarrow> unit gomap" where
  "name_set names = map_by id (\<lambda>_. ()) names"

definition range_names :: "result_env \<Rightarrow> mask_site \<Rightarrow> unit gomap \<Rightarrow> string list" where
  "range_names env s names = map fst (go_range (rm_order env s) names)"

primrec fetch_schemas ::
    "result_env \<Rightarrow> InstanceMessage \<Rightarrow> string list \<Rightarrow> DatabaseMetadata gomap \<Rightarrow> go_error + DatabaseMetadata gomap" where
  "fetch_schemas env inst [] schemas = Inr schemas"
| "fetch_schemas env inst (dbName # rest) schemas =
     bind_sum (wrap_error (Wrap (''failed to get db schema for '' @ Quote (rm_access env) dbName))
       (GetDBSchema env (rm_workspace env) (inst_ResourceID inst) dbName)) (\<lambda>schema.
       fetch_schemas env inst rest
         (case schema of None \<Rightarrow> schemas | Some x \<Rightarrow> AList.update dbName x schemas))"

primrec fetch_policies ::
    "result_env \<Rightarrow> string list \<Rightarrow> Exemption list option gomap \<Rightarrow> go_error + Exemption list option gomap" where
  "fetch_policies env [] policies = Inr policies"
| "fetch_policies env (projectID # rest) policies =
     bind_sum (wrap_error (Wrap (''failed to get masking exemption policy for project '' @ Quote (rm_access env) projectID))
       (GetMaskingExemptionPolicyByProject env (rm_workspace env) projectID)) (\<lambda>policy.
       fetch_policies env rest (AList.update projectID policy policies))"

definition newMaskingDataProviderFromDBNames ::
    "result_env \<Rightarrow> InstanceMessage \<Rightarrow> unit gomap \<Rightarrow> go_error + maskingDataProvider" where
  "newMaskingDataProviderFromDBNames env inst dbNameSet =
     (if dbNameSet = [] then Inr newEmptyMaskingDataProvider
      else bind_sum (wrap_error (Wrap ''failed to list databases'')
          (ListDatabases env (rm_workspace env) (inst_ResourceID inst) (range_names env MS_dbNames dbNameSet)))
        (\<lambda>databases.
          let dbs = map_by Database_DatabaseName id databases;
              projectIDSet = name_set (map Database_ProjectID databases)
          in bind_sum
               (if projectIDSet = [] then Inr []
                else wrap_error (Wrap ''failed to list projects'')
                  (ListProjects env (rm_workspace env) (range_names env MS_projectIDs projectIDSet)))
               (\<lambda>projects.
             bind_sum (fetch_schemas env inst (map fst (go_range (rm_order env MS_databases) dbs)) []) (\<lambda>schemas.
             bind_sum (fetch_policies env (range_names env MS_policies projectIDSet) []) (\<lambda>policies.
               Inr \<lparr>mdp_databases = dbs, mdp_projects = map_by Project_ResourceID id projects,
                    mdp_schemas = schemas, mdp_policies = policies\<rparr>)))))"

definition database_names :: "ColumnResource list \<Rightarrow> unit gomap" where
  "database_names cols = name_set (filter (\<lambda>d. d \<noteq> []) (map cr_Database cols))"

definition newMaskingDataProvider ::
    "result_env \<Rightarrow> InstanceMessage option \<Rightarrow> QuerySpan option \<Rightarrow> go_error + maskingDataProvider" where
  "newMaskingDataProvider env ins span =
     (case (ins, span) of
        (Some inst, Some s) \<Rightarrow>
          newMaskingDataProviderFromDBNames env inst
            (database_names (concat (map qr_SourceColumns (qs_Results s))))
      | _ \<Rightarrow> Inr newEmptyMaskingDataProvider)"

definition newMaskingDataProviderFromColumns ::
    "result_env \<Rightarrow> InstanceMessage option \<Rightarrow> SourceColumnSet \<Rightarrow> go_error + maskingDataProvider" where
  "newMaskingDataProviderFromColumns env ins columns =
     (case ins of
        None \<Rightarrow> Inr newEmptyMaskingDataProvider
      | Some inst \<Rightarrow>
          if columns = [] then Inr newEmptyMaskingDataProvider
          else newMaskingDataProviderFromDBNames env inst (database_names columns))"

definition getDatabase :: "maskingDataProvider \<Rightarrow> string \<Rightarrow> DatabaseMessage option" where
  "getDatabase p dbName = map_of (mdp_databases p) dbName"

definition getProject :: "maskingDataProvider \<Rightarrow> string \<Rightarrow> ProjectMessage option" where
  "getProject p projectID = map_of (mdp_projects p) projectID"

definition getColumn :: "maskingDataProvider \<Rightarrow> ColumnResource \<Rightarrow> ColumnMetadata option" where
  "getColumn p col =
     (case map_of (mdp_schemas p) (cr_Database col) of
        None \<Rightarrow> None
      | Some schema \<Rightarrow>
          (case GetSchemaMetadata schema (cr_Schema col) of
             None \<Rightarrow> None
           | Some s \<Rightarrow>
               (case GetTable s (cr_Table col) of
                  None \<Rightarrow> None
                | Some t \<Rightarrow> GetColumn t (cr_Column col))))"

definition getMaskingExemptionPolicy :: "maskingDataProvider \<Rightarrow> string \<Rightarrow> Exemption list option" where
  "getMaskingExemptionPolicy p projectID =
     (case map_of (mdp_policies p) projectID of None \<Rightarrow> None | Some policy \<Rightarrow> policy)"


section \<open>The masker of a column\<close>

definition user_exemptions ::
    "result_env \<Rightarrow> maskingDataProvider \<Rightarrow> string \<Rightarrow> UserMessage \<Rightarrow> Exemption list" where
  "user_exemptions env data projectID currentPrincipal =
     (case getMaskingExemptionPolicy data projectID of
        None \<Rightarrow> []
      | Some exemptions \<Rightarrow>
          filter (\<lambda>e. list_ex (\<lambda>member.
              MemberContainsUser (rm_access env) (rm_workspace env) member currentPrincipal) (exempt_Members e))
            exemptions)"

definition column_error :: "result_env \<Rightarrow> ColumnResource \<Rightarrow> go_error \<Rightarrow> go_error" where
  "column_error env c =
     (let q = Quote (rm_access env)
      in Wrap (''failed to evaluate masking level of database '' @ q (cr_Database c) @ '', schema '' @
           q (cr_Schema c) @ '', table '' @ q (cr_Table c) @ '', column '' @ q (cr_Column c)))"

definition getMaskerForColumnResource ::
    "result_env \<Rightarrow> maskingLevelEvaluator \<Rightarrow> InstanceMessage option \<Rightarrow> ColumnResource \<Rightarrow> maskingDataProvider \<Rightarrow>
     UserMessage \<Rightarrow> Masker gomap \<Rightarrow> (go_error, Masker \<times> MaskingEvaluation option) outcome" where
  "getMaskerForColumnResource env m ins sourceColumn data currentPrincipal semanticTypeToMasker =
     (let unmasked = Ok (NoneMasker, None)
      in if (case ins of None \<Rightarrow> False | Some inst \<Rightarrow> \<not> EngineSupportMasking (inst_Engine inst)) then unmasked
         else case getDatabase data (cr_Database sourceColumn) of
           None \<Rightarrow> unmasked
         | Some database \<Rightarrow>
             (case getProject data (Database_ProjectID database) of
                None \<Rightarrow> unmasked
              | Some project \<Rightarrow>
                  (case getColumn data sourceColumn of
                     None \<Rightarrow> unmasked
                   | Some column \<Rightarrow>
                       bind_outcome
                         (wrap (column_error env sourceColumn)
                           (evaluateSemanticTypeOfColumn (rm_eval env) m database (cr_Schema sourceColumn)
                             (cr_Table sourceColumn) (cr_Column sourceColumn)
                             (Project_DataClassificationConfigId project) (cm_config column)
                             (user_exemptions env data (Database_ProjectID database) currentPrincipal)))
                         (\<lambda>evaluation.
                           case evaluation of
                             None \<Rightarrow> unmasked
                           | Some e \<Rightarrow>
                               if me_SemanticTypeID e = [] then unmasked
                               else case map_of semanticTypeToMasker (me_SemanticTypeID e) of
                                 None \<Rightarrow> unmasked
                               | Some result \<Rightarrow> Ok (result, Some (e\<lparr>me_Algorithm := getAlgorithmName result\<rparr>))))))"


section \<open>The maskers of a query\<close>

definition reason_of :: "MaskingEvaluation \<Rightarrow> string \<Rightarrow> string \<Rightarrow> MaskingReason" where
  "reason_of e algorithm context =
     \<lparr>mr_SemanticTypeId = me_SemanticTypeID e, mr_SemanticTypeTitle = me_SemanticTypeTitle e,
      mr_MaskingRuleId = me_MaskingRuleID e, mr_Algorithm = algorithm, mr_Context = context,
      mr_ClassificationLevel = me_ClassificationLevel e, mr_SemanticTypeIcon = me_SemanticTypeIcon e\<rparr>"

definition multiple_reason :: MaskingReason where
  "multiple_reason =
     \<lparr>mr_SemanticTypeId = [], mr_SemanticTypeTitle = [], mr_MaskingRuleId = [], mr_Algorithm = ''Full mask'',
      mr_Context = ''Multiple source columns'', mr_ClassificationLevel = 0, mr_SemanticTypeIcon = []\<rparr>"

text \<open>The masker of one column of the result, from the maskers of its source columns.\<close>

definition combine_maskers ::
    "InstanceMessage option \<Rightarrow> bool \<Rightarrow> (Masker \<times> MaskingEvaluation option) list \<Rightarrow>
     (go_error, Masker \<times> MaskingReason option) outcome" where
  "combine_maskers ins isPlainField found =
     (case filter (\<lambda>(m, _). m \<noteq> NoneMasker) found of
        [] \<Rightarrow> Ok (NoneMasker, None)
      | [(m, evaluation)] \<Rightarrow>
          if isPlainField then Ok (m, map_option (\<lambda>e. reason_of e (me_Algorithm e) (me_Context e)) evaluation)
          else (case ins of
                  None \<Rightarrow> Panic
                | Some inst \<Rightarrow>
                    if EngineSupportQuerySpanPlainField (inst_Engine inst)
                    then Ok (NewDefaultFullMasker,
                           map_option (\<lambda>e. reason_of e ''Full mask'' ''Expression-based column'') evaluation)
                    else Ok (m, map_option (\<lambda>e. reason_of e (me_Algorithm e) (me_Context e)) evaluation))
      | _ \<Rightarrow> Ok (NewDefaultFullMasker, Some multiple_reason))"

definition result_masker ::
    "result_env \<Rightarrow> maskingLevelEvaluator \<Rightarrow> InstanceMessage option \<Rightarrow> UserMessage \<Rightarrow> maskingDataProvider \<Rightarrow>
     Masker gomap \<Rightarrow> QuerySpanResult \<Rightarrow> (go_error, Masker \<times> MaskingReason option) outcome" where
  "result_masker env m ins user data semanticTypesToMasker spanResult =
     (if qr_SourceColumns spanResult = [] then Ok (NoneMasker, None)
      else bind_outcome
        (traverse (\<lambda>column. getMaskerForColumnResource env m ins column data user semanticTypesToMasker)
          (qr_SourceColumns spanResult))
        (combine_maskers ins (qr_IsPlainField spanResult)))"

definition of_sum :: "'e + 'a \<Rightarrow> ('e, 'a) outcome" where
  "of_sum r = (case r of Inl e \<Rightarrow> Err e | Inr x \<Rightarrow> Ok x)"

definition getMaskersForQuerySpan ::
    "result_env \<Rightarrow> maskingLevelEvaluator \<Rightarrow> InstanceMessage option \<Rightarrow> UserMessage \<Rightarrow> QuerySpan option \<Rightarrow>
     (go_error, (Masker \<times> MaskingReason option) list) outcome" where
  "getMaskersForQuerySpan env m ins user span =
     (case span of
        None \<Rightarrow> Ok []
      | Some s \<Rightarrow>
          bind_outcome (of_sum (wrap_error (Wrap ''failed to build semantic type to masker map'')
            (buildSemanticTypeToMaskerMap env))) (\<lambda>semanticTypesToMasker.
          bind_outcome (of_sum (wrap_error (Wrap ''failed to initialize masking data provider'')
            (newMaskingDataProvider env ins span))) (\<lambda>data.
          traverse (result_masker env m ins user data semanticTypesToMasker) (qs_Results s))))"


section \<open>Masking\<close>

definition mask_cell :: "library \<Rightarrow> Masker list \<Rightarrow> nat \<times> RowValue option \<Rightarrow> RowValue option option" where
  "mask_cell lib maskers jv =
     (case snd jv of
        None \<Rightarrow> Some None
      | Some v \<Rightarrow>
          if fst jv < length maskers then Mask lib (maskers ! fst jv) \<lparr>WantBytes = False, Data = v\<rparr>
          else Some (Some v))"

definition mask_row :: "library \<Rightarrow> Masker list \<Rightarrow> RowValue option list \<Rightarrow> RowValue option list option" where
  "mask_row lib maskers row = map_panic (mask_cell lib maskers) (enumerate 0 row)"

text \<open>The flags \<open>sensitive\<close> that the code computes are not used.\<close>

definition doMaskResult ::
    "library \<Rightarrow> Masker list \<Rightarrow> MaskingReason option list \<Rightarrow> QueryResult \<Rightarrow> (go_error, QueryResult) outcome" where
  "doMaskResult lib maskers reasons result =
     (case map_panic (mask_row lib maskers) (res_Rows result) of
        None \<Rightarrow> Panic
      | Some rows \<Rightarrow> Ok (result\<lparr>res_Rows := rows, res_Masked := reasons\<rparr>))"

text \<open>
  Whether a failed query touches a masked column: failures of the store count as no, a column whose
  evaluation fails is passed over.
\<close>

primrec any_masked ::
    "(ColumnResource \<Rightarrow> (go_error, Masker \<times> MaskingEvaluation option) outcome) \<Rightarrow> ColumnResource list \<Rightarrow>
     (go_error, bool) outcome" where
  "any_masked f [] = Ok False"
| "any_masked f (column # rest) =
     (case f column of
        Panic \<Rightarrow> Panic
      | Err _ \<Rightarrow> any_masked f rest
      | Ok (mk, _) \<Rightarrow> if mk = NoneMasker then any_masked f rest else Ok True)"

definition span_columns :: "QuerySpan \<Rightarrow> ColumnResource list" where
  "span_columns span = remdups (concat (map qr_SourceColumns (qs_Results span)) @ qs_PredicateColumns span)"

definition spanTouchesMaskedColumns ::
    "result_env \<Rightarrow> maskingLevelEvaluator \<Rightarrow> InstanceMessage option \<Rightarrow> UserMessage \<Rightarrow> QuerySpan \<Rightarrow> (go_error, bool) outcome" where
  "spanTouchesMaskedColumns env m ins user span =
     (let allColumns = span_columns span
      in if allColumns = [] then Ok False
         else case buildSemanticTypeToMaskerMap env of
           Inl _ \<Rightarrow> Ok False
         | Inr semanticTypesToMasker \<Rightarrow>
             (case newMaskingDataProvider env ins (Some span) of
                Inl _ \<Rightarrow> Ok False
              | Inr data \<Rightarrow>
                  any_masked (\<lambda>column. getMaskerForColumnResource env m ins column data user semanticTypesToMasker)
                    (rm_columns env allColumns)))"

definition redacted_message :: string where
  "redacted_message = ''Query execution failed. Error details are hidden because the query references columns with data masking policies.''"

definition masking_error :: "string \<Rightarrow> go_error" where
  "masking_error e = Errorf (''masking error: '' @ e)"

text \<open>One round of the loop of \<open>MaskResults\<close>; a span may be nil.\<close>

definition mask_one ::
    "result_env \<Rightarrow> maskingLevelEvaluator \<Rightarrow> InstanceMessage option \<Rightarrow> UserMessage \<Rightarrow>
     QuerySpan option \<times> QueryResult \<Rightarrow> (go_error, QueryResult) outcome" where
  "mask_one env m ins user sr =
     (let span = fst sr; result = snd sr;
          errors = (case span of
            None \<Rightarrow> Panic
          | Some s \<Rightarrow>
              (case qs_FunctionNotSupportedError s of
                 Some e \<Rightarrow> Err (masking_error e)
               | None \<Rightarrow> (case qs_NotFoundError s of Some e \<Rightarrow> Err (masking_error e) | None \<Rightarrow> Ok ())))
      in if HasPrefix (TrimSpace (res_Statement result)) ''EXPLAIN'' then Ok result
         else bind_outcome (if res_Error result = [] then errors else Ok ()) (\<lambda>_.
           if res_Error result \<noteq> [] \<and> res_Rows result = [] then
             (case span of
                None \<Rightarrow> Ok result
              | Some s \<Rightarrow>
                  bind_outcome (spanTouchesMaskedColumns env m ins user s) (\<lambda>touches.
                    Ok (if touches then result\<lparr>res_Error := redacted_message\<rparr> else result)))
           else bind_outcome (wrap (Wrap ''failed to get maskers for query span'')
                  (getMaskersForQuerySpan env m ins user span)) (\<lambda>maskers.
                doMaskResult (rm_library env) (map fst maskers) (map snd maskers) result)))"

definition build_evaluator :: "result_env \<Rightarrow> go_error + maskingLevelEvaluator" where
  "build_evaluator env =
     bind_sum (wrap_error (Wrap ''failed to find classification setting'')
       (GetDataClassificationSetting env (rm_workspace env))) (\<lambda>classificationSetting.
     bind_sum (wrap_error (Wrap ''failed to find masking rule policy'')
       (GetMaskingRulePolicy env (rm_workspace env))) (\<lambda>maskingRulePolicy.
     bind_sum (wrap_error (Wrap ''failed to find semantic types setting'')
       (GetSemanticTypesSetting env (rm_workspace env))) (\<lambda>semanticTypesSetting.
     Inr (withSemanticTypeSetting semanticTypesSetting
       (withDataClassificationSetting classificationSetting
         (withMaskingRulePolicy maskingRulePolicy newEmptyMaskingLevelEvaluator))))))"

definition MaskResults ::
    "result_env \<Rightarrow> QuerySpan option list \<Rightarrow> QueryResult list \<Rightarrow> InstanceMessage option \<Rightarrow> UserMessage \<Rightarrow>
     (go_error, QueryResult list) outcome" where
  "MaskResults env spans results ins user =
     bind_outcome (of_sum (build_evaluator env)) (\<lambda>m.
     bind_outcome (traverse (mask_one env m ins user) (zip spans results)) (\<lambda>masked.
       Ok (masked @ drop (length spans) results)))"


section \<open>Masked columns in predicates\<close>

definition isPredicateColumnsCheckEnabled :: "Engine \<Rightarrow> bool" where
  "isPredicateColumnsCheckEnabled engine = (engine = Engine_MSSQL)"

definition isSensitiveColumn ::
    "result_env \<Rightarrow> maskingLevelEvaluator \<Rightarrow> DatabaseMessage \<Rightarrow> ColumnResource \<Rightarrow> string \<Rightarrow>
     storepb_ColumnCatalog option \<Rightarrow> Exemption list \<Rightarrow> (go_error, bool) outcome" where
  "isSensitiveColumn env m database column classificationConfigID columnConfig exemptions =
     bind_outcome (wrap (Wrap ''failed to evaluate semantic type of column'')
       (evaluateSemanticTypeOfColumn (rm_eval env) m database (cr_Schema column) (cr_Table column)
         (cr_Column column) classificationConfigID columnConfig exemptions))
       (\<lambda>evaluation. Ok (case evaluation of None \<Rightarrow> False | Some e \<Rightarrow> me_SemanticTypeID e \<noteq> []))"

definition predicate_sensitive ::
    "result_env \<Rightarrow> maskingLevelEvaluator \<Rightarrow> maskingDataProvider \<Rightarrow> UserMessage \<Rightarrow> ColumnResource \<Rightarrow> (go_error, bool) outcome" where
  "predicate_sensitive env m data currentPrincipal column =
     (case getDatabase data (cr_Database column) of
        None \<Rightarrow> Ok False
      | Some database \<Rightarrow>
          (case getProject data (Database_ProjectID database) of
             None \<Rightarrow> Ok False
           | Some project \<Rightarrow>
               (case getColumn data column of
                  None \<Rightarrow> Ok False
                | Some c \<Rightarrow>
                    wrap (Wrap ''failed to check if column is sensitive'')
                      (isSensitiveColumn env m database column (Project_DataClassificationConfigId project)
                        (cm_config c) (user_exemptions env data (Database_ProjectID database) currentPrincipal)))))"

primrec sensitive_columns ::
    "(ColumnResource \<Rightarrow> (go_error, bool) outcome) \<Rightarrow> ColumnResource list \<Rightarrow> (go_error, ColumnResource list) outcome" where
  "sensitive_columns f [] = Ok []"
| "sensitive_columns f (column # rest) =
     bind_outcome (f column) (\<lambda>isSensitive.
     bind_outcome (sensitive_columns f rest) (\<lambda>result.
       Ok (if isSensitive then column # result else result)))"

definition getSensitiveColumnsForPredicate ::
    "result_env \<Rightarrow> maskingLevelEvaluator \<Rightarrow> InstanceMessage option \<Rightarrow> SourceColumnSet \<Rightarrow> maskingDataProvider \<Rightarrow>
     UserMessage \<Rightarrow> (go_error, ColumnResource list) outcome" where
  "getSensitiveColumnsForPredicate env m ins predicateColumns data currentPrincipal =
     (if (case ins of None \<Rightarrow> False | Some inst \<Rightarrow> \<not> isPredicateColumnsCheckEnabled (inst_Engine inst)) then Ok []
      else sensitive_columns (predicate_sensitive env m data currentPrincipal) predicateColumns)"

text \<open>The spans are not nil here.\<close>

definition ExtractSensitivePredicateColumns ::
    "result_env \<Rightarrow> QuerySpan list \<Rightarrow> InstanceMessage option \<Rightarrow> UserMessage \<Rightarrow> (go_error, ColumnResource list list) outcome" where
  "ExtractSensitivePredicateColumns env spans ins user =
     bind_outcome (of_sum (build_evaluator env)) (\<lambda>m.
     bind_outcome (of_sum (wrap_error (Wrap ''failed to initialize masking data provider'')
       (newMaskingDataProviderFromColumns env ins (remdups (concat (map qs_PredicateColumns spans)))))) (\<lambda>data.
     traverse (\<lambda>span. wrap (Wrap ''failed to get sensitive columns for predicate'')
       (getSensitiveColumnsForPredicate env m ins (qs_PredicateColumns span) data user)) spans))"

definition getSensitivePredicateColumnErrorMessages :: "ColumnResource list \<Rightarrow> string" where
  "getSensitivePredicateColumnErrorMessages sensitiveColumns =
     ''Using sensitive columns in WHERE clause is not allowed: '' @
       Join (map ColumnResource_String sensitiveColumns) '', ''"

text \<open>The end of \<open>queryRetry\<close>: the results are masked, then those with sensitive predicates blanked.\<close>

definition blank_sensitive :: "ColumnResource list list \<Rightarrow> QueryResult list \<Rightarrow> QueryResult list" where
  "blank_sensitive sensitivePredicateColumns results =
     map (\<lambda>(i, result).
         if i < length sensitivePredicateColumns \<and> sensitivePredicateColumns ! i \<noteq> []
         then blank (getSensitivePredicateColumnErrorMessages (sensitivePredicateColumns ! i)) result
         else result) (enumerate 0 results)"

definition mask_query_results ::
    "result_env \<Rightarrow> QuerySpan list \<Rightarrow> ColumnResource list list \<Rightarrow> QueryResult list \<Rightarrow> InstanceMessage option \<Rightarrow>
     UserMessage \<Rightarrow> (go_error, QueryResult list) outcome" where
  "mask_query_results env spans sensitivePredicateColumns results ins user =
     bind_outcome (MaskResults env (map Some spans) results ins user)
       (\<lambda>masked. Ok (blank_sensitive sensitivePredicateColumns masked))"

end
