(* ===== verification/ResultMaskerSpec.thy ===== *)
theory ResultMaskerSpec
  imports ResultMasker
begin

text \<open>
  Properties of the masking of results: when a column has a masker, that every cell of a masked column
  is masked, that the order of the source columns does not matter, when the text of an error is
  redacted, and where the redaction misses.
\<close>

section \<open>The semantic type of a column\<close>

definition rule_holds :: "eval_env \<Rightarrow> rule_attributes \<Rightarrow> MaskingRule \<Rightarrow> bool" where
  "rule_holds env attributes r \<longleftrightarrow>
     (\<exists>c. rule_Condition r = Some c \<and>
        evaluateMaskingRulePolicyCondition env (Expr_Expression c) attributes = Ok True)"

lemma first_rule_find:
  "first_rule env attributes rules = Ok r \<Longrightarrow> r = find (rule_holds env attributes) rules"
  by (induction rules) (auto simp: bind_Ok_iff wrap_Ok_iff rule_holds_def split: option.splits if_splits)

definition exemption_holds :: "eval_env \<Rightarrow> exemption_attributes \<Rightarrow> Exemption \<Rightarrow> bool" where
  "exemption_holds env attributes e \<longleftrightarrow>
     evaluateMaskingExemptionPolicyCondition env (exempt_Condition e) attributes = Ok True"

lemma exempted_iff: "exempted env attributes es = Ok b \<Longrightarrow> b \<longleftrightarrow> (\<exists>e \<in> set es. exemption_holds env attributes e)"
  by (induction es) (auto simp: bind_Ok_iff wrap_Ok_iff exemption_holds_def split: if_splits)

text \<open>
  The reference: the type of the first rule that holds, where it names one, or else the type of the
  catalog, where the setting knows it.
\<close>

definition classification_level :: "maskingLevelEvaluator \<Rightarrow> string \<Rightarrow> storepb_ColumnCatalog option \<Rightarrow> int32" where
  "classification_level m dc cfg =
     getClassificationLevelOfColumn (GetClassification cfg) (getDataClassificationConfig m dc)"

definition effective_type ::
    "eval_env \<Rightarrow> maskingLevelEvaluator \<Rightarrow> DatabaseMessage \<Rightarrow> ColumnResource \<Rightarrow> string \<Rightarrow>
     storepb_ColumnCatalog option \<Rightarrow> string" where
  "effective_type env m db col dc cfg =
     (let attributes = rule_attributes_of db (cr_Schema col) (cr_Table col) (cr_Column col) (classification_level m dc cfg);
          catalog = if map_of (semanticTypesMap m) (GetSemanticType cfg) = None then [] else GetSemanticType cfg
      in case find (rule_holds env attributes) (maskingRules m) of
           None \<Rightarrow> catalog
         | Some r \<Rightarrow> if rule_SemanticType r = [] then catalog else rule_SemanticType r)"

definition exempt_attributes ::
    "eval_env \<Rightarrow> maskingLevelEvaluator \<Rightarrow> DatabaseMessage \<Rightarrow> ColumnResource \<Rightarrow> string \<Rightarrow>
     storepb_ColumnCatalog option \<Rightarrow> exemption_attributes" where
  "exempt_attributes env m db col dc cfg =
     \<lparr>ea_instance_id = Database_InstanceID db, ea_database_name = Database_DatabaseName db,
      ea_schema_name = cr_Schema col, ea_table_name = cr_Table col, ea_column_name = cr_Column col,
      ea_classification_level = sint (classification_level m dc cfg), ea_time = time_Now (ev_access env)\<rparr>"

lemma rule_evaluation_type [simp]: "me_SemanticTypeID (rule_evaluation m l r) = rule_SemanticType r"
  by (simp add: rule_evaluation_def Let_def split: option.split)

lemma column_evaluation_type:
  "column_evaluation m db s t c cfg = Some e \<Longrightarrow>
   me_SemanticTypeID e = GetSemanticType cfg \<and> GetSemanticType cfg \<noteq> [] \<and>
   map_of (semanticTypesMap m) (GetSemanticType cfg) \<noteq> None"
  by (auto simp: column_evaluation_def Let_def split: if_splits option.splits)

lemma column_evaluation_None_iff:
  "column_evaluation m db s t c cfg = None \<longleftrightarrow>
   GetSemanticType cfg = [] \<or> map_of (semanticTypesMap m) (GetSemanticType cfg) = None"
  by (auto simp: column_evaluation_def Let_def split: option.split)

lemma global_evaluation:
  "evaluateGlobalMaskingLevelOfColumn env m db s t c dc cfg = Ok g \<Longrightarrow>
   g = map_option (rule_evaluation m (classification_level m dc cfg))
     (find (rule_holds env (rule_attributes_of db s t c (classification_level m dc cfg))) (maskingRules m))"
  by (auto simp: evaluateGlobalMaskingLevelOfColumn_def Let_def bind_Ok_iff classification_level_def
      dest: first_rule_find)

text \<open>What the rules and the catalog say together, before the exemptions.\<close>

definition chosen ::
    "MaskingEvaluation option \<Rightarrow> MaskingEvaluation option \<Rightarrow> MaskingEvaluation option" where
  "chosen rule_eval column_eval =
     (if rule_eval = None \<or> me_SemanticTypeID (the rule_eval) = []
      then (case column_eval of None \<Rightarrow> rule_eval | Some e \<Rightarrow> Some e) else rule_eval)"

definition type_of :: "MaskingEvaluation option \<Rightarrow> string" where
  "type_of r = (case r of None \<Rightarrow> [] | Some e \<Rightarrow> me_SemanticTypeID e)"

lemma chosen_type:
  "type_of (chosen (map_option (rule_evaluation m (classification_level m dc cfg))
       (find (rule_holds env (rule_attributes_of db (cr_Schema col) (cr_Table col) (cr_Column col)
         (classification_level m dc cfg))) (maskingRules m)))
     (column_evaluation m db (cr_Schema col) (cr_Table col) (cr_Column col) cfg)) =
   effective_type env m db col dc cfg"
  by (auto simp: type_of_def chosen_def effective_type_def Let_def column_evaluation_None_iff
      dest: column_evaluation_type split: option.splits)

lemma evaluate_chosen:
  assumes "evaluateGlobalMaskingLevelOfColumn env m db (cr_Schema col) (cr_Table col) (cr_Column col) dc cfg = Ok g"
    and "chosen g (column_evaluation m db (cr_Schema col) (cr_Table col) (cr_Column col) cfg) = e"
  shows "evaluateSemanticTypeOfColumn env m db (cr_Schema col) (cr_Table col) (cr_Column col) dc cfg exemptions =
    (if type_of e = [] then Ok e
     else bind_outcome (exempted env (exempt_attributes env m db col dc cfg) exemptions)
       (\<lambda>pass. Ok (if pass then None else e)))"
proof -
  show ?thesis
    unfolding evaluateSemanticTypeOfColumn_def assms(1) wrap_simps bind_outcome_simps Let_def
      chosen_def [symmetric] assms(2) evaluateExemptionOfColumn_def exempt_attributes_def classification_level_def
    by (cases e) (auto simp: type_of_def intro!: bind_outcome_cong)
qed

lemma evaluate_steps:
  assumes "evaluateSemanticTypeOfColumn env m db (cr_Schema col) (cr_Table col) (cr_Column col) dc cfg exemptions = Ok r"
  shows "type_of r =
    (if \<exists>e \<in> set exemptions. exemption_holds env (exempt_attributes env m db col dc cfg) e
     then [] else effective_type env m db col dc cfg)"
proof -
  obtain g where g: "evaluateGlobalMaskingLevelOfColumn env m db (cr_Schema col) (cr_Table col) (cr_Column col) dc cfg = Ok g"
    using assms by (auto simp: evaluateSemanticTypeOfColumn_def bind_Ok_iff wrap_Ok_iff)
  define e where "e = chosen g (column_evaluation m db (cr_Schema col) (cr_Table col) (cr_Column col) cfg)"
  have type: "type_of e = effective_type env m db col dc cfg"
    using chosen_type by (simp add: e_def global_evaluation [OF g])
  have none: "type_of None = []" by (simp add: type_of_def)
  from assms [unfolded evaluate_chosen [OF g e_def [symmetric]]] type none show ?thesis
    by (cases "type_of e = []") (auto simp: bind_Ok_iff dest!: exempted_iff split: if_splits)
qed


section \<open>The masker of a column\<close>

text \<open>What it takes for a column to be masked, with no reference to the order of the checks.\<close>

definition masked_by ::
    "result_env \<Rightarrow> maskingLevelEvaluator \<Rightarrow> InstanceMessage option \<Rightarrow> ColumnResource \<Rightarrow> maskingDataProvider \<Rightarrow>
     UserMessage \<Rightarrow> Masker gomap \<Rightarrow> Masker \<Rightarrow> bool" where
  "masked_by env m ins col data user sm mk \<longleftrightarrow>
     (\<forall>i. ins = Some i \<longrightarrow> EngineSupportMasking (inst_Engine i)) \<and>
     (\<exists>db project column.
        getDatabase data (cr_Database col) = Some db \<and> getProject data (Database_ProjectID db) = Some project \<and>
        getColumn data col = Some column \<and>
        (let dc = Project_DataClassificationConfigId project; cfg = cm_config column;
             ty = effective_type (rm_eval env) m db col dc cfg
         in ty \<noteq> [] \<and> map_of sm ty = Some mk \<and>
            \<not> (\<exists>e \<in> set (user_exemptions env data (Database_ProjectID db) user).
                  exemption_holds (rm_eval env) (exempt_attributes (rm_eval env) m db col dc cfg) e)))"

lemma column_masker:
  assumes "getMaskerForColumnResource env m ins col data user sm = Ok (mk, r)" "mk' \<noteq> NoneMasker"
  shows "mk = mk' \<longleftrightarrow> masked_by env m ins col data user sm mk'"
proof (cases "(\<exists>i. ins = Some i \<and> \<not> EngineSupportMasking (inst_Engine i)) \<or>
    getDatabase data (cr_Database col) = None")
  case True
  with assms show ?thesis
    by (auto simp: getMaskerForColumnResource_def masked_by_def Let_def split: option.splits if_splits)
next
  case False
  then obtain db where db: "getDatabase data (cr_Database col) = Some db" by auto
  from False have engine: "(case ins of None \<Rightarrow> False | Some i \<Rightarrow> \<not> EngineSupportMasking (inst_Engine i)) = False"
    by (cases ins) auto
  show ?thesis
  proof (cases "getProject data (Database_ProjectID db) = None \<or> getColumn data col = None")
    case True
    with assms engine db show ?thesis
      by (auto simp: getMaskerForColumnResource_def masked_by_def Let_def split: option.splits)
  next
    case False
    then obtain project column where pc: "getProject data (Database_ProjectID db) = Some project"
      "getColumn data col = Some column" by auto
    let ?es = "user_exemptions env data (Database_ProjectID db) user"
    let ?E = "evaluateSemanticTypeOfColumn (rm_eval env) m db (cr_Schema col) (cr_Table col) (cr_Column col)
        (Project_DataClassificationConfigId project) (cm_config column) ?es"
    let ?k = "\<lambda>ev. case ev of None \<Rightarrow> (Ok (NoneMasker, None) :: (go_error, Masker \<times> MaskingEvaluation option) outcome)
      | Some e \<Rightarrow> if me_SemanticTypeID e = [] then Ok (NoneMasker, None)
          else case map_of sm (me_SemanticTypeID e) of None \<Rightarrow> Ok (NoneMasker, None)
            | Some result \<Rightarrow> Ok (result, Some (e\<lparr>me_Algorithm := getAlgorithmName result\<rparr>))"
    have "getMaskerForColumnResource env m ins col data user sm = bind_outcome (wrap (column_error env col) ?E) ?k"
      by (simp add: getMaskerForColumnResource_def engine db pc Let_def)
    with assms(1) obtain ev where ev: "?E = Ok ev" and k: "?k ev = Ok (mk, r)"
      by (auto simp only: bind_Ok_iff wrap_Ok_iff)
    from k have mk: "mk = (if type_of ev = [] then NoneMasker
        else case map_of sm (type_of ev) of None \<Rightarrow> NoneMasker | Some x \<Rightarrow> x)"
      by (cases ev) (auto simp: type_of_def split: if_splits option.splits)
    have none: "(case ins of None \<Rightarrow> True | Some i \<Rightarrow> EngineSupportMasking (inst_Engine i))"
      using engine by (auto split: option.splits)
    from none have "masked_by env m ins col data user sm mk' \<longleftrightarrow> type_of ev \<noteq> [] \<and> map_of sm (type_of ev) = Some mk'"
      by (auto simp: masked_by_def Let_def db pc evaluate_steps [OF ev] split: option.splits)
    with mk assms(2) show ?thesis by (auto split: if_splits option.splits)
  qed
qed

text \<open>
  C9. A column gets a masker exactly when the engine supports masking, the database, its project and the
  column are known, the semantic type of the column (that of the first rule that holds, else the one in
  its catalog) has that masker, and no exemption of the user's holds.
\<close>

theorem column_masked_iff:
  assumes "getMaskerForColumnResource env m ins col data user sm = Ok (mk, r)" "mk' \<noteq> NoneMasker"
  shows "mk = mk' \<longleftrightarrow> masked_by env m ins col data user sm mk'"
  by (rule column_masker [OF assms])


section \<open>Every cell of a masked column is masked\<close>





text \<open>The statement of a result asks for a plan.\<close>

definition is_explain :: "QueryResult \<Rightarrow> bool" where
  "is_explain result = HasPrefix (TrimSpace (res_Statement result)) ''EXPLAIN''"


lemma MaskResults_nth:
  assumes "MaskResults env spans results ins user = Ok out" "build_evaluator env = Inr m"
    and "i < length spans" "i < length results"
  shows "mask_one env m ins user (spans ! i, results ! i) = Ok (out ! i)"
  using assms by (auto simp: MaskResults_def bind_Ok_iff of_sum_def traverse_Ok_iff list_all2_conv_all_nth nth_append)

lemma of_sum_Inr [simp]: "of_sum (Inr x) = Ok x"
  by (simp add: of_sum_def)


text \<open>The masker of a column of a span, where all that is needed for it could be read.\<close>

definition span_masker ::
    "result_env \<Rightarrow> InstanceMessage option \<Rightarrow> UserMessage \<Rightarrow> QuerySpan \<Rightarrow> ColumnResource \<Rightarrow> Masker option" where
  "span_masker env ins user s col =
     (case (build_evaluator env, buildSemanticTypeToMaskerMap env, newMaskingDataProvider env ins (Some s)) of
        (Inr m, Inr sm, Inr data) \<Rightarrow>
          (case getMaskerForColumnResource env m ins col data user sm of Ok (mk, _) \<Rightarrow> Some mk | _ \<Rightarrow> None)
      | _ \<Rightarrow> None)"

lemma span_maskerE:
  assumes "span_masker env ins user s col = Some mk"
  obtains m sm data r where "build_evaluator env = Inr m" "buildSemanticTypeToMaskerMap env = Inr sm"
    "newMaskingDataProvider env ins (Some s) = Inr data"
    "getMaskerForColumnResource env m ins col data user sm = Ok (mk, r)"
  using assms by (auto simp: span_masker_def split: sum.splits outcome.splits)



section \<open>The order of the source columns\<close>

lemma traverse_Ok_all: "traverse f xs = Ok ys \<longleftrightarrow> (\<forall>x \<in> set xs. \<exists>y. f x = Ok y) \<and> ys = map (\<lambda>x. THE y. f x = Ok y) xs"
  by (induction xs arbitrary: ys) (auto simp: bind_Ok_iff)

lemma combine_perm:
  assumes "mset found = mset found'"
  shows "combine_maskers ins plain found = combine_maskers ins plain found'"
proof -
  define fs gs where "fs = filter (\<lambda>(m, _). m \<noteq> NoneMasker) found" and "gs = filter (\<lambda>(m, _). m \<noteq> NoneMasker) found'"
  have eq: "mset fs = mset gs" using assms by (simp add: fs_def gs_def)
  then have len: "length fs = length gs" by (rule mset_eq_length)
  show ?thesis
  proof (cases "length fs \<le> 1")
    case True
    with eq len have "fs = gs" by (cases fs; cases gs) auto
    then show ?thesis by (simp add: combine_maskers_def fs_def gs_def)
  next
    case False
    then obtain x y zs x' y' zs' where "fs = x # y # zs" "gs = x' # y' # zs'"
      using len by (metis One_nat_def Suc_le_length_iff not_less_eq_eq)
    then show ?thesis by (simp add: combine_maskers_def fs_def [symmetric] gs_def [symmetric])
  qed
qed

lemma result_masker_perm:
  assumes "mset (qr_SourceColumns a) = mset (qr_SourceColumns b)" "qr_IsPlainField a = qr_IsPlainField b"
    and "result_masker env m ins user data sm a = Ok x"
  shows "result_masker env m ins user data sm b = Ok x"
proof (cases "qr_SourceColumns a = []")
  case True
  with assms show ?thesis by (simp add: result_masker_def)
next
  case False
  with assms(1) have "qr_SourceColumns b \<noteq> []" by auto
  moreover from assms(1) have "set (qr_SourceColumns a) = set (qr_SourceColumns b)" by (rule mset_eq_setD)
  moreover have "combine_maskers ins plain (map g (qr_SourceColumns b)) = combine_maskers ins plain (map g (qr_SourceColumns a))"
    for plain g using assms(1) by (intro combine_perm) simp
  ultimately show ?thesis using assms(2,3) False
    by (simp add: result_masker_def bind_Ok_iff traverse_Ok_all)
qed

text \<open>
  The order in which \<open>range\<close> visits the source columns of a result column does not decide its
  masker, nor the reason given for it, nor whether one is found.
\<close>

lemma masker_any_order:
  assumes "mset (qr_SourceColumns a) = mset (qr_SourceColumns b)" "qr_IsPlainField a = qr_IsPlainField b"
  shows "result_masker env m ins user data sm a = Ok x \<longleftrightarrow> result_masker env m ins user data sm b = Ok x"
  using result_masker_perm [OF assms] result_masker_perm [OF assms [symmetric]] by blast


section \<open>Errors\<close>

lemma any_masked_iff:
  assumes "any_masked f cols = Ok b"
  shows "b \<longleftrightarrow> (\<exists>col \<in> set cols. \<exists>mk r. f col = Ok (mk, r) \<and> mk \<noteq> NoneMasker)"
proof -
  define P where "P col \<longleftrightarrow> (\<exists>mk r. f col = Ok (mk, r) \<and> mk \<noteq> NoneMasker)" for col
  have "any_masked f (c # cs) = Ok b \<Longrightarrow> if P c then b else any_masked f cs = Ok b" for c cs
    by (cases "f c") (auto simp: P_def split: if_splits)
  with assms have "b \<longleftrightarrow> (\<exists>col \<in> set cols. P col)"
    by (induction cols) (simp, metis set_ConsD list.set_intros)
  then show ?thesis by (simp add: P_def)
qed

lemma touches_iff:
  assumes "build_evaluator env = Inr m" "spanTouchesMaskedColumns env m ins user s = Ok b"
    and "\<And>cols. set (rm_columns env cols) = set cols"
  shows "b \<longleftrightarrow> (\<exists>col \<in> set (span_columns s). \<exists>mk. span_masker env ins user s col = Some mk \<and> mk \<noteq> NoneMasker)"
proof (cases "span_columns s = []")
  case True
  with assms(2) show ?thesis by (simp add: spanTouchesMaskedColumns_def)
next
  case False
  show ?thesis
  proof (cases "\<exists>sm data. buildSemanticTypeToMaskerMap env = Inr sm \<and> newMaskingDataProvider env ins (Some s) = Inr data")
    case True
    then obtain sm data where d: "buildSemanticTypeToMaskerMap env = Inr sm"
      "newMaskingDataProvider env ins (Some s) = Inr data" by blast
    let ?f = "\<lambda>col. getMaskerForColumnResource env m ins col data user sm"
    have "span_masker env ins user s col = Some mk \<longleftrightarrow> (\<exists>r. ?f col = Ok (mk, r))" for col mk
      by (auto simp: span_masker_def assms(1) d split: outcome.splits)
    moreover from assms(2) False have "any_masked ?f (rm_columns env (span_columns s)) = Ok b"
      by (simp add: spanTouchesMaskedColumns_def d Let_def)
    ultimately show ?thesis using any_masked_iff [of ?f "rm_columns env (span_columns s)" b] by (simp add: assms(3))
  next
    case none: False
    with assms(2) False have "b = False"
      by (cases "buildSemanticTypeToMaskerMap env"; cases "newMaskingDataProvider env ins (Some s)")
        (auto simp: spanTouchesMaskedColumns_def Let_def)
    with none show ?thesis by (auto elim: span_maskerE)
  qed
qed

lemma MaskResults_evaluator: "MaskResults env spans results ins user = Ok out \<Longrightarrow> \<exists>m. build_evaluator env = Inr m"
  by (auto simp: MaskResults_def bind_Ok_iff of_sum_def split: sum.splits)

lemma redacted:
  assumes "MaskResults env spans results ins user = Ok out"
    and "i < length spans" "i < length results" "spans ! i = Some s" "\<not> is_explain (results ! i)"
    and "res_Error (results ! i) \<noteq> []" "res_Rows (results ! i) = []"
    and "\<And>cols. set (rm_columns env cols) = set cols"
  shows "out ! i =
    (if \<exists>col \<in> set (span_columns s). \<exists>mk. span_masker env ins user s col = Some mk \<and> mk \<noteq> NoneMasker
     then (results ! i)\<lparr>res_Error := redacted_message\<rparr> else results ! i)"
proof -
  obtain m where m: "build_evaluator env = Inr m" using MaskResults_evaluator [OF assms(1)] by blast
  from MaskResults_nth [OF assms(1) m assms(2,3)] assms(4-7) obtain b where
    "spanTouchesMaskedColumns env m ins user s = Ok b"
    "out ! i = (if b then (results ! i)\<lparr>res_Error := redacted_message\<rparr> else results ! i)"
    by (auto simp: mask_one_def is_explain_def Let_def bind_Ok_iff)
  with touches_iff [OF m this(1) assms(8)] show ?thesis by simp
qed


lemma redaction_keeps_details:
  assumes "MaskResults env spans results ins user = Ok out"
    and "i < length spans" "i < length results" "spans ! i = Some s" "\<not> is_explain (results ! i)"
    and "res_Error (results ! i) \<noteq> []" "res_Rows (results ! i) = []"
    and "\<And>cols. set (rm_columns env cols) = set cols"
  shows "res_DetailedError (out ! i) = res_DetailedError (results ! i)"
  by (simp add: redacted [OF assms])

text \<open>The data is read only for the databases of the result columns.\<close>

lemma constant_span_masker:
  assumes "\<forall>r \<in> set (qs_Results s). qr_SourceColumns r = []" "span_masker env ins user s col = Some mk"
  shows "mk = NoneMasker"
proof -
  have none: "concat (map qr_SourceColumns (qs_Results s)) = []" using assms(1) by auto
  have "newMaskingDataProvider env ins (Some s) = Inr newEmptyMaskingDataProvider"
    unfolding newMaskingDataProvider_def prod.case option.case none database_names_def name_set_def
    by (simp add: newMaskingDataProviderFromDBNames_def split: option.split)
  with assms(2) show ?thesis
    by (auto simp: span_masker_def getMaskerForColumnResource_def newEmptyMaskingDataProvider_def getDatabase_def Let_def
        split: sum.splits outcome.splits option.splits if_splits)
qed

text \<open>
  The code falls short of its comment: a failed statement whose result has no source columns, such as
  \<^verbatim>\<open>SELECT 1 FROM t WHERE CAST(secret AS int) > 5\<close>, keeps its error text whatever columns its predicates
  read, since no database is loaded for them.
\<close>

lemma predicate_error_not_redacted:
  assumes "MaskResults env spans results ins user = Ok out"
    and "i < length spans" "i < length results" "spans ! i = Some s" "\<not> is_explain (results ! i)"
    and "res_Error (results ! i) \<noteq> []" "res_Rows (results ! i) = []"
    and "\<And>cols. set (rm_columns env cols) = set cols"
    and "\<forall>r \<in> set (qs_Results s). qr_SourceColumns r = []"
  shows "out ! i = results ! i"
  unfolding redacted [OF assms(1-8)] using constant_span_masker [OF assms(9)] by auto

text \<open>Results beyond the last span are returned as they came.\<close>

lemma results_without_span:
  assumes "MaskResults env spans results ins user = Ok out" "length spans \<le> i" "i < length results"
  shows "out ! i = results ! i"
proof -
  from assms(1) obtain masked m where "traverse (mask_one env m ins user) (zip spans results) = Ok masked"
    and out: "out = masked @ drop (length spans) results"
    by (auto simp: MaskResults_def bind_Ok_iff)
  then have "length masked = length spans" using assms(2,3) by (auto simp: traverse_Ok_iff dest: list_all2_lengthD)
  with out assms(2,3) show ?thesis by (simp add: nth_append)
qed


section \<open>Masked columns in predicates\<close>

definition predicate_masker ::
    "result_env \<Rightarrow> InstanceMessage option \<Rightarrow> UserMessage \<Rightarrow> QuerySpan list \<Rightarrow> ColumnResource \<Rightarrow> Masker option" where
  "predicate_masker env ins user spans col =
     (case (build_evaluator env, buildSemanticTypeToMaskerMap env,
            newMaskingDataProviderFromColumns env ins (remdups (concat (map qs_PredicateColumns spans)))) of
        (Inr m, Inr sm, Inr data) \<Rightarrow>
          (case getMaskerForColumnResource env m ins col data user sm of Ok (mk, _) \<Rightarrow> Some mk | _ \<Rightarrow> None)
      | _ \<Rightarrow> None)"

text \<open>A column with a masker is sensitive (one whose type has no masker is so, too).\<close>

lemma masked_sensitive:
  assumes "getMaskerForColumnResource env m ins col data user sm = Ok (mk, r)" "mk \<noteq> NoneMasker"
    and "predicate_sensitive env m data user col = Ok b"
  shows b
  using assms
  by (auto simp: getMaskerForColumnResource_def predicate_sensitive_def isSensitiveColumn_def Let_def bind_Ok_iff
      wrap_Ok_iff split: option.splits if_splits)

lemma sensitive_columns_set:
  assumes "sensitive_columns f cols = Ok xs" "col \<in> set cols" "f col \<noteq> Ok False"
  shows "col \<in> set xs"
  using assms by (induction cols arbitrary: xs) (auto simp: bind_Ok_iff)

lemma extract_masked:
  assumes "ExtractSensitivePredicateColumns env spans (Some ins) user = Ok sens" "inst_Engine ins = Engine_MSSQL"
    and "i < length spans" "col \<in> set (qs_PredicateColumns (spans ! i))"
    and "predicate_masker env (Some ins) user spans col = Some mk" "mk \<noteq> NoneMasker"
  shows "i < length sens \<and> col \<in> set (sens ! i)"
proof -
  from assms(5) obtain m sm data r where d: "build_evaluator env = Inr m"
    "newMaskingDataProviderFromColumns env (Some ins) (remdups (concat (map qs_PredicateColumns spans))) = Inr data"
    and mk: "getMaskerForColumnResource env m (Some ins) col data user sm = Ok (mk, r)"
    by (auto simp: predicate_masker_def split: sum.splits outcome.splits)
  from assms(1) d have "traverse (\<lambda>span. wrap (Wrap ''failed to get sensitive columns for predicate'')
       (getSensitiveColumnsForPredicate env m (Some ins) (qs_PredicateColumns span) data user)) spans = Ok sens"
    by (simp add: ExtractSensitivePredicateColumns_def)
  with assms(2,3) have "i < length sens"
    "sensitive_columns (predicate_sensitive env m data user) (qs_PredicateColumns (spans ! i)) = Ok (sens ! i)"
    by (auto simp: traverse_Ok_iff list_all2_conv_all_nth wrap_Ok_iff getSensitiveColumnsForPredicate_def
        isPredicateColumnsCheckEnabled_def)
  moreover have "predicate_sensitive env m data user col \<noteq> Ok False"
    using masked_sensitive [OF mk assms(6), of False] by auto
  ultimately show ?thesis using sensitive_columns_set [OF _ assms(4)] by blast
qed

lemma blank_sensitive_nth:
  assumes "i < length results" "i < length sens" "sens ! i \<noteq> []"
  shows "blank_sensitive sens results ! i = blank (getSensitivePredicateColumnErrorMessages (sens ! i)) (results ! i)"
  using assms by (simp add: blank_sensitive_def nth_enumerate_eq)

text \<open>
  On SQL Server a statement whose predicates read a column with a masker gives no rows, only the
  message that names its sensitive columns.
\<close>

lemma sensitive_predicate_refused:
  assumes "ExtractSensitivePredicateColumns env spans (Some ins) user = Ok sens" "inst_Engine ins = Engine_MSSQL"
    and "mask_query_results env spans sens results (Some ins) user = Ok out"
    and "i < length spans" "i < length results" "col \<in> set (qs_PredicateColumns (spans ! i))"
    and "predicate_masker env (Some ins) user spans col = Some mk" "mk \<noteq> NoneMasker"
  shows "res_Rows (out ! i) = [] \<and> col \<in> set (sens ! i) \<and>
    res_Error (out ! i) = getSensitivePredicateColumnErrorMessages (sens ! i)"
proof -
  from assms(3) obtain masked where "MaskResults env (map Some spans) results (Some ins) user = Ok masked"
    and out: "out = blank_sensitive sens masked"
    by (auto simp: mask_query_results_def bind_Ok_iff)
  then have "length masked = length results"
    by (auto simp: MaskResults_def bind_Ok_iff traverse_Ok_iff dest!: list_all2_lengthD)
  moreover from extract_masked [OF assms(1,2,4,6,7,8)] have "i < length sens" "sens ! i \<noteq> []" "col \<in> set (sens ! i)"
    by auto
  ultimately show ?thesis using assms(5) by (simp add: out blank_sensitive_nth blank_def)
qed

text \<open>On other engines no predicate is looked at.\<close>

lemma predicates_unchecked:
  assumes "ExtractSensitivePredicateColumns env spans (Some ins) user = Ok sens" "inst_Engine ins \<noteq> Engine_MSSQL"
  shows "\<forall>cols \<in> set sens. cols = []"
proof -
  from assms have "list_all2 (\<lambda>_. (=) []) spans sens"
    by (auto simp: ExtractSensitivePredicateColumns_def bind_Ok_iff traverse_Ok_iff wrap_Ok_iff
        getSensitiveColumnsForPredicate_def isPredicateColumnsCheckEnabled_def)
  then show ?thesis by (auto simp: list_all2_conv_all_nth in_set_conv_nth)
qed


section \<open>A staff table with a masked column\<close>

definition staff_metadata :: DatabaseMetadata where
  "staff_metadata =
     NewDatabaseMetadata
       (zero_DatabaseSchemaMetadata\<lparr>db_name := ''hr'', db_schemas :=
         [zero_SchemaMetadata\<lparr>sch_name := ''dbo'', sch_tables :=
           [zero_TableMetadata\<lparr>tbl_name := ''staff'', tbl_columns :=
             [zero_ColumnMetadata\<lparr>col_name := ''name''\<rparr>, zero_ColumnMetadata\<lparr>col_name := ''ssn''\<rparr>]\<rparr>]\<rparr>]\<rparr>)
       []
       (Some \<lparr>dbc_name = ''hr'', dbc_schemas = [\<lparr>scat_name = ''dbo'', scat_tables =
         [\<lparr>tcat_name = ''staff'', tcat_columns =
             [\<lparr>ccat_name = ''ssn'', ccat_semantic_type = ''pii'', ccat_labels = [], ccat_classification = [],
               ccat_object_schema = None\<rparr>],
           tcat_object_schema = None, tcat_classification = []\<rparr>]\<rparr>]\<rparr>)
       Engine_MSSQL False"

definition staff_column :: "string \<Rightarrow> ColumnResource" where
  "staff_column c = \<lparr>cr_Server = [], cr_Database = ''hr'', cr_Schema = ''dbo'', cr_Table = ''staff'', cr_Column = c\<rparr>"

definition staff_access :: access_env where
  "staff_access =
     \<lparr>cel_Partial = \<lambda>_ _. Inr CelOther, time_Now = 0, Quote = id, GetGroupByName = \<lambda>_ _. Inr None,
      GetAccountByEmail = \<lambda>_. Inr None, ListUsers = Inr [], GetWorkspaceIamPolicySnapshot = \<lambda>_. Inr None,
      GetProjectIamPolicySnapshot = \<lambda>_ _. Inr None, GetProject = \<lambda>_ _. Inr None,
      GetRoleSnapshot = \<lambda>_ _. Inr None, GetGroupMembersSnapshot = \<lambda>_ _. Inr None,
      GetUserGroupsSnapshot = \<lambda>_ _. Inr []\<rparr>"

text \<open>The project exempts Ann; a rule of the workspace never holds.\<close>

definition staff_env :: result_env where
  "staff_env =
     \<lparr>rm_eval = \<lparr>ev_access = staff_access, ev_rule = \<lambda>_ _. Inr (CelBool False), ev_exemption = \<lambda>_ _. Inr (CelBool True)\<rparr>,
      rm_library = \<lparr>FormatFloat64 = \<lambda>_. [], FormatFloat32 = \<lambda>_. [], md5_hex = id, FormatTimestamp = \<lambda>_. [],
        FormatTimestampTZ = \<lambda>_. []\<rparr>,
      rm_workspace = ''ws'', rm_order = \<lambda>_. insertion_order, rm_columns = rev,
      GetDataClassificationSetting = \<lambda>_. Inr None,
      GetMaskingRulePolicy = \<lambda>_. Inr (Some [\<lparr>rule_Id = ''r1'', rule_Condition =
        Some \<lparr>Expr_Expression = ''never'', Expr_Title = [], Expr_Description = [], Expr_Location = []\<rparr>,
        rule_SemanticType = ''bb.default''\<rparr>]),
      GetSemanticTypesSetting = \<lambda>_. Inr (Some [\<lparr>st_Id = ''pii'', st_Title = ''PII'', st_Description = [],
        st_Algorithm = Some (Algorithm_FullMask ''#''), st_Icon = []\<rparr>]),
      ListDatabases = \<lambda>_ i names. Inr (map (\<lambda>n. \<lparr>Database_ProjectID = ''p'', Database_InstanceID = i,
        Database_DatabaseName = n, Database_EffectiveEnvironmentID = None\<rparr>) names),
      ListProjects = \<lambda>ws ids. Inr (map (\<lambda>i. \<lparr>Project_ResourceID = i, Project_Workspace = ws,
        Project_DataClassificationConfigId = [], Project_Deleted = False\<rparr>) ids),
      GetDBSchema = \<lambda>_ _ _. Inr (Some staff_metadata),
      GetMaskingExemptionPolicyByProject = \<lambda>_ _. Inr (Some
        [\<lparr>exempt_Members = [''users/ann@x.org''], exempt_Condition = None\<rparr>])\<rparr>"

definition staff_instance :: InstanceMessage where
  "staff_instance = \<lparr>inst_ResourceID = ''prod'', inst_Engine = Engine_MSSQL\<rparr>"

definition staff_user :: "string \<Rightarrow> UserMessage" where
  "staff_user email = \<lparr>User_Email = email, User_Name = [], User_Type = END_USER, User_MemberDeleted = False\<rparr>"

definition staff_span :: "string list \<Rightarrow> string list \<Rightarrow> QuerySpan" where
  "staff_span selected predicates =
     zero_QuerySpan\<lparr>qs_Results := map (\<lambda>c. \<lparr>qr_Name = c, qr_SourceColumns = [staff_column c], qr_IsPlainField = True,
         qr_SourceFieldPaths = [], qr_SelectAsterisk = False\<rparr>) selected,
       qs_PredicateColumns := map staff_column predicates\<rparr>"

definition staff_rows :: QueryResult where
  "staff_rows = \<lparr>res_ColumnNames = [''name'', ''ssn''], res_Rows = [[Some (RV_String ''Ann''), Some (RV_String ''123'')]],
     res_RowsCount = 1, res_Error = [], res_DetailedError = None, res_Statement = ''SELECT name, ssn FROM staff'',
     res_Masked = []\<rparr>"

definition staff_failure :: QueryResult where
  "staff_failure = staff_rows\<lparr>res_Rows := [], res_Error := ''invalid input: 123''\<rparr>"


definition staff_evaluator :: maskingLevelEvaluator where
  "staff_evaluator = (case build_evaluator staff_env of Inr m \<Rightarrow> m | Inl _ \<Rightarrow> newEmptyMaskingLevelEvaluator)"

definition staff_data :: maskingDataProvider where
  "staff_data =
     (case newMaskingDataProvider staff_env (Some staff_instance) (Some (staff_span [''ssn''] [])) of
        Inr d \<Rightarrow> d | Inl _ \<Rightarrow> newEmptyMaskingDataProvider)"

definition staff_maskers :: "Masker gomap" where
  "staff_maskers = [(''bb.default'', NewDefaultFullMasker), (''pii'', FullMasker ''#'')]"

lemma staff_evaluator: "build_evaluator staff_env = Inr staff_evaluator"
  by code_simp

abbreviation staff_masker :: "string \<Rightarrow> string \<Rightarrow> (go_error, Masker \<times> MaskingEvaluation option) outcome" where
  "staff_masker email c \<equiv> getMaskerForColumnResource staff_env staff_evaluator (Some staff_instance)
     (staff_column c) staff_data (staff_user email) staff_maskers"

lemma staff_masker_values:
  "staff_masker ''bob@x.org'' ''ssn'' = Ok (FullMasker ''#'', Some
     \<lparr>me_SemanticTypeID = ''pii'', me_SemanticTypeTitle = ''PII'', me_SemanticTypeIcon = [], me_MaskingRuleID = [],
      me_Algorithm = ''Full mask'', me_Context = ''Column-level semantic type: prod.hr.dbo.staff.ssn'',
      me_ClassificationLevel = 0\<rparr>)"
  "staff_masker ''ann@x.org'' ''ssn'' = Ok (NoneMasker, None)"
  "staff_masker ''bob@x.org'' ''name'' = Ok (NoneMasker, None)"
  by code_simp+

theorem column_masked_iff_witness:
  "masked_by staff_env staff_evaluator (Some staff_instance) (staff_column ''ssn'') staff_data
     (staff_user ''bob@x.org'') staff_maskers (FullMasker ''#'') \<and>
   \<not> masked_by staff_env staff_evaluator (Some staff_instance) (staff_column ''ssn'') staff_data
     (staff_user ''ann@x.org'') staff_maskers (FullMasker ''#'')"
  using column_masked_iff [OF staff_masker_values(1), of "FullMasker ''#''"]
    column_masked_iff [OF staff_masker_values(2), of "FullMasker ''#''"] by simp



definition two_columns :: "ColumnResource list \<Rightarrow> QuerySpanResult" where
  "two_columns cols = \<lparr>qr_Name = ''x'', qr_SourceColumns = cols, qr_IsPlainField = False,
     qr_SourceFieldPaths = [], qr_SelectAsterisk = False\<rparr>"

theorem masker_any_order_witness:
  "\<exists>x. result_masker staff_env staff_evaluator (Some staff_instance) (staff_user ''bob@x.org'') staff_data staff_maskers
       (two_columns [staff_column ''ssn'', staff_column ''name'']) = Ok x \<and> fst x \<noteq> NoneMasker \<and>
     result_masker staff_env staff_evaluator (Some staff_instance) (staff_user ''bob@x.org'') staff_data staff_maskers
       (two_columns [staff_column ''name'', staff_column ''ssn'']) = Ok x"
proof -
  let ?r = "\<lambda>cols. result_masker staff_env staff_evaluator (Some staff_instance) (staff_user ''bob@x.org'') staff_data
    staff_maskers (two_columns cols)"
  have "case ?r [staff_column ''ssn'', staff_column ''name''] of Ok x \<Rightarrow> fst x \<noteq> NoneMasker | _ \<Rightarrow> False"
    by code_simp
  then obtain x where "?r [staff_column ''ssn'', staff_column ''name''] = Ok x" "fst x \<noteq> NoneMasker"
    by (auto split: outcome.splits)
  moreover have "?r [staff_column ''ssn'', staff_column ''name''] = Ok x \<longleftrightarrow> ?r [staff_column ''name'', staff_column ''ssn''] = Ok x"
    by (rule masker_any_order) (simp_all add: two_columns_def add_mset_commute)
  ultimately show ?thesis by blast
qed

lemma rev_columns: "set (rm_columns staff_env cols) = set cols"
  by (simp add: staff_env_def)

lemma staff_refused:
  "MaskResults staff_env [Some (staff_span [''ssn''] [])] [staff_failure] (Some staff_instance) (staff_user ''bob@x.org'') =
     Ok [staff_failure\<lparr>res_Error := redacted_message\<rparr>]"
  "MaskResults staff_env [Some (staff_span [] [''ssn''])] [staff_failure] (Some staff_instance) (staff_user ''bob@x.org'') =
     Ok [staff_failure]"
  by code_simp+

lemma staff_failure_facts:
  "\<not> is_explain ([staff_failure] ! 0)" "res_Error ([staff_failure] ! 0) \<noteq> []" "res_Rows ([staff_failure] ! 0) = []"
  "(0 :: nat) < length [Some s]" "(0 :: nat) < length [staff_failure]"
  by (code_simp | simp)+


theorem predicate_error_not_redacted_witness:
  "MaskResults staff_env [Some (staff_span [] [''ssn''])] [staff_failure] (Some staff_instance) (staff_user ''bob@x.org'') =
     Ok [staff_failure]"
proof -
  have "\<forall>r \<in> set (qs_Results (staff_span [] [''ssn''])). qr_SourceColumns r = []" by (simp add: staff_span_def)
  from predicate_error_not_redacted [OF staff_refused(2) staff_failure_facts(4,5) _ staff_failure_facts(1-3) rev_columns this]
  show ?thesis using staff_refused(2) by simp
qed

lemma staff_predicates:
  "ExtractSensitivePredicateColumns staff_env [staff_span [''name''] [''ssn'']] (Some staff_instance) (staff_user ''bob@x.org'') =
     Ok [[staff_column ''ssn'']]"
  "predicate_masker staff_env (Some staff_instance) (staff_user ''bob@x.org'') [staff_span [''name''] [''ssn'']]
     (staff_column ''ssn'') = Some (FullMasker ''#'')"
  "mask_query_results staff_env [staff_span [''name''] [''ssn'']] [[staff_column ''ssn'']]
     [staff_rows\<lparr>res_Rows := [[Some (RV_String ''Ann'')]]\<rparr>] (Some staff_instance) (staff_user ''bob@x.org'') =
     Ok [staff_rows\<lparr>res_Rows := [], res_RowsCount := 0, res_Masked := [None],
       res_Error := ''Using sensitive columns in WHERE clause is not allowed: hr.dbo.staff.ssn''\<rparr>]"
  by code_simp+

theorem sensitive_predicate_refused_witness:
  "\<exists>out. mask_query_results staff_env [staff_span [''name''] [''ssn'']] [[staff_column ''ssn'']]
     [staff_rows\<lparr>res_Rows := [[Some (RV_String ''Ann'')]]\<rparr>] (Some staff_instance) (staff_user ''bob@x.org'') = Ok out \<and>
     res_Rows (out ! 0) = []"
proof -
  have "inst_Engine staff_instance = Engine_MSSQL" by (simp add: staff_instance_def)
  moreover have "staff_column ''ssn'' \<in> set (qs_PredicateColumns ([staff_span [''name''] [''ssn'']] ! 0))" by code_simp
  ultimately show ?thesis
    using sensitive_predicate_refused [OF staff_predicates(1) _ staff_predicates(3) _ _ _ staff_predicates(2), of 0]
      staff_predicates(3) by simp
qed

text \<open>The rule of a type without a masker hides the type in the catalog: the column is shown.\<close>

lemma unknown_rule_type_unmasks:
  "(case build_evaluator (staff_env\<lparr>GetMaskingRulePolicy := \<lambda>_. Inr (Some [\<lparr>rule_Id = ''r1'', rule_Condition =
        Some \<lparr>Expr_Expression = [], Expr_Title = [], Expr_Description = [], Expr_Location = []\<rparr>,
        rule_SemanticType = ''dropped''\<rparr>])\<rparr>) of
      Inl _ \<Rightarrow> False
    | Inr m \<Rightarrow>
        (case getMaskerForColumnResource staff_env m (Some staff_instance) (staff_column ''ssn'') staff_data
           (staff_user ''bob@x.org'') staff_maskers of
           Ok (mk, r) \<Rightarrow> mk = NoneMasker
         | _ \<Rightarrow> False))"
  by code_simp

end
