(* ===== verification/ApprovalRules.thy ===== *)
theory ApprovalRules
  imports IAM Engine Outcome "HOL-Library.Word"
begin

text \<open>
  How the template of an approval is chosen: the risk of statements (\<^verbatim>\<open>common/risk.go\<close>), the attributes
  a rule is evaluated on (\<^verbatim>\<open>expandCELVars\<close> and its companions in \<^verbatim>\<open>runner/approval/runner.go\<close>), the
  search of the workspace's rules (\<^verbatim>\<open>getApprovalTemplate\<close>), and the databases that the condition of a
  role grant names (\<^verbatim>\<open>GetQueryExportFactors\<close> in \<^verbatim>\<open>common/cel.go\<close>).  The CEL library is a record of
  parameters; its syntax trees are a datatype with the shapes the code tells apart.
\<close>

section \<open>Risk\<close>

datatype RiskLevel = RISK_LEVEL_UNSPECIFIED | RiskLevel_LOW | RiskLevel_MODERATE | RiskLevel_HIGH

definition highRiskStatementTypes :: "string list" where
  "highRiskStatementTypes = [''DROP_DATABASE'', ''DROP_TABLE'', ''DROP_SCHEMA'', ''TRUNCATE'']"

definition moderateRiskStatementTypes :: "string list" where
  "moderateRiskStatementTypes = [''DELETE'', ''UPDATE'', ''ALTER_TABLE'', ''DROP_INDEX'']"

definition GetRiskLevelFromStatementTypes :: "string list \<Rightarrow> RiskLevel" where
  "GetRiskLevelFromStatementTypes statementTypes =
     (if list_ex (\<lambda>t. t \<in> set highRiskStatementTypes) statementTypes then RiskLevel_HIGH
      else if list_ex (\<lambda>t. t \<in> set moderateRiskStatementTypes) statementTypes then RiskLevel_MODERATE
      else RiskLevel_LOW)"

definition riskLevelToString :: "RiskLevel \<Rightarrow> string" where
  "riskLevelToString level =
     (case level of
        RiskLevel_LOW \<Rightarrow> ''LOW''
      | RiskLevel_MODERATE \<Rightarrow> ''MODERATE''
      | RiskLevel_HIGH \<Rightarrow> ''HIGH''
      | RISK_LEVEL_UNSPECIFIED \<Rightarrow> ''LOW'')"


section \<open>Attributes\<close>

text \<open>The values of \<^verbatim>\<open>map[string]any\<close>; the maps are cloned before each change, so they are values.\<close>

datatype cel_any = AnyString string | AnyInt "64 word" | AnyBool bool

type_synonym cel_vars = "string \<rightharpoonup> cel_any"

definition CELAttributeResourceEnvironmentID :: string where
  "CELAttributeResourceEnvironmentID = ''resource.environment_id''"

definition CELAttributeResourceProjectID :: string where
  "CELAttributeResourceProjectID = ''resource.project_id''"

definition CELAttributeResourceInstanceID :: string where
  "CELAttributeResourceInstanceID = ''resource.instance_id''"

definition CELAttributeResourceDatabaseName :: string where
  "CELAttributeResourceDatabaseName = ''resource.database_name''"

definition CELAttributeResourceTableName :: string where
  "CELAttributeResourceTableName = ''resource.table_name''"

definition CELAttributeResourceDBEngine :: string where
  "CELAttributeResourceDBEngine = ''resource.db_engine''"

definition CELAttributeResourceDatabase :: string where
  "CELAttributeResourceDatabase = ''resource.database''"

definition CELAttributeStatementAffectedRows :: string where
  "CELAttributeStatementAffectedRows = ''statement.affected_rows''"

definition CELAttributeStatementTableRows :: string where
  "CELAttributeStatementTableRows = ''statement.table_rows''"

definition CELAttributeStatementSQLType :: string where
  "CELAttributeStatementSQLType = ''statement.sql_type''"

definition CELAttributeStatementText :: string where
  "CELAttributeStatementText = ''statement.text''"

definition CELAttributeRequestExpirationDays :: string where
  "CELAttributeRequestExpirationDays = ''request.expiration_days''"

definition CELAttributeRequestRole :: string where
  "CELAttributeRequestRole = ''request.role''"

definition CELAttributeRequestUnmask :: string where
  "CELAttributeRequestUnmask = ''request.unmask''"

definition CELAttributeRiskLevel :: string where
  "CELAttributeRiskLevel = ''risk.level''"

lemmas cel_attributes =
  CELAttributeResourceEnvironmentID_def CELAttributeResourceProjectID_def CELAttributeResourceInstanceID_def
  CELAttributeResourceDatabaseName_def CELAttributeResourceTableName_def CELAttributeResourceDBEngine_def
  CELAttributeStatementAffectedRows_def CELAttributeStatementTableRows_def CELAttributeStatementSQLType_def
  CELAttributeStatementText_def CELAttributeRequestExpirationDays_def CELAttributeRequestRole_def
  CELAttributeRequestUnmask_def CELAttributeRiskLevel_def

text \<open>\<^verbatim>\<open>String()\<close> of the enum: the name in the protocol buffer.\<close>

fun Engine_String :: "Engine \<Rightarrow> string" where
  "Engine_String Engine_ENGINE_UNSPECIFIED = ''ENGINE_UNSPECIFIED''"
| "Engine_String Engine_CLICKHOUSE = ''CLICKHOUSE''"
| "Engine_String Engine_MYSQL = ''MYSQL''"
| "Engine_String Engine_POSTGRES = ''POSTGRES''"
| "Engine_String Engine_SNOWFLAKE = ''SNOWFLAKE''"
| "Engine_String Engine_SQLITE = ''SQLITE''"
| "Engine_String Engine_TIDB = ''TIDB''"
| "Engine_String Engine_MONGODB = ''MONGODB''"
| "Engine_String Engine_REDIS = ''REDIS''"
| "Engine_String Engine_ORACLE = ''ORACLE''"
| "Engine_String Engine_SPANNER = ''SPANNER''"
| "Engine_String Engine_MSSQL = ''MSSQL''"
| "Engine_String Engine_REDSHIFT = ''REDSHIFT''"
| "Engine_String Engine_MARIADB = ''MARIADB''"
| "Engine_String Engine_OCEANBASE = ''OCEANBASE''"
| "Engine_String Engine_STARROCKS = ''STARROCKS''"
| "Engine_String Engine_DORIS = ''DORIS''"
| "Engine_String Engine_HIVE = ''HIVE''"
| "Engine_String Engine_ELASTICSEARCH = ''ELASTICSEARCH''"
| "Engine_String Engine_BIGQUERY = ''BIGQUERY''"
| "Engine_String Engine_DYNAMODB = ''DYNAMODB''"
| "Engine_String Engine_DATABRICKS = ''DATABRICKS''"
| "Engine_String Engine_COCKROACHDB = ''COCKROACHDB''"
| "Engine_String Engine_COSMOSDB = ''COSMOSDB''"
| "Engine_String Engine_TRINO = ''TRINO''"
| "Engine_String Engine_CASSANDRA = ''CASSANDRA''"

text \<open>One map for each pair of a statement type, given by its name, and a table.\<close>

definition expandCELVars :: "cel_vars \<Rightarrow> string list \<Rightarrow> string list \<Rightarrow> cel_vars list" where
  "expandCELVars base statementTypes tableNames =
     (if statementTypes = [] then [base]
      else let tables = if tableNames = [] then [[]] else tableNames
           in concat (map (\<lambda>statementType.
                map (\<lambda>tableName.
                  let vars = base(CELAttributeStatementSQLType \<mapsto> AnyString statementType)
                  in if tableName \<noteq> [] then vars(CELAttributeResourceTableName \<mapsto> AnyString tableName) else vars)
                tables) statementTypes))"

definition sql_type :: "cel_vars \<Rightarrow> string" where
  "sql_type vars = (case vars CELAttributeStatementSQLType of Some (AnyString t) \<Rightarrow> t | _ \<Rightarrow> [])"

definition collectStatementTypes :: "cel_vars list \<Rightarrow> string list" where
  "collectStatementTypes celVarsList = Uniq (filter (\<lambda>t. t \<noteq> []) (map sql_type celVarsList))"

text \<open>\<^verbatim>\<open>nil\<close> and the empty list have the same risk.\<close>

definition calculateRiskLevelFromCELVars :: "cel_vars list \<Rightarrow> RiskLevel" where
  "calculateRiskLevelFromCELVars celVarsList =
     (if celVarsList = [] then RiskLevel_LOW else GetRiskLevelFromStatementTypes (collectStatementTypes celVarsList))"

definition injectRiskLevelIntoCELVars :: "RiskLevel \<Rightarrow> cel_vars list \<Rightarrow> cel_vars list" where
  "injectRiskLevelIntoCELVars riskLevel celVarsList =
     map (\<lambda>celVars. celVars(CELAttributeRiskLevel \<mapsto> AnyString (riskLevelToString riskLevel))) celVarsList"


section \<open>Rules\<close>

datatype Rule_Source =
  SOURCE_UNSPECIFIED | CHANGE_DATABASE | CREATE_DATABASE | EXPORT_DATA | REQUEST_ROLE | REQUEST_ACCESS

text \<open>A template as far as it decides anything: the roles of its flow, \<open>None\<close> without a flow.\<close>

type_synonym ApprovalTemplate = "string list option"

record Rule =
  Rule_Template :: "ApprovalTemplate option"
  Rule_Condition :: "Expr option"
  Rule_Source :: Rule_Source

datatype factors = ApprovalFactors | FallbackApprovalFactors

text \<open>
  The environment for a list of factors, the program of a condition, the activation of a map, and
  whether the program yields true on it.
\<close>

record rule_cel =
  factors_env :: "factors \<Rightarrow> go_error option"
  rule_program :: "factors \<Rightarrow> string \<Rightarrow> (cel_stage \<times> go_error) option"
  rule_vars :: "factors \<Rightarrow> cel_vars \<Rightarrow> go_error option"
  rule_eval :: "factors \<Rightarrow> string \<Rightarrow> cel_vars \<Rightarrow> go_error + bool"

primrec matches_any :: "rule_cel \<Rightarrow> factors \<Rightarrow> string \<Rightarrow> cel_vars list \<Rightarrow> go_error + bool" where
  "matches_any cel fs expr [] = Inr False"
| "matches_any cel fs expr (celVars # rest) =
     (case rule_vars cel fs celVars of
        Some e \<Rightarrow> Inl (Wrap ''failed to create partial vars'' e)
      | None \<Rightarrow>
          (case rule_eval cel fs expr celVars of
             Inl _ \<Rightarrow> matches_any cel fs expr rest
           | Inr res \<Rightarrow> if res then Inr True else matches_any cel fs expr rest))"

primrec match_rules ::
  "rule_cel \<Rightarrow> factors \<Rightarrow> Rule_Source \<Rightarrow> cel_vars list \<Rightarrow> Rule list \<Rightarrow> go_error + ApprovalTemplate option" where
  "match_rules cel fs source celVarsList [] = Inr None"
| "match_rules cel fs source celVarsList (rule # rest) =
     (if Rule_Source rule \<noteq> source then match_rules cel fs source celVarsList rest
      else if GetExpression (Rule_Condition rule) = [] then match_rules cel fs source celVarsList rest
      else if GetExpression (Rule_Condition rule) = ''true'' then Inr (Rule_Template rule)
      else
        (case rule_program cel fs (GetExpression (Rule_Condition rule)) of
           Some (CelProgram, e) \<Rightarrow> Inl (Wrap ''failed to compile expression'' e)
         | Some (_, e) \<Rightarrow> Inl e
         | None \<Rightarrow>
             bind_sum (matches_any cel fs (GetExpression (Rule_Condition rule)) celVarsList) (\<lambda>res.
               if res then Inr (Rule_Template rule) else match_rules cel fs source celVarsList rest)))"

definition matchRulesForSource ::
  "rule_cel \<Rightarrow> Rule list \<Rightarrow> Rule_Source \<Rightarrow> cel_vars list \<Rightarrow> factors \<Rightarrow> go_error + ApprovalTemplate option" where
  "matchRulesForSource cel rules source celVarsList celFactors =
     (case factors_env cel celFactors of
        Some e \<Rightarrow> Inl e
      | None \<Rightarrow> match_rules cel celFactors source celVarsList rules)"

definition buildFallbackCELVars :: "cel_vars list \<Rightarrow> cel_vars list" where
  "buildFallbackCELVars celVarsList =
     (case celVarsList of
        [] \<Rightarrow> []
      | firstVars # _ \<Rightarrow>
          (case firstVars CELAttributeResourceProjectID of
             None \<Rightarrow> []
           | Some projectID \<Rightarrow> [[CELAttributeResourceProjectID \<mapsto> projectID]]))"

definition getApprovalTemplate ::
  "rule_cel \<Rightarrow> Rule list \<Rightarrow> Rule_Source \<Rightarrow> cel_vars list \<Rightarrow> go_error + ApprovalTemplate option" where
  "getApprovalTemplate cel rules riskSource celVarsList =
     (if rules = [] then Inr None
      else if celVarsList = [] then Inr None
      else
        bind_sum (matchRulesForSource cel rules riskSource celVarsList ApprovalFactors) (\<lambda>template.
        case template of
          Some t \<Rightarrow> Inr (Some t)
        | None \<Rightarrow>
            matchRulesForSource cel rules SOURCE_UNSPECIFIED (buildFallbackCELVars celVarsList) FallbackApprovalFactors))"


section \<open>The databases of a condition\<close>

text \<open>A constant that is not a string reads as the empty string.\<close>

datatype cel_expr =
  CelIdent string
| CelConst string
| CelCall string "cel_expr list"
| CelList "cel_expr list"
| CelOtherExpr

definition const_string :: "cel_expr \<Rightarrow> string" where
  "const_string e = (case e of CelConst s \<Rightarrow> s | _ \<Rightarrow> [])"

text \<open>
  What \<^verbatim>\<open>findField\<close> appends to \<^verbatim>\<open>factors.Databases\<close>.  The right operand of \<^verbatim>\<open>in\<close> is taken for a list; the
  list of any other expression is a nil pointer, whose field is read.
\<close>

definition ident_factors :: "string \<Rightarrow> string \<Rightarrow> cel_expr \<Rightarrow> (go_error, string list) outcome" where
  "ident_factors name function_name arg =
     (if name = CELAttributeResourceDatabase \<and> function_name = ''_==_'' then Ok [const_string arg]
      else if name = CELAttributeResourceDatabase \<and> function_name = ''@in'' then
        (case arg of CelList elements \<Rightarrow> Ok (map const_string elements) | _ \<Rightarrow> Panic)
      else Ok [])"

fun findField :: "cel_expr \<Rightarrow> (go_error, string list) outcome" where
  "findField (CelCall function_name [CelIdent name, arg]) = ident_factors name function_name arg"
| "findField (CelCall function_name args) = bind_outcome (traverse findField args) (\<lambda>found. Ok (concat found))"
| "findField _ = Ok []"

text \<open>\<open>parse\<close>: the environment, the compilation and the conversion of the tree.\<close>

definition GetQueryExportFactors ::
  "(string \<Rightarrow> go_error + cel_expr) \<Rightarrow> string \<Rightarrow> (go_error, string list) outcome" where
  "GetQueryExportFactors parse expression =
     (if expression = [] then Ok []
      else case parse expression of Inl e \<Rightarrow> Err e | Inr e \<Rightarrow> findField e)"

end
