(* ===== verification/TaskStore.thy ===== *)
theory TaskStore
  imports Outcome Version ApprovalRules ChangedResources
begin

text \<open>
  The part of the metadata store that the task schedulers and the rollout service work on:
  \<^verbatim>\<open>store/task.go\<close>, \<^verbatim>\<open>store/task_run.go\<close>, \<^verbatim>\<open>store/id.go\<close>, \<^verbatim>\<open>store/plan_webhook_delivery.go\<close>,
  \<^verbatim>\<open>store/composite_pk_guard.go\<close>, the lookups of \<^verbatim>\<open>store/plan.go\<close> and \<^verbatim>\<open>store/issue.go\<close> they use, and the
  queries of \<^verbatim>\<open>store/replica_heartbeat.go\<close> that tell which replicas live.

  A table is the list of its rows, in the order they were inserted, and a statement is a function
  on the tables; the constraints of \<^verbatim>\<open>migrator/migration/LATEST.sql\<close> (primary keys, unique indexes,
  foreign keys, the check on the status) are the errors of the statements that write.  A statement
  that fails changes nothing.  Ids and instants are integers: ids count up from 101 and no
  arithmetic on them can leave the range of their columns first.  Messages that the columns hold as
  JSON are kept as records, since \<^verbatim>\<open>protojson\<close> reads back what it wrote; a nil message is the empty
  one, as all its getters and the writes treat it.
\<close>

section \<open>Rows and messages\<close>

datatype TaskRun_Status =
  TaskRun_STATUS_UNSPECIFIED | TaskRun_PENDING | TaskRun_RUNNING | TaskRun_DONE | TaskRun_FAILED
| TaskRun_CANCELED | TaskRun_NOT_STARTED | TaskRun_SKIPPED | TaskRun_AVAILABLE

datatype Task_Type = TASK_TYPE_UNSPECIFIED | DATABASE_CREATE | DATABASE_MIGRATE | DATABASE_EXPORT

datatype task_source = NoSource | SheetSha256 string | TaskRelease string

record Task =
  task_Skipped :: bool
  task_SkippedReason :: string
  task_SpecId :: string
  task_Source :: task_source
  task_EnablePriorBackup :: bool

definition GetSheetSha256 :: "Task \<Rightarrow> string" where
  "GetSheetSha256 t = (case task_Source t of SheetSha256 s \<Rightarrow> s | _ \<Rightarrow> [])"

definition GetRelease :: "Task \<Rightarrow> string" where
  "GetRelease t = (case task_Source t of TaskRelease s \<Rightarrow> s | _ \<Rightarrow> [])"

text \<open>The row of \<^verbatim>\<open>task\<close>; a \<open>TaskMessage\<close> adds what a list reads from the latest run.\<close>

record task_row =
  task_ID :: int
  task_ProjectID :: string
  task_PlanID :: int
  task_InstanceID :: string
  task_Environment :: string
  task_DatabaseName :: "string option"
  task_Type :: Task_Type
  task_Payload :: Task

record TaskMessage = task_row +
  task_LatestTaskRunStatus :: TaskRun_Status
  task_UpdatedAt :: "int option"
  task_RunAt :: "int option"

record TaskRunResult =
  result_Detail :: string
  result_HasPriorBackup :: bool
  result_ExportArchiveId :: string
  result_Warnings :: "string list"

abbreviation empty_result :: TaskRunResult where
  "empty_result \<equiv> \<lparr>result_Detail = [], result_HasPriorBackup = False, result_ExportArchiveId = [], result_Warnings = []\<rparr>"

text \<open>The only waiting cause is the parallel task limit.\<close>

record SchedulerInfo =
  info_ReportTime :: int
  info_ParallelTasksLimit :: bool

record TaskRunPayload =
  payload_SchedulerInfo :: "SchedulerInfo option"
  payload_SkipPriorBackup :: bool

abbreviation empty_payload :: TaskRunPayload where
  "empty_payload \<equiv> \<lparr>payload_SchedulerInfo = None, payload_SkipPriorBackup = False\<rparr>"

record run_row =
  run_id :: int
  run_creator :: "string option"
  run_created_at :: int
  run_updated_at :: int
  run_project :: string
  run_task_id :: int
  run_attempt :: int
  run_status :: TaskRun_Status
  run_started_at :: "int option"
  run_run_at :: "int option"
  run_result :: TaskRunResult
  run_replica_id :: "string option"
  run_payload :: TaskRunPayload
  run_assigned_node :: string

record TaskRunMessage =
  tr_TaskUID :: int
  tr_Environment :: string
  tr_PlanUID :: int
  tr_Status :: TaskRun_Status
  tr_ResultProto :: TaskRunResult
  tr_PayloadProto :: "TaskRunPayload option"
  tr_ID :: int
  tr_CreatorEmail :: string
  tr_ProjectID :: string
  tr_RunAt :: "int option"

record PlanConfig_CreateDatabaseConfig =
  create_db_Target :: string
  create_db_Database :: string
  create_db_Environment :: string

record PlanConfig_ChangeDatabaseConfig =
  change_Targets :: "string list"
  change_SheetSha256 :: string
  change_Release :: string

record PlanConfig_ExportDataConfig =
  export_Targets :: "string list"
  export_SheetSha256 :: string

text \<open>The \<^verbatim>\<open>oneof\<close> of a spec, with the fields that are read here.\<close>

datatype spec_config =
  CreateDatabaseConfig PlanConfig_CreateDatabaseConfig
| ChangeDatabaseConfig PlanConfig_ChangeDatabaseConfig
| ExportDataConfig PlanConfig_ExportDataConfig
| NoSpecConfig

fun is_create_database :: "spec_config \<Rightarrow> bool" where
  "is_create_database (CreateDatabaseConfig _) = True"
| "is_create_database _ = False"

fun is_change_database :: "spec_config \<Rightarrow> bool" where
  "is_change_database (ChangeDatabaseConfig _) = True"
| "is_change_database _ = False"

fun is_export_data :: "spec_config \<Rightarrow> bool" where
  "is_export_data (ExportDataConfig _) = True"
| "is_export_data _ = False"

record PlanMessage =
  plan_UID :: int
  plan_ProjectID :: string
  plan_Creator :: string
  plan_Specs :: "spec_config list"
  plan_HasRollout :: bool
  plan_Deleted :: bool
  plan_Name :: string
  plan_Description :: string

datatype Issue_Status = ISSUE_STATUS_UNSPECIFIED | Issue_OPEN | Issue_DONE | Issue_CANCELED

datatype Issue_Type =
  ISSUE_TYPE_UNSPECIFIED | Issue_DATABASE_CHANGE | Issue_ROLE_GRANT | Issue_DATABASE_EXPORT | Issue_ACCESS_GRANT

datatype approver_status = Approver_UNSPECIFIED | Approver_PENDING | Approver_APPROVED | Approver_REJECTED

record Approver =
  approver_Status :: approver_status
  approver_Principal :: string

text \<open>The roles of the template's flow; \<open>None\<close> for a template without a flow.\<close>

record Approval =
  approval_Template :: "string list option option"
  approval_Approvers :: "Approver list"
  approval_FindingDone :: bool

text \<open>A duration is its number of nanoseconds.\<close>

record RoleGrant =
  grant_Role :: string
  grant_User :: string
  grant_Condition :: "Expr option"
  grant_Expiration :: "int option"

record IssueMessage =
  issue_UID :: int
  issue_ProjectID :: string
  issue_PlanUID :: "int option"
  issue_CreatorEmail :: string
  issue_Status :: Issue_Status
  issue_Type :: Issue_Type
  issue_Approval :: "Approval option"
  issue_Title :: string
  issue_Description :: string
  issue_RoleGrant :: "RoleGrant option"
  issue_Labels :: "string list"
  issue_RiskLevel :: RiskLevel
  issue_AccessGrantId :: string

text \<open>
  The checks of a plan: one row for each plan.  A statement type is its name, the only thing that is
  read of it.
\<close>

datatype PlanCheckRunStatus =
  PlanCheckRunStatusAvailable | PlanCheckRunStatusRunning | PlanCheckRunStatusDone
| PlanCheckRunStatusFailed | PlanCheckRunStatusCanceled

datatype advice_status = Advice_STATUS_UNSPECIFIED | Advice_SUCCESS | Advice_WARNING | Advice_ERROR

datatype PlanCheckType =
  PLAN_CHECK_TYPE_UNSPECIFIED | PLAN_CHECK_TYPE_STATEMENT_ADVISE | PLAN_CHECK_TYPE_STATEMENT_SUMMARY_REPORT
| PLAN_CHECK_TYPE_GHOST_SYNC

record SqlSummaryReport =
  report_StatementTypes :: "string list"
  report_AffectedRows :: int64
  report_ChangedResources :: "storepb_ChangedResources option"

record PlanCheckResult =
  pcr_Status :: advice_status
  pcr_Target :: string
  pcr_Type :: PlanCheckType
  pcr_SqlSummaryReport :: "SqlSummaryReport option"

record PlanCheckRun =
  checkrun_UID :: int
  checkrun_ProjectID :: string
  checkrun_PlanUID :: int
  checkrun_Status :: PlanCheckRunStatus
  checkrun_Results :: "PlanCheckResult list"

record project_row =
  project_id :: string
  project_workspace :: string
  project_ParallelTasksPerRollout :: int
  project_RequireIssueApproval :: bool
  project_AllowSelfApproval :: bool
  project_ForceIssueLabels :: bool
  project_AllowJustInTimeAccess :: bool
  project_EnforceIssueTitle :: bool
  project_CiSamplingSize :: int

datatype delivery_event = PIPELINE_FAILED | PIPELINE_COMPLETED

text \<open>
  \<open>db_assigned_node\<close>: whether \<^verbatim>\<open>task_run\<close> has the column \<^verbatim>\<open>assigned_node\<close>, which migration 3.18/0007
  adds and \<^verbatim>\<open>LATEST.sql\<close>, the schema of a new installation, does not have.
\<close>

record taskdb =
  db_projects :: "project_row list"
  db_instances :: "string list"
  db_plans :: "PlanMessage list"
  db_issues :: "IssueMessage list"
  db_tasks :: "task_row list"
  db_task_runs :: "run_row list"
  db_deliveries :: "((string \<times> int) \<times> delivery_event) list"
  db_heartbeats :: "(string \<times> int) list"
  db_assigned_node :: bool

datatype task_error =
  UniqueViolation string
| ForeignKeyViolation string
| CheckViolation string
| UndefinedColumn string
| ScanNull string
| NoRows string
| NotFoundError int
| QueryRequires string
| TooMany nat
| ConflictError nat
| VersionError

type_synonym 'a from_db = "task_error + 'a"


section \<open>Lookups\<close>

definition validateCompositePKQuery :: "string \<Rightarrow> string \<Rightarrow> int option \<Rightarrow> unit from_db" where
  "validateCompositePKQuery entity projectID i =
     (if projectID = [] \<and> i = None then Inl (QueryRequires entity) else Inr ())"

definition given :: "'a option \<Rightarrow> ('a \<Rightarrow> bool) \<Rightarrow> bool" where
  "given v cond = (case v of None \<Rightarrow> True | Some x \<Rightarrow> cond x)"

text \<open>\<^verbatim>\<open>project IN (SELECT resource_id FROM project WHERE workspace = ?)\<close>, where a workspace is given.\<close>

definition in_workspace :: "taskdb \<Rightarrow> string \<Rightarrow> string \<Rightarrow> bool" where
  "in_workspace db ws p =
     (ws = [] \<or> list_ex (\<lambda>r. project_id r = p \<and> project_workspace r = ws) (db_projects db))"

text \<open>At most one row, or the error the caller makes of more.\<close>

definition at_most_one :: "(nat \<Rightarrow> task_error) \<Rightarrow> 'a list \<Rightarrow> 'a option from_db" where
  "at_most_one err xs = (case xs of [] \<Rightarrow> Inr None | [x] \<Rightarrow> Inr (Some x) | _ \<Rightarrow> Inl (err (length xs)))"

definition issues_of_plan :: "taskdb \<Rightarrow> PlanMessage \<Rightarrow> IssueMessage list" where
  "issues_of_plan db p =
     filter (\<lambda>i. issue_ProjectID i = plan_ProjectID p \<and> issue_PlanUID i = Some (plan_UID p)) (db_issues db)"

text \<open>
  \<^verbatim>\<open>ListPlans\<close> with a project, a plan id and a workspace: the left join with \<^verbatim>\<open>issue\<close> repeats a plan for
  each of its issues.
\<close>

definition ListPlans_uid :: "taskdb \<Rightarrow> string \<Rightarrow> string \<Rightarrow> int \<Rightarrow> PlanMessage list" where
  "ListPlans_uid db ws p uid =
     concat (map (\<lambda>pl. replicate (max 1 (length (issues_of_plan db pl))) pl)
       (filter (\<lambda>pl. plan_ProjectID pl = p \<and> in_workspace db ws (plan_ProjectID pl) \<and> plan_UID pl = uid) (db_plans db)))"

definition GetPlan :: "taskdb \<Rightarrow> string \<Rightarrow> string \<Rightarrow> int \<Rightarrow> PlanMessage option from_db" where
  "GetPlan db ws p uid =
     bind_sum (validateCompositePKQuery ''plan'' p (Some uid)) (\<lambda>_.
     at_most_one TooMany (ListPlans_uid db ws p uid))"

text \<open>
  \<^verbatim>\<open>ListIssues\<close> for one project: the inner join with \<^verbatim>\<open>project\<close> where a workspace is given.
\<close>

definition ListIssues_by ::
  "taskdb \<Rightarrow> string \<Rightarrow> string \<Rightarrow> int option \<Rightarrow> int option \<Rightarrow> IssueMessage list" where
  "ListIssues_by db ws p uid planUID =
     sort_key (\<lambda>i. - issue_UID i)
       (filter (\<lambda>i. issue_ProjectID i = p \<and> in_workspace db ws (issue_ProjectID i)
            \<and> given uid (\<lambda>v. issue_UID i = v) \<and> given planUID (\<lambda>v. issue_PlanUID i = Some v)) (db_issues db))"

definition GetIssue ::
  "taskdb \<Rightarrow> string \<Rightarrow> string \<Rightarrow> int option \<Rightarrow> int option \<Rightarrow> IssueMessage option from_db" where
  "GetIssue db ws p uid planUID =
     bind_sum (validateCompositePKQuery ''issue'' p uid) (\<lambda>_.
     at_most_one ConflictError (ListIssues_by db ws p uid planUID))"

text \<open>\<^verbatim>\<open>UpdateIssue\<close> of the status alone.\<close>

definition UpdateIssue_status ::
  "string \<Rightarrow> int \<Rightarrow> Issue_Status \<Rightarrow> taskdb \<Rightarrow> IssueMessage option from_db \<times> taskdb" where
  "UpdateIssue_status p uid st db =
     (case GetIssue db [] p (Some uid) None of
        Inl e \<Rightarrow> (Inl e, db)
      | Inr _ \<Rightarrow>
          let db1 = db\<lparr>db_issues := map (\<lambda>i. if issue_ProjectID i = p \<and> issue_UID i = uid
                                          then i\<lparr>issue_Status := st\<rparr> else i) (db_issues db)\<rparr>
          in (GetIssue db1 [] p (Some uid) None, db1))"

text \<open>\<^verbatim>\<open>UpdatePlan\<close> of the configuration, where it sets \<^verbatim>\<open>hasRollout\<close>.\<close>

definition UpdatePlan_hasRollout :: "string \<Rightarrow> int \<Rightarrow> taskdb \<Rightarrow> unit from_db \<times> taskdb" where
  "UpdatePlan_hasRollout p uid db =
     (if list_ex (\<lambda>pl. plan_UID pl = uid \<and> plan_ProjectID pl = p) (db_plans db)
      then (Inr (), db\<lparr>db_plans := map (\<lambda>pl. if plan_UID pl = uid \<and> plan_ProjectID pl = p
                                          then pl\<lparr>plan_HasRollout := True\<rparr> else pl) (db_plans db)\<rparr>)
      else (Inl (NoRows ''plan''), db))"

definition GetProjectByResourceID :: "taskdb \<Rightarrow> string \<Rightarrow> project_row option" where
  "GetProjectByResourceID db p = find (\<lambda>r. project_id r = p) (db_projects db)"


section \<open>Ids\<close>

definition idMinValue :: int where
  "idMinValue = 101"

text \<open>\<open>ids\<close>: the ids of the project's rows in the table.\<close>

definition nextProjectID :: "int list \<Rightarrow> int" where
  "nextProjectID ids = (let nextID = (if ids = [] then 0 else Max (set ids)) + 1
                        in if nextID < idMinValue then idMinValue else nextID)"


section \<open>Tasks\<close>

record TaskFind =
  tf_Workspace :: string
  tf_ID :: "int option"
  tf_IDs :: "int list option"
  tf_ProjectID :: string
  tf_PlanID :: "int option"
  tf_PlanIDs :: "int list option"
  tf_Environment :: "string option"
  tf_InstanceID :: "string option"
  tf_DatabaseName :: "string option"
  tf_TypeList :: "Task_Type list option"
  tf_LatestTaskRunStatusList :: "TaskRun_Status list option"

abbreviation task_find :: "string \<Rightarrow> TaskFind" where
  "task_find p \<equiv> \<lparr>tf_Workspace = [], tf_ID = None, tf_IDs = None, tf_ProjectID = p, tf_PlanID = None,
     tf_PlanIDs = None, tf_Environment = None, tf_InstanceID = None, tf_DatabaseName = None,
     tf_TypeList = None, tf_LatestTaskRunStatusList = None\<rparr>"

text \<open>The lateral join: the run of the task with the greatest id.\<close>

definition latest_task_run :: "taskdb \<Rightarrow> string \<Rightarrow> int \<Rightarrow> run_row option" where
  "latest_task_run db p t =
     (case sort_key (\<lambda>r. - run_id r) (filter (\<lambda>r. run_project r = p \<and> run_task_id r = t) (db_task_runs db)) of
        [] \<Rightarrow> None | r # _ \<Rightarrow> Some r)"

definition task_matches :: "taskdb \<Rightarrow> TaskFind \<Rightarrow> task_row \<Rightarrow> bool" where
  "task_matches db fd t =
     (task_ProjectID t = tf_ProjectID fd \<and> in_workspace db (tf_Workspace fd) (task_ProjectID t)
      \<and> given (tf_ID fd) (\<lambda>v. task_ID t = v)
      \<and> given (tf_IDs fd) (\<lambda>v. task_ID t \<in> set v)
      \<and> given (tf_PlanID fd) (\<lambda>v. task_PlanID t = v)
      \<and> given (tf_PlanIDs fd) (\<lambda>v. task_PlanID t \<in> set v)
      \<and> given (tf_Environment fd) (\<lambda>v. task_Environment t = v)
      \<and> given (tf_InstanceID fd) (\<lambda>v. task_InstanceID t = v)
      \<and> given (tf_DatabaseName fd) (\<lambda>v. task_DatabaseName t = Some v)
      \<and> given (tf_LatestTaskRunStatusList fd)
           (\<lambda>v. case latest_task_run db (task_ProjectID t) (task_ID t) of None \<Rightarrow> False | Some r \<Rightarrow> run_status r \<in> set v)
      \<and> given (tf_TypeList fd) (\<lambda>v. task_Type t \<in> set v))"

definition task_message :: "taskdb \<Rightarrow> task_row \<Rightarrow> TaskMessage" where
  "task_message db t =
     task_row.extend t
       (case latest_task_run db (task_ProjectID t) (task_ID t) of
          None \<Rightarrow> \<lparr>task_LatestTaskRunStatus = TaskRun_NOT_STARTED, task_UpdatedAt = None, task_RunAt = None\<rparr>
        | Some r \<Rightarrow> \<lparr>task_LatestTaskRunStatus = run_status r, task_UpdatedAt = Some (run_updated_at r),
                     task_RunAt = run_run_at r\<rparr>)"

definition ListTasks :: "taskdb \<Rightarrow> TaskFind \<Rightarrow> TaskMessage list" where
  "ListTasks db fd = map (task_message db) (sort_key task_ID (filter (task_matches db fd) (db_tasks db)))"

definition GetTaskByID :: "taskdb \<Rightarrow> string \<Rightarrow> int \<Rightarrow> TaskMessage option from_db" where
  "GetTaskByID db p i =
     bind_sum (validateCompositePKQuery ''task'' p (Some i)) (\<lambda>_.
     at_most_one TooMany (ListTasks db ((task_find p)\<lparr>tf_ID := Some i\<rparr>)))"


text \<open>The status a client sees; \<^verbatim>\<open>ListTaskStatusCountByPlanIDs\<close> counts the tasks by it.\<close>

definition api_status :: "taskdb \<Rightarrow> task_row \<Rightarrow> TaskRun_Status" where
  "api_status db t =
     (if task_Skipped (task_Payload t) then TaskRun_SKIPPED
      else case latest_task_run db (task_ProjectID t) (task_ID t) of
             None \<Rightarrow> TaskRun_NOT_STARTED
           | Some r \<Rightarrow> if run_status r = TaskRun_AVAILABLE then TaskRun_PENDING else run_status r)"

text \<open>The counts for one group of project, plan, environment and status.\<close>

definition task_status_count :: "taskdb \<Rightarrow> string list \<Rightarrow> int list \<Rightarrow> string \<times> int \<times> string \<times> TaskRun_Status \<Rightarrow> nat" where
  "task_status_count db projectIDs planIDs k =
     (if projectIDs = [] \<or> planIDs = [] then 0
      else length (filter (\<lambda>t. (task_ProjectID t, task_PlanID t, task_Environment t, api_status db t) = k)
        (filter (\<lambda>t. task_ProjectID t \<in> set projectIDs \<and> task_PlanID t \<in> set planIDs) (db_tasks db))))"

text \<open>
  \<^verbatim>\<open>FindBlockingTaskByVersion\<close>: the first task of the plan on the database that is not done or skipped
  and has a smaller schema version.  \<open>schemaVersion\<close> is the member of the stored payload, which the
  message no longer declares, so that rows of older releases may still have it.
\<close>

primrec first_blocking :: "Version \<Rightarrow> (int \<times> string) list \<Rightarrow> int option from_db" where
  "first_blocking my [] = Inr None"
| "first_blocking my (r # rs) =
     (case NewVersion (snd r) of
        Inl _ \<Rightarrow> Inl VersionError
      | Inr other \<Rightarrow> if LessThan other my then Inr (Some (fst r)) else first_blocking my rs)"

definition FindBlockingTaskByVersion ::
  "taskdb \<Rightarrow> (task_row \<Rightarrow> string option) \<Rightarrow> string \<Rightarrow> int \<Rightarrow> string \<Rightarrow> string \<Rightarrow> string \<Rightarrow> int option from_db" where
  "FindBlockingTaskByVersion db schemaVersion p planUID inst dbname ver =
     (case NewVersion ver of
        Inl _ \<Rightarrow> Inl VersionError
      | Inr my \<Rightarrow>
          first_blocking my (map (\<lambda>t. (task_ID t, the (schemaVersion t))) (sort_key task_ID (filter (\<lambda>t.
            task_ProjectID t = p \<and> task_PlanID t = planUID \<and> task_InstanceID t = inst
            \<and> task_DatabaseName t = Some dbname \<and> schemaVersion t \<noteq> None
            \<and> \<not> task_Skipped (task_Payload t)
            \<and> (case latest_task_run db p (task_ID t) of None \<Rightarrow> True | Some r \<Rightarrow> run_status r \<noteq> TaskRun_DONE)
            \<and> list_all (\<lambda>i. issue_ProjectID i = p \<and> issue_PlanUID i = Some planUID \<longrightarrow> issue_Status i = Issue_OPEN)
                (db_issues db)) (db_tasks db)))))"

text \<open>One row of \<^verbatim>\<open>INSERT INTO task\<close>, with the table's constraints.\<close>

definition insert_task :: "task_row \<Rightarrow> taskdb \<Rightarrow> taskdb from_db" where
  "insert_task t db =
     (if list_ex (\<lambda>u. task_ProjectID u = task_ProjectID t \<and> task_ID u = task_ID t) (db_tasks db)
      then Inl (UniqueViolation ''task_pkey'')
      else if list_ex (\<lambda>u. task_ID u = task_ID t) (db_tasks db) then Inl (UniqueViolation ''task_id_unique'')
      else if \<not> list_ex (\<lambda>q. project_id q = task_ProjectID t) (db_projects db) then Inl (ForeignKeyViolation ''project'')
      else if task_InstanceID t \<notin> set (db_instances db) then Inl (ForeignKeyViolation ''instance'')
      else if \<not> list_ex (\<lambda>pl. plan_ProjectID pl = task_ProjectID t \<and> plan_UID pl = task_PlanID t) (db_plans db)
      then Inl (ForeignKeyViolation ''plan'')
      else Inr (db\<lparr>db_tasks := db_tasks db @ [t]\<rparr>))"

primrec insert_tasks :: "task_row list \<Rightarrow> taskdb \<Rightarrow> taskdb from_db" where
  "insert_tasks [] db = Inr db"
| "insert_tasks (t # ts) db = bind_sum (insert_task t db) (insert_tasks ts)"

text \<open>What the insert returns is read back; the status and the times of a run keep Go's zero values.\<close>

definition createTasksTx :: "TaskMessage list \<Rightarrow> taskdb \<Rightarrow> (TaskMessage list \<times> taskdb) from_db" where
  "createTasksTx creates db =
     (if creates = [] then Inr ([], db)
      else
        let projectID = task_ProjectID (hd creates);
            baseID = nextProjectID (map task_ID (filter (\<lambda>t. task_ProjectID t = projectID) (db_tasks db)));
            rows = map (\<lambda>(i, c). (task_row.truncate c)\<lparr>task_ID := baseID + int i\<rparr>) (enumerate 0 creates)
        in bind_sum (insert_tasks rows db) (\<lambda>db1.
           Inr (map (\<lambda>t. task_row.extend t
             \<lparr>task_LatestTaskRunStatus = TaskRun_STATUS_UNSPECIFIED, task_UpdatedAt = None, task_RunAt = None\<rparr>) rows, db1)))"

definition task_key :: "TaskMessage \<Rightarrow> string \<times> string \<times> string" where
  "task_key t = (task_InstanceID t, (case task_DatabaseName t of None \<Rightarrow> [] | Some d \<Rightarrow> d), GetSheetSha256 (task_Payload t))"

text \<open>The keys are those of the tasks that exist; the loop does not add the ones it takes.\<close>

definition CreateTasks ::
  "string \<Rightarrow> int \<Rightarrow> TaskMessage list \<Rightarrow> taskdb \<Rightarrow> TaskMessage list from_db \<times> taskdb" where
  "CreateTasks projectID planUID tasks db =
     (let existing = ListTasks db ((task_find projectID)\<lparr>tf_PlanID := Some planUID\<rparr>);
          created = map task_key existing;
          news = map (\<lambda>t. t\<lparr>task_ProjectID := projectID, task_PlanID := planUID\<rparr>)
                   (filter (\<lambda>t. task_key t \<notin> set created) tasks)
      in if news = [] then (Inr [], db)
         else case createTasksTx news db of
                Inl e \<Rightarrow> (Inl e, db)
              | Inr (ts, db1) \<Rightarrow> (Inr ts, db1))"

definition store_BatchSkipTasks :: "string \<Rightarrow> int list \<Rightarrow> string \<Rightarrow> taskdb \<Rightarrow> taskdb" where
  "store_BatchSkipTasks p uids reason db =
     db\<lparr>db_tasks := map (\<lambda>t. if task_ID t \<in> set uids \<and> task_ProjectID t = p
          then t\<lparr>task_Payload := (task_Payload t)\<lparr>task_Skipped := True, task_SkippedReason := reason\<rparr>\<rparr> else t)
        (db_tasks db)\<rparr>"


section \<open>Task runs\<close>

text \<open>A run with the plan and the environment of its task, where the left join finds it.\<close>

definition task_of_run :: "taskdb \<Rightarrow> run_row \<Rightarrow> task_row option" where
  "task_of_run db r = find (\<lambda>t. task_ProjectID t = run_project r \<and> task_ID t = run_task_id r) (db_tasks db)"

definition run_message :: "taskdb \<Rightarrow> run_row \<Rightarrow> TaskRunMessage option" where
  "run_message db r =
     map_option (\<lambda>t. \<lparr>tr_TaskUID = run_task_id r, tr_Environment = task_Environment t, tr_PlanUID = task_PlanID t,
       tr_Status = run_status r, tr_ResultProto = run_result r, tr_PayloadProto = Some (run_payload r),
       tr_ID = run_id r, tr_CreatorEmail = (case run_creator r of None \<Rightarrow> [] | Some c \<Rightarrow> c),
       tr_ProjectID = run_project r, tr_RunAt = run_run_at r\<rparr>) (task_of_run db r)"

record FindTaskRunMessage =
  fr_Workspace :: string
  fr_UID :: "int option"
  fr_UIDs :: "int list option"
  fr_ProjectID :: string
  fr_TaskUID :: "int option"
  fr_Environment :: "string option"
  fr_PlanUID :: "int option"
  fr_Status :: "TaskRun_Status list option"

abbreviation run_find :: "string \<Rightarrow> FindTaskRunMessage" where
  "run_find p \<equiv> \<lparr>fr_Workspace = [], fr_UID = None, fr_UIDs = None, fr_ProjectID = p, fr_TaskUID = None,
     fr_Environment = None, fr_PlanUID = None, fr_Status = None\<rparr>"

definition task_field_is :: "taskdb \<Rightarrow> run_row \<Rightarrow> (task_row \<Rightarrow> 'a) \<Rightarrow> 'a \<Rightarrow> bool" where
  "task_field_is db r fld v = (case task_of_run db r of None \<Rightarrow> False | Some t \<Rightarrow> fld t = v)"

definition run_matches :: "taskdb \<Rightarrow> FindTaskRunMessage \<Rightarrow> run_row \<Rightarrow> bool" where
  "run_matches db fd r =
     (run_project r = fr_ProjectID fd \<and> in_workspace db (fr_Workspace fd) (run_project r)
      \<and> given (fr_UID fd) (\<lambda>v. run_id r = v)
      \<and> given (fr_UIDs fd) (\<lambda>v. run_id r \<in> set v)
      \<and> given (fr_TaskUID fd) (\<lambda>v. run_task_id r = v)
      \<and> given (fr_Environment fd) (task_field_is db r task_Environment)
      \<and> given (fr_PlanUID fd) (task_field_is db r task_PlanID)
      \<and> given (fr_Status fd) (\<lambda>v. run_status r \<in> set v))"

definition ListTaskRuns :: "taskdb \<Rightarrow> FindTaskRunMessage \<Rightarrow> TaskRunMessage list from_db" where
  "ListTaskRuns db fd =
     require (ScanNull ''plan_id'')
       (map_panic (run_message db) (sort_key run_id (filter (run_matches db fd) (db_task_runs db))))"

definition GetTaskRunV1 :: "taskdb \<Rightarrow> FindTaskRunMessage \<Rightarrow> TaskRunMessage option from_db" where
  "GetTaskRunV1 db fd = bind_sum (ListTaskRuns db fd) (at_most_one TooMany)"

definition ListTaskRunsByStatus :: "taskdb \<Rightarrow> TaskRun_Status list \<Rightarrow> TaskRunMessage list from_db" where
  "ListTaskRunsByStatus db statuses =
     require (ScanNull ''plan_id'')
       (map_panic (run_message db) (sort_key run_id (filter (\<lambda>r. run_status r \<in> set statuses) (db_task_runs db))))"

definition is_run :: "string \<Rightarrow> int \<Rightarrow> run_row \<Rightarrow> bool" where
  "is_run p i r \<longleftrightarrow> run_id r = i \<and> run_project r = p"

text \<open>\<^verbatim>\<open>UPDATE task_run SET ... WHERE ...\<close>.\<close>

definition updated :: "(run_row \<Rightarrow> bool) \<Rightarrow> (run_row \<Rightarrow> run_row) \<Rightarrow> run_row \<Rightarrow> run_row" where
  "updated sel f r = (if sel r then f r else r)"

definition update_runs :: "(run_row \<Rightarrow> bool) \<Rightarrow> (run_row \<Rightarrow> run_row) \<Rightarrow> taskdb \<Rightarrow> taskdb" where
  "update_runs sel f db = db\<lparr>db_task_runs := map (updated sel f) (db_task_runs db)\<rparr>"

text \<open>The statuses that the check on the column lets in.\<close>

definition stored_statuses :: "TaskRun_Status list" where
  "stored_statuses = [TaskRun_PENDING, TaskRun_AVAILABLE, TaskRun_RUNNING, TaskRun_DONE, TaskRun_FAILED, TaskRun_CANCELED]"

record TaskRunStatusPatch =
  patch_ID :: int
  patch_ProjectID :: string
  patch_Status :: TaskRun_Status
  patch_ResultProto :: "TaskRunResult option"

text \<open>No condition on the status the run has.\<close>

definition patchTaskRunStatusImpl :: "int \<Rightarrow> TaskRunStatusPatch \<Rightarrow> taskdb \<Rightarrow> (run_row \<times> taskdb) from_db" where
  "patchTaskRunStatusImpl now patch db =
     (let set_status = (\<lambda>r. r\<lparr>run_updated_at := now, run_status := patch_Status patch,
            run_result := (case patch_ResultProto patch of None \<Rightarrow> run_result r | Some v \<Rightarrow> v)\<rparr>)
      in case find (is_run (patch_ProjectID patch) (patch_ID patch)) (db_task_runs db) of
           None \<Rightarrow> Inl (NotFoundError (patch_ID patch))
         | Some r \<Rightarrow>
             if patch_Status patch \<notin> set stored_statuses then Inl (CheckViolation ''task_run_status_check'')
             else Inr (set_status r, update_runs (is_run (patch_ProjectID patch) (patch_ID patch)) set_status db))"

text \<open>The transaction also reads the plan of the run's task, and fails without one.\<close>

definition UpdateTaskRunStatus :: "int \<Rightarrow> TaskRunStatusPatch \<Rightarrow> taskdb \<Rightarrow> run_row from_db \<times> taskdb" where
  "UpdateTaskRunStatus now patch db =
     (case patchTaskRunStatusImpl now patch db of
        Inl e \<Rightarrow> (Inl e, db)
      | Inr (r, db1) \<Rightarrow>
          if list_ex (\<lambda>t. task_ID t = run_task_id r \<and> task_ProjectID t = patch_ProjectID patch) (db_tasks db1)
          then (Inr r, db1) else (Inl (NoRows ''plan_id''), db))"

record ClaimedTaskRun =
  claimed_TaskRunUID :: int
  claimed_TaskUID :: int
  claimed_ProjectID :: string

text \<open>\<open>locked\<close>: the rows that other transactions hold, which \<^verbatim>\<open>SKIP LOCKED\<close> leaves out.\<close>

definition ClaimAvailableTaskRuns ::
  "int \<Rightarrow> (run_row \<Rightarrow> bool) \<Rightarrow> string \<Rightarrow> taskdb \<Rightarrow> ClaimedTaskRun list \<times> taskdb" where
  "ClaimAvailableTaskRuns now locked replicaID db =
     (let sel = (\<lambda>r. run_status r = TaskRun_AVAILABLE \<and> \<not> locked r)
      in (map (\<lambda>r. \<lparr>claimed_TaskRunUID = run_id r, claimed_TaskUID = run_task_id r, claimed_ProjectID = run_project r\<rparr>)
            (filter sel (db_task_runs db)),
          update_runs sel (\<lambda>r. r\<lparr>run_status := TaskRun_RUNNING, run_updated_at := now, run_replica_id := Some replicaID\<rparr>) db))"

definition UpdateTaskRunStartAt :: "int \<Rightarrow> string \<Rightarrow> int \<Rightarrow> taskdb \<Rightarrow> unit from_db \<times> taskdb" where
  "UpdateTaskRunStartAt now projectID taskRunID db =
     (case find (is_run projectID taskRunID) (db_task_runs db) of
        None \<Rightarrow> (Inl (NoRows ''task_run''), db)
      | Some r \<Rightarrow>
          (case task_of_run db r of None \<Rightarrow> Inl (ScanNull ''plan_id'') | Some _ \<Rightarrow> Inr (),
           update_runs (is_run projectID taskRunID) (\<lambda>r. r\<lparr>run_started_at := Some now, run_updated_at := now\<rparr>) db))"

text \<open>By the id alone.\<close>

definition UpdateTaskRunAssignedNode :: "int \<Rightarrow> int \<Rightarrow> string \<Rightarrow> taskdb \<Rightarrow> unit from_db \<times> taskdb" where
  "UpdateTaskRunAssignedNode now taskRunID node db =
     (if db_assigned_node db
      then (Inr (), update_runs (\<lambda>r. run_id r = taskRunID) (\<lambda>r. r\<lparr>run_assigned_node := node, run_updated_at := now\<rparr>) db)
      else (Inl (UndefinedColumn ''assigned_node''), db))"

definition FindOrphanedTaskRuns :: "taskdb \<Rightarrow> string list \<Rightarrow> (int \<times> string) list from_db" where
  "FindOrphanedTaskRuns db activeNodes =
     (if db_assigned_node db
      then Inr (map (\<lambda>r. (run_id r, run_project r)) (filter (\<lambda>r. run_status r = TaskRun_RUNNING \<and> run_assigned_node r \<noteq> []
             \<and> (activeNodes \<noteq> [] \<longrightarrow> run_assigned_node r \<notin> set activeNodes)) (db_task_runs db)))
      else Inl (UndefinedColumn ''assigned_node''))"

text \<open>The statuses under which a task gets no further run.\<close>

definition blocking_statuses :: "TaskRun_Status list" where
  "blocking_statuses = [TaskRun_PENDING, TaskRun_AVAILABLE, TaskRun_RUNNING, TaskRun_DONE]"

definition insert_run :: "run_row \<Rightarrow> taskdb \<Rightarrow> taskdb from_db" where
  "insert_run r db =
     (if list_ex (\<lambda>q. run_project q = run_project r \<and> run_task_id q = run_task_id r \<and> run_attempt q = run_attempt r)
           (db_task_runs db)
      then Inr db
      else if list_ex (\<lambda>q. run_project q = run_project r \<and> run_id q = run_id r) (db_task_runs db)
      then Inl (UniqueViolation ''task_run_pkey'')
      else if list_ex (\<lambda>q. run_id q = run_id r) (db_task_runs db)
      then Inl (UniqueViolation ''task_run_id_unique'')
      else if \<not> list_ex (\<lambda>t. task_ProjectID t = run_project r \<and> task_ID t = run_task_id r) (db_tasks db)
      then Inl (ForeignKeyViolation ''task'')
      else Inr (db\<lparr>db_task_runs := db_task_runs db @ [r]\<rparr>))"

primrec insert_runs :: "run_row list \<Rightarrow> taskdb \<Rightarrow> taskdb from_db" where
  "insert_runs [] db = Inr db"
| "insert_runs (r # rs) db = bind_sum (insert_run r db) (insert_runs rs)"

text \<open>Whether a task has a run that blocks another, and the attempt its next run has.\<close>

definition has_blocking_run :: "taskdb \<Rightarrow> string \<Rightarrow> int \<Rightarrow> bool" where
  "has_blocking_run db p t =
     list_ex (\<lambda>r. run_task_id r = t \<and> run_project r = p \<and> run_status r \<in> set blocking_statuses) (db_task_runs db)"

definition next_attempt :: "taskdb \<Rightarrow> string \<Rightarrow> int \<Rightarrow> int" where
  "next_attempt db p t =
     (case filter (\<lambda>r. run_task_id r = t \<and> run_project r = p) (db_task_runs db) of
        [] \<Rightarrow> 0 | rs \<Rightarrow> Max (set (map run_attempt rs)) + 1)"

text \<open>
  The rows of the \<^verbatim>\<open>INSERT ... SELECT\<close>, all computed on the tables before it; \<^verbatim>\<open>ROW_NUMBER\<close> counts the
  candidates, in the order of the arrays.
\<close>

definition pending_row :: "int \<Rightarrow> string option \<Rightarrow> TaskRunPayload \<Rightarrow> taskdb \<Rightarrow> int \<Rightarrow> TaskRunMessage \<Rightarrow> run_row" where
  "pending_row now creator payload db newID c =
     \<lparr>run_id = newID, run_creator = creator, run_created_at = now, run_updated_at = now,
      run_project = tr_ProjectID c, run_task_id = tr_TaskUID c,
      run_attempt = next_attempt db (tr_ProjectID c) (tr_TaskUID c), run_status = TaskRun_PENDING,
      run_started_at = None, run_run_at = tr_RunAt c, run_result = empty_result, run_replica_id = None,
      run_payload = payload, run_assigned_node = []\<rparr>"

definition CreatePendingTaskRuns :: "int \<Rightarrow> string \<Rightarrow> TaskRunMessage list \<Rightarrow> taskdb \<Rightarrow> unit from_db \<times> taskdb" where
  "CreatePendingTaskRuns now creator creates db =
     (if creates = [] then (Inr (), db)
      else
        let creatorPtr = (if creator = [] then None else Some creator);
            payload = (case tr_PayloadProto (hd creates) of None \<Rightarrow> empty_payload | Some v \<Rightarrow> v);
            projectID = tr_ProjectID (hd creates);
            baseID = nextProjectID (map run_id (filter (\<lambda>r. run_project r = projectID) (db_task_runs db)));
            candidates = filter (\<lambda>c. \<not> has_blocking_run db (tr_ProjectID c) (tr_TaskUID c)) creates;
            rows = map (\<lambda>(i, c). pending_row now creatorPtr payload db (baseID + int i) c) (enumerate 0 candidates)
        in case insert_runs rows db of
             Inl e \<Rightarrow> (Inl e, db)
           | Inr db1 \<Rightarrow> (Inr (), db1))"

definition store_BatchCancelTaskRuns :: "int \<Rightarrow> string \<Rightarrow> int list \<Rightarrow> taskdb \<Rightarrow> taskdb" where
  "store_BatchCancelTaskRuns now projectID taskRunIDs db =
     (if taskRunIDs = [] then db
      else update_runs (\<lambda>r. run_id r \<in> set taskRunIDs \<and> run_project r = projectID)
             (\<lambda>r. r\<lparr>run_status := TaskRun_CANCELED, run_updated_at := now\<rparr>) db)"

definition abandoned_result :: TaskRunResult where
  "abandoned_result = empty_result\<lparr>result_Detail := ''Task run abandoned: owning replica stopped responding''\<rparr>"

definition is_stale :: "int \<Rightarrow> int \<Rightarrow> taskdb \<Rightarrow> run_row \<Rightarrow> bool" where
  "is_stale now threshold db r =
     (run_status r = TaskRun_RUNNING
      \<and> (case run_replica_id r of None \<Rightarrow> False
         | Some rep \<Rightarrow> \<not> list_ex (\<lambda>(i, last). i = rep \<and> now - threshold \<le> last) (db_heartbeats db)))"

definition FailStaleTaskRuns :: "int \<Rightarrow> int \<Rightarrow> taskdb \<Rightarrow> nat \<times> taskdb" where
  "FailStaleTaskRuns now threshold db =
     (length (filter (is_stale now threshold db) (db_task_runs db)),
      update_runs (is_stale now threshold db)
        (\<lambda>r. r\<lparr>run_status := TaskRun_FAILED, run_result := abandoned_result, run_updated_at := now\<rparr>) db)"

definition UpdateTaskRunPayload :: "int \<Rightarrow> string \<Rightarrow> int \<Rightarrow> TaskRunPayload \<Rightarrow> taskdb \<Rightarrow> taskdb" where
  "UpdateTaskRunPayload now projectID taskRunID payload db =
     update_runs (is_run projectID taskRunID) (\<lambda>r. r\<lparr>run_payload := payload, run_updated_at := now\<rparr>) db"


section \<open>Webhook deliveries and replicas\<close>

definition ResetPlanWebhookDelivery :: "string \<Rightarrow> int \<Rightarrow> taskdb \<Rightarrow> taskdb" where
  "ResetPlanWebhookDelivery p planID db = db\<lparr>db_deliveries := filter (\<lambda>d. fst d \<noteq> (p, planID)) (db_deliveries db)\<rparr>"

text \<open>Both claims insert under the same key; a plan that does not exist violates the foreign key.\<close>

definition claim_delivery :: "delivery_event \<Rightarrow> string \<Rightarrow> int \<Rightarrow> taskdb \<Rightarrow> bool from_db \<times> taskdb" where
  "claim_delivery ev p planID db =
     (if list_ex (\<lambda>d. fst d = (p, planID)) (db_deliveries db) then (Inr False, db)
      else if \<not> list_ex (\<lambda>pl. plan_ProjectID pl = p \<and> plan_UID pl = planID) (db_plans db)
      then (Inl (ForeignKeyViolation ''plan''), db)
      else (Inr True, db\<lparr>db_deliveries := db_deliveries db @ [((p, planID), ev)]\<rparr>))"

definition ClaimPipelineFailureNotification :: "string \<Rightarrow> int \<Rightarrow> taskdb \<Rightarrow> bool from_db \<times> taskdb" where
  "ClaimPipelineFailureNotification = claim_delivery PIPELINE_FAILED"

definition ClaimPipelineCompletionNotification :: "string \<Rightarrow> int \<Rightarrow> taskdb \<Rightarrow> bool from_db \<times> taskdb" where
  "ClaimPipelineCompletionNotification = claim_delivery PIPELINE_COMPLETED"

definition ListActiveReplicas :: "int \<Rightarrow> int \<Rightarrow> taskdb \<Rightarrow> string list" where
  "ListActiveReplicas now within db = sort (map fst (filter (\<lambda>(i, last). now - within < last) (db_heartbeats db)))"

definition CountActiveReplicas :: "int \<Rightarrow> int \<Rightarrow> taskdb \<Rightarrow> nat" where
  "CountActiveReplicas now within db = length (filter (\<lambda>(i, last). now - within < last) (db_heartbeats db))"

end
