(* ===== verification/TaskScheduler.thy ===== *)
theory TaskScheduler
  imports TaskStore IAM
begin

text \<open>
  The schedulers of task runs: \<^verbatim>\<open>runner/taskrun/pending_scheduler.go\<close>, \<^verbatim>\<open>running_scheduler.go\<close>,
  \<^verbatim>\<open>executor.go\<close>, \<^verbatim>\<open>scheduler.go\<close>, and the recovery of \<^verbatim>\<open>runner/leader/task_recovery.go\<close>.  A function
  of the code is a function on the world: the tables, the webhook events sent, the requests waiting
  on the completion channel, the goroutines that run an executor.  Executors are parameters: what
  one returns comes in as a value.  The loops that wait for a tick, the logging and the spans are
  left out.
\<close>

section \<open>The world\<close>

type_synonym planKey = "string \<times> int"

record webhook_event =
  event_Type :: delivery_event
  event_Project :: string
  event_Plan :: int
  event_Environment :: string

record execution =
  exec_RunUID :: int
  exec_Task :: TaskMessage

record world =
  w_db :: taskdb
  w_events :: "webhook_event list"
  w_completion :: "planKey list"
  w_executing :: "execution list"

text \<open>
  The cached lookup of a database in the store, the replica that runs the scheduler, and the task
  types that have an executor.
\<close>

record sched_env =
  lookup_database :: "string \<Rightarrow> string option \<Rightarrow> DatabaseMessage option from_db"
  replica_ID :: string
  executor_types :: "Task_Type list"

datatype sched_error =
  StoreError task_error
| TaskMissing int
| PlanMissing int
| ProjectMissing string
| TargetDeleted string string
| ProjectDrift string string
| EnvironmentDrift string string
| NoExecutor Task_Type

type_synonym 'a sched = "sched_error + 'a"

definition from_store :: "'a from_db \<Rightarrow> 'a sched" where
  "from_store r = wrap_error StoreError r"


section \<open>Pending task runs\<close>

definition getDatabaseKey :: "string \<Rightarrow> string \<Rightarrow> string" where
  "getDatabaseKey instanceID databaseName = instanceID @ ''/'' @ databaseName"

definition isSequentialTask :: "('a task_row_scheme) \<Rightarrow> bool" where
  "isSequentialTask t = (case task_Type t of DATABASE_MIGRATE \<Rightarrow> GetRelease (task_Payload t) \<noteq> [] | _ \<Rightarrow> False)"

text \<open>\<^verbatim>\<open>m[k]\<close> of a map to numbers or truth values is a function: a missing key reads as zero.\<close>

record schedulingContext =
  activeByDatabase :: "string \<rightharpoonup> int"
  activeCountByPlan :: "planKey \<Rightarrow> int"
  promotedDBs :: "string \<Rightarrow> bool"
  promotedCounts :: "planKey \<Rightarrow> int"

definition empty_context :: schedulingContext where
  "empty_context = \<lparr>activeByDatabase = Map.empty, activeCountByPlan = (\<lambda>_. 0), promotedDBs = (\<lambda>_. False),
     promotedCounts = (\<lambda>_. 0)\<rparr>"

text \<open>
  The tasks of the active runs, read project by project; a later task with the same id would win.
\<close>

definition taskByKey :: "taskdb \<Rightarrow> TaskRunMessage list \<Rightarrow> planKey \<Rightarrow> TaskMessage option" where
  "taskByKey db active k =
     (let ids = map tr_TaskUID (filter (\<lambda>tr. tr_ProjectID tr = fst k) active)
      in if ids = [] then None
         else find (\<lambda>t. (task_ProjectID t, task_ID t) = k) (rev (ListTasks db ((task_find (fst k))\<lparr>tf_IDs := Some ids\<rparr>))))"

definition index_task :: "TaskMessage \<Rightarrow> schedulingContext \<Rightarrow> schedulingContext" where
  "index_task t sc =
     (let pk = (task_ProjectID t, task_PlanID t);
          sc1 = sc\<lparr>activeCountByPlan := (activeCountByPlan sc)(pk := activeCountByPlan sc pk + 1)\<rparr>
      in case task_DatabaseName t of
           None \<Rightarrow> sc1
         | Some d \<Rightarrow>
             if isSequentialTask t then
               (let dbKey = getDatabaseKey (task_InstanceID t) d
                in case activeByDatabase sc1 dbKey of
                     None \<Rightarrow> sc1\<lparr>activeByDatabase := (activeByDatabase sc1)(dbKey \<mapsto> task_ID t)\<rparr>
                   | Some _ \<Rightarrow> sc1)
             else sc1)"

definition newSchedulingContext :: "taskdb \<Rightarrow> schedulingContext from_db" where
  "newSchedulingContext db =
     bind_sum (ListTaskRunsByStatus db [TaskRun_AVAILABLE, TaskRun_RUNNING]) (\<lambda>active.
     Inr (foldl (\<lambda>sc tr. case taskByKey db active (tr_ProjectID tr, tr_TaskUID tr) of
                           None \<Rightarrow> sc | Some t \<Rightarrow> index_task t sc) empty_context active))"

text \<open>Whether the task can proceed, and the task that blocks it.\<close>

definition checkDatabaseMutualExclusion :: "schedulingContext \<Rightarrow> TaskMessage \<Rightarrow> bool \<times> int option" where
  "checkDatabaseMutualExclusion sc t =
     (case task_DatabaseName t of
        None \<Rightarrow> (True, None)
      | Some d \<Rightarrow>
          if \<not> isSequentialTask t then (True, None)
          else
            let dbKey = getDatabaseKey (task_InstanceID t) d
            in if promotedDBs sc dbKey then (False, None)
               else case activeByDatabase sc dbKey of
                      Some blockingID \<Rightarrow> (False, Some blockingID)
                    | None \<Rightarrow> (True, None))"

definition checkParallelLimit :: "schedulingContext \<Rightarrow> TaskMessage \<Rightarrow> int \<Rightarrow> bool" where
  "checkParallelLimit sc t maxParallel =
     (if maxParallel \<le> 0 then True
      else let pk = (task_ProjectID t, task_PlanID t)
           in activeCountByPlan sc pk + promotedCounts sc pk < maxParallel)"

definition markPromoted :: "TaskMessage \<Rightarrow> schedulingContext \<Rightarrow> schedulingContext" where
  "markPromoted t sc =
     (let sc1 = (case task_DatabaseName t of
                   None \<Rightarrow> sc
                 | Some d \<Rightarrow> if isSequentialTask t
                     then sc\<lparr>promotedDBs := (promotedDBs sc)(getDatabaseKey (task_InstanceID t) d := True)\<rparr> else sc);
          pk = (task_ProjectID t, task_PlanID t)
      in sc1\<lparr>promotedCounts := (promotedCounts sc1)(pk := promotedCounts sc1 pk + 1)\<rparr>)"

definition getMaxParallelForTask :: "taskdb \<Rightarrow> TaskMessage \<Rightarrow> int sched" where
  "getMaxParallelForTask db t =
     bind_sum (from_store (GetPlan db [] (task_ProjectID t) (task_PlanID t))) (\<lambda>pl.
     bind_sum (require (PlanMissing (task_PlanID t)) pl) (\<lambda>plan.
     bind_sum (require (ProjectMissing (plan_ProjectID plan)) (GetProjectByResourceID db (plan_ProjectID plan))) (\<lambda>prj.
     Inr (project_ParallelTasksPerRollout prj))))"

definition storeParallelLimitCause :: "int \<Rightarrow> string \<Rightarrow> int \<Rightarrow> taskdb \<Rightarrow> taskdb" where
  "storeParallelLimitCause now projectID taskRunID db =
     UpdateTaskRunPayload now projectID taskRunID
       \<lparr>payload_SchedulerInfo = Some \<lparr>info_ReportTime = now, info_ParallelTasksLimit = True\<rparr>,
        payload_SkipPriorBackup = False\<rparr> db"

definition promoteTaskRun :: "int \<Rightarrow> TaskRunMessage \<Rightarrow> taskdb \<Rightarrow> unit sched \<times> taskdb" where
  "promoteTaskRun now tr db =
     (let db1 = UpdateTaskRunPayload now (tr_ProjectID tr) (tr_ID tr) empty_payload db
      in case UpdateTaskRunStatus now
                \<lparr>patch_ID = tr_ID tr, patch_ProjectID = tr_ProjectID tr, patch_Status = TaskRun_AVAILABLE,
                 patch_ResultProto = None\<rparr> db1 of
           (Inl e, db2) \<Rightarrow> (Inl (StoreError e), db2)
         | (Inr _, db2) \<Rightarrow> (Inr (), db2))"

text \<open>
  One task run of the round.  A task that is gone is a nil pointer, and the goroutine does not
  recover from the panic.
\<close>

definition schedulePendingTaskRun ::
  "int \<Rightarrow> TaskRunMessage \<Rightarrow> schedulingContext \<times> taskdb \<Rightarrow> (sched_error, unit) outcome \<times> schedulingContext \<times> taskdb" where
  "schedulePendingTaskRun now tr s =
     (case s of (sc, db) \<Rightarrow>
        case GetTaskByID db (tr_ProjectID tr) (tr_TaskUID tr) of
          Inl e \<Rightarrow> (Err (StoreError e), sc, db)
        | Inr task \<Rightarrow>
            if (case tr_RunAt tr of None \<Rightarrow> False | Some t \<Rightarrow> now < t) then (Ok (), sc, db)
            else case task of
                   None \<Rightarrow> (Panic, sc, db)
                 | Some t \<Rightarrow>
                     if \<not> fst (checkDatabaseMutualExclusion sc t) then (Ok (), sc, db)
                     else case getMaxParallelForTask db t of
                            Inl e \<Rightarrow> (Err e, sc, db)
                          | Inr maxParallel \<Rightarrow>
                              if \<not> checkParallelLimit sc t maxParallel
                              then (Ok (), sc, storeParallelLimitCause now (tr_ProjectID tr) (tr_ID tr) db)
                              else case promoteTaskRun now tr db of
                                     (Inl e, db1) \<Rightarrow> (Err e, sc, db1)
                                   | (Inr _, db1) \<Rightarrow> (Ok (), markPromoted t sc, db1))"

text \<open>The loop of a round goes on after an error.\<close>

primrec schedule_loop ::
  "int \<Rightarrow> TaskRunMessage list \<Rightarrow> schedulingContext \<times> taskdb \<Rightarrow> (sched_error, unit) outcome \<times> schedulingContext \<times> taskdb" where
  "schedule_loop now [] s = (Ok (), s)"
| "schedule_loop now (tr # trs) s =
     (case schedulePendingTaskRun now tr s of
        (Panic, s1) \<Rightarrow> (Panic, s1)
      | (_, s1) \<Rightarrow> schedule_loop now trs s1)"

text \<open>A round with nothing else going on; \<open>acquired\<close> is the answer of the advisory lock.\<close>

definition schedulePendingTaskRuns :: "int \<Rightarrow> bool \<Rightarrow> taskdb \<Rightarrow> (sched_error, unit) outcome \<times> taskdb" where
  "schedulePendingTaskRuns now acquired db =
     (if \<not> acquired then (Ok (), db)
      else case ListTaskRunsByStatus db [TaskRun_PENDING] of
             Inl e \<Rightarrow> (Err (StoreError e), db)
           | Inr trs \<Rightarrow>
               (case newSchedulingContext db of
                  Inl e \<Rightarrow> (Err (StoreError e), db)
                | Inr sc \<Rightarrow> (case schedule_loop now trs (sc, db) of (r, _, db1) \<Rightarrow> (r, db1))))"


section \<open>Running task runs\<close>

definition GetDatabaseName :: "('a task_row_scheme) \<Rightarrow> string" where
  "GetDatabaseName t = (case task_DatabaseName t of None \<Rightarrow> [] | Some d \<Rightarrow> d)"

definition checkTaskDrift :: "TaskMessage \<Rightarrow> DatabaseMessage \<Rightarrow> PlanMessage \<Rightarrow> unit sched" where
  "checkTaskDrift t d pl =
     (if Database_ProjectID d \<noteq> plan_ProjectID pl
      then Inl (ProjectDrift (Database_ProjectID d) (plan_ProjectID pl))
      else case Database_EffectiveEnvironmentID d of
             Some env \<Rightarrow> if task_Environment t \<noteq> [] \<and> env \<noteq> task_Environment t
                         then Inl (EnvironmentDrift env (task_Environment t)) else Inr ()
           | None \<Rightarrow> Inr ())"

definition validateTaskFreshness :: "sched_env \<Rightarrow> taskdb \<Rightarrow> TaskMessage \<Rightarrow> unit sched" where
  "validateTaskFreshness env db t =
     (if task_Type t = DATABASE_CREATE then Inr ()
      else bind_sum (from_store (lookup_database env (task_InstanceID t) (task_DatabaseName t))) (\<lambda>d.
           bind_sum (require (TargetDeleted (GetDatabaseName t) (task_InstanceID t)) d) (\<lambda>database.
           bind_sum (from_store (GetPlan db [] (task_ProjectID t) (task_PlanID t))) (\<lambda>pl.
           bind_sum (require (PlanMissing (task_PlanID t)) pl) (\<lambda>plan.
           checkTaskDrift t database plan)))))"

text \<open>
  The execution of a claimed run up to its goroutine.  \<open>error_text\<close> prints an error.
\<close>

definition executeTaskRun ::
  "sched_env \<Rightarrow> (sched_error \<Rightarrow> string) \<Rightarrow> int \<Rightarrow> ClaimedTaskRun \<Rightarrow> world \<Rightarrow> unit sched \<times> world" where
  "executeTaskRun env error_text now c w =
     (case GetTaskByID (w_db w) (claimed_ProjectID c) (claimed_TaskUID c) of
        Inl e \<Rightarrow> (Inl (StoreError e), w)
      | Inr None \<Rightarrow> (Inl (TaskMissing (claimed_TaskUID c)), w)
      | Inr (Some t) \<Rightarrow>
          (case validateTaskFreshness env (w_db w) t of
             Inl e \<Rightarrow>
               (case UpdateTaskRunStatus now
                       \<lparr>patch_ID = claimed_TaskRunUID c, patch_ProjectID = task_ProjectID t, patch_Status = TaskRun_FAILED,
                        patch_ResultProto = Some (empty_result\<lparr>result_Detail := error_text e\<rparr>)\<rparr> (w_db w) of
                  (Inl e1, db1) \<Rightarrow> (Inl (StoreError e1), w\<lparr>w_db := db1\<rparr>)
                | (Inr _, db1) \<Rightarrow> (Inr (), w\<lparr>w_db := db1\<rparr>))
           | Inr _ \<Rightarrow>
               if task_Type t \<notin> set (executor_types env) then (Inl (NoExecutor (task_Type t)), w)
               else
                 (case UpdateTaskRunStartAt now (task_ProjectID t) (claimed_TaskRunUID c) (w_db w) of
                    (Inl e, db1) \<Rightarrow> (Inl (StoreError e), w\<lparr>w_db := db1\<rparr>)
                  | (Inr _, db1) \<Rightarrow>
                      (case UpdateTaskRunAssignedNode now (claimed_TaskRunUID c) (replica_ID env) db1 of
                         (Inl e, db2) \<Rightarrow> (Inl (StoreError e), w\<lparr>w_db := db2\<rparr>)
                       | (Inr _, db2) \<Rightarrow>
                           (Inr (), w\<lparr>w_db := db2,
                              w_executing := w_executing w @ [\<lparr>exec_RunUID = claimed_TaskRunUID c, exec_Task = t\<rparr>]\<rparr>)))))"

text \<open>What an executor does: it returns a result or an error, or panics, which is made an error.\<close>

datatype executor_return =
  Returned TaskRunResult
| ReturnedError bool string
| Panicked string

definition RunExecutorOnce :: "executor_return \<Rightarrow> executor_return" where
  "RunExecutorOnce r = (case r of Panicked v \<Rightarrow> ReturnedError False (''TaskExecutor PANIC RECOVER, err: '' @ v) | _ \<Rightarrow> r)"

text \<open>The event of a failed plan, if this replica is the one that claims it.\<close>

definition notify_failure :: "planKey \<Rightarrow> string \<Rightarrow> world \<Rightarrow> world" where
  "notify_failure k environment w =
     (case ClaimPipelineFailureNotification (fst k) (snd k) (w_db w) of
        (Inr True, db1) \<Rightarrow>
          let w1 = w\<lparr>w_db := db1\<rparr>
          in (case GetPlan db1 [] (fst k) (snd k) of
                Inr (Some plan) \<Rightarrow>
                  (case GetProjectByResourceID db1 (plan_ProjectID plan) of
                     Some prj \<Rightarrow> w1\<lparr>w_events := w_events w1 @
                       [\<lparr>event_Type = PIPELINE_FAILED, event_Project = project_id prj, event_Plan = plan_UID plan,
                         event_Environment = environment\<rparr>]\<rparr>
                   | None \<Rightarrow> w1)
              | _ \<Rightarrow> w1)
      | (_, db1) \<Rightarrow> w\<lparr>w_db := db1\<rparr>)"

text \<open>The goroutine once its executor returns; a cancelled context is the error with the flag.\<close>

definition finish_status :: "executor_return \<Rightarrow> TaskRun_Status \<times> TaskRunResult" where
  "finish_status r =
     (case r of
        Returned res \<Rightarrow> (TaskRun_DONE, res)
      | ReturnedError canceled msg \<Rightarrow>
          if canceled then (TaskRun_CANCELED, empty_result)
          else (TaskRun_FAILED, empty_result\<lparr>result_Detail := msg\<rparr>)
      | Panicked v \<Rightarrow> (TaskRun_FAILED, empty_result\<lparr>result_Detail := v\<rparr>))"

definition runTaskRunOnce :: "int \<Rightarrow> executor_return \<Rightarrow> execution \<Rightarrow> world \<Rightarrow> world" where
  "runTaskRunOnce now ret e w =
     (let t = exec_Task e; p = task_ProjectID t;
          st = finish_status (RunExecutorOnce ret)
      in case UpdateTaskRunStatus now
                \<lparr>patch_ID = exec_RunUID e, patch_ProjectID = p, patch_Status = fst st, patch_ResultProto = Some (snd st)\<rparr>
                (w_db w) of
           (Inl _, db1) \<Rightarrow> w\<lparr>w_db := db1\<rparr>
         | (Inr _, db1) \<Rightarrow>
             (case fst st of
                TaskRun_FAILED \<Rightarrow> notify_failure (p, task_PlanID t) (task_Environment t) (w\<lparr>w_db := db1\<rparr>)
              | TaskRun_DONE \<Rightarrow> w\<lparr>w_db := db1, w_completion := w_completion w @ [(p, task_PlanID t)]\<rparr>
              | _ \<Rightarrow> w\<lparr>w_db := db1\<rparr>))"

text \<open>One pass of the running scheduler: claim, then start each run.\<close>

definition scheduleRunningTaskRuns ::
  "sched_env \<Rightarrow> (sched_error \<Rightarrow> string) \<Rightarrow> int \<Rightarrow> (run_row \<Rightarrow> bool) \<Rightarrow> world \<Rightarrow> world" where
  "scheduleRunningTaskRuns env error_text now locked w =
     (case ClaimAvailableTaskRuns now locked (replica_ID env) (w_db w) of
        (claimed, db1) \<Rightarrow>
          foldl (\<lambda>w1 c. snd (executeTaskRun env error_text now c w1)) (w\<lparr>w_db := db1\<rparr>) claimed)"


section \<open>Licence failures, completion, recovery\<close>

text \<open>\<^verbatim>\<open>affectedPlans\<close>: the first environment seen of each plan.\<close>

definition fail_for_HA :: "int \<Rightarrow> string \<Rightarrow> TaskRunMessage \<Rightarrow> (planKey \<times> string) list \<times> taskdb \<Rightarrow> (planKey \<times> string) list \<times> taskdb" where
  "fail_for_HA now haErr tr s =
     (case s of (affected, db) \<Rightarrow>
        case UpdateTaskRunStatus now
               \<lparr>patch_ID = tr_ID tr, patch_ProjectID = tr_ProjectID tr, patch_Status = TaskRun_FAILED,
                patch_ResultProto = Some (empty_result\<lparr>result_Detail := haErr\<rparr>)\<rparr> db of
          (Inl _, db1) \<Rightarrow> (affected, db1)
        | (Inr _, db1) \<Rightarrow>
            (let k = (tr_ProjectID tr, tr_PlanUID tr)
             in (if k \<in> fst ` set affected then affected else affected @ [(k, tr_Environment tr)], db1)))"

text \<open>\<open>ord\<close> is the order in which the map is visited.\<close>

definition failTaskRunsForHA ::
  "((planKey \<times> string) list \<Rightarrow> (planKey \<times> string) list) \<Rightarrow> int \<Rightarrow> string \<Rightarrow> world \<Rightarrow> world" where
  "failTaskRunsForHA ord now haErr w =
     (case ListTaskRunsByStatus (w_db w) [TaskRun_PENDING, TaskRun_AVAILABLE] of
        Inl _ \<Rightarrow> w
      | Inr trs \<Rightarrow>
          (case foldl (\<lambda>s tr. fail_for_HA now haErr tr s) ([], w_db w) trs of
             (affected, db1) \<Rightarrow> foldl (\<lambda>w1 a. notify_failure (fst a) (snd a) w1) (w\<lparr>w_db := db1\<rparr>) (ord affected)))"

definition isDeferredRolloutPlan :: "PlanMessage \<Rightarrow> bool" where
  "isDeferredRolloutPlan pl =
     (plan_Specs pl \<noteq> [] \<and> list_all (\<lambda>s. is_export_data s \<or> is_create_database s) (plan_Specs pl))"

definition autoResolveIssue :: "string \<Rightarrow> int \<Rightarrow> taskdb \<Rightarrow> taskdb" where
  "autoResolveIssue projectID planID db =
     (case GetIssue db [] projectID None (Some planID) of
        Inr (Some i) \<Rightarrow>
          if issue_Status i \<noteq> Issue_OPEN then db
          else snd (UpdateIssue_status (issue_ProjectID i) (issue_UID i) Issue_DONE db)
      | _ \<Rightarrow> db)"

definition is_complete :: "TaskMessage \<Rightarrow> bool" where
  "is_complete t =
     (task_LatestTaskRunStatus t = TaskRun_DONE \<or> task_LatestTaskRunStatus t = TaskRun_SKIPPED
      \<or> task_Skipped (task_Payload t))"

definition checkPlanCompletion :: "planKey \<Rightarrow> world \<Rightarrow> world" where
  "checkPlanCompletion ref w =
     (case GetPlan (w_db w) [] (fst ref) (snd ref) of
        Inr (Some plan) \<Rightarrow>
          let tasks = ListTasks (w_db w) ((task_find (fst ref))\<lparr>tf_PlanID := Some (snd ref)\<rparr>)
          in if \<not> list_all is_complete tasks then w
             else (case ClaimPipelineCompletionNotification (fst ref) (snd ref) (w_db w) of
                     (Inr True, db1) \<Rightarrow>
                       (let w1 = w\<lparr>w_db := db1\<rparr>
                        in case GetProjectByResourceID db1 (plan_ProjectID plan) of
                             None \<Rightarrow> w1
                           | Some prj \<Rightarrow>
                               (let environment = (case tasks of [] \<Rightarrow> [] | t # _ \<Rightarrow> task_Environment t);
                                    w2 = w1\<lparr>w_events := w_events w1 @
                                      [\<lparr>event_Type = PIPELINE_COMPLETED, event_Project = project_id prj,
                                        event_Plan = plan_UID plan, event_Environment = environment\<rparr>]\<rparr>
                                in if isDeferredRolloutPlan plan
                                   then w2\<lparr>w_db := autoResolveIssue (fst ref) (snd ref) (w_db w2)\<rparr> else w2))
                   | (_, db1) \<Rightarrow> w\<lparr>w_db := db1\<rparr>)
      | _ \<Rightarrow> w)"

definition recovered_result :: TaskRunResult where
  "recovered_result = empty_result\<lparr>result_Detail := ''Task run recovered by leader: previous node died.''\<rparr>"

definition recover_run :: "int \<Rightarrow> int \<times> string \<Rightarrow> taskdb \<Rightarrow> taskdb" where
  "recover_run now orphan db =
     (case UpdateTaskRunStatus now
             \<lparr>patch_ID = fst orphan, patch_ProjectID = snd orphan, patch_Status = TaskRun_PENDING,
              patch_ResultProto = Some recovered_result\<rparr> db of
        (Inl _, db1) \<Rightarrow> db1
      | (Inr _, db1) \<Rightarrow> snd (UpdateTaskRunAssignedNode now (fst orphan) [] db1))"

text \<open>\<open>within\<close> is 30 seconds in the code.\<close>

definition performTaskRecovery :: "int \<Rightarrow> int \<Rightarrow> taskdb \<Rightarrow> taskdb" where
  "performTaskRecovery now within db =
     (case FindOrphanedTaskRuns db (ListActiveReplicas now within db) of
        Inl _ \<Rightarrow> db
      | Inr orphans \<Rightarrow> foldl (\<lambda>db1 orphan. recover_run now orphan db1) db orphans)"

end
