(* ===== verification/TaskService.thy ===== *)
theory TaskService
  imports TaskScheduler ResourceName
begin

text \<open>
  The requests that start, skip and cancel tasks (\<^verbatim>\<open>api/v1/rollout_service_execute.go\<close>), the creation
  of a rollout (\<^verbatim>\<open>CreateRollout\<close>, \<^verbatim>\<open>CreateRolloutAndPendingTasks\<close> and their helpers in
  \<^verbatim>\<open>api/v1/rollout_service.go\<close>), its automatic creation (\<^verbatim>\<open>runner/taskrun/rollout_creator.go\<close>) and the
  approval of an issue (\<^verbatim>\<open>utils/utils.go\<close>).  Parameters: the access manager's environment, the
  workspace and user of the request, the policies in the store, the tasks that the specs of a plan
  stand for, the plan check run, the creation of an issue comment.  What a handler builds for its
  response, and the signal to the other replicas, are left out.
\<close>

section \<open>Approval of an issue\<close>

definition FindNextPendingRole :: "Approval option \<Rightarrow> ('e, string) outcome" where
  "FindNextPendingRole approval =
     (case approval of
        None \<Rightarrow> Ok []
      | Some a \<Rightarrow>
          (case approval_Template a of
             None \<Rightarrow> Ok []
           | Some None \<Rightarrow> Panic
           | Some (Some roles) \<Rightarrow>
               if length roles \<le> length (approval_Approvers a) then Ok []
               else Ok (roles ! length (approval_Approvers a))))"

primrec rejected_role :: "string list \<Rightarrow> Approver list \<Rightarrow> nat \<Rightarrow> string" where
  "rejected_role roles [] i = []"
| "rejected_role roles (a # as) i =
     (if length roles \<le> i then []
      else if approver_Status a = Approver_REJECTED then roles ! i
      else rejected_role roles as (i + 1))"

definition FindRejectedRole :: "Approval option \<Rightarrow> ('e, string) outcome" where
  "FindRejectedRole approval =
     (case approval of
        None \<Rightarrow> Ok []
      | Some a \<Rightarrow>
          (case approval_Template a of
             None \<Rightarrow> Ok []
           | Some None \<Rightarrow> if approval_Approvers a = [] then Ok [] else Panic
           | Some (Some roles) \<Rightarrow> Ok (rejected_role roles (approval_Approvers a) 0)))"

definition CheckApprovalApproved :: "Approval option \<Rightarrow> ('e, bool) outcome" where
  "CheckApprovalApproved approval =
     (case approval of
        None \<Rightarrow> Ok False
      | Some a \<Rightarrow>
          if \<not> approval_FindingDone a then Ok False
          else if approval_Template a = None then Ok True
          else bind_outcome (FindRejectedRole approval) (\<lambda>rejected.
               if rejected \<noteq> [] then Ok False
               else bind_outcome (FindNextPendingRole approval) (\<lambda>pending. Ok (pending = []))))"

definition CheckIssueApproved :: "IssueMessage \<Rightarrow> ('e, bool) outcome" where
  "CheckIssueApproved i = CheckApprovalApproved (issue_Approval i)"


section \<open>Requests\<close>

record RolloutPolicy =
  policy_Automatic :: bool
  policy_Roles :: "string list"

record service_env =
  svc_access :: access_env
  svc_saas :: bool
  svc_workspace :: string
  svc_user :: "UserMessage option"
  svc_ProjectIamPolicy :: "string \<Rightarrow> string \<Rightarrow> go_error + IamPolicy"
  svc_WorkspaceIamPolicy :: "string \<Rightarrow> go_error + IamPolicy"
  svc_RolloutPolicy :: "string \<Rightarrow> string \<Rightarrow> go_error + RolloutPolicy"
  svc_pipeline :: "spec_config list \<Rightarrow> string \<Rightarrow> go_error + TaskMessage list"
  svc_plan_check :: "string \<Rightarrow> int \<Rightarrow> go_error + PlanCheckRun option"
  svc_comment_error :: "go_error option"

datatype rollout_reason =
  EmptyTasks
| BadName name_error
| StoreFailure task_error
| ProjectNotFound string
| PlanNotFound int
| DifferentEnvironments
| NoTasksInStage
| NoUser
| AccessFailure go_error
| NotAllowed
| NotApproved
| TaskNotFound int
| WrongStage string string
| NotCancelable int
| PipelineFailure go_error
| PolicyFailure go_error
| CommentFailure go_error
| PermissionDenied
| StageFilter name_error

datatype rollout_code = RC_InvalidArgument | RC_Internal | RC_NotFound | RC_PermissionDenied | RC_FailedPrecondition

text \<open>The code of each answer.\<close>

fun reason_code :: "rollout_reason \<Rightarrow> rollout_code" where
  "reason_code EmptyTasks = RC_InvalidArgument"
| "reason_code (BadName _) = RC_InvalidArgument"
| "reason_code (ProjectNotFound _) = RC_NotFound"
| "reason_code (PlanNotFound _) = RC_NotFound"
| "reason_code DifferentEnvironments = RC_InvalidArgument"
| "reason_code NoTasksInStage = RC_InvalidArgument"
| "reason_code NotAllowed = RC_PermissionDenied"
| "reason_code NotApproved = RC_FailedPrecondition"
| "reason_code (TaskNotFound _) = RC_NotFound"
| "reason_code (WrongStage _ _) = RC_InvalidArgument"
| "reason_code (NotCancelable _) = RC_InvalidArgument"
| "reason_code (PipelineFailure _) = RC_InvalidArgument"
| "reason_code PermissionDenied = RC_PermissionDenied"
| "reason_code _ = RC_Internal"

type_synonym answer = "(rollout_reason, unit) outcome"

definition of_sum :: "('e \<Rightarrow> 'f) \<Rightarrow> 'e + 'a \<Rightarrow> ('f, 'a) outcome" where
  "of_sum g r = (case r of Inl e \<Rightarrow> Err (g e) | Inr x \<Rightarrow> Ok x)"

definition formatEnvironmentFromStageID :: "string \<Rightarrow> string" where
  "formatEnvironmentFromStageID stageID = (if stageID = EmptyStageID then [] else stageID)"

text \<open>The lookup of a project in the workspace of the request.\<close>

definition find_project :: "taskdb \<Rightarrow> string \<Rightarrow> string \<Rightarrow> project_row option" where
  "find_project db ws p =
     find (\<lambda>r. project_id r = p \<and> (ws = [] \<or> project_workspace r = ws)) (db_projects db)"

definition GetValidRolloutPolicyForEnvironment :: "service_env \<Rightarrow> string \<Rightarrow> go_error + RolloutPolicy" where
  "GetValidRolloutPolicyForEnvironment env environment = svc_RolloutPolicy env (svc_workspace env) environment"

definition TaskRunsCreate :: string where
  "TaskRunsCreate = ''bb.taskRuns.create''"

definition RolloutsCreate :: string where
  "RolloutsCreate = ''bb.rollouts.create''"

text \<open>The permission, or one of the roles that the policy of the environment names.\<close>

definition run_permission :: "service_env \<Rightarrow> UserMessage \<Rightarrow> project_row \<Rightarrow> string \<Rightarrow> go_error + bool" where
  "run_permission env user prj environment =
     bind_sum (CheckPermission (svc_access env) (svc_saas env) TaskRunsCreate user (svc_workspace env) [project_id prj]) (\<lambda>ok.
     if ok then Inr True
     else
       bind_sum (GetValidRolloutPolicyForEnvironment env environment) (\<lambda>p.
       bind_sum (svc_ProjectIamPolicy env (svc_workspace env) (project_id prj)) (\<lambda>policy.
       bind_sum (svc_WorkspaceIamPolicy env (svc_workspace env)) (\<lambda>workspacePolicy.
       let roles = GetUserFormattedRolesMap (svc_access env) (svc_workspace env) user [policy];
           workspaceRoles = GetUserFormattedRolesMap (svc_access env) (svc_workspace env) user [workspacePolicy]
       in Inr (list_ex (\<lambda>role. flag roles role \<or> flag workspaceRoles role) (policy_Roles p))))))"

definition canUserRunEnvironmentTasks ::
  "service_env \<Rightarrow> UserMessage \<Rightarrow> project_row \<Rightarrow> IssueMessage option \<Rightarrow> string \<Rightarrow> go_error + bool" where
  "canUserRunEnvironmentTasks env user prj issue environment =
     (case issue of
        Some i \<Rightarrow>
          if issue_Type i = Issue_DATABASE_EXPORT then Inr (issue_CreatorEmail i = User_Email user)
          else run_permission env user prj environment
      | None \<Rightarrow> run_permission env user prj environment)"

text \<open>The project, the plan and the issue of a request.\<close>

definition load_plan ::
  "service_env \<Rightarrow> taskdb \<Rightarrow> string \<Rightarrow> int \<Rightarrow> (rollout_reason, project_row \<times> PlanMessage) outcome" where
  "load_plan env db projectID planID =
     bind_outcome (of_option (ProjectNotFound projectID) (find_project db (svc_workspace env) projectID)) (\<lambda>prj.
     bind_outcome (of_sum StoreFailure (GetPlan db (svc_workspace env) projectID planID)) (\<lambda>pl.
     bind_outcome (of_option (PlanNotFound planID) pl) (\<lambda>plan. Ok (prj, plan))))"

definition load_issue :: "service_env \<Rightarrow> taskdb \<Rightarrow> string \<Rightarrow> int \<Rightarrow> (rollout_reason, IssueMessage option) outcome" where
  "load_issue env db projectID planID =
     of_sum StoreFailure (GetIssue db (svc_workspace env) projectID None (Some planID))"

record BatchRunTasksRequest =
  run_Parent :: string
  run_Tasks :: "string list"
  run_RunTime :: "int option"
  run_SkipPriorBackup :: bool

text \<open>The environment and the id of each task named.\<close>

definition requested_task :: "string \<Rightarrow> (rollout_reason, string \<times> int) outcome" where
  "requested_task name =
     bind_outcome (of_sum BadName (GetProjectIDPlanIDStageIDTaskID name)) (\<lambda>(_, _, stageID, taskID).
       Ok (formatEnvironmentFromStageID stageID, sint taskID))"

definition run_create :: "BatchRunTasksRequest \<Rightarrow> string \<Rightarrow> TaskMessage \<Rightarrow> TaskRunMessage" where
  "run_create req projectID t =
     \<lparr>tr_TaskUID = task_ID t, tr_Environment = [], tr_PlanUID = 0, tr_Status = TaskRun_STATUS_UNSPECIFIED,
      tr_ResultProto = empty_result,
      tr_PayloadProto = (if run_SkipPriorBackup req then Some (empty_payload\<lparr>payload_SkipPriorBackup := True\<rparr>) else None),
      tr_ID = 0, tr_CreatorEmail = [], tr_ProjectID = projectID, tr_RunAt = run_RunTime req\<rparr>"

definition compare_task :: "TaskRunMessage \<Rightarrow> TaskRunMessage \<Rightarrow> int" where
  "compare_task a b = (if tr_TaskUID a < tr_TaskUID b then -1 else if tr_TaskUID a > tr_TaskUID b then 1 else 0)"

text \<open>The checks after the deliveries of the plan are reset, and the runs to create.\<close>

definition run_tasks_checked ::
  "service_env \<Rightarrow> BatchRunTasksRequest \<Rightarrow> string \<Rightarrow> int \<Rightarrow> project_row \<Rightarrow> taskdb
   \<Rightarrow> (rollout_reason, UserMessage \<times> TaskRunMessage list) outcome" where
  "run_tasks_checked env req projectID planID prj db =
     bind_outcome (load_issue env db projectID planID) (\<lambda>issueN.
     bind_outcome (traverse requested_task (run_Tasks req)) (\<lambda>tasks.
     if 1 < length (remdups (map fst tasks)) then Err DifferentEnvironments
     else
       let environmentToRun = fst (hd tasks);
           stageTasks = ListTasks db ((task_find projectID)\<lparr>tf_Workspace := svc_workspace env, tf_PlanID := Some planID,
                                         tf_Environment := Some environmentToRun\<rparr>)
       in if stageTasks = [] then Err NoTasksInStage
       else
         bind_outcome (of_option NoUser (svc_user env)) (\<lambda>user.
         bind_outcome (of_sum AccessFailure (canUserRunEnvironmentTasks env user prj issueN environmentToRun)) (\<lambda>ok.
         if \<not> ok then Err NotAllowed
         else
           bind_outcome (case issueN of
                           Some i \<Rightarrow> if project_RequireIssueApproval prj then CheckIssueApproved i else Ok True
                         | None \<Rightarrow> Ok True) (\<lambda>approved.
           if \<not> approved then Err NotApproved
           else Ok (user, SortFunc compare_task
                  (map (run_create req projectID) (filter (\<lambda>t. task_ID t \<in> snd ` set tasks) stageTasks))))))))"

definition BatchRunTasks :: "service_env \<Rightarrow> int \<Rightarrow> BatchRunTasksRequest \<Rightarrow> world \<Rightarrow> answer \<times> world" where
  "BatchRunTasks env now req w =
     (if run_Tasks req = [] then (Err EmptyTasks, w)
      else case bind_outcome (of_sum BadName (GetProjectIDPlanIDMaybeStageID (run_Parent req))) (\<lambda>(projectID, planID, _).
                bind_outcome (load_plan env (w_db w) projectID (sint planID)) (\<lambda>(prj, _). Ok (projectID, sint planID, prj))) of
             Panic \<Rightarrow> (Panic, w)
           | Err e \<Rightarrow> (Err e, w)
           | Ok (projectID, planID, prj) \<Rightarrow>
               let w1 = w\<lparr>w_db := ResetPlanWebhookDelivery projectID planID (w_db w)\<rparr>
               in (case run_tasks_checked env req projectID planID prj (w_db w1) of
                     Panic \<Rightarrow> (Panic, w1)
                   | Err e \<Rightarrow> (Err e, w1)
                   | Ok (user, creates) \<Rightarrow>
                       (case CreatePendingTaskRuns now (User_Email user) creates (w_db w1) of
                          (Inl e, db2) \<Rightarrow> (Err (StoreFailure e), w1\<lparr>w_db := db2\<rparr>)
                        | (Inr _, db2) \<Rightarrow> (Ok (), w1\<lparr>w_db := db2\<rparr>))))"

record BatchSkipTasksRequest =
  skip_Parent :: string
  skip_Tasks :: "string list"
  skip_Reason :: string

text \<open>A named task has to be one of the plan.\<close>

definition skip_task :: "TaskMessage list \<Rightarrow> string \<Rightarrow> (rollout_reason, TaskMessage) outcome" where
  "skip_task tasks name =
     bind_outcome (of_sum BadName (GetProjectIDPlanIDStageIDTaskID name)) (\<lambda>(_, _, _, taskID).
     of_option (TaskNotFound (sint taskID)) (find (\<lambda>t. task_ID t = sint taskID) (rev tasks)))"

primrec check_environments ::
  "service_env \<Rightarrow> UserMessage \<Rightarrow> project_row \<Rightarrow> IssueMessage option \<Rightarrow> string list \<Rightarrow> answer" where
  "check_environments env user prj issueN [] = Ok ()"
| "check_environments env user prj issueN (e # es) =
     bind_outcome (of_sum AccessFailure (canUserRunEnvironmentTasks env user prj issueN e)) (\<lambda>ok.
       if ok then check_environments env user prj issueN es else Err NotAllowed)"

text \<open>\<open>ord\<close> is the order in which the set of environments is visited.\<close>

definition BatchSkipTasks ::
  "service_env \<Rightarrow> (string list \<Rightarrow> string list) \<Rightarrow> BatchSkipTasksRequest \<Rightarrow> world \<Rightarrow> answer \<times> world" where
  "BatchSkipTasks env ord req w =
     (case bind_outcome (of_sum BadName (GetProjectIDPlanIDMaybeStageID (skip_Parent req))) (\<lambda>(projectID, planID, _).
           bind_outcome (load_plan env (w_db w) projectID (sint planID)) (\<lambda>(prj, _).
           bind_outcome (load_issue env (w_db w) projectID (sint planID)) (\<lambda>issueN.
           let tasks = ListTasks (w_db w) ((task_find projectID)\<lparr>tf_Workspace := svc_workspace env, tf_PlanID := Some (sint planID)\<rparr>)
           in bind_outcome (of_option NoUser (svc_user env)) (\<lambda>user.
              bind_outcome (traverse (skip_task tasks) (skip_Tasks req)) (\<lambda>ts.
              bind_outcome (check_environments env user prj issueN (ord (remdups (map task_Environment ts)))) (\<lambda>_.
              Ok (projectID, sint planID, map task_ID ts))))))) of
        Panic \<Rightarrow> (Panic, w)
      | Err e \<Rightarrow> (Err e, w)
      | Ok (projectID, planID, taskUIDs) \<Rightarrow>
          (Ok (), w\<lparr>w_db := store_BatchSkipTasks projectID taskUIDs (skip_Reason req) (w_db w),
                    w_completion := w_completion w @ [(projectID, planID)]\<rparr>))"

record BatchCancelTaskRunsRequest =
  cancel_Parent :: string
  cancel_TaskRuns :: "string list"

definition named_run :: "string \<Rightarrow> string \<Rightarrow> (rollout_reason, int) outcome" where
  "named_run stageID name =
     bind_outcome (of_sum BadName (GetProjectIDPlanIDStageIDTaskIDTaskRunID name)) (\<lambda>(_, _, runStageID, _, taskRunID).
     if runStageID \<noteq> stageID then Err (WrongStage name stageID) else Ok (sint taskRunID))"

definition cancelable :: "TaskRunMessage \<Rightarrow> (rollout_reason, unit) outcome" where
  "cancelable tr =
     (case tr_Status tr of
        TaskRun_PENDING \<Rightarrow> Ok () | TaskRun_AVAILABLE \<Rightarrow> Ok () | TaskRun_RUNNING \<Rightarrow> Ok ()
      | _ \<Rightarrow> Err (NotCancelable (tr_ID tr)))"

text \<open>
  The runs that are running have their contexts cancelled: the second component of the result is
  the runs so signalled.
\<close>

definition BatchCancelTaskRuns ::
  "service_env \<Rightarrow> int \<Rightarrow> BatchCancelTaskRunsRequest \<Rightarrow> world \<Rightarrow> answer \<times> (string \<times> int) list \<times> world" where
  "BatchCancelTaskRuns env now req w =
     (if cancel_TaskRuns req = [] then (Err EmptyTasks, [], w)
      else case bind_outcome (of_sum BadName (GetProjectIDPlanIDStageIDMaybeTaskID (cancel_Parent req))) (\<lambda>(projectID, planID, stageID, _).
                bind_outcome (load_plan env (w_db w) projectID (sint planID)) (\<lambda>(prj, _).
                bind_outcome (load_issue env (w_db w) projectID (sint planID)) (\<lambda>issueN.
                bind_outcome (traverse (named_run stageID) (cancel_TaskRuns req)) (\<lambda>taskRunIDs.
                bind_outcome (of_option NoUser (svc_user env)) (\<lambda>user.
                bind_outcome (of_sum AccessFailure
                  (canUserRunEnvironmentTasks env user prj issueN (formatEnvironmentFromStageID stageID))) (\<lambda>ok.
                if \<not> ok then Err NotAllowed
                else
                  bind_outcome (of_sum StoreFailure (ListTaskRuns (w_db w)
                    ((run_find projectID)\<lparr>fr_Workspace := svc_workspace env, fr_UIDs := Some taskRunIDs\<rparr>))) (\<lambda>taskRuns.
                  bind_outcome (traverse cancelable taskRuns) (\<lambda>_.
                  Ok (projectID, taskRunIDs,
                      map (\<lambda>tr. (projectID, tr_ID tr)) (filter (\<lambda>tr. tr_Status tr = TaskRun_RUNNING) taskRuns)))))))))) of
             Panic \<Rightarrow> (Panic, [], w)
           | Err e \<Rightarrow> (Err e, [], w)
           | Ok (projectID, taskRunIDs, running) \<Rightarrow>
               (Ok (), running, w\<lparr>w_db := store_BatchCancelTaskRuns now projectID taskRunIDs (w_db w)\<rparr>))"


section \<open>Creating a rollout\<close>

text \<open>A slice that may be nil.\<close>

type_synonym tasks_slice = "TaskMessage list option"

definition slice :: "tasks_slice \<Rightarrow> TaskMessage list" where
  "slice s = (case s of None \<Rightarrow> [] | Some xs \<Rightarrow> xs)"

definition isChangeDatabasePlan :: "spec_config list \<Rightarrow> bool" where
  "isChangeDatabasePlan specs = list_ex is_change_database specs"

text \<open>Appending nothing to a nil slice leaves it nil.\<close>

definition GetPipelineCreate :: "service_env \<Rightarrow> spec_config list \<Rightarrow> string \<Rightarrow> go_error + tasks_slice" where
  "GetPipelineCreate env specs projectID =
     bind_sum (svc_pipeline env specs projectID) (\<lambda>ts. Inr (if ts = [] then None else Some ts))"

definition filterTasksByStage :: "tasks_slice \<Rightarrow> string option \<Rightarrow> name_error + tasks_slice" where
  "filterTasksByStage tasks target =
     (case target of
        None \<Rightarrow> Inr tasks
      | Some t \<Rightarrow>
          if t = [] then Inr None
          else bind_sum (GetEnvironmentID t) (\<lambda>envID.
               Inr (Some (filter (\<lambda>x. task_Environment x = envID) (slice tasks)))))"

text \<open>
  The loop over the created tasks; the map of the policies found so far saves lookups only.
\<close>

primrec auto_rollout :: "service_env \<Rightarrow> int \<Rightarrow> string \<Rightarrow> TaskMessage list \<Rightarrow> taskdb \<Rightarrow> answer \<times> taskdb" where
  "auto_rollout env now ws [] db = (Ok (), db)"
| "auto_rollout env now ws (t # ts) db =
     (if task_Environment t = [] then auto_rollout env now ws ts db
      else case svc_RolloutPolicy env ws (task_Environment t) of
             Inl e \<Rightarrow> (Err (PolicyFailure e), db)
           | Inr policy \<Rightarrow>
               if policy_Automatic policy then
                 (case CreatePendingTaskRuns now []
                         [\<lparr>tr_TaskUID = task_ID t, tr_Environment = [], tr_PlanUID = 0, tr_Status = TaskRun_STATUS_UNSPECIFIED,
                           tr_ResultProto = empty_result, tr_PayloadProto = None, tr_ID = 0, tr_CreatorEmail = [],
                           tr_ProjectID = task_ProjectID t, tr_RunAt = None\<rparr>] db of
                    (Inl e, db1) \<Rightarrow> (Err (StoreFailure e), db1)
                  | (Inr _, db1) \<Rightarrow> auto_rollout env now ws ts db1)
               else auto_rollout env now ws ts db)"

text \<open>The issue is done, and the change is noted in a comment.\<close>

definition close_issue :: "service_env \<Rightarrow> IssueMessage option \<Rightarrow> taskdb \<Rightarrow> answer \<times> taskdb" where
  "close_issue env issue db =
     (case issue of
        None \<Rightarrow> (Ok (), db)
      | Some i \<Rightarrow>
          (case UpdateIssue_status (issue_ProjectID i) (issue_UID i) Issue_DONE db of
             (Inl e, db1) \<Rightarrow> (Err (StoreFailure e), db1)
           | (Inr None, db1) \<Rightarrow> (Panic, db1)
           | (Inr (Some _), db1) \<Rightarrow>
               (case svc_comment_error env of
                  Some e \<Rightarrow> (Err (CommentFailure e), db1)
                | None \<Rightarrow> (Ok (), db1))))"

text \<open>A nil slice of tasks is made from the specs of the plan.\<close>

definition CreateRolloutAndPendingTasks ::
  "service_env \<Rightarrow> int \<Rightarrow> PlanMessage \<Rightarrow> IssueMessage option \<Rightarrow> project_row \<Rightarrow> tasks_slice \<Rightarrow> taskdb \<Rightarrow> answer \<times> taskdb" where
  "CreateRolloutAndPendingTasks env now plan issue prj tasks db =
     (case (case tasks of None \<Rightarrow> GetPipelineCreate env (plan_Specs plan) (project_id prj) | Some _ \<Rightarrow> Inr tasks) of
        Inl e \<Rightarrow> (Err (PipelineFailure e), db)
      | Inr ts \<Rightarrow>
          (case CreateTasks (project_id prj) (plan_UID plan) (slice ts) db of
             (Inl e, db1) \<Rightarrow> (Err (StoreFailure e), db1)
           | (Inr created, db1) \<Rightarrow>
               (case UpdatePlan_hasRollout (project_id prj) (plan_UID plan) db1 of
                  (Inl e, db2) \<Rightarrow> (Err (StoreFailure e), db2)
                | (Inr _, db2) \<Rightarrow>
                    (case close_issue env issue db2 of
                       (Ok _, db3) \<Rightarrow> auto_rollout env now (project_workspace prj) created db3
                     | failed \<Rightarrow> failed))))"

record CreateRolloutRequest =
  create_Parent :: string
  create_Target :: "string option"

text \<open>The checks, and the tasks that the plan stands for.\<close>

definition rollout_request ::
  "service_env \<Rightarrow> string \<Rightarrow> taskdb \<Rightarrow> (rollout_reason, PlanMessage \<times> IssueMessage option \<times> project_row \<times> tasks_slice) outcome" where
  "rollout_request env parent db =
     bind_outcome (of_sum BadName (GetProjectIDPlanID parent)) (\<lambda>(projectID, planID).
     bind_outcome (load_plan env db projectID (sint planID)) (\<lambda>(prj, plan).
     bind_outcome (of_option NoUser (svc_user env)) (\<lambda>user.
     bind_outcome (load_issue env db projectID (sint planID)) (\<lambda>issue.
     bind_outcome (of_sum AccessFailure (CheckPermission (svc_access env) (svc_saas env) RolloutsCreate user
                     (svc_workspace env) [project_id prj])) (\<lambda>hasPermission.
     if \<not> hasPermission \<and> (case issue of None \<Rightarrow> True
                           | Some i \<Rightarrow> issue_Type i \<noteq> Issue_DATABASE_EXPORT \<or> issue_CreatorEmail i \<noteq> User_Email user)
     then Err PermissionDenied
     else
       bind_outcome (of_sum PipelineFailure (GetPipelineCreate env (plan_Specs plan) (project_id prj))) (\<lambda>tasks.
       Ok (plan, issue, prj, tasks)))))))"

text \<open>The handler up to the lists and the order of the environments for its response.\<close>

definition CreateRollout :: "service_env \<Rightarrow> int \<Rightarrow> CreateRolloutRequest \<Rightarrow> taskdb \<Rightarrow> answer \<times> taskdb" where
  "CreateRollout env now req db =
     (case rollout_request env (create_Parent req) db of
        Panic \<Rightarrow> (Panic, db)
      | Err e \<Rightarrow> (Err e, db)
      | Ok (plan, issue, prj, tasks) \<Rightarrow>
          (case (if isChangeDatabasePlan (plan_Specs plan) then filterTasksByStage tasks (create_Target req) else Inr tasks) of
             Inl e \<Rightarrow> (Err (StageFilter e), db)
           | Inr tasks1 \<Rightarrow> CreateRolloutAndPendingTasks env now plan issue prj tasks1 db))"


section \<open>Automatic creation\<close>

definition hasOnlyChangeDatabaseSpecs :: "PlanMessage \<Rightarrow> bool" where
  "hasOnlyChangeDatabaseSpecs plan = (plan_Specs plan \<noteq> [] \<and> list_all is_change_database (plan_Specs plan))"

definition plan_checks_pass :: "PlanCheckRun option \<Rightarrow> bool" where
  "plan_checks_pass r =
     (case r of
        None \<Rightarrow> True
      | Some c \<Rightarrow> checkrun_Status c = PlanCheckRunStatusDone
                 \<and> list_all (\<lambda>a. pcr_Status a \<noteq> Advice_ERROR) (checkrun_Results c))"

definition tryCreateRollout :: "service_env \<Rightarrow> int \<Rightarrow> planKey \<Rightarrow> taskdb \<Rightarrow> answer \<times> taskdb" where
  "tryCreateRollout env now ref db =
     (case GetPlan db [] (fst ref) (snd ref) of
        Inr (Some plan) \<Rightarrow>
          if plan_Deleted plan \<or> plan_HasRollout plan \<or> \<not> hasOnlyChangeDatabaseSpecs plan then (Ok (), db)
          else
            (case GetIssue db [] (fst ref) None (Some (snd ref)) of
               Inr (Some issue) \<Rightarrow>
                 if issue_Status issue = Issue_CANCELED then (Ok (), db)
                 else
                   (case GetProjectByResourceID db (plan_ProjectID plan) of
                      None \<Rightarrow> (Ok (), db)
                    | Some prj \<Rightarrow>
                        (case (CheckIssueApproved issue :: (rollout_reason, bool) outcome) of
                           Panic \<Rightarrow> (Panic, db)
                         | Err e \<Rightarrow> (Ok (), db)
                         | Ok approved \<Rightarrow>
                             if \<not> approved then (Ok (), db)
                             else
                               (case svc_plan_check env (plan_ProjectID plan) (snd ref) of
                                  Inl _ \<Rightarrow> (Ok (), db)
                                | Inr r \<Rightarrow>
                                    if \<not> plan_checks_pass r then (Ok (), db)
                                    else CreateRolloutAndPendingTasks env now plan (Some issue) prj None db)))
             | _ \<Rightarrow> (Ok (), db))
      | _ \<Rightarrow> (Ok (), db))"

end
