(* ===== verification/TaskRunSpec.thy ===== *)
theory TaskRunSpec
  imports TaskScheduler
begin

text \<open>
  The schedulers running side by side with the requests that create, cancel and skip: a step
  relation on the world, the round of the pending scheduler and the runs a replica has claimed.
  Every access to the tables is a step of its own, so the relation has every interleaving of them.
  The invariants: at most one release of a database is available or running, and a rollout runs no
  more tasks than its project allows.
\<close>

section \<open>Well-formed tables\<close>

definition run_key :: "run_row \<Rightarrow> string \<times> int" where
  "run_key r = (run_project r, run_id r)"

definition row_key :: "('a task_row_scheme) \<Rightarrow> string \<times> int" where
  "row_key t = (task_ProjectID t, task_ID t)"

text \<open>The primary keys, and the foreign key of \<^verbatim>\<open>task_run\<close>.\<close>

definition tables_ok :: "taskdb \<Rightarrow> bool" where
  "tables_ok db \<longleftrightarrow> distinct (map run_key (db_task_runs db)) \<and> distinct (map row_key (db_tasks db))
     \<and> (\<forall>r \<in> set (db_task_runs db). task_of_run db r \<noteq> None)"

definition is_active :: "run_row \<Rightarrow> bool" where
  "is_active r \<longleftrightarrow> run_status r = TaskRun_AVAILABLE \<or> run_status r = TaskRun_RUNNING"

text \<open>The database of a sequential task, as the key of the scheduler.\<close>

definition sequential_key :: "('a task_row_scheme) \<Rightarrow> string option" where
  "sequential_key t = (if isSequentialTask t then map_option (getDatabaseKey (task_InstanceID t)) (task_DatabaseName t) else None)"

definition plan_key :: "('a task_row_scheme) \<Rightarrow> planKey" where
  "plan_key t = (task_ProjectID t, task_PlanID t)"

definition run_sequential_key :: "taskdb \<Rightarrow> run_row \<Rightarrow> string option" where
  "run_sequential_key db r = Option.bind (task_of_run db r) sequential_key"

definition run_plan_key :: "taskdb \<Rightarrow> run_row \<Rightarrow> planKey option" where
  "run_plan_key db r = map_option plan_key (task_of_run db r)"

definition active_runs :: "taskdb \<Rightarrow> planKey \<Rightarrow> run_row list" where
  "active_runs db k = filter (\<lambda>r. is_active r \<and> run_plan_key db r = Some k) (db_task_runs db)"

lemma task_of_runI:
  "distinct (map row_key (db_tasks db)) \<Longrightarrow> t \<in> set (db_tasks db) \<Longrightarrow> row_key t = (run_project r, run_task_id r)
   \<Longrightarrow> task_of_run db r = Some t"
  using find_distinct_key [of row_key "db_tasks db" t] by (simp add: task_of_run_def row_key_def)

lemma task_of_runD:
  "task_of_run db r = Some t \<Longrightarrow> t \<in> set (db_tasks db) \<and> row_key t = (run_project r, run_task_id r)"
  using find_in [of _ "db_tasks db" t] by (auto simp: task_of_run_def row_key_def)


section \<open>Steps that make no run active\<close>

text \<open>
  From one state of the tables to a later one: each active run outside \<open>K\<close> was one before, for the
  same database and in the same plan; no run goes away or changes its task; the projects and their
  settings are the same.
\<close>

definition moves :: "(string \<times> int) set \<Rightarrow> taskdb \<Rightarrow> taskdb \<Rightarrow> bool" where
  "moves K db db' \<longleftrightarrow> (tables_ok db \<longrightarrow> tables_ok db' \<and> db_projects db' = db_projects db
     \<and> (\<forall>r' \<in> set (db_task_runs db'). is_active r' \<and> run_key r' \<notin> K \<longrightarrow>
          (\<exists>r \<in> set (db_task_runs db). is_active r \<and> run_key r = run_key r'
             \<and> run_sequential_key db r = run_sequential_key db' r' \<and> run_plan_key db r = run_plan_key db' r'))
     \<and> (\<forall>r \<in> set (db_task_runs db). \<exists>r' \<in> set (db_task_runs db'). run_key r' = run_key r \<and> run_task_id r' = run_task_id r))"

abbreviation quiet :: "taskdb \<Rightarrow> taskdb \<Rightarrow> bool" where
  "quiet \<equiv> moves {}"

lemma moves_refl [simp]: "moves K db db"
  by (auto simp: moves_def)

lemma quiet_moves: "quiet db1 db2 \<Longrightarrow> moves K db2 db3 \<Longrightarrow> moves K db1 db3"
  by (simp add: moves_def) metis

lemma quiet_trans [trans]: "quiet db1 db2 \<Longrightarrow> quiet db2 db3 \<Longrightarrow> quiet db1 db3"
  by (rule quiet_moves)

lemma quiet_same:
  "db_task_runs db' = db_task_runs db \<Longrightarrow> db_tasks db' = db_tasks db \<Longrightarrow> db_projects db' = db_projects db \<Longrightarrow> quiet db db'"
  by (auto simp: moves_def tables_ok_def task_of_run_def run_sequential_key_def run_plan_key_def)

text \<open>What the updates of runs leave alone.\<close>

definition keeps_keys :: "(run_row \<Rightarrow> run_row) \<Rightarrow> bool" where
  "keeps_keys f \<longleftrightarrow> (\<forall>r. run_id (f r) = run_id r \<and> run_project (f r) = run_project r \<and> run_task_id (f r) = run_task_id r)"

lemma update_runs_sel [simp]:
  "db_task_runs (update_runs sel f db) = map (updated sel f) (db_task_runs db)"
  "db_tasks (update_runs sel f db) = db_tasks db" "db_projects (update_runs sel f db) = db_projects db"
  "db_plans (update_runs sel f db) = db_plans db" "db_deliveries (update_runs sel f db) = db_deliveries db"
  "db_issues (update_runs sel f db) = db_issues db"
  by (simp_all add: update_runs_def)

lemma task_of_run_cong:
  "db_tasks db' = db_tasks db \<Longrightarrow> run_project r' = run_project r \<Longrightarrow> run_task_id r' = run_task_id r
   \<Longrightarrow> task_of_run db' r' = task_of_run db r"
  by (simp add: task_of_run_def)

lemma updated_keys [simp]:
  assumes "keeps_keys f"
  shows "run_key (updated sel f r) = run_key r" "task_of_run (update_runs sel f db) (updated sel f r) = task_of_run db r"
  using assms by (auto simp: keeps_keys_def run_key_def updated_def task_of_run_def)

lemma updated_run_keys [simp]:
  assumes "keeps_keys f"
  shows "run_sequential_key (update_runs sel f db) (updated sel f r) = run_sequential_key db r"
    "run_plan_key (update_runs sel f db) (updated sel f r) = run_plan_key db r"
  using assms by (simp_all add: run_sequential_key_def run_plan_key_def)

lemma tables_ok_update_runs: "keeps_keys f \<Longrightarrow> tables_ok db \<Longrightarrow> tables_ok (update_runs sel f db)"
  by (simp add: tables_ok_def comp_def)

lemma moves_update_runs:
  assumes "keeps_keys f" and "\<And>r. sel r \<Longrightarrow> is_active (f r) \<Longrightarrow> is_active r \<or> run_key r \<in> K"
  shows "moves K db (update_runs sel f db)"
proof -
  have "is_active r" if "is_active (updated sel f r)" "run_key (updated sel f r) \<notin> K" for r
    using that assms by (auto simp: updated_def run_key_def keeps_keys_def split: if_splits)
  moreover have "run_task_id (updated sel f r) = run_task_id r" for r
    using assms(1) by (simp add: updated_def keeps_keys_def)
  ultimately show ?thesis
    using assms(1) tables_ok_update_runs [OF assms(1)] by (auto simp: moves_def)
qed

lemma quiet_update_runs:
  "keeps_keys f \<Longrightarrow> (\<And>r. sel r \<Longrightarrow> is_active (f r) \<Longrightarrow> is_active r) \<Longrightarrow> quiet db (update_runs sel f db)"
  by (rule moves_update_runs) auto

text \<open>Updates of tasks that keep what the scheduler reads of them.\<close>

lemma quiet_update_tasks:
  assumes "\<And>t. row_key (f t) = row_key t" "\<And>t. sequential_key (f t) = sequential_key t" "\<And>t. plan_key (f t) = plan_key t"
  shows "quiet db (db\<lparr>db_tasks := map f (db_tasks db)\<rparr>)"
proof -
  have same: "task_of_run (db\<lparr>db_tasks := map f (db_tasks db)\<rparr>) r = map_option f (task_of_run db r)" for r
    unfolding task_of_run_def
    by simp (rule find_map_same, use assms(1) in \<open>auto simp: row_key_def prod_eq_iff\<close>)
  have keys: "map (row_key \<circ> f) ts = map row_key ts" for ts using assms(1) by simp
  have "run_sequential_key (db\<lparr>db_tasks := map f (db_tasks db)\<rparr>) r = run_sequential_key db r"
    "run_plan_key (db\<lparr>db_tasks := map f (db_tasks db)\<rparr>) r = run_plan_key db r" for r
    using assms(2, 3) by (cases "task_of_run db r"; simp add: run_sequential_key_def run_plan_key_def same)+
  then show ?thesis
    by (auto simp: moves_def tables_ok_def same keys)
qed

text \<open>New tasks, and new runs that are pending.\<close>

lemma quiet_insert_task:
  assumes "insert_task t db = Inr db'"
  shows "quiet db db'"
proof -
  have db': "db' = db\<lparr>db_tasks := db_tasks db @ [t]\<rparr>" and new: "row_key t \<notin> row_key ` set (db_tasks db)"
    using assms by (auto simp: insert_task_def row_key_def list_ex_iff split: if_splits)
  have "task_of_run db' r = task_of_run db r" if "task_of_run db r \<noteq> None" for r
    using that by (auto simp: db' task_of_run_def find_append)
  then show ?thesis
    using new by (force simp: moves_def tables_ok_def db' run_sequential_key_def run_plan_key_def)
qed

lemma quiet_insert_run:
  assumes "insert_run r db = Inr db'" "\<not> is_active r"
  shows "quiet db db'"
proof (cases "db' = db")
  case False
  then have db': "db' = db\<lparr>db_task_runs := db_task_runs db @ [r]\<rparr>" and new: "run_key r \<notin> run_key ` set (db_task_runs db)"
    and tk: "\<exists>t \<in> set (db_tasks db). task_ProjectID t = run_project r \<and> task_ID t = run_task_id r"
    using assms by (auto simp: insert_run_def run_key_def list_ex_iff split: if_splits)
  have same: "task_of_run db' q = task_of_run db q" for q by (simp add: db' task_of_run_def)
  have "task_of_run db r \<noteq> None" using tk by (auto simp: task_of_run_def find_None_iff)
  then show ?thesis
    using new assms(2)
    by (auto simp: moves_def tables_ok_def same run_sequential_key_def run_plan_key_def) (auto simp: db')
qed simp


subsection \<open>The operations of the store\<close>

named_theorems quiet_ops "operations that make no run active"

lemma quiet_insert_tasks: "insert_tasks ts db = Inr db' \<Longrightarrow> quiet db db'"
  by (induction ts arbitrary: db) (auto simp: bind_sum_Inr_iff intro: quiet_trans quiet_insert_task)

lemma quiet_insert_runs: "insert_runs rs db = Inr db' \<Longrightarrow> \<forall>r \<in> set rs. \<not> is_active r \<Longrightarrow> quiet db db'"
  by (induction rs arbitrary: db) (auto simp: bind_sum_Inr_iff intro: quiet_trans quiet_insert_run)

lemma quiet_CreateTasks [quiet_ops]: "quiet db (snd (CreateTasks p pl ts db))"
  by (auto simp: CreateTasks_def createTasksTx_def Let_def bind_sum_def split: sum.splits prod.splits if_splits
      dest: quiet_insert_tasks)

lemma quiet_CreatePendingTaskRuns [quiet_ops]: "quiet db (snd (CreatePendingTaskRuns now c cs db))"
  by (auto simp: CreatePendingTaskRuns_def Let_def pending_row_def is_active_def split: sum.splits dest!: quiet_insert_runs)

lemma quiet_BatchSkipTasks [quiet_ops]: "quiet db (store_BatchSkipTasks p uids reason db)"
  unfolding store_BatchSkipTasks_def
  by (rule quiet_update_tasks) (auto simp: row_key_def sequential_key_def plan_key_def isSequentialTask_def GetRelease_def
      split: Task_Type.splits)

lemma quiet_UpdateTaskRunStatus [quiet_ops]:
  assumes "patch_Status patch \<noteq> TaskRun_AVAILABLE" "patch_Status patch \<noteq> TaskRun_RUNNING"
  shows "quiet db (snd (UpdateTaskRunStatus now patch db))"
  using assms
  by (auto simp: UpdateTaskRunStatus_def patchTaskRunStatusImpl_def Let_def is_active_def keeps_keys_def
      split: sum.splits option.splits if_splits intro!: quiet_update_runs)

lemma quiet_Claim [quiet_ops]: "quiet db (snd (ClaimAvailableTaskRuns now locked rep db))"
  by (auto simp: ClaimAvailableTaskRuns_def Let_def is_active_def keeps_keys_def intro!: quiet_update_runs)

lemma quiet_StartAt [quiet_ops]: "quiet db (snd (UpdateTaskRunStartAt now p i db))"
  by (auto simp: UpdateTaskRunStartAt_def is_active_def keeps_keys_def split: option.splits intro!: quiet_update_runs)

lemma quiet_AssignedNode [quiet_ops]: "quiet db (snd (UpdateTaskRunAssignedNode now i node db))"
  by (auto simp: UpdateTaskRunAssignedNode_def is_active_def keeps_keys_def intro!: quiet_update_runs)

lemma quiet_Payload [quiet_ops]: "quiet db (UpdateTaskRunPayload now p i pay db)"
  by (auto simp: UpdateTaskRunPayload_def is_active_def keeps_keys_def intro!: quiet_update_runs)

lemma quiet_BatchCancel [quiet_ops]: "quiet db (store_BatchCancelTaskRuns now p ids db)"
  by (auto simp: store_BatchCancelTaskRuns_def is_active_def keeps_keys_def intro!: quiet_update_runs)

lemma quiet_FailStale [quiet_ops]: "quiet db (snd (FailStaleTaskRuns now threshold db))"
  by (auto simp: FailStaleTaskRuns_def is_active_def keeps_keys_def intro!: quiet_update_runs)

lemma quiet_claim_delivery [quiet_ops]: "quiet db (snd (claim_delivery ev p pl db))"
  by (auto simp: claim_delivery_def intro: quiet_same)

lemma quiet_Reset [quiet_ops]: "quiet db (ResetPlanWebhookDelivery p pl db)"
  by (auto simp: ResetPlanWebhookDelivery_def intro: quiet_same)

lemma quiet_UpdateIssue [quiet_ops]: "quiet db (snd (UpdateIssue_status p u st db))"
  by (auto simp: UpdateIssue_status_def Let_def split: sum.splits intro: quiet_same)

lemma quiet_UpdatePlan [quiet_ops]: "quiet db (snd (UpdatePlan_hasRollout p u db))"
  by (auto simp: UpdatePlan_hasRollout_def intro: quiet_same)

lemma quiet_autoResolveIssue [quiet_ops]: "quiet db (autoResolveIssue p pl db)"
  by (auto simp: autoResolveIssue_def quiet_ops split: sum.splits option.splits)

subsection \<open>The operations of the schedulers\<close>

lemma quiet_snd: "quiet db (snd x) \<Longrightarrow> x = (a, db') \<Longrightarrow> quiet db db'"
  by simp

lemma quiet_recover_run [quiet_ops]: "quiet db (recover_run now orphan db)"
  using quiet_UpdateTaskRunStatus [of "\<lparr>patch_ID = fst orphan, patch_ProjectID = snd orphan, patch_Status = TaskRun_PENDING,
              patch_ResultProto = Some recovered_result\<rparr>" db now]
  by (auto simp: recover_run_def split: prod.splits sum.splits intro: quiet_trans quiet_AssignedNode)

lemma quiet_fail_for_HA [quiet_ops]: "quiet db (snd (fail_for_HA now e tr (af, db)))"
  using quiet_UpdateTaskRunStatus [of "\<lparr>patch_ID = tr_ID tr, patch_ProjectID = tr_ProjectID tr, patch_Status = TaskRun_FAILED,
                patch_ResultProto = Some (empty_result\<lparr>result_Detail := e\<rparr>)\<rparr>" db now]
  by (auto simp: fail_for_HA_def Let_def split: prod.splits sum.splits)

lemma quiet_notify_failure [quiet_ops]: "quiet (w_db w) (w_db (notify_failure k e w))"
  using quiet_claim_delivery [of "w_db w" PIPELINE_FAILED "fst k" "snd k"]
  by (auto simp: notify_failure_def ClaimPipelineFailureNotification_def Let_def
      split: prod.splits sum.splits option.splits bool.splits)

lemma quiet_checkPlanCompletion [quiet_ops]: "quiet (w_db w) (w_db (checkPlanCompletion k w))"
  using quiet_claim_delivery [of "w_db w" PIPELINE_COMPLETED "fst k" "snd k"]
  by (auto simp: checkPlanCompletion_def ClaimPipelineCompletionNotification_def Let_def
      split: prod.splits sum.splits option.splits bool.splits intro: quiet_trans quiet_autoResolveIssue)

lemma quiet_runTaskRunOnce [quiet_ops]: "quiet (w_db w) (w_db (runTaskRunOnce now ret e w))"
proof -
  obtain st res where st: "finish_status (RunExecutorOnce ret) = (st, res)" by (cases "finish_status (RunExecutorOnce ret)")
  have "st \<noteq> TaskRun_AVAILABLE" "st \<noteq> TaskRun_RUNNING"
    using st by (auto simp: finish_status_def split: executor_return.splits if_splits)
  then have "quiet (w_db w) (snd (UpdateTaskRunStatus now \<lparr>patch_ID = exec_RunUID e,
      patch_ProjectID = task_ProjectID (exec_Task e), patch_Status = st, patch_ResultProto = Some res\<rparr> (w_db w)))"
    by (intro quiet_UpdateTaskRunStatus) simp_all
  moreover obtain a db1 where upd: "UpdateTaskRunStatus now \<lparr>patch_ID = exec_RunUID e,
      patch_ProjectID = task_ProjectID (exec_Task e), patch_Status = st, patch_ResultProto = Some res\<rparr> (w_db w) = (a, db1)"
    by (metis surj_pair)
  ultimately have db1: "quiet (w_db w) db1" by simp
  have "quiet (w_db w) (w_db (notify_failure k env (w\<lparr>w_db := db1\<rparr>)))" for k env
    using quiet_trans [OF db1] quiet_notify_failure [of "w\<lparr>w_db := db1\<rparr>"] by simp
  with db1 show ?thesis
    by (simp add: runTaskRunOnce_def st upd Let_def split: sum.splits TaskRun_Status.splits)
qed

lemma quiet_executeTaskRun [quiet_ops]: "quiet (w_db w) (w_db (snd (executeTaskRun env et now c w)))"
proof -
  have fail: "quiet db db1" if "UpdateTaskRunStatus now \<lparr>patch_ID = i, patch_ProjectID = p, patch_Status = TaskRun_FAILED,
      patch_ResultProto = res\<rparr> db = (a, db1)" for db db1 a i p res
    using quiet_UpdateTaskRunStatus [of "\<lparr>patch_ID = i, patch_ProjectID = p, patch_Status = TaskRun_FAILED,
      patch_ResultProto = res\<rparr>" db now] that by simp
  show ?thesis
    by (auto simp: executeTaskRun_def split: prod.splits sum.splits option.splits
        dest!: fail quiet_snd [OF quiet_StartAt] quiet_snd [OF quiet_AssignedNode] intro: quiet_trans)
qed


section \<open>What a round knows\<close>

definition known :: "schedulingContext \<Rightarrow> string \<Rightarrow> bool" where
  "known sc k \<longleftrightarrow> promotedDBs sc k \<or> activeByDatabase sc k \<noteq> None"

definition counted :: "schedulingContext \<Rightarrow> planKey \<Rightarrow> int" where
  "counted sc k = activeCountByPlan sc k + promotedCounts sc k"

text \<open>The context covers the tables: every active run is known and counted.\<close>

definition covers :: "schedulingContext \<Rightarrow> taskdb \<Rightarrow> bool" where
  "covers sc db \<longleftrightarrow>
     (\<forall>r \<in> set (db_task_runs db). \<forall>k. is_active r \<and> run_sequential_key db r = Some k \<longrightarrow> known sc k)
     \<and> (\<forall>k. int (length (active_runs db k)) \<le> counted sc k)"

lemma known_counted_empty [simp]: "\<not> known empty_context k" "counted empty_context pk = 0"
  by (simp_all add: known_def counted_def empty_context_def)

lemma checkDatabaseMutualExclusion_iff:
  "fst (checkDatabaseMutualExclusion sc t) \<longleftrightarrow> (case sequential_key t of None \<Rightarrow> True | Some k \<Rightarrow> \<not> known sc k)"
  by (auto simp: checkDatabaseMutualExclusion_def sequential_key_def known_def Let_def split: option.splits)

lemma known_index_task: "known (index_task t sc) k \<longleftrightarrow> known sc k \<or> sequential_key t = Some k"
  by (auto simp: index_task_def known_def sequential_key_def Let_def split: option.splits)

lemma counted_index_task: "counted (index_task t sc) k = counted sc k + (if plan_key t = k then 1 else 0)"
  by (auto simp: index_task_def counted_def plan_key_def Let_def split: option.splits)

lemma known_markPromoted: "known (markPromoted t sc) k \<longleftrightarrow> known sc k \<or> sequential_key t = Some k"
  by (auto simp: markPromoted_def known_def sequential_key_def Let_def split: option.splits)

lemma counted_markPromoted: "counted (markPromoted t sc) k = counted sc k + (if plan_key t = k then 1 else 0)"
  by (auto simp: markPromoted_def counted_def plan_key_def Let_def split: option.splits)

lemma checkParallelLimit_iff: "checkParallelLimit sc t m \<longleftrightarrow> (0 < m \<longrightarrow> counted sc (plan_key t) < m)"
  by (auto simp: checkParallelLimit_def counted_def plan_key_def Let_def)

text \<open>The indexes built over the active runs.\<close>

definition index_runs :: "('r \<Rightarrow> TaskMessage option) \<Rightarrow> schedulingContext \<Rightarrow> 'r list \<Rightarrow> schedulingContext" where
  "index_runs g = foldl (\<lambda>sc tr. case g tr of None \<Rightarrow> sc | Some t \<Rightarrow> index_task t sc)"

lemma index_runs_simps [simp]:
  "index_runs g sc [] = sc"
  "index_runs g sc (tr # trs) = index_runs g (case g tr of None \<Rightarrow> sc | Some t \<Rightarrow> index_task t sc) trs"
  by (simp_all add: index_runs_def)

lemma known_index_runs:
  "known (index_runs g sc trs) k \<longleftrightarrow> known sc k \<or> (\<exists>tr \<in> set trs. Option.bind (g tr) sequential_key = Some k)"
  by (induction trs arbitrary: sc) (auto simp: known_index_task split: option.splits)

lemma counted_index_runs:
  "counted (index_runs g sc trs) k = counted sc k + int (length (filter (\<lambda>tr. map_option plan_key (g tr) = Some k) trs))"
  by (induction trs arbitrary: sc) (auto simp: counted_index_task split: option.splits)

lemma sequential_plan_message [simp]:
  "sequential_key (task_message db t) = sequential_key t" "plan_key (task_message db t) = plan_key t"
  "row_key (task_message db t) = row_key t"
  by (simp_all add: task_message_def sequential_key_def plan_key_def row_key_def isSequentialTask_def task_row.defs
      split: option.splits Task_Type.splits)


lemma taskByKey_active:
  assumes ok: "tables_ok db" and t: "task_of_run db r = Some t"
    and tr: "tr \<in> set active" "tr_ProjectID tr = run_project r" "tr_TaskUID tr = run_task_id r"
  shows "taskByKey db active (run_project r, run_task_id r) = Some (task_message db t)"
proof -
  let ?ids = "map tr_TaskUID (filter (\<lambda>tr. tr_ProjectID tr = run_project r) active)"
  let ?fd = "(task_find (run_project r))\<lparr>tf_IDs := Some ?ids\<rparr>"
  have ids: "?ids \<noteq> []" and id_in: "run_task_id r \<in> set ?ids" using tr by (force simp: filter_empty_conv)+
  have tt: "t \<in> set (db_tasks db)" "row_key t = (run_project r, run_task_id r)"
    using task_of_runD [OF t] by auto
  then have mem: "task_message db t \<in> set (rev (ListTasks db ?fd))"
    using id_in by (simp add: ListTasks_def task_matches_def in_workspace_def given_def row_key_def)
  have "map row_key (ListTasks db ?fd) = map row_key (sort_key task_ID (filter (task_matches db ?fd) (db_tasks db)))"
    by (simp add: ListTasks_def comp_def)
  then have "distinct (map row_key (rev (ListTasks db ?fd)))"
    using ok distinct_map_sort_filter [of row_key "db_tasks db"] by (simp add: tables_ok_def rev_map [symmetric])
  from find_distinct_key [OF this mem] have
    "find (\<lambda>x. row_key x = (run_project r, run_task_id r)) (rev (ListTasks db ?fd)) = Some (task_message db t)"
    using tt by simp
  then show ?thesis using ids by (simp add: taskByKey_def Let_def row_key_def)
qed

lemma run_messageD:
  "run_message db r = Some tr \<Longrightarrow> tr_ProjectID tr = run_project r \<and> tr_TaskUID tr = run_task_id r \<and> tr_ID tr = run_id r
     \<and> tr_Status tr = run_status r \<and> tr_RunAt tr = run_run_at r"
  by (auto simp: run_message_def)

lemma plan_key_of_message: "map_option plan_key (map_option (task_message db) x) = map_option plan_key x"
  by (cases x) simp_all

lemma newSchedulingContext_covers:
  assumes ok: "tables_ok db" and sc: "newSchedulingContext db = Inr sc"
  shows "covers sc db"
proof -
  let ?rows = "sort_key run_id (filter (\<lambda>r. run_status r \<in> set [TaskRun_AVAILABLE, TaskRun_RUNNING]) (db_task_runs db))"
  obtain active where act: "map_panic (run_message db) ?rows = Some active"
    and sc: "sc = index_runs (\<lambda>tr. taskByKey db active (tr_ProjectID tr, tr_TaskUID tr)) empty_context active"
    using sc by (auto simp: newSchedulingContext_def bind_sum_Inr_iff ListTaskRunsByStatus_def require_Inr_iff index_runs_def)
  let ?g = "\<lambda>tr. taskByKey db active (tr_ProjectID tr, tr_TaskUID tr)"
  have "?g tr = map_option (task_message db) (task_of_run db r)" if r: "r \<in> set ?rows" "run_message db r = Some tr" for r tr
  proof -
    obtain t where t: "task_of_run db r = Some t" using r ok by (auto simp: tables_ok_def)
    have "tr \<in> set active" by (rule map_panic_mem [OF act r])
    then show ?thesis using taskByKey_active [OF ok t] run_messageD [OF r(2)] t by simp
  qed
  then have g: "map ?g active = map (\<lambda>r. map_option (task_message db) (task_of_run db r)) ?rows"
    by (intro map_panic_Some_map [OF act]) auto
  have rows: "set ?rows = {r \<in> set (db_task_runs db). is_active r}" by (auto simp: is_active_def)
  have k: "known sc k \<longleftrightarrow> (\<exists>r \<in> set ?rows. run_sequential_key db r = Some k)" for k
  proof -
    have "known sc k \<longleftrightarrow> (\<exists>x \<in> set (map ?g active). Option.bind x sequential_key = Some k)"
      by (simp add: sc known_index_runs)
    also have "\<dots> \<longleftrightarrow> (\<exists>r \<in> set ?rows. run_sequential_key db r = Some k)"
      unfolding g by (auto simp: run_sequential_key_def bind_map_option comp_def)
    finally show ?thesis .
  qed
  have c: "counted sc k = int (length (active_runs db k))" for k
  proof -
    have "counted sc k = int (length (filter (\<lambda>x. map_option plan_key x = Some k) (map ?g active)))"
      by (simp add: sc counted_index_runs filter_map comp_def)
    also have "\<dots> = int (length (filter (\<lambda>r. run_plan_key db r = Some k) ?rows))"
      unfolding g length_filter_map by (simp only: run_plan_key_def plan_key_of_message)
    also have "\<dots> = int (length (active_runs db k))"
      by (simp only: length_filter_sort_key filter_filter active_runs_def) (simp add: is_active_def conj_commute)
    finally show ?thesis .
  qed
  show ?thesis
    using k c rows by (auto simp: covers_def)
qed


section \<open>Promotion\<close>

lemma at_most_one_SomeD: "at_most_one err xs = Inr (Some x) \<Longrightarrow> xs = [x]"
  by (auto simp: at_most_one_def split: list.splits)

lemma GetTaskByID_SomeD:
  assumes "GetTaskByID db p i = Inr (Some t)"
  obtains t0 where "t0 \<in> set (db_tasks db)" "row_key t0 = (p, i)" "t = task_message db t0"
proof -
  have "t \<in> set (ListTasks db ((task_find p)\<lparr>tf_ID := Some i\<rparr>))"
    using assms by (auto simp: GetTaskByID_def bind_sum_Inr_iff dest: at_most_one_SomeD)
  then show thesis
    using that by (auto simp: ListTasks_def task_matches_def given_def row_key_def)
qed

lemma getMaxParallelForTask_InrD:
  assumes "getMaxParallelForTask db t = Inr m"
  obtains prj where "GetProjectByResourceID db (task_ProjectID t) = Some prj" "m = project_ParallelTasksPerRollout prj"
proof -
  from assms obtain plan where plan: "GetPlan db [] (task_ProjectID t) (task_PlanID t) = Inr (Some plan)"
    and prj: "map_option project_ParallelTasksPerRollout (GetProjectByResourceID db (plan_ProjectID plan)) = Some m"
    by (auto simp: getMaxParallelForTask_def from_store_def bind_sum_Inr_iff require_Inr_iff wrap_error_Inr_iff)
  have "plan \<in> set (ListPlans_uid db [] (task_ProjectID t) (task_PlanID t))"
    using plan by (auto simp: GetPlan_def bind_sum_Inr_iff dest: at_most_one_SomeD)
  then have "plan_ProjectID plan = task_ProjectID t" by (auto simp: ListPlans_uid_def)
  then show thesis using prj that by auto
qed

text \<open>The run of a message in the tables.\<close>

definition listed :: "taskdb \<Rightarrow> TaskRunMessage \<Rightarrow> bool" where
  "listed db tr \<longleftrightarrow> (\<exists>r \<in> set (db_task_runs db). run_key r = (tr_ProjectID tr, tr_ID tr) \<and> run_task_id r = tr_TaskUID tr)"

lemma listed_moves: "moves K db db' \<Longrightarrow> tables_ok db \<Longrightarrow> listed db tr \<Longrightarrow> listed db' tr"
  by (auto simp: listed_def moves_def) metis

lemma run_key_inj: "tables_ok db \<Longrightarrow> r \<in> set (db_task_runs db) \<Longrightarrow> r' \<in> set (db_task_runs db) \<Longrightarrow> run_key r = run_key r' \<Longrightarrow> r = r'"
  by (auto simp: tables_ok_def distinct_map inj_on_def)

lemma promoteTaskRun_cases:
  assumes "promoteTaskRun now tr db = (res, db')"
  shows "(\<exists>e. res = Inl e \<and> quiet db db') \<or> (res = Inr () \<and> moves {(tr_ProjectID tr, tr_ID tr)} db db' \<and> db_tasks db' = db_tasks db)"
proof -
  let ?db1 = "UpdateTaskRunPayload now (tr_ProjectID tr) (tr_ID tr) empty_payload db"
  let ?f = "\<lambda>r. r\<lparr>run_updated_at := now, run_status := TaskRun_AVAILABLE\<rparr>"
  have q: "quiet db ?db1" by (rule quiet_Payload)
  have m: "moves {(tr_ProjectID tr, tr_ID tr)} ?db1 (update_runs (is_run (tr_ProjectID tr) (tr_ID tr)) ?f ?db1)"
    by (rule moves_update_runs) (auto simp: keeps_keys_def is_run_def run_key_def)
  show ?thesis
    using assms q quiet_moves [OF q m]
    by (auto simp: promoteTaskRun_def UpdateTaskRunStatus_def patchTaskRunStatusImpl_def Let_def UpdateTaskRunPayload_def
        split: prod.splits sum.splits option.splits if_splits)
qed

lemma schedulePendingTaskRun_promotes:
  assumes "schedulePendingTaskRun now tr (sc, db) = (res, sc', db')"
  shows "(quiet db db' \<and> sc' = sc)
    \<or> (\<exists>t m. GetTaskByID db (tr_ProjectID tr) (tr_TaskUID tr) = Inr (Some t) \<and> fst (checkDatabaseMutualExclusion sc t)
         \<and> getMaxParallelForTask db t = Inr m \<and> checkParallelLimit sc t m
         \<and> promoteTaskRun now tr db = (Inr (), db') \<and> sc' = markPromoted t sc)"
proof (cases "GetTaskByID db (tr_ProjectID tr) (tr_TaskUID tr)")
  case (Inr task)
  have cause: "quiet db (storeParallelLimitCause now p i db)" for p i
    by (simp add: storeParallelLimitCause_def quiet_ops)
  show ?thesis
  proof (cases "(case tr_RunAt tr of None \<Rightarrow> False | Some t \<Rightarrow> now < t) \<or> task = None")
    case False
    then obtain t where t: "task = Some t" "\<not> (case tr_RunAt tr of None \<Rightarrow> False | Some t \<Rightarrow> now < t)" by auto
    obtain pr db1 where pr: "promoteTaskRun now tr db = (pr, db1)" by fastforce
    show ?thesis
      using assms Inr t cause promoteTaskRun_cases [OF pr]
      by (auto simp: schedulePendingTaskRun_def pr split: sum.splits if_splits)
  qed (use assms Inr in \<open>auto simp: schedulePendingTaskRun_def split: option.splits if_splits\<close>)
qed (use assms in \<open>simp add: schedulePendingTaskRun_def\<close>)

text \<open>
  A run is promoted only when its database is not known, the limit leaves room, and the context
  takes note of it.
\<close>

lemma schedulePendingTaskRun_cases:
  assumes step: "schedulePendingTaskRun now tr (sc, db) = (res, sc', db')" and ok: "tables_ok db" and l: "listed db tr"
  shows "(quiet db db' \<and> sc' = sc)
    \<or> (\<exists>t0 prj. moves {(tr_ProjectID tr, tr_ID tr)} db db'
         \<and> (\<forall>r \<in> set (db_task_runs db'). run_key r = (tr_ProjectID tr, tr_ID tr) \<longrightarrow> task_of_run db' r = Some t0)
         \<and> sc' = markPromoted (task_message db t0) sc
         \<and> (\<forall>k. sequential_key t0 = Some k \<longrightarrow> \<not> known sc k)
         \<and> GetProjectByResourceID db (fst (plan_key t0)) = Some prj
         \<and> (0 < project_ParallelTasksPerRollout prj \<longrightarrow> counted sc (plan_key t0) < project_ParallelTasksPerRollout prj))"
    (is "?same \<or> ?promoted")
proof (rule disjCI)
  assume "\<not> ?promoted"
  show ?same
  proof (rule ccontr)
    assume nsame: "\<not> ?same"
    with schedulePendingTaskRun_promotes [OF step] obtain t m
      where t: "GetTaskByID db (tr_ProjectID tr) (tr_TaskUID tr) = Inr (Some t)"
        and ex: "fst (checkDatabaseMutualExclusion sc t)" and m: "getMaxParallelForTask db t = Inr m"
        and lim: "checkParallelLimit sc t m" and pr: "promoteTaskRun now tr db = (Inr (), db')" and sc': "sc' = markPromoted t sc"
      by blast
    obtain t0 where t0: "t0 \<in> set (db_tasks db)" "row_key t0 = (tr_ProjectID tr, tr_TaskUID tr)" "t = task_message db t0"
      using t by (rule GetTaskByID_SomeD)
    obtain prj where prj: "GetProjectByResourceID db (task_ProjectID t) = Some prj" "m = project_ParallelTasksPerRollout prj"
      using m by (rule getMaxParallelForTask_InrD)
    have mv: "moves {(tr_ProjectID tr, tr_ID tr)} db db'" "db_tasks db' = db_tasks db"
      using promoteTaskRun_cases [OF pr] by auto
    have "task_of_run db' r = Some t0" if "r \<in> set (db_task_runs db')" "run_key r = (tr_ProjectID tr, tr_ID tr)" for r
    proof (rule task_of_runI)
      show "distinct (map row_key (db_tasks db'))" "t0 \<in> set (db_tasks db')" using ok t0 mv(2) by (auto simp: tables_ok_def)
      have "listed db' tr" by (rule listed_moves [OF mv(1) ok l])
      moreover have "tables_ok db'" using mv(1) ok by (simp add: moves_def)
      ultimately have "run_task_id r = tr_TaskUID tr"
        using that run_key_inj [of db'] by (metis listed_def)
      then show "row_key t0 = (run_project r, run_task_id r)" using t0 that by (simp add: run_key_def)
    qed
    moreover have "fst (plan_key t0) = task_ProjectID t" using t0 by (simp add: plan_key_def row_key_def task_message_def task_row.defs)
    ultimately have ?promoted
      using mv sc' ex lim prj t0(3)
      by (auto simp: checkDatabaseMutualExclusion_iff checkParallelLimit_iff split: option.splits intro!: exI [of _ t0])
    then show False using \<open>\<not> ?promoted\<close> by simp
  qed
qed


section \<open>Exclusion and limit\<close>

definition exclusive :: "taskdb \<Rightarrow> bool" where
  "exclusive db \<longleftrightarrow> (\<forall>r1 \<in> set (db_task_runs db). \<forall>r2 \<in> set (db_task_runs db). \<forall>k.
     is_active r1 \<and> is_active r2 \<and> run_sequential_key db r1 = Some k \<and> run_sequential_key db r2 = Some k
     \<longrightarrow> run_key r1 = run_key r2)"

definition within_limits :: "taskdb \<Rightarrow> bool" where
  "within_limits db \<longleftrightarrow> (\<forall>k prj. GetProjectByResourceID db (fst k) = Some prj \<longrightarrow> 0 < project_ParallelTasksPerRollout prj
     \<longrightarrow> int (length (active_runs db k)) \<le> project_ParallelTasksPerRollout prj)"

lemma exclusiveD:
  "exclusive db \<Longrightarrow> r1 \<in> set (db_task_runs db) \<Longrightarrow> r2 \<in> set (db_task_runs db) \<Longrightarrow> is_active r1 \<Longrightarrow> is_active r2
   \<Longrightarrow> run_sequential_key db r1 = run_sequential_key db r2 \<Longrightarrow> run_sequential_key db r2 \<noteq> None \<Longrightarrow> run_key r1 = run_key r2"
  unfolding exclusive_def by (metis option.exhaust)

lemma within_limitsD:
  "within_limits db \<Longrightarrow> GetProjectByResourceID db (fst k) = Some prj \<Longrightarrow> 0 < project_ParallelTasksPerRollout prj
   \<Longrightarrow> int (length (active_runs db k)) \<le> project_ParallelTasksPerRollout prj"
  by (simp only: within_limits_def)

lemma covers_count: "covers sc db \<Longrightarrow> int (length (active_runs db k)) \<le> counted sc k"
  by (simp only: covers_def)

lemma active_runs_card:
  assumes "tables_ok db"
  shows "length (active_runs db k) = card (run_key ` set (active_runs db k))"
proof -
  have "distinct (map run_key (active_runs db k))"
    using assms by (simp add: tables_ok_def active_runs_def distinct_map_filter)
  then show ?thesis by (metis distinct_card length_map set_map)
qed

lemma active_runs_moves:
  assumes "moves K db db'" "tables_ok db"
  shows "run_key ` set (active_runs db' k) \<subseteq> run_key ` set (active_runs db k)
     \<union> {run_key r | r. r \<in> set (db_task_runs db') \<and> run_key r \<in> K \<and> run_plan_key db' r = Some k}"
proof
  fix x assume "x \<in> run_key ` set (active_runs db' k)"
  then obtain r' where r': "x = run_key r'" "r' \<in> set (db_task_runs db')" "is_active r'" "run_plan_key db' r' = Some k"
    by (auto simp: active_runs_def)
  show "x \<in> run_key ` set (active_runs db k)
     \<union> {run_key r | r. r \<in> set (db_task_runs db') \<and> run_key r \<in> K \<and> run_plan_key db' r = Some k}"
  proof (cases "run_key r' \<in> K")
    case False
    then obtain r where r: "r \<in> set (db_task_runs db)" "is_active r" "run_key r = run_key r'" "run_plan_key db r = Some k"
      using assms r' by (auto simp: moves_def)
    then have "r \<in> set (active_runs db k)" by (simp add: active_runs_def)
    then have "run_key r \<in> run_key ` set (active_runs db k)" by (rule imageI)
    then show ?thesis by (simp add: r'(1) r(3))
  qed (use r' in auto)
qed

lemma active_count_quiet:
  assumes "quiet db db'" "tables_ok db"
  shows "length (active_runs db' k) \<le> length (active_runs db k)"
proof -
  have "tables_ok db'" using assms by (simp add: moves_def)
  moreover have "run_key ` set (active_runs db' k) \<subseteq> run_key ` set (active_runs db k)"
    using active_runs_moves [OF assms] by auto
  ultimately show ?thesis using assms(2) by (simp add: active_runs_card card_mono)
qed

lemma active_count_move:
  assumes mv: "moves {x} db db'" and ok: "tables_ok db"
    and pl: "\<forall>r \<in> set (db_task_runs db'). run_key r = x \<longrightarrow> run_plan_key db' r = Some k0"
  shows "length (active_runs db' k) \<le> length (active_runs db k) + (if k0 = k then 1 else 0)"
proof -
  let ?old = "run_key ` set (active_runs db k)"
  have "run_key ` set (active_runs db' k) \<subseteq> (if k0 = k then insert x ?old else ?old)"
    using active_runs_moves [OF mv ok, of k] pl by auto
  then have "card (run_key ` set (active_runs db' k)) \<le> card (if k0 = k then insert x ?old else ?old)"
    by (rule card_mono [rotated]) simp
  also have "\<dots> \<le> card ?old + (if k0 = k then 1 else 0)"
    by (simp add: card_insert_le_m1 card_insert_if)
  finally show ?thesis
    using mv ok by (simp add: active_runs_card moves_def)
qed

lemma quiet_invariants:
  assumes "quiet db db'" "tables_ok db"
  shows "exclusive db \<Longrightarrow> exclusive db'" "within_limits db \<Longrightarrow> within_limits db'" "covers sc db \<Longrightarrow> covers sc db'"
proof -
  have from_old: "\<exists>r \<in> set (db_task_runs db). is_active r \<and> run_key r = run_key r'
      \<and> run_sequential_key db r = run_sequential_key db' r'" if "r' \<in> set (db_task_runs db')" "is_active r'" for r'
    using assms that by (auto simp: moves_def)
  show "exclusive db'" if "exclusive db"
    unfolding exclusive_def
  proof (intro ballI allI impI)
    fix r1 r2 k assume r: "r1 \<in> set (db_task_runs db')" "r2 \<in> set (db_task_runs db')"
      "is_active r1 \<and> is_active r2 \<and> run_sequential_key db' r1 = Some k \<and> run_sequential_key db' r2 = Some k"
    obtain q1 q2 where "q1 \<in> set (db_task_runs db)" "is_active q1" "run_key q1 = run_key r1" "run_sequential_key db q1 = Some k"
      "q2 \<in> set (db_task_runs db)" "is_active q2" "run_key q2 = run_key r2" "run_sequential_key db q2 = Some k"
      using from_old [of r1] from_old [of r2] r by auto
    then show "run_key r1 = run_key r2" using that unfolding exclusive_def by metis
  qed
  show "within_limits db'" if "within_limits db"
    unfolding within_limits_def
  proof (intro allI impI)
    fix k :: planKey and prj assume prj: "GetProjectByResourceID db' (fst k) = Some prj" "0 < project_ParallelTasksPerRollout prj"
    have "GetProjectByResourceID db (fst k) = Some prj" using prj(1) assms by (simp add: GetProjectByResourceID_def moves_def)
    then show "int (length (active_runs db' k)) \<le> project_ParallelTasksPerRollout prj"
      using within_limitsD [OF that _ prj(2)] active_count_quiet [OF assms, of k] by fastforce
  qed
  show "covers sc db'" if "covers sc db"
    unfolding covers_def
  proof (intro conjI ballI allI impI)
    fix r' k assume r': "r' \<in> set (db_task_runs db')" "is_active r' \<and> run_sequential_key db' r' = Some k"
    then show "known sc k" using from_old [of r'] that by (auto simp: covers_def)
  next
    fix k show "int (length (active_runs db' k)) \<le> counted sc k"
      using covers_count [OF that, of k] active_count_quiet [OF assms, of k] by simp
  qed
qed


text \<open>The promotion of a run keeps all three.\<close>

lemma promotion_invariants:
  assumes mv: "moves {x} db db'" and ok: "tables_ok db"
    and t0: "\<forall>r \<in> set (db_task_runs db'). run_key r = x \<longrightarrow> task_of_run db' r = Some t0"
    and free: "\<forall>k. sequential_key t0 = Some k \<longrightarrow> \<not> known sc k"
    and prj: "GetProjectByResourceID db (fst (plan_key t0)) = Some prj"
    and lim: "0 < project_ParallelTasksPerRollout prj \<longrightarrow> counted sc (plan_key t0) < project_ParallelTasksPerRollout prj"
    and inv: "exclusive db" "within_limits db" "covers sc db"
  shows "exclusive db'" "within_limits db'" "covers (markPromoted (task_message db t0) sc) db'"
proof -
  have old: "\<exists>r \<in> set (db_task_runs db). is_active r \<and> run_key r = run_key r'
      \<and> run_sequential_key db r = run_sequential_key db' r'"
    if "r' \<in> set (db_task_runs db')" "is_active r'" "run_key r' \<noteq> x" for r'
    using mv ok that by (auto simp: moves_def)
  have other: "known sc k" if "r' \<in> set (db_task_runs db')" "is_active r'" "run_key r' \<noteq> x" "run_sequential_key db' r' = Some k" for r' k
    using old [OF that(1-3)] that(4) inv(3) by (auto simp: covers_def)
  have mine: "\<not> known sc k" if "r' \<in> set (db_task_runs db')" "run_key r' = x" "run_sequential_key db' r' = Some k" for r' k
    using that t0 free by (auto simp: run_sequential_key_def)
  have count: "length (active_runs db' k) \<le> length (active_runs db k) + (if plan_key t0 = k then 1 else 0)" for k
    by (rule active_count_move [OF mv ok]) (use t0 in \<open>simp add: run_plan_key_def\<close>)
  have counted: "int (length (active_runs db k)) \<le> counted sc k" for k by (rule covers_count [OF inv(3)])
  show "exclusive db'"
    unfolding exclusive_def
  proof (intro ballI allI impI)
    fix r1 r2 k assume r: "r1 \<in> set (db_task_runs db')" "r2 \<in> set (db_task_runs db')"
      "is_active r1 \<and> is_active r2 \<and> run_sequential_key db' r1 = Some k \<and> run_sequential_key db' r2 = Some k"
    show "run_key r1 = run_key r2"
    proof (cases "run_key r1 = x \<or> run_key r2 = x")
      case True
      then show ?thesis using r other [of r1 k] other [of r2 k] mine [of r1 k] mine [of r2 k] by metis
    next
      case False
      then obtain q1 q2 where "q1 \<in> set (db_task_runs db)" "is_active q1" "run_key q1 = run_key r1" "run_sequential_key db q1 = Some k"
        "q2 \<in> set (db_task_runs db)" "is_active q2" "run_key q2 = run_key r2" "run_sequential_key db q2 = Some k"
        using old [of r1] old [of r2] r by auto
      then show ?thesis using inv(1) unfolding exclusive_def by metis
    qed
  qed
  show "within_limits db'"
    unfolding within_limits_def
  proof (intro allI impI)
    fix k :: planKey and prj' assume prj': "GetProjectByResourceID db' (fst k) = Some prj'" "0 < project_ParallelTasksPerRollout prj'"
    have p': "GetProjectByResourceID db (fst k) = Some prj'" using prj'(1) mv ok by (simp add: GetProjectByResourceID_def moves_def)
    show "int (length (active_runs db' k)) \<le> project_ParallelTasksPerRollout prj'"
    proof (cases "plan_key t0 = k")
      case True
      then show ?thesis using p' prj lim prj'(2) counted [of k] count [of k] by auto
    next
      case False
      then show ?thesis using within_limitsD [OF inv(2) p' prj'(2)] count [of k] by simp
    qed
  qed
  show "covers (markPromoted (task_message db t0) sc) db'"
    unfolding covers_def
  proof (intro conjI ballI allI impI)
    fix r' k assume r': "r' \<in> set (db_task_runs db')" "is_active r' \<and> run_sequential_key db' r' = Some k"
    show "known (markPromoted (task_message db t0) sc) k"
    proof (cases "run_key r' = x")
      case True
      then show ?thesis using r' t0 by (simp add: known_markPromoted run_sequential_key_def)
    qed (use r' other in \<open>simp add: known_markPromoted\<close>)
  next
    fix k show "int (length (active_runs db' k)) \<le> counted (markPromoted (task_message db t0) sc) k"
      using counted [of k] count [of k] by (auto simp: counted_markPromoted)
  qed
qed


section \<open>The schedulers and the requests, interleaved\<close>

text \<open>
  The round of the pending scheduler: outside, after the list of the pending runs, and after the
  context was built.  The advisory lock lets one replica at a time be inside; the lock is held until
  the round ends.
\<close>

datatype round = Outside | Listed "TaskRunMessage list" | Scheduling "TaskRunMessage list" schedulingContext

type_synonym system = "world \<times> round \<times> ClaimedTaskRun list"

text \<open>
  The steps.  Loops over many runs (claimed runs, licence failures, orphans) are one step a run, for
  any run; whatever waits may be lost with its replica.
\<close>

inductive sched_step :: "system \<Rightarrow> system \<Rightarrow> bool" where
  round_list: "ListTaskRunsByStatus (w_db w) [TaskRun_PENDING] = Inr trs \<Longrightarrow> sched_step (w, Outside, cl) (w, Listed trs, cl)"
| round_context: "newSchedulingContext (w_db w) = Inr sc \<Longrightarrow> sched_step (w, Listed trs, cl) (w, Scheduling trs sc, cl)"
| round_one: "schedulePendingTaskRun now tr (sc, w_db w) = (res, sc1, db1)
    \<Longrightarrow> sched_step (w, Scheduling (tr # trs) sc, cl) (w\<lparr>w_db := db1\<rparr>, Scheduling trs sc1, cl)"
| round_end: "sched_step (w, rd, cl) (w, Outside, cl)"
| claim: "sched_step (w, rd, cl) (w\<lparr>w_db := snd (ClaimAvailableTaskRuns now locked rep (w_db w))\<rparr>, rd,
    cl @ fst (ClaimAvailableTaskRuns now locked rep (w_db w)))"
| execute: "sched_step (w, rd, before @ c # after) (snd (executeTaskRun env et now c w), rd, before @ after)"
| finish: "w_executing w = before @ e # after
    \<Longrightarrow> sched_step (w, rd, cl) (runTaskRunOnce now ret e (w\<lparr>w_executing := before @ after\<rparr>), rd, cl)"
| complete: "w_completion w = before @ k # after
    \<Longrightarrow> sched_step (w, rd, cl) (checkPlanCompletion k (w\<lparr>w_completion := before @ after\<rparr>), rd, cl)"
| replica_dies: "set ex \<subseteq> set (w_executing w) \<Longrightarrow> set cm \<subseteq> set (w_completion w) \<Longrightarrow> set cl' \<subseteq> set cl
    \<Longrightarrow> sched_step (w, rd, cl) (w\<lparr>w_executing := ex, w_completion := cm\<rparr>, rd, cl')"
| create_tasks: "sched_step (w, rd, cl) (w\<lparr>w_db := snd (CreateTasks p planUID ts (w_db w))\<rparr>, rd, cl)"
| create_runs: "sched_step (w, rd, cl) (w\<lparr>w_db := snd (CreatePendingTaskRuns now creator creates (w_db w))\<rparr>, rd, cl)"
| skip: "sched_step (w, rd, cl)
    (w\<lparr>w_db := store_BatchSkipTasks p uids reason (w_db w), w_completion := w_completion w @ [(p, planUID)]\<rparr>, rd, cl)"
| cancel: "sched_step (w, rd, cl) (w\<lparr>w_db := store_BatchCancelTaskRuns now p ids (w_db w)\<rparr>, rd, cl)"
| fail_HA: "sched_step (w, rd, cl) (w\<lparr>w_db := snd (fail_for_HA now msg tr (affected, w_db w))\<rparr>, rd, cl)"
| notify: "sched_step (w, rd, cl) (notify_failure k environment w, rd, cl)"
| stale: "sched_step (w, rd, cl) (w\<lparr>w_db := snd (FailStaleTaskRuns now threshold (w_db w))\<rparr>, rd, cl)"
| recover: "sched_step (w, rd, cl) (w\<lparr>w_db := recover_run now orphan (w_db w)\<rparr>, rd, cl)"
| reset: "sched_step (w, rd, cl) (w\<lparr>w_db := ResetPlanWebhookDelivery p planUID (w_db w)\<rparr>, rd, cl)"
| heartbeat: "sched_step (w, rd, cl) (w\<lparr>w_db := (w_db w)\<lparr>db_heartbeats := hb\<rparr>\<rparr>, rd, cl)"

inductive sched_reachable :: "world \<Rightarrow> system \<Rightarrow> bool" for w0 where
  reach_start: "sched_reachable w0 (w0, Outside, [])"
| reach_step: "sched_reachable w0 s \<Longrightarrow> sched_step s s' \<Longrightarrow> sched_reachable w0 s'"

definition round_inv :: "taskdb \<Rightarrow> round \<Rightarrow> bool" where
  "round_inv db rd \<longleftrightarrow>
     (case rd of Outside \<Rightarrow> True
      | Listed trs \<Rightarrow> \<forall>tr \<in> set trs. listed db tr
      | Scheduling trs sc \<Rightarrow> (\<forall>tr \<in> set trs. listed db tr) \<and> covers sc db)"

definition sched_inv :: "system \<Rightarrow> bool" where
  "sched_inv s \<longleftrightarrow> (case s of (w, rd, cl) \<Rightarrow>
     tables_ok (w_db w) \<and> exclusive (w_db w) \<and> within_limits (w_db w) \<and> round_inv (w_db w) rd)"

lemma sched_inv_quiet:
  assumes "sched_inv (w, rd, cl)" "quiet (w_db w) (w_db w')"
  shows "sched_inv (w', rd, cl')"
proof -
  have "tables_ok (w_db w)" using assms(1) by (simp add: sched_inv_def)
  note q = quiet_invariants [OF assms(2) this] listed_moves [OF assms(2) this]
  have "tables_ok (w_db w')" using assms by (simp add: sched_inv_def moves_def)
  then show ?thesis
    using assms(1) q by (auto simp: sched_inv_def round_inv_def split: round.splits)
qed

lemma sched_inv_round_one:
  assumes "sched_inv (w, Scheduling (tr # trs) sc, cl)" "schedulePendingTaskRun now tr (sc, w_db w) = (res, sc1, db1)"
  shows "sched_inv (w\<lparr>w_db := db1\<rparr>, Scheduling trs sc1, cl)"
proof -
  have inv: "tables_ok (w_db w)" "exclusive (w_db w)" "within_limits (w_db w)" "covers sc (w_db w)"
    "\<forall>tr \<in> set (tr # trs). listed (w_db w) tr"
    using assms(1) by (simp_all add: sched_inv_def round_inv_def)
  consider "quiet (w_db w) db1" "sc1 = sc"
    | t0 prj where "moves {(tr_ProjectID tr, tr_ID tr)} (w_db w) db1"
         "\<forall>r \<in> set (db_task_runs db1). run_key r = (tr_ProjectID tr, tr_ID tr) \<longrightarrow> task_of_run db1 r = Some t0"
         "sc1 = markPromoted (task_message (w_db w) t0) sc" "\<forall>k. sequential_key t0 = Some k \<longrightarrow> \<not> known sc k"
         "GetProjectByResourceID (w_db w) (fst (plan_key t0)) = Some prj"
         "0 < project_ParallelTasksPerRollout prj \<longrightarrow> counted sc (plan_key t0) < project_ParallelTasksPerRollout prj"
    using schedulePendingTaskRun_cases [OF assms(2) inv(1)] inv(5) by auto
  then show ?thesis
  proof cases
    case 1
    have "sched_inv (w, Scheduling trs sc, cl)" using assms(1) by (simp add: sched_inv_def round_inv_def)
    then show ?thesis using 1 sched_inv_quiet [of w _ cl "w\<lparr>w_db := db1\<rparr>"] by simp
  next
    case 2
    have "tables_ok db1" "\<forall>tr \<in> set trs. listed db1 tr"
      using 2(1) inv listed_moves [OF 2(1)] by (auto simp: moves_def)
    then show ?thesis
      using promotion_invariants [OF 2(1) inv(1) 2(2) 2(4-6) inv(2-4)] 2(3)
      by (simp add: sched_inv_def round_inv_def)
  qed
qed


lemma quiet_queues [quiet_ops]:
  "quiet (w_db w) (w_db (runTaskRunOnce now ret e (w\<lparr>w_executing := x\<rparr>)))"
  "quiet (w_db w) (w_db (checkPlanCompletion k (w\<lparr>w_completion := y\<rparr>)))"
  using quiet_runTaskRunOnce [of "w\<lparr>w_executing := x\<rparr>"] quiet_checkPlanCompletion [of "w\<lparr>w_completion := y\<rparr>"] by simp_all

lemma sched_step_inv:
  assumes "sched_step s s'" "sched_inv s"
  shows "sched_inv s'"
  using assms
proof (induction rule: sched_step.induct)
  case (round_list w trs cl)
  have "\<forall>tr \<in> set trs. listed (w_db w) tr"
  proof
    fix tr assume tr: "tr \<in> set trs"
    let ?rows = "sort_key run_id (filter (\<lambda>r. run_status r \<in> set [TaskRun_PENDING]) (db_task_runs (w_db w)))"
    have "map_panic (run_message (w_db w)) ?rows = Some trs"
      using round_list(1) by (simp add: ListTaskRunsByStatus_def require_Inr_iff)
    from map_panic_origin [OF this tr] obtain r where "r \<in> set ?rows" "run_message (w_db w) r = Some tr" by blast
    then show "listed (w_db w) tr" by (auto simp: listed_def run_key_def dest!: run_messageD intro!: bexI [of _ r])
  qed
  then show ?case using round_list(2) by (simp add: sched_inv_def round_inv_def)
next
  case (round_context w sc trs cl)
  then show ?case
    using round_context newSchedulingContext_covers [of "w_db w" sc] by (simp add: sched_inv_def round_inv_def)
next
  case (round_one now tr sc w res sc1 db1 trs cl)
  then show ?case using sched_inv_round_one by simp
next
  case (round_end w rd cl)
  then show ?case by (simp add: sched_inv_def round_inv_def)
qed (erule sched_inv_quiet, simp add: quiet_ops quiet_same)+

lemma sched_reachable_inv:
  assumes "sched_reachable w0 s" "tables_ok (w_db w0)" "\<forall>r \<in> set (db_task_runs (w_db w0)). \<not> is_active r"
  shows "sched_inv s"
  using assms
proof (induction rule: sched_reachable.induct)
  case reach_start
  then have "active_runs (w_db w0) k = []" for k by (auto simp: active_runs_def filter_empty_conv)
  then show ?case using reach_start
    by (auto simp: sched_inv_def round_inv_def exclusive_def within_limits_def)
qed (auto intro: sched_step_inv)

end
