(* ===== verification/TaskRunProps.thy ===== *)
theory TaskRunProps
  imports TaskRunSpec
begin

text \<open>
  Properties of the task schedulers: one release at a time on a database, the parallel limit of a
  rollout, at most one notification of a plan between two requests to run it, completion only when
  every task is through, runs created once; and what the code does where runs are cancelled,
  recovered or created in a second project.
\<close>

section \<open>Exclusion and limit in every reachable state\<close>

text \<open>
  C6. Two available or running runs of releases on one database are one run, however the rounds of the
  scheduler, the replicas and the requests interleave.
\<close>
theorem database_exclusion:
  assumes "sched_reachable w0 (w, rd, cl)" "tables_ok (w_db w0)" "\<forall>r \<in> set (db_task_runs (w_db w0)). \<not> is_active r"
    and r1: "r1 \<in> set (db_task_runs (w_db w))" "is_active r1" "task_of_run (w_db w) r1 = Some t1" "isSequentialTask t1"
    and r2: "r2 \<in> set (db_task_runs (w_db w))" "is_active r2" "task_of_run (w_db w) r2 = Some t2" "isSequentialTask t2"
    and same: "task_InstanceID t1 = task_InstanceID t2" "task_DatabaseName t1 = Some d" "task_DatabaseName t2 = Some d"
  shows "r1 = r2"
proof -
  have "sched_inv (w, rd, cl)" using assms(1-3) by (rule sched_reachable_inv)
  moreover have "run_sequential_key (w_db w) r1 = run_sequential_key (w_db w) r2" "run_sequential_key (w_db w) r2 \<noteq> None"
    using r1 r2 same by (simp_all add: run_sequential_key_def sequential_key_def)
  ultimately have "run_key r1 = run_key r2"
    using exclusiveD [of "w_db w" r1 r2] r1(1,2) r2(1,2) by (simp add: sched_inv_def)
  then show ?thesis
    using \<open>sched_inv (w, rd, cl)\<close> r1(1) r2(1) run_key_inj [of "w_db w" r1 r2] by (simp add: sched_inv_def)
qed



text \<open>A project with a limit of one, and two tasks of a release on one database.\<close>

definition demo_task :: "int \<Rightarrow> task_row" where
  "demo_task i = \<lparr>task_ID = i, task_ProjectID = ''p'', task_PlanID = 101, task_InstanceID = ''i'', task_Environment = ''prod'',
     task_DatabaseName = Some ''d'', task_Type = DATABASE_MIGRATE,
     task_Payload = \<lparr>task_Skipped = False, task_SkippedReason = [], task_SpecId = [], task_Source = TaskRelease ''r'',
       task_EnablePriorBackup = True\<rparr>\<rparr>"

definition demo_run :: "int \<Rightarrow> int \<Rightarrow> run_row" where
  "demo_run i t = \<lparr>run_id = i, run_creator = None, run_created_at = 0, run_updated_at = 0, run_project = ''p'', run_task_id = t,
     run_attempt = 0, run_status = TaskRun_PENDING, run_started_at = None, run_run_at = None, run_result = empty_result,
     run_replica_id = None, run_payload = empty_payload\<lparr>payload_SkipPriorBackup := True\<rparr>, run_assigned_node = []\<rparr>"

definition demo_plan :: PlanMessage where
  "demo_plan = \<lparr>plan_UID = 101, plan_ProjectID = ''p'', plan_Creator = ''c'', plan_Specs = [ChangeDatabaseConfig
     (\<lparr>change_Targets = [''instances/i/databases/d''], change_SheetSha256 = [], change_Release = ''projects/p/releases/r''\<rparr>)],
     plan_HasRollout = True, plan_Deleted = False, plan_Name = [], plan_Description = []\<rparr>"

definition demo_db :: taskdb where
  "demo_db = \<lparr>db_projects = [\<lparr>project_id = ''p'', project_workspace = ''w'', project_ParallelTasksPerRollout = 1,
       project_RequireIssueApproval = False, project_AllowSelfApproval = False, project_ForceIssueLabels = False,
       project_AllowJustInTimeAccess = True, project_EnforceIssueTitle = False,
       project_CiSamplingSize = 0\<rparr>], db_instances = [''i''], db_plans = [demo_plan], db_issues = [],
     db_tasks = [demo_task 101, demo_task 102], db_task_runs = [demo_run 101 101, demo_run 102 102],
     db_deliveries = [], db_heartbeats = [], db_assigned_node = True\<rparr>"

definition demo_world :: world where
  "demo_world = \<lparr>w_db = demo_db, w_events = [], w_completion = [], w_executing = []\<rparr>"

definition demo_runs :: "TaskRunMessage list" where
  "demo_runs = (case ListTaskRunsByStatus demo_db [TaskRun_PENDING] of Inr trs \<Rightarrow> trs | Inl _ \<Rightarrow> [])"

definition demo_context :: schedulingContext where
  "demo_context = projr (newSchedulingContext demo_db)"

definition demo_promoted :: "schedulingContext \<times> taskdb" where
  "demo_promoted = snd (schedulePendingTaskRun 5 (hd demo_runs) (demo_context, demo_db))"

definition demo_after :: world where
  "demo_after = demo_world\<lparr>w_db := snd demo_promoted\<rparr>"

lemma demo_step: "sched_step (demo_world, Scheduling (hd demo_runs # tl demo_runs) demo_context, [])
  (demo_after, Scheduling (tl demo_runs) (fst demo_promoted), [])"
  unfolding demo_after_def
proof (rule round_one)
  show "schedulePendingTaskRun 5 (hd demo_runs) (demo_context, w_db demo_world)
      = (fst (schedulePendingTaskRun 5 (hd demo_runs) (demo_context, demo_db)), fst demo_promoted, snd demo_promoted)"
    by (simp add: demo_promoted_def demo_world_def)
qed

lemma demo_reachable: "sched_reachable demo_world (demo_after, Scheduling (tl demo_runs) (fst demo_promoted), [])"
proof -
  have "ListTaskRunsByStatus (w_db demo_world) [TaskRun_PENDING] = Inr demo_runs" by code_simp
  then have "sched_step (demo_world, Outside, []) (demo_world, Listed demo_runs, [])" by (rule round_list)
  moreover have "\<not> isl (newSchedulingContext demo_db)" by code_simp
  then have "newSchedulingContext (w_db demo_world) = Inr demo_context"
    by (simp add: demo_context_def demo_world_def)
  then have "sched_step (demo_world, Listed demo_runs, []) (demo_world, Scheduling demo_runs demo_context, [])"
    by (rule round_context)
  moreover have cons: "hd demo_runs # tl demo_runs = demo_runs" by code_simp
  from demo_step have "sched_step (demo_world, Scheduling demo_runs demo_context, []) (demo_after, Scheduling (tl demo_runs) (fst demo_promoted), [])"
    by (simp only: cons)
  ultimately show ?thesis
    by (blast intro: reach_start reach_step)
qed


lemma only_member: "x \<in> A \<Longrightarrow> P x \<Longrightarrow> (\<And>y. y \<in> A \<Longrightarrow> P y \<Longrightarrow> y = x) \<Longrightarrow> {y. y \<in> A \<and> P y} = {x}"
  by blast

theorem database_exclusion_witness:
  "sched_reachable demo_world (demo_after, Scheduling (tl demo_runs) (fst demo_promoted), [])
   \<and> {r. r \<in> set (db_task_runs (w_db demo_after)) \<and> is_active r} = {hd (db_task_runs (w_db demo_after))}"
proof -
  have "\<forall>r \<in> set (db_task_runs (w_db demo_after)). (let t = the (task_of_run (w_db demo_after) r) in
      task_of_run (w_db demo_after) r \<noteq> None \<and> isSequentialTask t \<and> task_InstanceID t = ''i'' \<and> task_DatabaseName t = Some ''d'')"
    by code_simp
  then have runs: "\<forall>r \<in> set (db_task_runs (w_db demo_after)). \<exists>t. task_of_run (w_db demo_after) r = Some t
      \<and> isSequentialTask t \<and> task_InstanceID t = ''i'' \<and> task_DatabaseName t = Some ''d''"
    by (auto simp: Let_def)
  have first: "hd (db_task_runs (w_db demo_after)) \<in> set (db_task_runs (w_db demo_after))"
    "is_active (hd (db_task_runs (w_db demo_after)))" by code_simp+
  have start: "tables_ok (w_db demo_world)" "\<forall>r \<in> set (db_task_runs (w_db demo_world)). \<not> is_active r" by code_simp+
  have "r = hd (db_task_runs (w_db demo_after))" if r: "r \<in> set (db_task_runs (w_db demo_after))" "is_active r" for r
  proof -
    obtain t where t: "task_of_run (w_db demo_after) r = Some t" "isSequentialTask t" "task_InstanceID t = ''i''" "task_DatabaseName t = Some ''d''"
      using runs r(1) by blast
    obtain t' where t': "task_of_run (w_db demo_after) (hd (db_task_runs (w_db demo_after))) = Some t'" "isSequentialTask t'"
      "task_InstanceID t' = ''i''" "task_DatabaseName t' = Some ''d''"
      using runs first(1) by blast
    show ?thesis
      by (rule database_exclusion [OF demo_reachable start r t(1,2) first t'(1,2) _ t(4) t'(4)]) (simp add: t t')
  qed
  then have "{r. r \<in> set (db_task_runs (w_db demo_after)) \<and> is_active r} = {hd (db_task_runs (w_db demo_after))}"
    by (rule only_member [where P = is_active, OF first])
  with demo_reachable show ?thesis by blast
qed




section \<open>Runs are created once\<close>

lemma insert_run_keeps_blocking:
  "insert_run r db = Inr db' \<Longrightarrow> has_blocking_run db p t \<Longrightarrow> has_blocking_run db' p t"
  by (auto simp: insert_run_def has_blocking_run_def list_ex_iff split: if_splits)

lemma insert_runs_keep_blocking:
  "insert_runs rs db = Inr db' \<Longrightarrow> has_blocking_run db p t \<Longrightarrow> has_blocking_run db' p t"
  by (induction rs arbitrary: db) (auto simp: bind_sum_Inr_iff dest: insert_run_keeps_blocking)

lemma insert_runs_block:
  assumes "insert_runs rs db = Inr db'" "\<forall>r \<in> set rs. run_status r = TaskRun_PENDING"
    and "\<forall>r \<in> set rs. \<forall>q \<in> set (db_task_runs db). run_project q = run_project r \<and> run_task_id q = run_task_id r
          \<and> run_attempt q = run_attempt r \<longrightarrow> run_status q \<in> set blocking_statuses"
  shows "\<forall>r \<in> set rs. has_blocking_run db' (run_project r) (run_task_id r)"
  using assms
proof (induction rs arbitrary: db)
  case (Cons r rs)
  from Cons.prems(1) obtain db1 where db1: "insert_run r db = Inr db1" "insert_runs rs db1 = Inr db'"
    by (auto simp: bind_sum_Inr_iff)
  have runs: "db1 = db \<or> db_task_runs db1 = db_task_runs db @ [r]"
    using db1(1) by (auto simp: insert_run_def split: if_splits)
  have pend: "run_status r = TaskRun_PENDING" "TaskRun_PENDING \<in> set blocking_statuses"
    using Cons.prems(2) by (auto simp: blocking_statuses_def)
  have "has_blocking_run db1 (run_project r) (run_task_id r)"
    using db1(1) Cons.prems(3) pend by (auto simp: insert_run_def has_blocking_run_def list_ex_iff split: if_splits)
  then have "has_blocking_run db' (run_project r) (run_task_id r)" by (rule insert_runs_keep_blocking [OF db1(2)])
  moreover have "\<forall>r \<in> set rs. has_blocking_run db' (run_project r) (run_task_id r)"
    by (rule Cons.IH [OF db1(2)]) (use Cons.prems runs pend in auto)
  ultimately show ?case by simp
qed simp

lemma next_attempt_new:
  assumes "q \<in> set (db_task_runs db)" "run_project q = p" "run_task_id q = t"
  shows "run_attempt q < next_attempt db p t"
proof -
  let ?rs = "filter (\<lambda>r. run_task_id r = t \<and> run_project r = p) (db_task_runs db)"
  have q: "q \<in> set ?rs" using assms by simp
  then have "next_attempt db p t = Max (set (map run_attempt ?rs)) + 1"
    by (cases ?rs) (auto simp: next_attempt_def)
  moreover have "run_attempt q \<le> Max (set (map run_attempt ?rs))" using q by (intro Max_ge) auto
  ultimately show ?thesis by simp
qed

lemma CreatePendingTaskRuns_block:
  assumes "CreatePendingTaskRuns now creator creates db = (Inr (), db1)" "c \<in> set creates"
  shows "has_blocking_run db1 (tr_ProjectID c) (tr_TaskUID c)"
proof -
  let ?cs = "filter (\<lambda>c. \<not> has_blocking_run db (tr_ProjectID c) (tr_TaskUID c)) creates"
  let ?payload = "case tr_PayloadProto (hd creates) of None \<Rightarrow> empty_payload | Some v \<Rightarrow> v"
  let ?creator = "if creator = [] then None else Some creator"
  define base where "base = nextProjectID (map run_id (filter (\<lambda>r. run_project r = tr_ProjectID (hd creates)) (db_task_runs db)))"
  define rows where "rows = map (\<lambda>(i, c). pending_row now ?creator ?payload db (base + int i) c) (enumerate 0 ?cs)"
  have ins: "insert_runs rows db = Inr db1"
    using assms by (auto simp: CreatePendingTaskRuns_def Let_def rows_def base_def split: sum.splits if_splits)
  show ?thesis
  proof (cases "has_blocking_run db (tr_ProjectID c) (tr_TaskUID c)")
    case True
    then show ?thesis by (rule insert_runs_keep_blocking [OF ins])
  next
    case False
    then have "c \<in> set (map snd (enumerate 0 ?cs))" using assms(2) by simp
    then have "c \<in> snd ` set (enumerate 0 ?cs)" by (simp only: set_map)
    then obtain i where i: "(i, c) \<in> set (enumerate 0 ?cs)" by (rule imageE) (metis prod.collapse)
    have "\<forall>r \<in> set rows. has_blocking_run db1 (run_project r) (run_task_id r)"
      by (rule insert_runs_block [OF ins]) (auto simp: rows_def pending_row_def dest!: next_attempt_new)
    moreover have "pending_row now ?creator ?payload db (base + int i) c \<in> set rows"
      unfolding rows_def set_map using i by (rule image_eqI [rotated]) simp
    ultimately show ?thesis by (auto simp: pending_row_def)
  qed
qed

text \<open>
  C30. Asking again for runs of the same tasks changes nothing, whatever happened to the payload, the
  time or the user of the request.
\<close>
theorem create_runs_once:
  assumes "CreatePendingTaskRuns now creator creates db = (Inr (), db1)"
    and "(\<lambda>c. (tr_ProjectID c, tr_TaskUID c)) ` set again \<subseteq> (\<lambda>c. (tr_ProjectID c, tr_TaskUID c)) ` set creates"
  shows "CreatePendingTaskRuns now2 creator2 again db1 = (Inr (), db1)"
proof -
  have "has_blocking_run db1 (tr_ProjectID c) (tr_TaskUID c)" if "c \<in> set again" for c
  proof -
    have "(tr_ProjectID c, tr_TaskUID c) \<in> (\<lambda>c. (tr_ProjectID c, tr_TaskUID c)) ` set creates"
      using assms(2) that by blast
    then obtain c' where "c' \<in> set creates" "tr_ProjectID c' = tr_ProjectID c" "tr_TaskUID c' = tr_TaskUID c" by auto
    then show ?thesis using CreatePendingTaskRuns_block [OF assms(1), of c'] by simp
  qed
  then have "filter (\<lambda>c. \<not> has_blocking_run db1 (tr_ProjectID c) (tr_TaskUID c)) again = []"
    by (simp add: filter_empty_conv)
  then show ?thesis by (simp add: CreatePendingTaskRuns_def Let_def)
qed

text \<open>Of a task whose runs are all over, the request makes one more, the next attempt.\<close>

definition demo_create :: "int \<Rightarrow> TaskRunMessage" where
  "demo_create t = \<lparr>tr_TaskUID = t, tr_Environment = [], tr_PlanUID = 0, tr_Status = TaskRun_STATUS_UNSPECIFIED,
     tr_ResultProto = empty_result, tr_PayloadProto = None, tr_ID = 0, tr_CreatorEmail = [], tr_ProjectID = ''p'', tr_RunAt = None\<rparr>"

definition demo_failed_db :: taskdb where
  "demo_failed_db = demo_db\<lparr>db_task_runs := [(demo_run 101 101)\<lparr>run_status := TaskRun_FAILED\<rparr>]\<rparr>"

theorem create_runs_once_witness:
  "fst (CreatePendingTaskRuns 7 [] [demo_create 101, demo_create 102] demo_failed_db) = Inr ()
   \<and> (let db1 = snd (CreatePendingTaskRuns 7 [] [demo_create 101, demo_create 102] demo_failed_db)
      in map run_attempt (db_task_runs db1) = [0, 1, 0] \<and> CreatePendingTaskRuns 8 ''u'' [demo_create 101] db1 = (Inr (), db1))"
proof -
  have ok: "fst (CreatePendingTaskRuns 7 [] [demo_create 101, demo_create 102] demo_failed_db) = Inr ()" by code_simp
  then have "CreatePendingTaskRuns 7 [] [demo_create 101, demo_create 102] demo_failed_db
      = (Inr (), snd (CreatePendingTaskRuns 7 [] [demo_create 101, demo_create 102] demo_failed_db))"
    by (metis prod.collapse)
  from create_runs_once [OF this, of "[demo_create 101]" 8 "''u''"]
  have "CreatePendingTaskRuns 8 ''u'' [demo_create 101] (snd (CreatePendingTaskRuns 7 [] [demo_create 101, demo_create 102] demo_failed_db))
      = (Inr (), snd (CreatePendingTaskRuns 7 [] [demo_create 101, demo_create 102] demo_failed_db))" by simp
  moreover have "map run_attempt (db_task_runs (snd (CreatePendingTaskRuns 7 [] [demo_create 101, demo_create 102] demo_failed_db))) = [0, 1, 0]"
    by code_simp
  ultimately show ?thesis using ok unfolding Let_def by blast
qed



section \<open>Notifications\<close>

definition delivered :: "planKey \<Rightarrow> world \<Rightarrow> bool" where
  "delivered k w \<longleftrightarrow> list_ex (\<lambda>d. fst d = k) (db_deliveries (w_db w))"

definition events_of :: "planKey \<Rightarrow> world \<Rightarrow> webhook_event list" where
  "events_of k w = filter (\<lambda>e. (event_Project e, event_Plan e) = k) (w_events w)"

text \<open>Events sent, and one more where the plan's next claim would succeed.\<close>

definition budget :: "planKey \<Rightarrow> world \<Rightarrow> nat" where
  "budget k w = length (events_of k w) + (if delivered k w then 0 else 1)"

lemma GetPlan_SomeD: "GetPlan db ws p u = Inr (Some plan) \<Longrightarrow> plan_ProjectID plan = p \<and> plan_UID plan = u \<and> plan \<in> set (db_plans db)"
proof -
  assume "GetPlan db ws p u = Inr (Some plan)"
  then have "plan \<in> set (ListPlans_uid db ws p u)"
    by (auto simp: GetPlan_def bind_sum_Inr_iff dest: at_most_one_SomeD)
  then show ?thesis by (auto simp: ListPlans_uid_def)
qed

lemma GetProject_id: "GetProjectByResourceID db p = Some prj \<Longrightarrow> project_id prj = p"
  by (auto simp: GetProjectByResourceID_def dest: find_in)

lemma claim_delivery_cases:
  "claim_delivery ev p u db = (res, db') \<Longrightarrow>
     (res \<noteq> Inr True \<and> db' = db) \<or> (res = Inr True \<and> \<not> list_ex (\<lambda>d. fst d = (p, u)) (db_deliveries db)
       \<and> db' = db\<lparr>db_deliveries := db_deliveries db @ [((p, u), ev)]\<rparr>)"
  by (auto simp: claim_delivery_def split: if_splits)

text \<open>A claim that succeeds spends the budget of its plan, and no more than one event is sent for it.\<close>

lemma budget_claim:
  assumes "\<not> delivered k w" "db_deliveries (w_db w') = db_deliveries (w_db w) @ [(k, ev)]"
    and "w_events w' = w_events w \<or> (\<exists>e. w_events w' = w_events w @ [e] \<and> (event_Project e, event_Plan e) = k)"
  shows "budget j w' \<le> budget j w"
  using assms by (auto simp: budget_def delivered_def events_of_def)

lemma budget_notify_failure: "budget j (notify_failure k env w) \<le> budget j w"
proof -
  obtain res db1 where cl: "claim_delivery PIPELINE_FAILED (fst k) (snd k) (w_db w) = (res, db1)" by fastforce
  show ?thesis
  proof (cases "res = Inr True")
    case False
    then have "notify_failure k env w = w"
      using claim_delivery_cases [OF cl]
      by (auto simp: notify_failure_def ClaimPipelineFailureNotification_def cl split: sum.splits bool.splits)
    then show ?thesis by simp
  next
    case True
    then have nd: "\<not> delivered k w" and db1: "db1 = (w_db w)\<lparr>db_deliveries := db_deliveries (w_db w) @ [(k, PIPELINE_FAILED)]\<rparr>"
      using claim_delivery_cases [OF cl] by (auto simp: delivered_def)
    show ?thesis
      by (rule budget_claim [OF nd])
        (auto simp: notify_failure_def ClaimPipelineFailureNotification_def cl True db1 Let_def
          split: sum.splits option.splits dest!: GetPlan_SomeD GetProject_id)
  qed
qed

lemma autoResolve_deliveries [simp]: "db_deliveries (autoResolveIssue p u db) = db_deliveries db"
  by (auto simp: autoResolveIssue_def UpdateIssue_status_def Let_def split: sum.splits option.splits)

lemma budget_checkPlanCompletion: "budget j (checkPlanCompletion k w) \<le> budget j w"
proof -
  obtain res db1 where cl: "claim_delivery PIPELINE_COMPLETED (fst k) (snd k) (w_db w) = (res, db1)" by fastforce
  show ?thesis
  proof (cases "res = Inr True")
    case False
    then consider e where "res = Inl e" | "res = Inr False" by (cases res) auto
    then have "checkPlanCompletion k w = w"
      using claim_delivery_cases [OF cl]
      by cases (auto simp: checkPlanCompletion_def ClaimPipelineCompletionNotification_def cl Let_def split: sum.splits option.splits)
    then show ?thesis by simp
  next
    case True
    then have nd: "\<not> delivered k w" and db1: "db1 = (w_db w)\<lparr>db_deliveries := db_deliveries (w_db w) @ [(k, PIPELINE_COMPLETED)]\<rparr>"
      using claim_delivery_cases [OF cl] by (auto simp: delivered_def)
    show ?thesis
    proof (cases "checkPlanCompletion k w = w")
      case False
      then show ?thesis
        by (intro budget_claim [OF nd])
          (auto simp: checkPlanCompletion_def ClaimPipelineCompletionNotification_def cl True db1 Let_def
            split: sum.splits option.splits if_splits dest!: GetPlan_SomeD GetProject_id)
    qed simp
  qed
qed

lemma events_executeTaskRun [simp]: "w_events (snd (executeTaskRun env et now c w)) = w_events w"
  by (simp add: executeTaskRun_def split: sum.splits option.splits prod.splits)

lemma UpdateTaskRunStatus_deliveries [simp]: "db_deliveries (snd (UpdateTaskRunStatus now patch db)) = db_deliveries db"
  by (auto simp: UpdateTaskRunStatus_def patchTaskRunStatusImpl_def Let_def split: sum.splits option.splits)

lemma budget_same: "w_events w' = w_events w \<Longrightarrow> (delivered k w \<Longrightarrow> delivered k w') \<Longrightarrow> budget k w' \<le> budget k w"
  by (simp add: budget_def events_of_def)

lemma budget_runTaskRunOnce: "budget j (runTaskRunOnce now ret e w) \<le> budget j w"
proof -
  let ?st = "finish_status (RunExecutorOnce ret)"
  obtain res db1 where u: "UpdateTaskRunStatus now \<lparr>patch_ID = exec_RunUID e, patch_ProjectID = task_ProjectID (exec_Task e),
      patch_Status = fst ?st, patch_ResultProto = Some (snd ?st)\<rparr> (w_db w) = (res, db1)" by fastforce
  then have d: "db_deliveries db1 = db_deliveries (w_db w)"
    using UpdateTaskRunStatus_deliveries by (metis snd_conv)
  have same: "budget j (w\<lparr>w_db := db1\<rparr>) = budget j w" "budget j (w\<lparr>w_db := db1, w_completion := c\<rparr>) = budget j w" for c
    by (simp_all add: budget_def events_of_def delivered_def d)
  show ?thesis
    using budget_notify_failure [of j _ _ "w\<lparr>w_db := db1\<rparr>"] same
    by (simp add: runTaskRunOnce_def u Let_def split: sum.splits TaskRun_Status.splits)
qed

lemma budget_step:
  assumes "sched_step (w, rd, cl) (w', rd', cl')" "delivered k w \<Longrightarrow> delivered k w'"
  shows "budget k w' \<le> budget k w"
  using assms
proof cases
  case (finish before e after now ret)
  then show ?thesis
    using budget_runTaskRunOnce [of k now ret e "w\<lparr>w_executing := before @ after\<rparr>"]
    by (simp add: budget_def events_of_def delivered_def)
next
  case (complete before j after)
  then show ?thesis
    using budget_checkPlanCompletion [of k j "w\<lparr>w_completion := before @ after\<rparr>"]
    by (simp add: budget_def events_of_def delivered_def)
next
  case (notify j environment)
  then show ?thesis using budget_notify_failure by simp
qed (use assms(2) in \<open>auto intro: budget_same\<close>)


text \<open>The steps that do not forget a delivery for the plan; a request to run its tasks does.\<close>

definition step_without_reset :: "planKey \<Rightarrow> system \<Rightarrow> system \<Rightarrow> bool" where
  "step_without_reset k s s' \<longleftrightarrow> sched_step s s' \<and> (delivered k (fst s) \<longrightarrow> delivered k (fst s'))"

lemma budget_steps: "(step_without_reset k)\<^sup>*\<^sup>* s s' \<Longrightarrow> budget k (fst s') \<le> budget k (fst s)"
proof (induction rule: rtranclp_induct)
  case (step s1 s2)
  obtain w rd cl w' rd' cl' where "s1 = (w, rd, cl)" "s2 = (w', rd', cl')" by (metis prod_cases3)
  then have "budget k (fst s2) \<le> budget k (fst s1)"
    using step(2) by (auto simp: step_without_reset_def intro: budget_step)
  then show ?case using step.IH by simp
qed simp

text \<open>
  C16. Between two requests to run the tasks of a plan, its subscribers get at most one notification, a
  failure or the completion, from all replicas together; none if one was delivered before.
\<close>
theorem one_notification:
  assumes "(step_without_reset k)\<^sup>*\<^sup>* (w, rd, cl) (w', rd', cl')"
  shows "length (events_of k w') \<le> length (events_of k w) + (if delivered k w then 0 else 1)"
  using budget_steps [OF assms] by (simp add: budget_def split: if_splits)

text \<open>A plan whose single task is done, twice in the queue of the completion listener.\<close>

definition done_world :: world where
  "done_world = \<lparr>w_db = demo_db\<lparr>db_tasks := [demo_task 101], db_task_runs := [(demo_run 101 101)\<lparr>run_status := TaskRun_DONE\<rparr>]\<rparr>,
     w_events = [], w_completion = [(''p'', 101), (''p'', 101)], w_executing = []\<rparr>"

definition done_once :: world where
  "done_once = checkPlanCompletion (''p'', 101) (done_world\<lparr>w_completion := [] @ [(''p'', 101)]\<rparr>)"

definition done_twice :: world where
  "done_twice = checkPlanCompletion (''p'', 101) (done_once\<lparr>w_completion := [] @ []\<rparr>)"

theorem one_notification_witness:
  "(step_without_reset (''p'', 101))\<^sup>*\<^sup>* (done_world, Outside, []) (done_twice, Outside, [])
   \<and> map event_Type (w_events done_twice) = [PIPELINE_COMPLETED] \<and> length (events_of (''p'', 101) done_twice) \<le> 1"
proof -
  have "sched_step (done_world, Outside, []) (done_once, Outside, [])"
    unfolding done_once_def by (rule complete) code_simp
  then have "step_without_reset (''p'', 101) (done_world, Outside, []) (done_once, Outside, [])"
    by (simp add: step_without_reset_def) code_simp
  moreover have "sched_step (done_once, Outside, []) (done_twice, Outside, [])"
    unfolding done_twice_def by (rule complete) code_simp
  then have "step_without_reset (''p'', 101) (done_once, Outside, []) (done_twice, Outside, [])"
    by (simp add: step_without_reset_def) code_simp
  ultimately have path: "(step_without_reset (''p'', 101))\<^sup>*\<^sup>* (done_world, Outside, []) (done_twice, Outside, [])" by auto
  have "events_of (''p'', 101) done_world = []" "\<not> delivered (''p'', 101) done_world" by code_simp+
  then have "length (events_of (''p'', 101) done_twice) \<le> 1" using one_notification [OF path] by simp
  moreover have "map event_Type (w_events done_twice) = [PIPELINE_COMPLETED]" by code_simp
  ultimately show ?thesis using path by blast
qed

text \<open>C31. Whatever the listener announces as complete has every task of the plan done or skipped.\<close>
theorem completion_means_done:
  assumes "w_events (checkPlanCompletion k w) \<noteq> w_events w" "t \<in> set (db_tasks (w_db w))" "plan_key t = k"
  shows "task_Skipped (task_Payload t)
    \<or> (\<exists>r. latest_task_run (w_db w) (fst k) (task_ID t) = Some r \<and> run_status r \<in> {TaskRun_DONE, TaskRun_SKIPPED})"
proof -
  let ?fd = "(task_find (fst k))\<lparr>tf_PlanID := Some (snd k)\<rparr>"
  have all: "list_all is_complete (ListTasks (w_db w) ?fd)"
    using assms(1) by (auto simp: checkPlanCompletion_def Let_def split: sum.splits option.splits if_splits)
  have "task_message (w_db w) t \<in> set (ListTasks (w_db w) ?fd)"
    using assms(2, 3) by (auto simp: ListTasks_def task_matches_def given_def in_workspace_def plan_key_def)
  then have "is_complete (task_message (w_db w) t)" using all by (simp add: list_all_iff)
  then show ?thesis
    using assms(3) by (auto simp: is_complete_def task_message_def task_row.defs plan_key_def split: option.splits)
qed

theorem completion_means_done_witness:
  "w_events done_once \<noteq> [] \<and> (\<exists>r. latest_task_run (w_db done_world) ''p'' 101 = Some r \<and> run_status r \<in> {TaskRun_DONE, TaskRun_SKIPPED})"
proof -
  have ev: "w_events done_once \<noteq> []" by code_simp
  then have "w_events (checkPlanCompletion (''p'', 101) (done_world\<lparr>w_completion := [] @ [(''p'', 101)]\<rparr>))
      \<noteq> w_events (done_world\<lparr>w_completion := [] @ [(''p'', 101)]\<rparr>)"
    unfolding done_once_def by (simp add: done_world_def)
  moreover have "demo_task 101 \<in> set (db_tasks (w_db (done_world\<lparr>w_completion := [] @ [(''p'', 101)]\<rparr>)))"
    "plan_key (demo_task 101) = (''p'', 101)" "\<not> task_Skipped (task_Payload (demo_task 101))" "task_ID (demo_task 101) = 101"
    by (simp_all add: done_world_def plan_key_def demo_task_def)
  ultimately have "\<exists>r. latest_task_run (w_db done_world) ''p'' 101 = Some r \<and> run_status r \<in> {TaskRun_DONE, TaskRun_SKIPPED}"
    using completion_means_done [of "(''p'', 101)" "done_world\<lparr>w_completion := [] @ [(''p'', 101)]\<rparr>" "demo_task 101"] by simp
  then show ?thesis using ev by simp
qed


section \<open>What the code does besides\<close>

text \<open>
  The status of a run is written whatever it was: a run that was cancelled after the round listed
  it becomes available again, and the payload of the request, with its choice to skip the prior
  backup, is gone before the run starts.
\<close>
lemma promotion_overwrites:
  assumes "promoteTaskRun now tr db = (Inr (), db')" "r \<in> set (db_task_runs db')" "run_key r = (tr_ProjectID tr, tr_ID tr)"
  shows "run_status r = TaskRun_AVAILABLE \<and> \<not> payload_SkipPriorBackup (run_payload r)"
  using assms
  by (auto simp: promoteTaskRun_def UpdateTaskRunStatus_def patchTaskRunStatusImpl_def Let_def UpdateTaskRunPayload_def
      updated_def is_run_def run_key_def split: prod.splits sum.splits option.splits if_splits)

text \<open>An executor that returns makes a run done that was cancelled or given to another replica meanwhile.\<close>
lemma finish_overwrites:
  assumes "db_task_runs (w_db (runTaskRunOnce now (Returned res) e w)) \<noteq> db_task_runs (w_db w)"
    and "r \<in> set (db_task_runs (w_db (runTaskRunOnce now (Returned res) e w)))"
    and "run_key r = (task_ProjectID (exec_Task e), exec_RunUID e)"
  shows "run_status r = TaskRun_DONE"
  using assms
  by (auto simp: runTaskRunOnce_def finish_status_def RunExecutorOnce_def UpdateTaskRunStatus_def patchTaskRunStatusImpl_def
      Let_def updated_def is_run_def run_key_def split: prod.splits sum.splits option.splits if_splits)

text \<open>
  Ids count per project, but the index \<^verbatim>\<open>task_run_id_unique\<close> is on the id alone: while another project
  has the run 101, a project without runs cannot create its first.
\<close>
lemma second_project_blocked:
  assumes "q \<in> set (db_task_runs db)" "run_id q = 101" "\<forall>r \<in> set (db_task_runs db). run_project r \<noteq> tr_ProjectID c"
  shows "CreatePendingTaskRuns now creator [c] db = (Inl (UniqueViolation ''task_run_id_unique''), db)"
proof -
  have no: "filter (\<lambda>r. run_project r = tr_ProjectID c) (db_task_runs db) = []"
    "filter (\<lambda>r. run_task_id r = tr_TaskUID c \<and> run_project r = tr_ProjectID c) (db_task_runs db) = []"
    "\<not> has_blocking_run db (tr_ProjectID c) (tr_TaskUID c)"
    using assms(3) by (auto simp: filter_empty_conv has_blocking_run_def list_ex_iff)
  show ?thesis
    using assms no
    by (auto simp: CreatePendingTaskRuns_def Let_def nextProjectID_def idMinValue_def insert_run_def pending_row_def
        list_ex_iff split: sum.splits)
qed

text \<open>Without the column \<^verbatim>\<open>assigned_node\<close> no executor ever starts: the claimed run stays running.\<close>
lemma no_column_no_execution:
  assumes "\<not> db_assigned_node (w_db w)"
  shows "w_executing (snd (executeTaskRun env et now c w)) = w_executing w"
  using assms
  by (auto simp: executeTaskRun_def UpdateTaskRunStartAt_def UpdateTaskRunAssignedNode_def update_runs_def
      split: sum.splits option.splits prod.splits)

text \<open>When no replica has a recent heartbeat, the recovery takes every assigned run for an orphan.\<close>
lemma recovery_takes_all:
  "db_assigned_node db \<Longrightarrow> FindOrphanedTaskRuns db [] =
     Inr (map (\<lambda>r. (run_id r, run_project r)) (filter (\<lambda>r. run_status r = TaskRun_RUNNING \<and> run_assigned_node r \<noteq> []) (db_task_runs db)))"
  by (simp add: FindOrphanedTaskRuns_def)

text \<open>After the failure of a plan was announced, its completion is not, and its issue stays open.\<close>
lemma no_completion_after_failure: "delivered k w \<Longrightarrow> checkPlanCompletion k w = w"
  by (simp add: checkPlanCompletion_def ClaimPipelineCompletionNotification_def claim_delivery_def delivered_def Let_def
      split: sum.splits option.splits)

text \<open>A plan without tasks counts as complete.\<close>
lemma empty_plan_completes:
  assumes "GetPlan (w_db w) [] p u = Inr (Some plan)" "\<forall>t \<in> set (db_tasks (w_db w)). plan_key t \<noteq> (p, u)"
    and "\<not> delivered (p, u) w" "GetProjectByResourceID (w_db w) p = Some prj"
  shows "map event_Type (w_events (checkPlanCompletion (p, u) w)) = map event_Type (w_events w) @ [PIPELINE_COMPLETED]"
proof -
  have none: "ListTasks (w_db w) ((task_find p)\<lparr>tf_PlanID := Some u\<rparr>) = []"
    using assms(2) by (auto simp: ListTasks_def task_matches_def given_def plan_key_def filter_empty_conv)
  have plan: "plan_ProjectID plan = p" "plan_UID plan = u" "plan \<in> set (db_plans (w_db w))"
    using GetPlan_SomeD [OF assms(1)] by auto
  then have "list_ex (\<lambda>pl. plan_ProjectID pl = p \<and> plan_UID pl = u) (db_plans (w_db w))" by (auto simp: list_ex_iff)
  then show ?thesis
    using assms none plan
    by (simp add: checkPlanCompletion_def ClaimPipelineCompletionNotification_def claim_delivery_def delivered_def Let_def
        GetProjectByResourceID_def)
qed

end
