(* ===== verification/TaskServiceSpec.thy ===== *)
theory TaskServiceSpec
  imports TaskService TaskRunProps
begin

text \<open>
  Properties of the rollout service: when an issue counts as approved, what a request to run tasks
  may create and under which conditions, that a rollout is created automatically at most once, and
  two places where the code departs from what its interface says.
\<close>

section \<open>Approval\<close>

lemma rejected_role_iff:
  assumes "[] \<notin> set roles"
  shows "rejected_role roles as i = [] \<longleftrightarrow> (\<forall>j < length as. i + j < length roles \<longrightarrow> approver_Status (as ! j) \<noteq> Approver_REJECTED)"
proof (induction as arbitrary: i)
  case (Cons a as)
  have "i < length roles \<Longrightarrow> roles ! i \<noteq> []" using assms by (metis nth_mem)
  then show ?case
    using Cons.IH [of "i + 1"] by (auto simp: nth_Cons' less_Suc_eq_0_disj all_conj_distrib Suc_diff_le
      split: nat.splits)
qed simp

text \<open>
  Approved: the template was looked for, and there is none, or each of its roles has an approver and
  none of these rejected.
\<close>
lemma approved_iff:
  assumes "approval_Template a = Some (Some roles)" "[] \<notin> set roles"
  shows "CheckApprovalApproved (Some a) = Ok (approval_FindingDone a \<and> length roles \<le> length (approval_Approvers a)
    \<and> (\<forall>j < length roles. approver_Status (approval_Approvers a ! j) \<noteq> Approver_REJECTED))"
proof -
  have "roles ! length (approval_Approvers a) \<noteq> []" if "\<not> length roles \<le> length (approval_Approvers a)"
    using that assms(2) by (metis not_le nth_mem)
  then show ?thesis
    using rejected_role_iff [OF assms(2), of "approval_Approvers a" 0] assms(1)
    by (auto simp: CheckApprovalApproved_def FindRejectedRole_def FindNextPendingRole_def)
qed


section \<open>Requests to run tasks\<close>



lemma CreatePendingTaskRuns_frame [simp]:
  "db_plans (snd (CreatePendingTaskRuns now creator creates db)) = db_plans db"
  "db_tasks (snd (CreatePendingTaskRuns now creator creates db)) = db_tasks db"
proof -
  have ins: "db_plans db' = db_plans db \<and> db_tasks db' = db_tasks db" if "insert_runs rs db = Inr db'" for rs db db'
    using that by (induction rs arbitrary: db) (auto simp: bind_sum_Inr_iff insert_run_def split: if_splits)
  show "db_plans (snd (CreatePendingTaskRuns now creator creates db)) = db_plans db"
    "db_tasks (snd (CreatePendingTaskRuns now creator creates db)) = db_tasks db"
    by (auto simp: CreatePendingTaskRuns_def Let_def split: sum.splits dest!: ins)
qed

lemma of_sum_Ok_iff: "of_sum g r = Ok x \<longleftrightarrow> r = Inr x"
  by (cases r) (simp_all add: of_sum_def)





text \<open>The creator of an export runs its task again, after it failed.\<close>

definition closed_access :: access_env where
  "closed_access = \<lparr>cel_Partial = (\<lambda>_ _. Inr CelOther), time_Now = 0, Quote = (\<lambda>s. s), GetGroupByName = (\<lambda>_ _. Inr None),
     GetAccountByEmail = (\<lambda>_. Inr None), ListUsers = Inr [], GetWorkspaceIamPolicySnapshot = (\<lambda>_. Inr None),
     GetProjectIamPolicySnapshot = (\<lambda>_ _. Inr None), GetProject = (\<lambda>_ _. Inr None), GetRoleSnapshot = (\<lambda>_ _. Inr None),
     GetGroupMembersSnapshot = (\<lambda>_ _. Inr None), GetUserGroupsSnapshot = (\<lambda>_ _. Inr [])\<rparr>"

definition demo_env :: service_env where
  "demo_env = \<lparr>svc_access = closed_access, svc_saas = False, svc_workspace = ''w'',
     svc_user = Some \<lparr>User_Email = ''c'', User_Name = ''c'', User_Type = END_USER, User_MemberDeleted = False\<rparr>,
     svc_ProjectIamPolicy = (\<lambda>_ _. Inr \<lparr>IamPolicy_Bindings = []\<rparr>), svc_WorkspaceIamPolicy = (\<lambda>_. Inr \<lparr>IamPolicy_Bindings = []\<rparr>),
     svc_RolloutPolicy = (\<lambda>_ _. Inr \<lparr>policy_Automatic = True, policy_Roles = []\<rparr>),
     svc_pipeline = (\<lambda>_ _. Inr [task_message demo_db (demo_task 0)]), svc_plan_check = (\<lambda>_ _. Inr None), svc_comment_error = None\<rparr>"

definition demo_issue :: IssueMessage where
  "demo_issue = \<lparr>issue_UID = 101, issue_ProjectID = ''p'', issue_PlanUID = Some 101, issue_CreatorEmail = ''c'', issue_Status = Issue_OPEN,
     issue_Type = Issue_DATABASE_EXPORT,
     issue_Approval = Some \<lparr>approval_Template = None, approval_Approvers = [], approval_FindingDone = True\<rparr>,
     issue_Title = [], issue_Description = [], issue_RoleGrant = None, issue_Labels = [], issue_RiskLevel = RiskLevel_LOW,
     issue_AccessGrantId = []\<rparr>"






section \<open>Rollouts\<close>

lemma insert_tasks_frame: "insert_tasks ts db = Inr db' \<Longrightarrow> db_plans db' = db_plans db"
  by (induction ts arbitrary: db) (auto simp: bind_sum_Inr_iff insert_task_def split: if_splits)

lemma CreateTasks_plans [simp]: "db_plans (snd (CreateTasks p u ts db)) = db_plans db"
  by (auto simp: CreateTasks_def createTasksTx_def Let_def bind_sum_def split: sum.splits prod.splits if_splits
      dest: insert_tasks_frame)

lemma CreateTasks_Inl: "CreateTasks p u ts db = (Inl e, db') \<Longrightarrow> db' = db"
  by (auto simp: CreateTasks_def Let_def split: sum.splits prod.splits if_splits)

lemma close_issue_plans [simp]: "db_plans (snd (close_issue env issue db)) = db_plans db"
  by (auto simp: close_issue_def UpdateIssue_status_def Let_def split: option.splits sum.splits prod.splits)

lemma auto_rollout_plans [simp]: "db_plans (snd (auto_rollout env now ws ts db)) = db_plans db"
proof (induction ts arbitrary: db)
  case (Cons t ts)
  obtain a db1 where cp: "CreatePendingTaskRuns now [] [\<lparr>tr_TaskUID = task_ID t, tr_Environment = [], tr_PlanUID = 0,
      tr_Status = TaskRun_STATUS_UNSPECIFIED, tr_ResultProto = empty_result, tr_PayloadProto = None, tr_ID = 0,
      tr_CreatorEmail = [], tr_ProjectID = task_ProjectID t, tr_RunAt = None\<rparr>] db = (a, db1)" by fastforce
  then have "db_plans db1 = db_plans db" by (metis CreatePendingTaskRuns_frame(1) snd_conv)
  then show ?case by (simp add: Cons.IH cp split: sum.splits)
qed simp

text \<open>Once a rollout was started, its plan says so.\<close>

lemma CreateRolloutAndPendingTasks_marks:
  assumes "snd (CreateRolloutAndPendingTasks env now plan issue prj ts db) \<noteq> db"
  shows "\<forall>pl \<in> set (db_plans (snd (CreateRolloutAndPendingTasks env now plan issue prj ts db))).
    plan_UID pl = plan_UID plan \<and> plan_ProjectID pl = project_id prj \<longrightarrow> plan_HasRollout pl"
proof -
  obtain ts1 where ts1: "(case ts of None \<Rightarrow> GetPipelineCreate env (plan_Specs plan) (project_id prj) | Some _ \<Rightarrow> Inr ts) = Inr ts1"
    using assms by (auto simp: CreateRolloutAndPendingTasks_def split: sum.splits)
  obtain r1 db1 where c: "CreateTasks (project_id prj) (plan_UID plan) (slice ts1) db = (r1, db1)" by fastforce
  obtain created where r1: "r1 = Inr created"
    using assms CreateTasks_Inl c by (cases r1) (auto simp: CreateRolloutAndPendingTasks_def ts1)
  obtain r2 db2 where u: "UpdatePlan_hasRollout (project_id prj) (plan_UID plan) db1 = (r2, db2)" by fastforce
  have marked: "\<forall>pl \<in> set (db_plans db2). plan_UID pl = plan_UID plan \<and> plan_ProjectID pl = project_id prj \<longrightarrow> plan_HasRollout pl"
    using u by (auto simp: UpdatePlan_hasRollout_def list_ex_iff split: if_splits)
  show ?thesis
  proof (cases r2)
    case (Inl e)
    then show ?thesis using marked by (simp add: CreateRolloutAndPendingTasks_def ts1 c r1 u)
  next
    case (Inr x)
    obtain r3 db3 where k: "close_issue env issue db2 = (r3, db3)" by fastforce
    then have "db_plans db3 = db_plans db2" using close_issue_plans [of env issue db2] by simp
    then show ?thesis using marked
      by (cases r3) (simp_all add: CreateRolloutAndPendingTasks_def ts1 c r1 u Inr k)
  qed
qed

lemma tryCreateRollout_cases:
  assumes "snd (tryCreateRollout env now ref db) \<noteq> db"
  obtains plan issue prj r where "GetPlan db [] (fst ref) (snd ref) = Inr (Some plan)"
    "\<not> plan_Deleted plan" "\<not> plan_HasRollout plan" "hasOnlyChangeDatabaseSpecs plan"
    "GetIssue db [] (fst ref) None (Some (snd ref)) = Inr (Some issue)" "issue_Status issue \<noteq> Issue_CANCELED"
    "CheckIssueApproved issue = (Ok True :: (rollout_reason, bool) outcome)"
    "svc_plan_check env (fst ref) (snd ref) = Inr r" "plan_checks_pass r"
    "GetProjectByResourceID db (fst ref) = Some prj"
    "tryCreateRollout env now ref db = CreateRolloutAndPendingTasks env now plan (Some issue) prj None db"
proof -
  obtain plan where p: "GetPlan db [] (fst ref) (snd ref) = Inr (Some plan)"
    "\<not> (plan_Deleted plan \<or> plan_HasRollout plan \<or> \<not> hasOnlyChangeDatabaseSpecs plan)"
    using assms by (auto simp: tryCreateRollout_def split: sum.splits option.splits if_splits)
  obtain issue where i: "GetIssue db [] (fst ref) None (Some (snd ref)) = Inr (Some issue)" "issue_Status issue \<noteq> Issue_CANCELED"
    using assms p by (auto simp: tryCreateRollout_def split: sum.splits option.splits if_splits)
  have pid: "plan_ProjectID plan = fst ref" using GetPlan_SomeD [OF p(1)] by simp
  obtain prj where prj: "GetProjectByResourceID db (fst ref) = Some prj"
    using assms p i pid by (cases "GetProjectByResourceID db (fst ref)") (simp_all add: tryCreateRollout_def)
  have ok: "CheckIssueApproved issue = (Ok True :: (rollout_reason, bool) outcome)"
    using assms p i prj pid
    by (cases "CheckIssueApproved issue :: (rollout_reason, bool) outcome") (simp_all add: tryCreateRollout_def split: if_splits)
  obtain r where r: "svc_plan_check env (fst ref) (snd ref) = Inr r" "plan_checks_pass r"
    using assms p i prj pid ok
    by (cases "svc_plan_check env (fst ref) (snd ref)") (simp_all add: tryCreateRollout_def split: if_splits)
  show thesis
    by (rule that [OF p(1) _ _ _ i ok r prj]) (use p i prj pid ok r in \<open>simp_all add: tryCreateRollout_def\<close>)
qed


text \<open>
  C23. The automatic creation acts only on a plan that is open, has no rollout and changes databases
  only, with an issue that is approved and not cancelled and with plan checks that are done and
  free of errors; and it acts once: a second attempt for the plan changes nothing.
\<close>
theorem rollout_created_once:
  assumes "snd (tryCreateRollout env now k db) \<noteq> db"
  shows "(\<exists>plan issue r. GetPlan db [] (fst k) (snd k) = Inr (Some plan) \<and> \<not> plan_Deleted plan \<and> \<not> plan_HasRollout plan
      \<and> hasOnlyChangeDatabaseSpecs plan \<and> GetIssue db [] (fst k) None (Some (snd k)) = Inr (Some issue)
      \<and> issue_Status issue \<noteq> Issue_CANCELED \<and> CheckIssueApproved issue = (Ok True :: (rollout_reason, bool) outcome)
      \<and> svc_plan_check env (fst k) (snd k) = Inr r \<and> plan_checks_pass r)
    \<and> tryCreateRollout env2 now2 k (snd (tryCreateRollout env now k db)) = (Ok (), snd (tryCreateRollout env now k db))"
proof -
  define db1 where "db1 = snd (tryCreateRollout env now k db)"
  obtain plan issue prj r where p: "GetPlan db [] (fst k) (snd k) = Inr (Some plan)"
    "\<not> plan_Deleted plan" "\<not> plan_HasRollout plan" "hasOnlyChangeDatabaseSpecs plan"
    and i: "GetIssue db [] (fst k) None (Some (snd k)) = Inr (Some issue)" "issue_Status issue \<noteq> Issue_CANCELED"
      "CheckIssueApproved issue = (Ok True :: (rollout_reason, bool) outcome)"
      "svc_plan_check env (fst k) (snd k) = Inr r" "plan_checks_pass r"
    and prj: "GetProjectByResourceID db (fst k) = Some prj"
    and run: "tryCreateRollout env now k db = CreateRolloutAndPendingTasks env now plan (Some issue) prj None db"
    by (rule tryCreateRollout_cases [OF assms])
  have ids: "plan_UID plan = snd k" "project_id prj = fst k"
    using GetPlan_SomeD [OF p(1)] GetProject_id [OF prj] by auto
  have marked: "\<forall>pl \<in> set (db_plans db1). plan_UID pl = snd k \<and> plan_ProjectID pl = fst k \<longrightarrow> plan_HasRollout pl"
    using CreateRolloutAndPendingTasks_marks [of env now plan "Some issue" prj None db] assms ids by (simp add: run db1_def)
  have "tryCreateRollout env2 now2 k db1 = (Ok (), db1)"
  proof (cases "GetPlan db1 [] (fst k) (snd k)")
    case (Inr pl)
    show ?thesis
    proof (cases pl)
      case (Some plan')
      then have "plan_HasRollout plan'" using GetPlan_SomeD [of db1 "[]" "fst k" "snd k" plan'] Inr marked by auto
      then show ?thesis using Inr Some by (simp add: tryCreateRollout_def)
    qed (simp add: tryCreateRollout_def Inr)
  qed (simp add: tryCreateRollout_def)
  then show ?thesis unfolding db1_def using p i by blast
qed

definition ready_db :: taskdb where
  "ready_db = demo_db\<lparr>db_plans := [demo_plan\<lparr>plan_HasRollout := False\<rparr>], db_issues := [demo_issue\<lparr>issue_Type := Issue_DATABASE_CHANGE\<rparr>],
     db_tasks := [], db_task_runs := []\<rparr>"

theorem rollout_created_once_witness:
  "map run_status (db_task_runs (snd (tryCreateRollout demo_env 5 (''p'', 101) ready_db))) = [TaskRun_PENDING]
   \<and> fst (tryCreateRollout demo_env 9 (''p'', 101) (snd (tryCreateRollout demo_env 5 (''p'', 101) ready_db))) = Ok ()
   \<and> map run_status (db_task_runs (snd (tryCreateRollout demo_env 9 (''p'', 101) (snd (tryCreateRollout demo_env 5 (''p'', 101) ready_db)))))
     = [TaskRun_PENDING]"
proof -
  have one: "map run_status (db_task_runs (snd (tryCreateRollout demo_env 5 (''p'', 101) ready_db))) = [TaskRun_PENDING]" by code_simp
  then have "snd (tryCreateRollout demo_env 5 (''p'', 101) ready_db) \<noteq> ready_db" by (auto simp: ready_db_def)
  from rollout_created_once [OF this, of demo_env 9] show ?thesis using one by simp
qed

text \<open>
  C32. A request for a rollout with the target \<^verbatim>\<open>""\<close>, for which the interface promises that no stages are
  created, creates all of them: the filter answers with a nil slice, and a nil slice is replaced by
  the tasks of the whole plan.
\<close>
theorem empty_target_creates_all:
  "CreateRollout env now \<lparr>create_Parent = parent, create_Target = Some []\<rparr> db
     = CreateRollout env now \<lparr>create_Parent = parent, create_Target = None\<rparr> db"
proof (cases "rollout_request env parent db")
  case (Ok x)
  obtain plan issue prj tasks where x: "x = (plan, issue, prj, tasks)" by (metis prod_cases4)
  have "GetPipelineCreate env (plan_Specs plan) (project_id prj) = Inr tasks"
    using Ok x by (auto simp: rollout_request_def bind_Ok_iff of_sum_Ok_iff split: if_splits)
  then have "CreateRolloutAndPendingTasks env now plan issue prj tasks db = CreateRolloutAndPendingTasks env now plan issue prj None db"
    by (cases tasks) (simp_all add: CreateRolloutAndPendingTasks_def)
  then show ?thesis by (simp add: CreateRollout_def Ok x filterTasksByStage_def)
qed (simp_all add: CreateRollout_def)

lemma traverse_image: "traverse f xs = Ok ys \<Longrightarrow> x \<in> set xs \<Longrightarrow> \<exists>y \<in> set ys. f x = Ok y"
  by (induction xs arbitrary: ys) (auto simp: bind_Ok_iff)

text \<open>
  Runs are cancelled by their ids in the project of the parent: the task, the stage and the plan in
  the name of a run are not compared with the run itself, although the permission is checked for the
  stage in the name.
\<close>
lemma cancel_by_id_only:
  assumes "BatchCancelTaskRuns env now req w = (Ok (), signals, w')"
  shows "\<exists>projectID. \<forall>name \<in> set (cancel_TaskRuns req). \<exists>p planID stage taskID runID.
    GetProjectIDPlanIDStageIDTaskIDTaskRunID name = Inr (p, planID, stage, taskID, runID)
    \<and> (\<forall>r \<in> set (db_task_runs (w_db w')). run_project r = projectID \<and> run_id r = sint runID \<longrightarrow> run_status r = TaskRun_CANCELED)"
proof -
  obtain projectID stageID ids where ids: "traverse (named_run stageID) (cancel_TaskRuns req) = Ok ids"
    and w': "w' = w\<lparr>w_db := store_BatchCancelTaskRuns now projectID ids (w_db w)\<rparr>" and ne: "cancel_TaskRuns req \<noteq> []"
    using assms by (auto simp: BatchCancelTaskRuns_def bind_Ok_iff split: outcome.splits if_splits)
  have "length ids = length (cancel_TaskRuns req)" using ids by (simp add: traverse_Ok_iff list_all2_lengthD)
  then have ids_ne: "ids \<noteq> []" using ne by auto
  have "\<exists>p planID stage taskID runID. GetProjectIDPlanIDStageIDTaskIDTaskRunID name = Inr (p, planID, stage, taskID, runID)
      \<and> (\<forall>r \<in> set (db_task_runs (w_db w')). run_project r = projectID \<and> run_id r = sint runID \<longrightarrow> run_status r = TaskRun_CANCELED)"
    if name: "name \<in> set (cancel_TaskRuns req)" for name
  proof -
    obtain j where "j \<in> set ids" "named_run stageID name = Ok j" using traverse_image [OF ids name] by blast
    then obtain p planID taskID runID where parsed:
      "GetProjectIDPlanIDStageIDTaskIDTaskRunID name = Inr (p, planID, stageID, taskID, runID)" "j = sint runID"
      by (auto simp: named_run_def bind_Ok_iff of_sum_Ok_iff split: if_splits)
    have "run_status r = TaskRun_CANCELED" if r: "r \<in> set (db_task_runs (w_db w'))" "run_project r = projectID \<and> run_id r = sint runID" for r
    proof -
      have "run_id r \<in> set ids" using r(2) parsed(2) \<open>j \<in> set ids\<close> by simp
      moreover obtain r0 where "r = updated (\<lambda>r. run_id r \<in> set ids \<and> run_project r = projectID)
          (\<lambda>r. r\<lparr>run_status := TaskRun_CANCELED, run_updated_at := now\<rparr>) r0"
        using r(1) ids_ne unfolding w' store_BatchCancelTaskRuns_def by force
      ultimately show ?thesis
        using r(2) by (cases "run_id r0 \<in> set ids \<and> run_project r0 = projectID") (simp_all add: updated_def)
    qed
    then show ?thesis using parsed(1) by blast
  qed
  then show ?thesis by blast
qed

end
