(* ===== verification/IssueStore.thy ===== *)
theory IssueStore
  imports TaskService
begin

text \<open>
  What the approval of issues keeps in the store: issues (\<^verbatim>\<open>store/issue.go\<close>), plan checks
  (\<^verbatim>\<open>store/plan_check_run.go\<close>), access grants (\<^verbatim>\<open>store/access_grant.go\<close>) and the IAM policies of projects
  (\<^verbatim>\<open>store/policy.go\<close>), as lists of rows beside the tables of TaskStore.  The generated ids of grants are
  arguments.  Search vectors and the times of creation are left out.
\<close>

section \<open>Issues\<close>

text \<open>
  The payload of an issue as an update gives it.  \<^verbatim>\<open>protojson\<close> writes the keys that are set, and the
  operator \<^verbatim>\<open>||\<close> of \<^verbatim>\<open>jsonb\<close> replaces these keys and keeps the others.
\<close>

record storepb_Issue =
  payload_Approval :: "Approval option"
  payload_RoleGrant :: "RoleGrant option"
  payload_Labels :: "string list"
  payload_RiskLevel :: RiskLevel
  payload_AccessGrantId :: string

definition empty_Issue :: storepb_Issue where
  "empty_Issue = \<lparr>payload_Approval = None, payload_RoleGrant = None, payload_Labels = [],
     payload_RiskLevel = RISK_LEVEL_UNSPECIFIED, payload_AccessGrantId = []\<rparr>"

definition upsert_payload :: "storepb_Issue \<Rightarrow> IssueMessage \<Rightarrow> IssueMessage" where
  "upsert_payload p i = i\<lparr>
     issue_Approval := (if payload_Approval p = None then issue_Approval i else payload_Approval p),
     issue_RoleGrant := (if payload_RoleGrant p = None then issue_RoleGrant i else payload_RoleGrant p),
     issue_Labels := (if payload_Labels p = [] then issue_Labels i else payload_Labels p),
     issue_RiskLevel := (if payload_RiskLevel p = RISK_LEVEL_UNSPECIFIED then issue_RiskLevel i else payload_RiskLevel p),
     issue_AccessGrantId := (if payload_AccessGrantId p = [] then issue_AccessGrantId i else payload_AccessGrantId p)\<rparr>"

record UpdateIssueMessage =
  update_Title :: "string option"
  update_Status :: "Issue_Status option"
  update_Description :: "string option"
  update_PayloadUpsert :: "storepb_Issue option"
  update_RemoveLabels :: bool

definition no_update :: UpdateIssueMessage where
  "no_update = \<lparr>update_Title = None, update_Status = None, update_Description = None,
     update_PayloadUpsert = None, update_RemoveLabels = False\<rparr>"

definition patch_issue :: "UpdateIssueMessage \<Rightarrow> IssueMessage \<Rightarrow> IssueMessage" where
  "patch_issue patch i =
     (let i1 = i\<lparr>issue_Title := (case update_Title patch of None \<Rightarrow> issue_Title i | Some v \<Rightarrow> v),
                 issue_Status := (case update_Status patch of None \<Rightarrow> issue_Status i | Some v \<Rightarrow> v),
                 issue_Description := (case update_Description patch of None \<Rightarrow> issue_Description i | Some v \<Rightarrow> v)\<rparr>
      in case update_PayloadUpsert patch of
           Some p \<Rightarrow> upsert_payload p i1
         | None \<Rightarrow> if update_RemoveLabels patch then i1\<lparr>issue_Labels := []\<rparr> else i1)"

definition update_issues :: "(IssueMessage \<Rightarrow> bool) \<Rightarrow> (IssueMessage \<Rightarrow> IssueMessage) \<Rightarrow> taskdb \<Rightarrow> taskdb" where
  "update_issues sel f db = db\<lparr>db_issues := map (\<lambda>i. if sel i then f i else i) (db_issues db)\<rparr>"

definition store_UpdateIssue ::
  "string \<Rightarrow> int \<Rightarrow> UpdateIssueMessage \<Rightarrow> taskdb \<Rightarrow> IssueMessage option from_db \<times> taskdb" where
  "store_UpdateIssue projectID uid patch db =
     (case GetIssue db [] projectID (Some uid) None of
        Inl e \<Rightarrow> (Inl e, db)
      | Inr _ \<Rightarrow>
          if update_Status patch = Some ISSUE_STATUS_UNSPECIFIED \<and> GetIssue db [] projectID (Some uid) None \<noteq> Inr None
          then (Inl (CheckViolation ''issue''), db)
          else let db1 = update_issues (\<lambda>i. issue_ProjectID i = projectID \<and> issue_UID i = uid) (patch_issue patch) db
               in (GetIssue db1 [] projectID (Some uid) None, db1))"

text \<open>
  \<^verbatim>\<open>CreateIssue\<close> under the constraints on the table: the id, unique among all projects, one issue for a
  plan, and the plan has to exist.
\<close>

definition store_CreateIssue :: "IssueMessage \<Rightarrow> taskdb \<Rightarrow> IssueMessage option from_db \<times> taskdb" where
  "store_CreateIssue create db =
     (let projectID = issue_ProjectID create;
          nextID = nextProjectID (map issue_UID (filter (\<lambda>i. issue_ProjectID i = projectID) (db_issues db)));
          row = create\<lparr>issue_UID := nextID, issue_Status := Issue_OPEN\<rparr>
      in if list_ex (\<lambda>i. issue_UID i = nextID) (db_issues db) then (Inl (UniqueViolation ''issue''), db)
         else if issue_PlanUID row \<noteq> None
                 \<and> list_ex (\<lambda>i. issue_ProjectID i = projectID \<and> issue_PlanUID i = issue_PlanUID row) (db_issues db)
         then (Inl (UniqueViolation ''issue''), db)
         else if \<not> given (issue_PlanUID row)
                   (\<lambda>v. list_ex (\<lambda>p. plan_ProjectID p = projectID \<and> plan_UID p = v) (db_plans db))
         then (Inl (ForeignKeyViolation ''plan''), db)
         else if \<not> list_ex (\<lambda>r. project_id r = projectID) (db_projects db)
         then (Inl (ForeignKeyViolation ''project''), db)
         else let db1 = db\<lparr>db_issues := db_issues db @ [row]\<rparr>
              in (GetIssue db1 [] projectID (Some nextID) None, db1))"

text \<open>
  \<^verbatim>\<open>BatchUpdateIssueStatuses\<close>: the old status of each issue, or the reason the request is refused.  The
  number of issues found is compared with the number of names.
\<close>

datatype batch_error =
  DoneIssue int Issue_Status
| WrongCount nat nat
| BadStatus

definition store_BatchUpdateIssueStatuses ::
  "string \<Rightarrow> int list \<Rightarrow> Issue_Status \<Rightarrow> taskdb \<Rightarrow> (batch_error + (int \<rightharpoonup> Issue_Status)) \<times> taskdb" where
  "store_BatchUpdateIssueStatuses projectID issueUIDs newStatus db =
     (let found = filter (\<lambda>i. issue_UID i \<in> set issueUIDs \<and> issue_ProjectID i = projectID) (db_issues db)
      in case find (\<lambda>i. issue_Status i = Issue_DONE \<and> newStatus \<noteq> Issue_DONE) found of
           Some i \<Rightarrow> (Inl (DoneIssue (issue_UID i) newStatus), db)
         | None \<Rightarrow>
             if length (remdups (map issue_UID found)) \<noteq> length issueUIDs
             then (Inl (WrongCount (length issueUIDs) (length (remdups (map issue_UID found)))), db)
             else if newStatus = ISSUE_STATUS_UNSPECIFIED \<and> found \<noteq> [] then (Inl BadStatus, db)
             else (Inr (map_of (map (\<lambda>i. (issue_UID i, issue_Status i)) found)),
                   update_issues (\<lambda>i. issue_UID i \<in> set issueUIDs \<and> issue_ProjectID i = projectID)
                     (\<lambda>i. i\<lparr>issue_Status := newStatus\<rparr>) db))"


section \<open>Plan checks\<close>

definition GetPlanCheckRun :: "PlanCheckRun list \<Rightarrow> string \<Rightarrow> int \<Rightarrow> PlanCheckRun option" where
  "GetPlanCheckRun checks projectID planUID =
     (case sort_key checkrun_UID (filter (\<lambda>c. checkrun_ProjectID c = projectID \<and> checkrun_PlanUID c = planUID) checks) of
        [] \<Rightarrow> None
      | c # _ \<Rightarrow> Some c)"

text \<open>
  The row of a plan is replaced but for its id.  Whatever status the message has, it is stored as
  available.
\<close>

definition CreatePlanCheckRun :: "PlanCheckRun \<Rightarrow> PlanCheckRun list \<Rightarrow> unit from_db \<times> PlanCheckRun list" where
  "CreatePlanCheckRun create checks =
     (let projectID = checkrun_ProjectID create;
          same = (\<lambda>c. checkrun_ProjectID c = projectID \<and> checkrun_PlanUID c = checkrun_PlanUID create);
          nextID = nextProjectID (map checkrun_UID (filter (\<lambda>c. checkrun_ProjectID c = projectID) checks))
      in if list_ex same checks
         then (Inr (), map (\<lambda>c. if same c then c\<lparr>checkrun_Status := PlanCheckRunStatusAvailable,
                                                  checkrun_Results := checkrun_Results create\<rparr> else c) checks)
         else if list_ex (\<lambda>c. checkrun_UID c = nextID) checks then (Inl (UniqueViolation ''plan_check_run''), checks)
         else (Inr (), checks @ [create\<lparr>checkrun_UID := nextID, checkrun_Status := PlanCheckRunStatusAvailable\<rparr>]))"

definition UpdatePlanCheckRun ::
  "string \<Rightarrow> PlanCheckRunStatus \<Rightarrow> PlanCheckResult list \<Rightarrow> int \<Rightarrow> PlanCheckRun list \<Rightarrow> PlanCheckRun list" where
  "UpdatePlanCheckRun projectID status results uid checks =
     map (\<lambda>c. if checkrun_UID c = uid \<and> checkrun_ProjectID c = projectID
              then c\<lparr>checkrun_Status := status, checkrun_Results := results\<rparr> else c) checks"

definition BatchCancelPlanCheckRuns :: "string \<Rightarrow> int list \<Rightarrow> PlanCheckRun list \<Rightarrow> PlanCheckRun list" where
  "BatchCancelPlanCheckRuns projectID uids checks =
     map (\<lambda>c. if checkrun_UID c \<in> set uids \<and> checkrun_ProjectID c = projectID
              then c\<lparr>checkrun_Status := PlanCheckRunStatusCanceled\<rparr> else c) checks"

text \<open>The runs claimed are returned by project, id and plan; \<open>locked\<close> are the rows that other claims hold.\<close>

definition ClaimAvailablePlanCheckRuns ::
  "(PlanCheckRun \<Rightarrow> bool) \<Rightarrow> PlanCheckRun list \<Rightarrow> (int \<times> string \<times> int) list \<times> PlanCheckRun list" where
  "ClaimAvailablePlanCheckRuns locked checks =
     (let claimed = (\<lambda>c. checkrun_Status c = PlanCheckRunStatusAvailable \<and> \<not> locked c)
      in (map (\<lambda>c. (checkrun_UID c, checkrun_ProjectID c, checkrun_PlanUID c)) (filter claimed checks),
          map (\<lambda>c. if claimed c then c\<lparr>checkrun_Status := PlanCheckRunStatusRunning\<rparr> else c) checks))"


section \<open>Access grants\<close>

datatype AccessGrant_Status = AccessGrant_STATUS_UNSPECIFIED | AccessGrant_PENDING | AccessGrant_ACTIVE | AccessGrant_REVOKED

text \<open>Instants and durations are nanoseconds.\<close>

record AccessGrantMessage =
  ag_ID :: string
  ag_ProjectID :: string
  ag_Creator :: string
  ag_Status :: AccessGrant_Status
  ag_ExpireTime :: "int option"
  ag_Targets :: "string list"
  ag_Query :: string
  ag_Unmask :: bool
  ag_Reason :: string
  ag_RequestedDuration :: "int option"
  ag_IssueId :: int

definition CreateAccessGrant_store ::
  "AccessGrantMessage \<Rightarrow> taskdb \<Rightarrow> AccessGrantMessage list \<Rightarrow> AccessGrantMessage from_db \<times> AccessGrantMessage list" where
  "CreateAccessGrant_store create db grants =
     (if list_ex (\<lambda>g. ag_ID g = ag_ID create) grants then (Inl (UniqueViolation ''access_grant''), grants)
      else if \<not> list_ex (\<lambda>r. project_id r = ag_ProjectID create) (db_projects db)
      then (Inl (ForeignKeyViolation ''project''), grants)
      else (Inr create, grants @ [create]))"

definition GetAccessGrant ::
  "taskdb \<Rightarrow> string \<Rightarrow> string \<Rightarrow> string option \<Rightarrow> AccessGrantMessage list \<Rightarrow> AccessGrantMessage option from_db" where
  "GetAccessGrant db ws i projectID grants =
     at_most_one TooMany (filter (\<lambda>g. ag_ID g = i \<and> in_workspace db ws (ag_ProjectID g)
       \<and> given projectID (\<lambda>p. ag_ProjectID g = p)) grants)"

text \<open>The row with the id, in whatever project.\<close>

definition UpdateAccessGrant ::
  "string \<Rightarrow> (AccessGrantMessage \<Rightarrow> AccessGrantMessage) \<Rightarrow> AccessGrantMessage list
   \<Rightarrow> AccessGrantMessage from_db \<times> AccessGrantMessage list" where
  "UpdateAccessGrant i f grants =
     (case find (\<lambda>g. ag_ID g = i) grants of
        None \<Rightarrow> (Inl (NoRows ''access_grant''), grants)
      | Some g \<Rightarrow> (Inr (f g), map (\<lambda>g. if ag_ID g = i then f g else g) grants))"


section \<open>The world of issues\<close>

datatype issue_event =
  ISSUE_CREATED int
| ISSUE_APPROVAL_REQUESTED int "string list"
| ISSUE_APPROVED int string
| ISSUE_SENT_BACK int string

text \<open>
  The IAM policies by workspace and project; a project without one has the empty policy.  The channels
  of the bus are lists; what does not fit is dropped.
\<close>

record issue_world =
  iw_db :: taskdb
  iw_checks :: "PlanCheckRun list"
  iw_grants :: "AccessGrantMessage list"
  iw_policies :: "string \<times> string \<rightharpoonup> IamPolicy"
  iw_events :: "issue_event list"
  iw_approvalCheckCh :: "(string \<times> int) list"
  iw_rolloutCreationCh :: "planKey list"

definition GetProjectIamPolicy :: "issue_world \<Rightarrow> string \<Rightarrow> string \<Rightarrow> IamPolicy" where
  "GetProjectIamPolicy w ws projectID =
     (case iw_policies w (ws, projectID) of None \<Rightarrow> \<lparr>IamPolicy_Bindings = []\<rparr> | Some p \<Rightarrow> p)"

definition send_event :: "issue_event \<Rightarrow> issue_world \<Rightarrow> issue_world" where
  "send_event e w = w\<lparr>iw_events := iw_events w @ [e]\<rparr>"

definition RequestApprovalCheck :: "string \<times> int \<Rightarrow> issue_world \<Rightarrow> issue_world" where
  "RequestApprovalCheck ref w =
     (if length (iw_approvalCheckCh w) < 1000 then w\<lparr>iw_approvalCheckCh := iw_approvalCheckCh w @ [ref]\<rparr> else w)"

definition RequestRolloutCreation :: "planKey \<Rightarrow> issue_world \<Rightarrow> issue_world" where
  "RequestRolloutCreation ref w =
     (if length (iw_rolloutCreationCh w) < 100 then w\<lparr>iw_rolloutCreationCh := iw_rolloutCreationCh w @ [ref]\<rparr> else w)"

text \<open>A statement on the tables, its result passed on.\<close>

definition on_db :: "(taskdb \<Rightarrow> 'a \<times> taskdb) \<Rightarrow> issue_world \<Rightarrow> 'a \<times> issue_world" where
  "on_db f w = (case f (iw_db w) of (r, db1) \<Rightarrow> (r, w\<lparr>iw_db := db1\<rparr>))"

text \<open>Steps of a handler that may fail or panic; what was written before stays.\<close>

definition and_then ::
  "('e, 'a) outcome \<times> 's \<Rightarrow> ('a \<Rightarrow> 's \<Rightarrow> ('e, 'b) outcome \<times> 's) \<Rightarrow> ('e, 'b) outcome \<times> 's" where
  "and_then r f = (case r of (Panic, s) \<Rightarrow> (Panic, s) | (Err e, s) \<Rightarrow> (Err e, s) | (Ok x, s) \<Rightarrow> f x s)"

lemma and_then_simps [simp]:
  "and_then (Panic, s) f = (Panic, s)" "and_then (Err e, s) f = (Err e, s)" "and_then (Ok x, s) f = f x s"
  by (simp_all add: and_then_def)

lemma and_then_Ok_iff: "and_then r f = (Ok y, s1) \<longleftrightarrow> (\<exists>x s. r = (Ok x, s) \<and> f x s = (Ok y, s1))"
  by (auto simp: and_then_def split: prod.splits outcome.splits)

end
