(* ===== verification/ApprovalRunner.thy ===== *)
theory ApprovalRunner
  imports IssueStore
begin

text \<open>
  The search for the approval template of an issue: \<^verbatim>\<open>runner/approval/runner.go\<close> and the matching of
  database groups in \<^verbatim>\<open>utils/utils.go\<close>.  The lookups of databases, database groups, sheets and
  settings, the licence and the CEL library are parameters; projects, plans, plan checks, issues and
  access grants are tables of the world.
\<close>

section \<open>Parameters\<close>

record IssueDatabase = DatabaseMessage +
  Database_Engine :: Engine

datatype database_find = OfProject string | ByName string string

record approval_env =
  ap_access :: access_env
  ap_cel :: rule_cel
  ap_parse :: "string \<Rightarrow> go_error + cel_expr"
  ap_ApprovalFeature :: "string \<Rightarrow> go_error option"
  ap_ApprovalSetting :: "string \<Rightarrow> go_error + Rule list"
  ap_ListDatabases :: "database_find \<Rightarrow> go_error + IssueDatabase list"
  ap_DatabaseGroup :: "string \<Rightarrow> string \<Rightarrow> go_error + string option"
  ap_GroupProgram :: "string \<Rightarrow> IssueDatabase \<Rightarrow> (cel_stage \<times> go_error) + cel_value"
  ap_Sheet :: "string \<Rightarrow> go_error + string option"
  ap_Environments :: "string \<Rightarrow> go_error + string list"
  ap_WorkspaceIamPolicy :: "string \<Rightarrow> go_error + IamPolicy"
  ap_GetUserByEmail :: "string \<Rightarrow> go_error + UserMessage option"
  ap_RoleFeature :: "string \<Rightarrow> go_error option"
  ap_AccessFeature :: "string \<Rightarrow> go_error option"
  ap_DurationDays :: "int \<Rightarrow> int64"

datatype approval_error =
  Store_Failed task_error
| Env_Failed go_error
| No_Project string
| No_PlanUID int
| No_Plan int
| Unknown_IssueType Issue_Type
| No_RoleGrant
| No_AccessGrantID
| No_AccessGrant string
| Bad_Name name_error
| No_Database string
| No_DatabaseGroup string
| No_Sheet string
| Not_Bool

type_synonym 'a found = "(approval_error, 'a) outcome"


section \<open>The databases of a plan\<close>

definition CheckDatabaseGroupMatch :: "approval_env \<Rightarrow> string \<Rightarrow> IssueDatabase \<Rightarrow> bool found" where
  "CheckDatabaseGroupMatch env expression database =
     (case ap_GroupProgram env expression database of
        Inl (_, e) \<Rightarrow> Err (Env_Failed e)
      | Inr (CelBool b) \<Rightarrow> Ok b
      | Inr CelOther \<Rightarrow> Err Not_Bool)"

definition GetMatchedDatabasesInDatabaseGroup ::
  "approval_env \<Rightarrow> string \<Rightarrow> IssueDatabase list \<Rightarrow> IssueDatabase list found" where
  "GetMatchedDatabasesInDatabaseGroup env expression allDatabases =
     bind_outcome (traverse (\<lambda>database.
       bind_outcome (CheckDatabaseGroupMatch env expression database) (\<lambda>matched.
       Ok (if matched then [database] else []))) allDatabases) (\<lambda>matches. Ok (concat matches))"

definition database_full_name :: "('a DatabaseMessage_scheme) \<Rightarrow> string" where
  "database_full_name d = FormatDatabase (Database_InstanceID d) (Database_DatabaseName d)"

definition unfoldDatabaseTargets ::
  "approval_env \<Rightarrow> string list \<Rightarrow> string \<Rightarrow> IssueDatabase list \<Rightarrow> string list found" where
  "unfoldDatabaseTargets env dbTargets projectID allDatabases =
     (case dbTargets of
        [target] \<Rightarrow>
          (case GetProjectIDDatabaseGroupID target of
             Inl _ \<Rightarrow> Ok dbTargets
           | Inr (_, databaseGroupID) \<Rightarrow>
               bind_outcome (of_sum Env_Failed (ap_DatabaseGroup env databaseGroupID projectID)) (\<lambda>group.
               bind_outcome (of_option (No_DatabaseGroup target) group) (\<lambda>expression.
               bind_outcome (GetMatchedDatabasesInDatabaseGroup env expression allDatabases) (\<lambda>matched.
               Ok (map database_full_name matched)))))
      | _ \<Rightarrow> Ok dbTargets)"

record specTarget =
  target_database :: IssueDatabase
  target_sheetSha256 :: string

text \<open>The entry of a name in the map of the databases; a later database of the name wins.\<close>

definition lookup_database_target :: "IssueDatabase list \<Rightarrow> string \<Rightarrow> string \<Rightarrow> specTarget found" where
  "lookup_database_target allDatabases sheet target =
     (case find (\<lambda>d. database_full_name d = target) (rev allDatabases) of
        None \<Rightarrow> Err (No_Database target)
      | Some d \<Rightarrow> Ok \<lparr>target_database = d, target_sheetSha256 = sheet\<rparr>)"

definition spec_targets :: "approval_env \<Rightarrow> string \<Rightarrow> IssueDatabase list \<Rightarrow> spec_config \<Rightarrow> specTarget list found" where
  "spec_targets env projectID allDatabases spec =
     (case spec of
        CreateDatabaseConfig c \<Rightarrow>
          bind_outcome (of_sum Bad_Name (GetInstanceID (create_db_Target c))) (\<lambda>instanceID.
          Ok [\<lparr>target_database = \<lparr>Database_ProjectID = [], Database_InstanceID = instanceID,
                 Database_DatabaseName = create_db_Database c,
                 Database_EffectiveEnvironmentID = Some (create_db_Environment c),
                 Database_Engine = Engine_ENGINE_UNSPECIFIED\<rparr>,
               target_sheetSha256 = []\<rparr>])
      | ChangeDatabaseConfig c \<Rightarrow>
          bind_outcome (unfoldDatabaseTargets env (change_Targets c) projectID allDatabases) (\<lambda>dbTargets.
          traverse (lookup_database_target allDatabases (change_SheetSha256 c)) dbTargets)
      | ExportDataConfig c \<Rightarrow>
          bind_outcome (unfoldDatabaseTargets env (export_Targets c) projectID allDatabases) (\<lambda>dbTargets.
          traverse (lookup_database_target allDatabases (export_SheetSha256 c)) dbTargets)
      | NoSpecConfig \<Rightarrow> Ok [])"

definition unfoldSpecTargets :: "approval_env \<Rightarrow> spec_config list \<Rightarrow> string \<Rightarrow> specTarget list found" where
  "unfoldSpecTargets env specs projectID =
     bind_outcome (of_sum Env_Failed (ap_ListDatabases env (OfProject projectID))) (\<lambda>allDatabases.
     bind_outcome (traverse (spec_targets env projectID allDatabases) specs) (\<lambda>targets. Ok (concat targets)))"


section \<open>The attributes of an issue\<close>

text \<open>
  The builders yield the maps of attributes, \<open>None\<close> where the caller has to come back once the plan
  checks are through.  An issue without targets has one map, with or without attributes.
\<close>

definition or_else :: "cel_vars \<Rightarrow> cel_vars list \<Rightarrow> cel_vars list" where
  "or_else base celVarsList = (if celVarsList = [] then [base] else celVarsList)"

definition environment_attribute :: "('a DatabaseMessage_scheme) \<Rightarrow> cel_any" where
  "environment_attribute d =
     AnyString (case Database_EffectiveEnvironmentID d of None \<Rightarrow> [] | Some e \<Rightarrow> e)"

definition target_attributes :: "string \<Rightarrow> IssueDatabase \<Rightarrow> cel_vars" where
  "target_attributes projectID d =
     [CELAttributeResourceEnvironmentID \<mapsto> environment_attribute d,
      CELAttributeResourceProjectID \<mapsto> AnyString projectID,
      CELAttributeResourceInstanceID \<mapsto> AnyString (Database_InstanceID d),
      CELAttributeResourceDatabaseName \<mapsto> AnyString (Database_DatabaseName d),
      CELAttributeResourceDBEngine \<mapsto> AnyString (Engine_String (Database_Engine d))]"

text \<open>The plan of an issue; its absence is an error.\<close>

definition plan_of_issue :: "taskdb \<Rightarrow> IssueMessage \<Rightarrow> PlanMessage found" where
  "plan_of_issue db issue =
     bind_outcome (of_option (No_PlanUID (issue_UID issue)) (issue_PlanUID issue)) (\<lambda>planUID.
     bind_outcome (of_sum Store_Failed (GetPlan db [] (issue_ProjectID issue) planUID)) (\<lambda>plan.
     of_option (No_Plan planUID) plan))"

definition summary_reports :: "PlanCheckRun option \<Rightarrow> string \<times> string \<Rightarrow> PlanCheckResult option" where
  "summary_reports run key =
     (case run of
        None \<Rightarrow> None
      | Some c \<Rightarrow>
          find (\<lambda>r. pcr_Type r = PLAN_CHECK_TYPE_STATEMENT_SUMMARY_REPORT \<and> GetInstanceDatabaseID (pcr_Target r) = Inr key)
            (rev (checkrun_Results c)))"

definition report_tables :: "SqlSummaryReport \<Rightarrow> storepb_ChangedResourceTable list" where
  "report_tables report =
     (case report_ChangedResources report of
        None \<Rightarrow> []
      | Some cr \<Rightarrow> concat (map (\<lambda>db. concat (map crs_tables (crd_schemas db))) (cr_databases cr)))"

definition report_vars :: "cel_vars \<Rightarrow> SqlSummaryReport \<Rightarrow> cel_vars list" where
  "report_vars celVars report =
     (let tables = report_tables report;
          tableRows = foldl (\<lambda>n t. n + crt_table_rows t) 0 tables
      in expandCELVars (celVars(CELAttributeStatementAffectedRows \<mapsto> AnyInt (report_AffectedRows report),
                                CELAttributeStatementTableRows \<mapsto> AnyInt tableRows))
           (report_StatementTypes report) (map crt_name tables))"

definition change_target_vars ::
  "approval_env \<Rightarrow> string \<Rightarrow> (string \<times> string \<Rightarrow> PlanCheckResult option) \<Rightarrow> specTarget \<Rightarrow> cel_vars list found" where
  "change_target_vars env projectID reports target =
     bind_outcome
       (if target_sheetSha256 target = [] then Ok []
        else bind_outcome (of_sum Env_Failed (ap_Sheet env (target_sheetSha256 target)))
               (of_option (No_Sheet (target_sheetSha256 target)))) (\<lambda>taskStatement.
     let d = target_database target;
         celVars = (target_attributes projectID d)(CELAttributeStatementText \<mapsto> AnyString taskStatement)
     in Ok (case reports (Database_InstanceID d, Database_DatabaseName d) of
              None \<Rightarrow> [celVars]
            | Some result \<Rightarrow>
                (case pcr_SqlSummaryReport result of None \<Rightarrow> [celVars] | Some report \<Rightarrow> report_vars celVars report)))"

definition buildCELVariablesForDatabaseChange ::
  "approval_env \<Rightarrow> issue_world \<Rightarrow> IssueMessage \<Rightarrow> cel_vars list option found" where
  "buildCELVariablesForDatabaseChange env w issue =
     bind_outcome (plan_of_issue (iw_db w) issue) (\<lambda>plan.
     let planCheckRun = GetPlanCheckRun (iw_checks w) (issue_ProjectID issue) (plan_UID plan)
     in if (case planCheckRun of None \<Rightarrow> False | Some c \<Rightarrow> checkrun_Status c = PlanCheckRunStatusRunning) then Ok None
        else
          bind_outcome (unfoldSpecTargets env (plan_Specs plan) (issue_ProjectID issue)) (\<lambda>targets.
          bind_outcome (traverse (change_target_vars env (issue_ProjectID issue) (summary_reports planCheckRun)) targets)
            (\<lambda>vars. Ok (Some (or_else Map.empty (concat vars))))))"

definition buildCELVariablesForDataExport ::
  "approval_env \<Rightarrow> issue_world \<Rightarrow> IssueMessage \<Rightarrow> cel_vars list option found" where
  "buildCELVariablesForDataExport env w issue =
     bind_outcome (plan_of_issue (iw_db w) issue) (\<lambda>plan.
     bind_outcome (unfoldSpecTargets env (plan_Specs plan) (issue_ProjectID issue)) (\<lambda>targets.
     Ok (Some (or_else Map.empty
       (map (\<lambda>target. target_attributes (issue_ProjectID issue) (target_database target)) targets)))))"

definition getDatabasesForRoleGrant :: "approval_env \<Rightarrow> string \<Rightarrow> string list \<Rightarrow> IssueDatabase list found" where
  "getDatabasesForRoleGrant env projectID databaseIdentifiers =
     bind_outcome (traverse (\<lambda>identifier. of_sum Bad_Name (GetInstanceDatabaseID identifier)) databaseIdentifiers)
       (\<lambda>requestedDBs.
     bind_outcome (of_sum Env_Failed (ap_ListDatabases env (OfProject projectID))) (\<lambda>allDatabases.
     Ok (filter (\<lambda>d. (Database_InstanceID d, Database_DatabaseName d) \<in> set requestedDBs) allDatabases)))"

definition MaxInt32 :: int64 where
  "MaxInt32 = 2147483647"

definition buildCELVariablesForRoleGrant ::
  "approval_env \<Rightarrow> issue_world \<Rightarrow> IssueMessage \<Rightarrow> cel_vars list option found" where
  "buildCELVariablesForRoleGrant env w issue =
     bind_outcome (of_option No_RoleGrant (issue_RoleGrant issue)) (\<lambda>grant.
     bind_outcome (wrap Env_Failed (GetQueryExportFactors (ap_parse env) (GetExpression (grant_Condition grant)))) (\<lambda>databases.
     let expirationDays = (case grant_Expiration grant of None \<Rightarrow> MaxInt32 | Some d \<Rightarrow> ap_DurationDays env d);
         baseVars = [CELAttributeResourceProjectID \<mapsto> AnyString (issue_ProjectID issue),
                     CELAttributeRequestExpirationDays \<mapsto> AnyInt expirationDays,
                     CELAttributeRequestRole \<mapsto> AnyString (grant_Role grant)]
     in if databases = [] then
          bind_outcome (of_option (No_Project (issue_ProjectID issue)) (GetProjectByResourceID (iw_db w) (issue_ProjectID issue)))
            (\<lambda>issueProject.
          bind_outcome (of_sum Env_Failed (ap_Environments env (project_workspace issueProject))) (\<lambda>environments.
          Ok (Some (or_else baseVars
            (map (\<lambda>i. baseVars(CELAttributeResourceEnvironmentID \<mapsto> AnyString i)) environments)))))
        else
          bind_outcome (getDatabasesForRoleGrant env (issue_ProjectID issue) databases) (\<lambda>ds.
          Ok (Some (or_else baseVars
            (map (\<lambda>d. baseVars(CELAttributeResourceEnvironmentID \<mapsto> environment_attribute d)) ds))))))"

text \<open>A target that is not in the store is passed over.\<close>

definition access_target_vars :: "approval_env \<Rightarrow> cel_vars \<Rightarrow> string \<Rightarrow> cel_vars list found" where
  "access_target_vars env baseVars target =
     bind_outcome (of_sum Bad_Name (GetInstanceDatabaseID target)) (\<lambda>(instanceID, databaseName).
     bind_outcome (of_sum Env_Failed (ap_ListDatabases env (ByName instanceID databaseName))) (\<lambda>databases.
     Ok (case databases of
           [] \<Rightarrow> []
         | d # _ \<Rightarrow> [baseVars(CELAttributeResourceEnvironmentID \<mapsto> environment_attribute d)])))"

definition buildCELVariablesForAccessGrant ::
  "approval_env \<Rightarrow> issue_world \<Rightarrow> IssueMessage \<Rightarrow> cel_vars list option found" where
  "buildCELVariablesForAccessGrant env w issue =
     (if issue_AccessGrantId issue = [] then Err No_AccessGrantID
      else
        bind_outcome (of_sum Store_Failed (GetAccessGrant (iw_db w) [] (issue_AccessGrantId issue) None (iw_grants w)))
          (\<lambda>found.
        bind_outcome (of_option (No_AccessGrant (issue_AccessGrantId issue)) found) (\<lambda>accessGrant.
        let baseVars = [CELAttributeResourceProjectID \<mapsto> AnyString (issue_ProjectID issue),
                        CELAttributeRequestUnmask \<mapsto> AnyBool (ag_Unmask accessGrant)]
        in bind_outcome (traverse (access_target_vars env baseVars) (ag_Targets accessGrant)) (\<lambda>vars.
           Ok (Some (or_else baseVars (concat vars)))))))"

definition buildCELVariablesForIssue ::
  "approval_env \<Rightarrow> issue_world \<Rightarrow> IssueMessage \<Rightarrow> cel_vars list option found" where
  "buildCELVariablesForIssue env w issue =
     (case issue_Type issue of
        Issue_ROLE_GRANT \<Rightarrow> buildCELVariablesForRoleGrant env w issue
      | Issue_DATABASE_CHANGE \<Rightarrow> buildCELVariablesForDatabaseChange env w issue
      | Issue_DATABASE_EXPORT \<Rightarrow> buildCELVariablesForDataExport env w issue
      | Issue_ACCESS_GRANT \<Rightarrow> buildCELVariablesForAccessGrant env w issue
      | ISSUE_TYPE_UNSPECIFIED \<Rightarrow> Err (Unknown_IssueType ISSUE_TYPE_UNSPECIFIED))"


section \<open>The source of the rules\<close>

primrec getApprovalSourceFromPlan :: "spec_config list \<Rightarrow> Rule_Source" where
  "getApprovalSourceFromPlan [] = SOURCE_UNSPECIFIED"
| "getApprovalSourceFromPlan (spec # specs) =
     (case spec of
        CreateDatabaseConfig _ \<Rightarrow> CREATE_DATABASE
      | ChangeDatabaseConfig _ \<Rightarrow> CHANGE_DATABASE
      | ExportDataConfig _ \<Rightarrow> EXPORT_DATA
      | NoSpecConfig \<Rightarrow> getApprovalSourceFromPlan specs)"

definition getApprovalSourceFromIssue :: "taskdb \<Rightarrow> IssueMessage \<Rightarrow> Rule_Source found" where
  "getApprovalSourceFromIssue db issue =
     (case issue_Type issue of
        Issue_ROLE_GRANT \<Rightarrow> Ok REQUEST_ROLE
      | Issue_DATABASE_CHANGE \<Rightarrow>
          bind_outcome (plan_of_issue db issue) (\<lambda>plan. Ok (getApprovalSourceFromPlan (plan_Specs plan)))
      | Issue_DATABASE_EXPORT \<Rightarrow> Ok EXPORT_DATA
      | Issue_ACCESS_GRANT \<Rightarrow> Ok REQUEST_ACCESS
      | ISSUE_TYPE_UNSPECIFIED \<Rightarrow> Err (Unknown_IssueType ISSUE_TYPE_UNSPECIFIED))"


section \<open>Notifications\<close>

definition getApproversForRole :: "approval_env \<Rightarrow> issue_world \<Rightarrow> string \<Rightarrow> string \<Rightarrow> string list found" where
  "getApproversForRole env w projectID role =
     bind_outcome (of_option (No_Project projectID) (GetProjectByResourceID (iw_db w) projectID)) (\<lambda>prj.
     bind_outcome (of_sum Env_Failed (ap_WorkspaceIamPolicy env (project_workspace prj))) (\<lambda>workspaceIAM.
     let users = GetUsersByRoleInIAMPolicy (ap_access env) (project_workspace prj) role True
                   [GetProjectIamPolicy w (project_workspace prj) projectID, workspaceIAM]
     in Ok (map User_Email (filter (\<lambda>user. User_Type user = END_USER) users))))"

text \<open>
  The request to the next approvers.  A failed lookup of the creator ends it, a creator that is not
  found is read through a nil pointer, and a failed lookup of the approvers leaves the list empty.
\<close>

definition NotifyApprovalRequested ::
  "approval_env \<Rightarrow> IssueMessage \<Rightarrow> issue_world \<Rightarrow> unit found \<times> issue_world" where
  "NotifyApprovalRequested env issue w =
     (case FindNextPendingRole (issue_Approval issue) :: string found of
        Panic \<Rightarrow> (Panic, w)
      | Err e \<Rightarrow> (Err e, w)
      | Ok role \<Rightarrow>
          if role = [] then (Ok (), w)
          else
            (case GetAccountByEmail (ap_access env) (issue_CreatorEmail issue) of
               Inl _ \<Rightarrow> (Ok (), w)
             | Inr creator \<Rightarrow>
                 let approvers = (case getApproversForRole env w (issue_ProjectID issue) role of Ok us \<Rightarrow> us | _ \<Rightarrow> [])
                 in (case creator of
                       None \<Rightarrow> (Panic, w)
                     | Some _ \<Rightarrow> (Ok (), send_event (ISSUE_APPROVAL_REQUESTED (issue_UID issue) approvers) w))))"

definition NotifyIssueApproved ::
  "approval_env \<Rightarrow> IssueMessage \<Rightarrow> UserMessage \<Rightarrow> issue_world \<Rightarrow> issue_world" where
  "NotifyIssueApproved env issue approver w =
     (case GetAccountByEmail (ap_access env) (issue_CreatorEmail issue) of
        Inr (Some _) \<Rightarrow> send_event (ISSUE_APPROVED (issue_UID issue) (User_Email approver)) w
      | _ \<Rightarrow> w)"


section \<open>The search\<close>

definition find_template ::
  "approval_env \<Rightarrow> issue_world \<Rightarrow> IssueMessage \<Rightarrow> project_row \<Rightarrow> Rule list
   \<Rightarrow> (ApprovalTemplate option \<times> cel_vars list) option found" where
  "find_template env w issue prj rules =
     (if ap_ApprovalFeature env (project_workspace prj) \<noteq> None then Ok (Some (None, []))
      else
        bind_outcome (getApprovalSourceFromIssue (iw_db w) issue) (\<lambda>approvalSource.
        if approvalSource = SOURCE_UNSPECIFIED then Ok (Some (None, []))
        else
          bind_outcome (buildCELVariablesForIssue env w issue) (\<lambda>vars.
          case vars of
            None \<Rightarrow> Ok None
          | Some celVarsList \<Rightarrow>
              let celVarsList1 = (if approvalSource = CHANGE_DATABASE
                    then injectRiskLevelIntoCELVars (calculateRiskLevelFromCELVars celVarsList) celVarsList
                    else celVarsList)
              in bind_outcome (of_sum Env_Failed (getApprovalTemplate (ap_cel env) rules approvalSource celVarsList1))
                   (\<lambda>approvalTemplate. Ok (Some (approvalTemplate, celVarsList1))))))"

definition found_approval :: "ApprovalTemplate option \<Rightarrow> Approval" where
  "found_approval approvalTemplate =
     \<lparr>approval_Template = approvalTemplate, approval_Approvers = [], approval_FindingDone = True\<rparr>"

definition findApprovalTemplateForIssue ::
  "approval_env \<Rightarrow> IssueMessage \<Rightarrow> Rule list \<Rightarrow> issue_world \<Rightarrow> unit found \<times> issue_world" where
  "findApprovalTemplateForIssue env issue rules w =
     (if (case issue_Approval issue of None \<Rightarrow> False | Some a \<Rightarrow> approval_FindingDone a) then (Ok (), w)
      else
        (case GetProjectByResourceID (iw_db w) (issue_ProjectID issue) of
           None \<Rightarrow> (Err (No_Project (issue_ProjectID issue)), w)
         | Some prj \<Rightarrow>
             (case find_template env w issue prj rules of
                Panic \<Rightarrow> (Panic, w)
              | Err e \<Rightarrow> (Err e, w)
              | Ok None \<Rightarrow> (Ok (), w)
              | Ok (Some (approvalTemplate, celVarsList)) \<Rightarrow>
                  let riskLevel = calculateRiskLevelFromCELVars celVarsList;
                      approval = found_approval approvalTemplate;
                      issue1 = issue\<lparr>issue_Approval := Some approval, issue_RiskLevel := riskLevel\<rparr>
                  in (case on_db (store_UpdateIssue (issue_ProjectID issue) (issue_UID issue)
                            (no_update\<lparr>update_PayloadUpsert := Some (empty_Issue\<lparr>payload_Approval := Some approval,
                               payload_RiskLevel := riskLevel\<rparr>)\<rparr>)) w of
                        (Inl e, w1) \<Rightarrow> (Err (Store_Failed e), w1)
                      | (Inr _, w1) \<Rightarrow> NotifyApprovalRequested env issue1 w1))))"

definition with_setting ::
  "approval_env \<Rightarrow> IssueMessage \<Rightarrow> (Rule list \<Rightarrow> issue_world \<Rightarrow> unit found \<times> issue_world) \<Rightarrow> issue_world
   \<Rightarrow> unit found \<times> issue_world" where
  "with_setting env issue f w =
     (case GetProjectByResourceID (iw_db w) (issue_ProjectID issue) of
        None \<Rightarrow> (Err (No_Project (issue_ProjectID issue)), w)
      | Some prj \<Rightarrow>
          (case ap_ApprovalSetting env (project_workspace prj) of
             Inl e \<Rightarrow> (Err (Env_Failed e), w)
           | Inr rules \<Rightarrow> f rules w))"

definition FindAndApplyApprovalTemplate ::
  "approval_env \<Rightarrow> IssueMessage \<Rightarrow> issue_world \<Rightarrow> unit found \<times> issue_world" where
  "FindAndApplyApprovalTemplate env issue w = with_setting env issue (findApprovalTemplateForIssue env issue) w"

text \<open>
  An event of the runner.  A failure is logged and ends it; the rollout is asked for where the issue
  of a plan turns out to be approved.
\<close>

definition processIssue :: "approval_env \<Rightarrow> string \<times> int \<Rightarrow> issue_world \<Rightarrow> unit found \<times> issue_world" where
  "processIssue env ref w =
     (case GetIssue (iw_db w) [] (fst ref) (Some (snd ref)) None of
        Inl e \<Rightarrow> (Err (Store_Failed e), w)
      | Inr None \<Rightarrow> (Ok (), w)
      | Inr (Some issue) \<Rightarrow>
          and_then (with_setting env issue (findApprovalTemplateForIssue env issue) w) (\<lambda>_ w1.
          case issue_PlanUID issue of
            None \<Rightarrow> (Ok (), w1)
          | Some planUID \<Rightarrow>
              (case GetIssue (iw_db w1) [] (fst ref) (Some (snd ref)) None of
                 Inl e \<Rightarrow> (Err (Store_Failed e), w1)
               | Inr None \<Rightarrow> (Ok (), w1)
               | Inr (Some issue1) \<Rightarrow>
                   (case CheckIssueApproved issue1 :: bool found of
                      Panic \<Rightarrow> (Panic, w1)
                    | Err e \<Rightarrow> (Err e, w1)
                    | Ok approved \<Rightarrow>
                        if \<not> approved then (Ok (), w1)
                        else (case issue_PlanUID issue1 of
                                Some p \<Rightarrow> (Ok (), RequestRolloutCreation (issue_ProjectID issue1, p) w1)
                              | None \<Rightarrow> (Panic, w1))))))"

end
