(* ===== verification/IssueService.thy ===== *)
theory IssueService
  imports ApprovalRunner
begin

text \<open>
  The requests on issues and access grants: approving, rejecting and requesting again
  (\<^verbatim>\<open>api/v1/issue_service_lifecycle.go\<close>), creating (\<^verbatim>\<open>issue_service.go\<close>, \<^verbatim>\<open>issue_hook.go\<close>), the status an
  issue shows (\<^verbatim>\<open>issue_service_converter.go\<close>), the grant of a role (\<^verbatim>\<open>utils/utils.go\<close>), the life of an
  access grant (\<^verbatim>\<open>access_grant_service.go\<close>) and its use by a query (\<^verbatim>\<open>sql_service_access.go\<close>).  A handler
  is a function on the world; comments, responses and logs are left out.
\<close>

section \<open>Requests and answers\<close>

record request_ctx =
  ctx_workspace :: string
  ctx_user :: "UserMessage option"
  ctx_saas :: bool
  ctx_now :: int

datatype issue_reason =
  Issue_BadName name_error
| Issue_Store task_error
| Issue_Missing int
| Issue_NoProject string
| Approval_Nil
| Finding_NotDone
| Template_Required
| Already_Rejected
| Already_Approved
| Not_Rejected
| Issue_NoUser
| Not_Reviewer
| Self_Approval
| Not_Creator
| Creator_Failure go_error
| Labels_Required
| Title_Required
| Feature_Missing go_error
| Role_Required
| User_Required
| Bad_Condition go_error
| User_NotFound string
| Plan_Required
| Plan_Missing int
| Unknown_Type Issue_Type
| Env_Failure go_error
| Grant_Missing string
| Grant_NotActive string
| Grant_Invalid string
| Workspace_Required
| Mixed_Projects
| Batch_Failed batch_error
| Unspecified_Status
| Mask_Required
| Permission_Missing

datatype connect_code = InvalidArgument | Internal | NotFound | PermissionDenied | FailedPrecondition | Unknown

fun issue_code :: "issue_reason \<Rightarrow> connect_code" where
  "issue_code (Issue_BadName _) = InvalidArgument"
| "issue_code (Issue_Missing _) = NotFound"
| "issue_code (Issue_NoProject _) = NotFound"
| "issue_code Finding_NotDone = FailedPrecondition"
| "issue_code Already_Rejected = InvalidArgument"
| "issue_code Already_Approved = InvalidArgument"
| "issue_code Not_Rejected = InvalidArgument"
| "issue_code Not_Reviewer = PermissionDenied"
| "issue_code Self_Approval = PermissionDenied"
| "issue_code Not_Creator = PermissionDenied"
| "issue_code Labels_Required = InvalidArgument"
| "issue_code Title_Required = InvalidArgument"
| "issue_code (Feature_Missing _) = PermissionDenied"
| "issue_code Role_Required = InvalidArgument"
| "issue_code User_Required = InvalidArgument"
| "issue_code (Bad_Condition _) = InvalidArgument"
| "issue_code (User_NotFound _) = NotFound"
| "issue_code Plan_Required = InvalidArgument"
| "issue_code (Plan_Missing _) = NotFound"
| "issue_code (Unknown_Type _) = InvalidArgument"
| "issue_code (Grant_Missing _) = NotFound"
| "issue_code (Grant_NotActive _) = FailedPrecondition"
| "issue_code Mixed_Projects = InvalidArgument"
| "issue_code (Batch_Failed BadStatus) = Internal"
| "issue_code (Batch_Failed _) = FailedPrecondition"
| "issue_code Unspecified_Status = InvalidArgument"
| "issue_code Mask_Required = InvalidArgument"
| "issue_code Permission_Missing = PermissionDenied"
| "issue_code _ = Internal"

type_synonym 'a reply = "(issue_reason, 'a) outcome \<times> issue_world"


section \<open>The status that an issue shows\<close>

datatype ApprovalStatus = CHECKING | SKIPPED | PENDING | REJECTED | APPROVED

definition flow_roles :: "ApprovalTemplate \<Rightarrow> string list" where
  "flow_roles template = (case template of None \<Rightarrow> [] | Some roles \<Rightarrow> roles)"

definition computeApprovalStatus :: "Approval option \<Rightarrow> ApprovalStatus" where
  "computeApprovalStatus approval =
     (case approval of
        None \<Rightarrow> CHECKING
      | Some a \<Rightarrow>
          if \<not> approval_FindingDone a then CHECKING
          else
            (case approval_Template a of
               None \<Rightarrow> SKIPPED
             | Some template \<Rightarrow>
                 let approvers = approval_Approvers a; totalSteps = length (flow_roles template)
                 in if approvers = [] then PENDING
                    else if list_ex (\<lambda>approver. approver_Status approver = Approver_REJECTED) approvers then REJECTED
                    else if totalSteps \<le> length approvers
                            \<and> list_all (\<lambda>approver. approver_Status approver = Approver_APPROVED) approvers then APPROVED
                    else PENDING))"


section \<open>Lookups\<close>

definition getIssueMessage :: "request_ctx \<Rightarrow> issue_world \<Rightarrow> string \<Rightarrow> (issue_reason, IssueMessage) outcome" where
  "getIssueMessage ctx w name =
     bind_outcome (of_sum Issue_BadName (GetProjectIDIssueUID name)) (\<lambda>(projectID, issueUID).
     bind_outcome (of_sum Issue_Store (GetIssue (iw_db w) (ctx_workspace ctx) projectID (Some (sint issueUID)) None)) (\<lambda>issue.
     of_option (Issue_Missing (sint issueUID)) issue))"

definition issue_project :: "request_ctx \<Rightarrow> issue_world \<Rightarrow> string \<Rightarrow> (issue_reason, project_row) outcome" where
  "issue_project ctx w projectID = of_option (Issue_NoProject projectID) (find_project (iw_db w) (ctx_workspace ctx) projectID)"

text \<open>A policy that cannot be read gives no roles.\<close>

definition getUserRoleMap :: "approval_env \<Rightarrow> request_ctx \<Rightarrow> issue_world \<Rightarrow> string \<Rightarrow> UserMessage \<Rightarrow> bool gomap" where
  "getUserRoleMap env ctx w projectID user =
     (case ap_WorkspaceIamPolicy env (ctx_workspace ctx) of
        Inl _ \<Rightarrow> []
      | Inr workspacePolicy \<Rightarrow>
          GetUserFormattedRolesMap (ap_access env) (ctx_workspace ctx) user
            [GetProjectIamPolicy w (ctx_workspace ctx) projectID, workspacePolicy])"

definition isUserReviewer ::
  "approval_env \<Rightarrow> request_ctx \<Rightarrow> issue_world \<Rightarrow> IssueMessage \<Rightarrow> string \<Rightarrow> UserMessage \<Rightarrow> bool" where
  "isUserReviewer env ctx w issue role user = flag (getUserRoleMap env ctx w (issue_ProjectID issue) user) role"

definition canRequestIssue :: "string \<Rightarrow> UserMessage \<Rightarrow> bool" where
  "canRequestIssue issueCreatorEmail user \<longleftrightarrow> issueCreatorEmail = User_Email user"

text \<open>The issue under review, its project and its approval; and who may decide the pending step.\<close>

definition load_review ::
  "request_ctx \<Rightarrow> issue_world \<Rightarrow> string \<Rightarrow> (issue_reason, IssueMessage \<times> project_row \<times> Approval) outcome" where
  "load_review ctx w name =
     bind_outcome (getIssueMessage ctx w name) (\<lambda>issue.
     bind_outcome (issue_project ctx w (issue_ProjectID issue)) (\<lambda>prj.
     bind_outcome (of_option Approval_Nil (issue_Approval issue)) (\<lambda>a.
     if \<not> approval_FindingDone a then Err Finding_NotDone
     else if approval_Template a = None then Err Template_Required
     else Ok (issue, prj, a))))"

definition check_reviewer ::
  "approval_env \<Rightarrow> request_ctx \<Rightarrow> issue_world \<Rightarrow> IssueMessage \<Rightarrow> project_row \<Rightarrow> Approval
   \<Rightarrow> (issue_reason, UserMessage) outcome" where
  "check_reviewer env ctx w issue prj a =
     bind_outcome (FindRejectedRole (Some a)) (\<lambda>rejectedRole.
     if rejectedRole \<noteq> [] then Err Already_Rejected
     else
       bind_outcome (FindNextPendingRole (Some a)) (\<lambda>role.
       if role = [] then Err Already_Approved
       else
         bind_outcome (of_option Issue_NoUser (ctx_user ctx)) (\<lambda>user.
         if \<not> isUserReviewer env ctx w issue role user then Err Not_Reviewer
         else if \<not> project_AllowSelfApproval prj \<and> issue_CreatorEmail issue = User_Email user then Err Self_Approval
         else Ok user)))"

definition add_review :: "approver_status \<Rightarrow> UserMessage \<Rightarrow> Approval \<Rightarrow> Approval" where
  "add_review status user a = a\<lparr>approval_Approvers := approval_Approvers a
     @ [\<lparr>approver_Status = status, approver_Principal = FormatUserEmail (User_Email user)\<rparr>]\<rparr>"

text \<open>The approval written back whole; the row may be gone by then, and is read through its pointer.\<close>

definition store_approval :: "IssueMessage \<Rightarrow> Approval \<Rightarrow> issue_world \<Rightarrow> IssueMessage reply" where
  "store_approval issue a w =
     (case on_db (store_UpdateIssue (issue_ProjectID issue) (issue_UID issue)
            (no_update\<lparr>update_PayloadUpsert := Some (empty_Issue\<lparr>payload_Approval := Some a\<rparr>)\<rparr>)) w of
        (Inl e, w1) \<Rightarrow> (Err (Issue_Store e), w1)
      | (Inr None, w1) \<Rightarrow> (Panic, w1)
      | (Inr (Some issue1), w1) \<Rightarrow> (Ok issue1, w1))"

text \<open>A notification has no error that its caller sees, but it may panic.\<close>

definition notify :: "approval_env \<Rightarrow> IssueMessage \<Rightarrow> issue_world \<Rightarrow> unit reply" where
  "notify env issue w =
     (case NotifyApprovalRequested env issue w of (Panic, w1) \<Rightarrow> (Panic, w1) | (_, w1) \<Rightarrow> (Ok (), w1))"


section \<open>What an approved request for access brings about\<close>

definition drop_prefix :: "string \<Rightarrow> string \<Rightarrow> string option" where
  "drop_prefix identifier prefix =
     (if HasPrefix identifier prefix \<and> TrimPrefix identifier prefix \<noteq> [] then Some (TrimPrefix identifier prefix) else None)"

definition extractEmailFromUserIdentifier :: "string \<Rightarrow> string option" where
  "extractEmailFromUserIdentifier identifier =
     (if HasPrefix identifier UserNamePrefix then drop_prefix identifier UserNamePrefix
      else if HasPrefix identifier ServiceAccountNamePrefix then drop_prefix identifier ServiceAccountNamePrefix
      else if HasPrefix identifier WorkloadIdentityNamePrefix then drop_prefix identifier WorkloadIdentityNamePrefix
      else None)"

text \<open>The first binding of the role with the same expression gets the member.\<close>

primrec add_member :: "string \<Rightarrow> string \<Rightarrow> string \<Rightarrow> Binding list \<Rightarrow> Binding list option" where
  "add_member role expr member [] = None"
| "add_member role expr member (b # bs) =
     (if Binding_Role b = role \<and> GetExpression (Binding_Condition b) = expr
      then Some (b\<lparr>Binding_Members := Binding_Members b @ [member]\<rparr> # bs)
      else map_option ((#) b) (add_member role expr member bs))"

text \<open>\<open>uid\<close> is the issue's number as the description shows it.\<close>

definition grant_bindings :: "RoleGrant \<Rightarrow> string \<Rightarrow> string \<Rightarrow> Binding list \<Rightarrow> Binding list" where
  "grant_bindings grant uid member bs =
     (case add_member (grant_Role grant) (GetExpression (grant_Condition grant)) member bs of
        Some bs1 \<Rightarrow> bs1
      | None \<Rightarrow>
          let condition = (case grant_Condition grant of
                             None \<Rightarrow> \<lparr>Expr_Expression = [], Expr_Title = [], Expr_Description = [], Expr_Location = []\<rparr>
                           | Some c \<Rightarrow> c)
          in bs @ [\<lparr>Binding_Role = grant_Role grant, Binding_Members = [member],
                    Binding_Condition = Some (condition\<lparr>Expr_Description := ''#'' @ uid\<rparr>)\<rparr>])"

definition UpdateProjectPolicyFromRoleGrantIssue ::
  "approval_env \<Rightarrow> string \<Rightarrow> IssueMessage \<Rightarrow> issue_world \<Rightarrow> unit reply" where
  "UpdateProjectPolicyFromRoleGrantIssue env ws issue w =
     (case issue_RoleGrant issue of
        None \<Rightarrow> (Panic, w)
      | Some grant \<Rightarrow>
          (case extractEmailFromUserIdentifier (grant_User grant) of
             None \<Rightarrow> (Err (Grant_Invalid (grant_User grant)), w)
           | Some email \<Rightarrow>
               (case ap_GetUserByEmail env email of
                  Inl e \<Rightarrow> (Err (Env_Failure e), w)
                | Inr None \<Rightarrow> (Err (User_NotFound email), w)
                | Inr (Some newUser) \<Rightarrow>
                    if ws = [] then (Err Workspace_Required, w)
                    else (Ok (), w\<lparr>iw_policies := (iw_policies w)((ws, issue_ProjectID issue) \<mapsto>
                           \<lparr>IamPolicy_Bindings = grant_bindings grant (FormatInt (issue_UID issue))
                              (formatMemberNameByType newUser)
                              (IamPolicy_Bindings (GetProjectIamPolicy w ws (issue_ProjectID issue)))\<rparr>)\<rparr>))))"

definition activateAccessGrant ::
  "request_ctx \<Rightarrow> string \<Rightarrow> bool \<Rightarrow> issue_world \<Rightarrow> AccessGrantMessage reply" where
  "activateAccessGrant ctx accessGrantName refreshExpireTime w =
     (case GetProjectIDAccessGrantID accessGrantName of
        Inl e \<Rightarrow> (Err (Issue_BadName e), w)
      | Inr (projectID, accessGrantID) \<Rightarrow>
          (case GetAccessGrant (iw_db w) (ctx_workspace ctx) accessGrantID (Some projectID) (iw_grants w) of
             Inl e \<Rightarrow> (Err (Issue_Store e), w)
           | Inr None \<Rightarrow> (Err (Grant_Missing accessGrantName), w)
           | Inr (Some grant) \<Rightarrow>
               let activate = (\<lambda>g. g\<lparr>ag_Status := AccessGrant_ACTIVE,
                     ag_ExpireTime := (case ag_RequestedDuration grant of
                        Some d \<Rightarrow> if refreshExpireTime then Some (ctx_now ctx + d) else ag_ExpireTime g
                      | None \<Rightarrow> ag_ExpireTime g)\<rparr>)
               in (case UpdateAccessGrant accessGrantID activate (iw_grants w) of
                     (Inl e, gs) \<Rightarrow> (Err (Issue_Store e), w\<lparr>iw_grants := gs\<rparr>)
                   | (Inr g1, gs) \<Rightarrow> (Ok g1, w\<lparr>iw_grants := gs\<rparr>))))"

definition finish_issue :: "IssueMessage \<Rightarrow> issue_world \<Rightarrow> IssueMessage reply" where
  "finish_issue issue w =
     (case on_db (store_UpdateIssue (issue_ProjectID issue) (issue_UID issue) (no_update\<lparr>update_Status := Some Issue_DONE\<rparr>)) w of
        (Inl e, w1) \<Rightarrow> (Err (Issue_Store e), w1)
      | (Inr None, w1) \<Rightarrow> (Panic, w1)
      | (Inr (Some issue1), w1) \<Rightarrow> (Ok issue1, w1))"

definition completeAccessRequestIssue ::
  "approval_env \<Rightarrow> request_ctx \<Rightarrow> IssueMessage \<Rightarrow> issue_world \<Rightarrow> IssueMessage reply" where
  "completeAccessRequestIssue env ctx issue w =
     (case issue_Type issue of
        Issue_ACCESS_GRANT \<Rightarrow>
          if issue_AccessGrantId issue = [] then (Err (Grant_Invalid []), w)
          else and_then (activateAccessGrant ctx (FormatAccessGrant (issue_ProjectID issue) (issue_AccessGrantId issue)) True w)
                 (\<lambda>_ w1. finish_issue issue w1)
      | Issue_ROLE_GRANT \<Rightarrow>
          and_then (UpdateProjectPolicyFromRoleGrantIssue env (ctx_workspace ctx) issue w) (\<lambda>_ w1. finish_issue issue w1)
      | _ \<Rightarrow> (Ok issue, w))"


section \<open>Reviews\<close>

text \<open>
  \<open>ApproveIssue\<close> after its checks.  The completion of the request overwrites the issue; where it fails
  the issue is nil, and the response is made of it.
\<close>

definition after_approval ::
  "approval_env \<Rightarrow> request_ctx \<Rightarrow> UserMessage \<Rightarrow> bool \<Rightarrow> IssueMessage \<Rightarrow> issue_world \<Rightarrow> unit reply" where
  "after_approval env ctx user approved issue w =
     and_then (notify env issue w) (\<lambda>_ w1.
     and_then
       (if approved then
          (case completeAccessRequestIssue env ctx issue (NotifyIssueApproved env issue user w1) of
             (Ok issue1, w2) \<Rightarrow> (Ok issue1, w2)
           | (_, w2) \<Rightarrow> (Panic, w2))
        else (Ok issue, w1)) (\<lambda>issue1 w2.
     (Ok (),
      if computeApprovalStatus (issue_Approval issue1) = APPROVED then
        (case issue_PlanUID issue1 of Some p \<Rightarrow> RequestRolloutCreation (issue_ProjectID issue1, p) w2 | None \<Rightarrow> w2)
      else w2)))"

text \<open>
  The handlers in two parts: what is decided from the issue as it was read, and what is written after it.
  Between the two other requests may run; the handler itself is the one after the other.
\<close>

definition approve_read ::
  "approval_env \<Rightarrow> request_ctx \<Rightarrow> string \<Rightarrow> issue_world \<Rightarrow> (issue_reason, IssueMessage \<times> UserMessage \<times> Approval \<times> bool) outcome" where
  "approve_read env ctx name w =
     bind_outcome (load_review ctx w name) (\<lambda>(issue, prj, a).
     bind_outcome (check_reviewer env ctx w issue prj a) (\<lambda>user.
     bind_outcome (CheckApprovalApproved (Some (add_review Approver_APPROVED user a))) (\<lambda>approved.
     Ok (issue, user, add_review Approver_APPROVED user a, approved))))"

definition approve_write ::
  "approval_env \<Rightarrow> request_ctx \<Rightarrow> (issue_reason, IssueMessage \<times> UserMessage \<times> Approval \<times> bool) outcome \<Rightarrow> issue_world \<Rightarrow> unit reply" where
  "approve_write env ctx decided w =
     (case decided of
        Panic \<Rightarrow> (Panic, w)
      | Err e \<Rightarrow> (Err e, w)
      | Ok (issue, user, a1, approved) \<Rightarrow>
          and_then (store_approval issue a1 w) (after_approval env ctx user approved))"

definition ApproveIssue :: "approval_env \<Rightarrow> request_ctx \<Rightarrow> string \<Rightarrow> issue_world \<Rightarrow> unit reply" where
  "ApproveIssue env ctx name w = approve_write env ctx (approve_read env ctx name w) w"

definition reject_read ::
  "approval_env \<Rightarrow> request_ctx \<Rightarrow> string \<Rightarrow> issue_world \<Rightarrow> (issue_reason, IssueMessage \<times> UserMessage \<times> Approval) outcome" where
  "reject_read env ctx name w =
     bind_outcome (load_review ctx w name) (\<lambda>(issue, prj, a).
     bind_outcome (check_reviewer env ctx w issue prj a) (\<lambda>user.
     Ok (issue, user, add_review Approver_REJECTED user a)))"

definition reject_write ::
  "approval_env \<Rightarrow> (issue_reason, IssueMessage \<times> UserMessage \<times> Approval) outcome \<Rightarrow> issue_world \<Rightarrow> unit reply" where
  "reject_write env decided w =
     (case decided of
        Panic \<Rightarrow> (Panic, w)
      | Err e \<Rightarrow> (Err e, w)
      | Ok (issue, user, a1) \<Rightarrow>
          and_then (store_approval issue a1 w) (\<lambda>issue1 w1.
          case GetAccountByEmail (ap_access env) (issue_CreatorEmail issue1) of
            Inl e \<Rightarrow> (Err (Creator_Failure e), w1)
          | Inr None \<Rightarrow> (Panic, w1)
          | Inr (Some _) \<Rightarrow> (Ok (), send_event (ISSUE_SENT_BACK (issue_UID issue1) (User_Email user)) w1)))"

definition RejectIssue :: "approval_env \<Rightarrow> request_ctx \<Rightarrow> string \<Rightarrow> issue_world \<Rightarrow> unit reply" where
  "RejectIssue env ctx name w = reject_write env (reject_read env ctx name w) w"

definition without_rejections :: "Approval \<Rightarrow> Approval" where
  "without_rejections a = a\<lparr>approval_Approvers :=
     filter (\<lambda>approver. approver_Status approver \<noteq> Approver_REJECTED) (approval_Approvers a)\<rparr>"

definition request_read ::
  "request_ctx \<Rightarrow> string \<Rightarrow> issue_world \<Rightarrow> (issue_reason, IssueMessage \<times> Approval) outcome" where
  "request_read ctx name w =
     bind_outcome (load_review ctx w name) (\<lambda>(issue, prj, a).
     bind_outcome (FindRejectedRole (Some a)) (\<lambda>rejectedRole.
     if rejectedRole = [] then Err Not_Rejected
     else
       bind_outcome (of_option Issue_NoUser (ctx_user ctx)) (\<lambda>user.
       if \<not> canRequestIssue (issue_CreatorEmail issue) user then Err Not_Creator
       else Ok (issue, without_rejections a))))"

definition request_write ::
  "approval_env \<Rightarrow> (issue_reason, IssueMessage \<times> Approval) outcome \<Rightarrow> issue_world \<Rightarrow> unit reply" where
  "request_write env decided w =
     (case decided of
        Panic \<Rightarrow> (Panic, w)
      | Err e \<Rightarrow> (Err e, w)
      | Ok (issue, a1) \<Rightarrow> and_then (store_approval issue a1 w) (notify env))"

definition RequestIssue :: "approval_env \<Rightarrow> request_ctx \<Rightarrow> string \<Rightarrow> issue_world \<Rightarrow> unit reply" where
  "RequestIssue env ctx name w = request_write env (request_read ctx name w) w"

end
