(* ===== verification/IssueRequests.thy ===== *)
theory IssueRequests
  imports IssueService
begin

text \<open>
  The requests that create issues and change them (\<^verbatim>\<open>api/v1/issue_service.go\<close>, \<^verbatim>\<open>issue_hook.go\<close>,
  \<^verbatim>\<open>issue_service_lifecycle.go\<close>), and those on access grants: creating, activating and revoking one
  (\<^verbatim>\<open>access_grant_service.go\<close>), and the search for a grant that lets a query run
  (\<^verbatim>\<open>preCheckAccess\<close> in \<^verbatim>\<open>sql_service_access.go\<close>).
\<close>

section \<open>Creating an issue\<close>

text \<open>
  What follows the insertion.  A failed search for the template is logged; the issue is read again and
  may be gone.
\<close>

definition refresh_issue :: "request_ctx \<Rightarrow> IssueMessage \<Rightarrow> issue_world \<Rightarrow> IssueMessage reply" where
  "refresh_issue ctx issue w =
     (case GetIssue (iw_db w) (ctx_workspace ctx) (issue_ProjectID issue) (Some (issue_UID issue)) None of
        Inl e \<Rightarrow> (Err (Issue_Store e), w)
      | Inr None \<Rightarrow> (Panic, w)
      | Inr (Some issue1) \<Rightarrow> (Ok issue1, w))"

definition apply_template :: "approval_env \<Rightarrow> IssueMessage \<Rightarrow> issue_world \<Rightarrow> unit reply" where
  "apply_template env issue w =
     (case FindAndApplyApprovalTemplate env issue w of (Panic, w1) \<Rightarrow> (Panic, w1) | (_, w1) \<Rightarrow> (Ok (), w1))"

definition postCreateIssue :: "approval_env \<Rightarrow> request_ctx \<Rightarrow> IssueMessage \<Rightarrow> issue_world \<Rightarrow> IssueMessage reply" where
  "postCreateIssue env ctx issue w =
     (let w0 = send_event (ISSUE_CREATED (issue_UID issue)) w
      in if issue_Type issue \<in> {Issue_ACCESS_GRANT, Issue_ROLE_GRANT, Issue_DATABASE_EXPORT} then
           and_then (apply_template env issue w0) (\<lambda>_ w1.
           and_then (refresh_issue ctx issue w1) (\<lambda>issue1 w2.
           if issue_Type issue1 = Issue_DATABASE_EXPORT then (Ok issue1, w2)
           else
             (case CheckApprovalApproved (issue_Approval issue1) of
                Panic \<Rightarrow> (Panic, w2)
              | Err e \<Rightarrow> (Err e, w2)
              | Ok approved \<Rightarrow>
                  if approved then completeAccessRequestIssue env ctx issue1 w2 else (Ok issue1, w2))))
         else if issue_Type issue = Issue_DATABASE_CHANGE then
           (Ok issue, RequestApprovalCheck (issue_ProjectID issue, issue_UID issue) w0)
         else (Ok issue, w0))"

record CreateIssueRequest =
  create_issue_Parent :: string
  create_issue_Title :: string
  create_issue_Type :: Issue_Type
  create_issue_Plan :: string
  create_issue_Description :: string
  create_issue_Labels :: "string list"
  create_issue_RoleGrant :: "RoleGrant option"

definition role_of_grant :: "RoleGrant option \<Rightarrow> string" where
  "role_of_grant g = (case g of None \<Rightarrow> [] | Some r \<Rightarrow> grant_Role r)"

definition user_of_grant :: "RoleGrant option \<Rightarrow> string" where
  "user_of_grant g = (case g of None \<Rightarrow> [] | Some r \<Rightarrow> grant_User r)"

definition checked_grant ::
  "approval_env \<Rightarrow> request_ctx \<Rightarrow> CreateIssueRequest \<Rightarrow> (issue_reason, RoleGrant) outcome" where
  "checked_grant env ctx req =
     (if TrimSpace (create_issue_Title req) = [] then Err Title_Required
      else case ap_RoleFeature env (ctx_workspace ctx) of
        Some e \<Rightarrow> Err (Feature_Missing e)
      | None \<Rightarrow>
          if role_of_grant (create_issue_RoleGrant req) = [] then Err Role_Required
          else if user_of_grant (create_issue_RoleGrant req) = [] then Err User_Required
          else
            (case create_issue_RoleGrant req of
               None \<Rightarrow> Err Role_Required
             | Some grant \<Rightarrow>
                 bind_outcome
                   (if GetExpression (grant_Condition grant) = [] then Ok ()
                    else case ap_parse env (GetExpression (grant_Condition grant)) of Inl e \<Rightarrow> Err (Bad_Condition e) | Inr _ \<Rightarrow> Ok ())
                   (\<lambda>_.
                 bind_outcome (of_sum (\<lambda>_. Grant_Invalid (grant_User grant)) (GetUserEmail (grant_User grant))) (\<lambda>email.
                 bind_outcome (of_sum Env_Failure (ap_GetUserByEmail env email)) (\<lambda>user.
                 bind_outcome (of_option (User_NotFound (grant_User grant)) user) (\<lambda>u.
                 Ok (grant\<lparr>grant_User := FormatUserEmail (User_Email u)\<rparr>)))))))"

definition plan_of_request ::
  "request_ctx \<Rightarrow> issue_world \<Rightarrow> project_row \<Rightarrow> CreateIssueRequest \<Rightarrow> (issue_reason, PlanMessage) outcome" where
  "plan_of_request ctx w prj req =
     (if create_issue_Plan req = [] then Err Plan_Required
      else
        bind_outcome (of_sum Issue_BadName (GetProjectIDPlanID (create_issue_Plan req))) (\<lambda>(_, planID).
        bind_outcome (of_sum Issue_Store (GetPlan (iw_db w) (ctx_workspace ctx) (project_id prj) (sint planID))) (\<lambda>plan.
        of_option (Plan_Missing (sint planID)) plan)))"

definition buildIssueMessage ::
  "approval_env \<Rightarrow> request_ctx \<Rightarrow> issue_world \<Rightarrow> project_row \<Rightarrow> string \<Rightarrow> CreateIssueRequest
   \<Rightarrow> (issue_reason, IssueMessage) outcome" where
  "buildIssueMessage env ctx w prj userEmail req =
     (let issue = \<lparr>issue_UID = 0, issue_ProjectID = project_id prj, issue_PlanUID = None, issue_CreatorEmail = userEmail,
            issue_Status = Issue_OPEN, issue_Type = create_issue_Type req,
            issue_Approval = Some \<lparr>approval_Template = None, approval_Approvers = [], approval_FindingDone = False\<rparr>,
            issue_Title = TrimSpace (create_issue_Title req), issue_Description = create_issue_Description req,
            issue_RoleGrant = None, issue_Labels = create_issue_Labels req, issue_RiskLevel = RISK_LEVEL_UNSPECIFIED,
            issue_AccessGrantId = []\<rparr>
      in if create_issue_Type req = Issue_ROLE_GRANT then
           bind_outcome (checked_grant env ctx req) (\<lambda>grant. Ok (issue\<lparr>issue_RoleGrant := Some grant\<rparr>))
         else if create_issue_Type req \<in> {Issue_DATABASE_CHANGE, Issue_DATABASE_EXPORT} then
           bind_outcome (plan_of_request ctx w prj req) (\<lambda>plan.
           Ok (issue\<lparr>issue_PlanUID := Some (plan_UID plan),
                 issue_Title := (if issue_Title issue = [] then plan_Name plan else issue_Title issue),
                 issue_Description := (if issue_Description issue = [] then plan_Description plan else issue_Description issue)\<rparr>))
         else Err (Unknown_Type (create_issue_Type req)))"

definition insert_issue :: "IssueMessage \<Rightarrow> issue_world \<Rightarrow> IssueMessage reply" where
  "insert_issue issue w =
     (case on_db (store_CreateIssue issue) w of
        (Inl e, w1) \<Rightarrow> (Err (Issue_Store e), w1)
      | (Inr None, w1) \<Rightarrow> (Panic, w1)
      | (Inr (Some issue1), w1) \<Rightarrow> (Ok issue1, w1))"

definition CreateIssue :: "approval_env \<Rightarrow> request_ctx \<Rightarrow> CreateIssueRequest \<Rightarrow> issue_world \<Rightarrow> IssueMessage reply" where
  "CreateIssue env ctx req w =
     (case bind_outcome (of_sum Issue_BadName (GetProjectID (create_issue_Parent req))) (\<lambda>projectID.
           bind_outcome (issue_project ctx w projectID) (\<lambda>prj.
           if project_ForceIssueLabels prj \<and> create_issue_Labels req = [] then Err Labels_Required
           else
             bind_outcome (of_option Issue_NoUser (ctx_user ctx)) (\<lambda>user.
             buildIssueMessage env ctx w prj (User_Email user) req))) of
        Panic \<Rightarrow> (Panic, w)
      | Err e \<Rightarrow> (Err e, w)
      | Ok issue \<Rightarrow> and_then (insert_issue issue w) (postCreateIssue env ctx))"


section \<open>Changing issues\<close>

text \<open>\<open>BatchUpdateIssuesStatus\<close>: all names parse and name issues of one project.\<close>

fun same_project :: "(string \<times> int) list \<Rightarrow> (issue_reason, string \<times> int list) outcome" where
  "same_project [] = Ok ([], [])"
| "same_project ((p, i) # refs) =
     (if list_all (\<lambda>r. fst r = p) refs then Ok (p, i # map snd refs) else Err Mixed_Projects)"

definition issue_ref :: "string \<Rightarrow> (issue_reason, string \<times> int) outcome" where
  "issue_ref name = bind_outcome (of_sum Issue_BadName (GetProjectIDIssueUID name)) (\<lambda>(p, i). Ok (p, sint i))"

definition BatchUpdateIssuesStatus ::
  "request_ctx \<Rightarrow> string list \<Rightarrow> Issue_Status \<Rightarrow> issue_world \<Rightarrow> unit reply" where
  "BatchUpdateIssuesStatus ctx issues newStatus w =
     (if ctx_user ctx = None then (Err Issue_NoUser, w)
      else if issues = [] then (Ok (), w)
      else if newStatus = ISSUE_STATUS_UNSPECIFIED then (Err Unspecified_Status, w)
      else
        (case bind_outcome (traverse issue_ref issues) (\<lambda>refs.
              bind_outcome (same_project refs) (\<lambda>(projectID, issueUIDs).
              bind_outcome (issue_project ctx w projectID) (\<lambda>_. Ok (projectID, issueUIDs)))) of
           Panic \<Rightarrow> (Panic, w)
         | Err e \<Rightarrow> (Err e, w)
         | Ok (projectID, issueUIDs) \<Rightarrow>
             (case on_db (store_BatchUpdateIssueStatuses projectID issueUIDs newStatus) w of
                (Inl e, w1) \<Rightarrow> (Err (Batch_Failed e), w1)
              | (Inr _, w1) \<Rightarrow> (Ok (), w1))))"

text \<open>The fields of an update by the paths of its mask; a path that is not known is passed over.\<close>

definition update_path :: "string \<Rightarrow> string \<Rightarrow> string list \<Rightarrow> string \<Rightarrow> UpdateIssueMessage \<Rightarrow> (issue_reason, UpdateIssueMessage) outcome" where
  "update_path title description labels path patch =
     (if path = ''title'' then
        if TrimSpace title = [] then Err Title_Required else Ok (patch\<lparr>update_Title := Some (TrimSpace title)\<rparr>)
      else if path = ''description'' then Ok (patch\<lparr>update_Description := Some description\<rparr>)
      else if path = ''labels'' then
        if labels = [] then Ok (patch\<lparr>update_RemoveLabels := True\<rparr>)
        else Ok (patch\<lparr>update_PayloadUpsert := Some ((case update_PayloadUpsert patch of None \<Rightarrow> empty_Issue | Some p \<Rightarrow> p)
               \<lparr>payload_Labels := labels\<rparr>)\<rparr>)
      else Ok patch)"

primrec update_paths ::
  "string \<Rightarrow> string \<Rightarrow> string list \<Rightarrow> string list \<Rightarrow> UpdateIssueMessage \<Rightarrow> (issue_reason, UpdateIssueMessage) outcome" where
  "update_paths title description labels [] patch = Ok patch"
| "update_paths title description labels (p # ps) patch =
     bind_outcome (update_path title description labels p patch) (update_paths title description labels ps)"

record UpdateIssueRequest =
  upd_Name :: string
  upd_Paths :: "string list option"
  upd_AllowMissing :: bool
  upd_Create :: CreateIssueRequest

definition IssuesCreate :: string where
  "IssuesCreate = ''bb.issues.create''"

definition project_of_name :: "string \<Rightarrow> string option" where
  "project_of_name name =
     (case Split name ''/'' of
        a # p # b # _ # _ \<Rightarrow> if a = ''projects'' \<and> b = ''issues'' then Some p else None
      | _ \<Rightarrow> None)"

text \<open>A missing issue is created where the request allows it and the workspace lets the user create issues.\<close>

definition create_missing ::
  "approval_env \<Rightarrow> request_ctx \<Rightarrow> UserMessage \<Rightarrow> UpdateIssueRequest \<Rightarrow> issue_world \<Rightarrow> IssueMessage reply" where
  "create_missing env ctx user req w =
     (case CheckPermission (ap_access env) (ctx_saas ctx) IssuesCreate user (ctx_workspace ctx) [] of
        Inl e \<Rightarrow> (Err (Env_Failure e), w)
      | Inr ok \<Rightarrow>
          if \<not> ok then (Err Permission_Missing, w)
          else
            (case project_of_name (upd_Name req) of
               None \<Rightarrow> (Err (Issue_BadName (InvalidName ''issue'' (upd_Name req))), w)
             | Some p \<Rightarrow> CreateIssue env ctx ((upd_Create req)\<lparr>create_issue_Parent := FormatProject p\<rparr>) w))"

definition UpdateIssue :: "approval_env \<Rightarrow> request_ctx \<Rightarrow> UpdateIssueRequest \<Rightarrow> issue_world \<Rightarrow> IssueMessage reply" where
  "UpdateIssue env ctx req w =
     (case ctx_user ctx of
        None \<Rightarrow> (Err Issue_NoUser, w)
      | Some user \<Rightarrow>
          (case upd_Paths req of
             None \<Rightarrow> (Err Mask_Required, w)
           | Some paths \<Rightarrow>
               (case getIssueMessage ctx w (upd_Name req) of
                  Panic \<Rightarrow> (Panic, w)
                | Err e \<Rightarrow>
                    if issue_code e = NotFound \<and> upd_AllowMissing req then create_missing env ctx user req w else (Err e, w)
                | Ok issue \<Rightarrow>
                    (case bind_outcome (issue_project ctx w (issue_ProjectID issue)) (\<lambda>_.
                          update_paths (create_issue_Title (upd_Create req)) (create_issue_Description (upd_Create req))
                            (create_issue_Labels (upd_Create req)) paths no_update) of
                       Panic \<Rightarrow> (Panic, w)
                     | Err e \<Rightarrow> (Err e, w)
                     | Ok patch \<Rightarrow>
                         (case on_db (store_UpdateIssue (issue_ProjectID issue) (issue_UID issue) patch) w of
                            (Inl e, w1) \<Rightarrow> (Err (Issue_Store e), w1)
                          | (Inr None, w1) \<Rightarrow> (Panic, w1)
                          | (Inr (Some issue1), w1) \<Rightarrow> (Ok issue1, w1))))))"


section \<open>Access grants\<close>

datatype grant_expiration = ExpireTime "int option" | Ttl "int option" | NoExpiration

record CreateAccessGrantRequest =
  cag_Parent :: string
  cag_Creator :: string
  cag_Targets :: "string list"
  cag_Query :: string
  cag_Unmask :: bool
  cag_Reason :: string
  cag_Expiration :: grant_expiration

text \<open>The engine of an instance of the workspace, and whether a statement only reads.\<close>

record instance_env =
  ie_InstanceEngine :: "string \<Rightarrow> string \<Rightarrow> go_error + Engine option"
  ie_ReadOnly :: "Engine \<Rightarrow> string \<Rightarrow> go_error + bool"

datatype grant_reason =
  Grant_Reason issue_reason
| Grant_Feature go_error
| Field_Required string
| No_Instance string
| Not_ReadOnly
| Bad_Query go_error

definition grant_expiry :: "grant_expiration \<Rightarrow> (grant_reason, int option \<times> int option) outcome" where
  "grant_expiry ex =
     (case ex of
        ExpireTime t \<Rightarrow> of_option (Field_Required ''expire_time'') (map_option (\<lambda>v. (Some v, None)) t)
      | Ttl d \<Rightarrow> of_option (Field_Required ''ttl'') (map_option (\<lambda>v. (None, Some v)) d)
      | NoExpiration \<Rightarrow> Err (Field_Required ''expiration''))"

definition new_grant ::
  "approval_env \<Rightarrow> instance_env \<Rightarrow> request_ctx \<Rightarrow> string \<Rightarrow> CreateAccessGrantRequest \<Rightarrow> (grant_reason, AccessGrantMessage) outcome" where
  "new_grant env ie ctx uuid req =
     (case ap_AccessFeature env (ctx_workspace ctx) of
        Some e \<Rightarrow> Err (Grant_Feature e)
      | None \<Rightarrow>
          bind_outcome (of_sum (Grant_Reason \<circ> Issue_BadName) (GetProjectID (cag_Parent req))) (\<lambda>projectID.
          if cag_Creator req = [] then Err (Field_Required ''creator'')
          else if cag_Targets req = [] then Err (Field_Required ''targets'')
          else if cag_Query req = [] then Err (Field_Required ''query'')
          else if cag_Reason req = [] then Err (Field_Required ''reason'')
          else
            bind_outcome (of_sum (Grant_Reason \<circ> Issue_BadName) (GetInstanceDatabaseID (hd (cag_Targets req)))) (\<lambda>(instanceID, _).
            bind_outcome (of_sum (Grant_Reason \<circ> Env_Failure) (ie_InstanceEngine ie (ctx_workspace ctx) instanceID)) (\<lambda>found.
            bind_outcome (of_option (No_Instance instanceID) found) (\<lambda>engine.
            bind_outcome (of_sum Bad_Query (ie_ReadOnly ie engine (cag_Query req))) (\<lambda>ok.
            if \<not> ok then Err Not_ReadOnly
            else
              bind_outcome (of_sum (Grant_Reason \<circ> Issue_BadName) (GetUserEmail (cag_Creator req))) (\<lambda>creatorEmail.
              bind_outcome (grant_expiry (cag_Expiration req)) (\<lambda>(expireTime, requestedDuration).
              Ok \<lparr>ag_ID = uuid, ag_ProjectID = projectID, ag_Creator = creatorEmail, ag_Status = AccessGrant_PENDING,
                  ag_ExpireTime = expireTime, ag_Targets = cag_Targets req, ag_Query = cag_Query req,
                  ag_Unmask = cag_Unmask req, ag_Reason = cag_Reason req, ag_RequestedDuration = requestedDuration,
                  ag_IssueId = 0\<rparr>))))))))"

definition grant_issue :: "AccessGrantMessage \<Rightarrow> IssueMessage" where
  "grant_issue g =
     \<lparr>issue_UID = 0, issue_ProjectID = ag_ProjectID g, issue_PlanUID = None, issue_CreatorEmail = ag_Creator g,
      issue_Status = Issue_OPEN, issue_Type = Issue_ACCESS_GRANT,
      issue_Approval = Some \<lparr>approval_Template = None, approval_Approvers = [], approval_FindingDone = False\<rparr>,
      issue_Title = ''JIT access request by '' @ ag_Creator g, issue_Description = ag_Reason g, issue_RoleGrant = None,
      issue_Labels = [], issue_RiskLevel = RISK_LEVEL_UNSPECIFIED, issue_AccessGrantId = ag_ID g\<rparr>"

definition as_grant_reply :: "'a reply \<Rightarrow> (grant_reason, 'a) outcome \<times> issue_world" where
  "as_grant_reply r = (wrap Grant_Reason (fst r), snd r)"

definition CreateAccessGrant ::
  "approval_env \<Rightarrow> instance_env \<Rightarrow> request_ctx \<Rightarrow> string \<Rightarrow> CreateAccessGrantRequest \<Rightarrow> issue_world
   \<Rightarrow> (grant_reason, unit) outcome \<times> issue_world" where
  "CreateAccessGrant env ie ctx uuid req w =
     (case new_grant env ie ctx uuid req of
        Panic \<Rightarrow> (Panic, w)
      | Err e \<Rightarrow> (Err e, w)
      | Ok g \<Rightarrow>
          (case CreateAccessGrant_store g (iw_db w) (iw_grants w) of
             (Inl e, gs) \<Rightarrow> (Err (Grant_Reason (Issue_Store e)), w\<lparr>iw_grants := gs\<rparr>)
           | (Inr g1, gs) \<Rightarrow>
               and_then (as_grant_reply (insert_issue (grant_issue g1) (w\<lparr>iw_grants := gs\<rparr>))) (\<lambda>issue w1.
               (case UpdateAccessGrant (ag_ID g1) (\<lambda>g. g\<lparr>ag_IssueId := issue_UID issue\<rparr>) (iw_grants w1) of
                  (Inl e, gs1) \<Rightarrow> (Err (Grant_Reason (Issue_Store e)), w1\<lparr>iw_grants := gs1\<rparr>)
                | (Inr _, gs1) \<Rightarrow>
                    (case find_project (iw_db w1) (ctx_workspace ctx) (ag_ProjectID g1) of
                       None \<Rightarrow> (Ok (), w1\<lparr>iw_grants := gs1\<rparr>)
                     | Some _ \<Rightarrow>
                         and_then (as_grant_reply (postCreateIssue env ctx issue (w1\<lparr>iw_grants := gs1\<rparr>)))
                           (\<lambda>_ w2. (Ok (), w2)))))))"

definition ActivateAccessGrant ::
  "approval_env \<Rightarrow> request_ctx \<Rightarrow> string \<Rightarrow> issue_world \<Rightarrow> (grant_reason, AccessGrantMessage) outcome \<times> issue_world" where
  "ActivateAccessGrant env ctx name w =
     (case ap_AccessFeature env (ctx_workspace ctx) of
        Some e \<Rightarrow> (Err (Grant_Feature e), w)
      | None \<Rightarrow> as_grant_reply (activateAccessGrant ctx name False w))"

definition RevokeAccessGrant ::
  "approval_env \<Rightarrow> request_ctx \<Rightarrow> string \<Rightarrow> issue_world \<Rightarrow> (grant_reason, AccessGrantMessage) outcome \<times> issue_world" where
  "RevokeAccessGrant env ctx name w =
     (case ap_AccessFeature env (ctx_workspace ctx) of
        Some e \<Rightarrow> (Err (Grant_Feature e), w)
      | None \<Rightarrow>
          (case GetProjectIDAccessGrantID name of
             Inl e \<Rightarrow> (Err (Grant_Reason (Issue_BadName e)), w)
           | Inr (projectID, accessGrantID) \<Rightarrow>
               (case GetAccessGrant (iw_db w) (ctx_workspace ctx) accessGrantID (Some projectID) (iw_grants w) of
                  Inl e \<Rightarrow> (Err (Grant_Reason (Issue_Store e)), w)
                | Inr None \<Rightarrow> (Err (Grant_Reason (Grant_Missing name)), w)
                | Inr (Some grant) \<Rightarrow>
                    if ag_Status grant \<noteq> AccessGrant_ACTIVE then (Err (Grant_Reason (Grant_NotActive name)), w)
                    else
                      (case UpdateAccessGrant accessGrantID (\<lambda>g. g\<lparr>ag_Status := AccessGrant_REVOKED\<rparr>) (iw_grants w) of
                         (Inl e, gs) \<Rightarrow> (Err (Grant_Reason (Issue_Store e)), w\<lparr>iw_grants := gs\<rparr>)
                       | (Inr g1, gs) \<Rightarrow> (Ok g1, w\<lparr>iw_grants := gs\<rparr>)))))"

text \<open>
  The grant a query runs under.  The filter compares the query, stripped of spaces by \<^verbatim>\<open>btrim\<close> of the
  database, with the statement stripped of white space, and the expiry with the time in whole seconds;
  a missing expiry compares to nothing.  The newest grant comes first; one that unmasks is preferred.
\<close>

definition btrim :: "string \<Rightarrow> string" where
  "btrim s = rev (dropWhile (\<lambda>c. c = CHR '' '') (rev (dropWhile (\<lambda>c. c = CHR '' '') s)))"

definition second_floor :: "int \<Rightarrow> int" where
  "second_floor t = t - t mod 1000000000"

definition grant_applies :: "request_ctx \<Rightarrow> string \<Rightarrow> string \<Rightarrow> AccessGrantMessage \<Rightarrow> bool" where
  "grant_applies ctx databaseFullName statement g \<longleftrightarrow>
     ag_Status g = AccessGrant_ACTIVE \<and> databaseFullName \<in> set (ag_Targets g)
     \<and> (case ag_ExpireTime g of None \<Rightarrow> False | Some t \<Rightarrow> second_floor (ctx_now ctx) < t)
     \<and> btrim (ag_Query g) = TrimSpace statement"

definition preCheckAccess ::
  "request_ctx \<Rightarrow> string \<Rightarrow> ('a DatabaseMessage_scheme) \<Rightarrow> issue_world \<Rightarrow> AccessGrantMessage option" where
  "preCheckAccess ctx statement database w =
     (case find_project (iw_db w) (ctx_workspace ctx) (Database_ProjectID database) of
        None \<Rightarrow> None
      | Some prj \<Rightarrow>
          if \<not> project_AllowJustInTimeAccess prj then None
          else
            (case ctx_user ctx of
               None \<Rightarrow> None
             | Some user \<Rightarrow>
                 let grants = filter (\<lambda>g. ag_ProjectID g = Database_ProjectID database \<and> ag_Creator g = User_Email user
                       \<and> in_workspace (iw_db w) (ctx_workspace ctx) (ag_ProjectID g)
                       \<and> grant_applies ctx (database_full_name database) statement g) (rev (iw_grants w))
                 in (case find ag_Unmask grants of
                       Some g \<Rightarrow> Some g
                     | None \<Rightarrow> (case grants of [] \<Rightarrow> None | g # _ \<Rightarrow> Some g))))"

end
