(* ===== verification/PlanService.thy ===== *)
theory PlanService
  imports IssueRequests
begin

text \<open>
  Plans and their checks: the validation of specs and the handlers of \<^verbatim>\<open>api/v1/plan_service.go\<close> and
  \<^verbatim>\<open>plan_service_spec.go\<close>, the targets of the checks (\<^verbatim>\<open>runner/plancheck/derive.go\<close>) and their scheduler
  (\<^verbatim>\<open>runner/plancheck/scheduler.go\<close>).  Parameters: the existence of instances, databases, sheets and
  releases, the directive for gh-ost in a sheet, and the executor of a check.
\<close>

section \<open>Specs\<close>

record Plan_ChangeDatabaseConfig =
  v1_change_Targets :: "string list"
  v1_change_Sheet :: string
  v1_change_Release :: string

record Plan_ExportDataConfig =
  v1_export_Targets :: "string list"
  v1_export_Sheet :: string

datatype v1_config =
  V1_CreateDatabaseConfig PlanConfig_CreateDatabaseConfig
| V1_ChangeDatabaseConfig Plan_ChangeDatabaseConfig
| V1_ExportDataConfig Plan_ExportDataConfig
| V1_NoConfig

record Plan_Spec =
  spec_Id :: string
  spec_Config :: v1_config

text \<open>
  A converted spec.  A sheet whose name does not parse makes the conversion return a nil pointer in
  the \<^verbatim>\<open>oneof\<close>: in memory it has the type of its config still, and the store writes no config at all.
\<close>

datatype mem_config = MemConfig spec_config | NilChangeConfig | NilExportConfig

definition sheet_sha :: "string \<Rightarrow> string option" where
  "sheet_sha sheet =
     (if sheet = [] then Some []
      else case GetProjectResourceIDSheetSha256 sheet of Inl _ \<Rightarrow> None | Inr (_, sha256) \<Rightarrow> Some sha256)"

fun convertPlanSpec :: "v1_config \<Rightarrow> mem_config" where
  "convertPlanSpec (V1_CreateDatabaseConfig c) = MemConfig (CreateDatabaseConfig c)"
| "convertPlanSpec (V1_ChangeDatabaseConfig c) =
     (case sheet_sha (v1_change_Sheet c) of
        None \<Rightarrow> NilChangeConfig
      | Some sha \<Rightarrow> MemConfig (ChangeDatabaseConfig
          \<lparr>change_Targets = v1_change_Targets c, change_SheetSha256 = sha, change_Release = v1_change_Release c\<rparr>))"
| "convertPlanSpec (V1_ExportDataConfig c) =
     (case sheet_sha (v1_export_Sheet c) of
        None \<Rightarrow> NilExportConfig
      | Some sha \<Rightarrow> MemConfig (ExportDataConfig \<lparr>export_Targets = v1_export_Targets c, export_SheetSha256 = sha\<rparr>))"
| "convertPlanSpec V1_NoConfig = MemConfig NoSpecConfig"

definition convertPlanSpecs :: "Plan_Spec list \<Rightarrow> mem_config list" where
  "convertPlanSpecs specs = map (\<lambda>s. convertPlanSpec (spec_Config s)) specs"

fun stored_config :: "mem_config \<Rightarrow> spec_config" where
  "stored_config (MemConfig c) = c"
| "stored_config NilChangeConfig = NoSpecConfig"
| "stored_config NilExportConfig = NoSpecConfig"

definition storePlanConfigHasRelease :: "spec_config list \<Rightarrow> bool" where
  "storePlanConfigHasRelease specs =
     list_ex (\<lambda>s. case s of ChangeDatabaseConfig c \<Rightarrow> change_Release c \<noteq> [] | _ \<Rightarrow> False) specs"

definition storePlanConfigHasCreateDatabase :: "spec_config list \<Rightarrow> bool" where
  "storePlanConfigHasCreateDatabase specs = list_ex is_create_database specs"


section \<open>Validation\<close>

record plan_env =
  pe_HasInstance :: "string \<Rightarrow> string \<Rightarrow> go_error + bool"
  pe_DatabaseProject :: "string \<Rightarrow> string \<Rightarrow> string \<Rightarrow> go_error + string option"
  pe_HasSheets :: "string list \<Rightarrow> go_error + bool"
  pe_HasRelease :: "string \<Rightarrow> string \<Rightarrow> go_error + bool"
  pe_GhostFlags :: "string \<Rightarrow> (go_error + unit) option"

datatype plan_reason =
  Zero_Specs
| Empty_SpecID
| Duplicate_SpecID string
| Spec_BadName name_error
| Bad_Target string
| Mixed_Targets
| Bad_SpecType
| Mixed_Types nat
| Release_And_Sheet
| Many_Releases
| Many_Instances
| Many_Groups
| Group_And_Databases
| Plan_EnvFailure go_error
| No_SpecInstance string
| Other_Project string string
| No_Group string
| No_SpecDatabase string
| No_Sheets
| No_Release string
| Group_Failure approval_error
| Plan_Reason issue_reason
| Plan_NoUser
| Plan_NoProject string
| Plan_NotFound int
| Plan_Store task_error
| Title_Missing
| Mask_Missing
| Mask_Empty
| Specs_Of_Release
| Specs_Of_Creation
| Plan_NotPermitted
| Plan_HasRollout
| Bad_Path string
| Unknown_Config
| Ghost_Failure go_error
| Sheet_Failure go_error
| Release_Checks
| Rollout_Checks
| No_CheckRun int
| CheckRun_NotActive

datatype spec_kind = Kind_create_database | Kind_change_database | Kind_export_data

record spec_scan =
  scan_kinds :: "spec_kind list"
  scan_ids :: "string list"
  scan_releases :: "string list"
  scan_sheets :: nat
  scan_sheetSha256s :: "string list"
  scan_instances :: "string list"
  scan_groups :: "string list"
  scan_databases :: "string list"

definition empty_scan :: spec_scan where
  "empty_scan = \<lparr>scan_kinds = [], scan_ids = [], scan_releases = [], scan_sheets = 0, scan_sheetSha256s = [],
     scan_instances = [], scan_groups = [], scan_databases = []\<rparr>"

definition is_database_name :: "string \<Rightarrow> bool" where
  "is_database_name target = (case GetInstanceDatabaseID target of Inr _ \<Rightarrow> True | Inl _ \<Rightarrow> False)"

definition is_group_name :: "string \<Rightarrow> bool" where
  "is_group_name target = (\<not> is_database_name target \<and> (case GetProjectIDDatabaseGroupID target of Inr _ \<Rightarrow> True | Inl _ \<Rightarrow> False))"

definition check_targets :: "string list \<Rightarrow> (plan_reason, unit) outcome" where
  "check_targets targets =
     (case find (\<lambda>t. \<not> is_database_name t \<and> \<not> is_group_name t) targets of
        Some t \<Rightarrow> Err (Bad_Target t) | None \<Rightarrow> Ok ())"

definition add_sheet :: "string \<Rightarrow> spec_scan \<Rightarrow> spec_scan" where
  "add_sheet sheet s =
     (if sheet = [] then s
      else case GetProjectResourceIDSheetSha256 sheet of
             Inl _ \<Rightarrow> s
           | Inr (_, sha) \<Rightarrow> s\<lparr>scan_sheetSha256s := scan_sheetSha256s s @ [sha]\<rparr>)"

definition scan_config :: "v1_config \<Rightarrow> spec_scan \<Rightarrow> (plan_reason, spec_scan) outcome" where
  "scan_config config s =
     (case config of
        V1_CreateDatabaseConfig c \<Rightarrow>
          if create_db_Target c = [] then Ok (s\<lparr>scan_kinds := Kind_create_database # scan_kinds s\<rparr>)
          else bind_outcome (of_sum Spec_BadName (GetInstanceID (create_db_Target c))) (\<lambda>instanceID.
               Ok (s\<lparr>scan_kinds := Kind_create_database # scan_kinds s, scan_instances := scan_instances s @ [instanceID]\<rparr>))
      | V1_ChangeDatabaseConfig c \<Rightarrow>
          bind_outcome (check_targets (v1_change_Targets c)) (\<lambda>_.
          let names = filter is_database_name (v1_change_Targets c); groups = filter is_group_name (v1_change_Targets c)
          in if names \<noteq> [] \<and> groups \<noteq> [] then Err Mixed_Targets
             else Ok (add_sheet (v1_change_Sheet c)
               (s\<lparr>scan_kinds := Kind_change_database # scan_kinds s, scan_databases := scan_databases s @ names,
                  scan_groups := scan_groups s @ groups,
                  scan_releases := (if v1_change_Release c = [] then scan_releases s else v1_change_Release c # scan_releases s),
                  scan_sheets := (if v1_change_Sheet c = [] then scan_sheets s else scan_sheets s + 1)\<rparr>)))
      | V1_ExportDataConfig c \<Rightarrow>
          bind_outcome (check_targets (v1_export_Targets c)) (\<lambda>_.
          Ok (add_sheet (v1_export_Sheet c)
            (s\<lparr>scan_kinds := Kind_export_data # scan_kinds s,
               scan_databases := scan_databases s @ filter is_database_name (v1_export_Targets c),
               scan_groups := scan_groups s @ filter is_group_name (v1_export_Targets c)\<rparr>)))
      | V1_NoConfig \<Rightarrow> Err Bad_SpecType)"

primrec scan_specs :: "Plan_Spec list \<Rightarrow> spec_scan \<Rightarrow> (plan_reason, spec_scan) outcome" where
  "scan_specs [] s = Ok s"
| "scan_specs (spec # specs) s =
     (if spec_Id spec = [] then Err Empty_SpecID
      else if spec_Id spec \<in> set (scan_ids s) then Err (Duplicate_SpecID (spec_Id spec))
      else bind_outcome (scan_config (spec_Config spec) (s\<lparr>scan_ids := spec_Id spec # scan_ids s\<rparr>)) (scan_specs specs))"

definition check_counts :: "spec_scan \<Rightarrow> (plan_reason, unit) outcome" where
  "check_counts s =
     (if 1 < length (remdups (scan_kinds s)) then Err (Mixed_Types (length (remdups (scan_kinds s))))
      else if scan_releases s \<noteq> [] \<and> 0 < scan_sheets s then Err Release_And_Sheet
      else if 1 < length (scan_releases s) then Err Many_Releases
      else if 1 < length (scan_instances s) then Err Many_Instances
      else if 1 < length (scan_groups s) then Err Many_Groups
      else if scan_groups s \<noteq> [] \<and> scan_databases s \<noteq> [] then Err Group_And_Databases
      else Ok ())"

record DatabaseGroup =
  group_Name :: string
  group_MatchedDatabases :: "string list"

definition matched_names :: "approval_env \<Rightarrow> string \<Rightarrow> string \<Rightarrow> (plan_reason, string list) outcome" where
  "matched_names env projectID expression =
     bind_outcome (of_sum Plan_EnvFailure (ap_ListDatabases env (OfProject projectID))) (\<lambda>databases.
     bind_outcome (wrap Group_Failure (GetMatchedDatabasesInDatabaseGroup env expression databases)) (\<lambda>matches.
     Ok (map database_full_name matches)))"

definition getDatabaseGroupByName ::
  "approval_env \<Rightarrow> request_ctx \<Rightarrow> issue_world \<Rightarrow> string \<Rightarrow> (plan_reason, DatabaseGroup) outcome" where
  "getDatabaseGroupByName env ctx w name =
     bind_outcome (of_sum Spec_BadName (GetProjectIDDatabaseGroupID name)) (\<lambda>(projectID, groupID).
     bind_outcome (of_option (Plan_NoProject projectID) (find_project (iw_db w) (ctx_workspace ctx) projectID)) (\<lambda>_.
     bind_outcome (of_sum Plan_EnvFailure (ap_DatabaseGroup env groupID projectID)) (\<lambda>found.
     bind_outcome (of_option (No_Group groupID) found) (\<lambda>expression.
     bind_outcome (matched_names env projectID expression) (\<lambda>names.
     Ok \<lparr>group_Name = FormatProject projectID @ ''/'' @ DatabaseGroupNamePrefix @ groupID,
         group_MatchedDatabases = names\<rparr>)))))"

definition check_instances :: "plan_env \<Rightarrow> request_ctx \<Rightarrow> string list \<Rightarrow> (plan_reason, unit) outcome" where
  "check_instances pe ctx instances =
     (case instances of
        [i] \<Rightarrow> bind_outcome (of_sum Plan_EnvFailure (pe_HasInstance pe (ctx_workspace ctx) i)) (\<lambda>ok.
               if ok then Ok () else Err (No_SpecInstance i))
      | _ \<Rightarrow> Ok ())"

definition check_groups ::
  "approval_env \<Rightarrow> request_ctx \<Rightarrow> issue_world \<Rightarrow> string \<Rightarrow> string list \<Rightarrow> (plan_reason, DatabaseGroup option) outcome" where
  "check_groups env ctx w projectID groups =
     (case groups of
        [name] \<Rightarrow>
          bind_outcome (of_sum Spec_BadName (GetProjectIDDatabaseGroupID name)) (\<lambda>(groupProjectID, _).
          if groupProjectID \<noteq> projectID then Err (Other_Project name groupProjectID)
          else bind_outcome (getDatabaseGroupByName env ctx w name) (\<lambda>dg. Ok (Some dg)))
      | _ \<Rightarrow> Ok None)"

definition check_database :: "plan_env \<Rightarrow> request_ctx \<Rightarrow> string \<Rightarrow> string \<Rightarrow> (plan_reason, unit) outcome" where
  "check_database pe ctx projectID name =
     bind_outcome (of_sum Spec_BadName (GetInstanceDatabaseID name)) (\<lambda>(instanceID, dbName).
     bind_outcome (of_sum Plan_EnvFailure (pe_DatabaseProject pe (ctx_workspace ctx) instanceID dbName)) (\<lambda>found.
     bind_outcome (of_option (No_SpecDatabase name) found) (\<lambda>p.
     if p = projectID then Ok () else Err (Other_Project name p))))"

definition check_sheets :: "plan_env \<Rightarrow> string list \<Rightarrow> (plan_reason, unit) outcome" where
  "check_sheets pe shas =
     (if shas = [] then Ok ()
      else bind_outcome (of_sum Plan_EnvFailure (pe_HasSheets pe shas)) (\<lambda>exist. if exist then Ok () else Err No_Sheets))"

text \<open>Only the last release of the specs is looked up; there is one at most.\<close>

definition check_release :: "plan_env \<Rightarrow> string \<Rightarrow> string list \<Rightarrow> (plan_reason, unit) outcome" where
  "check_release pe projectID releases =
     (case releases of
        [] \<Rightarrow> Ok ()
      | name # _ \<Rightarrow>
          bind_outcome (of_sum Spec_BadName (GetProjectReleaseID name)) (\<lambda>(releaseProjectID, releaseID).
          if releaseProjectID \<noteq> projectID then Err (Other_Project name releaseProjectID)
          else bind_outcome (of_sum Plan_EnvFailure (pe_HasRelease pe releaseProjectID releaseID)) (\<lambda>exist.
               if exist then Ok () else Err (No_Release releaseID))))"

definition validateSpecs ::
  "approval_env \<Rightarrow> plan_env \<Rightarrow> request_ctx \<Rightarrow> issue_world \<Rightarrow> string \<Rightarrow> Plan_Spec list
   \<Rightarrow> (plan_reason, DatabaseGroup option) outcome" where
  "validateSpecs env pe ctx w projectID specs =
     (if specs = [] then Err Zero_Specs
      else
        bind_outcome (scan_specs specs empty_scan) (\<lambda>s.
        bind_outcome (check_counts s) (\<lambda>_.
        bind_outcome (check_instances pe ctx (scan_instances s)) (\<lambda>_.
        bind_outcome (check_groups env ctx w projectID (scan_groups s)) (\<lambda>databaseGroup.
        bind_outcome (traverse (check_database pe ctx projectID) (scan_databases s)) (\<lambda>_.
        bind_outcome (check_sheets pe (scan_sheetSha256s s)) (\<lambda>_.
        bind_outcome (check_release pe projectID (scan_releases s)) (\<lambda>_.
        Ok databaseGroup))))))))"


section \<open>The targets of the checks\<close>

record CheckTarget =
  check_Target :: string
  check_SheetSha256 :: string
  check_EnableGhost :: bool
  check_Types :: "PlanCheckType list"

definition getSheetContent :: "approval_env \<Rightarrow> string \<Rightarrow> go_error + string" where
  "getSheetContent env sheetSha256 =
     (if sheetSha256 = [] then Inr []
      else bind_sum (ap_Sheet env sheetSha256) (\<lambda>sheet. Inr (case sheet of None \<Rightarrow> [] | Some s \<Rightarrow> s)))"

definition ghost_enabled :: "plan_env \<Rightarrow> string \<Rightarrow> go_error + bool" where
  "ghost_enabled pe content =
     (if content = [] then Inr False
      else case pe_GhostFlags pe content of None \<Rightarrow> Inr False | Some (Inl e) \<Rightarrow> Inl e | Some (Inr _) \<Rightarrow> Inr True)"

definition change_check_targets ::
  "approval_env \<Rightarrow> plan_env \<Rightarrow> project_row \<Rightarrow> DatabaseGroup option \<Rightarrow> PlanConfig_ChangeDatabaseConfig
   \<Rightarrow> (plan_reason, CheckTarget list) outcome" where
  "change_check_targets env pe prj databaseGroup c =
     (if change_Release c \<noteq> [] then Ok []
      else
        let all_databases = (case databaseGroup of
              Some g \<Rightarrow> if change_Targets c = [group_Name g] then group_MatchedDatabases g else change_Targets c
            | None \<Rightarrow> change_Targets c);
            size = project_CiSamplingSize prj;
            databases = (if 0 < size then take (nat size) all_databases else all_databases)
        in bind_outcome (of_sum Sheet_Failure (getSheetContent env (change_SheetSha256 c))) (\<lambda>content.
           bind_outcome (of_sum Ghost_Failure (ghost_enabled pe content)) (\<lambda>enableGhost.
           Ok (map (\<lambda>t. \<lparr>check_Target = t, check_SheetSha256 = change_SheetSha256 c, check_EnableGhost = enableGhost,
                check_Types = [PLAN_CHECK_TYPE_STATEMENT_ADVISE, PLAN_CHECK_TYPE_STATEMENT_SUMMARY_REPORT]
                  @ (if enableGhost then [PLAN_CHECK_TYPE_GHOST_SYNC] else [])\<rparr>) databases))))"

definition DeriveCheckTargets ::
  "approval_env \<Rightarrow> plan_env \<Rightarrow> project_row \<Rightarrow> mem_config list \<Rightarrow> DatabaseGroup option
   \<Rightarrow> (plan_reason, CheckTarget list) outcome" where
  "DeriveCheckTargets env pe prj specs databaseGroup =
     bind_outcome (traverse (\<lambda>spec.
       case spec of
         NilChangeConfig \<Rightarrow> Panic
       | NilExportConfig \<Rightarrow> Ok []
       | MemConfig (CreateDatabaseConfig _) \<Rightarrow> Ok []
       | MemConfig (ExportDataConfig _) \<Rightarrow> Ok []
       | MemConfig (ChangeDatabaseConfig c) \<Rightarrow> change_check_targets env pe prj databaseGroup c
       | MemConfig NoSpecConfig \<Rightarrow> Err Unknown_Config) specs) (\<lambda>ts. Ok (concat ts))"

definition getPlanCheckRunFromPlan ::
  "approval_env \<Rightarrow> plan_env \<Rightarrow> project_row \<Rightarrow> string \<times> int \<Rightarrow> mem_config list \<Rightarrow> DatabaseGroup option
   \<Rightarrow> (plan_reason, PlanCheckRun option) outcome" where
  "getPlanCheckRunFromPlan env pe prj key specs databaseGroup =
     bind_outcome (DeriveCheckTargets env pe prj specs databaseGroup) (\<lambda>targets.
     Ok (if targets = [] then None
         else Some \<lparr>checkrun_UID = 0, checkrun_ProjectID = fst key, checkrun_PlanUID = snd key,
                    checkrun_Status = PlanCheckRunStatusRunning, checkrun_Results = []\<rparr>))"


section \<open>The handlers\<close>

type_synonym 'a plan_reply = "(plan_reason, 'a) outcome \<times> issue_world"

definition store_CreatePlan :: "PlanMessage \<Rightarrow> taskdb \<Rightarrow> int from_db \<times> taskdb" where
  "store_CreatePlan create db =
     (let projectID = plan_ProjectID create;
          nextID = nextProjectID (map plan_UID (filter (\<lambda>p. plan_ProjectID p = projectID) (db_plans db)))
      in if list_ex (\<lambda>p. plan_UID p = nextID) (db_plans db) then (Inl (UniqueViolation ''plan''), db)
         else if \<not> list_ex (\<lambda>r. project_id r = projectID) (db_projects db) then (Inl (ForeignKeyViolation ''project''), db)
         else (Inr nextID, db\<lparr>db_plans := db_plans db @ [create\<lparr>plan_UID := nextID, plan_Deleted := False\<rparr>]\<rparr>))"

text \<open>The check run of a plan written to the store, where there is anything to check.\<close>

definition store_checks ::
  "approval_env \<Rightarrow> plan_env \<Rightarrow> project_row \<Rightarrow> string \<times> int \<Rightarrow> mem_config list \<Rightarrow> DatabaseGroup option \<Rightarrow> issue_world
   \<Rightarrow> unit plan_reply" where
  "store_checks env pe prj key specs databaseGroup w =
     (case getPlanCheckRunFromPlan env pe prj key specs databaseGroup of
        Panic \<Rightarrow> (Panic, w)
      | Err e \<Rightarrow> (Err e, w)
      | Ok None \<Rightarrow> (Ok (), w)
      | Ok (Some run) \<Rightarrow>
          (case CreatePlanCheckRun run (iw_checks w) of
             (Inl e, cs) \<Rightarrow> (Err (Plan_Store e), w\<lparr>iw_checks := cs\<rparr>)
           | (Inr _, cs) \<Rightarrow> (Ok (), w\<lparr>iw_checks := cs\<rparr>)))"

record CreatePlanRequest =
  cp_Parent :: string
  cp_Title :: string
  cp_Description :: string
  cp_Specs :: "Plan_Spec list"

definition CreatePlan ::
  "approval_env \<Rightarrow> plan_env \<Rightarrow> request_ctx \<Rightarrow> CreatePlanRequest \<Rightarrow> issue_world \<Rightarrow> int plan_reply" where
  "CreatePlan env pe ctx req w =
     (case bind_outcome (of_option Plan_NoUser (ctx_user ctx)) (\<lambda>user.
           bind_outcome (of_sum Spec_BadName (GetProjectID (cp_Parent req))) (\<lambda>projectID.
           bind_outcome (of_option (Plan_NoProject projectID) (find_project (iw_db w) (ctx_workspace ctx) projectID)) (\<lambda>prj.
           if project_EnforceIssueTitle prj \<and> TrimSpace (cp_Title req) = [] then Err Title_Missing
           else
             bind_outcome (validateSpecs env pe ctx w projectID (cp_Specs req)) (\<lambda>databaseGroup.
             Ok (user, prj, databaseGroup))))) of
        Panic \<Rightarrow> (Panic, w)
      | Err e \<Rightarrow> (Err e, w)
      | Ok (user, prj, databaseGroup) \<Rightarrow>
          let config = convertPlanSpecs (cp_Specs req);
              plan = \<lparr>plan_UID = 0, plan_ProjectID = project_id prj, plan_Creator = User_Email user,
                      plan_Specs = map stored_config config, plan_HasRollout = False, plan_Deleted = False,
                      plan_Name = TrimSpace (cp_Title req), plan_Description = cp_Description req\<rparr>
          in (case on_db (store_CreatePlan plan) w of
                (Inl e, w1) \<Rightarrow> (Err (Plan_Store e), w1)
              | (Inr uid, w1) \<Rightarrow>
                  and_then (store_checks env pe prj (project_id prj, uid) config databaseGroup w1) (\<lambda>_ w2. (Ok uid, w2))))"

record plan_patch =
  pp_Name :: "string option"
  pp_Description :: "string option"
  pp_Deleted :: "bool option"
  pp_Specs :: "spec_config list option"
  pp_Group :: "DatabaseGroup option"

definition empty_patch :: plan_patch where
  "empty_patch = \<lparr>pp_Name = None, pp_Description = None, pp_Deleted = None, pp_Specs = None, pp_Group = None\<rparr>"

definition patch_plan :: "plan_patch \<Rightarrow> PlanMessage \<Rightarrow> PlanMessage" where
  "patch_plan patch pl = pl\<lparr>
     plan_Name := (case pp_Name patch of None \<Rightarrow> plan_Name pl | Some v \<Rightarrow> v),
     plan_Description := (case pp_Description patch of None \<Rightarrow> plan_Description pl | Some v \<Rightarrow> v),
     plan_Deleted := (case pp_Deleted patch of None \<Rightarrow> plan_Deleted pl | Some v \<Rightarrow> v),
     plan_Specs := (case pp_Specs patch of None \<Rightarrow> plan_Specs pl | Some v \<Rightarrow> v)\<rparr>"

text \<open>
  \<open>UpdatePlan\<close> of the store.  A config is written whole: \<open>old\<close> is the plan as it was read, whose mark of
  a rollout comes back with it.
\<close>

definition store_UpdatePlan :: "PlanMessage \<Rightarrow> plan_patch \<Rightarrow> taskdb \<Rightarrow> PlanMessage from_db \<times> taskdb" where
  "store_UpdatePlan old patch db =
     (let same = (\<lambda>pl. plan_UID pl = plan_UID old \<and> plan_ProjectID pl = plan_ProjectID old);
          f = (\<lambda>pl. (patch_plan patch pl)\<lparr>plan_HasRollout :=
                (if pp_Specs patch = None then plan_HasRollout pl else plan_HasRollout old)\<rparr>)
      in case find same (db_plans db) of
           None \<Rightarrow> (Inl (NoRows ''plan''), db)
         | Some pl \<Rightarrow> (Inr (f pl), db\<lparr>db_plans := map (\<lambda>pl. if same pl then f pl else pl) (db_plans db)\<rparr>))"

text \<open>
  New specs evict the approval of the plan's issue, and the search for the template of an export runs
  at once.  A failure to store the reset is logged, and the issue it did not return is read.
\<close>

definition evict_approval :: "approval_env \<Rightarrow> IssueMessage \<Rightarrow> issue_world \<Rightarrow> unit plan_reply" where
  "evict_approval env issue w =
     (case on_db (store_UpdateIssue (issue_ProjectID issue) (issue_UID issue)
            (no_update\<lparr>update_PayloadUpsert := Some (empty_Issue\<lparr>payload_Approval := Some
               \<lparr>approval_Template = None, approval_Approvers = [], approval_FindingDone = False\<rparr>\<rparr>)\<rparr>)) w of
        (Inr (Some updatedIssue), w1) \<Rightarrow>
          if issue_Type updatedIssue = Issue_DATABASE_EXPORT then
            (case FindAndApplyApprovalTemplate env updatedIssue w1 of
               (Panic, w2) \<Rightarrow> (Panic, w2)
             | (_, w2) \<Rightarrow> (Ok (), w2))
          else (Ok (), w1)
      | (_, w1) \<Rightarrow> (Panic, w1))"

record UpdatePlanRequest =
  up_Name :: string
  up_Title :: string
  up_Description :: string
  up_Deleted :: bool
  up_Specs :: "Plan_Spec list"
  up_Paths :: "string list option"
  up_AllowMissing :: bool

definition update_specs ::
  "approval_env \<Rightarrow> plan_env \<Rightarrow> request_ctx \<Rightarrow> UpdatePlanRequest \<Rightarrow> PlanMessage \<Rightarrow> plan_patch \<Rightarrow> issue_world
   \<Rightarrow> plan_patch plan_reply" where
  "update_specs env pe ctx req oldPlan patch w =
     (if plan_HasRollout oldPlan then (Err Plan_HasRollout, w)
      else
        (case validateSpecs env pe ctx w (plan_ProjectID oldPlan) (up_Specs req) of
           Panic \<Rightarrow> (Panic, w)
         | Err e \<Rightarrow> (Err e, w)
         | Ok dg \<Rightarrow>
             let patch1 = patch\<lparr>pp_Specs := Some (map stored_config (convertPlanSpecs (up_Specs req))), pp_Group := dg\<rparr>
             in (case GetIssue (iw_db w) (ctx_workspace ctx) (plan_ProjectID oldPlan) None (Some (plan_UID oldPlan)) of
                   Inl e \<Rightarrow> (Err (Plan_Store e), w)
                 | Inr None \<Rightarrow> (Ok patch1, w)
                 | Inr (Some issue) \<Rightarrow> and_then (evict_approval env issue w) (\<lambda>_ w1. (Ok patch1, w1)))))"

primrec update_plan_paths ::
  "approval_env \<Rightarrow> plan_env \<Rightarrow> request_ctx \<Rightarrow> UpdatePlanRequest \<Rightarrow> project_row \<Rightarrow> PlanMessage \<Rightarrow> string list
   \<Rightarrow> plan_patch \<Rightarrow> issue_world \<Rightarrow> plan_patch plan_reply" where
  "update_plan_paths env pe ctx req prj oldPlan [] patch w = (Ok patch, w)"
| "update_plan_paths env pe ctx req prj oldPlan (path # paths) patch w =
     (if path = ''title'' then
        if project_EnforceIssueTitle prj \<and> TrimSpace (up_Title req) = [] then (Err Title_Missing, w)
        else update_plan_paths env pe ctx req prj oldPlan paths (patch\<lparr>pp_Name := Some (TrimSpace (up_Title req))\<rparr>) w
      else if path = ''description'' then
        update_plan_paths env pe ctx req prj oldPlan paths (patch\<lparr>pp_Description := Some (up_Description req)\<rparr>) w
      else if path = ''state'' then
        update_plan_paths env pe ctx req prj oldPlan paths (patch\<lparr>pp_Deleted := Some (up_Deleted req)\<rparr>) w
      else if path = ''specs'' then
        and_then (update_specs env pe ctx req oldPlan patch w) (update_plan_paths env pe ctx req prj oldPlan paths)
      else (Err (Bad_Path path), w))"

definition PlansCreate :: string where
  "PlansCreate = ''bb.plans.create''"

definition PlansUpdate :: string where
  "PlansUpdate = ''bb.plans.update''"

definition may_plan ::
  "approval_env \<Rightarrow> request_ctx \<Rightarrow> string \<Rightarrow> UserMessage \<Rightarrow> string \<Rightarrow> (plan_reason, unit) outcome" where
  "may_plan env ctx perm user projectID =
     bind_outcome (of_sum Plan_EnvFailure
       (CheckPermission (ap_access env) (ctx_saas ctx) perm user (ctx_workspace ctx) [projectID])) (\<lambda>ok.
     if ok then Ok () else Err Plan_NotPermitted)"

definition update_existing ::
  "approval_env \<Rightarrow> plan_env \<Rightarrow> request_ctx \<Rightarrow> UpdatePlanRequest \<Rightarrow> UserMessage \<Rightarrow> project_row \<Rightarrow> PlanMessage \<Rightarrow> string list
   \<Rightarrow> issue_world \<Rightarrow> int plan_reply" where
  "update_existing env pe ctx req user prj oldPlan paths w =
     (if storePlanConfigHasRelease (plan_Specs oldPlan) \<and> ''specs'' \<in> set paths then (Err Specs_Of_Release, w)
      else if storePlanConfigHasCreateDatabase (plan_Specs oldPlan) \<and> ''specs'' \<in> set paths then (Err Specs_Of_Creation, w)
      else
        (case (if plan_Creator oldPlan = User_Email user then Ok ()
               else may_plan env ctx PlansUpdate user (plan_ProjectID oldPlan)) of
           Panic \<Rightarrow> (Panic, w)
         | Err e \<Rightarrow> (Err e, w)
         | Ok _ \<Rightarrow>
             and_then (update_plan_paths env pe ctx req prj oldPlan paths empty_patch w) (\<lambda>patch w1.
             (case on_db (store_UpdatePlan oldPlan patch) w1 of
                (Inl e, w2) \<Rightarrow> (Err (Plan_Store e), w2)
              | (Inr updatedPlan, w2) \<Rightarrow>
                  if pp_Specs patch = None then (Ok (plan_UID oldPlan), w2)
                  else and_then (store_checks env pe prj (plan_ProjectID updatedPlan, plan_UID updatedPlan)
                         (map MemConfig (plan_Specs updatedPlan)) (pp_Group patch) w2) (\<lambda>_ w3. (Ok (plan_UID oldPlan), w3))))))"

definition UpdatePlan ::
  "approval_env \<Rightarrow> plan_env \<Rightarrow> request_ctx \<Rightarrow> UpdatePlanRequest \<Rightarrow> issue_world \<Rightarrow> int plan_reply" where
  "UpdatePlan env pe ctx req w =
     (case up_Paths req of
        None \<Rightarrow> (Err Mask_Missing, w)
      | Some paths \<Rightarrow>
          if paths = [] then (Err Mask_Empty, w)
          else
            (case bind_outcome (of_option Plan_NoUser (ctx_user ctx)) (\<lambda>user.
                  bind_outcome (of_sum Spec_BadName (GetProjectIDPlanID (up_Name req))) (\<lambda>(projectID, planID).
                  bind_outcome (of_option (Plan_NoProject projectID) (find_project (iw_db w) (ctx_workspace ctx) projectID)) (\<lambda>prj.
                  bind_outcome (of_sum Plan_Store (GetPlan (iw_db w) (ctx_workspace ctx) projectID (sint planID))) (\<lambda>plan.
                  case plan of
                    Some oldPlan \<Rightarrow> Ok (user, prj, Some oldPlan)
                  | None \<Rightarrow>
                      if up_AllowMissing req
                      then bind_outcome (may_plan env ctx PlansCreate user projectID) (\<lambda>_. Ok (user, prj, None))
                      else Err (Plan_NotFound (sint planID)))))) of
               Panic \<Rightarrow> (Panic, w)
             | Err e \<Rightarrow> (Err e, w)
             | Ok (user, prj, None) \<Rightarrow>
                 CreatePlan env pe ctx \<lparr>cp_Parent = FormatProject (project_id prj), cp_Title = up_Title req,
                   cp_Description = up_Description req, cp_Specs = up_Specs req\<rparr> w
             | Ok (user, prj, Some oldPlan) \<Rightarrow> update_existing env pe ctx req user prj oldPlan paths w))"

text \<open>The group of the first spec whose only target names one.\<close>

primrec first_group :: "spec_config list \<Rightarrow> string option" where
  "first_group [] = None"
| "first_group (spec # specs) =
     (case spec of
        ChangeDatabaseConfig c \<Rightarrow>
          (case change_Targets c of
             [t] \<Rightarrow> (case GetProjectIDDatabaseGroupID t of Inr _ \<Rightarrow> Some t | Inl _ \<Rightarrow> first_group specs)
           | _ \<Rightarrow> first_group specs)
      | _ \<Rightarrow> first_group specs)"

definition RunPlanChecks ::
  "approval_env \<Rightarrow> plan_env \<Rightarrow> request_ctx \<Rightarrow> string \<Rightarrow> issue_world \<Rightarrow> unit plan_reply" where
  "RunPlanChecks env pe ctx name w =
     (case bind_outcome (of_sum Spec_BadName (GetProjectIDPlanID name)) (\<lambda>(projectID, planID).
           bind_outcome (of_option (Plan_NoProject projectID) (find_project (iw_db w) (ctx_workspace ctx) projectID)) (\<lambda>prj.
           bind_outcome (of_sum Plan_Store (GetPlan (iw_db w) (ctx_workspace ctx) projectID (sint planID))) (\<lambda>found.
           bind_outcome (of_option (Plan_NotFound (sint planID)) found) (\<lambda>plan.
           if storePlanConfigHasRelease (plan_Specs plan) then Err Release_Checks
           else if plan_HasRollout plan then Err Rollout_Checks
           else
             bind_outcome (case first_group (plan_Specs plan) of
                             None \<Rightarrow> Ok None
                           | Some t \<Rightarrow> bind_outcome (getDatabaseGroupByName env ctx w t) (\<lambda>dg. Ok (Some dg))) (\<lambda>dg.
             Ok (prj, plan, dg)))))) of
        Panic \<Rightarrow> (Panic, w)
      | Err e \<Rightarrow> (Err e, w)
      | Ok (prj, plan, dg) \<Rightarrow>
          store_checks env pe prj (plan_ProjectID plan, plan_UID plan) (map MemConfig (plan_Specs plan)) dg w)"

definition CancelPlanCheckRun :: "request_ctx \<Rightarrow> string \<Rightarrow> issue_world \<Rightarrow> unit plan_reply" where
  "CancelPlanCheckRun ctx name w =
     (case bind_outcome (of_sum Spec_BadName (GetProjectIDPlanIDFromPlanCheckRun name)) (\<lambda>(projectID, planUID).
           bind_outcome (of_option (Plan_NoProject projectID) (find_project (iw_db w) (ctx_workspace ctx) projectID)) (\<lambda>_.
           bind_outcome (of_option (No_CheckRun (sint planUID)) (GetPlanCheckRun (iw_checks w) projectID (sint planUID))) (\<lambda>c.
           if checkrun_Status c \<noteq> PlanCheckRunStatusRunning \<and> checkrun_Status c \<noteq> PlanCheckRunStatusAvailable
           then Err CheckRun_NotActive else Ok (projectID, checkrun_UID c)))) of
        Panic \<Rightarrow> (Panic, w)
      | Err e \<Rightarrow> (Err e, w)
      | Ok (projectID, uid) \<Rightarrow> (Ok (), w\<lparr>iw_checks := BatchCancelPlanCheckRuns projectID [uid] (iw_checks w)\<rparr>))"


section \<open>The scheduler of checks\<close>

text \<open>What the executor makes of a target: its results, or how it was stopped.\<close>

datatype check_failure = CheckCanceled | CheckFailed

datatype check_end = CheckDone "PlanCheckResult list" | CheckStopped check_failure

definition getDatabaseGroupForPlan ::
  "approval_env \<Rightarrow> PlanMessage \<Rightarrow> (plan_reason, DatabaseGroup option) outcome" where
  "getDatabaseGroupForPlan env plan =
     (case first_group (plan_Specs plan) of
        None \<Rightarrow> Ok None
      | Some target \<Rightarrow>
          bind_outcome (of_sum Spec_BadName (GetProjectIDDatabaseGroupID target)) (\<lambda>(_, groupID).
          bind_outcome (of_sum Plan_EnvFailure (ap_DatabaseGroup env groupID (plan_ProjectID plan))) (\<lambda>found.
          bind_outcome (of_option (No_Group target) found) (\<lambda>expression.
          bind_outcome (matched_names env (plan_ProjectID plan) expression) (\<lambda>names.
          Ok (Some \<lparr>group_Name = target, group_MatchedDatabases = names\<rparr>))))))"

primrec run_targets ::
  "(CheckTarget \<Rightarrow> check_failure + PlanCheckResult list) \<Rightarrow> CheckTarget list \<Rightarrow> PlanCheckResult list \<Rightarrow> check_end" where
  "run_targets run [] results = CheckDone results"
| "run_targets run (t # ts) results =
     (case run t of Inl e \<Rightarrow> CheckStopped e | Inr rs \<Rightarrow> run_targets run ts (results @ rs))"

text \<open>
  The run of a claimed check up to its end; it reads the plan once.  A panic is none of its ends: the
  goroutine has no recovery.
\<close>

definition runPlanCheckRun ::
  "approval_env \<Rightarrow> plan_env \<Rightarrow> (CheckTarget \<Rightarrow> check_failure + PlanCheckResult list) \<Rightarrow> string \<Rightarrow> int \<Rightarrow> issue_world
   \<Rightarrow> (plan_reason, check_end) outcome" where
  "runPlanCheckRun env pe run projectID planUID w =
     (case bind_outcome (of_sum Plan_Store (GetPlan (iw_db w) [] projectID planUID)) (\<lambda>found.
           bind_outcome (of_option (Plan_NotFound planUID) found) (\<lambda>plan.
           bind_outcome (of_option (Plan_NoProject (plan_ProjectID plan)) (GetProjectByResourceID (iw_db w) (plan_ProjectID plan))) (\<lambda>prj.
           bind_outcome (getDatabaseGroupForPlan env plan) (\<lambda>databaseGroup.
           DeriveCheckTargets env pe prj (map MemConfig (plan_Specs plan)) databaseGroup)))) of
        Panic \<Rightarrow> Panic
      | Err _ \<Rightarrow> Ok (CheckStopped CheckFailed)
      | Ok targets \<Rightarrow> Ok (run_targets run targets []))"

definition markPlanCheckRunDone ::
  "string \<Rightarrow> int \<Rightarrow> int \<Rightarrow> PlanCheckResult list \<Rightarrow> issue_world \<Rightarrow> issue_world" where
  "markPlanCheckRunDone projectID uid planUID results w =
     (let w1 = w\<lparr>iw_checks := UpdatePlanCheckRun projectID PlanCheckRunStatusDone results uid (iw_checks w)\<rparr>
      in case GetIssue (iw_db w1) [] projectID None (Some planUID) of
           Inr (Some issue) \<Rightarrow>
             if issue_PlanUID issue \<noteq> None then RequestApprovalCheck (projectID, issue_UID issue) w1 else w1
         | _ \<Rightarrow> w1)"

definition markPlanCheckRunFailed :: "string \<Rightarrow> int \<Rightarrow> issue_world \<Rightarrow> issue_world" where
  "markPlanCheckRunFailed projectID uid w =
     w\<lparr>iw_checks := UpdatePlanCheckRun projectID PlanCheckRunStatusFailed [] uid (iw_checks w)\<rparr>"

definition markPlanCheckRunCanceled :: "string \<Rightarrow> int \<Rightarrow> issue_world \<Rightarrow> issue_world" where
  "markPlanCheckRunCanceled projectID uid w =
     w\<lparr>iw_checks := UpdatePlanCheckRun projectID PlanCheckRunStatusCanceled [] uid (iw_checks w)\<rparr>"

definition finish_check :: "int \<times> string \<times> int \<Rightarrow> check_end \<Rightarrow> issue_world \<Rightarrow> issue_world" where
  "finish_check claim ended w =
     (case claim of (uid, projectID, planUID) \<Rightarrow>
        (case ended of
           CheckDone results \<Rightarrow> markPlanCheckRunDone projectID uid planUID results w
         | CheckStopped CheckCanceled \<Rightarrow> markPlanCheckRunCanceled projectID uid w
         | CheckStopped CheckFailed \<Rightarrow> markPlanCheckRunFailed projectID uid w))"

text \<open>The claim of one pass of the scheduler; each run claimed is started as a goroutine of its own.\<close>

definition claim_checks :: "(PlanCheckRun \<Rightarrow> bool) \<Rightarrow> issue_world \<Rightarrow> (int \<times> string \<times> int) list \<times> issue_world" where
  "claim_checks locked w =
     (case ClaimAvailablePlanCheckRuns locked (iw_checks w) of (claimed, cs) \<Rightarrow> (claimed, w\<lparr>iw_checks := cs\<rparr>))"

end
