(* ===== verification/IssueFrame.thy ===== *)
theory IssueFrame
  imports PlanService TaskServiceSpec
begin

text \<open>
  What the handlers leave of the approvals: but for the reviews, each keeps the approvals of the
  issues or leaves one that has no entry yet.
\<close>

section \<open>What a handler leaves of the approvals\<close>

text \<open>
  An issue is told by its project and number.  A handler other than a review keeps the approvals, or
  leaves one without any entry; the roles of its template have names, as those of the rules have.
\<close>

definition issue_key :: "IssueMessage \<Rightarrow> string \<times> int" where
  "issue_key i = (issue_ProjectID i, issue_UID i)"

definition named_roles :: "ApprovalTemplate option \<Rightarrow> bool" where
  "named_roles template \<longleftrightarrow> (case template of Some (Some roles) \<Rightarrow> [] \<notin> set roles | _ \<Rightarrow> True)"

definition unreviewed :: "IssueMessage \<Rightarrow> bool" where
  "unreviewed i \<longleftrightarrow>
     (case issue_Approval i of None \<Rightarrow> True | Some a \<Rightarrow> approval_Approvers a = [] \<and> named_roles (approval_Template a))"

definition keeps :: "issue_world \<Rightarrow> issue_world \<Rightarrow> bool" where
  "keeps w w1 \<longleftrightarrow> (\<forall>j \<in> set (db_issues (iw_db w1)). unreviewed j
     \<or> (\<exists>i \<in> set (db_issues (iw_db w)). issue_key i = issue_key j \<and> issue_Approval i = issue_Approval j \<and> issue_PlanUID i = issue_PlanUID j))"

definition named_rules :: "approval_env \<Rightarrow> bool" where
  "named_rules env \<longleftrightarrow> (\<forall>ws rules. ap_ApprovalSetting env ws = Inr rules \<longrightarrow> (\<forall>r \<in> set rules. named_roles (Rule_Template r)))"

lemma at_most_one_mem: "at_most_one e xs = Inr (Some x) \<Longrightarrow> x \<in> set xs"
  by (auto simp: at_most_one_def split: list.splits)

lemma keeps_refl [simp]: "keeps w w"
  by (auto simp: keeps_def)

lemma keeps_trans: "keeps w w1 \<Longrightarrow> keeps w1 w2 \<Longrightarrow> keeps w w2"
proof -
  assume one: "keeps w w1" and two: "keeps w1 w2"
  show "keeps w w2"
    unfolding keeps_def
  proof
    fix j assume "j \<in> set (db_issues (iw_db w2))"
    then consider "unreviewed j"
      | i where "i \<in> set (db_issues (iw_db w1))" "issue_key i = issue_key j" "issue_Approval i = issue_Approval j" "issue_PlanUID i = issue_PlanUID j"
      using two by (auto simp: keeps_def)
    then show "unreviewed j
     \<or> (\<exists>i \<in> set (db_issues (iw_db w)). issue_key i = issue_key j \<and> issue_Approval i = issue_Approval j \<and> issue_PlanUID i = issue_PlanUID j)"
    proof cases
      case 2
      then have "unreviewed i
        \<or> (\<exists>k \<in> set (db_issues (iw_db w)). issue_key k = issue_key i \<and> issue_Approval k = issue_Approval i \<and> issue_PlanUID k = issue_PlanUID i)"
        using one 2(1) unfolding keeps_def by blast
      with 2 show ?thesis by (simp add: unreviewed_def)
    qed simp
  qed
qed

lemma keeps_same_issues: "db_issues (iw_db w1) = db_issues (iw_db w) \<Longrightarrow> keeps w w1"
  by (auto simp: keeps_def)

lemma keeps_and_then:
  assumes "keeps w (snd r)" "\<And>x s. r = (Ok x, s) \<Longrightarrow> keeps s (snd (f x s))"
  shows "keeps w (snd (and_then r f))"
proof (cases r)
  case (Pair x s)
  then show ?thesis
    using assms by (cases x) (auto intro: keeps_trans)
qed

text \<open>The writes.\<close>

lemma store_UpdateIssue_issues:
  "db_issues (snd (store_UpdateIssue p u patch db)) = db_issues db
   \<or> db_issues (snd (store_UpdateIssue p u patch db))
       = map (\<lambda>i. if issue_ProjectID i = p \<and> issue_UID i = u then patch_issue patch i else i) (db_issues db)"
  by (auto simp: store_UpdateIssue_def update_issues_def Let_def split: sum.splits)

text \<open>The patch of an update that is not a review.\<close>

definition mild :: "UpdateIssueMessage \<Rightarrow> bool" where
  "mild patch \<longleftrightarrow> (case update_PayloadUpsert patch of
       None \<Rightarrow> True
     | Some p \<Rightarrow> (case payload_Approval p of None \<Rightarrow> True
                 | Some a \<Rightarrow> approval_Approvers a = [] \<and> named_roles (approval_Template a)))"

lemma patch_issue_key [simp]: "issue_ProjectID (patch_issue patch i) = issue_ProjectID i"
  "issue_UID (patch_issue patch i) = issue_UID i" "issue_CreatorEmail (patch_issue patch i) = issue_CreatorEmail i"
  "issue_PlanUID (patch_issue patch i) = issue_PlanUID i" "issue_Type (patch_issue patch i) = issue_Type i"
  by (simp_all add: patch_issue_def upsert_payload_def Let_def split: option.split)

lemma patch_issue_Approval:
  "issue_Approval (patch_issue patch i) =
     (case update_PayloadUpsert patch of
        None \<Rightarrow> issue_Approval i
      | Some p \<Rightarrow> (case payload_Approval p of None \<Rightarrow> issue_Approval i | Some a \<Rightarrow> Some a))"
  by (simp add: patch_issue_def upsert_payload_def Let_def split: option.split)

lemma mild_patch: "mild patch \<Longrightarrow> unreviewed (patch_issue patch i) \<or> issue_Approval i = issue_Approval (patch_issue patch i)"
  by (auto simp: mild_def unreviewed_def patch_issue_Approval split: option.splits)

lemma keeps_patched:
  assumes "mild patch"
    "db_issues (iw_db w1) = map (\<lambda>i. if sel i then patch_issue patch i else i) (db_issues (iw_db w))"
  shows "keeps w w1"
  unfolding keeps_def
proof
  fix j assume "j \<in> set (db_issues (iw_db w1))"
  then obtain i where "i \<in> set (db_issues (iw_db w))" "j = (if sel i then patch_issue patch i else i)"
    using assms(2) by auto
  moreover have "issue_key (patch_issue patch i) = issue_key i" by (simp add: issue_key_def)
  ultimately show "unreviewed j
     \<or> (\<exists>i \<in> set (db_issues (iw_db w)). issue_key i = issue_key j \<and> issue_Approval i = issue_Approval j \<and> issue_PlanUID i = issue_PlanUID j)"
    using mild_patch [OF assms(1), of i] by (auto split: if_splits)
qed

lemma iw_db_on_db [simp]: "iw_db (snd (on_db f w)) = snd (f (iw_db w))"
  by (simp add: on_db_def split: prod.split)

lemma fst_on_db [simp]: "fst (on_db f w) = fst (f (iw_db w))"
  by (simp add: on_db_def split: prod.split)

lemma keeps_UpdateIssue: "mild patch \<Longrightarrow> keeps w (snd (on_db (store_UpdateIssue p u patch) w))"
  using store_UpdateIssue_issues [of p u patch "iw_db w"]
  by (auto intro: keeps_same_issues keeps_patched [where sel = "\<lambda>i. issue_ProjectID i = p \<and> issue_UID i = u"])

lemma keeps_UpdateIssue_eq: "on_db (store_UpdateIssue p u patch) w = (r, w1) \<Longrightarrow> mild patch \<Longrightarrow> keeps w w1"
  using keeps_UpdateIssue [of patch w p u] by simp

lemma mild_status [simp]: "mild (no_update\<lparr>update_Status := s\<rparr>)"
  by (simp add: mild_def no_update_def)

lemma mild_payload [simp]:
  "mild (no_update\<lparr>update_PayloadUpsert := Some p\<rparr>)
   \<longleftrightarrow> (case payload_Approval p of None \<Rightarrow> True | Some a \<Rightarrow> approval_Approvers a = [] \<and> named_roles (approval_Template a))"
  by (simp add: mild_def no_update_def)

lemma keeps_CreateIssue:
  assumes "unreviewed create"
  shows "keeps w (snd (on_db (store_CreateIssue create) w))"
  using assms by (auto simp: store_CreateIssue_def keeps_def Let_def unreviewed_def)

lemma keeps_BatchUpdate: "keeps w (snd (on_db (store_BatchUpdateIssueStatuses p us st) w))"
  by (auto simp: store_BatchUpdateIssueStatuses_def keeps_def Let_def update_issues_def issue_key_def
    split: option.split)

lemma keeps_events [simp]:
  "iw_db (send_event e w) = iw_db w" "iw_db (RequestApprovalCheck ref w) = iw_db w" "iw_db (RequestRolloutCreation key w) = iw_db w"
  by (simp_all add: send_event_def RequestApprovalCheck_def RequestRolloutCreation_def)

lemma db_NotifyApprovalRequested [simp]: "iw_db (snd (NotifyApprovalRequested env issue w)) = iw_db w"
  by (simp add: NotifyApprovalRequested_def Let_def split: outcome.split sum.split option.split)

lemma db_NotifyIssueApproved [simp]: "iw_db (NotifyIssueApproved env issue user w) = iw_db w"
  by (simp add: NotifyIssueApproved_def split: sum.split option.split)

lemma db_notify [simp]: "iw_db (snd (notify env issue w)) = iw_db w"
  by (auto simp: notify_def split: prod.split outcome.split dest!: arg_cong [where f = "\<lambda>r. iw_db (snd r)"])

lemma db_activateAccessGrant [simp]: "iw_db (snd (activateAccessGrant ctx name b w)) = iw_db w"
  by (simp add: activateAccessGrant_def Let_def split: sum.split prod.split option.split)

lemma db_UpdateProjectPolicy [simp]: "iw_db (snd (UpdateProjectPolicyFromRoleGrantIssue env ws issue w)) = iw_db w"
  by (simp add: UpdateProjectPolicyFromRoleGrantIssue_def split: sum.split option.split)


section \<open>The handlers keep\<close>

lemma keeps_finish_issue: "keeps w (snd (finish_issue issue w))"
  using keeps_UpdateIssue [of "no_update\<lparr>update_Status := Some Issue_DONE\<rparr>" w "issue_ProjectID issue" "issue_UID issue"]
  by (auto simp: finish_issue_def split: prod.split sum.split option.split)

lemma keeps_completeAccessRequest: "keeps w (snd (completeAccessRequestIssue env ctx issue w))"
  by (simp add: completeAccessRequestIssue_def keeps_same_issues keeps_and_then keeps_finish_issue split: Issue_Type.split)

lemma keeps_after_approval: "keeps w (snd (after_approval env ctx user approved issue w))"
proof -
  have complete: "keeps w1 (snd (case completeAccessRequestIssue env ctx issue (NotifyIssueApproved env issue user w1) of
      (Ok issue1, w2) \<Rightarrow> (Ok issue1, w2) | (_, w2) \<Rightarrow> (Panic :: (issue_reason, IssueMessage) outcome, w2)))" for w1
  proof -
    have "keeps w1 (NotifyIssueApproved env issue user w1)" by (rule keeps_same_issues) simp
    then have "keeps w1 (snd (completeAccessRequestIssue env ctx issue (NotifyIssueApproved env issue user w1)))"
      by (rule keeps_trans) (rule keeps_completeAccessRequest)
    then show ?thesis by (auto split: prod.split outcome.split)
  qed
  show ?thesis
    unfolding after_approval_def
    by (intro keeps_and_then) (auto intro: keeps_same_issues complete split: option.split)
qed

text \<open>The template found is that of a rule.\<close>

lemma match_rules_origin:
  "match_rules cel fs source vars rules = Inr (Some t) \<Longrightarrow> \<exists>r \<in> set rules. Rule_Template r = Some t"
  by (induction rules) (auto simp: bind_sum_def split: if_splits option.splits sum.splits prod.splits cel_stage.splits)

lemma getApprovalTemplate_origin:
  "getApprovalTemplate cel rules source vars = Inr (Some t) \<Longrightarrow> \<exists>r \<in> set rules. Rule_Template r = Some t"
  by (auto simp: getApprovalTemplate_def matchRulesForSource_def bind_sum_def
    split: if_splits option.splits sum.splits dest!: match_rules_origin)

lemma find_template_named:
  assumes "find_template env w issue prj rules = Ok (Some (t, vars))" "\<forall>r \<in> set rules. named_roles (Rule_Template r)"
  shows "named_roles t"
proof (cases t)
  case None then show ?thesis by (simp add: named_roles_def)
next
  case (Some roles)
  then obtain source vars1 where "getApprovalTemplate (ap_cel env) rules source vars1 = Inr (Some roles)"
    using assms(1)
    by (auto simp: find_template_def bind_Ok_iff of_sum_Ok_iff Let_def split: if_splits option.splits)
  then show ?thesis using getApprovalTemplate_origin assms(2) Some by metis
qed

lemma keeps_notified: "keeps w w1 \<Longrightarrow> keeps w (snd (NotifyApprovalRequested env issue w1))"
  by (erule keeps_trans) (simp add: keeps_same_issues)

lemma keeps_findApprovalTemplate:
  assumes "\<forall>r \<in> set rules. named_roles (Rule_Template r)"
  shows "keeps w (snd (findApprovalTemplateForIssue env issue rules w))"
proof -
  have "keeps w w1" if "find_template env w issue prj rules = Ok (Some (t, vars))"
    "on_db (store_UpdateIssue p u (no_update\<lparr>update_PayloadUpsert := Some (empty_Issue\<lparr>payload_Approval := Some (found_approval t),
       payload_RiskLevel := risk\<rparr>)\<rparr>)) w = (r, w1)" for prj t vars p u risk r w1
    using find_template_named [OF that(1) assms] that(2)
    by (rule_tac keeps_UpdateIssue_eq) (auto simp: found_approval_def)
  then show ?thesis
    by (auto simp: findApprovalTemplateForIssue_def Let_def intro!: keeps_notified
      split: option.split outcome.split prod.split sum.split)
qed

lemma keeps_with_setting:
  assumes "named_rules env" "\<And>rules w1. \<forall>r \<in> set rules. named_roles (Rule_Template r) \<Longrightarrow> keeps w1 (snd (f rules w1))"
  shows "keeps w (snd (with_setting env issue f w))"
  using assms by (auto simp: with_setting_def named_rules_def split: option.split sum.split)

lemma keeps_FindAndApply:
  assumes "named_rules env"
  shows "keeps w (snd (FindAndApplyApprovalTemplate env issue w))"
  unfolding FindAndApplyApprovalTemplate_def
  using assms by (intro keeps_with_setting keeps_findApprovalTemplate)

lemma keeps_processIssue:
  assumes "named_rules env"
  shows "keeps w (snd (processIssue env ref w))"
proof -
  have "keeps w (snd (with_setting env issue (findApprovalTemplateForIssue env issue) w))" for issue
    using assms by (intro keeps_with_setting keeps_findApprovalTemplate)
  then show ?thesis
    by (auto simp: processIssue_def intro!: keeps_and_then intro: keeps_same_issues
      split: sum.split option.split outcome.split)
qed

lemma keeps_apply_template: "named_rules env \<Longrightarrow> keeps w (snd (apply_template env issue w))"
  using keeps_FindAndApply [of env w issue]
  by (auto simp: apply_template_def split: prod.split outcome.split)

lemma keeps_postCreateIssue:
  assumes "named_rules env"
  shows "keeps w (snd (postCreateIssue env ctx issue w))"
proof -
  let ?w0 = "send_event (ISSUE_CREATED (issue_UID issue)) w"
  have start: "keeps w ?w0" by (rule keeps_same_issues) simp
  have "keeps ?w0 (snd (and_then (apply_template env issue ?w0) (\<lambda>_ w1.
           and_then (refresh_issue ctx issue w1) (\<lambda>issue1 w2.
           if issue_Type issue1 = Issue_DATABASE_EXPORT then (Ok issue1, w2)
           else
             (case CheckApprovalApproved (issue_Approval issue1) of
                Panic \<Rightarrow> (Panic, w2)
              | Err e \<Rightarrow> (Err e, w2)
              | Ok approved \<Rightarrow>
                  if approved then completeAccessRequestIssue env ctx issue1 w2 else (Ok issue1, w2))))))"
    by (intro keeps_and_then keeps_apply_template assms)
      (auto simp: refresh_issue_def keeps_completeAccessRequest split: outcome.split sum.split option.split)
  with start show ?thesis
    by (auto simp: postCreateIssue_def Let_def intro: keeps_trans keeps_same_issues)
qed

lemma insert_issue_keeps: "unreviewed issue \<Longrightarrow> keeps w (snd (insert_issue issue w))"
  using keeps_CreateIssue [of issue w]
  by (auto simp: insert_issue_def split: prod.split sum.split option.split)

lemma buildIssueMessage_unreviewed: "buildIssueMessage env ctx w prj email req = Ok issue \<Longrightarrow> unreviewed issue"
  by (auto simp: buildIssueMessage_def unreviewed_def bind_Ok_iff named_roles_def Let_def split: if_splits)

lemma keeps_CreateIssue_handler:
  assumes "named_rules env"
  shows "keeps w (snd (CreateIssue env ctx req w))"
  by (auto simp: CreateIssue_def bind_Ok_iff assms split: outcome.split if_splits
    intro!: keeps_and_then insert_issue_keeps keeps_postCreateIssue dest: buildIssueMessage_unreviewed)

lemma keeps_BatchUpdateIssuesStatus: "keeps w (snd (BatchUpdateIssuesStatus ctx names st w))"
proof -
  have "keeps w w1" if "on_db (store_BatchUpdateIssueStatuses p us st) w = (r, w1)" for p us r w1
    using keeps_BatchUpdate [of w p us st] that by simp
  then show ?thesis
    by (auto simp: BatchUpdateIssuesStatus_def split: outcome.split prod.split sum.split)
qed

lemma mild_update_path: "update_path t d l p patch = Ok patch1 \<Longrightarrow> mild patch \<Longrightarrow> mild patch1"
  by (auto simp: update_path_def mild_def empty_Issue_def split: if_splits option.splits)

lemma mild_update_paths: "update_paths t d l ps patch = Ok patch1 \<Longrightarrow> mild patch \<Longrightarrow> mild patch1"
  by (induction ps arbitrary: patch) (auto simp: bind_Ok_iff dest: mild_update_path)

lemma keeps_UpdateIssue_handler:
  assumes "named_rules env"
  shows "keeps w (snd (UpdateIssue env ctx req w))"
proof -
  have missing: "keeps w (snd (create_missing env ctx user req w))" for user
    by (simp add: create_missing_def keeps_CreateIssue_handler [OF assms] split: sum.split option.split)
  have "keeps w w1" if "update_paths t d l ps no_update = Ok patch" "on_db (store_UpdateIssue p u patch) w = (r, w1)"
    for t d l ps patch p u r w1
    using that mild_update_paths [OF that(1)] by (auto intro!: keeps_UpdateIssue_eq simp: mild_def no_update_def)
  then show ?thesis
    by (auto simp: UpdateIssue_def missing bind_Ok_iff split: option.split outcome.split prod.split sum.split)
qed

lemma unreviewed_grant_issue: "unreviewed (grant_issue g)"
  by (simp add: grant_issue_def unreviewed_def named_roles_def)

lemma iw_db_grants [simp]: "keeps w (w\<lparr>iw_grants := gs\<rparr>)" "keeps w (w\<lparr>iw_checks := cs\<rparr>)"
  by (simp_all add: keeps_same_issues)

lemma keeps_as_grant_reply: "keeps w (snd r) \<Longrightarrow> keeps w (snd (as_grant_reply r))"
  by (simp add: as_grant_reply_def)

lemma keeps_CreateAccessGrant:
  assumes "named_rules env"
  shows "keeps w (snd (CreateAccessGrant env ie ctx uuid req w))"
proof -
  have post: "keeps w1 (snd (and_then (as_grant_reply (postCreateIssue env ctx issue (w1\<lparr>iw_grants := gs\<rparr>))) (\<lambda>_ w2. (Ok (), w2))))"
    for w1 gs issue
    using keeps_trans [OF iw_db_grants(1) keeps_postCreateIssue [OF assms]]
    by (intro keeps_and_then keeps_as_grant_reply) auto
  have inserted: "keeps w (snd (and_then (as_grant_reply (insert_issue (grant_issue g1) (w\<lparr>iw_grants := gs\<rparr>))) (\<lambda>issue w1.
               (case UpdateAccessGrant (ag_ID g1) (\<lambda>g. g\<lparr>ag_IssueId := issue_UID issue\<rparr>) (iw_grants w1) of
                  (Inl e, gs1) \<Rightarrow> (Err (Grant_Reason (Issue_Store e)), w1\<lparr>iw_grants := gs1\<rparr>)
                | (Inr _, gs1) \<Rightarrow>
                    (case find_project (iw_db w1) (ctx_workspace ctx) (ag_ProjectID g1) of
                       None \<Rightarrow> (Ok (), w1\<lparr>iw_grants := gs1\<rparr>)
                     | Some _ \<Rightarrow>
                         and_then (as_grant_reply (postCreateIssue env ctx issue (w1\<lparr>iw_grants := gs1\<rparr>)))
                           (\<lambda>_ w2. (Ok (), w2)))))))" for g1 gs
    using keeps_trans [OF iw_db_grants(1) insert_issue_keeps [OF unreviewed_grant_issue]]
    by (intro keeps_and_then keeps_as_grant_reply) (auto simp: post split: prod.split sum.split option.split)
  then show ?thesis
    by (auto simp: CreateAccessGrant_def split: outcome.split prod.split sum.split)
qed

lemma keeps_ActivateAccessGrant: "keeps w (snd (ActivateAccessGrant env ctx name w))"
  by (auto simp: ActivateAccessGrant_def intro!: keeps_as_grant_reply intro: keeps_same_issues split: option.split)

lemma keeps_RevokeAccessGrant: "keeps w (snd (RevokeAccessGrant env ctx name w))"
  by (auto simp: RevokeAccessGrant_def split: option.split sum.split prod.split)

lemma keeps_store_checks: "keeps w (snd (store_checks env pe prj key specs dg w))"
  by (auto simp: store_checks_def split: outcome.split option.split prod.split sum.split)

lemma keeps_CreatePlan: "keeps w (snd (CreatePlan env pe ctx req w))"
proof -
  have "keeps w w1" if "on_db (store_CreatePlan plan) w = (r, w1)" for plan r w1
    using that by (auto simp: store_CreatePlan_def Let_def on_db_def intro: keeps_same_issues split: if_splits)
  then show ?thesis
    by (auto simp: CreatePlan_def Let_def split: outcome.split prod.split sum.split
      intro!: keeps_trans [OF _ keeps_and_then [OF keeps_store_checks]])
qed

lemma keeps_evict_approval:
  assumes "named_rules env"
  shows "keeps w (snd (evict_approval env issue w))"
proof -
  have *: "keeps w w1" if "on_db (store_UpdateIssue p u (no_update\<lparr>update_PayloadUpsert := Some (empty_Issue\<lparr>payload_Approval := Some
               \<lparr>approval_Template = None, approval_Approvers = [], approval_FindingDone = False\<rparr>\<rparr>)\<rparr>)) w = (r, w1)" for p u r w1
    using that by (rule keeps_UpdateIssue_eq) (simp add: named_roles_def)
  have found: "keeps w w2" if "keeps w w1" "FindAndApplyApprovalTemplate env i w1 = (r, w2)" for i w1 r w2
    using that keeps_trans [OF that(1) keeps_FindAndApply [OF assms, of w1 i]] by simp
  show ?thesis
    by (auto simp: evict_approval_def dest!: * split: prod.split sum.split option.split outcome.split intro: found)
qed

lemma keeps_update_specs:
  assumes "named_rules env"
  shows "keeps w (snd (update_specs env pe ctx req oldPlan patch w))"
  by (auto simp: update_specs_def Let_def intro!: keeps_and_then keeps_evict_approval [OF assms]
    split: outcome.split sum.split option.split)

lemma keeps_update_plan_paths:
  assumes "named_rules env"
  shows "keeps w (snd (update_plan_paths env pe ctx req prj oldPlan paths patch w))"
proof (induction paths arbitrary: patch w)
  case (Cons path paths)
  then show ?case by (auto intro!: keeps_and_then keeps_update_specs [OF assms])
qed simp

lemma keeps_UpdatePlan:
  assumes "named_rules env"
  shows "keeps w (snd (UpdatePlan env pe ctx req w))"
proof -
  have plan: "keeps w w1" if "on_db (store_UpdatePlan old patch) w = (r, w1)" for old patch r w w1
    using that by (auto simp: store_UpdatePlan_def Let_def on_db_def intro: keeps_same_issues split: option.splits)
  have checks: "keeps w (snd (store_checks env pe prj key specs dg w1))" if "keeps w w1" for w w1 prj key specs dg
    by (rule keeps_trans [OF that keeps_store_checks])
  have existing: "keeps w (snd (update_existing env pe ctx req user prj old paths w))" for user prj old paths
    by (auto simp: update_existing_def split: outcome.split prod.split sum.split
      intro!: keeps_and_then keeps_update_plan_paths [OF assms] dest!: plan intro: checks)
  show ?thesis
    by (auto simp: UpdatePlan_def existing keeps_CreatePlan split: option.split outcome.split)
qed

lemma keeps_RunPlanChecks: "keeps w (snd (RunPlanChecks env pe ctx name w))"
  by (auto simp: RunPlanChecks_def keeps_store_checks split: outcome.split)

lemma keeps_CancelPlanCheckRun: "keeps w (snd (CancelPlanCheckRun ctx name w))"
  by (auto simp: CancelPlanCheckRun_def split: outcome.split)

lemma keeps_finish_check: "keeps w (finish_check claim ended w)"
proof -
  have "keeps w (markPlanCheckRunDone p u v results w)" for p u v results
    by (rule keeps_same_issues)
      (auto simp: markPlanCheckRunDone_def Let_def split: sum.split option.split)
  then show ?thesis
    by (auto simp: finish_check_def markPlanCheckRunFailed_def markPlanCheckRunCanceled_def
      split: prod.split check_end.split check_failure.split)
qed

lemma keeps_claim_checks: "keeps w (snd (claim_checks locked w))"
  by (simp add: claim_checks_def split: prod.split)

end
