(* ===== verification/ApprovalDemo.thy ===== *)
theory ApprovalDemo
  imports PlanService TaskServiceSpec
begin

text \<open>
  A small workspace on which the properties of approvals are shown to apply: the project \<^verbatim>\<open>p\<close>, its
  developer \<^verbatim>\<open>c\<close> and its administrator \<^verbatim>\<open>d\<close>, who reviews every request.
\<close>

definition demo_account :: "string \<Rightarrow> UserMessage" where
  "demo_account email = \<lparr>User_Email = email, User_Name = email, User_Type = END_USER, User_MemberDeleted = False\<rparr>"

definition demo_access :: access_env where
  "demo_access = closed_access\<lparr>GetAccountByEmail := (\<lambda>email. Inr (Some (demo_account email)))\<rparr>"

definition demo_cel :: rule_cel where
  "demo_cel = \<lparr>factors_env = (\<lambda>_. None), rule_program = (\<lambda>_ _. None), rule_vars = (\<lambda>_ _. None), rule_eval = (\<lambda>_ _ _. Inr False)\<rparr>"

definition demo_condition :: "string \<Rightarrow> Expr" where
  "demo_condition e = \<lparr>Expr_Expression = e, Expr_Title = [], Expr_Description = [], Expr_Location = []\<rparr>"

definition demo_rule :: "Rule_Source \<Rightarrow> Rule" where
  "demo_rule source = \<lparr>Rule_Template = Some (Some [''roles/dba'']), Rule_Condition = Some (demo_condition ''true''), Rule_Source = source\<rparr>"

definition demo_database :: IssueDatabase where
  "demo_database = \<lparr>Database_ProjectID = ''p'', Database_InstanceID = ''i'', Database_DatabaseName = ''d'',
     Database_EffectiveEnvironmentID = Some ''prod'', Database_Engine = Engine_POSTGRES\<rparr>"

definition demo_approval_env :: approval_env where
  "demo_approval_env = \<lparr>ap_access = demo_access, ap_cel = demo_cel, ap_parse = (\<lambda>_. Inr CelOtherExpr), ap_ApprovalFeature = (\<lambda>_. None),
     ap_ApprovalSetting = (\<lambda>_. Inr [demo_rule REQUEST_ROLE, demo_rule CHANGE_DATABASE, demo_rule REQUEST_ACCESS, demo_rule EXPORT_DATA]),
     ap_ListDatabases = (\<lambda>_. Inr [demo_database]), ap_DatabaseGroup = (\<lambda>_ _. Inr None), ap_GroupProgram = (\<lambda>_ _. Inr (CelBool True)),
     ap_Sheet = (\<lambda>_. Inr (Some ''SELECT 1'')), ap_Environments = (\<lambda>_. Inr [''prod'']),
     ap_WorkspaceIamPolicy = (\<lambda>_. Inr \<lparr>IamPolicy_Bindings = []\<rparr>),
     ap_GetUserByEmail = (\<lambda>email. Inr (Some (demo_account email))), ap_RoleFeature = (\<lambda>_. None), ap_AccessFeature = (\<lambda>_. None),
     ap_DurationDays = (\<lambda>_. 1)\<rparr>"

definition demo_plan_env :: plan_env where
  "demo_plan_env = \<lparr>pe_HasInstance = (\<lambda>_ _. Inr True), pe_DatabaseProject = (\<lambda>_ _ _. Inr (Some ''p'')), pe_HasSheets = (\<lambda>_. Inr True),
     pe_HasRelease = (\<lambda>_ _. Inr True), pe_GhostFlags = (\<lambda>_. None)\<rparr>"

definition demo_instance_env :: instance_env where
  "demo_instance_env = \<lparr>ie_InstanceEngine = (\<lambda>_ _. Inr (Some Engine_POSTGRES)), ie_ReadOnly = (\<lambda>_ _. Inr True)\<rparr>"

definition demo_ctx :: "string \<Rightarrow> request_ctx" where
  "demo_ctx email = \<lparr>ctx_workspace = ''w'', ctx_user = Some (demo_account email), ctx_saas = False, ctx_now = 1000000000\<rparr>"

definition demo_project :: project_row where
  "demo_project = \<lparr>project_id = ''p'', project_workspace = ''w'', project_ParallelTasksPerRollout = 0, project_RequireIssueApproval = True,
     project_AllowSelfApproval = False, project_ForceIssueLabels = False, project_AllowJustInTimeAccess = True,
     project_EnforceIssueTitle = False, project_CiSamplingSize = 0\<rparr>"

definition demo_issue_world :: issue_world where
  "demo_issue_world = \<lparr>iw_db = \<lparr>db_projects = [demo_project], db_instances = [''i''], db_plans = [], db_issues = [], db_tasks = [],
       db_task_runs = [], db_deliveries = [], db_heartbeats = [], db_assigned_node = True\<rparr>,
     iw_checks = [], iw_grants = [],
     iw_policies = [(''w'', ''p'') \<mapsto> \<lparr>IamPolicy_Bindings = [\<lparr>Binding_Role = ''roles/dba'', Binding_Members = [''users/d''],
       Binding_Condition = None\<rparr>]\<rparr>],
     iw_events = [], iw_approvalCheckCh = [], iw_rolloutCreationCh = []\<rparr>"

text \<open>A request for a role, its approval, and what comes of it.\<close>

definition demo_grant :: RoleGrant where
  "demo_grant = \<lparr>grant_Role = ''roles/dev'', grant_User = ''users/c'', grant_Condition = None, grant_Expiration = None\<rparr>"

definition demo_role_request :: CreateIssueRequest where
  "demo_role_request = \<lparr>create_issue_Parent = ''projects/p'', create_issue_Title = ''t'', create_issue_Type = Issue_ROLE_GRANT,
     create_issue_Plan = [], create_issue_Description = [], create_issue_Labels = [], create_issue_RoleGrant = Some demo_grant\<rparr>"

definition demo_requested :: issue_world where
  "demo_requested = snd (CreateIssue demo_approval_env (demo_ctx ''c'') demo_role_request demo_issue_world)"

definition demo_approved :: issue_world where
  "demo_approved = snd (ApproveIssue demo_approval_env (demo_ctx ''d'') ''projects/p/issues/101'' demo_requested)"

lemma demo_approved_issues:
  "map issue_Approval (db_issues (iw_db demo_approved)) = [Some \<lparr>approval_Template = Some (Some [''roles/dba'']),
     approval_Approvers = [\<lparr>approver_Status = Approver_APPROVED, approver_Principal = ''users/d''\<rparr>], approval_FindingDone = True\<rparr>]"
  by code_simp

text \<open>An export of a database, approved, whose plan is then changed.\<close>

definition demo_export_spec :: "string \<Rightarrow> Plan_Spec" where
  "demo_export_spec target = \<lparr>spec_Id = ''s'', spec_Config = V1_ExportDataConfig \<lparr>v1_export_Targets = [target], v1_export_Sheet = []\<rparr>\<rparr>"

definition demo_plan_request :: CreatePlanRequest where
  "demo_plan_request = \<lparr>cp_Parent = ''projects/p'', cp_Title = ''t'', cp_Description = [],
     cp_Specs = [demo_export_spec ''instances/i/databases/d'']\<rparr>"

definition demo_export_request :: CreateIssueRequest where
  "demo_export_request = \<lparr>create_issue_Parent = ''projects/p'', create_issue_Title = ''t'', create_issue_Type = Issue_DATABASE_EXPORT,
     create_issue_Plan = ''projects/p/plans/101'', create_issue_Description = [], create_issue_Labels = [], create_issue_RoleGrant = None\<rparr>"

definition demo_plan_update :: UpdatePlanRequest where
  "demo_plan_update = \<lparr>up_Name = ''projects/p/plans/101'', up_Title = [], up_Description = [], up_Deleted = False,
     up_Specs = [demo_export_spec ''instances/i/databases/e''], up_Paths = Some [''specs''], up_AllowMissing = False\<rparr>"

definition demo_planned :: "approval_env \<Rightarrow> issue_world" where
  "demo_planned env = snd (CreateIssue env (demo_ctx ''c'') demo_export_request
     (snd (CreatePlan env demo_plan_env (demo_ctx ''c'') demo_plan_request demo_issue_world)))"

definition demo_reviewed :: issue_world where
  "demo_reviewed = snd (ApproveIssue demo_approval_env (demo_ctx ''d'') ''projects/p/issues/101'' (demo_planned demo_approval_env))"

definition demo_replanned :: "approval_env \<Rightarrow> issue_world \<Rightarrow> int plan_reply" where
  "demo_replanned env w = UpdatePlan env demo_plan_env (demo_ctx ''c'') demo_plan_update w"

lemma demo_reviewed_approvers:
  "map (\<lambda>i. map_option approval_Approvers (issue_Approval i)) (db_issues (iw_db demo_reviewed))
     = [Some [\<lparr>approver_Status = Approver_APPROVED, approver_Principal = ''users/d''\<rparr>]]"
  by code_simp

text \<open>A workspace whose only rule asks for the review of exports of the database \<^verbatim>\<open>e\<close>.\<close>

definition demo_rule_e :: Rule where
  "demo_rule_e = (demo_rule EXPORT_DATA)\<lparr>Rule_Condition := Some (demo_condition ''e'')\<rparr>"

definition demo_env_e :: approval_env where
  "demo_env_e = demo_approval_env\<lparr>ap_ApprovalSetting := (\<lambda>_. Inr [demo_rule_e]),
     ap_ListDatabases := (\<lambda>_. Inr [demo_database, demo_database\<lparr>Database_DatabaseName := ''e''\<rparr>]),
     ap_cel := demo_cel\<lparr>rule_eval := (\<lambda>_ _ vars. Inr (vars CELAttributeResourceDatabaseName = Some (AnyString ''e'')))\<rparr>\<rparr>"

end
