(* ===== verification/ApprovalSpec.thy ===== *)
theory ApprovalSpec
  imports IssueFrame ApprovalDemo
begin

text \<open>
  Properties of the approval of issues: along any history of requests, with reads that other requests
  overtake, each entry of an approval was made by a user who held the role of its step, and the status
  an issue shows agrees with the test the rollout relies on.
\<close>

section \<open>Histories\<close>

text \<open>The handlers that are not reviews, and the steps of the runner and the scheduler of checks.\<close>

inductive other_step :: "approval_env \<Rightarrow> plan_env \<Rightarrow> instance_env \<Rightarrow> issue_world \<Rightarrow> issue_world \<Rightarrow> bool"
  for env pe ie where
  "other_step env pe ie w (snd (CreateIssue env ctx creq w))"
| "other_step env pe ie w (snd (UpdateIssue env ctx ureq w))"
| "other_step env pe ie w (snd (BatchUpdateIssuesStatus ctx names st w))"
| "other_step env pe ie w (snd (CreateAccessGrant env ie ctx uuid areq w))"
| "other_step env pe ie w (snd (ActivateAccessGrant env ctx name w))"
| "other_step env pe ie w (snd (RevokeAccessGrant env ctx name w))"
| "other_step env pe ie w (snd (CreatePlan env pe ctx preq w))"
| "other_step env pe ie w (snd (UpdatePlan env pe ctx upreq w))"
| "other_step env pe ie w (snd (RunPlanChecks env pe ctx name w))"
| "other_step env pe ie w (snd (CancelPlanCheckRun ctx name w))"
| "other_step env pe ie w (snd (claim_checks locked w))"
| "other_step env pe ie w (finish_check claim ended w)"
| "other_step env pe ie w (snd (processIssue env ref w))"

lemma other_step_keeps:
  assumes "other_step env pe ie w w1" "named_rules env"
  shows "keeps w w1"
  using assms
  by (induction rule: other_step.induct)
    (simp_all add: keeps_CreateIssue_handler keeps_UpdateIssue_handler keeps_BatchUpdateIssuesStatus keeps_CreateAccessGrant
      keeps_ActivateAccessGrant keeps_RevokeAccessGrant keeps_CreatePlan keeps_UpdatePlan keeps_RunPlanChecks
      keeps_CancelPlanCheckRun keeps_claim_checks keeps_finish_check keeps_processIssue)

text \<open>
  The worlds up to now, the newest first.  A review decides on a world it has seen and writes later;
  at the start there is no issue.
\<close>

inductive history :: "approval_env \<Rightarrow> plan_env \<Rightarrow> instance_env \<Rightarrow> issue_world list \<Rightarrow> bool"
  for env pe ie where
  start: "db_issues (iw_db w) = [] \<Longrightarrow> history env pe ie [w]"
| other: "history env pe ie (w # ws) \<Longrightarrow> other_step env pe ie w w1 \<Longrightarrow> history env pe ie (w1 # w # ws)"
| approve: "history env pe ie (w # ws) \<Longrightarrow> seen \<in> set (w # ws)
    \<Longrightarrow> history env pe ie (snd (approve_write env ctx (approve_read env ctx name seen) w) # w # ws)"
| reject: "history env pe ie (w # ws) \<Longrightarrow> seen \<in> set (w # ws)
    \<Longrightarrow> history env pe ie (snd (reject_write env (reject_read env ctx name seen) w) # w # ws)"
| request: "history env pe ie (w # ws) \<Longrightarrow> seen \<in> set (w # ws)
    \<Longrightarrow> history env pe ie (snd (request_write env (request_read ctx name seen) w) # w # ws)"


section \<open>Each entry of an approval has its origin\<close>

text \<open>
  The user who made an entry: in a world seen before, an allowed reviewer of the issue for the role, and
  not its creator unless the project lets creators review.
\<close>

definition reviewed_by ::
  "approval_env \<Rightarrow> issue_world \<Rightarrow> string \<times> int \<Rightarrow> string \<Rightarrow> Approver \<Rightarrow> bool" where
  "reviewed_by env seen key role approver \<longleftrightarrow>
     (\<exists>ctx user issue prj. ctx_user ctx = Some user \<and> approver_Principal approver = FormatUserEmail (User_Email user)
        \<and> issue \<in> set (db_issues (iw_db seen)) \<and> issue_key issue = key
        \<and> find_project (iw_db seen) (ctx_workspace ctx) (fst key) = Some prj
        \<and> isUserReviewer env ctx seen issue role user
        \<and> (project_AllowSelfApproval prj \<or> issue_CreatorEmail issue \<noteq> User_Email user))"

text \<open>The entries stand for the first roles of the template, and all but the last of them approve.\<close>

definition sound_approval :: "approval_env \<Rightarrow> issue_world list \<Rightarrow> string \<times> int \<Rightarrow> Approval \<Rightarrow> bool" where
  "sound_approval env ws key a \<longleftrightarrow>
     (case approval_Template a of
        Some (Some roles) \<Rightarrow>
          [] \<notin> set roles \<and> length (approval_Approvers a) \<le> length roles
          \<and> (\<forall>k < length (approval_Approvers a). \<exists>seen \<in> set ws. reviewed_by env seen key (roles ! k) (approval_Approvers a ! k))
          \<and> (\<forall>k < length (approval_Approvers a). approver_Status (approval_Approvers a ! k) = Approver_APPROVED
               \<or> approver_Status (approval_Approvers a ! k) = Approver_REJECTED \<and> Suc k = length (approval_Approvers a))
      | _ \<Rightarrow> approval_Approvers a = [])"

definition sound_issue :: "approval_env \<Rightarrow> issue_world list \<Rightarrow> IssueMessage \<Rightarrow> bool" where
  "sound_issue env ws i \<longleftrightarrow> (\<forall>a. issue_Approval i = Some a \<longrightarrow> sound_approval env ws (issue_key i) a)"

lemma sound_approval_mono: "sound_approval env ws key a \<Longrightarrow> set ws \<subseteq> set ws1 \<Longrightarrow> sound_approval env ws1 key a"
  by (fastforce simp: sound_approval_def split: option.splits)

lemma sound_issue_mono: "sound_issue env ws i \<Longrightarrow> set ws \<subseteq> set ws1 \<Longrightarrow> sound_issue env ws1 i"
  by (auto simp: sound_issue_def intro: sound_approval_mono)

lemma unreviewed_sound: "unreviewed i \<Longrightarrow> sound_issue env ws i"
  by (auto simp: sound_issue_def sound_approval_def unreviewed_def named_roles_def split: option.splits)

lemma sound_issue_eq: "sound_issue env ws i \<Longrightarrow> issue_key i = issue_key j \<Longrightarrow> issue_Approval i = issue_Approval j \<Longrightarrow> sound_issue env ws j"
  by (simp add: sound_issue_def)

lemma keeps_sound:
  assumes "keeps w w1" "\<forall>i \<in> set (db_issues (iw_db w)). sound_issue env ws i" "j \<in> set (db_issues (iw_db w1))"
  shows "sound_issue env ws j"
proof -
  consider "unreviewed j"
    | i where "i \<in> set (db_issues (iw_db w))" "issue_key i = issue_key j" "issue_Approval i = issue_Approval j"
    using assms(1,3) by (auto simp: keeps_def)
  then show ?thesis
  proof cases
    case 1 then show ?thesis by (rule unreviewed_sound)
  next
    case 2 then show ?thesis using assms(2) sound_issue_eq by blast
  qed
qed

text \<open>What the reads of the reviews are known to have found.\<close>

lemma GetIssue_mem:
  "GetIssue db ws p (Some u) pl = Inr (Some i) \<Longrightarrow> i \<in> set (db_issues db) \<and> issue_key i = (p, u)"
  by (auto simp: GetIssue_def ListIssues_by_def bind_sum_Inr_iff given_def issue_key_def dest!: at_most_one_mem)

lemma load_review_Ok:
  assumes "load_review ctx seen name = Ok (issue, prj, a)"
  shows "issue \<in> set (db_issues (iw_db seen))" "find_project (iw_db seen) (ctx_workspace ctx) (issue_ProjectID issue) = Some prj"
    "issue_Approval issue = Some a" "approval_FindingDone a" "approval_Template a \<noteq> None"
  using assms
  by (auto simp: load_review_def getIssueMessage_def issue_project_def bind_Ok_iff of_option_Ok_iff of_sum_Ok_iff
    split: if_splits dest!: GetIssue_mem)

lemma check_reviewer_Ok:
  assumes "check_reviewer env ctx seen issue prj a = Ok user"
  obtains role where "FindRejectedRole (Some a) = (Ok [] :: (issue_reason, string) outcome)"
    "FindNextPendingRole (Some a) = (Ok role :: (issue_reason, string) outcome)" "role \<noteq> []"
    "ctx_user ctx = Some user" "isUserReviewer env ctx seen issue role user"
    "project_AllowSelfApproval prj \<or> issue_CreatorEmail issue \<noteq> User_Email user"
  using assms
  by (auto simp: check_reviewer_def bind_Ok_iff of_option_Ok_iff split: if_splits)

text \<open>A review adds the entry of the pending step to a sound approval without a rejection.\<close>

lemma sound_add_review:
  assumes "load_review ctx seen name = Ok (issue, prj, a)" "check_reviewer env ctx seen issue prj a = Ok user"
    and sound: "sound_approval env ws (issue_key issue) a" and ws: "seen \<in> set ws"
    and st: "status = Approver_APPROVED \<or> status = Approver_REJECTED"
  shows "sound_approval env ws (issue_key issue) (add_review status user a)"
proof -
  note load = load_review_Ok [OF assms(1)]
  from check_reviewer_Ok [OF assms(2)] obtain role where
    rejected: "FindRejectedRole (Some a) = (Ok [] :: (issue_reason, string) outcome)" and
    pending: "FindNextPendingRole (Some a) = (Ok role :: (issue_reason, string) outcome)" "role \<noteq> []" and
    user: "ctx_user ctx = Some user" "isUserReviewer env ctx seen issue role user"
      "project_AllowSelfApproval prj \<or> issue_CreatorEmail issue \<noteq> User_Email user" .
  obtain roles where roles: "approval_Template a = Some (Some roles)"
    using pending load(5) by (auto simp: FindNextPendingRole_def split: option.splits)
  let ?n = "length (approval_Approvers a)"
  have n: "?n < length roles" "role = roles ! ?n"
    using pending roles by (auto simp: FindNextPendingRole_def split: if_splits)
  have named: "[] \<notin> set roles" using sound roles by (simp add: sound_approval_def)
  have approved: "approver_Status (approval_Approvers a ! k) = Approver_APPROVED" if "k < ?n" for k
  proof -
    have "rejected_role roles (approval_Approvers a) 0 = []"
      using rejected roles by (simp add: FindRejectedRole_def)
    then have "approver_Status (approval_Approvers a ! k) \<noteq> Approver_REJECTED"
      using rejected_role_iff [OF named, of "approval_Approvers a" 0] that n by simp
    then show ?thesis using sound roles that by (auto simp: sound_approval_def)
  qed
  have new: "reviewed_by env seen (issue_key issue) role \<lparr>approver_Status = status, approver_Principal = FormatUserEmail (User_Email user)\<rparr>"
    using user load(1,2) by (auto simp: reviewed_by_def issue_key_def)
  show ?thesis
    using sound roles n approved new ws st
    by (auto simp: sound_approval_def add_review_def nth_append less_Suc_eq)
qed

text \<open>A renewed request takes the rejection, the last entry, away.\<close>

lemma filter_but_last:
  assumes "\<And>k. k < length xs \<Longrightarrow> P (xs ! k) \<or> Suc k = length xs"
  shows "filter P xs = xs \<or> filter P xs = butlast xs"
proof (cases xs rule: rev_cases)
  case (snoc ys y)
  have "P (ys ! k)" if "k < length ys" for k
    using assms [of k] that by (auto simp: snoc nth_append)
  then have "filter P ys = ys" by (auto simp: filter_id_conv in_set_conv_nth)
  then show ?thesis by (simp add: snoc)
qed simp

lemma sound_without_rejections:
  assumes "sound_approval env ws key a"
  shows "sound_approval env ws key (without_rejections a)"
proof (cases "\<exists>roles. approval_Template a = Some (Some roles)")
  case True
  then obtain roles where roles: "approval_Template a = Some (Some roles)" by blast
  let ?as = "approval_Approvers a"
  have "filter (\<lambda>v. approver_Status v \<noteq> Approver_REJECTED) ?as = ?as
    \<or> filter (\<lambda>v. approver_Status v \<noteq> Approver_REJECTED) ?as = butlast ?as"
    using assms roles by (intro filter_but_last) (auto simp: sound_approval_def)
  moreover have "approver_Status (?as ! k) = Approver_APPROVED" if k: "k < length ?as - Suc 0" for k
  proof -
    have "k < length ?as" "Suc k \<noteq> length ?as" using k by auto
    then show ?thesis using assms roles by (auto simp: sound_approval_def)
  qed
  ultimately show ?thesis
    using assms roles by (auto simp: sound_approval_def without_rejections_def nth_butlast)
next
  case False
  then show ?thesis using assms by (auto simp: sound_approval_def without_rejections_def split: option.splits)
qed

lemma approve_read_Ok:
  assumes "approve_read env ctx name seen = Ok (issue, user, a1, approved)"
  obtains a prj where "load_review ctx seen name = Ok (issue, prj, a)" "check_reviewer env ctx seen issue prj a = Ok user"
    "a1 = add_review Approver_APPROVED user a" "CheckApprovalApproved (Some a1) = (Ok approved :: (issue_reason, bool) outcome)"
  using assms by (auto simp: approve_read_def bind_Ok_iff)

lemma reject_read_Ok:
  assumes "reject_read env ctx name seen = Ok (issue, user, a1)"
  obtains a prj where "load_review ctx seen name = Ok (issue, prj, a)" "check_reviewer env ctx seen issue prj a = Ok user"
    "a1 = add_review Approver_REJECTED user a"
  using assms by (auto simp: reject_read_def bind_Ok_iff)

lemma request_read_Ok:
  assumes "request_read ctx name seen = Ok (issue, a1)"
  obtains a prj where "load_review ctx seen name = Ok (issue, prj, a)" "a1 = without_rejections a"
  using assms by (auto simp: request_read_def bind_Ok_iff split: if_splits)

text \<open>The write replaces the approval of the one issue.\<close>

lemma store_approval_issues:
  assumes "j \<in> set (db_issues (iw_db (snd (store_approval issue a1 w))))"
  shows "j \<in> set (db_issues (iw_db w)) \<or> issue_key j = issue_key issue \<and> issue_Approval j = Some a1"
proof -
  let ?patch = "no_update\<lparr>update_PayloadUpsert := Some (empty_Issue\<lparr>payload_Approval := Some a1\<rparr>)\<rparr>"
  let ?r = "on_db (store_UpdateIssue (issue_ProjectID issue) (issue_UID issue) ?patch) w"
  have "snd (store_approval issue a1 w) = snd ?r"
    by (auto simp: store_approval_def split: prod.split sum.split option.split)
  then have "j \<in> set (db_issues (snd (store_UpdateIssue (issue_ProjectID issue) (issue_UID issue) ?patch (iw_db w))))"
    using assms by simp
  then show ?thesis
    using store_UpdateIssue_issues [of "issue_ProjectID issue" "issue_UID issue" ?patch "iw_db w"]
    by (auto simp: issue_key_def patch_issue_Approval no_update_def split: if_splits)
qed

lemma sound_after_store:
  assumes "\<forall>i \<in> set (db_issues (iw_db w)). sound_issue env ws i" "sound_approval env ws (issue_key issue) a1"
    and "keeps (snd (store_approval issue a1 w)) w1" "j \<in> set (db_issues (iw_db w1))"
  shows "sound_issue env ws j"
proof (rule keeps_sound [OF assms(3) _ assms(4)], rule ballI)
  fix i assume "i \<in> set (db_issues (iw_db (snd (store_approval issue a1 w))))"
  from store_approval_issues [OF this] show "sound_issue env ws i"
    using assms(1,2) by (auto simp: sound_issue_def)
qed

lemma keeps_approve_write: "decided = Ok (issue, user, a1, approved) \<Longrightarrow>
    keeps (snd (store_approval issue a1 w)) (snd (approve_write env ctx decided w))"
  by (auto simp: approve_write_def intro!: keeps_and_then keeps_after_approval)

lemma keeps_reject_write: "decided = Ok (issue, user, a1) \<Longrightarrow>
    keeps (snd (store_approval issue a1 w)) (snd (reject_write env decided w))"
  by (auto simp: reject_write_def intro!: keeps_and_then intro: keeps_same_issues split: sum.split option.split)

lemma keeps_request_write: "decided = Ok (issue, a1) \<Longrightarrow>
    keeps (snd (store_approval issue a1 w)) (snd (request_write env decided w))"
  by (auto simp: request_write_def intro!: keeps_and_then intro: keeps_same_issues)

text \<open>The invariant along a history.\<close>

definition all_sound :: "approval_env \<Rightarrow> issue_world list \<Rightarrow> bool" where
  "all_sound env ws \<longleftrightarrow> (\<forall>w \<in> set ws. \<forall>i \<in> set (db_issues (iw_db w)). sound_issue env ws i)"

lemma all_sound_Cons:
  assumes "all_sound env ws" "\<forall>i \<in> set (db_issues (iw_db w1)). sound_issue env ws i"
  shows "all_sound env (w1 # ws)"
  using assms sound_issue_mono [of env ws _ "w1 # ws"] by (auto simp: all_sound_def)

lemma all_sound_stored:
  assumes "all_sound env (w # ws)" "sound_approval env (w # ws) (issue_key issue) a1"
    and "keeps (snd (store_approval issue a1 w)) w1"
  shows "all_sound env (w1 # w # ws)"
proof (rule all_sound_Cons [OF assms(1)], rule ballI)
  fix i assume "i \<in> set (db_issues (iw_db w1))"
  then show "sound_issue env (w # ws) i"
    using sound_after_store [OF _ assms(2,3)] assms(1) by (simp add: all_sound_def)
qed

lemma loaded_sound:
  "all_sound env ws \<Longrightarrow> seen \<in> set ws \<Longrightarrow> load_review ctx seen name = Ok (issue, prj, a) \<Longrightarrow> sound_approval env ws (issue_key issue) a"
  using load_review_Ok by (fastforce simp: all_sound_def sound_issue_def)

lemma all_sound_same: "all_sound env (w # ws) \<Longrightarrow> all_sound env (w # w # ws)"
  by (rule all_sound_Cons) (simp_all add: all_sound_def)

lemma history_sound:
  assumes "history env pe ie ws" "named_rules env"
  shows "all_sound env ws"
  using assms(1)
proof induction
  case (start w)
  then show ?case by (simp add: all_sound_def)
next
  case (other w ws w1)
  then show ?case
    using keeps_sound [OF other_step_keeps [OF other.hyps(2) assms(2)]]
    by (intro all_sound_Cons [OF other.IH] ballI) (simp_all add: all_sound_def)
next
  case (approve w ws seen ctx name)
  show ?case
  proof (cases "approve_read env ctx name seen")
    case (Ok decided)
    then obtain issue user a1 approved where decided: "approve_read env ctx name seen = Ok (issue, user, a1, approved)"
      by (cases decided) auto
    from approve_read_Ok [OF decided] obtain a prj where
      "load_review ctx seen name = Ok (issue, prj, a)" "check_reviewer env ctx seen issue prj a = Ok user"
      "a1 = add_review Approver_APPROVED user a" .
    then have "sound_approval env (w # ws) (issue_key issue) a1"
      using sound_add_review loaded_sound approve.IH approve.hyps(2) by blast
    then show ?thesis using all_sound_stored [OF approve.IH] keeps_approve_write [OF decided] by blast
  qed (simp_all add: approve_write_def all_sound_same approve.IH)
next
  case (reject w ws seen ctx name)
  show ?case
  proof (cases "reject_read env ctx name seen")
    case (Ok decided)
    then obtain issue user a1 where decided: "reject_read env ctx name seen = Ok (issue, user, a1)"
      by (cases decided) auto
    from reject_read_Ok [OF decided] obtain a prj where
      "load_review ctx seen name = Ok (issue, prj, a)" "check_reviewer env ctx seen issue prj a = Ok user"
      "a1 = add_review Approver_REJECTED user a" .
    then have "sound_approval env (w # ws) (issue_key issue) a1"
      using sound_add_review loaded_sound reject.IH reject.hyps(2) by blast
    then show ?thesis using all_sound_stored [OF reject.IH] keeps_reject_write [OF decided] by blast
  qed (simp_all add: reject_write_def all_sound_same reject.IH)
next
  case (request w ws seen ctx name)
  show ?case
  proof (cases "request_read ctx name seen")
    case (Ok decided)
    then obtain issue a1 where decided: "request_read ctx name seen = Ok (issue, a1)"
      by (cases decided) auto
    from request_read_Ok [OF decided] obtain a prj where
      "load_review ctx seen name = Ok (issue, prj, a)" "a1 = without_rejections a" .
    then have "sound_approval env (w # ws) (issue_key issue) a1"
      using sound_without_rejections loaded_sound request.IH request.hyps(2) by blast
    then show ?thesis using all_sound_stored [OF request.IH] keeps_request_write [OF decided] by blast
  qed (simp_all add: request_write_def all_sound_same request.IH)
qed


section \<open>Approved issues\<close>

text \<open>
  C2. An issue that counts as approved has been reviewed in full.  Along any history of requests and
  background steps, whatever requests a review overtakes between its read and its write: the search for
  a template is over, and where it found one, there is one approval for each role of the flow, in order,
  each made by a user who held this role when the review was decided, and who is not the creator of the
  issue unless the project allows it.  It holds for workspaces whose rules name their roles.
\<close>
theorem approved_issue_traced:
  assumes "history env pe ie (w # ws)" "named_rules env" "i \<in> set (db_issues (iw_db w))"
    and "CheckIssueApproved i = (Ok True :: (issue_reason, bool) outcome)"
  shows "\<exists>a. issue_Approval i = Some a \<and> approval_FindingDone a \<and>
    (case approval_Template a of
       None \<Rightarrow> approval_Approvers a = []
     | Some template \<Rightarrow>
         length (approval_Approvers a) = length (flow_roles template)
         \<and> list_all (\<lambda>k. approver_Status (approval_Approvers a ! k) = Approver_APPROVED
              \<and> list_ex (\<lambda>seen. reviewed_by env seen (issue_key i) (flow_roles template ! k) (approval_Approvers a ! k)) (w # ws))
            [0..<length (flow_roles template)])"
proof -
  have "sound_issue env (w # ws) i"
    using history_sound [OF assms(1,2)] assms(3) by (auto simp: all_sound_def)
  moreover obtain a where a: "issue_Approval i = Some a" "approval_FindingDone a"
    "CheckApprovalApproved (Some a) = (Ok True :: (issue_reason, bool) outcome)"
    using assms(4) by (cases "issue_Approval i") (auto simp: CheckIssueApproved_def CheckApprovalApproved_def split: if_splits)
  ultimately have sound: "sound_approval env (w # ws) (issue_key i) a" by (simp add: sound_issue_def)
  show ?thesis
  proof (cases "approval_Template a")
    case None
    then show ?thesis using a sound by (auto simp: sound_approval_def)
  next
    case (Some template)
    then obtain roles where roles: "template = Some roles"
      using a(3) by (cases template)
        (auto simp: CheckApprovalApproved_def FindRejectedRole_def FindNextPendingRole_def bind_Ok_iff split: if_splits)
    have "[] \<notin> set roles" using sound Some roles by (simp add: sound_approval_def)
    from approved_iff [OF _ this, of a, where ?'a = issue_reason] have
      "length roles \<le> length (approval_Approvers a)"
      "\<forall>j < length roles. approver_Status (approval_Approvers a ! j) \<noteq> Approver_REJECTED"
      using a(3) Some roles by simp_all
    then show ?thesis
      using a sound Some roles
      by (auto simp: sound_approval_def flow_roles_def list_all_iff list_ex_iff)
  qed
qed

lemma demo_history:
  "history demo_approval_env demo_plan_env demo_instance_env [demo_approved, demo_requested, demo_issue_world]"
proof -
  have "history demo_approval_env demo_plan_env demo_instance_env [demo_issue_world]"
    by (rule history.start) (simp add: demo_issue_world_def)
  then have "history demo_approval_env demo_plan_env demo_instance_env [demo_requested, demo_issue_world]"
    by (rule history.other) (simp add: demo_requested_def other_step.intros)
  then show ?thesis
    unfolding demo_approved_def ApproveIssue_def by (rule history.approve) simp
qed

lemma demo_named: "named_rules demo_approval_env"
  by (auto simp: named_rules_def named_roles_def demo_approval_env_def demo_rule_def)

definition demo_approved_issue :: IssueMessage where
  "demo_approved_issue = hd (db_issues (iw_db demo_approved))"

lemma demo_approved_issue:
  "demo_approved_issue \<in> set (db_issues (iw_db demo_approved))"
  "issue_Approval demo_approved_issue = Some \<lparr>approval_Template = Some (Some [''roles/dba'']),
     approval_Approvers = [\<lparr>approver_Status = Approver_APPROVED, approver_Principal = ''users/d''\<rparr>], approval_FindingDone = True\<rparr>"
  using demo_approved_issues by (auto simp: demo_approved_issue_def)

lemma demo_approved_key: "issue_key demo_approved_issue = (''p'', 101)"
  by code_simp

theorem approved_issue_traced_witness:
  "list_ex (\<lambda>seen. reviewed_by demo_approval_env seen (''p'', 101) ''roles/dba''
     \<lparr>approver_Status = Approver_APPROVED, approver_Principal = ''users/d''\<rparr>) [demo_approved, demo_requested, demo_issue_world]"
proof -
  have "CheckIssueApproved demo_approved_issue = (Ok True :: (issue_reason, bool) outcome)"
    by (simp add: CheckIssueApproved_def demo_approved_issue CheckApprovalApproved_def FindRejectedRole_def FindNextPendingRole_def)
  from approved_issue_traced [OF demo_history demo_named demo_approved_issue(1) this] show ?thesis
    by (simp add: demo_approved_issue demo_approved_key flow_roles_def)
qed




section \<open>Where reviews go wrong\<close>

text \<open>
  Two reviews that overtake each other: the approval is written whole, so the later write takes the earlier
  one back.  Here a rejection is lost to an approval that was decided before it.
\<close>

definition demo_rejected :: issue_world where
  "demo_rejected = snd (RejectIssue demo_approval_env (demo_ctx ''d'') ''projects/p/issues/101'' demo_requested)"

definition demo_overwritten :: issue_world where
  "demo_overwritten = snd (approve_write demo_approval_env (demo_ctx ''d'')
     (approve_read demo_approval_env (demo_ctx ''d'') ''projects/p/issues/101'' demo_requested) demo_rejected)"

lemma rejection_lost:
  "map (\<lambda>i. computeApprovalStatus (issue_Approval i)) (db_issues (iw_db demo_rejected)) = [REJECTED]
   \<and> map (\<lambda>i. computeApprovalStatus (issue_Approval i)) (db_issues (iw_db demo_overwritten)) = [APPROVED]"
  by code_simp

text \<open>A role without a name ends the flow: it reads as the end of the pending roles.\<close>
lemma unnamed_role_approves:
  "CheckApprovalApproved (Some \<lparr>approval_Template = Some (Some ([] # roles)), approval_Approvers = [], approval_FindingDone = True\<rparr>)
     = (Ok True :: (issue_reason, bool) outcome)
   \<and> computeApprovalStatus (Some \<lparr>approval_Template = Some (Some ([] # roles)), approval_Approvers = [], approval_FindingDone = True\<rparr>)
     = PENDING"
  by (simp add: CheckApprovalApproved_def FindRejectedRole_def FindNextPendingRole_def computeApprovalStatus_def flow_roles_def)

end
