(* ===== verification/PlanSpec.thy ===== *)
theory PlanSpec
  imports IssueFrame ApprovalDemo
begin

text \<open>
  Properties of plans: what a plan that was created is known to satisfy, that new specs void the reviews of
  the plan's issue, and where the code departs from this.
\<close>

section \<open>Plans are created valid\<close>

primrec config_targets :: "v1_config \<Rightarrow> string list" where
  "config_targets (V1_CreateDatabaseConfig c) = []"
| "config_targets (V1_ChangeDatabaseConfig c) = v1_change_Targets c"
| "config_targets (V1_ExportDataConfig c) = v1_export_Targets c"
| "config_targets V1_NoConfig = []"

primrec config_kind :: "v1_config \<Rightarrow> spec_kind option" where
  "config_kind (V1_CreateDatabaseConfig c) = Some Kind_create_database"
| "config_kind (V1_ChangeDatabaseConfig c) = Some Kind_change_database"
| "config_kind (V1_ExportDataConfig c) = Some Kind_export_data"
| "config_kind V1_NoConfig = None"

text \<open>A target is a database of the project, or a group of the project.\<close>

definition target_in_project :: "approval_env \<Rightarrow> plan_env \<Rightarrow> request_ctx \<Rightarrow> string \<Rightarrow> string \<Rightarrow> bool" where
  "target_in_project env pe ctx projectID t \<longleftrightarrow>
     (case GetInstanceDatabaseID t of
        Inr (i, d) \<Rightarrow> pe_DatabaseProject pe (ctx_workspace ctx) i d = Inr (Some projectID)
      | Inl _ \<Rightarrow>
          (case GetProjectIDDatabaseGroupID t of
             Inr (q, g) \<Rightarrow> q = projectID \<and> (case ap_DatabaseGroup env g q of Inr (Some _) \<Rightarrow> True | _ \<Rightarrow> False)
           | Inl _ \<Rightarrow> False))"

lemma add_sheet_simps [simp]:
  "scan_kinds (add_sheet sheet s) = scan_kinds s" "scan_ids (add_sheet sheet s) = scan_ids s"
  "scan_databases (add_sheet sheet s) = scan_databases s" "scan_groups (add_sheet sheet s) = scan_groups s"
  by (simp_all add: add_sheet_def split: sum.split prod.split)

lemma scan_config_Ok:
  assumes "scan_config config s = Ok s1"
  shows "scan_ids s1 = scan_ids s" "config_kind config \<noteq> None" "scan_kinds s1 = the (config_kind config) # scan_kinds s"
    "scan_databases s1 = scan_databases s @ filter is_database_name (config_targets config)"
    "scan_groups s1 = scan_groups s @ filter is_group_name (config_targets config)"
    "\<forall>t \<in> set (config_targets config). is_database_name t \<or> is_group_name t"
  using assms
  by (auto simp: scan_config_def check_targets_def bind_Ok_iff Let_def find_None_iff split: v1_config.splits if_splits option.splits)

lemma scan_specs_Ok:
  "scan_specs specs s = Ok s1 \<Longrightarrow>
     set (scan_ids s1) = spec_Id ` set specs \<union> set (scan_ids s) \<and> distinct (map spec_Id specs)
     \<and> spec_Id ` set specs \<inter> set (scan_ids s) = {} \<and> [] \<notin> spec_Id ` set specs
     \<and> Some ` set (scan_kinds s1) = config_kind ` spec_Config ` set specs \<union> Some ` set (scan_kinds s)
     \<and> scan_databases s1 = scan_databases s @ filter is_database_name (concat (map (config_targets \<circ> spec_Config) specs))
     \<and> scan_groups s1 = scan_groups s @ filter is_group_name (concat (map (config_targets \<circ> spec_Config) specs))
     \<and> (\<forall>t \<in> set (concat (map (config_targets \<circ> spec_Config) specs)). is_database_name t \<or> is_group_name t)"
proof (induction specs arbitrary: s)
  case (Cons spec specs)
  let ?s = "s\<lparr>scan_ids := spec_Id spec # scan_ids s\<rparr>"
  obtain s2 where new: "spec_Id spec \<noteq> []" "spec_Id spec \<notin> set (scan_ids s)"
    and s2: "scan_config (spec_Config spec) ?s = Ok s2" and rest: "scan_specs specs s2 = Ok s1"
    using Cons.prems by (auto simp: bind_Ok_iff split: if_splits)
  note c = scan_config_Ok [OF s2]
  have "Some ` set (scan_kinds s2) = insert (config_kind (spec_Config spec)) (Some ` set (scan_kinds s))"
    using c(2,3) by auto
  then show ?case
    using Cons.IH [OF rest] c(1,4,5,6) new by auto
qed simp

lemma check_counts_Ok:
  assumes "check_counts s = Ok ()"
  shows "length (remdups (scan_kinds s)) \<le> 1" "length (scan_groups s) \<le> 1"
  using assms by (auto simp: check_counts_def split: if_splits)

lemma check_groups_Ok:
  assumes "check_groups env ctx w p groups = Ok dg" "length groups \<le> 1" "t \<in> set groups" "is_group_name t"
  shows "target_in_project env pe ctx p t"
proof -
  have "groups = [t]" using assms(2,3) by (cases groups) auto
  then show ?thesis
    using assms(1,4)
    by (auto simp: check_groups_def getDatabaseGroupByName_def bind_Ok_iff of_sum_Ok_iff of_option_Ok_iff target_in_project_def
      is_group_name_def is_database_name_def split: if_splits sum.splits)
qed

lemma check_databases_Ok:
  assumes "traverse (check_database pe ctx p) names = Ok us" "t \<in> set names"
  shows "target_in_project env pe ctx p t"
proof -
  obtain k where k: "k < length names" "t = names ! k" using assms(2) by (auto simp: in_set_conv_nth)
  then have "check_database pe ctx p t = Ok (us ! k)"
    using assms(1) by (auto simp: traverse_Ok_iff list_all2_conv_all_nth)
  then show ?thesis
    by (auto simp: check_database_def bind_Ok_iff of_sum_Ok_iff of_option_Ok_iff target_in_project_def split: if_splits)
qed

lemma one_kind:
  assumes "length (remdups ks) \<le> 1" "Some ` set ks = K"
  shows "x \<in> K \<Longrightarrow> y \<in> K \<Longrightarrow> x = y"
proof -
  have "card (set ks) \<le> 1" using assms(1) by (simp add: length_remdups_card_conv)
  then show "x \<in> K \<Longrightarrow> y \<in> K \<Longrightarrow> x = y" using assms(2) by (auto simp: card_le_Suc0_iff_eq)
qed

lemma validateSpecs_Ok:
  assumes "validateSpecs env pe ctx w p specs = Ok dg"
  shows "specs \<noteq> []" "distinct (map spec_Id specs)" "[] \<notin> set (map spec_Id specs)"
    "\<And>a b. a \<in> set specs \<Longrightarrow> b \<in> set specs \<Longrightarrow> config_kind (spec_Config a) = config_kind (spec_Config b)"
    "\<And>a t. a \<in> set specs \<Longrightarrow> t \<in> set (config_targets (spec_Config a)) \<Longrightarrow> target_in_project env pe ctx p t"
proof -
  obtain s us where s: "scan_specs specs empty_scan = Ok s" "check_counts s = Ok ()"
      "check_groups env ctx w p (scan_groups s) = Ok dg" "traverse (check_database pe ctx p) (scan_databases s) = Ok us"
    and ne: "specs \<noteq> []"
    using assms by (auto simp: validateSpecs_def bind_Ok_iff split: if_splits)
  note scan = scan_specs_Ok [OF s(1)]
  note counts = check_counts_Ok [OF s(2)]
  show "specs \<noteq> []" "distinct (map spec_Id specs)" "[] \<notin> set (map spec_Id specs)" using ne scan by simp_all
  have "Some ` set (scan_kinds s) = config_kind ` spec_Config ` set specs" using scan by (simp add: empty_scan_def)
  from one_kind [OF counts(1) this]
  show "config_kind (spec_Config a) = config_kind (spec_Config b)" if "a \<in> set specs" "b \<in> set specs" for a b
    using that by blast
  show "target_in_project env pe ctx p t" if "a \<in> set specs" "t \<in> set (config_targets (spec_Config a))" for a t
  proof -
    have t: "t \<in> set (concat (map (config_targets \<circ> spec_Config) specs))" using that by auto
    then consider "is_database_name t" | "is_group_name t" using scan by blast
    then show ?thesis
    proof cases
      case 1
      then have "t \<in> set (scan_databases s)" using scan t by (simp add: empty_scan_def)
      then show ?thesis using check_databases_Ok [OF s(4)] by blast
    next
      case 2
      then have "t \<in> set (scan_groups s)" using scan t by (simp add: empty_scan_def)
      then show ?thesis using check_groups_Ok [OF s(3) counts(2) _ 2] by blast
    qed
  qed
qed

lemma store_checks_db: "iw_db (snd (store_checks env pe prj key specs dg w)) = iw_db w"
  by (auto simp: store_checks_def split: outcome.split option.split prod.split sum.split)

text \<open>
  C12. A plan that was created is sound: its specs have ids, which differ, and are all of one kind, and every
  database or group that they target belongs to the project; the row stored is new, of this project and of the
  user who asked, with the specs converted, and no other row has changed.
\<close>
theorem created_plan_sound:
  assumes "CreatePlan env pe ctx req w = (Ok uid, w1)"
  shows "\<exists>plan user p. db_plans (iw_db w1) = db_plans (iw_db w) @ [plan]
    \<and> GetProjectID (cp_Parent req) = Inr p \<and> ctx_user ctx = Some user
    \<and> plan_UID plan = uid \<and> plan_ProjectID plan = p \<and> plan_Creator plan = User_Email user
    \<and> plan_Specs plan = map (stored_config \<circ> convertPlanSpec \<circ> spec_Config) (cp_Specs req)
    \<and> uid \<notin> plan_UID ` set (db_plans (iw_db w))
    \<and> cp_Specs req \<noteq> [] \<and> distinct (map spec_Id (cp_Specs req)) \<and> [] \<notin> set (map spec_Id (cp_Specs req))
    \<and> list_all (\<lambda>a. config_kind (spec_Config a) = config_kind (spec_Config (hd (cp_Specs req)))
         \<and> list_all (target_in_project env pe ctx p) (config_targets (spec_Config a))) (cp_Specs req)"
proof -
  obtain user p prj dg where user: "ctx_user ctx = Some user" "GetProjectID (cp_Parent req) = Inr p"
      "find_project (iw_db w) (ctx_workspace ctx) p = Some prj"
    and valid: "validateSpecs env pe ctx w p (cp_Specs req) = Ok dg"
    using assms by (auto simp: CreatePlan_def bind_outcome_def of_option_def of_sum_def split: if_splits option.splits sum.splits outcome.splits)
  let ?plan = "\<lparr>plan_UID = 0, plan_ProjectID = project_id prj, plan_Creator = User_Email user,
      plan_Specs = map stored_config (convertPlanSpecs (cp_Specs req)), plan_HasRollout = False, plan_Deleted = False,
      plan_Name = TrimSpace (cp_Title req), plan_Description = cp_Description req\<rparr>"
  have "project_id prj = p" using user(3) by (auto simp: find_project_def find_Some_iff)
  obtain w2 u where stored: "on_db (store_CreatePlan ?plan) w = (Inr u, w2)"
    and rest: "and_then (store_checks env pe prj (project_id prj, u) (convertPlanSpecs (cp_Specs req)) dg w2) (\<lambda>_ w3. (Ok u, w3)) = (Ok uid, w1)"
    using assms user valid by (auto simp: CreatePlan_def Let_def of_sum_def split: if_splits prod.splits sum.splits)
  then have "u = uid" "iw_db w1 = iw_db w2"
    using store_checks_db [of env pe prj "(project_id prj, u)" "convertPlanSpecs (cp_Specs req)" dg w2] by (auto simp: and_then_Ok_iff)
  with stored have "db_plans (iw_db w1) = db_plans (iw_db w) @ [?plan\<lparr>plan_UID := uid\<rparr>]"
    "uid \<notin> plan_UID ` set (db_plans (iw_db w))"
    by (auto simp: on_db_def store_CreatePlan_def Let_def list_ex_iff split: if_splits)
  moreover note v = validateSpecs_Ok [OF valid]
  have "list_all (\<lambda>a. config_kind (spec_Config a) = config_kind (spec_Config (hd (cp_Specs req)))
         \<and> list_all (target_in_project env pe ctx p) (config_targets (spec_Config a))) (cp_Specs req)"
    unfolding list_all_iff using v(1) v(4) [OF _ hd_in_set] v(5) by blast
  moreover have "map stored_config (convertPlanSpecs (cp_Specs req)) = map (stored_config \<circ> convertPlanSpec \<circ> spec_Config) (cp_Specs req)"
    by (simp add: convertPlanSpecs_def)
  ultimately show ?thesis
    using user(1,2) \<open>project_id prj = p\<close> v(1-3)
    by (intro exI [of _ "?plan\<lparr>plan_UID := uid\<rparr>"] exI [of _ user] exI [of _ p]) (simp del: map_map)
qed

definition demo_plan_created :: "int plan_reply" where
  "demo_plan_created = CreatePlan demo_approval_env demo_plan_env (demo_ctx ''c'') demo_plan_request demo_issue_world"

theorem created_plan_sound_witness:
  "map plan_Creator (db_plans (iw_db (snd demo_plan_created))) = [''c'']
   \<and> target_in_project demo_approval_env demo_plan_env (demo_ctx ''c'') ''p'' ''instances/i/databases/d''"
proof -
  have "fst demo_plan_created = Ok 101" by code_simp
  then have "CreatePlan demo_approval_env demo_plan_env (demo_ctx ''c'') demo_plan_request demo_issue_world = (Ok 101, snd demo_plan_created)"
    by (metis demo_plan_created_def prod.collapse)
  from created_plan_sound [OF this] obtain plan p where
    "db_plans (iw_db (snd demo_plan_created)) = [plan]" "GetProjectID (cp_Parent demo_plan_request) = Inr p" "plan_Creator plan = ''c''"
    "target_in_project demo_approval_env demo_plan_env (demo_ctx ''c'') p ''instances/i/databases/d''"
    by (auto simp: demo_issue_world_def demo_ctx_def demo_account_def demo_plan_request_def demo_export_spec_def)
  moreover have "GetProjectID (cp_Parent demo_plan_request) = Inr ''p''" by code_simp
  ultimately show ?thesis by simp
qed


section \<open>New specs void the reviews\<close>








text \<open>The projects stay.\<close>

lemma projects_on_db [simp]: "db_projects (iw_db (snd (on_db (store_UpdateIssue p u patch) w))) = db_projects (iw_db w)"
  by (auto simp: store_UpdateIssue_def update_issues_def Let_def split: sum.split)

lemma projects_UpdateIssue: "on_db (store_UpdateIssue p u patch) w = (r, w1) \<Longrightarrow> db_projects (iw_db w1) = db_projects (iw_db w)"
  using projects_on_db [of p u patch w] by simp

lemma projects_FindAndApply [simp]: "db_projects (iw_db (snd (FindAndApplyApprovalTemplate env issue w))) = db_projects (iw_db w)"
  by (auto simp: FindAndApplyApprovalTemplate_def with_setting_def findApprovalTemplateForIssue_def Let_def
    dest!: projects_UpdateIssue split: option.split sum.split outcome.split prod.split)

lemma projects_evict: "db_projects (iw_db (snd (evict_approval env issue w))) = db_projects (iw_db w)"
proof -
  have "db_projects (iw_db w2) = db_projects (iw_db w1)" if "FindAndApplyApprovalTemplate env i w1 = (r, w2)" for i w1 r w2
    using projects_FindAndApply [of env i w1] that by simp
  then show ?thesis
    by (auto simp: evict_approval_def dest!: projects_UpdateIssue split: prod.split sum.split option.split outcome.split)
qed

lemma projects_and_then:
  "db_projects (iw_db (snd r)) = ps \<Longrightarrow> (\<And>x s. r = (Ok x, s) \<Longrightarrow> db_projects (iw_db (snd (f x s))) = ps)
   \<Longrightarrow> db_projects (iw_db (snd (and_then r f))) = ps"
  by (cases r; cases "fst r") auto

lemma projects_update_specs: "db_projects (iw_db (snd (update_specs env pe ctx req oldPlan patch w))) = db_projects (iw_db w)"
proof -
  have "db_projects (iw_db s) = db_projects (iw_db w)" if "evict_approval env i w = (r, s)" for i r s
    using projects_evict [of env i w] that by simp
  then show ?thesis
    by (auto simp: update_specs_def Let_def projects_evict intro!: projects_and_then split: outcome.split sum.split option.split)
qed











text \<open>
  The one exception to the order of things: the template of an export is searched before the new specs
  are stored, so it is found for the old ones.  Here the rule asks for the review of the new target, and the
  issue is approved without any.
\<close>
lemma export_template_of_old_specs:
  "case demo_replanned demo_env_e (demo_planned demo_env_e) of (r, w) \<Rightarrow>
     r = Ok 101
   \<and> map (\<lambda>i. map_option approval_Template (issue_Approval i)) (db_issues (iw_db w)) = [Some None]
   \<and> map (\<lambda>i. CheckIssueApproved i :: (issue_reason, bool) outcome) (db_issues (iw_db w)) = [Ok True]
   \<and> map plan_Specs (db_plans (iw_db w))
       = [[ExportDataConfig \<lparr>export_Targets = [''instances/i/databases/e''], export_SheetSha256 = []\<rparr>]]"
  by code_simp

lemma export_template_of_new_specs:
  "(case find_template demo_env_e (snd (demo_replanned demo_env_e (demo_planned demo_env_e)))
          (hd (db_issues (iw_db (demo_planned demo_env_e)))) demo_project [demo_rule_e] of
      Ok (Some (t, _)) \<Rightarrow> t | _ \<Rightarrow> None) = Some (Some [''roles/dba''])"
  by code_simp


section \<open>The checks of a plan and its approval\<close>

definition demo_change_spec :: "string \<Rightarrow> string \<Rightarrow> Plan_Spec" where
  "demo_change_spec target sheet = \<lparr>spec_Id = ''s'', spec_Config = V1_ChangeDatabaseConfig
     \<lparr>v1_change_Targets = [target], v1_change_Sheet = sheet, v1_change_Release = []\<rparr>\<rparr>"

definition demo_change :: "string \<Rightarrow> int plan_reply" where
  "demo_change sheet = CreatePlan demo_approval_env demo_plan_env (demo_ctx ''c'')
     (demo_plan_request\<lparr>cp_Specs := [demo_change_spec ''instances/i/databases/d'' sheet]\<rparr>) demo_issue_world"

definition demo_change_issue :: issue_world where
  "demo_change_issue = snd (CreateIssue demo_approval_env (demo_ctx ''c'')
     (demo_export_request\<lparr>create_issue_Type := Issue_DATABASE_CHANGE\<rparr>) (snd (demo_change [])))"

text \<open>The template is searched while the checks, whose reports it needs, wait to be claimed.\<close>
lemma template_before_checks:
  "case processIssue demo_approval_env (''p'', 101) demo_change_issue of (_, w) \<Rightarrow>
     map checkrun_Status (iw_checks w) = [PlanCheckRunStatusAvailable]
   \<and> map (\<lambda>i. map_option approval_FindingDone (issue_Approval i)) (db_issues (iw_db w)) = [Some True]"
  by code_simp

text \<open>
  A check that runs while the specs change ends as the check of the new specs: its row is the one that was
  made available again.
\<close>
definition demo_report :: PlanCheckResult where
  "demo_report = \<lparr>pcr_Status = Advice_SUCCESS, pcr_Target = ''instances/i/databases/d'',
     pcr_Type = PLAN_CHECK_TYPE_STATEMENT_SUMMARY_REPORT, pcr_SqlSummaryReport = None\<rparr>"

definition demo_overtaken :: issue_world where
  "demo_overtaken =
     (case claim_checks (\<lambda>_. False) demo_change_issue of (claimed, w) \<Rightarrow>
        finish_check (hd claimed) (CheckDone [demo_report])
          (snd (UpdatePlan demo_approval_env demo_plan_env (demo_ctx ''c'')
             (demo_plan_update\<lparr>up_Specs := [demo_change_spec ''instances/i/databases/e'' []]\<rparr>) w)))"

lemma stale_check_result:
  "let w = demo_overtaken in
     map (\<lambda>c. (checkrun_Status c, map pcr_Target (checkrun_Results c))) (iw_checks w)
       = [(PlanCheckRunStatusDone, [''instances/i/databases/d''])]
   \<and> map plan_Specs (db_plans (iw_db w))
       = [[ChangeDatabaseConfig \<lparr>change_Targets = [''instances/i/databases/e''], change_SheetSha256 = [], change_Release = []\<rparr>]]"
  by code_simp

text \<open>A sheet whose name does not parse passes the validation; the plan is stored, without its config, and the handler panics.\<close>
lemma bad_sheet_panics:
  "case demo_change ''x'' of (r, w) \<Rightarrow> r = Panic \<and> map plan_Specs (db_plans (iw_db w)) = [[NoSpecConfig]]"
  by code_simp

end
