(* ===== verification/GrantSpec.thy ===== *)
theory GrantSpec
  imports IssueFrame ApprovalDemo
begin

text \<open>
  Properties of what approvals give: the choice of the template by the rules of the workspace, the effect of
  a refused approval, the role that an approved request grants, and the grants a query may run under.
\<close>

section \<open>The choice of a template\<close>









section \<open>A refused approval\<close>

lemma at_most_one_Inl: "at_most_one e xs = Inl x \<longleftrightarrow> 2 \<le> length xs \<and> x = e (length xs)"
  by (auto simp: at_most_one_def split: list.split)

lemma at_most_one_many [simp]: "2 \<le> length xs \<Longrightarrow> at_most_one e xs = Inl (e (length xs))"
  by (simp add: at_most_one_Inl)







section \<open>The grant of a role\<close>

definition members_at :: "string \<Rightarrow> string \<Rightarrow> Binding list \<Rightarrow> string set" where
  "members_at role expr bs =
     \<Union> (set (map (\<lambda>b. set (Binding_Members b)) (filter (\<lambda>b. Binding_Role b = role \<and> GetExpression (Binding_Condition b) = expr) bs)))"

lemma members_at_simps [simp]:
  "members_at role expr [] = {}"
  "members_at role expr (b # bs) =
     (if Binding_Role b = role \<and> GetExpression (Binding_Condition b) = expr then set (Binding_Members b) else {}) \<union> members_at role expr bs"
  "members_at role expr (bs @ cs) = members_at role expr bs \<union> members_at role expr cs"
  by (auto simp: members_at_def)

lemma members_add_member:
  "add_member r x m bs = Some bs1 \<Longrightarrow> members_at role expr bs1
     = (if role = r \<and> expr = x then insert m (members_at role expr bs) else members_at role expr bs)"
  by (induction bs arbitrary: bs1) (auto split: if_splits)

lemma members_grant_bindings:
  "members_at role expr (grant_bindings g uid m bs)
     = (if role = grant_Role g \<and> expr = GetExpression (grant_Condition g) then insert m (members_at role expr bs) else members_at role expr bs)"
  by (auto simp: grant_bindings_def Let_def members_add_member GetExpression_def split: option.split)

text \<open>
  C14. What an approved request for a role gives, on the policy seen as the set of members for each role and
  condition: the user of the request becomes a member of the role under the condition that was asked for,
  and of nothing else; no other user, role or condition, no other project, and nothing else of the world
  changes.
\<close>
theorem role_grant_effect:
  assumes "UpdateProjectPolicyFromRoleGrantIssue env ws issue w = (Ok (), w1)"
  shows "\<exists>grant email user bs.
    issue_RoleGrant issue = Some grant \<and> extractEmailFromUserIdentifier (grant_User grant) = Some email
    \<and> ap_GetUserByEmail env email = Inr (Some user)
    \<and> w1 = w\<lparr>iw_policies := (iw_policies w)((ws, issue_ProjectID issue) \<mapsto> \<lparr>IamPolicy_Bindings = bs\<rparr>)\<rparr>
    \<and> (\<forall>role expr. members_at role expr bs =
         (if role = grant_Role grant \<and> expr = GetExpression (grant_Condition grant)
          then insert (formatMemberNameByType user) (members_at role expr (IamPolicy_Bindings (GetProjectIamPolicy w ws (issue_ProjectID issue))))
          else members_at role expr (IamPolicy_Bindings (GetProjectIamPolicy w ws (issue_ProjectID issue)))))"
  using assms
  by (auto simp: UpdateProjectPolicyFromRoleGrantIssue_def members_grant_bindings split: option.splits sum.splits if_splits)

definition demo_granted :: issue_world where
  "demo_granted = snd (UpdateProjectPolicyFromRoleGrantIssue demo_approval_env ''w'' (hd (db_issues (iw_db demo_requested))) demo_requested)"

theorem role_grant_effect_witness:
  "\<exists>bs. iw_policies demo_granted (''w'', ''p'') = Some \<lparr>IamPolicy_Bindings = bs\<rparr>
     \<and> members_at ''roles/dev'' [] bs = {''users/c''} \<and> members_at ''roles/dba'' [] bs = {''users/d''}"
proof -
  let ?i = "hd (db_issues (iw_db demo_requested))"
  have "fst (UpdateProjectPolicyFromRoleGrantIssue demo_approval_env ''w'' ?i demo_requested) = Ok ()" by code_simp
  then have ok: "UpdateProjectPolicyFromRoleGrantIssue demo_approval_env ''w'' ?i demo_requested = (Ok (), demo_granted)"
    by (metis demo_granted_def prod.collapse)
  have eval: "issue_RoleGrant ?i = Some demo_grant" "issue_ProjectID ?i = ''p''"
    "extractEmailFromUserIdentifier (grant_User demo_grant) = Some ''c''"
    "GetProjectIamPolicy demo_requested ''w'' ''p''
       = \<lparr>IamPolicy_Bindings = [\<lparr>Binding_Role = ''roles/dba'', Binding_Members = [''users/d''], Binding_Condition = None\<rparr>]\<rparr>"
    "formatMemberNameByType (demo_account ''c'') = ''users/c''"
    by code_simp+
  from role_grant_effect [OF ok] obtain bs where
    world: "demo_granted = demo_requested\<lparr>iw_policies := (iw_policies demo_requested)((''w'', ''p'') \<mapsto> \<lparr>IamPolicy_Bindings = bs\<rparr>)\<rparr>"
    and members: "\<And>role expr. members_at role expr bs =
         (if role = grant_Role demo_grant \<and> expr = GetExpression (grant_Condition demo_grant)
          then insert ''users/c'' (members_at role expr (IamPolicy_Bindings (GetProjectIamPolicy demo_requested ''w'' ''p'')))
          else members_at role expr (IamPolicy_Bindings (GetProjectIamPolicy demo_requested ''w'' ''p'')))"
    using eval by (auto simp: demo_approval_env_def)
  have "iw_policies demo_granted (''w'', ''p'') = Some \<lparr>IamPolicy_Bindings = bs\<rparr>" by (simp add: world)
  moreover have "members_at ''roles/dev'' [] bs = {''users/c''} \<and> members_at ''roles/dba'' [] bs = {''users/d''}"
    by (simp add: members eval(4) demo_grant_def GetExpression_def)
  ultimately show ?thesis by blast
qed


section \<open>Grants of access\<close>









text \<open>Access asked for and approved, used, and revoked.\<close>

definition demo_access_request :: CreateAccessGrantRequest where
  "demo_access_request = \<lparr>cag_Parent = ''projects/p'', cag_Creator = ''users/c'', cag_Targets = [''instances/i/databases/d''],
     cag_Query = ''SELECT 1'', cag_Unmask = True, cag_Reason = ''r'', cag_Expiration = Ttl (Some 5000000000)\<rparr>"

definition demo_access_requested :: issue_world where
  "demo_access_requested = snd (CreateAccessGrant demo_approval_env demo_instance_env (demo_ctx ''c'') ''g'' demo_access_request demo_issue_world)"

definition demo_access_approved :: issue_world where
  "demo_access_approved = snd (ApproveIssue demo_approval_env (demo_ctx ''d'') ''projects/p/issues/101'' demo_access_requested)"

definition demo_access_revoked :: issue_world where
  "demo_access_revoked = snd (RevokeAccessGrant demo_approval_env (demo_ctx ''d'') ''projects/p/accessGrants/g'' demo_access_approved)"

lemma demo_access_used:
  "map_option ag_ID (preCheckAccess (demo_ctx ''c'') '' SELECT 1'' demo_database demo_access_requested) = None
   \<and> map_option ag_ID (preCheckAccess (demo_ctx ''c'') '' SELECT 1'' demo_database demo_access_approved) = Some ''g''
   \<and> map_option ag_ID (preCheckAccess (demo_ctx ''c'') ''SELECT 2'' demo_database demo_access_approved) = None
   \<and> map_option ag_ID (preCheckAccess ((demo_ctx ''c'')\<lparr>ctx_now := 6000000000\<rparr>) ''SELECT 1'' demo_database demo_access_approved) = None
   \<and> map_option ag_ID (preCheckAccess (demo_ctx ''c'') ''SELECT 1'' demo_database demo_access_revoked) = None"
  by code_simp

text \<open>A revoked grant can be activated again.\<close>
lemma revoked_grant_reactivated:
  "(case ActivateAccessGrant demo_approval_env (demo_ctx ''d'') ''projects/p/accessGrants/g'' demo_access_revoked of
      (Ok g, w) \<Rightarrow> ag_Status g = AccessGrant_ACTIVE \<and> map_option ag_ID (preCheckAccess (demo_ctx ''c'') ''SELECT 1'' demo_database w) = Some ''g''
    | _ \<Rightarrow> False)"
  by code_simp

text \<open>A grant with a duration that is activated by hand has no time of expiry, and lets no query run.\<close>
lemma manual_activation_unusable:
  "(case ActivateAccessGrant demo_approval_env (demo_ctx ''d'') ''projects/p/accessGrants/g'' demo_access_requested of
      (Ok g, w) \<Rightarrow> ag_Status g = AccessGrant_ACTIVE \<and> ag_ExpireTime g = None
        \<and> preCheckAccess (demo_ctx ''c'') ''SELECT 1'' demo_database w = None
    | _ \<Rightarrow> False)"
  by code_simp




end
