(* ===== verification/Spec2Isabelle.thy ===== *)
theory Spec2Isabelle
  imports DiffSpec PgSearcher ChangedResources Version StoreProps Engine
    MaskerSpec TopoSort CircuitBreaker Resilience DocumentSpec
    ResourceNameSpec AccessSpec RoleStoreSpec ResultMaskerSpec
    TaskServiceSpec ApprovalSpec PlanSpec GrantSpec
begin

text \<open>
  A verification development for Bytebase (\<^verbatim>\<open>src/backend\<close>, in Go): the model of a database schema
  that the server keeps, the differ that compares two schemas and yields the changes a migration is
  generated from, the masking of query results, the checks a request passes, the plans
  of changes with their review and approval, the schedulers that run the tasks of a
  rollout, and the helpers that keep the server running when what it calls fails.

  \<^bold>\<open>The program.\<close>  A synced or parsed schema is a tree of protocol buffer messages
  (\<^verbatim>\<open>proto/store/store/database.proto\<close>).  \<^verbatim>\<open>backend/store/model\<close> wraps it: each level (database,
  schema, table) keeps maps from normalized names to the wrappers or messages below it; on these
  maps rest the lookups, the searches along the PostgreSQL search path, and the mutators that the
  schema simulation of the SQL review calls.  \<^verbatim>\<open>backend/plugin/schema/differ.go\<close> compares two wrapped
  databases, level by level, with comparers chosen by engine, and sorts what it found.  The result
  does not depend on the order in which Go visits its maps, and that is proved here.

  Every request first meets the interceptor of \<^verbatim>\<open>api/v1/acl.go\<close>: by the method's options it collects
  the resource names of the request, resolves them to projects and asks \<^verbatim>\<open>component/iam\<close> whether a binding
  of the workspace's or a project's policy gives the user a role with the permission.  Names are parsed
  by \<^verbatim>\<open>common/resource_name.go\<close>; roles and their permissions come from the store's cached table.

  A query runs through \<^verbatim>\<open>backend/api/v1\<close>: the span of the query (\<^verbatim>\<open>plugin/parser/base/span.go\<close>) says
  which columns or documents each result comes from, and the maskers of \<^verbatim>\<open>component/masker\<close> rewrite the
  cells: for each column of the result the masking evaluator finds a semantic type by the workspace's
  rules, the catalog and the user's exemptions; for Elasticsearch and CosmosDB the JSON documents are
  walked along the schema of their collection.  \<^verbatim>\<open>common/resilience\<close> guards the calls of the store and of
  external services.

  A change is proposed as a plan (\<^verbatim>\<open>api/v1/plan_service.go\<close>), whose specs name databases and statements,
  and reviewed as an issue (\<^verbatim>\<open>api/v1/issue_service.go\<close>); requests for a role and for access to data are
  issues too.  The approval runner (\<^verbatim>\<open>runner/approval\<close>) finds the template of the review by the rules of
  the workspace, from the reports of the plan's checks (\<^verbatim>\<open>runner/plancheck\<close>) among others.  Reviewers
  approve step by step, each with the role of the step.  The last approval requests the rollout, grants
  the role, or activates the access grant under which a query may then run; new
  specs start the review anew.

  A plan is rolled out as tasks, and a task is run as task runs.  \<^verbatim>\<open>api/v1/rollout_service.go\<close> and the
  rollout creator write the tasks and, on request, pending runs; the replicas of the server share the
  tables.  One replica at a time, under an advisory lock, promotes pending runs to available ones,
  within the limit of the project and one release per database; every replica claims available runs,
  runs their executors and stores the outcome; failures and the completion of a plan are announced
  once, through a claimed row.

  \<^bold>\<open>Theories and sources.\<close>

  \<^item> Prelude: Go's maps as association lists with distinct keys, the order in which \<open>range\<close> visits
    them as a parameter (any permutation), \<open>slices.SortFunc\<close>, fixed-width integers, \<open>float64\<close>
    compared as Go does.  GoStrings: the functions of package \<^verbatim>\<open>strings\<close> the code uses.
  \<^item> SchemaProto: the messages, field for field.  Engine: \<^verbatim>\<open>common/engine.go\<close>.
  \<^item> SearchPath: \<^verbatim>\<open>store/model/pg_search_path.go\<close>.  SchemaModel: construction and lookups of
    \<^verbatim>\<open>store/model/{database,schema_metadata,table_metadata}.go\<close>.  PgSearcher, ChangedResources,
    Version: the files of these names in \<^verbatim>\<open>store/model\<close>.
  \<^item> SchemaStore: the mutators of the same three files, over an explicit store, since they rely on a
    message being shared between the list of its parent and the parent's map.  StoreSpec: their
    contract, as locales, interpreted for columns, indexes, tables, views and materialized views.
    StoreProps: the refinement of the mutators to operations on lists of names, sequences of them as a
    step relation, what dropping and renaming a column does.
  \<^item> Comparers: \<^verbatim>\<open>plugin/schema/{expression,index,function,view}_comparer.go\<close>.
  \<^item> DiffNormalize, DiffEqual, DiffTypes, DiffTable, DiffObjects, DiffSort, DiffTop: \<^verbatim>\<open>differ.go\<close> in
    the order of its parts: normalizations, equality tests, the types of the diff, the comparison of
    tables, of the other objects, the sorting, the entry points.
  \<^item> GoRunes: texts as runes, UTF-8, decimal printing.  Masker, MaskerSpec: \<^verbatim>\<open>component/masker/masker.go\<close>,
    the maskers as a datatype with \<open>Mask\<close> by recursion on the value, and what each of them may show.
  \<^item> Outcome: results of functions that may panic, fail or return, with their sequencing.  QuerySpan:
    \<^verbatim>\<open>plugin/parser/base/{span,json_path,document_analysis}.go\<close>.  DocumentMasking, DocumentSpec:
    \<^verbatim>\<open>api/v1/document_masking.go\<close>, JSON values as a datatype, and its properties.
  \<^item> TopoSort: \<^verbatim>\<open>plugin/parser/base/topo_sort.go\<close>, the sort with its queue, and its correctness.
  \<^item> CircuitBreaker: \<^verbatim>\<open>component/circuitbreaker/breaker.go\<close>; Resilience:
    \<^verbatim>\<open>common/resilience/{circuit_breaker,bulkhead,retry}.go\<close>; a breaker is a
    state with its counters, its operations are the steps of an inductive relation.
  \<^item> Strconv: the functions of \<^verbatim>\<open>strconv\<close> and \<^verbatim>\<open>net/url\<close> the names use.  ResourceName, ResourceNameSpec:
    \<^verbatim>\<open>common/{resource_name,resource_ref}.go\<close>, one definition per formatter and parser; which names the
    parsers accept, the round trip of task runs.
  \<^item> IAM: \<^verbatim>\<open>component/iam/manager.go\<close>, \<^verbatim>\<open>utils/member.go\<close>, and the binding conditions.  ACL:
    \<^verbatim>\<open>api/v1/{acl,acl_extractors}.go\<close>, requests as trees of named fields as reflection sees them.
    AccessSpec: what the manager grants, what a request that passed satisfies, the gaps.
  \<^item> Roles: \<^verbatim>\<open>common/permission\<close>, the predefined roles, and \<^verbatim>\<open>store/role.go\<close> over a state of table and
    cache.  RoleStoreSpec: its operations and evictions as a step relation, coherence as its invariant.
  \<^item> MaskingEvaluator: \<^verbatim>\<open>api/v1/masking_evaluator.go\<close>.  QueryResult: results as the drivers return
    them.  ResultMasker: \<^verbatim>\<open>api/v1/query_result_masker.go\<close> and \<^verbatim>\<open>predicate_columns_check.go\<close>, from the span of
    a query to the maskers of its columns and the masked result.  ResultMaskerSpec: which cells are
    masked and by what, when an error is redacted, which predicates are refused.
  \<^item> TaskStore: the tables of plans, tasks, task runs, plan checks, deliveries and heartbeats as lists
    with the constraints of the migrations, and the statements of
    \<^verbatim>\<open>store/{task,task_run,plan,issue,plan_webhook_delivery,replica_heartbeat}.go\<close> on them.
    TaskScheduler: \<^verbatim>\<open>runner/taskrun\<close> and \<^verbatim>\<open>runner/leader/task_recovery.go\<close>, functions on a world of tables,
    events sent, completion requests and goroutines.  TaskRunSpec: the step relation, each access to
    the tables or pass of a loop one step, and the invariants; TaskRunProps: exclusion, limit,
    notifications.  TaskService, TaskServiceSpec: \<^verbatim>\<open>api/v1/rollout_service.go\<close>, the approval check and
    \<^verbatim>\<open>rollout_creator.go\<close>: who may run, skip and cancel tasks, when a rollout is created.
  \<^item> ApprovalRules: \<^verbatim>\<open>common/risk.go\<close>, the attributes and the search of the rules in
    \<^verbatim>\<open>runner/approval/runner.go\<close>, the factors of \<^verbatim>\<open>common/cel.go\<close>.  IssueStore: the statements of
    \<^verbatim>\<open>store/{issue,plan_check_run,access_grant,policy}.go\<close>, on a world that adds their tables and the requests
    sent over the bus to the tables of TaskStore.  ApprovalRunner: the rest of the runner.
  \<^item> IssueService: approving, rejecting and requesting again in
    \<^verbatim>\<open>api/v1/issue_service_lifecycle.go\<close>, each split into what it reads and decides and what it writes, so that
    other requests may come between; the status an issue shows; what follows the last approval.
    IssueRequests: creating and changing issues, access grants, \<^verbatim>\<open>sql_service_access.go\<close>.  PlanService:
    \<^verbatim>\<open>api/v1/{plan_service,plan_service_spec}.go\<close>, \<^verbatim>\<open>runner/plancheck/{derive,scheduler}.go\<close>.
  \<^item> IssueFrame: for each handler, that it keeps the approvals or leaves one without entries.
    ApprovalSpec: histories of handlers, reviews that write on a later world than they read, background
    steps; their invariants.  PlanSpec: validity of created plans, new specs.  GrantSpec: the choice of a
    template, what an approval grants, which queries a grant covers.  ApprovalDemo: the small workspace
    on which these are evaluated.
  \<^item> DiffSelf, DiffOrder, DiffSpec: a database compared with itself, independence of the order of
    iteration, and the properties of the differ.

  \<^bold>\<open>What the lemmas show.\<close>  For the differ: the changes do not depend on the order of iteration; a
  table is left out exactly when all its parts agree; a database compared with itself gives the empty
  diff; schemas are created and dropped exactly where the sides differ; the output is sorted; the
  panics of the check constraint comparison are characterized.  For the mutators: a table or schema is,
  seen from outside, a list of distinct normalized names on which each operation does the obvious, or
  fails exactly when the obvious is impossible; the invariant between list and map holds after any
  sequence of operations on a table.  For masking: which characters a masker leaves, which fields of a
  document come through a mask and which do not, and that masking a document does not panic; a column
  is masked exactly when a rule or the catalog gives it a type with a masker and no exemption holds,
  every cell of it then, and the order of the source columns does not matter.  For task runs: in every
  reachable state two active runs of releases on one database are one, a plan has no more active runs
  than its limit, between two requests to run a plan at most one notification of it goes out, the completion only if
  every task is done or skipped; runs are created only for approved issues and permitted users.  For
  approvals: in every history an approved issue has for each step an entry of a user who held the role
  when the review was decided, and who is not its creator where the project forbids that; the status shown
  and the test of the rollout agree; new specs leave no entry; a refused approval changes nothing; the
  template is that of the first rule that applies; an approved role request gives one user one role under one
  condition; a query runs under a grant exactly when the store has a fitting one.  For
  resilience: the invariant of the breaker, the calls a retry makes.  For access control: permission is
  granted exactly when a live binding covers the user with a role that has it (on the workspace or on
  every project asked for), a request let through was allowed without a check or passed one, the cached
  role is the stored one on a single server, each predefined role includes the one below it.  For names: a
  parsed name is exactly its printed segments.  For the rest: round trips of names and versions, the first
  match of a search, what is recorded of changed tables.  Some properties state where the code falls
  short; they are marked so in their text.

  \<^bold>\<open>Conventions.\<close>  A \<^verbatim>\<open>nil\<close> message or missing map entry is \<open>None\<close>; a panic is \<open>None\<close> of an outer
  option; an \<^verbatim>\<open>error\<close> is \<open>Inl\<close>.  Strings are lists of bytes; case folding is that of ASCII, where
  \<open>ToLower\<close> and \<open>EqualFold\<close> agree.  The order of iteration is one function for each \<open>range\<close> statement;
  theorems hold for all of them.  \<open>SortFunc\<close> is the insertion sort Go uses up to twelve elements; the
  facts used of it are that it permutes and, for a comparison that is an order, sorts, so they hold of
  Go's sort at any length (only the order of column changes, whose comparison is no order, depends on
  the algorithm).  All recursion is over the data, so that no fuel is needed; the few loops that are
  not structural are \<open>function\<close>s with a measure.  In the store, an object passed to a mutator is placed
  at a fresh reference.

  \<^bold>\<open>Parameters.\<close>  What is not under the repository's own code is an argument of the definitions that
  use it: MD5, the printing of floating point numbers and times, the decoding and encoding of JSON and
  the quoting of its strings (\<open>doc_env\<close>), the store's lookups, the clock, the random delay of a retry.
  Access control takes its own as a record \<open>access_env\<close>: the policies, projects, roles and groups the
  store returns or fails with, the evaluation of a CEL expression, the time (read once per call), Go's
  \<^verbatim>\<open>%q\<close>, the rendering of a message in an error.  The masker of results takes as \<open>result_env\<close> the
  store's queries, the CEL programs of rules and exemptions and the orders of iteration; the schedulers
  take the replica's name and the cached lookup of databases, the services the access environment, the
  policies and the function that turns the specs of a plan into tasks.  What an executor returns is an
  argument of the step that stores it.  The approval of issues takes as \<open>approval_env\<close> the settings, databases,
  groups and sheets, the licence and the CEL library, as \<open>plan_env\<close> the existence of what specs name, as
  \<open>instance_env\<close> the instances, and per request a \<open>request_ctx\<close> with workspace, user and time; a handler
  whose writes depend on reads of other rows than the approval is one step.  The pending round holds the advisory lock: a second round does
  not start before it ends, while claims, requests and completions of other replicas interleave with it.  The JSON of a role's permissions is taken to decode to
  what was encoded; the cache may drop an entry at any step.
  The number of attempts of a retry is bounded by \<open>MaxInt\<close>, a hypothesis of its theorem; the delays
  themselves are \<^verbatim>\<open>float64\<close> arithmetic and are left out.

  \<^bold>\<open>Not modelled.\<close>  The parts of the diff types that hold parse trees; the engine plugins and parsers
  (generated ANTLR code); drivers; the executors of tasks and checks and the other runners; the store's SQL beyond tasks, plans, issues,
  checks, grants and roles; the services of \<^verbatim>\<open>api/v1\<close> beyond masking, rollouts, issues, plans, access grants and the interceptor, and
  of these the lists, searches, comments and the conversion of responses; the payload of notifications; the
  periodic failing of stale plan checks;
  \<^verbatim>\<open>service_breaker.go\<close> (a wrapper of a third-party breaker), the rate limiter, the web front end.  The
  manifest lists the components with the reason for each.
\<close>

end
